(* ===== verification/Prelude.thy ===== *)
theory Prelude
  imports Main "HOL-Library.Word" "HOL-Library.List_Lexorder" "HOL-Library.Sublist"
begin

text \<open>
  The vocabulary shared by every component.

  \<^item> Python exceptions are values: \<open>Exn c m\<close> is an exception of class \<open>c\<close> whose message is
    \<open>m\<close>, with the values the message interpolates left out (a message without interpolation
    is complete); arguments that only label messages are left out too. A function that may raise returns \<open>'a result\<close>, \<open>Inl\<close> of the exception or
    \<open>Inr\<close> of the value; \<open>bindE\<close> runs the next statement only when nothing was raised, and
    \<open>mapE\<close>/\<open>mapE_from\<close> are the list comprehensions (with \<open>enumerate\<close>) whose body may raise.
  \<^item> A Python \<open>str\<close> is the list of its code points (\<open>pystr\<close>), so \<open>length\<close> and slicing count
    what Python counts; \<open>pys\<close> turns an ASCII literal into one.
  \<^item> \<open>str.isspace\<close> and UTF-8 encoding are written out. A lone surrogate has no UTF-8 form:
    encoding it raises \<open>UnicodeEncodeError\<close>.
  \<^item> \<open>py_nth\<close>, \<open>zip_strict\<close> are indexing and \<open>zip(..., strict=True)\<close> with their exceptions.
\<close>

named_theorems result_simps
  \<open>simplification of error propagation\<close>

subsection \<open>Exceptions as values\<close>

datatype exn_class =
    FrontendError | ContractError | SourceNormalizationError | AmbiguousAlignmentError
  | ProtocolError | PyTypeError | PyValueError | PyUnicodeEncodeError | PyIndexError
  | PyKeyError | PyOSError | PyRuntimeError | PyAssertionError | PyFileExistsError
  | PyOverflowError | PyUnicodeDecodeError | PyFileNotFoundError | PyTimeoutExpired | PyAttributeError
  | PackageError | CublasIdentityError | SourceAcceptanceError | CorpusSourceError

datatype exn = Exn (exn_class: exn_class) (exn_message: string)

type_synonym 'a result = "exn + 'a"

definition bindE :: "('e + 'a) \<Rightarrow> ('a \<Rightarrow> 'e + 'b) \<Rightarrow> 'e + 'b" where
  "bindE m f = (case m of Inl e \<Rightarrow> Inl e | Inr x \<Rightarrow> f x)"

lemma bindE_Inl [simp]: "bindE (Inl e) f = Inl e"
  by (simp add: bindE_def)

lemma bindE_Inr [simp]: "bindE (Inr x) f = f x"
  by (simp add: bindE_def)

lemma bindE_eq_Inr [result_simps]: "bindE m f = Inr y \<longleftrightarrow> (\<exists>x. m = Inr x \<and> f x = Inr y)"
  by (cases m) simp_all

lemma bindE_eq_Inl:
  "bindE m f = Inl e \<longleftrightarrow> m = Inl e \<or> (\<exists>x. m = Inr x \<and> f x = Inl e)"
  by (cases m) simp_all

lemma bindE_cong [fundef_cong]:
  "m = m' \<Longrightarrow> (\<And>x. m' = Inr x \<Longrightarrow> f x = f' x) \<Longrightarrow> bindE m f = bindE m' f'"
  by (cases m') simp_all

fun mapE :: "('a \<Rightarrow> 'e + 'b) \<Rightarrow> 'a list \<Rightarrow> 'e + 'b list" where
  "mapE f [] = Inr []"
| "mapE f (x # xs) = bindE (f x) (\<lambda>y. bindE (mapE f xs) (\<lambda>ys. Inr (y # ys)))"

fun mapE_from :: "nat \<Rightarrow> (nat \<Rightarrow> 'a \<Rightarrow> 'e + 'b) \<Rightarrow> 'a list \<Rightarrow> 'e + 'b list" where
  "mapE_from i f [] = Inr []"
| "mapE_from i f (x # xs) =
     bindE (f i x) (\<lambda>y. bindE (mapE_from (Suc i) f xs) (\<lambda>ys. Inr (y # ys)))"

lemma mapE_cong [fundef_cong]:
  "xs = ys \<Longrightarrow> (\<And>x. x \<in> set ys \<Longrightarrow> f x = g x) \<Longrightarrow> mapE f xs = mapE g ys"
  by (induction xs arbitrary: ys) auto

lemma mapE_Inr_iff:
  "mapE f xs = Inr ys \<longleftrightarrow> list_all2 (\<lambda>x y. f x = Inr y) xs ys"
  by (induction xs arbitrary: ys) (auto simp: result_simps list_all2_Cons1)

lemma mapE_length: "mapE f xs = Inr ys \<Longrightarrow> length ys = length xs"
  by (auto simp: mapE_Inr_iff dest: list_all2_lengthD)

lemma mapE_nth: "mapE f xs = Inr ys \<Longrightarrow> i < length xs \<Longrightarrow> f (xs ! i) = Inr (ys ! i)"
  by (auto simp: mapE_Inr_iff dest: list_all2_nthD)

lemma mapE_all_Inr: "(\<And>x. x \<in> set xs \<Longrightarrow> f x = Inr (g x)) \<Longrightarrow> mapE f xs = Inr (map g xs)"
  by (induction xs) auto

lemma mapE_from_length: "mapE_from i f xs = Inr ys \<Longrightarrow> length ys = length xs"
  by (induction xs arbitrary: i ys) (auto simp: result_simps)

lemma mapE_from_nth:
  "mapE_from i f xs = Inr ys \<Longrightarrow> j < length xs \<Longrightarrow> f (i + j) (xs ! j) = Inr (ys ! j)"
proof (induction xs arbitrary: i j ys)
  case Nil
  then show ?case by simp
next
  case (Cons x xs)
  from Cons.prems obtain y zs where y: "f i x = Inr y"
    and zs: "mapE_from (Suc i) f xs = Inr zs" and ys: "ys = y # zs"
    by (auto simp: result_simps)
  show ?case
  proof (cases j)
    case 0
    with y ys show ?thesis by simp
  next
    case (Suc k)
    with Cons.prems(2) have "k < length xs" by simp
    from Cons.IH [OF zs this] Suc ys show ?thesis by simp
  qed
qed

definition guardE :: "bool \<Rightarrow> 'e \<Rightarrow> 'e + unit" where
  "guardE bad e = (if bad then Inl e else Inr ())"

lemma guardE_eq_Inr [result_simps]: "guardE b e = Inr u \<longleftrightarrow> \<not> b"
  by (simp add: guardE_def)

lemma guardE_simps [simp]: "guardE True e = Inl e" "guardE False e = Inr ()"
  by (simp_all add: guardE_def)

subsection \<open>Strings, indexing and zipping\<close>

type_synonym pystr = "nat list"

definition pys :: "string \<Rightarrow> pystr" where
  "pys s = map of_char s"

lemma pys_inject [simp]: "pys s = pys t \<longleftrightarrow> s = t"
  by (simp add: pys_def inj_map_eq_map [OF inj_of_char])

lemma pys_eq_Nil [simp]: "pys s = [] \<longleftrightarrow> s = []" "[] = pys s \<longleftrightarrow> s = []"
  by (auto simp: pys_def)

lemma length_pys [simp]: "length (pys s) = length s"
  by (simp add: pys_def)

definition py_nth :: "'a list \<Rightarrow> nat \<Rightarrow> 'a result" where
  "py_nth xs i = (if i < length xs then Inr (xs ! i) else Inl (Exn PyIndexError ''index out of range''))"

definition zip_strict :: "'a list \<Rightarrow> 'b list \<Rightarrow> ('a \<times> 'b) list result" where
  "zip_strict xs ys =
     (if length ys < length xs then Inl (Exn PyValueError ''zip() argument 2 is shorter than argument 1'')
      else if length xs < length ys then Inl (Exn PyValueError ''zip() argument 2 is longer than argument 1'')
      else Inr (zip xs ys))"

text \<open>The characters for which \<open>str.isspace\<close> holds (bidirectional type WS, B or S, or category Zs).\<close>

definition char_isspace :: "nat \<Rightarrow> bool" where
  "char_isspace c \<longleftrightarrow>
     9 \<le> c \<and> c \<le> 13 \<or> 28 \<le> c \<and> c \<le> 32 \<or> c = 133 \<or> c = 160 \<or> c = 5760 \<or>
     8192 \<le> c \<and> c \<le> 8202 \<or> c = 8232 \<or> c = 8233 \<or> c = 8239 \<or> c = 8287 \<or> c = 12288"

definition str_isspace :: "pystr \<Rightarrow> bool" where
  "str_isspace s \<longleftrightarrow> s \<noteq> [] \<and> list_all char_isspace s"

subsection \<open>Dictionaries built by a comprehension over a list\<close>

lemma map_of_rev_Some_iff:
  "map_of (rev (map (\<lambda>x. (f x, g x)) xs)) k = Some v \<longleftrightarrow>
     (\<exists>i < length xs. f (xs ! i) = k \<and> g (xs ! i) = v \<and>
        (\<forall>j. i < j \<and> j < length xs \<longrightarrow> f (xs ! j) \<noteq> k))"
proof (induction xs rule: rev_induct)
  case Nil
  then show ?case by simp
next
  case (snoc x xs)
  show ?case
  proof (cases "f x = k")
    case True
    have "g x = v \<longleftrightarrow> (\<exists>i < Suc (length xs). f ((xs @ [x]) ! i) = k \<and> g ((xs @ [x]) ! i) = v \<and>
        (\<forall>j. i < j \<and> j < Suc (length xs) \<longrightarrow> f ((xs @ [x]) ! j) \<noteq> k))"
    proof
      assume "g x = v"
      with True show "\<exists>i < Suc (length xs). f ((xs @ [x]) ! i) = k \<and> g ((xs @ [x]) ! i) = v \<and>
        (\<forall>j. i < j \<and> j < Suc (length xs) \<longrightarrow> f ((xs @ [x]) ! j) \<noteq> k)"
        by (intro exI [of _ "length xs"]) auto
    next
      assume "\<exists>i < Suc (length xs). f ((xs @ [x]) ! i) = k \<and> g ((xs @ [x]) ! i) = v \<and>
        (\<forall>j. i < j \<and> j < Suc (length xs) \<longrightarrow> f ((xs @ [x]) ! j) \<noteq> k)"
      then obtain i where i: "i < Suc (length xs)" "g ((xs @ [x]) ! i) = v"
        and last: "\<forall>j. i < j \<and> j < Suc (length xs) \<longrightarrow> f ((xs @ [x]) ! j) \<noteq> k" by blast
      have "i = length xs"
      proof (rule ccontr)
        assume "i \<noteq> length xs"
        with i(1) have "i < length xs" by simp
        with last have "f ((xs @ [x]) ! length xs) \<noteq> k" by blast
        with True show False by simp
      qed
      with i(2) show "g x = v" by simp
    qed
    with True show ?thesis by simp
  next
    case False
    have "(\<exists>i < Suc (length xs). f ((xs @ [x]) ! i) = k \<and> g ((xs @ [x]) ! i) = v \<and>
        (\<forall>j. i < j \<and> j < Suc (length xs) \<longrightarrow> f ((xs @ [x]) ! j) \<noteq> k)) \<longleftrightarrow>
      (\<exists>i < length xs. f (xs ! i) = k \<and> g (xs ! i) = v \<and>
        (\<forall>j. i < j \<and> j < length xs \<longrightarrow> f (xs ! j) \<noteq> k))" (is "?l \<longleftrightarrow> ?r")
    proof
      assume ?l
      then obtain i where i: "i < Suc (length xs)" "f ((xs @ [x]) ! i) = k" "g ((xs @ [x]) ! i) = v"
        and last: "\<forall>j. i < j \<and> j < Suc (length xs) \<longrightarrow> f ((xs @ [x]) ! j) \<noteq> k" by blast
      from i(1,2) False have "i < length xs" by (cases "i = length xs") auto
      moreover have "f (xs ! j) \<noteq> k" if "i < j" "j < length xs" for j
        using last [rule_format, of j] that by (simp add: nth_append)
      ultimately show ?r using i(2,3) by (auto simp: nth_append)
    next
      assume ?r
      then obtain i where i: "i < length xs" "f (xs ! i) = k" "g (xs ! i) = v"
        and last: "\<forall>j. i < j \<and> j < length xs \<longrightarrow> f (xs ! j) \<noteq> k" by blast
      have "f ((xs @ [x]) ! j) \<noteq> k" if "i < j" "j < Suc (length xs)" for j
        using last that False by (cases "j = length xs") (auto simp: nth_append)
      with i show ?l by (intro exI [of _ i]) (simp add: nth_append)
    qed
    with snoc False show ?thesis by simp
  qed
qed

subsection \<open>UTF-8\<close>

type_synonym byte = "8 word"

definition utf8_char :: "nat \<Rightarrow> byte list result" where
  "utf8_char c =
     (if c < 128 then Inr [of_nat c]
      else if c < 2048 then Inr [of_nat (192 + c div 64), of_nat (128 + c mod 64)]
      else if 55296 \<le> c \<and> c < 57344
        then Inl (Exn PyUnicodeEncodeError ''surrogates not allowed'')
      else if c < 65536
        then Inr [of_nat (224 + c div 4096), of_nat (128 + c div 64 mod 64), of_nat (128 + c mod 64)]
      else Inr [of_nat (240 + c div 262144), of_nat (128 + c div 4096 mod 64),
                of_nat (128 + c div 64 mod 64), of_nat (128 + c mod 64)])"

definition utf8_encode :: "pystr \<Rightarrow> byte list result" where
  "utf8_encode s = bindE (mapE utf8_char s) (\<lambda>bs. Inr (concat bs))"

lemma utf8_char_nonempty: "utf8_char c = Inr bs \<Longrightarrow> 0 < length bs"
  by (auto simp: utf8_char_def split: if_splits)

lemma utf8_encode_Nil [simp]: "utf8_encode [] = Inr []"
  by (simp add: utf8_encode_def)

lemma utf8_encode_Cons [result_simps]:
  "utf8_encode (c # cs) = bindE (utf8_char c) (\<lambda>b. bindE (utf8_encode cs) (\<lambda>bs. Inr (b @ bs)))"
  by (cases "utf8_char c"; cases "mapE utf8_char cs") (simp_all add: utf8_encode_def)

lemma utf8_encode_append:
  "utf8_encode (s @ t) = bindE (utf8_encode s) (\<lambda>b. bindE (utf8_encode t) (\<lambda>bs. Inr (b @ bs)))"
proof (induction s)
  case Nil
  then show ?case by (cases "utf8_encode t") simp_all
next
  case (Cons c cs)
  then show ?case
    by (cases "utf8_char c"; cases "utf8_encode cs"; cases "utf8_encode t")
      (simp_all add: utf8_encode_Cons)
qed

end
