(* ===== verification/Json.thy ===== *)
theory Json
  imports Complex_Main Prelude "HOL-Library.Multiset"
begin

text \<open>
  JSON values as Python sees them after \<open>json.loads\<close>, Python's \<open>==\<close> on them, and
  \<open>json.dumps(..., sort_keys=True, separators=(",", ":"))\<close> with both settings of
  \<open>ensure_ascii\<close>.

  A \<open>dict\<close> is the list of its items in insertion order (\<open>JObj\<close>); \<open>json_wf\<close> says that keys
  are distinct at every level, which every \<open>dict\<close> guarantees. A finite \<open>float\<close> is the rational
  it denotes. Python's \<open>==\<close> identifies \<open>True\<close>, \<open>1\<close> and \<open>1.0\<close>, and ignores the order of
  the keys of an object: \<open>py_eq\<close> does the same. The shortest decimal that CPython prints for a
  \<open>float\<close> is a parameter (\<open>frepr\<close>) of \<open>dumps\<close>.

  \<open>dumps_perm\<close> shows that the canonical text does not depend on key order.
\<close>

subsection \<open>Values\<close>

datatype pyfloat = Fin rat | PosInf | NegInf | NotANumber

datatype json =
    JNull
  | JBool bool
  | JInt int
  | JFloat pyfloat
  | JStr pystr
  | JList "json list"
  | JObj "(pystr \<times> json) list"

type_synonym json_object = "(pystr \<times> json) list"

primrec json_wf :: "json \<Rightarrow> bool" where
  "json_wf JNull \<longleftrightarrow> True"
| "json_wf (JBool b) \<longleftrightarrow> True"
| "json_wf (JInt i) \<longleftrightarrow> True"
| "json_wf (JFloat f) \<longleftrightarrow> True"
| "json_wf (JStr s) \<longleftrightarrow> True"
| "json_wf (JList vs) \<longleftrightarrow> list_all id (map json_wf vs)"
| "json_wf (JObj kvs) \<longleftrightarrow>
     distinct (map fst kvs) \<and> list_all id (map snd (map (map_prod id json_wf) kvs))"

lemma json_wf_JList [simp]: "json_wf (JList vs) \<longleftrightarrow> (\<forall>v \<in> set vs. json_wf v)"
  by (simp add: list_all_iff)

lemma json_wf_JObj [simp]:
  "json_wf (JObj kvs) \<longleftrightarrow> distinct (map fst kvs) \<and> (\<forall>kv \<in> set kvs. json_wf (snd kv))"
  by (auto simp: list_all_iff)

declare json_wf.simps(6,7) [simp del]

subsection \<open>Python equality\<close>

fun json_num :: "json \<Rightarrow> pyfloat option" where
  "json_num (JBool b) = Some (Fin (if b then 1 else 0))"
| "json_num (JInt i) = Some (Fin (of_int i))"
| "json_num (JFloat f) = Some f"
| "json_num _ = None"

definition num_eq :: "pyfloat \<Rightarrow> pyfloat \<Rightarrow> bool" where
  "num_eq x y \<longleftrightarrow> x = y \<and> x \<noteq> NotANumber"

definition num_case :: "pyfloat \<Rightarrow> json \<Rightarrow> bool" where
  "num_case x b = (case json_num b of None \<Rightarrow> False | Some y \<Rightarrow> num_eq x y)"

primrec py_eq :: "json \<Rightarrow> json \<Rightarrow> bool" where
  "py_eq JNull = (\<lambda>b. b = JNull)"
| "py_eq (JBool x) = num_case (Fin (if x then 1 else 0))"
| "py_eq (JInt i) = num_case (Fin (of_int i))"
| "py_eq (JFloat f) = num_case f"
| "py_eq (JStr s) = (\<lambda>b. b = JStr s)"
| "py_eq (JList vs) =
     (\<lambda>b. case b of JList ws \<Rightarrow> list_all2 (\<lambda>f w. f w) (map py_eq vs) ws | _ \<Rightarrow> False)"
| "py_eq (JObj kvs) =
     (\<lambda>b. case b of
        JObj ws \<Rightarrow> length kvs = length ws \<and>
          list_all (\<lambda>(k, f). case map_of ws k of None \<Rightarrow> False | Some w \<Rightarrow> f w)
            (map (map_prod id py_eq) kvs)
      | _ \<Rightarrow> False)"

lemma num_case_int [simp]: "num_case (Fin (of_int i)) (JInt j) \<longleftrightarrow> i = j"
  by (auto simp: num_case_def num_eq_def)

lemma py_eq_int [simp]: "py_eq (JInt i) (JInt j) \<longleftrightarrow> i = j"
  by simp

lemma py_eq_str [simp]: "py_eq b (JStr s) \<longleftrightarrow> b = JStr s"
  by (cases b) (auto simp: num_case_def)

lemma py_eq_null [simp]: "py_eq b JNull \<longleftrightarrow> b = JNull"
  by (cases b) (auto simp: num_case_def)

lemma py_eq_bool_true:
  "py_eq v (JBool True) \<longleftrightarrow> v = JBool True \<or> v = JInt 1 \<or> v = JFloat (Fin 1)"
proof (cases v)
  case (JInt i)
  have "(of_int i :: rat) = 1 \<longleftrightarrow> i = 1" by (metis of_int_1 of_int_eq_iff)
  with JInt show ?thesis by (simp add: num_case_def num_eq_def)
qed (auto simp: num_case_def num_eq_def)

lemma py_eq_int_iff:
  "py_eq (JInt i) v \<longleftrightarrow>
     v = JInt i \<or> v = JFloat (Fin (of_int i)) \<or> v = JBool True \<and> i = 1 \<or> v = JBool False \<and> i = 0"
proof (cases v)
  case (JBool b)
  have "(of_int i :: rat) = 1 \<longleftrightarrow> i = 1" "(of_int i :: rat) = 0 \<longleftrightarrow> i = 0"
    by (metis of_int_1 of_int_eq_iff) simp
  with JBool show ?thesis by (auto simp: num_case_def num_eq_def)
qed (auto simp: num_case_def num_eq_def)

lemma py_eq_sym_int: "py_eq v (JInt i) \<longleftrightarrow> py_eq (JInt i) v"
  by (cases v) (auto simp: num_case_def num_eq_def)

text \<open>Values in which no NaN occurs: on these Python's equality is reflexive.\<close>

primrec no_nan :: "json \<Rightarrow> bool" where
  "no_nan JNull \<longleftrightarrow> True"
| "no_nan (JBool b) \<longleftrightarrow> True"
| "no_nan (JInt i) \<longleftrightarrow> True"
| "no_nan (JFloat f) \<longleftrightarrow> f \<noteq> NotANumber"
| "no_nan (JStr s) \<longleftrightarrow> True"
| "no_nan (JList vs) \<longleftrightarrow> list_all id (map no_nan vs)"
| "no_nan (JObj kvs) \<longleftrightarrow> list_all id (map snd (map (map_prod id no_nan) kvs))"

lemma py_eq_refl: "json_wf v \<Longrightarrow> no_nan v \<Longrightarrow> py_eq v v"
proof (induction v)
  case (JList vs)
  then show ?case by (auto simp: list_all_iff list_all2_conv_all_nth)
next
  case (JObj kvs)
  have "case map_of kvs k of None \<Rightarrow> False | Some w \<Rightarrow> py_eq v w" if "(k, v) \<in> set kvs" for k v
  proof -
    from JObj.prems(1) that have "map_of kvs k = Some v" by simp
    moreover from JObj that have "py_eq v v" by (fastforce simp: list_all_iff)
    ultimately show ?thesis by simp
  qed
  then show ?case by (auto simp: list_all_iff)
qed (auto simp: num_case_def num_eq_def)

subsection \<open>Serialisation\<close>

fun nat_digits :: "nat \<Rightarrow> pystr" where
  "nat_digits n = (if n < 10 then [48 + n] else nat_digits (n div 10) @ [48 + n mod 10])"

declare nat_digits.simps [simp del]

definition int_repr :: "int \<Rightarrow> pystr" where
  "int_repr i = (if i < 0 then 45 # nat_digits (nat (- i)) else nat_digits (nat i))"

definition hex_digit :: "nat \<Rightarrow> nat" where
  "hex_digit d = (if d < 10 then 48 + d else 87 + d)"

definition hex4 :: "nat \<Rightarrow> pystr" where
  "hex4 n = map hex_digit [n div 4096 mod 16, n div 256 mod 16, n div 16 mod 16, n mod 16]"

definition u_escape :: "nat \<Rightarrow> pystr" where
  "u_escape n = [92, 117] @ hex4 n"

definition short_escape :: "nat \<Rightarrow> pystr option" where
  "short_escape c =
     (if c = 34 then Some [92, 34] else if c = 92 then Some [92, 92]
      else if c = 10 then Some [92, 110] else if c = 13 then Some [92, 114]
      else if c = 9 then Some [92, 116] else if c = 12 then Some [92, 102]
      else if c = 8 then Some [92, 98] else None)"

definition escape_char :: "bool \<Rightarrow> nat \<Rightarrow> pystr" where
  "escape_char ensure_ascii c =
     (case short_escape c of
        Some e \<Rightarrow> e
      | None \<Rightarrow>
          if c < 32 then u_escape c
          else if \<not> ensure_ascii \<or> c < 127 then [c]
          else if c < 65536 then u_escape c
          else u_escape (55296 + (c - 65536) div 1024) @ u_escape (56320 + (c - 65536) mod 1024))"

definition json_str :: "bool \<Rightarrow> pystr \<Rightarrow> pystr" where
  "json_str ensure_ascii s = [34] @ concat (map (escape_char ensure_ascii) s) @ [34]"

fun comma_join :: "pystr list \<Rightarrow> pystr" where
  "comma_join [] = []"
| "comma_join [x] = x"
| "comma_join (x # xs) = x @ [44] @ comma_join xs"

primrec dumps :: "bool \<Rightarrow> (pyfloat \<Rightarrow> pystr) \<Rightarrow> json \<Rightarrow> pystr" where
  "dumps ea frepr JNull = pys ''null''"
| "dumps ea frepr (JBool b) = pys (if b then ''true'' else ''false'')"
| "dumps ea frepr (JInt i) = int_repr i"
| "dumps ea frepr (JFloat f) = frepr f"
| "dumps ea frepr (JStr s) = json_str ea s"
| "dumps ea frepr (JList vs) = [91] @ comma_join (map (dumps ea frepr) vs) @ [93]"
| "dumps ea frepr (JObj kvs) =
     [123] @ comma_join (map (\<lambda>(k, t). json_str ea k @ [58] @ t)
       (sort_key fst (map (map_prod id (dumps ea frepr)) kvs))) @ [125]"

text \<open>\<open>json.dumps(value, ensure_ascii=False, ...).encode("utf-8")\<close>\<close>

definition dumps_utf8 :: "(pyfloat \<Rightarrow> pystr) \<Rightarrow> json \<Rightarrow> byte list result" where
  "dumps_utf8 frepr v = utf8_encode (dumps False frepr v)"

text \<open>\<open>json.dumps(value, ensure_ascii=True, ...).encode("ascii")\<close>\<close>

definition dumps_ascii :: "(pyfloat \<Rightarrow> pystr) \<Rightarrow> json \<Rightarrow> byte list" where
  "dumps_ascii frepr v = map of_nat (dumps True frepr v)"

lemma sort_key_perm_eq:
  assumes "mset kvs = mset kvs'" and "distinct (map fst kvs)"
  shows "sort_key fst kvs = sort_key (fst :: 'a::linorder \<times> 'b \<Rightarrow> 'a) kvs'"
proof (rule sort_key_inj_key_eq)
  show "mset kvs = mset (sort_key fst kvs')" using assms(1) by simp
  show "inj_on fst (set kvs)" using assms(2) by (simp add: distinct_map)
  show "sorted (map fst (sort_key fst kvs'))" by simp
qed

lemma dumps_perm:
  assumes "mset kvs = mset kvs'" and "distinct (map fst kvs)"
  shows "dumps ea frepr (JObj kvs) = dumps ea frepr (JObj kvs')"
proof -
  let ?g = "map (map_prod id (dumps ea frepr)) :: json_object \<Rightarrow> (pystr \<times> pystr) list"
  have "mset (?g kvs) = mset (?g kvs')"
    using assms(1) by (simp add: mset_map)
  moreover have "distinct (map fst (?g kvs))"
    using assms(2) by (simp add: comp_def)
  ultimately have "sort_key fst (?g kvs) = sort_key fst (?g kvs')"
    by (rule sort_key_perm_eq)
  then show ?thesis by simp
qed

end
