(* ===== verification/Sha256.thy ===== *)
theory Sha256
  imports Prelude
begin

unbundle bit_operations_syntax

text \<open>
  \<open>hashlib.sha256\<close>, which every identity of the bundle and of the frontend rests on, on 32-bit
  words (FIPS 180-4), and the lower-case hexadecimal digest \<open>hexdigest()\<close> returns.
  \<open>sha256_hexdigest_shape\<close> is what the validators' patterns \<open>[0-9a-f]{64}\<close> demand of a digest.
\<close>

text \<open>The constants: the first 32 bits of the fractional parts of the cube roots (round constants) and
square roots (initial state) of the first primes, by their bits from above.\<close>

definition floor_root :: "nat \<Rightarrow> nat \<Rightarrow> nat" where
  "floor_root k x = fold (\<lambda>i r. if (r + 2 ^ i) ^ k \<le> x then r + 2 ^ i else r) (rev [0..<40]) 0"

definition primes_upto :: "nat \<Rightarrow> nat list" where
  "primes_upto n = filter (\<lambda>p. list_all (\<lambda>d. p mod d \<noteq> 0) [2..<p]) [2..<Suc n]"

definition sha_k :: "32 word list" where
  "sha_k = map (\<lambda>p. of_nat (floor_root 3 (p * 2 ^ 96))) (primes_upto 311)"

definition sha_init :: "32 word list" where
  "sha_init = map (\<lambda>p. of_nat (floor_root 2 (p * 2 ^ 64))) (primes_upto 19)"

definition rotr :: "nat \<Rightarrow> 32 word \<Rightarrow> 32 word" where
  "rotr n x = word_rotr n x"

definition small_sigma0 :: "32 word \<Rightarrow> 32 word" where
  "small_sigma0 x = rotr 7 x XOR rotr 18 x XOR drop_bit 3 x"

definition small_sigma1 :: "32 word \<Rightarrow> 32 word" where
  "small_sigma1 x = rotr 17 x XOR rotr 19 x XOR drop_bit 10 x"

definition big_sigma0 :: "32 word \<Rightarrow> 32 word" where
  "big_sigma0 x = rotr 2 x XOR rotr 13 x XOR rotr 22 x"

definition big_sigma1 :: "32 word \<Rightarrow> 32 word" where
  "big_sigma1 x = rotr 6 x XOR rotr 11 x XOR rotr 25 x"

text \<open>The message schedule, newest word first.\<close>

fun sha_expand :: "nat \<Rightarrow> 32 word list \<Rightarrow> 32 word list" where
  "sha_expand 0 ws = ws"
| "sha_expand (Suc n) ws =
     sha_expand n ((small_sigma1 (ws ! 1) + ws ! 6 + small_sigma0 (ws ! 14) + ws ! 15) # ws)"

definition sha_round :: "32 word \<times> 32 word \<Rightarrow> 32 word list \<Rightarrow> 32 word list" where
  "sha_round kw st =
     (case st of
        [a, b, c, d, e, f, g, h] \<Rightarrow>
          (let t1 = h + big_sigma1 e + ((e AND f) XOR (NOT e AND g)) + fst kw + snd kw;
               t2 = big_sigma0 a + ((a AND b) XOR (a AND c) XOR (b AND c))
           in [t1 + t2, a, b, c, d + t1, e, f, g])
      | _ \<Rightarrow> st)"

definition sha_block :: "32 word list \<Rightarrow> 32 word list \<Rightarrow> 32 word list" where
  "sha_block block st =
     map2 (+) st (fold sha_round (zip sha_k (rev (sha_expand 48 (rev block)))) st)"

definition be_word :: "byte list \<Rightarrow> 32 word" where
  "be_word bs = fold (\<lambda>b w. push_bit 8 w OR ucast b) bs 0"

fun chunks :: "nat \<Rightarrow> nat \<Rightarrow> 'a list \<Rightarrow> 'a list list" where
  "chunks n 0 xs = []"
| "chunks n (Suc k) xs = take n xs # chunks n k (drop n xs)"

definition be_bytes :: "nat \<Rightarrow> nat \<Rightarrow> byte list" where
  "be_bytes n x = map (\<lambda>i. of_nat (x div 256 ^ (n - 1 - i))) [0..<n]"

definition sha_pad :: "byte list \<Rightarrow> byte list" where
  "sha_pad m =
     m @ [128] @ replicate ((119 - length m mod 64) mod 64) 0 @ be_bytes 8 (8 * length m)"

definition sha256 :: "byte list \<Rightarrow> byte list" where
  "sha256 m =
     (let p = sha_pad m;
          blocks = map (\<lambda>b. map be_word (chunks 4 16 b)) (chunks 64 (length p div 64) p)
      in concat (map (\<lambda>w. be_bytes 4 (unat w)) (fold sha_block blocks sha_init)))"

definition hex_nibble :: "nat \<Rightarrow> nat" where
  "hex_nibble d = (if d < 10 then 48 + d else 87 + d)"

definition hexdigest :: "byte list \<Rightarrow> pystr" where
  "hexdigest bs = concat (map (\<lambda>b. [hex_nibble (unat b div 16), hex_nibble (unat b mod 16)]) bs)"

definition sha256_hex :: "byte list \<Rightarrow> pystr" where
  "sha256_hex m = hexdigest (sha256 m)"

definition is_hex_char :: "nat \<Rightarrow> bool" where
  "is_hex_char c \<longleftrightarrow> 48 \<le> c \<and> c \<le> 57 \<or> 97 \<le> c \<and> c \<le> 102"

text \<open>\<open>^[0-9a-f]{n}$\<close> with \<open>fullmatch\<close>: no trailing newline is let through.\<close>

definition is_lower_hex :: "nat \<Rightarrow> pystr \<Rightarrow> bool" where
  "is_lower_hex n s \<longleftrightarrow> length s = n \<and> list_all is_hex_char s"

subsection \<open>Lemmas\<close>

lemma length_be_bytes [simp]: "length (be_bytes n x) = n"
  by (simp add: be_bytes_def)

lemma length_sha_round [simp]: "length (sha_round kw st) = length st"
  by (auto simp: sha_round_def Let_def split: list.splits)

lemma length_fold_sha_round [simp]: "length (fold sha_round kws st) = length st"
  by (induction kws arbitrary: st) simp_all

lemma length_sha_block [simp]: "length (sha_block b st) = length st"
  by (simp add: sha_block_def)

lemma length_fold_sha_block [simp]: "length (fold sha_block bs st) = length st"
  by (induction bs arbitrary: st) simp_all

lemma length_concat_const: "(\<And>x. x \<in> set xs \<Longrightarrow> length (f x) = n) \<Longrightarrow> length (concat (map f xs)) = n * length xs"
  by (induction xs) simp_all

lemma length_sha256 [simp]: "length (sha256 m) = 32"
  by (simp add: sha256_def Let_def length_concat_const [where n = 4] sha_init_def primes_upto_def upt_conv_Cons)

lemma is_hex_char_hex_nibble: "d < 16 \<Longrightarrow> is_hex_char (hex_nibble d)"
  by (auto simp: is_hex_char_def hex_nibble_def)

lemma unat_byte_div16: "unat (b :: byte) div 16 < 16"
proof -
  have "unat b < 2 ^ LENGTH(8)" by (rule unsigned_less)
  then show ?thesis by simp
qed

lemma is_lower_hex_hexdigest: "is_lower_hex (2 * length bs) (hexdigest bs)"
  by (induction bs)
    (simp_all add: is_lower_hex_def hexdigest_def is_hex_char_hex_nibble unat_byte_div16)

lemma sha256_hexdigest_shape: "is_lower_hex 64 (sha256_hex m)"
  using is_lower_hex_hexdigest [of "sha256 m"] by (simp add: sha256_hex_def)

lemma hex_nibble_inject: "d < 16 \<Longrightarrow> e < 16 \<Longrightarrow> hex_nibble d = hex_nibble e \<longleftrightarrow> d = e"
  by (auto simp: hex_nibble_def split: if_splits)

end
