(* ===== verification/FrontendContract.thy ===== *)
theory FrontendContract
  imports Json Sha256
begin

text \<open>
  The locked assets of the Japanese frontend (first part of
  \<open>tools/frontend/japanese_frontend.py\<close>): the record types of the specification, the checked
  accessors of JSON documents, the token table, \<open>load_frontend_spec\<close> with its cross-checks of the
  oracle lock against the captured contract, and \<open>tokenizer_identity_sha256\<close>.

  Facilities outside the repository are the fields of \<open>pyenv\<close>: Unicode lower-casing and NFKC
  (tables of the Unicode database), the decimal printing of floats, and \<open>json.loads\<close> of UTF-8
  bytes (\<open>None\<close> is a decoding error). Nothing is assumed of them. A file system is a map from
  paths to nodes.
\<close>

subsection \<open>The environment\<close>

record pyenv =
  py_lower :: "pystr \<Rightarrow> pystr"
  py_nfkc :: "pystr \<Rightarrow> pystr"
  py_float_repr :: "pyfloat \<Rightarrow> pystr"
  py_json_loads :: "byte list \<Rightarrow> json option"

datatype fs_node = Absent | Symlink | Directory | Regular "byte list"

type_synonym filesystem = "pystr \<Rightarrow> fs_node"

subsection \<open>Record types\<close>

record token_table_row =
  row_effective_local_id :: int
  row_global_id :: int
  row_local_id :: int
  row_token :: pystr

record dictionary_file =
  df_path :: pystr
  df_size_bytes :: int
  df_sha256 :: pystr

record dictionary_spec =
  dict_directory_name :: pystr
  dict_manifest_canonicalization :: pystr
  dict_manifest_sha256 :: pystr
  dict_files :: "dictionary_file list"

record pyopenjtalk_spec =
  ojt_version :: pystr
  ojt_dictionary :: dictionary_spec

record frontend_spec =
  aggregate_vocabulary_size :: int
  text_embedding_rows :: int
  bos_token_id :: int
  eos_token_id :: int
  global_offset :: int
  global_pad_token_id :: int
  local_vocabulary_size :: int
  long_vowel_mark_effective_local_token_id :: int
  pyopenjtalk :: pyopenjtalk_spec
  token_table :: "token_table_row list"
  token_table_sha256 :: pystr
  golden_raw_text :: pystr
  golden_g2p_tokens :: "pystr list"
  golden_local_token_ids :: "int list"
  golden_global_token_ids_with_eos :: "int list"

text \<open>\<open>{row.token: row.effective_local_id for row in table}\<close>: a later row overwrites an earlier one.\<close>

definition effective_ids_of :: "token_table_row list \<Rightarrow> (pystr \<rightharpoonup> int)" where
  "effective_ids_of rows = map_of (rev (map (\<lambda>r. (row_token r, row_effective_local_id r)) rows))"

definition effective_local_ids :: "frontend_spec \<Rightarrow> (pystr \<rightharpoonup> int)" where
  "effective_local_ids spec = effective_ids_of (token_table spec)"

subsection \<open>Checked accessors\<close>

definition contract_error :: "string \<Rightarrow> exn" where
  "contract_error m = Exn ContractError m"

fun require_mapping :: "json \<Rightarrow> json_object result" where
  "require_mapping (JObj kvs) = Inr kvs"
| "require_mapping _ = Inl (contract_error '' must be a JSON object'')"

fun require_list :: "json \<Rightarrow> json list result" where
  "require_list (JList vs) = Inr vs"
| "require_list _ = Inl (contract_error '' must be a JSON array'')"

fun require_str :: "json \<Rightarrow> pystr result" where
  "require_str (JStr s) = Inr s"
| "require_str _ = Inl (contract_error '' must be a string'')"

fun require_int :: "json \<Rightarrow> int result" where
  "require_int (JInt i) = Inr i"
| "require_int _ = Inl (contract_error '' must be an integer'')"

definition member_of :: "json_object \<Rightarrow> string \<Rightarrow> json result" where
  "member_of m key =
     (case map_of m (pys key) of None \<Rightarrow> Inl (contract_error '' is missing '') | Some v \<Rightarrow> Inr v)"

abbreviation int_member :: "json_object \<Rightarrow> string \<Rightarrow> int result" where
  "int_member m key \<equiv> bindE (member_of m key) require_int"

abbreviation str_member :: "json_object \<Rightarrow> string \<Rightarrow> pystr result" where
  "str_member m key \<equiv> bindE (member_of m key) require_str"

abbreviation mapping_member :: "json_object \<Rightarrow> string \<Rightarrow> json_object result" where
  "mapping_member m key \<equiv> bindE (member_of m key) require_mapping"

abbreviation list_member :: "json_object \<Rightarrow> string \<Rightarrow> json list result" where
  "list_member m key \<equiv> bindE (member_of m key) require_list"

definition json_file :: "pyenv \<Rightarrow> filesystem \<Rightarrow> pystr \<Rightarrow> json_object result" where
  "json_file env fs path =
     (case fs path of
        Symlink \<Rightarrow> Inl (contract_error '' must not be a symbolic link: '')
      | Absent \<Rightarrow> Inl (Exn PyOSError ''No such file or directory'')
      | Directory \<Rightarrow> Inl (contract_error ''cannot read '')
      | Regular bytes \<Rightarrow>
          (case py_json_loads env bytes of
             None \<Rightarrow> Inl (contract_error ''cannot read '')
           | Some v \<Rightarrow> require_mapping v))"

subsection \<open>The token table\<close>

definition row_json :: "token_table_row \<Rightarrow> json" where
  "row_json r = JObj
     [(pys ''effective_local_id'', JInt (row_effective_local_id r)),
      (pys ''global_id'', JInt (row_global_id r)),
      (pys ''local_id'', JInt (row_local_id r)),
      (pys ''token'', JStr (row_token r))]"

definition canonical_token_table_sha256 :: "pyenv \<Rightarrow> token_table_row list \<Rightarrow> pystr result" where
  "canonical_token_table_sha256 env rows =
     bindE (dumps_utf8 (py_float_repr env) (JList (map row_json rows))) (\<lambda>payload.
       Inr (sha256_hex payload))"

definition parse_table_row :: "int \<Rightarrow> nat \<Rightarrow> json \<Rightarrow> token_table_row result" where
  "parse_table_row offset index raw =
     bindE (require_mapping raw) (\<lambda>row.
     bindE (int_member row ''effective_local_id'') (\<lambda>effective.
     bindE (int_member row ''global_id'') (\<lambda>gid.
     bindE (int_member row ''local_id'') (\<lambda>lid.
     bindE (str_member row ''token'') (\<lambda>token.
       if lid \<noteq> int index
         then Inl (contract_error ''.local_id must equal its row position'')
       else if gid \<noteq> offset + int index
         then Inl (contract_error ''.global_id does not use the locked offset'')
       else Inr \<lparr>row_effective_local_id = effective, row_global_id = gid,
                 row_local_id = lid, row_token = token\<rparr>)))))"

text \<open>\<open>effective_ids = {row.token: row.local_id for row in rows}\<close>\<close>

definition last_local_ids :: "token_table_row list \<Rightarrow> (pystr \<rightharpoonup> int)" where
  "last_local_ids rows = map_of (rev (map (\<lambda>r. (row_token r, row_local_id r)) rows))"

definition parse_token_table :: "json \<Rightarrow> int \<Rightarrow> int \<Rightarrow> token_table_row list result" where
  "parse_token_table value offset expected_size =
     bindE (require_list value) (\<lambda>raw_rows.
     bindE (mapE_from 0 (parse_table_row offset) raw_rows) (\<lambda>rows.
       if int (length rows) \<noteq> expected_size
         then Inl (contract_error ''Japanese token table size mismatch: expected '')
       else if \<not> list_all (\<lambda>r. last_local_ids rows (row_token r) = Some (row_effective_local_id r)) rows
         then Inl (contract_error ''.effective_local_id mismatch: expected '')
       else Inr rows))"

subsection \<open>Loading the specification\<close>

definition check_equal_member :: "string \<Rightarrow> json_object \<Rightarrow> json_object \<Rightarrow> string \<Rightarrow> unit result" where
  "check_equal_member message locked contract field =
     bindE (member_of locked field) (\<lambda>locked_value.
     bindE (member_of contract field) (\<lambda>contract_value.
       guardE (\<not> py_eq contract_value locked_value) (contract_error message)))"

definition scalar_fields :: "string list" where
  "scalar_fields = [''aggregate_vocabulary_size'', ''text_embedding_rows'', ''bos_token_id'',
                    ''eos_token_id'', ''text_token_dtype'']"

definition check_scalar_fields :: "json_object \<Rightarrow> json_object \<Rightarrow> unit list result" where
  "check_scalar_fields frontend_lock frontend_contract =
     mapE (check_equal_member ''frontend contract  mismatch: expected '' frontend_lock frontend_contract)
       scalar_fields"

definition required_runtime_dependencies :: "pystr list" where
  "required_runtime_dependencies =
     map pys [''nemo'', ''transformers'', ''tokenizers'', ''huggingface_hub'', ''omegaconf'']"

definition dict_get :: "json_object \<Rightarrow> pystr \<Rightarrow> json" where
  "dict_get m k = (case map_of m k of None \<Rightarrow> JNull | Some v \<Rightarrow> v)"

definition check_dependencies :: "json_object \<Rightarrow> json_object \<Rightarrow> unit result" where
  "check_dependencies frontend_lock frontend_contract =
     bindE (mapping_member frontend_lock ''dependencies'') (\<lambda>locked.
     bindE (mapping_member frontend_contract ''dependencies'') (\<lambda>contract.
       if set (map fst contract) \<noteq> set required_runtime_dependencies
         then Inl (contract_error ''frontend dependency contract has missing or extra runtime packages'')
       else if \<not> list_all (\<lambda>(name, value). py_eq (dict_get locked name) value) contract
         then Inl (contract_error ''frontend dependency  does not match lock'')
       else Inr ()))"

definition japanese_scalar_fields :: "string list" where
  "japanese_scalar_fields = [''tokenizer_name'', ''global_offset'', ''local_vocabulary_size'',
     ''global_pad_token_id'', ''token_table_canonicalization'', ''token_table_sha256'']"

definition TOKEN_TABLE_CANONICALIZATION :: pystr where
  "TOKEN_TABLE_CANONICALIZATION = pys ''utf8_json_sorted_keys_compact_rows_in_local_id_order''"

definition DICTIONARY_MANIFEST_CANONICALIZATION :: pystr where
  "DICTIONARY_MANIFEST_CANONICALIZATION = pys ''utf8_json_sorted_keys_compact_rows_in_path_order''"

definition JAPANESE_TOKENIZER_NAME :: pystr where
  "JAPANESE_TOKENIZER_NAME = pys ''japanese_phoneme''"

definition check_japanese_fields :: "json_object \<Rightarrow> json_object \<Rightarrow> unit result" where
  "check_japanese_fields japanese_lock japanese_contract =
     bindE (mapE (check_equal_member ''Japanese frontend contract  mismatch: expected ''
                    japanese_lock japanese_contract) japanese_scalar_fields) (\<lambda>_.
     bindE (mapping_member japanese_lock ''pyopenjtalk'') (\<lambda>locked_ojt.
     bindE (mapping_member japanese_contract ''pyopenjtalk'') (\<lambda>contract_ojt.
       if \<not> py_eq (JObj contract_ojt) (JObj locked_ojt)
         then Inl (contract_error ''OpenJTalk frontend contract does not match lock'')
       else bindE (str_member japanese_lock ''token_table_canonicalization'') (\<lambda>canon.
         if canon \<noteq> TOKEN_TABLE_CANONICALIZATION
           then Inl (contract_error ''unsupported Japanese token table canonicalization'')
         else bindE (str_member japanese_lock ''tokenizer_name'') (\<lambda>name.
           guardE (name \<noteq> JAPANESE_TOKENIZER_NAME)
             (contract_error ''unsupported Japanese tokenizer: ''))))))"

definition load_token_table ::
  "pyenv \<Rightarrow> json_object \<Rightarrow> json_object \<Rightarrow> (int \<times> int \<times> token_table_row list \<times> pystr) result" where
  "load_token_table env japanese_lock japanese_contract =
     bindE (int_member japanese_lock ''global_offset'') (\<lambda>offset.
     bindE (int_member japanese_lock ''local_vocabulary_size'') (\<lambda>vocab.
     bindE (bindE (member_of japanese_contract ''token_table'')
              (\<lambda>v. parse_token_table v offset vocab)) (\<lambda>rows.
     bindE (canonical_token_table_sha256 env rows) (\<lambda>digest.
     bindE (str_member japanese_lock ''token_table_sha256'') (\<lambda>expected.
       if digest \<noteq> expected
         then Inl (contract_error ''Japanese token table SHA-256 mismatch: expected '')
       else Inr (offset, vocab, rows, digest))))))"

definition load_dictionary_file :: "json \<Rightarrow> dictionary_file result" where
  "load_dictionary_file raw =
     bindE (require_mapping raw) (\<lambda>rec.
     bindE (str_member rec ''path'') (\<lambda>path.
     bindE (int_member rec ''size_bytes'') (\<lambda>size.
     bindE (str_member rec ''sha256'') (\<lambda>sha.
       Inr \<lparr>df_path = path, df_size_bytes = size, df_sha256 = sha\<rparr>))))"

definition load_dictionary :: "json_object \<Rightarrow> dictionary_spec result" where
  "load_dictionary pyopenjtalk_lock =
     bindE (mapping_member pyopenjtalk_lock ''dictionary'') (\<lambda>lock.
     bindE (list_member lock ''files'') (\<lambda>raw_files.
     bindE (mapE load_dictionary_file raw_files) (\<lambda>files.
     bindE (str_member lock ''directory_name'') (\<lambda>name.
     bindE (str_member lock ''manifest_canonicalization'') (\<lambda>canon.
     bindE (str_member lock ''manifest_sha256'') (\<lambda>sha.
       if canon \<noteq> DICTIONARY_MANIFEST_CANONICALIZATION
         then Inl (contract_error ''unsupported OpenJTalk dictionary canonicalization'')
       else Inr \<lparr>dict_directory_name = name, dict_manifest_canonicalization = canon,
                 dict_manifest_sha256 = sha, dict_files = files\<rparr>))))))"

definition golden_fields :: "string list" where
  "golden_fields = [''raw_text'', ''g2p_tokens'', ''local_token_ids'', ''global_token_ids_with_eos'']"

definition check_golden :: "json_object \<Rightarrow> json_object \<Rightarrow> unit list result" where
  "check_golden golden contract_golden =
     mapE (\<lambda>field.
       bindE (member_of contract_golden field) (\<lambda>c.
       bindE (member_of golden field) (\<lambda>l.
         guardE (\<not> py_eq c l)
           (contract_error ''Japanese golden frontend contract  does not match lock''))))
       golden_fields"

definition integer_tuple :: "json \<Rightarrow> int list result" where
  "integer_tuple value = bindE (require_list value) (mapE require_int)"

definition string_tuple :: "json \<Rightarrow> pystr list result" where
  "string_tuple value = bindE (require_list value) (mapE require_str)"

definition build_frontend_spec ::
  "json_object \<Rightarrow> json_object \<Rightarrow> json_object \<Rightarrow> json_object \<Rightarrow>
   int \<times> int \<times> token_table_row list \<times> pystr \<Rightarrow> dictionary_spec \<Rightarrow> frontend_spec result" where
  "build_frontend_spec frontend_lock japanese_lock pyopenjtalk_lock golden table dictionary =
     (case table of (offset, vocab, rows, digest) \<Rightarrow>
     bindE (int_member frontend_lock ''aggregate_vocabulary_size'') (\<lambda>vocabulary.
     bindE (int_member frontend_lock ''text_embedding_rows'') (\<lambda>embedding_rows.
     bindE (int_member frontend_lock ''bos_token_id'') (\<lambda>bos.
     bindE (int_member frontend_lock ''eos_token_id'') (\<lambda>eos.
     bindE (int_member japanese_lock ''global_pad_token_id'') (\<lambda>pad.
     bindE (int_member japanese_lock ''long_vowel_mark_effective_local_token_id'') (\<lambda>long_vowel.
     bindE (str_member pyopenjtalk_lock ''version'') (\<lambda>version.
     bindE (str_member golden ''raw_text'') (\<lambda>raw_text.
     bindE (bindE (member_of golden ''g2p_tokens'') string_tuple) (\<lambda>g2p.
     bindE (bindE (member_of golden ''local_token_ids'') integer_tuple) (\<lambda>local_ids.
     bindE (bindE (member_of golden ''global_token_ids_with_eos'') integer_tuple) (\<lambda>global_ids.
       Inr \<lparr>aggregate_vocabulary_size = vocabulary, text_embedding_rows = embedding_rows,
            bos_token_id = bos, eos_token_id = eos, global_offset = offset,
            global_pad_token_id = pad, local_vocabulary_size = vocab,
            long_vowel_mark_effective_local_token_id = long_vowel,
            pyopenjtalk = \<lparr>ojt_version = version, ojt_dictionary = dictionary\<rparr>,
            token_table = rows, token_table_sha256 = digest, golden_raw_text = raw_text,
            golden_g2p_tokens = g2p, golden_local_token_ids = local_ids,
            golden_global_token_ids_with_eos = global_ids\<rparr>))))))))))))"

definition long_vowel_mark :: pystr where
  "long_vowel_mark = [12540]"

definition check_effective_ids :: "frontend_spec \<Rightarrow> frontend_spec result" where
  "check_effective_ids spec =
     (let effective = effective_local_ids spec in
      if effective long_vowel_mark \<noteq> Some (long_vowel_mark_effective_local_token_id spec)
        then Inl (contract_error ''locked long-vowel token resolution does not match table'')
      else if effective (pys ''<pad>'') \<noteq> Some (global_pad_token_id spec - global_offset spec)
        then Inl (contract_error ''locked Japanese pad token does not match table'')
      else if effective (pys '' '') \<noteq> Some 0
        then Inl (contract_error ''locked Japanese boundary-space token must be local ID 0'')
      else Inr spec)"

definition frontend_contract_of :: "json_object \<Rightarrow> json_object result" where
  "frontend_contract_of contract_root =
     (case map_of contract_root (pys ''frontend_contract'') of
        Some v \<Rightarrow> require_mapping v
      | None \<Rightarrow> Inr contract_root)"

definition load_frontend_roots :: "pyenv \<Rightarrow> json_object \<Rightarrow> json_object \<Rightarrow> json_object \<Rightarrow> frontend_spec result" where
  "load_frontend_roots env frontend_lock japanese_lock frontend_contract =
     bindE (mapping_member frontend_contract ''japanese'') (\<lambda>japanese_contract.
     bindE (check_scalar_fields frontend_lock frontend_contract) (\<lambda>_.
     bindE (check_dependencies frontend_lock frontend_contract) (\<lambda>_.
     bindE (check_japanese_fields japanese_lock japanese_contract) (\<lambda>_.
     bindE (load_token_table env japanese_lock japanese_contract) (\<lambda>table.
     bindE (mapping_member japanese_lock ''pyopenjtalk'') (\<lambda>pyopenjtalk_lock.
     bindE (load_dictionary pyopenjtalk_lock) (\<lambda>dictionary.
     bindE (mapping_member japanese_lock ''golden'') (\<lambda>golden.
     bindE (mapping_member japanese_contract ''golden'') (\<lambda>contract_golden.
     bindE (check_golden golden contract_golden) (\<lambda>_.
     bindE (build_frontend_spec frontend_lock japanese_lock pyopenjtalk_lock golden table dictionary)
       check_effective_ids))))))))))"

definition load_frontend_spec :: "pyenv \<Rightarrow> filesystem \<Rightarrow> pystr \<Rightarrow> pystr \<Rightarrow> frontend_spec result" where
  "load_frontend_spec env fs lock_path contract_path =
     bindE (json_file env fs lock_path) (\<lambda>lock_root.
     bindE (mapping_member lock_root ''frontend'') (\<lambda>frontend_lock.
     bindE (mapping_member frontend_lock ''japanese'') (\<lambda>japanese_lock.
     bindE (json_file env fs contract_path) (\<lambda>contract_root.
     bindE (frontend_contract_of contract_root) (\<lambda>frontend_contract.
       load_frontend_roots env frontend_lock japanese_lock frontend_contract)))))"

definition identity_projection :: "frontend_spec \<Rightarrow> pystr \<Rightarrow> json" where
  "identity_projection spec contract_sha256 = JObj
     [(pys ''kind'', JStr JAPANESE_TOKENIZER_NAME),
      (pys ''vocabulary_size'', JInt (aggregate_vocabulary_size spec)),
      (pys ''frontend_contract_sha256'', JStr contract_sha256),
      (pys ''vocabulary_sha256'', JStr (token_table_sha256 spec)),
      (pys ''special_tokens'', JObj
        [(pys ''bos_token_id'', JInt (bos_token_id spec)),
         (pys ''eos_token_id'', JInt (eos_token_id spec)),
         (pys ''japanese_global_pad_token_id'', JInt (global_pad_token_id spec))])]"

definition tokenizer_identity_sha256 :: "pyenv \<Rightarrow> filesystem \<Rightarrow> pystr \<Rightarrow> pystr \<Rightarrow> pystr result" where
  "tokenizer_identity_sha256 env fs lock_path contract_path =
     bindE (load_frontend_spec env fs lock_path contract_path) (\<lambda>spec.
     bindE (json_file env fs contract_path) (\<lambda>contract_root.
     bindE (frontend_contract_of contract_root) (\<lambda>frontend_contract.
     bindE (dumps_utf8 (py_float_repr env) (JObj frontend_contract)) (\<lambda>canonical_frontend.
     bindE (dumps_utf8 (py_float_repr env)
              (identity_projection spec (sha256_hex canonical_frontend))) (\<lambda>canonical_projection.
       Inr (sha256_hex canonical_projection))))))"

subsection \<open>Lemmas\<close>

lemma member_of_eq_Inr [result_simps]: "member_of m k = Inr v \<longleftrightarrow> map_of m (pys k) = Some v"
  by (simp add: member_of_def split: option.splits)

lemma require_mapping_eq_Inr [result_simps]: "require_mapping v = Inr kvs \<longleftrightarrow> v = JObj kvs"
  by (cases v) auto

lemma require_list_eq_Inr [result_simps]: "require_list v = Inr vs \<longleftrightarrow> v = JList vs"
  by (cases v) auto

lemma require_str_eq_Inr [result_simps]: "require_str v = Inr s \<longleftrightarrow> v = JStr s"
  by (cases v) auto

lemma require_int_eq_Inr [result_simps]: "require_int v = Inr i \<longleftrightarrow> v = JInt i"
  by (cases v) auto

lemma parse_table_row_eq_Inr:
  assumes "parse_table_row offset index raw = Inr r"
  shows "row_local_id r = int index" and "row_global_id r = offset + int index"
  using assms by (auto simp: parse_table_row_def result_simps split: if_splits)

lemma parse_token_table_rows:
  assumes "parse_token_table v offset n = Inr rows"
  shows "int (length rows) = n"
    and "i < length rows \<Longrightarrow> row_local_id (rows ! i) = int i"
    and "i < length rows \<Longrightarrow> row_global_id (rows ! i) = offset + int i"
    and "r \<in> set rows \<Longrightarrow> last_local_ids rows (row_token r) = Some (row_effective_local_id r)"
proof -
  from assms obtain raw where raw: "mapE_from 0 (parse_table_row offset) raw = Inr rows"
    and len: "int (length rows) = n"
    and eff: "list_all (\<lambda>r. last_local_ids rows (row_token r) = Some (row_effective_local_id r)) rows"
    by (auto simp: parse_token_table_def result_simps split: if_splits)
  show "int (length rows) = n" by fact
  have "parse_table_row offset i (raw ! i) = Inr (rows ! i)" if "i < length rows" for i
    using mapE_from_nth [OF raw, of i] mapE_from_length [OF raw] that by simp
  from parse_table_row_eq_Inr [OF this]
  show "i < length rows \<Longrightarrow> row_local_id (rows ! i) = int i"
    and "i < length rows \<Longrightarrow> row_global_id (rows ! i) = offset + int i" by auto
  show "r \<in> set rows \<Longrightarrow> last_local_ids rows (row_token r) = Some (row_effective_local_id r)"
    using eff by (auto simp: list_all_iff)
qed

text \<open>Position \<open>i\<close> holds the last row of token \<open>t\<close>.\<close>

definition last_row_of :: "token_table_row list \<Rightarrow> pystr \<Rightarrow> nat \<Rightarrow> bool" where
  "last_row_of rows t i \<longleftrightarrow>
     i < length rows \<and> row_token (rows ! i) = t \<and>
     (\<forall>j. i < j \<and> j < length rows \<longrightarrow> row_token (rows ! j) \<noteq> t)"

lemma last_local_ids_iff:
  assumes "parse_token_table v offset n = Inr rows"
  shows "last_local_ids rows t = Some k \<longleftrightarrow> (\<exists>i. k = int i \<and> last_row_of rows t i)"
  using parse_token_table_rows(2) [OF assms]
  unfolding last_local_ids_def map_of_rev_Some_iff last_row_of_def by auto

lemma effective_ids_of_iff:
  assumes "parse_token_table v offset n = Inr rows"
  shows "effective_ids_of rows t = Some k \<longleftrightarrow> (\<exists>i. k = int i \<and> last_row_of rows t i)"
proof -
  have eff: "row_effective_local_id (rows ! i) = int i" if "last_row_of rows t i" for i
  proof -
    from that have "last_local_ids rows t = Some (int i)"
      by (auto simp: last_local_ids_iff [OF assms])
    moreover from that have "last_local_ids rows t = Some (row_effective_local_id (rows ! i))"
      using parse_token_table_rows(4) [OF assms] by (auto simp: last_row_of_def)
    ultimately show ?thesis by simp
  qed
  have "effective_ids_of rows t = Some k \<longleftrightarrow>
      (\<exists>i. last_row_of rows t i \<and> row_effective_local_id (rows ! i) = k)"
    unfolding effective_ids_of_def map_of_rev_Some_iff last_row_of_def by blast
  with eff show ?thesis by auto
qed

lemma last_row_of_unique: "last_row_of rows t i \<Longrightarrow> last_row_of rows t j \<Longrightarrow> i = j"
  unfolding last_row_of_def by (metis nat_neq_iff)

lemma last_row_of_token: "last_row_of rows s i \<Longrightarrow> last_row_of rows t i \<Longrightarrow> s = t"
  by (simp add: last_row_of_def)

lemma check_equal_member_eq_Inr [result_simps]:
  "check_equal_member msg locked contract field = Inr u \<longleftrightarrow>
     (\<exists>l c. map_of locked (pys field) = Some l \<and> map_of contract (pys field) = Some c \<and> py_eq c l)"
  by (auto simp: check_equal_member_def result_simps)

lemma check_effective_ids_eq_Inr [result_simps]:
  "check_effective_ids spec = Inr spec' \<longleftrightarrow> spec' = spec \<and>
     effective_local_ids spec long_vowel_mark = Some (long_vowel_mark_effective_local_token_id spec) \<and>
     effective_local_ids spec (pys ''<pad>'') = Some (global_pad_token_id spec - global_offset spec) \<and>
     effective_local_ids spec (pys '' '') = Some 0"
  by (auto simp: check_effective_ids_def Let_def)

lemma load_token_table_eq_Inr:
  assumes "load_token_table env jl jc = Inr (offset, n, rows, digest)"
  shows "\<exists>v. map_of jc (pys ''token_table'') = Some v \<and> parse_token_table v offset n = Inr rows"
    and "canonical_token_table_sha256 env rows = Inr digest"
    and "map_of jl (pys ''token_table_sha256'') = Some (JStr digest)"
    and "map_of jl (pys ''global_offset'') = Some (JInt offset)"
    and "map_of jl (pys ''local_vocabulary_size'') = Some (JInt n)"
  using assms by (auto simp: load_token_table_def result_simps split: if_splits)

lemma build_frontend_spec_eq_Inr:
  assumes "build_frontend_spec fl jl ol g (offset, n, rows, digest) dict = Inr spec"
  shows "token_table spec = rows" and "token_table_sha256 spec = digest"
    and "global_offset spec = offset" and "local_vocabulary_size spec = n"
    and "map_of fl (pys ''aggregate_vocabulary_size'') = Some (JInt (aggregate_vocabulary_size spec))"
    and "map_of fl (pys ''text_embedding_rows'') = Some (JInt (text_embedding_rows spec))"
    and "map_of fl (pys ''bos_token_id'') = Some (JInt (bos_token_id spec))"
    and "map_of fl (pys ''eos_token_id'') = Some (JInt (eos_token_id spec))"
  using assms by (auto simp: build_frontend_spec_def result_simps)

lemma load_frontend_roots_eq_Inr:
  assumes "load_frontend_roots env fl jl fc = Inr spec"
  shows "\<exists>jc. map_of fc (pys ''japanese'') = Some (JObj jc)
          \<and> load_token_table env jl jc =
              Inr (global_offset spec, local_vocabulary_size spec, token_table spec,
                   token_table_sha256 spec)
          \<and> check_japanese_fields jl jc = Inr ()"
    and "check_scalar_fields fl fc \<noteq> Inl e"
    and "check_effective_ids spec = Inr spec"
    and "\<exists>ol g dict. build_frontend_spec fl jl ol g
           (global_offset spec, local_vocabulary_size spec, token_table spec, token_table_sha256 spec)
           dict = Inr spec"
proof -
  from assms obtain jc table ol dict g spec' us where
      jc: "map_of fc (pys ''japanese'') = Some (JObj jc)"
    and sc: "check_scalar_fields fl fc = Inr us"
    and jf: "check_japanese_fields jl jc = Inr ()"
    and tab: "load_token_table env jl jc = Inr table"
    and b: "build_frontend_spec fl jl ol g table dict = Inr spec'"
    and ch: "check_effective_ids spec' = Inr spec"
    by (auto simp: load_frontend_roots_def bindE_eq_Inr member_of_eq_Inr require_mapping_eq_Inr)
  obtain offset n rows digest where t: "table = (offset, n, rows, digest)" by (cases table)
  from ch have s: "spec' = spec" by (simp add: check_effective_ids_eq_Inr)
  note f = build_frontend_spec_eq_Inr [OF b [unfolded t s]]
  show "check_scalar_fields fl fc \<noteq> Inl e" using sc by simp
  show "check_effective_ids spec = Inr spec" using ch s by simp
  from jc jf tab t f show "\<exists>jc. map_of fc (pys ''japanese'') = Some (JObj jc)
          \<and> load_token_table env jl jc =
              Inr (global_offset spec, local_vocabulary_size spec, token_table spec,
                   token_table_sha256 spec)
          \<and> check_japanese_fields jl jc = Inr ()" by auto
  from b t s f show "\<exists>ol g dict. build_frontend_spec fl jl ol g
           (global_offset spec, local_vocabulary_size spec, token_table spec, token_table_sha256 spec)
           dict = Inr spec" by auto
qed

end
