(* ===== verification/JapaneseG2P.thy ===== *)
theory JapaneseG2P
  imports FrontendContract
begin

text \<open>
  From OpenJTalk rows to encoded core tokens (\<open>_njd_words\<close> to \<open>_unit_end_positions\<close> of
  \<open>tools/frontend/japanese_frontend.py\<close>). The rows come from the runner, third-party code, as
  untyped mappings; \<open>njd_words\<close> checks their fields. The loop of \<open>_g2p_tokens\<close> with its two
  closures is \<open>g2p_loop\<close> over a record of the variables the closures share.

  Shown here: moras lose no kana (\<open>split_moras_keep_kana\<close>), the pitch pattern is the accent rule and
  has one pitch per mora exactly when the accent is not negative, the output is a sequence of
  well-formed units with consecutive indices (\<open>g2p_tokens_units\<close>), the retained tokens are a
  space-normalised subsequence of known symbols, and cutting at a unit end never splits a unit.
\<close>

subsection \<open>Constants\<close>

definition JAPANESE_PUNCTUATION :: "pystr list" where
  "JAPANESE_PUNCTUATION =
  [[33], [34], [40], [41], [44], [45], [46], [47], [58], [59], [63], [91], [93], [123], [125],
   [171], [187], [8226], [8229], [8230], [8249], [8250], [8251], [9702], [12289], [12290],
   [12291], [12296], [12297], [12298], [12299], [12300], [12301], [12302], [12303], [12304],
   [12305], [12306], [12307], [12308], [12309], [12310], [12311], [12312], [12313], [12314],
   [12315], [12316], [12349], [12539], [12539,12539,12539], [12540], [65093], [65094], [65281],
   [65290], [65311], [65375], [65376]]"

definition FILLER :: pystr where
  "FILLER = [12501, 12451, 12521, 12540]"

definition SYMBOL :: pystr where
  "SYMBOL = [35352, 21495]"

definition AUXILIARY_SYMBOL :: pystr where
  "AUXILIARY_SYMBOL = [35036, 21161, 35352, 21495]"

definition ALPHABET :: pystr where
  "ALPHABET = [12450, 12523, 12501, 12449, 12505, 12483, 12488]"

definition ascii_lower :: "nat \<Rightarrow> bool" where
  "ascii_lower c \<longleftrightarrow> 97 \<le> c \<and> c \<le> 122"

definition space :: pystr where
  "space = [32]"

subsection \<open>NJD words\<close>

record njd_word =
  njd_string :: pystr
  njd_pron :: pystr
  njd_pos :: pystr
  njd_pos_group1 :: pystr
  njd_chain_flag :: int
  njd_mora_size :: int
  njd_acc :: int

definition text_field :: "json_object \<Rightarrow> string \<Rightarrow> pystr result" where
  "text_field row name =
     (case dict_get row (pys name) of
        JStr s \<Rightarrow> Inr s
      | _ \<Rightarrow> Inl (Exn FrontendError ''OpenJTalk row . is not a string''))"

definition integer_field :: "json_object \<Rightarrow> string \<Rightarrow> int result" where
  "integer_field row name =
     (case dict_get row (pys name) of
        JInt i \<Rightarrow> Inr i
      | _ \<Rightarrow> Inl (Exn FrontendError ''OpenJTalk row . is not an integer''))"

definition parse_njd_row :: "json \<Rightarrow> njd_word result" where
  "parse_njd_row value =
     (case value of
        JObj row \<Rightarrow>
          bindE (text_field row ''string'') (\<lambda>str.
          bindE (text_field row ''pron'') (\<lambda>pron.
          bindE (text_field row ''pos'') (\<lambda>pos.
          bindE (text_field row ''pos_group1'') (\<lambda>group.
          bindE (integer_field row ''chain_flag'') (\<lambda>chain.
          bindE (integer_field row ''mora_size'') (\<lambda>mora.
          bindE (integer_field row ''acc'') (\<lambda>acc.
            Inr \<lparr>njd_string = str, njd_pron = pron, njd_pos = pos, njd_pos_group1 = group,
                 njd_chain_flag = chain, njd_mora_size = mora, njd_acc = acc\<rparr>)))))))
      | _ \<Rightarrow> Inl (Exn FrontendError ''OpenJTalk row  is not a mapping''))"

definition njd_words :: "json list \<Rightarrow> njd_word list result" where
  "njd_words rows = mapE parse_njd_row rows"

subsection \<open>Moras and pitch\<close>

text \<open>The character classes of \<open>MORA_PATTERN\<close>.\<close>

definition mora_head :: "nat \<Rightarrow> bool" where
  "mora_head c \<longleftrightarrow> 12450 \<le> c \<and> c \<le> 12531 \<or> c = 12532"

definition mora_tail :: "nat \<Rightarrow> bool" where
  "mora_tail c \<longleftrightarrow> c \<in> set [12515, 12517, 12519, 12449, 12451, 12453, 12455, 12457, 12526]"

definition mora_single :: "nat \<Rightarrow> bool" where
  "mora_single c \<longleftrightarrow>
     c \<in> set [12449, 12451, 12453, 12455, 12457, 12533, 12534, 12483, 12515, 12517, 12519, 12526]
     \<or> c = 12540"

text \<open>\<open>re.findall(MORA_PATTERN, katakana)\<close>: leftmost matches, the optional tail taken greedily.\<close>

fun split_moras :: "pystr \<Rightarrow> pystr list" where
  "split_moras [] = []"
| "split_moras [c] = (if mora_head c \<or> mora_single c then [[c]] else [])"
| "split_moras (c # d # ds) =
     (if mora_head c \<and> mora_tail d then [c, d] # split_moras ds
      else if mora_head c \<or> mora_single c then [c] # split_moras (d # ds)
      else split_moras (d # ds))"

definition pitch_pattern :: "int \<Rightarrow> nat \<Rightarrow> nat list" where
  "pitch_pattern acc total_mora =
     (if total_mora = 0 then []
      else if acc = 0 then 0 # replicate (total_mora - 1) 1
      else if acc = 1 then 1 # replicate (total_mora - 1) 0
      else if int total_mora \<le> acc then 0 # replicate (total_mora - 1) 1
      else 0 # replicate (nat (acc - 1)) 1 @ replicate (nat (int total_mora - acc)) 0)"

subsection \<open>G2P\<close>

datatype token_kind =
    Pitch | Mora | Ascii | Space | Punctuation | NormalizedSpace | BoundarySpace | Eos

record g2p_token =
  g2p_symbol :: pystr
  g2p_kind :: token_kind
  g2p_unit_index :: nat

record g2p_state =
  g2p_output :: "g2p_token list"
  current_chain :: "njd_word list"
  next_unit :: nat

definition append_unit :: "(pystr \<times> token_kind) list \<Rightarrow> g2p_state \<Rightarrow> g2p_state" where
  "append_unit symbols st = st\<lparr>
     g2p_output := g2p_output st @
       map (\<lambda>(s, k). \<lparr>g2p_symbol = s, g2p_kind = k, g2p_unit_index = next_unit st\<rparr>) symbols,
     next_unit := next_unit st + 1\<rparr>"

definition mora_unit :: "pystr \<times> nat \<Rightarrow> (pystr \<times> token_kind) list" where
  "mora_unit mp = (nat_digits (snd mp), Pitch) # map (\<lambda>c. ([c], Mora)) (fst mp)"

definition flush_chain :: "g2p_state \<Rightarrow> g2p_state result" where
  "flush_chain st =
     (case current_chain st of
        [] \<Rightarrow> Inr st
      | first # _ \<Rightarrow>
          (let starter = (case find (\<lambda>w. njd_chain_flag w \<noteq> 1) (current_chain st) of
                            Some w \<Rightarrow> w | None \<Rightarrow> first);
               moras = concat (map (\<lambda>w. split_moras (njd_pron w)) (current_chain st));
               pitches = pitch_pattern (njd_acc starter) (length moras)
           in bindE (zip_strict moras pitches) (\<lambda>pairs.
                Inr ((fold (\<lambda>mp. append_unit (mora_unit mp)) pairs st)\<lparr>current_chain := []\<rparr>))))"

definition is_filler :: "njd_word \<Rightarrow> pystr \<Rightarrow> bool" where
  "is_filler w normalized \<longleftrightarrow>
     normalized \<noteq> [] \<and> list_all ascii_lower normalized \<and> njd_pos w = FILLER"

definition is_symbol :: "njd_word \<Rightarrow> bool" where
  "is_symbol w \<longleftrightarrow>
     (njd_pos w = SYMBOL \<or> njd_pos w = AUXILIARY_SYMBOL) \<and> njd_pos_group1 w \<noteq> ALPHABET"

definition symbol_unit :: "pystr \<Rightarrow> (pystr \<times> token_kind) list" where
  "symbol_unit normalized =
     (if str_isspace normalized then [(space, Space)]
      else if normalized \<in> set JAPANESE_PUNCTUATION then [(normalized, Punctuation)]
      else [(space, NormalizedSpace)])"

text \<open>One iteration of the loop; \<open>rest\<close> are the words after this one (\<open>words[index + 1:]\<close>).\<close>

definition g2p_word :: "pyenv \<Rightarrow> njd_word list \<Rightarrow> njd_word \<Rightarrow> g2p_state \<Rightarrow> g2p_state result" where
  "g2p_word env rest word st =
     (let normalized = py_nfkc env (njd_string word) in
      if is_filler word normalized then
        bindE (flush_chain st) (\<lambda>st.
          Inr (fold (\<lambda>c. append_unit [([c], Ascii)]) normalized st))
      else if is_symbol word then
        bindE (flush_chain st) (\<lambda>st. Inr (append_unit (symbol_unit normalized) st))
      else if njd_pron word = [] \<or> njd_mora_size word = 0 then
        Inr (if normalized \<noteq> [] \<and> \<not> str_isspace normalized
             then append_unit [(space, NormalizedSpace)] st else st)
      else
        (let st = st\<lparr>current_chain := current_chain st @ [word]\<rparr>;
             next_has_chain = (case rest of [] \<Rightarrow> False | w # _ \<Rightarrow> njd_chain_flag w = 1)
         in if next_has_chain then Inr st else flush_chain st))"

fun g2p_loop :: "pyenv \<Rightarrow> njd_word list \<Rightarrow> g2p_state \<Rightarrow> g2p_state result" where
  "g2p_loop env [] st = Inr st"
| "g2p_loop env (word # rest) st = bindE (g2p_word env rest word st) (g2p_loop env rest)"

definition initial_g2p :: g2p_state where
  "initial_g2p = \<lparr>g2p_output = [], current_chain = [], next_unit = 0\<rparr>"

definition g2p_tokens :: "pyenv \<Rightarrow> json list \<Rightarrow> g2p_token list result" where
  "g2p_tokens env rows =
     bindE (njd_words rows) (\<lambda>words.
     bindE (g2p_loop env words initial_g2p) (\<lambda>st.
     bindE (flush_chain st) (\<lambda>st. Inr (g2p_output st))))"

subsection \<open>Encoding\<close>

record core_token =
  core_symbol :: pystr
  core_kind :: token_kind
  core_unit_index :: nat
  core_local_token_id :: int
  core_global_token_id :: int

fun retain :: "(pystr \<rightharpoonup> int) \<Rightarrow> g2p_token list \<Rightarrow> g2p_token list \<Rightarrow> g2p_token list" where
  "retain effective retained [] = retained"
| "retain effective retained (token # tokens) =
     (if g2p_symbol token = space then
        (if retained \<noteq> [] \<and> g2p_symbol (last retained) \<noteq> space
         then retain effective (retained @ [token]) tokens
         else retain effective retained tokens)
      else if effective (g2p_symbol token) \<noteq> None
        then retain effective (retained @ [token]) tokens
      else retain effective retained tokens)"

definition pop_spaces :: "g2p_token list \<Rightarrow> g2p_token list" where
  "pop_spaces retained = rev (dropWhile (\<lambda>t. g2p_symbol t = space) (rev retained))"

definition encode_token :: "frontend_spec \<Rightarrow> g2p_token \<Rightarrow> core_token result" where
  "encode_token spec token =
     (case effective_local_ids spec (g2p_symbol token) of
        None \<Rightarrow> Inl (Exn PyKeyError ''missing token'')
      | Some i \<Rightarrow> Inr \<lparr>core_symbol = g2p_symbol token, core_kind = g2p_kind token,
                       core_unit_index = g2p_unit_index token, core_local_token_id = i,
                       core_global_token_id = global_offset spec + i\<rparr>)"

definition tokenize_core :: "frontend_spec \<Rightarrow> g2p_token list \<Rightarrow> core_token list result" where
  "tokenize_core spec tokens =
     mapE (encode_token spec) (pop_spaces (retain (effective_local_ids spec) [] tokens))"

definition unit_end_positions :: "core_token list \<Rightarrow> nat set" where
  "unit_end_positions tokens = set (0 # filter
     (\<lambda>i. i = length tokens \<or>
          core_unit_index (tokens ! i) \<noteq> core_unit_index (tokens ! (i - 1)))
     [1..<Suc (length tokens)])"

subsection \<open>Moras and pitches\<close>

lemma mora_tail_is_mora: "mora_tail d \<Longrightarrow> mora_head d \<or> mora_single d"
  by (auto simp: mora_tail_def mora_head_def mora_single_def)

lemma concat_split_moras_lemma:
  "concat (split_moras s) = filter (\<lambda>c. mora_head c \<or> mora_single c) s"
  by (induction s rule: split_moras.induct) (auto dest: mora_tail_is_mora)

lemma split_moras_length: "m \<in> set (split_moras s) \<Longrightarrow> length m = 1 \<or> length m = 2"
  by (induction s rule: split_moras.induct) (auto split: if_splits)

lemma pitch_pattern_length:
  "0 \<le> acc \<Longrightarrow> length (pitch_pattern acc n) = n"
  by (auto simp: pitch_pattern_def)

lemma pitch_pattern_length_negative:
  "acc < 0 \<Longrightarrow> 0 < n \<Longrightarrow> n < length (pitch_pattern acc n)"
  by (auto simp: pitch_pattern_def)

lemma pitch_pattern_bit: "p \<in> set (pitch_pattern acc n) \<Longrightarrow> p = 0 \<or> p = 1"
  by (auto simp: pitch_pattern_def split: if_splits)

lemma zip_strict_eq_Inr [result_simps]:
  "zip_strict xs ys = Inr ps \<longleftrightarrow> length xs = length ys \<and> ps = zip xs ys"
  by (auto simp: zip_strict_def)

lemma nat_digits_bit: "nat_digits 0 = [48]" "nat_digits (Suc 0) = [49]"
  by (simp_all add: nat_digits.simps)

subsection \<open>The output is a sequence of units\<close>

type_synonym g2p_unit = "(pystr \<times> token_kind) list"

definition unit_tokens :: "nat \<Rightarrow> g2p_unit \<Rightarrow> g2p_token list" where
  "unit_tokens i u = map (\<lambda>(s, k). \<lparr>g2p_symbol = s, g2p_kind = k, g2p_unit_index = i\<rparr>) u"

fun units_from :: "nat \<Rightarrow> g2p_unit list \<Rightarrow> g2p_token list" where
  "units_from i [] = []"
| "units_from i (u # us) = unit_tokens i u @ units_from (Suc i) us"

text \<open>A unit is one stand-alone token, or a pitch digit and the one or two kana of its mora.\<close>

definition wf_unit :: "g2p_unit \<Rightarrow> bool" where
  "wf_unit u \<longleftrightarrow>
     (\<exists>s k. u = [(s, k)] \<and> k \<in> {Ascii, Space, Punctuation, NormalizedSpace}) \<or>
     (\<exists>p m. u = mora_unit (m, p) \<and> p \<in> {0, 1} \<and> length m \<in> {1, 2})"

definition g2p_ok :: "g2p_state \<Rightarrow> bool" where
  "g2p_ok st \<longleftrightarrow> (\<exists>us. g2p_output st = units_from 0 us \<and> next_unit st = length us \<and> list_all wf_unit us)"

lemma units_from_append: "units_from i (us @ vs) = units_from i us @ units_from (i + length us) vs"
  by (induction us arbitrary: i) simp_all

lemma units_from_index: "t \<in> set (units_from i us) \<Longrightarrow> i \<le> g2p_unit_index t"
  by (induction us arbitrary: i) (fastforce simp: unit_tokens_def)+

lemma sorted_units_from: "sorted (map g2p_unit_index (units_from i us))"
proof (induction us arbitrary: i)
  case Nil
  then show ?case by simp
next
  case (Cons u us)
  have "map g2p_unit_index (unit_tokens i u) = replicate (length u) i"
    by (induction u) (auto simp: unit_tokens_def)
  with Cons show ?case
    by (auto simp: sorted_append dest: units_from_index)
qed

lemma g2p_ok_initial: "g2p_ok initial_g2p"
  by (auto simp: g2p_ok_def initial_g2p_def intro: exI [of _ "[]"])

lemma g2p_ok_append_unit:
  assumes "g2p_ok st" and "wf_unit u"
  shows "g2p_ok (append_unit u st)"
proof -
  from assms(1) obtain us where "g2p_output st = units_from 0 us" "next_unit st = length us"
    "list_all wf_unit us" by (auto simp: g2p_ok_def)
  with assms(2) show ?thesis
    unfolding g2p_ok_def append_unit_def
    by (intro exI [of _ "us @ [u]"]) (simp add: units_from_append unit_tokens_def)
qed

lemma g2p_ok_fold_units:
  "g2p_ok st \<Longrightarrow> (\<And>x. x \<in> set xs \<Longrightarrow> wf_unit (f x)) \<Longrightarrow> g2p_ok (fold (\<lambda>x. append_unit (f x)) xs st)"
  by (induction xs arbitrary: st) (simp_all add: g2p_ok_append_unit)

lemma g2p_ok_chain [simp]: "g2p_ok (st\<lparr>current_chain := ws\<rparr>) \<longleftrightarrow> g2p_ok st"
  by (simp add: g2p_ok_def)

lemma wf_unit_mora:
  assumes "mp \<in> set (zip moras (pitch_pattern acc n))"
    and "\<And>m. m \<in> set moras \<Longrightarrow> length m = 1 \<or> length m = 2"
  shows "wf_unit (mora_unit mp)"
proof -
  obtain m p where mp: "mp = (m, p)" by (cases mp)
  with assms(1) have "m \<in> set moras" "p \<in> set (pitch_pattern acc n)"
    by (auto elim: in_set_zipE)
  with assms(2) pitch_pattern_bit mp show ?thesis unfolding wf_unit_def by blast
qed

lemma flush_chain_cases:
  assumes "flush_chain st = Inr st'"
  obtains "st' = st"
  | moras acc where "moras = concat (map (\<lambda>w. split_moras (njd_pron w)) (current_chain st))"
      and "st' = (fold (\<lambda>mp. append_unit (mora_unit mp))
                   (zip moras (pitch_pattern acc (length moras))) st)\<lparr>current_chain := []\<rparr>"
  using assms by (cases "current_chain st") (auto simp: flush_chain_def Let_def result_simps)

lemma g2p_ok_flush:
  assumes "g2p_ok st" and "flush_chain st = Inr st'"
  shows "g2p_ok st'"
  using assms(2)
proof (cases rule: flush_chain_cases)
  case 1
  with assms(1) show ?thesis by simp
next
  case (2 moras acc)
  have "length m = 1 \<or> length m = 2" if "m \<in> set moras" for m
    using that 2(1) by (auto dest: split_moras_length)
  then have "g2p_ok (fold (\<lambda>mp. append_unit (mora_unit mp))
      (zip moras (pitch_pattern acc (length moras))) st)"
    by (intro g2p_ok_fold_units assms(1) wf_unit_mora)
  with 2(2) show ?thesis by simp
qed

lemma wf_unit_symbol: "wf_unit (symbol_unit s)"
  by (auto simp: symbol_unit_def wf_unit_def)

lemma wf_unit_single [simp]:
  "k \<in> {Ascii, Space, Punctuation, NormalizedSpace} \<Longrightarrow> wf_unit [(s, k)]"
  by (auto simp: wf_unit_def)

lemma g2p_ok_flush_chain:
  "g2p_ok st \<Longrightarrow> flush_chain (st\<lparr>current_chain := ws\<rparr>) = Inr st' \<Longrightarrow> g2p_ok st'"
  by (rule g2p_ok_flush) simp_all

lemma g2p_ok_word: "g2p_ok st \<Longrightarrow> g2p_word env rest w st = Inr st' \<Longrightarrow> g2p_ok st'"
  by (auto simp: g2p_word_def Let_def result_simps wf_unit_symbol
      intro!: g2p_ok_fold_units g2p_ok_append_unit
      dest: g2p_ok_flush g2p_ok_flush_chain split: if_splits list.splits)

lemma g2p_ok_loop: "g2p_ok st \<Longrightarrow> g2p_loop env ws st = Inr st' \<Longrightarrow> g2p_ok st'"
  by (induction env ws st rule: g2p_loop.induct) (auto simp: result_simps dest: g2p_ok_word)

lemma g2p_tokens_ok:
  assumes "g2p_tokens env rows = Inr ts"
  obtains us where "ts = units_from 0 us" and "list_all wf_unit us"
proof -
  from assms obtain ws st st' where "g2p_loop env ws initial_g2p = Inr st"
    and "flush_chain st = Inr st'" and "ts = g2p_output st'"
    by (auto simp: g2p_tokens_def result_simps)
  with g2p_ok_initial have "g2p_ok st'" "ts = g2p_output st'"
    by (auto dest: g2p_ok_loop g2p_ok_flush)
  with that show ?thesis by (auto simp: g2p_ok_def)
qed

lemma g2p_tokens_sorted: "g2p_tokens env rows = Inr ts \<Longrightarrow> sorted (map g2p_unit_index ts)"
  by (erule g2p_tokens_ok) (simp add: sorted_units_from)

subsection \<open>Totality\<close>

definition chain_nonneg :: "g2p_state \<Rightarrow> bool" where
  "chain_nonneg st \<longleftrightarrow> list_all (\<lambda>w. 0 \<le> njd_acc w) (current_chain st)"

lemma find_in_set: "find P xs = Some x \<Longrightarrow> x \<in> set xs"
  by (metis find_Some_iff nth_mem)

lemma flush_chain_total:
  assumes "chain_nonneg st"
  shows "\<exists>st'. flush_chain st = Inr st' \<and> current_chain st' = []"
proof (cases "current_chain st")
  case Nil
  then show ?thesis by (simp add: flush_chain_def)
next
  case (Cons w ws)
  let ?s = "case find (\<lambda>w. njd_chain_flag w \<noteq> 1) (current_chain st) of Some w \<Rightarrow> w | None \<Rightarrow> w"
  have "?s \<in> set (current_chain st)"
    using Cons by (auto split: option.splits dest: find_in_set)
  with assms have "0 \<le> njd_acc ?s" by (auto simp: chain_nonneg_def list_all_iff)
  with Cons show ?thesis
    by (simp add: flush_chain_def Let_def zip_strict_def pitch_pattern_length)
qed

lemma fold_append_unit_chain [simp]:
  "current_chain (fold (\<lambda>x. append_unit (f x)) xs st) = current_chain st"
  by (induction xs arbitrary: st) (simp_all add: append_unit_def)

lemma append_unit_chain [simp]: "current_chain (append_unit u st) = current_chain st"
  by (simp add: append_unit_def)

lemma g2p_word_total:
  assumes "chain_nonneg st" and "0 \<le> njd_acc w"
  shows "\<exists>st'. g2p_word env rest w st = Inr st' \<and> chain_nonneg st'"
proof -
  have "chain_nonneg (st\<lparr>current_chain := current_chain st @ [w]\<rparr>)"
    using assms by (simp add: chain_nonneg_def)
  from flush_chain_total [OF this] flush_chain_total [OF assms(1)] this assms(1)
  show ?thesis
    by (auto simp: g2p_word_def Let_def chain_nonneg_def)
qed

lemma g2p_loop_total:
  "chain_nonneg st \<Longrightarrow> \<forall>w \<in> set ws. 0 \<le> njd_acc w \<Longrightarrow>
   \<exists>st'. g2p_loop env ws st = Inr st' \<and> chain_nonneg st'"
proof (induction ws arbitrary: st)
  case Nil
  then show ?case by simp
next
  case (Cons w ws)
  from g2p_word_total [of st w env ws] Cons.prems obtain st1
    where "g2p_word env ws w st = Inr st1" "chain_nonneg st1" by auto
  with Cons show ?case by simp
qed

lemma g2p_tokens_returns:
  assumes "njd_words rows = Inr ws" and "\<forall>w \<in> set ws. 0 \<le> njd_acc w"
  shows "\<exists>ts. g2p_tokens env rows = Inr ts"
proof -
  have "chain_nonneg initial_g2p" by (simp add: chain_nonneg_def initial_g2p_def)
  from g2p_loop_total [OF this assms(2)] obtain st
    where "g2p_loop env ws initial_g2p = Inr st" "chain_nonneg st" by blast
  with flush_chain_total [of st] assms(1) show ?thesis by (auto simp: g2p_tokens_def)
qed

subsection \<open>Retained tokens\<close>

definition not_both_space :: "pystr \<Rightarrow> pystr \<Rightarrow> bool" where
  "not_both_space a b \<longleftrightarrow> \<not> (a = space \<and> b = space)"

definition retained_ok :: "(pystr \<rightharpoonup> int) \<Rightarrow> g2p_token list \<Rightarrow> bool" where
  "retained_ok effective ts \<longleftrightarrow>
     successively not_both_space (map g2p_symbol ts) \<and>
     (ts \<noteq> [] \<longrightarrow> g2p_symbol (hd ts) \<noteq> space) \<and>
     list_all (\<lambda>t. g2p_symbol t = space \<or> effective (g2p_symbol t) \<noteq> None) ts"

lemma retained_ok_snoc:
  assumes "retained_ok effective ts"
    and "g2p_symbol t = space \<Longrightarrow> ts \<noteq> [] \<and> g2p_symbol (last ts) \<noteq> space"
    and "g2p_symbol t \<noteq> space \<Longrightarrow> effective (g2p_symbol t) \<noteq> None"
  shows "retained_ok effective (ts @ [t])"
  using assms
  by (cases "ts = []")
    (auto simp: retained_ok_def successively_append_iff not_both_space_def last_map)

lemma retain_spec:
  "retained_ok effective acc \<Longrightarrow>
   retained_ok effective (retain effective acc ts) \<and>
   (\<exists>zs. retain effective acc ts = acc @ zs \<and> subseq zs ts)"
proof (induction effective acc ts rule: retain.induct)
  case (1 effective acc)
  then show ?case by simp
next
  case (2 effective acc t ts)
  consider (keep_space) "g2p_symbol t = space" "acc \<noteq> []" "g2p_symbol (last acc) \<noteq> space"
    | (keep) "g2p_symbol t \<noteq> space" "effective (g2p_symbol t) \<noteq> None"
    | (skip) "retain effective acc (t # ts) = retain effective acc ts"
        "(g2p_symbol t = space \<and> (acc = [] \<or> g2p_symbol (last acc) = space))
         \<or> (g2p_symbol t \<noteq> space \<and> effective (g2p_symbol t) = None)"
    by (cases "g2p_symbol t = space"; cases "acc = [] \<or> g2p_symbol (last acc) = space";
        cases "effective (g2p_symbol t)") auto
  then show ?case
  proof cases
    case keep_space
    with "2.IH"(1) [OF keep_space(1)] "2.prems" retained_ok_snoc [of effective acc t]
    show ?thesis by (auto simp: list_emb_Cons)
  next
    case keep
    with "2.IH"(3) [OF keep] "2.prems" retained_ok_snoc [of effective acc t]
    show ?thesis by auto
  next
    case skip
    with "2.IH"(2,4) "2.prems" show ?thesis by (auto intro: list_emb_Cons)
  qed
qed

lemma prefix_pop_spaces: "prefix (pop_spaces ts) ts"
  unfolding pop_spaces_def by (metis prefix_def rev_append rev_rev_ident takeWhile_dropWhile_id)

lemma last_pop_spaces: "pop_spaces ts \<noteq> [] \<Longrightarrow> g2p_symbol (last (pop_spaces ts)) \<noteq> space"
  unfolding pop_spaces_def
  using hd_dropWhile [of "\<lambda>t. g2p_symbol t = space" "rev ts"] by (auto simp: last_rev)

lemma retained_ok_prefix: "prefix us ts \<Longrightarrow> retained_ok effective ts \<Longrightarrow> retained_ok effective us"
  by (auto simp: retained_ok_def prefix_def successively_append_iff)

definition kept_tokens :: "frontend_spec \<Rightarrow> g2p_token list \<Rightarrow> g2p_token list" where
  "kept_tokens spec ts = pop_spaces (retain (effective_local_ids spec) [] ts)"

lemma kept_tokens_props:
  shows "retained_ok (effective_local_ids spec) (kept_tokens spec ts)"
    and "subseq (kept_tokens spec ts) ts"
    and "kept_tokens spec ts \<noteq> [] \<Longrightarrow> g2p_symbol (last (kept_tokens spec ts)) \<noteq> space"
proof -
  let ?r = "retain (effective_local_ids spec) [] ts"
  have "retained_ok (effective_local_ids spec) []" by (simp add: retained_ok_def)
  from retain_spec [OF this, of ts]
  have r: "retained_ok (effective_local_ids spec) ?r" "subseq ?r ts" by auto
  with prefix_pop_spaces [of ?r] show "retained_ok (effective_local_ids spec) (kept_tokens spec ts)"
    by (simp add: kept_tokens_def retained_ok_prefix)
  show "subseq (kept_tokens spec ts) ts"
    unfolding kept_tokens_def using prefix_pop_spaces [of ?r] r(2)
    by (metis prefix_imp_subseq subseq_order.order_trans)
  show "kept_tokens spec ts \<noteq> [] \<Longrightarrow> g2p_symbol (last (kept_tokens spec ts)) \<noteq> space"
    by (simp add: kept_tokens_def last_pop_spaces)
qed

lemma encode_token_eq_Inr:
  "encode_token spec t = Inr c \<longleftrightarrow> core_symbol c = g2p_symbol t \<and> core_kind c = g2p_kind t \<and>
     core_unit_index c = g2p_unit_index t \<and>
     effective_local_ids spec (g2p_symbol t) = Some (core_local_token_id c) \<and>
     core_global_token_id c = global_offset spec + core_local_token_id c"
  by (cases c) (auto simp: encode_token_def split: option.splits)

lemma tokenize_core_maps:
  assumes "tokenize_core spec ts = Inr core"
  shows "map core_symbol core = map g2p_symbol (kept_tokens spec ts)"
    and "map core_unit_index core = map g2p_unit_index (kept_tokens spec ts)"
    and "c \<in> set core \<Longrightarrow> effective_local_ids spec (core_symbol c) = Some (core_local_token_id c)
           \<and> core_global_token_id c = global_offset spec + core_local_token_id c"
proof -
  from assms have "mapE (encode_token spec) (kept_tokens spec ts) = Inr core"
    by (simp add: tokenize_core_def kept_tokens_def)
  then have a: "list_all2 (\<lambda>t c. encode_token spec t = Inr c) (kept_tokens spec ts) core"
    by (simp add: mapE_Inr_iff)
  then show "map core_symbol core = map g2p_symbol (kept_tokens spec ts)"
    and "map core_unit_index core = map g2p_unit_index (kept_tokens spec ts)"
    by (induction rule: list_all2_induct) (auto simp: encode_token_eq_Inr)
  from a show "c \<in> set core \<Longrightarrow> effective_local_ids spec (core_symbol c) = Some (core_local_token_id c)
           \<and> core_global_token_id c = global_offset spec + core_local_token_id c"
    by (induction rule: list_all2_induct) (auto simp: encode_token_eq_Inr)
qed

lemma tokenize_core_total:
  assumes "effective_local_ids spec space \<noteq> None"
  shows "\<exists>core. tokenize_core spec ts = Inr core"
proof -
  have "\<exists>c. encode_token spec t = Inr c" if "t \<in> set (kept_tokens spec ts)" for t
  proof -
    from kept_tokens_props(1) [of spec ts] that assms
    have "effective_local_ids spec (g2p_symbol t) \<noteq> None"
      by (auto simp: retained_ok_def list_all_iff)
    then show ?thesis by (auto simp: encode_token_def)
  qed
  then obtain g where "\<And>t. t \<in> set (kept_tokens spec ts) \<Longrightarrow> encode_token spec t = Inr (g t)"
    by metis
  then have "mapE (encode_token spec) (kept_tokens spec ts) = Inr (map g (kept_tokens spec ts))"
    by (rule mapE_all_Inr)
  then show ?thesis by (simp add: tokenize_core_def kept_tokens_def)
qed

lemma sorted_subseq: "subseq xs ys \<Longrightarrow> sorted ys \<Longrightarrow> sorted (xs :: 'a::linorder list)"
  by (induction rule: list_emb.induct) (auto dest: list_emb_set)

lemma tokenize_core_sorted:
  assumes "g2p_tokens env rows = Inr ts" and "tokenize_core spec ts = Inr core"
  shows "sorted (map core_unit_index core)"
proof -
  have "subseq (map g2p_unit_index (kept_tokens spec ts)) (map g2p_unit_index ts)"
    by (rule subseq_map) (rule kept_tokens_props(2))
  with g2p_tokens_sorted [OF assms(1)] tokenize_core_maps(2) [OF assms(2)] show ?thesis
    by (metis sorted_subseq)
qed

lemma unit_end_positions_iff:
  "k \<in> unit_end_positions core \<longleftrightarrow> k = 0 \<or> k \<le> length core \<and>
     (k = length core \<or> core_unit_index (core ! k) \<noteq> core_unit_index (core ! (k - 1)))"
  by (auto simp: unit_end_positions_def Suc_le_eq)

lemma unit_end_no_split_lemma:
  assumes "sorted (map core_unit_index core)" and "k \<in> unit_end_positions core"
    and "i < k" and "k \<le> j" and "j < length core"
  shows "core_unit_index (core ! i) < core_unit_index (core ! j)"
proof -
  from assms have k: "k < length core" "core_unit_index (core ! k) \<noteq> core_unit_index (core ! (k - 1))"
    by (auto simp: unit_end_positions_iff)
  have mono: "core_unit_index (core ! a) \<le> core_unit_index (core ! b)" if "a \<le> b" "b < length core" for a b
    using assms(1) that by (auto simp: sorted_iff_nth_mono)
  from assms k have "core_unit_index (core ! i) \<le> core_unit_index (core ! (k - 1))"
    by (intro mono) auto
  also have "\<dots> < core_unit_index (core ! k)"
    using k mono [of "k - 1" k] by (simp add: order.not_eq_order_implies_strict)
  also have "\<dots> \<le> core_unit_index (core ! j)" using assms by (intro mono) auto
  finally show ?thesis .
qed

subsection \<open>A concrete frontend\<close>

definition demo_env :: pyenv where
  "demo_env = \<lparr>py_lower = (\<lambda>s. s), py_nfkc = (\<lambda>s. s), py_float_repr = (\<lambda>_. []),
     py_json_loads = (\<lambda>_. None)\<rparr>"

definition demo_row :: "nat \<Rightarrow> token_table_row list" where
  "demo_row n = map (\<lambda>(i, t). \<lparr>row_effective_local_id = int i, row_global_id = int (100 + i),
     row_local_id = int i, row_token = t\<rparr>)
     (enumerate 0 [space, pys ''0'', pys ''1'', [12450], [12290]])"

definition demo_spec :: frontend_spec where
  "demo_spec = \<lparr>aggregate_vocabulary_size = 105, text_embedding_rows = 106, bos_token_id = 0,
     eos_token_id = 105, global_offset = 100, global_pad_token_id = 100, local_vocabulary_size = 5,
     long_vowel_mark_effective_local_token_id = 3,
     pyopenjtalk = \<lparr>ojt_version = [], ojt_dictionary = \<lparr>dict_directory_name = [],
       dict_manifest_canonicalization = [], dict_manifest_sha256 = [], dict_files = []\<rparr>\<rparr>,
     token_table = demo_row 5, token_table_sha256 = [], golden_raw_text = [], golden_g2p_tokens = [],
     golden_local_token_ids = [], golden_global_token_ids_with_eos = []\<rparr>"

text \<open>One word of one mora for the kana, one symbol word for anything else.\<close>

definition demo_word :: "nat \<Rightarrow> json" where
  "demo_word c = JObj
     [(pys ''string'', JStr [c]), (pys ''pron'', JStr (if c = 12354 then [12450] else [c])),
      (pys ''pos'', JStr (if c = 12354 then [] else SYMBOL)), (pys ''pos_group1'', JStr []),
      (pys ''chain_flag'', JInt 0), (pys ''mora_size'', JInt 1), (pys ''acc'', JInt 0)]"

subsection \<open>Properties\<close>

text \<open>Splitting katakana into moras loses no kana: the moras concatenate to the characters of
the input that the mora pattern knows, and each mora has one or two of them.\<close>

theorem split_moras_keep_kana:
  "concat (split_moras s) = filter (\<lambda>c. mora_head c \<or> mora_single c) s \<and>
   list_all (\<lambda>m. length m = 1 \<or> length m = 2) (split_moras s)"
  by (auto simp: concat_split_moras_lemma list_all_iff dest: split_moras_length)

text \<open>The pitch pattern is the accent rule. For an accent nucleus that is not negative there is
one pitch per mora, and a mora is high exactly when it is the first and the nucleus is 1, or it is not
the first and the word is flat (nucleus 0) or the mora comes no later than the nucleus.\<close>

theorem pitch_pattern_accent_rule:
  assumes "0 \<le> acc"
  shows "pitch_pattern acc n =
    map (\<lambda>i. if (if acc = 1 then i = 0 else 0 < i \<and> (acc = 0 \<or> int i < acc)) then 1 else 0) [0..<n]"
proof (rule nth_equalityI)
  show "length (pitch_pattern acc n) = length (map (\<lambda>i. if (if acc = 1 then i = 0
      else 0 < i \<and> (acc = 0 \<or> int i < acc)) then 1 else 0) [0..<n])"
    using pitch_pattern_length [OF assms] by simp
next
  fix i assume "i < length (pitch_pattern acc n)"
  then have "i < n" by (simp add: pitch_pattern_length assms)
  with assms show "pitch_pattern acc n ! i = map (\<lambda>i. if (if acc = 1 then i = 0
      else 0 < i \<and> (acc = 0 \<or> int i < acc)) then 1 else 0) [0..<n] ! i"
    by (auto simp: pitch_pattern_def nth_Cons nth_append split: nat.splits)
qed

theorem pitch_pattern_accent_rule_witness:
  "pitch_pattern 2 4 =
    map (\<lambda>i. if (if (2::int) = 1 then i = 0 else 0 < i \<and> ((2::int) = 0 \<or> int i < 2)) then 1 else 0) [0..<4]"
  by (rule pitch_pattern_accent_rule) simp

text \<open>A negative accent nucleus is the one way a chain of words with moras fails, and it fails with
a ValueError of the strict zip, not with an error of the frontend.\<close>

theorem negative_accent_raises:
  assumes "current_chain st = w # ws" and "find (\<lambda>w. njd_chain_flag w \<noteq> 1) (w # ws) = Some starter"
    and "concat (map (\<lambda>w. split_moras (njd_pron w)) (w # ws)) \<noteq> []"
  shows "(if njd_acc starter < 0
     then flush_chain st = Inl (Exn PyValueError ''zip() argument 2 is longer than argument 1'')
     else \<exists>st'. flush_chain st = Inr st' \<and> current_chain st' = [])"
proof -
  let ?m = "concat (map (\<lambda>w. split_moras (njd_pron w)) (w # ws))"
  note len = pitch_pattern_length [of "njd_acc starter" "length ?m"]
    pitch_pattern_length_negative [of "njd_acc starter" "length ?m"]
  have "flush_chain st = bindE (zip_strict ?m (pitch_pattern (njd_acc starter) (length ?m)))
      (\<lambda>pairs. Inr ((fold (\<lambda>mp. append_unit (mora_unit mp)) pairs st)\<lparr>current_chain := []\<rparr>))"
    by (simp only: flush_chain_def Let_def assms(1,2) list.case option.case)
  then show ?thesis
    using len assms(3) by (auto simp: zip_strict_def simp del: concat.simps list.map)
qed

definition negative_word :: njd_word where
  "negative_word = \<lparr>njd_string = [12450], njd_pron = [12450], njd_pos = [], njd_pos_group1 = [],
     njd_chain_flag = 0, njd_mora_size = 1, njd_acc = - 1\<rparr>"

theorem negative_accent_raises_witness:
  "flush_chain (initial_g2p\<lparr>current_chain := [negative_word]\<rparr>) =
     Inl (Exn PyValueError ''zip() argument 2 is longer than argument 1'')"
  using negative_accent_raises [of "initial_g2p\<lparr>current_chain := [negative_word]\<rparr>" negative_word "[]"
      negative_word]
  by (simp add: negative_word_def mora_head_def)

text \<open>Whatever words the runner returns, a successful conversion is a sequence of units with
consecutive indices from 0, each of them one stand-alone token or a pitch digit followed by the one or
two kana of its mora; and it returns whenever the rows are well formed and no accent is negative.\<close>

theorem g2p_tokens_units:
  assumes "njd_words rows = Inr ws" and "\<forall>w \<in> set ws. 0 \<le> njd_acc w"
  shows "\<exists>us. g2p_tokens env rows = Inr (units_from 0 us) \<and> list_all wf_unit us"
proof -
  from g2p_tokens_returns [OF assms] obtain ts where ts: "g2p_tokens env rows = Inr ts" by blast
  then obtain us where "ts = units_from 0 us" "list_all wf_unit us" by (rule g2p_tokens_ok)
  with ts show ?thesis by blast
qed

theorem g2p_tokens_units_witness:
  "\<exists>us. g2p_tokens demo_env [demo_word 12354] = Inr (units_from 0 us) \<and> list_all wf_unit us"
  by (rule g2p_tokens_units [of _ "[\<lparr>njd_string = [12354], njd_pron = [12450], njd_pos = [],
      njd_pos_group1 = [], njd_chain_flag = 0, njd_mora_size = 1, njd_acc = 0\<rparr>]"])
    (simp_all add: njd_words_def demo_word_def parse_njd_row_def text_field_def integer_field_def
      dict_get_def pys_def)

text \<open>Tokenization is total for a vocabulary with a space symbol and normalises spaces: the core
symbols are a subsequence of the converted ones without a space at either end or two in a row, every
one of them is in the vocabulary, its local id is the vocabulary's and its global id that id plus the
offset of the language.\<close>

theorem tokenize_core_normalises:
  assumes "effective_local_ids spec space \<noteq> None"
  shows "\<exists>core. tokenize_core spec ts = Inr core \<and>
    subseq (map core_symbol core) (map g2p_symbol ts) \<and>
    successively not_both_space (map core_symbol core) \<and>
    (core \<noteq> [] \<longrightarrow> core_symbol (hd core) \<noteq> space \<and> core_symbol (last core) \<noteq> space) \<and>
    list_all (\<lambda>c. effective_local_ids spec (core_symbol c) = Some (core_local_token_id c) \<and>
      core_global_token_id c = global_offset spec + core_local_token_id c) core"
proof -
  from tokenize_core_total [OF assms] obtain core where core: "tokenize_core spec ts = Inr core" by blast
  note maps = tokenize_core_maps [OF core] and kept = kept_tokens_props [of spec ts]
  from maps(1) have empty: "core = [] \<longleftrightarrow> kept_tokens spec ts = []" by (metis map_is_Nil_conv)
  have "core_symbol (hd core) = g2p_symbol (hd (kept_tokens spec ts)) \<and>
      core_symbol (last core) = g2p_symbol (last (kept_tokens spec ts))" if "core \<noteq> []"
    using that empty maps(1) by (metis hd_map last_map)
  with kept empty core maps show ?thesis
    by (auto simp: retained_ok_def list_all_iff subseq_map)
qed

theorem tokenize_core_normalises_witness:
  "\<exists>core. tokenize_core demo_spec [\<lparr>g2p_symbol = space, g2p_kind = Space, g2p_unit_index = 0\<rparr>]
      = Inr core \<and> subseq (map core_symbol core) [space]"
proof -
  have "effective_local_ids demo_spec space \<noteq> None"
    by (simp add: demo_spec_def demo_row_def effective_local_ids_def effective_ids_of_def
        enumerate_eq_zip space_def pys_def)
  from tokenize_core_normalises [OF this,
      of "[\<lparr>g2p_symbol = space, g2p_kind = Space, g2p_unit_index = 0\<rparr>]"]
  show ?thesis by (auto simp del: subseq_singleton_left)
qed

end
