(* ===== verification/SourceLineage.thy ===== *)
theory SourceLineage
  imports JapaneseG2P
begin

text \<open>
  \<open>_project_source\<close> and \<open>LockedJapaneseFrontend\<close> up to \<open>prepare\<close> (second half of
  \<open>tools/frontend/japanese_frontend.py\<close>): the one-scalar source projection, prefix replay of
  OpenJTalk, the certified prefixes, the source segments, the prepared tokens and the progress
  table.

  The runner is an argument, as in the code. It may raise, and may return anything: every
  statement holds for all runners, since the code checks what it relies on. The loops of \<open>prepare\<close>
  are \<open>certify_loop\<close> (over the prefixes), \<open>segment_loop\<close> (over the certified prefixes),
  \<open>append_segment_tokens\<close> (over the core tokens of a segment) and \<open>progress_monotone\<close>.
\<close>

type_synonym runner = "pystr \<Rightarrow> json list result"

subsection \<open>Record types\<close>

record source_segment =
  seg_source_char_start :: nat
  seg_source_char_end :: nat
  seg_source_utf8_start :: nat
  seg_source_utf8_end :: nat
  seg_core_token_start :: nat
  seg_core_token_end :: nat

record prepared_token =
  tok_token_index :: nat
  tok_symbol :: pystr
  tok_kind :: token_kind
  tok_unit_index :: "nat option"
  tok_local_token_id :: "int option"
  tok_global_token_id :: int
  tok_source_char_start :: nat
  tok_source_char_end :: nat
  tok_source_utf8_start :: nat
  tok_source_utf8_end :: nat
  tok_commit_char_end :: nat
  tok_commit_utf8_end :: nat

record source_progress =
  prog_committed_text_tokens :: nat
  prog_source_char_end :: nat
  prog_source_utf8_end :: nat

record alignment_proof =
  proof_method :: string
  proof_prepared_char_count :: nat
  proof_core_token_count :: nat
  proof_certified_prefix_count :: nat
  proof_segments :: "source_segment list"

record prepared_utterance =
  utt_source_text :: pystr
  utt_normalized_text :: pystr
  utt_g2p_tokens :: "pystr list"
  utt_global_token_ids :: "int list"
  utt_tokens :: "prepared_token list"
  utt_progress :: "source_progress list"
  utt_proof :: alignment_proof

definition source_progress_at :: "prepared_utterance \<Rightarrow> int \<Rightarrow> source_progress result" where
  "source_progress_at u committed =
     (if committed < 0 \<or> int (length (utt_progress u)) \<le> committed
      then Inl (Exn PyIndexError ''committed_text_tokens must be within the prepared token sequence'')
      else Inr (utt_progress u ! nat committed))"

subsection \<open>Source projection\<close>

record source_projection =
  normalized_text :: pystr
  prepared_source_char_ends :: "nat list"
  utf8_boundaries :: "nat list"
  last_non_whitespace_source_end :: nat

text \<open>The first loop: the characters kept and, for each, the position just after it.\<close>

fun compact_loop :: "nat \<Rightarrow> pystr \<Rightarrow> pystr \<times> nat list" where
  "compact_loop index [] = ([], [])"
| "compact_loop index (c # cs) =
     (if char_isspace c then compact_loop (index + 1) cs
      else (let (chars, ends) = compact_loop (index + 1) cs in (c # chars, (index + 1) # ends)))"

text \<open>The UTF-8 boundary table: \<open>b\<close> is \<open>utf8_boundaries[-1]\<close>.\<close>

fun utf8_boundaries_from :: "nat \<Rightarrow> pystr \<Rightarrow> nat list result" where
  "utf8_boundaries_from b [] = Inr [b]"
| "utf8_boundaries_from b (c # cs) =
     bindE (utf8_char c) (\<lambda>bytes.
     bindE (utf8_boundaries_from (b + length bytes) cs) (\<lambda>bs. Inr (b # bs)))"

definition normalization_error :: "string \<Rightarrow> exn" where
  "normalization_error m = Exn SourceNormalizationError m"

definition project_source :: "pyenv \<Rightarrow> pystr \<Rightarrow> source_projection result" where
  "project_source env source_text =
     (let (compact, ends) = compact_loop 0 source_text;
          normalized = py_lower env compact;
          independently_lowered = map (\<lambda>c. py_lower env [c]) compact
      in if list_ex (\<lambda>v. length v \<noteq> 1) independently_lowered
           then Inl (normalization_error ''lowercase preprocessing expands a source Unicode scalar'')
         else if normalized \<noteq> concat independently_lowered
           then Inl (normalization_error
             ''context-sensitive lowercase preprocessing has no one-scalar lineage'')
         else if normalized = []
           then Inl (normalization_error ''source text contains no non-whitespace Unicode scalar'')
         else bindE (utf8_boundaries_from 0 source_text) (\<lambda>bounds.
           Inr \<lparr>normalized_text = normalized, prepared_source_char_ends = ends,
                utf8_boundaries = bounds, last_non_whitespace_source_end = last ends\<rparr>))"

subsection \<open>Prefix replay\<close>

definition core_of ::
  "pyenv \<Rightarrow> frontend_spec \<Rightarrow> runner \<Rightarrow> pystr \<Rightarrow> (g2p_token list \<times> core_token list) result" where
  "core_of env spec runner text =
     bindE (runner text) (\<lambda>rows.
     bindE (g2p_tokens env rows) (\<lambda>g2p.
     bindE (tokenize_core spec g2p) (\<lambda>core. Inr (g2p, core))))"

definition njd_word_count :: "pyenv \<Rightarrow> runner \<Rightarrow> pystr \<Rightarrow> nat result" where
  "njd_word_count env runner source_text =
     bindE (project_source env source_text) (\<lambda>projection.
     bindE (runner (normalized_text projection)) (\<lambda>rows.
     bindE (njd_words rows) (\<lambda>words. Inr (length words))))"

definition verify_golden :: "pyenv \<Rightarrow> frontend_spec \<Rightarrow> runner \<Rightarrow> unit result" where
  "verify_golden env spec runner =
     bindE (core_of env spec runner (py_lower env (golden_raw_text spec))) (\<lambda>(g2p, core).
       if map g2p_symbol g2p \<noteq> golden_g2p_tokens spec
         then Inl (contract_error ''locked Japanese golden G2P output does not match runtime'')
       else (case effective_local_ids spec space of
           None \<Rightarrow> Inl (Exn PyKeyError ''missing token'')
         | Some b \<Rightarrow>
             if [b] @ map core_local_token_id core @ [b] \<noteq> golden_local_token_ids spec
               then Inl (contract_error ''locked Japanese golden local IDs do not match runtime'')
             else if [global_offset spec + b] @ map core_global_token_id core
                     @ [global_offset spec + b, eos_token_id spec]
                     \<noteq> golden_global_token_ids_with_eos spec
               then Inl (contract_error ''locked Japanese golden global IDs do not match runtime'')
             else Inr ()))"

definition ambiguous :: "string \<Rightarrow> exn" where
  "ambiguous m = Exn AmbiguousAlignmentError m"

definition core_identity :: "core_token \<Rightarrow> pystr \<times> int" where
  "core_identity t = (core_symbol t, core_local_token_id t)"

text \<open>One prefix: the number of core tokens it certifies, if it certifies any.\<close>

definition prefix_certifies ::
  "(pystr \<Rightarrow> (g2p_token list \<times> core_token list) result) \<Rightarrow> pystr \<Rightarrow> (pystr \<times> int) list \<Rightarrow> nat set \<Rightarrow>
   nat \<Rightarrow> nat option result" where
  "prefix_certifies core text full_identity unit_ends prepared_end =
     bindE (core (take prepared_end text)) (\<lambda>prefix.
       let prefix_identity = map core_identity (snd prefix);
           token_end = length prefix_identity
       in Inr (if token_end \<le> length full_identity \<and> prefix_identity = take token_end full_identity
                  \<and> token_end \<in> unit_ends
               then Some token_end else None))"

primrec certify_loop ::
  "(nat \<Rightarrow> nat option result) \<Rightarrow> nat list \<Rightarrow> (nat \<times> nat) list \<Rightarrow> nat \<Rightarrow> (nat \<times> nat) list result" where
  "certify_loop certifies [] certified maximum_end = Inr certified"
| "certify_loop certifies (prepared_end # ends) certified maximum_end =
     bindE (certifies prepared_end) (\<lambda>found.
       case found of
         None \<Rightarrow> certify_loop certifies ends certified maximum_end
       | Some token_end \<Rightarrow>
           if token_end < maximum_end
           then Inl (ambiguous ''certified OpenJTalk prefixes move token progress backward'')
           else certify_loop certifies ends (certified @ [(prepared_end, token_end)]) token_end)"

subsection \<open>Source segments\<close>

fun segment_loop ::
  "source_projection \<Rightarrow> (nat \<times> nat) list \<Rightarrow> source_segment list \<Rightarrow> nat \<Rightarrow> nat \<Rightarrow>
   (source_segment list \<times> nat \<times> nat) result" where
  "segment_loop projection [] segments source_start core_start = Inr (segments, source_start, core_start)"
| "segment_loop projection ((prepared_end, core_end) # certified) segments source_start core_start =
     (if core_end = core_start
        then segment_loop projection certified segments source_start core_start
      else if core_end < core_start
        then Inl (ambiguous ''OpenJTalk prefix alignment is not monotonic'')
      else bindE (py_nth (prepared_source_char_ends projection) (prepared_end - 1)) (\<lambda>source_end.
        if source_end \<le> source_start
          then Inl (ambiguous ''OpenJTalk token growth has no forward source interval'')
        else bindE (py_nth (utf8_boundaries projection) source_start) (\<lambda>utf8_start.
          bindE (py_nth (utf8_boundaries projection) source_end) (\<lambda>utf8_end.
          segment_loop projection certified
            (segments @ [\<lparr>seg_source_char_start = source_start, seg_source_char_end = source_end,
                          seg_source_utf8_start = utf8_start, seg_source_utf8_end = utf8_end,
                          seg_core_token_start = core_start, seg_core_token_end = core_end\<rparr>])
            source_end core_end))))"

subsection \<open>Prepared tokens and progress\<close>

definition append_token ::
  "source_projection \<Rightarrow> pystr \<Rightarrow> token_kind \<Rightarrow> nat option \<Rightarrow> int option \<Rightarrow> int \<Rightarrow> nat \<Rightarrow> nat \<Rightarrow> nat \<Rightarrow>
   prepared_token list \<Rightarrow> prepared_token list result" where
  "append_token projection symbol kind unit local_id global_id char_start char_end commit_end tokens =
     bindE (py_nth (utf8_boundaries projection) char_start) (\<lambda>utf8_start.
     bindE (py_nth (utf8_boundaries projection) char_end) (\<lambda>utf8_end.
     bindE (py_nth (utf8_boundaries projection) commit_end) (\<lambda>commit_utf8.
       Inr (tokens @ [\<lparr>tok_token_index = length tokens, tok_symbol = symbol, tok_kind = kind,
         tok_unit_index = unit, tok_local_token_id = local_id, tok_global_token_id = global_id,
         tok_source_char_start = char_start, tok_source_char_end = char_end,
         tok_source_utf8_start = utf8_start, tok_source_utf8_end = utf8_end,
         tok_commit_char_end = commit_end, tok_commit_utf8_end = commit_utf8\<rparr>]))))"

fun append_segment_tokens ::
  "source_projection \<Rightarrow> core_token list \<Rightarrow> source_segment \<Rightarrow> nat list \<Rightarrow> prepared_token list \<Rightarrow>
   prepared_token list result" where
  "append_segment_tokens projection core segment [] tokens = Inr tokens"
| "append_segment_tokens projection core segment (core_index # indices) tokens =
     bindE (py_nth core core_index) (\<lambda>t.
     bindE (append_token projection (core_symbol t) (core_kind t) (Some (core_unit_index t))
       (Some (core_local_token_id t)) (core_global_token_id t)
       (seg_source_char_start segment) (seg_source_char_end segment)
       (if core_index + 1 = seg_core_token_end segment
        then seg_source_char_end segment else seg_source_char_start segment) tokens)
     (append_segment_tokens projection core segment indices))"

fun append_all_segments ::
  "source_projection \<Rightarrow> core_token list \<Rightarrow> source_segment list \<Rightarrow> prepared_token list \<Rightarrow>
   prepared_token list result" where
  "append_all_segments projection core [] tokens = Inr tokens"
| "append_all_segments projection core (segment # segments) tokens =
     bindE (append_segment_tokens projection core segment
       [seg_core_token_start segment..<seg_core_token_end segment] tokens)
     (append_all_segments projection core segments)"

definition prepared_tokens_of ::
  "frontend_spec \<Rightarrow> source_projection \<Rightarrow> core_token list \<Rightarrow> source_segment list \<Rightarrow> nat \<Rightarrow> nat \<Rightarrow>
   prepared_token list result" where
  "prepared_tokens_of spec projection core segments source_start source_length =
     (case effective_local_ids spec space of
        None \<Rightarrow> Inl (Exn PyKeyError ''missing token'')
      | Some b \<Rightarrow>
          bindE (append_token projection space BoundarySpace None (Some b) (global_offset spec + b)
            0 0 0 []) (\<lambda>tokens.
          bindE (append_all_segments projection core segments tokens) (\<lambda>tokens.
          bindE (append_token projection space BoundarySpace None (Some b) (global_offset spec + b)
            source_start source_length source_length tokens) (\<lambda>tokens.
          append_token projection (pys ''<eos>'') Eos None None (eos_token_id spec)
            source_length source_length source_length tokens))))"

definition token_progress :: "prepared_token \<Rightarrow> source_progress" where
  "token_progress t = \<lparr>prog_committed_text_tokens = tok_token_index t + 1,
     prog_source_char_end = tok_commit_char_end t, prog_source_utf8_end = tok_commit_utf8_end t\<rparr>"

definition progress_of :: "prepared_token list \<Rightarrow> source_progress list" where
  "progress_of tokens =
     \<lparr>prog_committed_text_tokens = 0, prog_source_char_end = 0, prog_source_utf8_end = 0\<rparr>
     # map token_progress tokens"

fun progress_monotone :: "nat \<Rightarrow> nat \<Rightarrow> source_progress list \<Rightarrow> bool" where
  "progress_monotone previous_char previous_utf8 [] = True"
| "progress_monotone previous_char previous_utf8 (p # ps) =
     (if prog_source_char_end p < previous_char \<or> prog_source_utf8_end p < previous_utf8
      then False else progress_monotone (prog_source_char_end p) (prog_source_utf8_end p) ps)"

subsection \<open>prepare\<close>

definition certified_prefixes ::
  "(pystr \<Rightarrow> (g2p_token list \<times> core_token list) result) \<Rightarrow> pystr \<Rightarrow> core_token list \<Rightarrow>
   (nat \<times> nat) list result" where
  "certified_prefixes core text full_core =
     bindE (certify_loop
              (prefix_certifies core text (map core_identity full_core) (unit_end_positions full_core))
              [1..<Suc (length text)] [(0, 0)] 0) (\<lambda>certified.
       if last certified \<noteq> (length text, length full_core)
       then Inl (ambiguous ''full OpenJTalk output is not a certified terminal prefix'')
       else Inr certified)"

definition source_segments ::
  "source_projection \<Rightarrow> (nat \<times> nat) list \<Rightarrow> nat \<Rightarrow> (source_segment list \<times> nat) result" where
  "source_segments projection certified core_length =
     bindE (segment_loop projection (tl certified) [] 0 0) (\<lambda>(segments, source_start, core_start).
       if core_start \<noteq> core_length
         then Inl (ambiguous ''source alignment does not cover every prepared core token'')
       else if source_start \<noteq> last_non_whitespace_source_end projection
         then Inl (ambiguous ''non-whitespace source suffix has no spoken token'')
       else Inr (segments, source_start))"

definition checked_progress :: "prepared_token list \<Rightarrow> nat \<Rightarrow> nat \<Rightarrow> source_progress list result" where
  "checked_progress tokens source_length source_utf8_length =
     (let progress = progress_of tokens in
      if \<not> progress_monotone 0 0 progress
        then Inl (ambiguous ''prepared token progress is not monotonic'')
      else if last progress \<noteq> \<lparr>prog_committed_text_tokens = length tokens,
                prog_source_char_end = source_length, prog_source_utf8_end = source_utf8_length\<rparr>
        then Inl (ambiguous ''EOS does not map to the exact source end'')
      else Inr progress)"

definition prepare :: "pyenv \<Rightarrow> frontend_spec \<Rightarrow> runner \<Rightarrow> pystr \<Rightarrow> prepared_utterance result" where
  "prepare env spec runner source_text =
     bindE (project_source env source_text) (\<lambda>projection.
     bindE (core_of env spec runner (normalized_text projection)) (\<lambda>(full_g2p, full_core).
       if full_core = []
         then Inl (ambiguous ''non-whitespace source produced no prepared speech token'')
       else
     bindE (certified_prefixes (core_of env spec runner) (normalized_text projection) full_core)
       (\<lambda>certified.
     bindE (source_segments projection certified (length full_core)) (\<lambda>(segments, source_start).
     bindE (prepared_tokens_of spec projection full_core segments source_start (length source_text))
       (\<lambda>tokens.
     bindE (checked_progress tokens (length source_text) (last (utf8_boundaries projection)))
       (\<lambda>progress.
       Inr \<lparr>utt_source_text = source_text, utt_normalized_text = normalized_text projection,
            utt_g2p_tokens = map g2p_symbol full_g2p,
            utt_global_token_ids = map tok_global_token_id tokens,
            utt_tokens = tokens, utt_progress = progress,
            utt_proof = \<lparr>proof_method = ''locked_openjtalk_complete_prefix_replay_v1'',
              proof_prepared_char_count = length (normalized_text projection),
              proof_core_token_count = length full_core,
              proof_certified_prefix_count = length certified,
              proof_segments = segments\<rparr>\<rparr>))))))"

end
