(* ===== verification/SourceLineageFacts.thy ===== *)
theory SourceLineageFacts
  imports SourceLineage
begin

text \<open>
  Lemmas about the loops of \<open>prepare\<close>: what each loop returns when it returns, stated without the
  error monad. \<open>segment_chain\<close> is the abstract shape of a proven alignment: consecutive source
  intervals and consecutive token intervals, none of them empty, from one pair of positions to
  another.
\<close>

subsection \<open>Source projection\<close>

lemma compact_loop_fst: "fst (compact_loop i s) = filter (\<lambda>c. \<not> char_isspace c) s"
  by (induction s arbitrary: i) (auto simp: case_prod_beta)

lemma compact_loop_length: "length (snd (compact_loop i s)) = length (fst (compact_loop i s))"
  by (induction s arbitrary: i) (auto simp: case_prod_beta)

lemma compact_loop_bounds: "e \<in> set (snd (compact_loop i s)) \<Longrightarrow> i < e \<and> e \<le> i + length s"
  by (induction s arbitrary: i) (auto simp: case_prod_beta split: if_splits; fastforce)+

lemma compact_loop_sorted: "sorted_wrt (<) (snd (compact_loop i s))"
  by (induction s arbitrary: i) (auto simp: case_prod_beta dest: compact_loop_bounds)

lemma compact_loop_nonspace:
  "e \<in> set (snd (compact_loop i s)) \<Longrightarrow> \<not> char_isspace (s ! (e - 1 - i))"
proof (induction s arbitrary: i)
  case Nil
  then show ?case by simp
next
  case (Cons c cs)
  show ?case
  proof (cases "e \<in> set (snd (compact_loop (Suc i) cs))")
    case True
    from compact_loop_bounds [OF True] have "e - 1 - i = Suc (e - 1 - Suc i)" by arith
    with Cons.IH [OF True] show ?thesis by simp
  next
    case False
    with Cons.prems have "e = Suc i" "\<not> char_isspace c"
      by (auto simp: case_prod_beta split: if_splits)
    then show ?thesis by simp
  qed
qed

lemma compact_loop_prefix:
  "k < length (snd (compact_loop i s)) \<Longrightarrow>
   filter (\<lambda>c. \<not> char_isspace c) (take (snd (compact_loop i s) ! k - i) s) =
   take (Suc k) (filter (\<lambda>c. \<not> char_isspace c) s)"
proof (induction s arbitrary: i k)
  case Nil
  then show ?case by simp
next
  case (Cons c cs)
  let ?ends = "snd (compact_loop (Suc i) cs)"
  show ?case
  proof (cases "char_isspace c")
    case True
    with Cons.prems have k: "k < length ?ends" by simp
    from compact_loop_bounds [OF nth_mem [OF k]]
    have "?ends ! k - i = Suc (?ends ! k - Suc i)" by arith
    with True Cons.IH [OF k] show ?thesis by simp
  next
    case False
    show ?thesis
    proof (cases k)
      case 0
      with False show ?thesis by (simp add: case_prod_beta)
    next
      case (Suc j)
      with False Cons.prems have j: "j < length ?ends" by (simp add: case_prod_beta)
      from compact_loop_bounds [OF nth_mem [OF j]]
      have "?ends ! j - i = Suc (?ends ! j - Suc i)" by arith
      with False Suc Cons.IH [OF j] show ?thesis by (simp add: case_prod_beta)
    qed
  qed
qed

lemma utf8_boundaries_from_props:
  assumes "utf8_boundaries_from b s = Inr bs"
  shows "length bs = Suc (length s)" and "bs ! 0 = b" and "sorted bs"
    and "i \<le> length s \<Longrightarrow> \<exists>e. utf8_encode (take i s) = Inr e \<and> bs ! i = b + length e"
proof -
  have "length bs = Suc (length s) \<and> bs ! 0 = b \<and> sorted bs \<and> (\<forall>x \<in> set bs. b \<le> x) \<and>
    (\<forall>i \<le> length s. \<exists>e. utf8_encode (take i s) = Inr e \<and> bs ! i = b + length e)"
    using assms
  proof (induction s arbitrary: b bs)
    case Nil
    then show ?case by auto
  next
    case (Cons c cs)
    from Cons.prems obtain u vs where u: "utf8_char c = Inr u"
      and vs: "utf8_boundaries_from (b + length u) cs = Inr vs" and bs: "bs = b # vs"
      by (auto simp: result_simps)
    note IH = Cons.IH [OF vs]
    have "\<exists>e. utf8_encode (take i (c # cs)) = Inr e \<and> bs ! i = b + length e"
      if "i \<le> length (c # cs)" for i
    proof (cases i)
      case 0
      with bs show ?thesis by simp
    next
      case (Suc j)
      with that IH obtain e where "utf8_encode (take j cs) = Inr e" "vs ! j = b + length u + length e"
        by auto
      with Suc bs u show ?thesis by (simp add: utf8_encode_Cons)
    qed
    with IH bs show ?case by (auto intro: order_trans [of b "b + length u"])
  qed
  then show "length bs = Suc (length s)" and "bs ! 0 = b" and "sorted bs"
    and "i \<le> length s \<Longrightarrow> \<exists>e. utf8_encode (take i s) = Inr e \<and> bs ! i = b + length e" by auto
qed

lemma concat_singletons:
  "(\<And>x. x \<in> set xs \<Longrightarrow> length (f x) = 1) \<Longrightarrow>
   length (concat (map f xs)) = length xs \<and> concat (map f (take k xs)) = take k (concat (map f xs))"
proof (induction xs arbitrary: k)
  case Nil
  then show ?case by simp
next
  case (Cons x xs)
  then obtain y where "f x = [y]" by (metis One_nat_def length_0_conv length_Suc_conv list.set_intros(1))
  with Cons show ?case by (cases k) auto
qed

text \<open>The text the runner is given for a source: no whitespace, each scalar lowered on its own.\<close>

definition lowered :: "pyenv \<Rightarrow> pystr \<Rightarrow> pystr" where
  "lowered env s = concat (map (\<lambda>c. py_lower env [c]) (filter (\<lambda>c. \<not> char_isspace c) s))"

lemma project_source_fields:
  assumes "project_source env s = Inr p"
  shows "prepared_source_char_ends p = snd (compact_loop 0 s)"
    and "last_non_whitespace_source_end p = last (prepared_source_char_ends p)"
    and "normalized_text p = lowered env s"
    and "utf8_boundaries_from 0 s = Inr (utf8_boundaries p)"
    and "normalized_text p \<noteq> []"
    and "c \<in> set s \<Longrightarrow> \<not> char_isspace c \<Longrightarrow> length (py_lower env [c]) = 1"
  using assms compact_loop_fst [of 0 s]
  by (auto simp: project_source_def case_prod_beta Let_def result_simps lowered_def list_ex_iff
      split: if_splits)

lemma project_source_lowered:
  assumes "project_source env s = Inr p"
  shows "length (normalized_text p) = length (prepared_source_char_ends p)"
    and "concat (map (\<lambda>c. py_lower env [c]) (take k (filter (\<lambda>c. \<not> char_isspace c) s))) =
         take k (normalized_text p)"
proof -
  note f = project_source_fields [OF assms]
  from concat_singletons [of "filter (\<lambda>c. \<not> char_isspace c) s" "\<lambda>c. py_lower env [c]" k] f(6)
  have *: "length (lowered env s) = length (filter (\<lambda>c. \<not> char_isspace c) s)"
    "concat (map (\<lambda>c. py_lower env [c]) (take k (filter (\<lambda>c. \<not> char_isspace c) s))) =
     take k (lowered env s)"
    by (auto simp: lowered_def)
  with compact_loop_length [of 0 s] compact_loop_fst [of 0 s] f(1,3)
  show "length (normalized_text p) = length (prepared_source_char_ends p)"
    and "concat (map (\<lambda>c. py_lower env [c]) (take k (filter (\<lambda>c. \<not> char_isspace c) s))) =
         take k (normalized_text p)"
    by simp_all
qed

lemma project_source_ends:
  assumes p: "project_source env s = Inr p" and k: "k < length (prepared_source_char_ends p)"
  defines "e \<equiv> prepared_source_char_ends p ! k"
  shows "0 < e" and "e \<le> length s" and "\<not> char_isspace (s ! (e - 1))"
    and "lowered env (take e s) = take (Suc k) (normalized_text p)"
proof -
  note f = project_source_fields [OF p]
  have e: "e \<in> set (snd (compact_loop 0 s))"
    using k by (simp add: f(1) e_def)
  from compact_loop_bounds [OF e] show "0 < e" "e \<le> length s" by auto
  from compact_loop_nonspace [OF e] show "\<not> char_isspace (s ! (e - 1))" by simp
  from compact_loop_prefix [of k 0 s] k project_source_lowered(2) [OF p, of "Suc k"]
  show "lowered env (take e s) = take (Suc k) (normalized_text p)"
    by (simp add: lowered_def e_def f(1))
qed

subsection \<open>The interface between projection and replay\<close>

text \<open>
  What the replay, the segments and the token table rely on of a projection. \<open>lower_of\<close> is the
  text handed to the runner for a source.
\<close>

locale source_projector =
  fixes project :: "pystr \<Rightarrow> source_projection result"
    and lower_of :: "pystr \<Rightarrow> pystr"
  assumes normalized: "project s = Inr p \<Longrightarrow> normalized_text p = lower_of s"
    and normalized_nonempty: "project s = Inr p \<Longrightarrow> normalized_text p \<noteq> []"
    and ends_length: "project s = Inr p \<Longrightarrow>
      length (prepared_source_char_ends p) = length (normalized_text p)"
    and ends_sorted: "project s = Inr p \<Longrightarrow> sorted_wrt (<) (prepared_source_char_ends p)"
    and ends_range: "project s = Inr p \<Longrightarrow> e \<in> set (prepared_source_char_ends p) \<Longrightarrow>
      0 < e \<and> e \<le> length s \<and> \<not> char_isspace (s ! (e - 1))"
    and ends_prefix: "project s = Inr p \<Longrightarrow> k < length (prepared_source_char_ends p) \<Longrightarrow>
      lower_of (take (prepared_source_char_ends p ! k) s) = take (Suc k) (normalized_text p)"
    and last_end: "project s = Inr p \<Longrightarrow>
      last_non_whitespace_source_end p = last (prepared_source_char_ends p)"
    and bounds_length: "project s = Inr p \<Longrightarrow> length (utf8_boundaries p) = Suc (length s)"
    and bounds_sorted: "project s = Inr p \<Longrightarrow> sorted (utf8_boundaries p)"
    and bounds_encode: "project s = Inr p \<Longrightarrow> i \<le> length s \<Longrightarrow>
      \<exists>b. utf8_encode (take i s) = Inr b \<and> utf8_boundaries p ! i = length b"

interpretation locked: source_projector "project_source env" "lowered env" for env
proof unfold_locales
  fix s p assume p: "project_source env s = Inr p"
  note f = project_source_fields [OF p]
  show "normalized_text p = lowered env s" "normalized_text p \<noteq> []" by (fact f)+
  show "length (prepared_source_char_ends p) = length (normalized_text p)"
    by (simp add: project_source_lowered(1) [OF p])
  show "sorted_wrt (<) (prepared_source_char_ends p)"
    by (simp add: f(1) compact_loop_sorted)
  show "last_non_whitespace_source_end p = last (prepared_source_char_ends p)" by (fact f)
  show "length (utf8_boundaries p) = Suc (length s)" "sorted (utf8_boundaries p)"
    using utf8_boundaries_from_props [OF f(4)] by auto
  show "\<exists>b. utf8_encode (take i s) = Inr b \<and> utf8_boundaries p ! i = length b"
    if "i \<le> length s" for i
    using utf8_boundaries_from_props(4) [OF f(4) that] by simp
  show "0 < e \<and> e \<le> length s \<and> \<not> char_isspace (s ! (e - 1))"
    if "e \<in> set (prepared_source_char_ends p)" for e
    using that project_source_ends [OF p] by (auto simp: in_set_conv_nth)
  show "lowered env (take (prepared_source_char_ends p ! k) s) = take (Suc k) (normalized_text p)"
    if "k < length (prepared_source_char_ends p)" for k
    using project_source_ends(4) [OF p that] .
qed

subsection \<open>Certified prefixes\<close>

lemma certify_loop_eq_Inr:
  assumes "certify_loop f ends certified m = Inr out"
  shows "\<exists>new. out = certified @ new \<and> subseq (map fst new) ends \<and>
    (\<forall>pt \<in> set new. f (fst pt) = Inr (Some (snd pt))) \<and> sorted (m # map snd new)"
  using assms
proof (induction ends arbitrary: certified m)
  case Nil
  then show ?case by simp
next
  case (Cons e ends)
  from Cons.prems obtain found where f: "f e = Inr found" by (auto simp: result_simps)
  show ?case
  proof (cases found)
    case None
    with f Cons.prems have "certify_loop f ends certified m = Inr out" by simp
    from Cons.IH [OF this] show ?thesis by (auto intro: list_emb_Cons)
  next
    case (Some t)
    with f Cons.prems have t: "m \<le> t" "certify_loop f ends (certified @ [(e, t)]) t = Inr out"
      by (auto split: if_splits)
    from Cons.IH [OF t(2)] obtain new where new: "out = (certified @ [(e, t)]) @ new"
      "subseq (map fst new) ends" "\<forall>pt \<in> set new. f (fst pt) = Inr (Some (snd pt))"
      "sorted (t # map snd new)" by blast
    with f Some t(1) show ?thesis by (intro exI [of _ "(e, t) # new"]) auto
  qed
qed

lemma subseq_set: "subseq xs ys \<Longrightarrow> set xs \<subseteq> set ys"
  by (auto dest: list_emb_set)

lemma subseq_sorted_wrt: "subseq xs ys \<Longrightarrow> sorted_wrt R ys \<Longrightarrow> sorted_wrt R xs"
  by (induction rule: list_emb.induct) (auto dest: subseq_set)

lemma certified_prefixes_eq_Inr:
  assumes "certified_prefixes core text full = Inr certified"
  obtains new where "certified = (0, 0) # new" and "sorted_wrt (<) (map fst new)"
    and "sorted (map snd new)"
    and "\<forall>pt \<in> set new. 1 \<le> fst pt \<and> fst pt \<le> length text \<and>
           prefix_certifies core text (map core_identity full) (unit_end_positions full) (fst pt)
             = Inr (Some (snd pt))"
    and "last certified = (length text, length full)"
proof -
  from assms have c: "certify_loop
      (prefix_certifies core text (map core_identity full) (unit_end_positions full))
      [1..<Suc (length text)] [(0, 0)] 0 = Inr certified"
    and l: "last certified = (length text, length full)"
    by (auto simp: certified_prefixes_def result_simps simp del: upt_Suc split: if_splits)
  from certify_loop_eq_Inr [OF c] obtain new where new: "certified = [(0, 0)] @ new"
    "subseq (map fst new) [1..<Suc (length text)]" "sorted (0 # map snd new)"
    "\<forall>pt \<in> set new. prefix_certifies core text (map core_identity full) (unit_end_positions full)
       (fst pt) = Inr (Some (snd pt))" by blast
  from subseq_set [OF new(2)] have "\<forall>pt \<in> set new. 1 \<le> fst pt \<and> fst pt \<le> length text"
    by (auto simp del: upt_Suc)
  moreover from new(2) have "sorted_wrt (<) (map fst new)"
    by (rule subseq_sorted_wrt) (rule sorted_wrt_upt)
  ultimately show ?thesis using that new l by auto
qed

lemma prefix_certifies_eq_Some:
  assumes "prefix_certifies core text (map core_identity full) ends k = Inr (Some t)"
  shows "\<exists>g c. core (take k text) = Inr (g, c) \<and> t = length c \<and> t \<le> length full \<and>
    map core_identity c = map core_identity (take t full) \<and> t \<in> ends"
  using assms by (auto simp: prefix_certifies_def Let_def result_simps take_map split: if_splits)

subsection \<open>Segments\<close>

fun segment_chain ::
  "source_projection \<Rightarrow> nat \<Rightarrow> nat \<Rightarrow> source_segment list \<Rightarrow> nat \<Rightarrow> nat \<Rightarrow> bool" where
  "segment_chain p s c [] s' c' \<longleftrightarrow> s = s' \<and> c = c'"
| "segment_chain p s c (g # gs) s' c' \<longleftrightarrow>
     seg_source_char_start g = s \<and> seg_core_token_start g = c \<and>
     s < seg_source_char_end g \<and> c < seg_core_token_end g \<and>
     seg_source_char_end g \<in> set (prepared_source_char_ends p) \<and>
     seg_source_utf8_start g = utf8_boundaries p ! s \<and>
     seg_source_utf8_end g = utf8_boundaries p ! seg_source_char_end g \<and>
     segment_chain p (seg_source_char_end g) (seg_core_token_end g) gs s' c'"

lemma segment_chain_append:
  "segment_chain p s c (gs @ hs) s' c' \<longleftrightarrow>
     (\<exists>s1 c1. segment_chain p s c gs s1 c1 \<and> segment_chain p s1 c1 hs s' c')"
  by (induction gs arbitrary: s c) auto

lemma segment_chain_le: "segment_chain p s c gs s' c' \<Longrightarrow> s \<le> s' \<and> c \<le> c'"
  by (induction gs arbitrary: s c) fastforce+

lemma segment_chain_mem:
  "segment_chain p s c gs s' c' \<Longrightarrow> g \<in> set gs \<Longrightarrow>
   s \<le> seg_source_char_start g \<and> seg_source_char_start g < seg_source_char_end g \<and>
   seg_source_char_end g \<le> s' \<and> c \<le> seg_core_token_start g \<and>
   seg_core_token_start g < seg_core_token_end g \<and> seg_core_token_end g \<le> c' \<and>
   seg_source_char_end g \<in> set (prepared_source_char_ends p) \<and>
   seg_source_utf8_start g = utf8_boundaries p ! seg_source_char_start g \<and>
   seg_source_utf8_end g = utf8_boundaries p ! seg_source_char_end g"
proof (induction gs arbitrary: s c)
  case Nil
  then show ?case by simp
next
  case (Cons h gs)
  then have tl: "segment_chain p (seg_source_char_end h) (seg_core_token_end h) gs s' c'" by simp
  from segment_chain_le [OF tl] Cons.prems Cons.IH [OF tl] show ?case by fastforce
qed

text \<open>Where a segment comes from: one certified prefix.\<close>

definition from_prefix :: "source_projection \<Rightarrow> (nat \<times> nat) list \<Rightarrow> source_segment \<Rightarrow> bool" where
  "from_prefix p certified g \<longleftrightarrow> (\<exists>pe. (pe, seg_core_token_end g) \<in> set certified \<and>
     pe - 1 < length (prepared_source_char_ends p) \<and>
     seg_source_char_end g = prepared_source_char_ends p ! (pe - 1))"

lemma py_nth_eq_Inr [result_simps]: "py_nth xs i = Inr x \<longleftrightarrow> i < length xs \<and> x = xs ! i"
  by (auto simp: py_nth_def)

lemma segment_loop_eq_Inr:
  assumes "segment_loop p certified segs s c = Inr (out, s', c')"
  shows "\<exists>new. out = segs @ new \<and> segment_chain p s c new s' c' \<and>
    (\<forall>g \<in> set new. from_prefix p certified g)"
  using assms
proof (induction certified arbitrary: segs s c)
  case Nil
  then show ?case by simp
next
  case (Cons pt certified)
  obtain pe te where pt: "pt = (pe, te)" by (cases pt)
  show ?case
  proof (cases "te = c")
    case True
    with Cons.prems pt have "segment_loop p certified segs s c = Inr (out, s', c')" by simp
    from Cons.IH [OF this] show ?thesis by (fastforce simp: from_prefix_def)
  next
    case False
    let ?e = "prepared_source_char_ends p ! (pe - 1)"
    let ?g = "\<lparr>seg_source_char_start = s, seg_source_char_end = ?e,
        seg_source_utf8_start = utf8_boundaries p ! s, seg_source_utf8_end = utf8_boundaries p ! ?e,
        seg_core_token_start = c, seg_core_token_end = te\<rparr>"
    from False Cons.prems pt have g: "c < te" "pe - 1 < length (prepared_source_char_ends p)" "s < ?e"
      and rest: "segment_loop p certified (segs @ [?g]) ?e te = Inr (out, s', c')"
      by (auto simp: result_simps split: if_splits)
    from Cons.IH [OF rest] obtain new where new: "out = (segs @ [?g]) @ new"
      "segment_chain p ?e te new s' c'" "\<forall>g \<in> set new. from_prefix p certified g" by blast
    with g pt show ?thesis
      by (intro exI [of _ "?g # new"]) (auto simp: from_prefix_def)
  qed
qed

lemma source_segments_eq_Inr:
  assumes "source_segments p certified n = Inr (segs, s)"
  shows "segment_chain p 0 0 segs s n" and "s = last_non_whitespace_source_end p"
    and "g \<in> set segs \<Longrightarrow> from_prefix p (tl certified) g"
proof -
  from assms have l: "segment_loop p (tl certified) [] 0 0 = Inr (segs, s, n)"
    and s: "s = last_non_whitespace_source_end p"
    by (auto simp: source_segments_def result_simps split: if_splits)
  from segment_loop_eq_Inr [OF l] s
  show "segment_chain p 0 0 segs s n" and "s = last_non_whitespace_source_end p"
    and "g \<in> set segs \<Longrightarrow> from_prefix p (tl certified) g" by auto
qed

subsection \<open>Prepared tokens\<close>

definition core_prepared_token ::
  "source_projection \<Rightarrow> core_token list \<Rightarrow> source_segment \<Rightarrow> nat \<Rightarrow> prepared_token" where
  "core_prepared_token p core g i =
     (let t = core ! i;
          commit = (if i + 1 = seg_core_token_end g then seg_source_char_end g
                    else seg_source_char_start g)
      in \<lparr>tok_token_index = i + 1, tok_symbol = core_symbol t, tok_kind = core_kind t,
          tok_unit_index = Some (core_unit_index t), tok_local_token_id = Some (core_local_token_id t),
          tok_global_token_id = core_global_token_id t,
          tok_source_char_start = seg_source_char_start g, tok_source_char_end = seg_source_char_end g,
          tok_source_utf8_start = utf8_boundaries p ! seg_source_char_start g,
          tok_source_utf8_end = utf8_boundaries p ! seg_source_char_end g,
          tok_commit_char_end = commit, tok_commit_utf8_end = utf8_boundaries p ! commit\<rparr>)"

definition segment_tokens :: "source_projection \<Rightarrow> core_token list \<Rightarrow> source_segment \<Rightarrow> prepared_token list" where
  "segment_tokens p core g =
     map (core_prepared_token p core g) [seg_core_token_start g..<seg_core_token_end g]"

definition edge_token ::
  "source_projection \<Rightarrow> pystr \<Rightarrow> token_kind \<Rightarrow> int option \<Rightarrow> int \<Rightarrow> nat \<Rightarrow> nat \<Rightarrow> nat \<Rightarrow> prepared_token" where
  "edge_token p symbol kind lid gid s e index =
     \<lparr>tok_token_index = index, tok_symbol = symbol, tok_kind = kind, tok_unit_index = None,
      tok_local_token_id = lid, tok_global_token_id = gid, tok_source_char_start = s,
      tok_source_char_end = e, tok_source_utf8_start = utf8_boundaries p ! s,
      tok_source_utf8_end = utf8_boundaries p ! e, tok_commit_char_end = e,
      tok_commit_utf8_end = utf8_boundaries p ! e\<rparr>"

text \<open>The token table \<open>prepare\<close> builds, without the error monad.\<close>

definition token_table_of ::
  "frontend_spec \<Rightarrow> int \<Rightarrow> source_projection \<Rightarrow> core_token list \<Rightarrow> source_segment list \<Rightarrow> nat \<Rightarrow> nat \<Rightarrow>
   prepared_token list" where
  "token_table_of spec b p core segs s n =
     [edge_token p space BoundarySpace (Some b) (global_offset spec + b) 0 0 0]
     @ concat (map (segment_tokens p core) segs)
     @ [edge_token p space BoundarySpace (Some b) (global_offset spec + b) s n (length core + 1),
        edge_token p (pys ''<eos>'') Eos None (eos_token_id spec) n n (length core + 2)]"

lemma append_segment_tokens_eq_Inr:
  assumes "append_segment_tokens p core g [i..<j] tokens = Inr out" and "length tokens = i + 1"
  shows "out = tokens @ map (core_prepared_token p core g) [i..<j]"
  using assms
proof (induction "j - i" arbitrary: i tokens)
  case 0
  then show ?case by simp
next
  case (Suc d)
  then have ij: "[i..<j] = i # [Suc i..<j]" by (simp add: upt_conv_Cons)
  with Suc.prems have "append_segment_tokens p core g [Suc i..<j]
      (tokens @ [core_prepared_token p core g i]) = Inr out"
    by (auto simp: result_simps append_token_def core_prepared_token_def Let_def split: if_splits)
  with Suc have "out = (tokens @ [core_prepared_token p core g i])
      @ map (core_prepared_token p core g) [Suc i..<j]" by (intro Suc.hyps) auto
  with ij show ?case by simp
qed

lemma append_all_segments_eq_Inr:
  assumes "append_all_segments p core segs tokens = Inr out"
    and "segment_chain p s c segs s' c'" and "length tokens = c + 1"
  shows "out = tokens @ concat (map (segment_tokens p core) segs) \<and> length out = c' + 1"
  using assms
proof (induction segs arbitrary: s c tokens)
  case Nil
  then show ?case by simp
next
  case (Cons g gs)
  then obtain mid where mid: "append_segment_tokens p core g
      [seg_core_token_start g..<seg_core_token_end g] tokens = Inr mid"
    and rest: "append_all_segments p core gs mid = Inr out" by (auto simp: result_simps)
  from Cons.prems append_segment_tokens_eq_Inr [OF mid]
  have m: "mid = tokens @ segment_tokens p core g" by (simp add: segment_tokens_def)
  with Cons.prems have "length mid = seg_core_token_end g + 1" by (simp add: segment_tokens_def)
  with Cons.prems Cons.IH [OF rest] m show ?case by auto
qed

lemma prepared_tokens_of_eq_Inr:
  assumes "prepared_tokens_of spec p core segs s n = Inr tokens"
    and "segment_chain p 0 0 segs s' (length core)"
  shows "\<exists>b. effective_local_ids spec space = Some b \<and> tokens = token_table_of spec b p core segs s n"
proof -
  from assms(1) obtain b t1 where b: "effective_local_ids spec space = Some b"
    and t1: "append_all_segments p core segs
      [edge_token p space BoundarySpace (Some b) (global_offset spec + b) 0 0 0] = Inr t1"
    and t3: "bindE (append_token p space BoundarySpace None (Some b) (global_offset spec + b) s n n t1)
      (append_token p (pys ''<eos>'') Eos None None (eos_token_id spec) n n n) = Inr tokens"
    by (auto simp: prepared_tokens_of_def append_token_def edge_token_def result_simps
        split: option.splits)
  from append_all_segments_eq_Inr [OF t1 assms(2)] have
    "t1 = [edge_token p space BoundarySpace (Some b) (global_offset spec + b) 0 0 0]
       @ concat (map (segment_tokens p core) segs)" "length t1 = length core + 1" by auto
  with b t3 show ?thesis
    by (auto simp: token_table_of_def append_token_def edge_token_def result_simps)
qed

subsection \<open>Progress\<close>

definition segment_commits :: "source_segment \<Rightarrow> nat list" where
  "segment_commits g =
     replicate (seg_core_token_end g - seg_core_token_start g - 1) (seg_source_char_start g)
     @ [seg_source_char_end g]"

lemma commits_of_segment:
  assumes "seg_core_token_start g < seg_core_token_end g"
  shows "map tok_commit_char_end (segment_tokens p core g) = segment_commits g"
proof -
  let ?a = "seg_core_token_start g" and ?b = "seg_core_token_end g"
  from assms have "[?a..<?b] = [?a..<?b - 1] @ [?b - 1]"
    by (metis Suc_diff_1 gr_implies_not0 less_Suc_eq_le linorder_not_le upt_Suc_append
        zero_less_iff_neq_zero)
  moreover have "map (tok_commit_char_end \<circ> core_prepared_token p core g) [?a..<?b - 1] =
      replicate (?b - ?a - 1) (seg_source_char_start g)"
    by (rule nth_equalityI) (auto simp: core_prepared_token_def Let_def)
  ultimately show ?thesis using assms
    by (simp add: segment_tokens_def segment_commits_def core_prepared_token_def Let_def)
qed

lemma commits_sorted:
  "segment_chain p s c segs s' c' \<Longrightarrow>
   sorted (concat (map segment_commits segs)) \<and>
   (\<forall>x \<in> set (concat (map segment_commits segs)). s \<le> x \<and> x \<le> s')"
proof (induction segs arbitrary: s c)
  case Nil
  then show ?case by simp
next
  case (Cons g gs)
  then have tl: "segment_chain p (seg_source_char_end g) (seg_core_token_end g) gs s' c'"
    and g: "seg_source_char_start g = s" "s < seg_source_char_end g" by auto
  from Cons.IH [OF tl] segment_chain_le [OF tl] g show ?case
    by (fastforce simp: segment_commits_def sorted_append)
qed

lemma progress_monotone_iff:
  "progress_monotone a b ps \<longleftrightarrow>
     sorted (a # map prog_source_char_end ps) \<and> sorted (b # map prog_source_utf8_end ps)"
proof (induction ps arbitrary: a b)
  case Nil
  then show ?case by simp
next
  case (Cons p ps)
  then show ?case by (auto simp del: sorted_wrt.simps(2) simp: sorted2)
qed

lemma sorted_map_nth:
  "sorted is \<Longrightarrow> sorted (xs :: 'a::linorder list) \<Longrightarrow> (\<forall>i \<in> set is. i < length xs) \<Longrightarrow>
   sorted (map ((!) xs) is)"
  by (induction "is") (auto simp: sorted_iff_nth_mono)

lemma token_table_of_commit_utf8:
  "t \<in> set (token_table_of spec b p core segs s n) \<Longrightarrow>
   tok_commit_utf8_end t = utf8_boundaries p ! tok_commit_char_end t"
  by (auto simp: token_table_of_def edge_token_def segment_tokens_def core_prepared_token_def Let_def)

lemma upt_split: "a \<le> b \<Longrightarrow> b \<le> c \<Longrightarrow> [a..<c] = [a..<b] @ [b..<c]"
  by (metis le_Suc_ex upt_add_eq_append)

lemma segment_chain_tokens:
  "segment_chain p s c segs s' c' \<Longrightarrow>
   map (f \<circ> tok_token_index) (concat (map (segment_tokens p core) segs)) = map (f \<circ> Suc) [c..<c']
   \<and> map tok_global_token_id (concat (map (segment_tokens p core) segs)) =
     map (\<lambda>i. core_global_token_id (core ! i)) [c..<c']"
proof (induction segs arbitrary: s c)
  case Nil
  then show ?case by simp
next
  case (Cons g gs)
  then have tl: "segment_chain p (seg_source_char_end g) (seg_core_token_end g) gs s' c'"
    and g: "seg_core_token_start g = c" "c < seg_core_token_end g" by auto
  have split: "[c..<c'] = [c..<seg_core_token_end g] @ [seg_core_token_end g..<c']"
    using g segment_chain_le [OF tl] by (intro upt_split) auto
  have "map (f \<circ> tok_token_index) (segment_tokens p core g) = map (f \<circ> Suc) [c..<seg_core_token_end g]"
    "map tok_global_token_id (segment_tokens p core g) =
       map (\<lambda>i. core_global_token_id (core ! i)) [c..<seg_core_token_end g]"
    using g by (auto simp: segment_tokens_def core_prepared_token_def Let_def)
  with Cons.IH [OF tl] show ?case by (simp add: split comp_def)
qed

lemma token_table_of_length:
  assumes "segment_chain p 0 0 segs s' (length core)"
  shows "length (token_table_of spec b p core segs s n) = length core + 3"
proof -
  from segment_chain_tokens [OF assms, of id core]
  have "length (concat (map (segment_tokens p core) segs)) = length core"
    by (metis length_map length_upt minus_nat.diff_0)
  then show ?thesis by (simp add: token_table_of_def)
qed

lemma token_table_of_indices:
  assumes "segment_chain p 0 0 segs s' (length core)"
  shows "map tok_token_index (token_table_of spec b p core segs s n) = [0..<length core + 3]"
proof -
  from segment_chain_tokens [OF assms, of id core]
  have "map tok_token_index (concat (map (segment_tokens p core) segs)) = map Suc [0..<length core]"
    by (simp add: comp_def)
  then have "map tok_token_index (token_table_of spec b p core segs s n) =
      0 # map Suc [0..<length core] @ [length core + 1, length core + 2]"
    by (simp add: token_table_of_def edge_token_def)
  also have "\<dots> = [0..<length core + 3]"
    by (rule nth_equalityI) (auto simp: nth_append nth_Cons simp del: upt_Suc split: nat.splits)
  finally show ?thesis .
qed

lemma token_table_of_globals:
  assumes "segment_chain p 0 0 segs s' (length core)"
  shows "map tok_global_token_id (token_table_of spec b p core segs s n) =
    [global_offset spec + b] @ map core_global_token_id core @ [global_offset spec + b, eos_token_id spec]"
proof -
  from segment_chain_tokens [OF assms, of id core]
  have "map tok_global_token_id (concat (map (segment_tokens p core) segs)) =
      map (\<lambda>i. core_global_token_id (core ! i)) [0..<length core]" by simp
  also have "\<dots> = map core_global_token_id core"
    by (rule nth_equalityI) auto
  finally have "map tok_global_token_id (concat (map (segment_tokens p core) segs)) =
      map core_global_token_id core" .
  then show ?thesis by (simp add: token_table_of_def edge_token_def)
qed

lemma token_table_of_commits:
  assumes "segment_chain p 0 0 segs s' (length core)"
  shows "map tok_commit_char_end (token_table_of spec b p core segs s n) =
    0 # concat (map segment_commits segs) @ [n, n]"
proof -
  have "map tok_commit_char_end (concat (map (segment_tokens p core) segs)) =
      concat (map segment_commits segs)"
    using segment_chain_mem [OF assms] by (auto simp: map_concat comp_def commits_of_segment
        intro!: arg_cong [of _ _ concat] map_cong)
  then show ?thesis by (simp add: token_table_of_def edge_token_def)
qed

text \<open>The token at position \<open>i + 1\<close> is core token \<open>i\<close>, with the lineage of its segment.\<close>

lemma concat_segment_tokens_nth:
  assumes "segment_chain p s c segs s' c'" and "g \<in> set segs"
    and "seg_core_token_start g \<le> i" and "i < seg_core_token_end g"
  shows "concat (map (segment_tokens p core) segs) ! (i - c) = core_prepared_token p core g i"
  using assms
proof (induction segs arbitrary: s c)
  case Nil
  then show ?case by simp
next
  case (Cons h gs)
  then have tl: "segment_chain p (seg_source_char_end h) (seg_core_token_end h) gs s' c'"
    and h: "seg_core_token_start h = c" "c < seg_core_token_end h" by auto
  have len: "length (segment_tokens p core h) = seg_core_token_end h - c"
    using h by (simp add: segment_tokens_def)
  show ?case
  proof (cases "g \<in> set gs")
    case True
    from segment_chain_mem [OF tl True] Cons.prems(3) have "seg_core_token_end h \<le> i" by simp
    with Cons.IH [OF tl True Cons.prems(3,4)] len h show ?thesis
      by (simp add: nth_append)
  next
    case False
    with Cons.prems(2) have "g = h" by simp
    with Cons.prems(3,4) h len show ?thesis
      by (simp add: nth_append segment_tokens_def)
  qed
qed

lemma token_table_of_nth:
  assumes "segment_chain p 0 0 segs s' (length core)" and "g \<in> set segs"
    and "seg_core_token_start g \<le> i" and "i < seg_core_token_end g"
  shows "token_table_of spec b p core segs s n ! (i + 1) = core_prepared_token p core g i"
proof -
  from segment_chain_mem [OF assms(1,2)] assms(4) have i: "i < length core" by simp
  from segment_chain_tokens [OF assms(1), of id core]
  have "length (concat (map (segment_tokens p core) segs)) = length core"
    by (metis length_map length_upt minus_nat.diff_0)
  with i concat_segment_tokens_nth [OF assms, of core] show ?thesis
    by (simp add: token_table_of_def nth_append)
qed

text \<open>The checks at the end of \<open>prepare\<close> cannot fail for a projection that keeps its contract.\<close>

context source_projector
begin

lemma last_end_le:
  assumes p: "project s = Inr p"
  shows "last_non_whitespace_source_end p \<le> length s"
proof -
  from normalized_nonempty [OF p] ends_length [OF p] have "prepared_source_char_ends p \<noteq> []"
    by auto
  then have "last (prepared_source_char_ends p) \<in> set (prepared_source_char_ends p)" by simp
  from ends_range [OF p this] show ?thesis by (simp add: last_end [OF p])
qed

lemma checked_progress_passes:
  assumes p: "project s = Inr p"
    and chain: "segment_chain p 0 0 segs (last_non_whitespace_source_end p) (length core)"
  shows "checked_progress (token_table_of spec b p core segs k (length s)) (length s)
      (last (utf8_boundaries p)) =
    Inr (progress_of (token_table_of spec b p core segs k (length s)))"
proof -
  let ?ts = "token_table_of spec b p core segs k (length s)"
  let ?cs = "map tok_commit_char_end ?ts"
  note len = bounds_length [OF p]
  have cs: "?cs = 0 # concat (map segment_commits segs) @ [length s, length s]"
    by (rule token_table_of_commits [OF chain])
  have sorted: "sorted ?cs" and bound: "\<forall>c \<in> set ?cs. c \<le> length s"
    using commits_sorted [OF chain] last_end_le [OF p]
    by (fastforce simp: cs sorted_append)+
  have us: "map tok_commit_utf8_end ?ts = map ((!) (utf8_boundaries p)) ?cs"
    by (simp add: token_table_of_commit_utf8)
  have "sorted (map tok_commit_utf8_end ?ts)"
    unfolding us using sorted bounds_sorted [OF p] bound len by (intro sorted_map_nth) auto
  with sorted have "progress_monotone 0 0 (progress_of ?ts)"
    by (simp add: progress_monotone_iff progress_of_def token_progress_def comp_def)
  moreover have "last (progress_of ?ts) = \<lparr>prog_committed_text_tokens = length ?ts,
      prog_source_char_end = length s, prog_source_utf8_end = last (utf8_boundaries p)\<rparr>"
  proof -
    have "last ?ts = edge_token p (pys ''<eos>'') Eos None (eos_token_id spec) (length s) (length s)
        (length core + 2)" and "?ts \<noteq> []"
      by (simp_all add: token_table_of_def)
    moreover have "last (utf8_boundaries p) = utf8_boundaries p ! length s"
      using len by (subst last_conv_nth) auto
    ultimately show ?thesis using token_table_of_length [OF chain, of spec b k "length s"]
      by (simp add: progress_of_def last_map token_progress_def edge_token_def)
  qed
  ultimately show ?thesis by (simp add: checked_progress_def Let_def)
qed

end

subsection \<open>What a successful call of prepare has established\<close>

lemma prepare_eq_Inr:
  assumes "prepare env spec runner source = Inr u"
  obtains p g2p core certified segs b where
    "project_source env source = Inr p"
    "core_of env spec runner (normalized_text p) = Inr (g2p, core)" "core \<noteq> []"
    "certified_prefixes (core_of env spec runner) (normalized_text p) core = Inr certified"
    "segment_chain p 0 0 segs (last_non_whitespace_source_end p) (length core)"
    "\<forall>g \<in> set segs. from_prefix p (tl certified) g"
    "effective_local_ids spec space = Some b"
    "utt_source_text u = source" "utt_normalized_text u = normalized_text p"
    "utt_tokens u = token_table_of spec b p core segs (last_non_whitespace_source_end p) (length source)"
    "utt_progress u = progress_of (utt_tokens u)"
    "utt_global_token_ids u = map tok_global_token_id (utt_tokens u)"
    "proof_segments (utt_proof u) = segs" "proof_core_token_count (utt_proof u) = length core"
proof -
  from assms obtain p g2p core certified segs s tokens progress where
      p: "project_source env source = Inr p"
    and c: "core_of env spec runner (normalized_text p) = Inr (g2p, core)" "core \<noteq> []"
    and cert: "certified_prefixes (core_of env spec runner) (normalized_text p) core = Inr certified"
    and segs: "source_segments p certified (length core) = Inr (segs, s)"
    and toks: "prepared_tokens_of spec p core segs s (length source) = Inr tokens"
    and prog: "checked_progress tokens (length source) (last (utf8_boundaries p)) = Inr progress"
    and u: "utt_source_text u = source" "utt_normalized_text u = normalized_text p"
      "utt_tokens u = tokens" "utt_progress u = progress"
      "utt_global_token_ids u = map tok_global_token_id tokens"
      "proof_segments (utt_proof u) = segs" "proof_core_token_count (utt_proof u) = length core"
    by (auto simp: prepare_def result_simps split: if_splits)
  note sg = source_segments_eq_Inr [OF segs]
  from prepared_tokens_of_eq_Inr [OF toks sg(1)] obtain b where
    b: "effective_local_ids spec space = Some b"
    "tokens = token_table_of spec b p core segs s (length source)" by blast
  have "progress = progress_of tokens"
    using prog by (auto simp: checked_progress_def Let_def split: if_splits)
  with b sg u show ?thesis by (intro that [OF p c cert, of segs b]) auto
qed

end
