(* ===== verification/Alignment.thy ===== *)
theory Alignment
  imports SourceLineageFacts
begin

text \<open>
  What a prepared utterance promises, as properties of \<open>prepare\<close> for every runner: its segments
  replay, its tokens and source intervals are partitions, its progress table neither commits text
  early nor late, and its last checks are unreachable. The demonstration values at the start are a
  two-symbol runner and vocabulary on which the properties are instantiated.
\<close>

subsection \<open>A concrete frontend\<close>

definition demo_runner :: runner where
  "demo_runner text = Inr (map demo_word text)"

definition demo_source :: pystr where
  "demo_source = [12354, 32, 12290, 12354]"

definition demo_utterance :: prepared_utterance where
  "demo_utterance = projr (prepare demo_env demo_spec demo_runner demo_source)"


lemmas demo_defs = demo_env_def demo_row_def demo_spec_def demo_word_def demo_runner_def
  demo_source_def enumerate_eq_zip

lemmas g2p_run_simps = core_of_def g2p_tokens_def njd_words_def parse_njd_row_def text_field_def
  integer_field_def dict_get_def pys_def initial_g2p_def g2p_word_def is_filler_def is_symbol_def
  symbol_unit_def flush_chain_def append_unit_def mora_unit_def mora_head_def mora_tail_def
  mora_single_def pitch_pattern_def zip_strict_def nat_digits_bit tokenize_core_def pop_spaces_def
  encode_token_def effective_local_ids_def effective_ids_of_def space_def SYMBOL_def FILLER_def
  AUXILIARY_SYMBOL_def str_isspace_def ascii_lower_def JAPANESE_PUNCTUATION_def ALPHABET_def Let_def

lemmas prepare_run_simps = g2p_run_simps project_source_def char_isspace_def utf8_char_def
  py_nth_def prepare_def certified_prefixes_def prefix_certifies_def core_identity_def
  unit_end_positions_def source_segments_def prepared_tokens_of_def append_token_def
  checked_progress_def progress_of_def token_progress_def upt_conv_Cons nth_Cons'

text \<open>What the witnesses read of the demonstration utterance.\<close>

definition demo_view :: "prepared_utterance \<Rightarrow> nat \<times> nat \<times> nat list \<times> nat list" where
  "demo_view u = (length (utt_tokens u), length (utt_progress u),
     map seg_source_char_end (proof_segments (utt_proof u)),
     map seg_core_token_end (proof_segments (utt_proof u)))"

lemma demo_view_value:
  "map_sum id demo_view (prepare demo_env demo_spec demo_runner demo_source) =
     Inr (8, 9, [1, 3, 4], [2, 3, 5])"
  by (simp add: prepare_run_simps demo_defs demo_view_def)

lemma demo_segment:
  obtains u g where "prepare demo_env demo_spec demo_runner demo_source = Inr u"
    "g \<in> set (proof_segments (utt_proof u))" "seg_core_token_end g = 2" "length (utt_tokens u) = 8"
    "length (utt_progress u) = 9"
proof (cases "prepare demo_env demo_spec demo_runner demo_source")
  case (Inl e)
  with demo_view_value show ?thesis by simp
next
  case (Inr u)
  with demo_view_value have u: "length (utt_tokens u) = 8" "length (utt_progress u) = 9"
    "map seg_core_token_end (proof_segments (utt_proof u)) = [2, 3, 5]"
    by (simp_all add: demo_view_def)
  from u(3) obtain g gs where "proof_segments (utt_proof u) = g # gs" "seg_core_token_end g = 2"
    by (cases "proof_segments (utt_proof u)") simp_all
  then show ?thesis by (intro that [OF Inr _ _ u(1,2)]) simp_all
qed

subsection \<open>Order of the token table\<close>

text \<open>The text a token commits never reaches past the start of the text of a later token.\<close>

definition commits_before :: "prepared_token \<Rightarrow> prepared_token \<Rightarrow> bool" where
  "commits_before t t' \<longleftrightarrow> tok_commit_char_end t \<le> tok_source_char_start t'"

lemma segment_tokens_ordered: "sorted_wrt commits_before (segment_tokens p core g)"
  by (auto simp: sorted_wrt_iff_nth_less segment_tokens_def core_prepared_token_def Let_def
      commits_before_def)

lemma segment_tokens_bounds:
  assumes "t \<in> set (segment_tokens p core g)" and "seg_source_char_start g \<le> seg_source_char_end g"
  shows "tok_source_char_start t = seg_source_char_start g"
    and "tok_commit_char_end t \<le> seg_source_char_end g"
  using assms by (auto simp: segment_tokens_def core_prepared_token_def Let_def)

lemma chain_tokens_ordered:
  "segment_chain p s c segs s' c' \<Longrightarrow>
   sorted_wrt commits_before (concat (map (segment_tokens p core) segs)) \<and>
   (\<forall>t \<in> set (concat (map (segment_tokens p core) segs)).
      s \<le> tok_source_char_start t \<and> tok_commit_char_end t \<le> s')"
proof (induction segs arbitrary: s c)
  case Nil
  then show ?case by simp
next
  case (Cons g gs)
  then have tl: "segment_chain p (seg_source_char_end g) (seg_core_token_end g) gs s' c'"
    and g: "seg_source_char_start g = s" "s < seg_source_char_end g" by auto
  let ?ts = "concat (map (segment_tokens p core) gs)"
  note bounds = segment_tokens_bounds [where g = g and p = p and core = core]
  have "commits_before t t'" if "t \<in> set (segment_tokens p core g)" "t' \<in> set ?ts" for t t'
    using bounds(2) [OF that(1)] Cons.IH [OF tl] that(2) g
    by (fastforce simp: commits_before_def)
  moreover have "s \<le> tok_source_char_start t \<and> tok_commit_char_end t \<le> s'"
    if "t \<in> set (segment_tokens p core g)" for t
    using bounds [OF that] g segment_chain_le [OF tl] by simp
  moreover have "s \<le> tok_source_char_start t \<and> tok_commit_char_end t \<le> s'" if "t \<in> set ?ts" for t
    using Cons.IH [OF tl] that g by fastforce
  ultimately show ?case
    using segment_tokens_ordered [of p core g] Cons.IH [OF tl]
    unfolding list.map concat.simps sorted_wrt_append set_append by blast
qed

lemma token_table_ordered:
  assumes "segment_chain p 0 0 segs s c" and "s \<le> n"
  shows "sorted_wrt commits_before (token_table_of spec b p core segs s n)"
  using chain_tokens_ordered [OF assms(1), of core] assms(2)
  by (fastforce simp: token_table_of_def sorted_wrt_append commits_before_def edge_token_def)

lemma progress_of_nth:
  "progress_of ts ! k = (if k = 0
     then \<lparr>prog_committed_text_tokens = 0, prog_source_char_end = 0, prog_source_utf8_end = 0\<rparr>
     else map token_progress ts ! (k - 1))"
  by (cases k) (simp_all add: progress_of_def)

lemma source_progress_at_eq_Inr:
  "source_progress_at u k = Inr r \<longleftrightarrow>
     0 \<le> k \<and> k < int (length (utt_progress u)) \<and> r = utt_progress u ! nat k"
  by (auto simp: source_progress_at_def)

lemma progress_not_early:
  assumes "sorted_wrt commits_before ts" and "k \<le> i" and "i < length ts"
  shows "prog_source_char_end (progress_of ts ! k) \<le> tok_source_char_start (ts ! i)"
  using assms sorted_wrt_nth_less [of commits_before ts "k - 1" i]
  by (auto simp: progress_of_nth token_progress_def commits_before_def)

lemma progress_mono:
  assumes "sorted (map tok_commit_char_end ts)" and "j < k" and "k \<le> length ts"
  shows "tok_commit_char_end (ts ! j) \<le> prog_source_char_end (progress_of ts ! k)"
  using assms by (auto simp: progress_of_nth token_progress_def sorted_iff_nth_mono)

lemma table_entry:
  assumes p: "project_source env source = Inr p"
    and chain: "segment_chain p 0 0 segs (last_non_whitespace_source_end p) (length core)"
    and ts_def: "ts =
      token_table_of spec b p core segs (last_non_whitespace_source_end p) (length source)"
    and k: "k \<le> length ts"
  defines "r \<equiv> progress_of ts ! k"
  shows "prog_committed_text_tokens r = k" and "prog_source_char_end r \<le> length source"
    and "\<exists>bytes. utf8_encode (take (prog_source_char_end r) source) = Inr bytes \<and>
      prog_source_utf8_end r = length bytes"
    and "k = length ts \<Longrightarrow> prog_source_char_end r = length source"
proof -
  have commits: "tok_commit_char_end t \<le> length source" if "t \<in> set ts" for t
  proof -
    from that have "tok_commit_char_end t \<in> set (map tok_commit_char_end ts)" by simp
    then show ?thesis
      unfolding ts_def token_table_of_commits [OF chain]
      using commits_sorted [OF chain] locked.last_end_le [OF p] by fastforce
  qed
  have index: "tok_token_index (ts ! j) = j" if "j < length ts" for j
  proof -
    from that have "tok_token_index (ts ! j) = map tok_token_index ts ! j" by simp
    also have "\<dots> = j"
      unfolding ts_def token_table_of_indices [OF chain]
      using that by (simp add: ts_def token_table_of_length [OF chain] del: upt_Suc)
    finally show ?thesis .
  qed
  show committed: "prog_committed_text_tokens r = k"
    using k index [of "k - 1"] by (auto simp: r_def progress_of_nth token_progress_def)
  show le: "prog_source_char_end r \<le> length source"
    using k commits [of "ts ! (k - 1)"] by (auto simp: r_def progress_of_nth token_progress_def)
  have "prog_source_utf8_end r = utf8_boundaries p ! prog_source_char_end r"
  proof (cases k)
    case 0
    with locked.bounds_encode [OF p, of 0] show ?thesis by (auto simp: r_def progress_of_def)
  next
    case (Suc j)
    with k have "ts ! j \<in> set ts" by simp
    then have "tok_commit_utf8_end (ts ! j) = utf8_boundaries p ! tok_commit_char_end (ts ! j)"
      unfolding ts_def by (rule token_table_of_commit_utf8)
    with Suc k show ?thesis by (simp add: r_def progress_of_def token_progress_def)
  qed
  with locked.bounds_encode [OF p le] show "\<exists>bytes. utf8_encode (take (prog_source_char_end r) source)
      = Inr bytes \<and> prog_source_utf8_end r = length bytes" by auto
  show "prog_source_char_end r = length source" if "k = length ts"
    using that by (simp add: r_def progress_of_def token_progress_def ts_def token_table_of_def
        edge_token_def nth_append)
qed

subsection \<open>Segments and their replay\<close>

definition segment_source :: "pystr \<Rightarrow> source_segment \<Rightarrow> pystr" where
  "segment_source source g =
     take (seg_source_char_end g - seg_source_char_start g) (drop (seg_source_char_start g) source)"

lemma drop_take_split: "a \<le> b \<Longrightarrow> take (b - a) (drop a xs) @ drop b xs = drop a xs"
  by (metis add_diff_inverse_nat append_take_drop_id drop_drop linorder_not_le add.commute)

lemma chain_covers:
  "segment_chain p s c segs s' c' \<Longrightarrow>
   concat (map (segment_source source) segs) @ drop s' source = drop s source \<and>
   concat (map (\<lambda>g. [seg_core_token_start g..<seg_core_token_end g]) segs) = [c..<c']"
proof (induction segs arbitrary: s c)
  case Nil
  then show ?case by simp
next
  case (Cons g gs)
  then have tl: "segment_chain p (seg_source_char_end g) (seg_core_token_end g) gs s' c'"
    and g: "seg_source_char_start g = s" "s < seg_source_char_end g"
      "seg_core_token_start g = c" "c < seg_core_token_end g" by auto
  from g have "segment_source source g @ drop (seg_source_char_end g) source = drop s source"
    by (simp add: segment_source_def drop_take_split)
  moreover have "[c..<c'] = [c..<seg_core_token_end g] @ [seg_core_token_end g..<c']"
    using g segment_chain_le [OF tl] by (intro upt_split) auto
  ultimately show ?case using Cons.IH [OF tl] g by simp
qed

lemma compact_loop_tail:
  "list_all char_isspace (drop (if snd (compact_loop i s) = [] then 0
     else last (snd (compact_loop i s)) - i) s)"
proof (induction s arbitrary: i)
  case Nil
  then show ?case by simp
next
  case (Cons c cs)
  let ?e = "snd (compact_loop (Suc i) cs)"
  show ?case
  proof (cases "?e = []")
    case True
    with Cons [of "Suc i"] show ?thesis by (simp add: case_prod_beta)
  next
    case False
    with compact_loop_bounds [of "last ?e" "Suc i" cs] have "Suc i < last ?e" by simp
    then have "last ?e - i = Suc (last ?e - Suc i)" by arith
    with False Cons [of "Suc i"] show ?thesis by (simp add: case_prod_beta)
  qed
qed

lemma project_source_tail:
  assumes p: "project_source env s = Inr p"
  shows "list_all char_isspace (drop (last_non_whitespace_source_end p) s)"
proof -
  note f = project_source_fields [OF p]
  from f(5) locked.ends_length [OF p] have "prepared_source_char_ends p \<noteq> []" by auto
  with compact_loop_tail [of 0 s] show ?thesis by (simp add: f(1,2))
qed

lemma segment_replays:
  assumes p: "project_source env source = Inr p"
    and core: "core_of env spec runner (normalized_text p) = Inr (g2p, core)"
    and cert: "certified_prefixes (core_of env spec runner) (normalized_text p) core = Inr certified"
    and g: "from_prefix p (tl certified) g"
  obtains g2p' core' where
    "core_of env spec runner (lowered env (take (seg_source_char_end g) source)) = Inr (g2p', core')"
    "map core_identity core' = map core_identity (take (seg_core_token_end g) core)"
    "seg_core_token_end g \<le> length core" "seg_core_token_end g \<in> unit_end_positions core"
proof -
  from cert obtain new where new: "certified = (0, 0) # new"
    and c: "\<forall>pt \<in> set new. 1 \<le> fst pt \<and> fst pt \<le> length (normalized_text p) \<and>
      prefix_certifies (core_of env spec runner) (normalized_text p) (map core_identity core)
        (unit_end_positions core) (fst pt) = Inr (Some (snd pt))"
    by (rule certified_prefixes_eq_Inr)
  from g new obtain pe where pe: "(pe, seg_core_token_end g) \<in> set new"
    "pe - 1 < length (prepared_source_char_ends p)"
    "seg_source_char_end g = prepared_source_char_ends p ! (pe - 1)"
    by (auto simp: from_prefix_def)
  from c pe(1) have "1 \<le> pe" and
    certifies: "prefix_certifies (core_of env spec runner) (normalized_text p)
      (map core_identity core) (unit_end_positions core) pe = Inr (Some (seg_core_token_end g))"
    by auto
  with locked.ends_prefix [OF p pe(2)] pe(3)
  have prefix: "lowered env (take (seg_source_char_end g) source) = take pe (normalized_text p)"
    by simp
  from prefix_certifies_eq_Some [OF certifies] prefix that show ?thesis by auto
qed


subsection \<open>The token table can always be built\<close>

lemma append_segment_tokens_total:
  assumes "seg_source_char_start g < length (utf8_boundaries p)"
    and "seg_source_char_end g < length (utf8_boundaries p)" and "\<forall>i \<in> set is. i < length core"
  shows "\<exists>out. append_segment_tokens p core g is tokens = Inr out"
  using assms(3)
  by (induction "is" arbitrary: tokens) (auto simp: py_nth_def append_token_def assms(1,2))

lemma append_all_segments_total:
  assumes "segment_chain p s c segs s' c'" and "s' < length (utf8_boundaries p)" and "c' \<le> length core"
  shows "\<exists>out. append_all_segments p core segs tokens = Inr out"
  using assms(1)
proof (induction segs arbitrary: s c tokens)
  case Nil
  then show ?case by simp
next
  case (Cons g gs)
  then have tl: "segment_chain p (seg_source_char_end g) (seg_core_token_end g) gs s' c'"
    and g: "seg_source_char_start g = s" "s < seg_source_char_end g" by auto
  note le = segment_chain_le [OF tl]
  have "\<exists>mid. append_segment_tokens p core g [seg_core_token_start g..<seg_core_token_end g] tokens
      = Inr mid"
    using le g assms(2,3) by (intro append_segment_tokens_total) auto
  with Cons.IH [OF tl] show ?case by fastforce
qed

lemma prepared_tokens_of_total:
  assumes "segment_chain p 0 0 segs s (length core)" and "s \<le> n" and "n < length (utf8_boundaries p)"
    and "effective_local_ids spec space \<noteq> None"
  shows "\<exists>tokens. prepared_tokens_of spec p core segs s n = Inr tokens"
proof -
  obtain b where b: "effective_local_ids spec space = Some b" using assms(4) by auto
  let ?t = "edge_token p space BoundarySpace (Some b) (global_offset spec + b) 0 0 0"
  from append_all_segments_total [OF assms(1), of core "[?t]"] assms(2,3) obtain out
    where "append_all_segments p core segs [?t] = Inr out" by auto
  with assms(2,3) b show ?thesis
    by (auto simp: prepared_tokens_of_def append_token_def py_nth_def edge_token_def)
qed

subsection \<open>Properties of prepare\<close>

text \<open>C1: the OpenJTalk runner, asked again for the source text up to the end of any segment of a
prepared utterance, returns exactly the core tokens that the segment table attributes to that text:
the same symbols and local ids as the first tokens of the full utterance; and the cut is between two
units, so no pitch mark is separated from its mora.\<close>

theorem segments_replay:
  assumes "prepare env spec runner source = Inr u" and "g \<in> set (proof_segments (utt_proof u))"
  shows "\<exists>g2p core g2p' core'.
    core_of env spec runner (utt_normalized_text u) = Inr (g2p, core) \<and>
    core_of env spec runner (lowered env (take (seg_source_char_end g) source)) = Inr (g2p', core') \<and>
    map core_identity core' = map core_identity (take (seg_core_token_end g) core) \<and>
    (\<forall>i < seg_core_token_end g. \<forall>j < length core. seg_core_token_end g \<le> j \<longrightarrow>
       core_unit_index (core ! i) < core_unit_index (core ! j))"
proof -
  from assms(1) obtain p g2p core certified segs b where
    p: "project_source env source = Inr p"
    and core: "core_of env spec runner (normalized_text p) = Inr (g2p, core)"
    and cert: "certified_prefixes (core_of env spec runner) (normalized_text p) core = Inr certified"
    and origin: "\<forall>g \<in> set segs. from_prefix p (tl certified) g"
    and u: "utt_normalized_text u = normalized_text p" "proof_segments (utt_proof u) = segs"
    by (rule prepare_eq_Inr) blast
  from assms(2) u origin have "from_prefix p (tl certified) g" by simp
  from segment_replays [OF p core cert this] obtain g2p' core' where
    r: "core_of env spec runner (lowered env (take (seg_source_char_end g) source)) = Inr (g2p', core')"
    "map core_identity core' = map core_identity (take (seg_core_token_end g) core)"
    "seg_core_token_end g \<in> unit_end_positions core" by blast
  from core have "sorted (map core_unit_index core)"
    by (auto simp: core_of_def result_simps intro: tokenize_core_sorted)
  from unit_end_no_split_lemma [OF this r(3)] core r(1,2) u(1) show ?thesis by metis
qed

theorem segments_replay_witness:
  "\<exists>u g g2p core g2p' core'. prepare demo_env demo_spec demo_runner demo_source = Inr u \<and>
    g \<in> set (proof_segments (utt_proof u)) \<and>
    core_of demo_env demo_spec demo_runner (utt_normalized_text u) = Inr (g2p, core) \<and>
    core_of demo_env demo_spec demo_runner
      (lowered demo_env (take (seg_source_char_end g) demo_source)) = Inr (g2p', core') \<and>
    map core_identity core' = map core_identity (take (seg_core_token_end g) core)"
proof -
  obtain u g where "prepare demo_env demo_spec demo_runner demo_source = Inr u"
    "g \<in> set (proof_segments (utt_proof u))" by (rule demo_segment)
  with segments_replay [OF this] show ?thesis by blast
qed

text \<open>C7: progress never runs ahead of the tokens. Whatever number of tokens is reported as
committed, the source position reported with it does not reach past the start of the text of any
token not yet committed.\<close>

theorem progress_never_early:
  assumes "prepare env spec runner source = Inr u" and "source_progress_at u k = Inr r"
    and "nat k \<le> i" and "i < length (utt_tokens u)"
  shows "prog_source_char_end r \<le> tok_source_char_start (utt_tokens u ! i)"
proof -
  from assms(1) obtain p core segs b where
    p: "project_source env source = Inr p"
    and chain: "segment_chain p 0 0 segs (last_non_whitespace_source_end p) (length core)"
    and toks: "utt_tokens u =
      token_table_of spec b p core segs (last_non_whitespace_source_end p) (length source)"
    and prog: "utt_progress u = progress_of (utt_tokens u)"
    by (rule prepare_eq_Inr) blast
  have "sorted_wrt commits_before (utt_tokens u)"
    unfolding toks by (rule token_table_ordered [OF chain locked.last_end_le [OF p]])
  from progress_not_early [OF this assms(3,4)] assms(2) prog show ?thesis
    by (simp add: source_progress_at_eq_Inr)
qed

theorem progress_never_early_witness:
  "\<exists>u r. prepare demo_env demo_spec demo_runner demo_source = Inr u \<and>
    source_progress_at u 3 = Inr r \<and> prog_source_char_end r \<le> tok_source_char_start (utt_tokens u ! 5)"
proof -
  obtain u where u: "prepare demo_env demo_spec demo_runner demo_source = Inr u"
    "length (utt_tokens u) = 8" "length (utt_progress u) = 9" by (rule demo_segment)
  then have "source_progress_at u 3 = Inr (utt_progress u ! 3)"
    by (simp add: source_progress_at_def)
  with u(1) progress_never_early [OF u(1) this, of 5] u(2) show ?thesis by auto
qed

text \<open>C37: progress is not late either. Once all the tokens of a segment are committed (the leading
boundary space and the core tokens up to the segment's end), the reported source position has reached
the end of the segment.\<close>

theorem progress_never_late:
  assumes "prepare env spec runner source = Inr u" and "source_progress_at u k = Inr r"
    and "g \<in> set (proof_segments (utt_proof u))" and "int (seg_core_token_end g) + 1 \<le> k"
  shows "seg_source_char_end g \<le> prog_source_char_end r"
proof -
  from assms(1) obtain p core segs b where
    p: "project_source env source = Inr p"
    and chain: "segment_chain p 0 0 segs (last_non_whitespace_source_end p) (length core)"
    and toks: "utt_tokens u =
      token_table_of spec b p core segs (last_non_whitespace_source_end p) (length source)"
    and prog: "utt_progress u = progress_of (utt_tokens u)"
    and segs: "proof_segments (utt_proof u) = segs"
    by (rule prepare_eq_Inr) blast
  let ?e = "seg_core_token_end g"
  from assms(3) segs have g: "g \<in> set segs" by simp
  from segment_chain_mem [OF chain g] have e: "seg_core_token_start g < ?e" "?e \<le> length core" by auto
  then have "utt_tokens u ! ?e = core_prepared_token p core g (?e - 1)"
    using token_table_of_nth [OF chain g, of "?e - 1"] toks by simp
  then have commit: "tok_commit_char_end (utt_tokens u ! ?e) = seg_source_char_end g"
    using e by (simp add: core_prepared_token_def Let_def)
  have "sorted (map tok_commit_char_end (utt_tokens u))"
    unfolding toks token_table_of_commits [OF chain]
    using commits_sorted [OF chain] locked.last_end_le [OF p] by (fastforce simp: sorted_append)
  from progress_mono [OF this, of ?e "nat k"] assms(2,4) prog commit show ?thesis
    by (auto simp: source_progress_at_eq_Inr progress_of_def)
qed

theorem progress_never_late_witness:
  "\<exists>u g r. prepare demo_env demo_spec demo_runner demo_source = Inr u \<and>
    g \<in> set (proof_segments (utt_proof u)) \<and> seg_core_token_end g = 2 \<and>
    source_progress_at u 3 = Inr r \<and> seg_source_char_end g \<le> prog_source_char_end r"
proof -
  obtain u g where u: "prepare demo_env demo_spec demo_runner demo_source = Inr u"
    "g \<in> set (proof_segments (utt_proof u))" "seg_core_token_end g = 2"
    "length (utt_progress u) = 9" by (rule demo_segment)
  then have "source_progress_at u 3 = Inr (utt_progress u ! 3)"
    by (simp add: source_progress_at_def)
  with u progress_never_late [OF u(1) this u(2)] show ?thesis by auto
qed

text \<open>The progress table answers for every count from 0 to the number of tokens and for no
other; the k-th entry reports k tokens, a position inside the source, and as byte offset the length of
the UTF-8 encoding of the source up to that position; the last entry is the whole source.\<close>

theorem progress_table_exact:
  assumes "prepare env spec runner source = Inr u"
  shows "(if 0 \<le> k \<and> k \<le> int (length (utt_tokens u))
     then \<exists>r bytes. source_progress_at u k = Inr r \<and> prog_committed_text_tokens r = nat k \<and>
       prog_source_char_end r \<le> length source \<and>
       utf8_encode (take (prog_source_char_end r) source) = Inr bytes \<and>
       prog_source_utf8_end r = length bytes \<and>
       (k = int (length (utt_tokens u)) \<longrightarrow> prog_source_char_end r = length source)
     else \<exists>m. source_progress_at u k = Inl (Exn PyIndexError m))"
proof -
  from assms obtain p core segs b where
    p: "project_source env source = Inr p"
    and chain: "segment_chain p 0 0 segs (last_non_whitespace_source_end p) (length core)"
    and toks: "utt_tokens u =
      token_table_of spec b p core segs (last_non_whitespace_source_end p) (length source)"
    and prog: "utt_progress u = progress_of (utt_tokens u)"
    by (rule prepare_eq_Inr) blast
  show ?thesis
  proof (cases "0 \<le> k \<and> k \<le> int (length (utt_tokens u))")
    case False
    then show ?thesis by (auto simp: source_progress_at_def prog progress_of_def)
  next
    case True
    then have at: "source_progress_at u k = Inr (progress_of (utt_tokens u) ! nat k)"
      by (simp add: source_progress_at_eq_Inr prog progress_of_def)
    from True have "nat k \<le> length (utt_tokens u)" by auto
    note entry = table_entry [OF p chain toks this]
    from entry at True show ?thesis by auto
  qed
qed


theorem progress_table_exact_witness:
  "\<exists>u r. prepare demo_env demo_spec demo_runner demo_source = Inr u \<and>
    source_progress_at u 8 = Inr r \<and> prog_source_char_end r = length demo_source"
proof -
  obtain u where u: "prepare demo_env demo_spec demo_runner demo_source = Inr u"
    "length (utt_tokens u) = 8" by (rule demo_segment)
  with progress_table_exact [OF u(1), of 8] show ?thesis by auto
qed

text \<open>C36: the segments partition the utterance. Their source intervals, none of them empty and each
ending on a non-space character, concatenate to the source up to a tail of white space; their token
intervals, none of them empty, concatenate to all core tokens.\<close>

theorem segments_partition:
  assumes "prepare env spec runner source = Inr u"
  defines "segs \<equiv> proof_segments (utt_proof u)"
  shows "\<exists>tail. concat (map (segment_source source) segs) @ tail = source \<and>
    list_all char_isspace tail \<and>
    concat (map (\<lambda>g. [seg_core_token_start g..<seg_core_token_end g]) segs) =
      [0..<proof_core_token_count (utt_proof u)] \<and>
    (\<forall>g \<in> set segs. seg_source_char_start g < seg_source_char_end g \<and>
       \<not> char_isspace (source ! (seg_source_char_end g - 1)) \<and>
       seg_core_token_start g < seg_core_token_end g)"
proof -
  from assms(1) obtain p gs and core :: "core_token list" where
    p: "project_source env source = Inr p"
    and chain': "segment_chain p 0 0 gs (last_non_whitespace_source_end p) (length core)"
    and gs: "proof_segments (utt_proof u) = gs"
    and n: "proof_core_token_count (utt_proof u) = length core"
    by (rule prepare_eq_Inr) metis
  from chain' gs have
    chain: "segment_chain p 0 0 segs (last_non_whitespace_source_end p) (length core)"
    by (simp add: segs_def)
  from chain_covers [OF chain, of source] project_source_tail [OF p] n
    segment_chain_mem [OF chain] locked.ends_range [OF p]
  show ?thesis
    by (intro exI [of _ "drop (last_non_whitespace_source_end p) source"]) auto
qed

theorem segments_partition_witness:
  "\<exists>u tail. prepare demo_env demo_spec demo_runner demo_source = Inr u \<and>
    concat (map (segment_source demo_source) (proof_segments (utt_proof u))) @ tail = demo_source"
proof -
  obtain u where u: "prepare demo_env demo_spec demo_runner demo_source = Inr u"
    by (rule demo_segment)
  with segments_partition [OF u] show ?thesis by blast
qed

text \<open>The prepared ids are the boundary space, the core tokens the runner's output encodes to, the
boundary space and the end-of-sequence id; the token after each core position carries that core token's
symbol, kind, unit and ids and the source interval of the one segment the position lies in.\<close>

theorem prepared_tokens_lineage:
  assumes "prepare env spec runner source = Inr u"
  shows "\<exists>g2p core b. core_of env spec runner (utt_normalized_text u) = Inr (g2p, core) \<and>
    effective_local_ids spec space = Some b \<and>
    utt_global_token_ids u =
      [global_offset spec + b] @ map core_global_token_id core
        @ [global_offset spec + b, eos_token_id spec] \<and>
    (\<forall>g \<in> set (proof_segments (utt_proof u)). \<forall>i. seg_core_token_start g \<le> i \<and>
       i < seg_core_token_end g \<longrightarrow> i < length core \<and>
       (let t = utt_tokens u ! (i + 1); c = core ! i in
        tok_token_index t = i + 1 \<and> tok_symbol t = core_symbol c \<and> tok_kind t = core_kind c \<and>
        tok_unit_index t = Some (core_unit_index c) \<and>
        tok_local_token_id t = Some (core_local_token_id c) \<and>
        tok_global_token_id t = core_global_token_id c \<and>
        tok_source_char_start t = seg_source_char_start g \<and>
        tok_source_char_end t = seg_source_char_end g))"
proof -
  from assms obtain p g2p core segs b where
    c: "core_of env spec runner (utt_normalized_text u) = Inr (g2p, core)"
    and chain: "segment_chain p 0 0 segs (last_non_whitespace_source_end p) (length core)"
    and b: "effective_local_ids spec space = Some b"
    and toks: "utt_tokens u =
      token_table_of spec b p core segs (last_non_whitespace_source_end p) (length source)"
    and ids: "utt_global_token_ids u = map tok_global_token_id (utt_tokens u)"
    and segs: "proof_segments (utt_proof u) = segs"
    by (rule prepare_eq_Inr) metis
  have "i < length core" if "g \<in> set segs" "i < seg_core_token_end g" for g i
    using segment_chain_mem [OF chain that(1)] that(2) by simp
  then show ?thesis
    using token_table_of_nth [OF chain]
    by (intro exI [of _ g2p] exI [of _ core] exI [of _ b])
      (auto simp: c b ids segs toks token_table_of_globals [OF chain] core_prepared_token_def Let_def)
qed

theorem prepared_tokens_lineage_witness:
  "\<exists>u g2p core b. prepare demo_env demo_spec demo_runner demo_source = Inr u \<and>
    core_of demo_env demo_spec demo_runner (utt_normalized_text u) = Inr (g2p, core) \<and>
    utt_global_token_ids u = [100 + b] @ map core_global_token_id core @ [100 + b, 105]"
proof -
  obtain u where u: "prepare demo_env demo_spec demo_runner demo_source = Inr u"
    by (rule demo_segment)
  with prepared_tokens_lineage [OF u] show ?thesis by (simp add: demo_spec_def) blast
qed

text \<open>Once the segments are found, preparing cannot fail any more: for a vocabulary with a space
symbol the token table is built without an index error, the progress table is monotone and its last
entry is the exact source end, so the two alignment errors at the end of prepare are unreachable.\<close>

theorem late_checks_unreachable:
  assumes "project_source env source = Inr p"
    and "source_segments p certified (length core) = Inr (segs, st)"
    and "effective_local_ids spec space \<noteq> None"
  shows "\<exists>tokens progress. prepared_tokens_of spec p core segs st (length source) = Inr tokens \<and>
    checked_progress tokens (length source) (last (utf8_boundaries p)) = Inr progress"
proof -
  note sg = source_segments_eq_Inr [OF assms(2)]
  have "st \<le> length source" using sg(2) locked.last_end_le [OF assms(1)] by simp
  with prepared_tokens_of_total [OF sg(1)] locked.bounds_length [OF assms(1)] assms(3) obtain tokens
    where toks: "prepared_tokens_of spec p core segs st (length source) = Inr tokens" by auto
  from prepared_tokens_of_eq_Inr [OF toks sg(1)] obtain b
    where "tokens = token_table_of spec b p core segs st (length source)" by blast
  with locked.checked_progress_passes [OF assms(1) sg(1) [unfolded sg(2)]] sg(2) toks
  show ?thesis by simp
qed


theorem late_checks_unreachable_witness:
  "\<exists>p tokens progress. project_source demo_env [12354] = Inr p \<and>
    prepared_tokens_of demo_spec p
      [\<lparr>core_symbol = pys ''0'', core_kind = Pitch, core_unit_index = 0, core_local_token_id = 1,
        core_global_token_id = 101\<rparr>]
      [\<lparr>seg_source_char_start = 0, seg_source_char_end = 1, seg_source_utf8_start = 0,
        seg_source_utf8_end = 3, seg_core_token_start = 0, seg_core_token_end = 1\<rparr>] 1 (length [12354::nat])
      = Inr tokens \<and>
    checked_progress tokens (length [12354::nat]) (last (utf8_boundaries p)) = Inr progress"
proof -
  let ?t = "\<lparr>core_symbol = pys ''0'', core_kind = Pitch, core_unit_index = 0, core_local_token_id = 1,
    core_global_token_id = 101\<rparr>"
  obtain p where p: "project_source demo_env [12354] = Inr p"
    and s: "source_segments p [(0, 0), (1, 1)] (length [?t]) = Inr
      ([\<lparr>seg_source_char_start = 0, seg_source_char_end = 1, seg_source_utf8_start = 0,
        seg_source_utf8_end = 3, seg_core_token_start = 0, seg_core_token_end = 1\<rparr>], 1)"
    by (simp add: prepare_run_simps demo_env_def)
  have "effective_local_ids demo_spec space \<noteq> None"
    by (simp add: g2p_run_simps demo_defs)
  from late_checks_unreachable [OF p s this] p show ?thesis by blast
qed

end
