(* ===== verification/Segmentation.thy ===== *)
theory Segmentation
  imports Alignment
begin

text \<open>
  \<open>prepare_segments\<close> and \<open>_certified_segment_ranges\<close> of \<open>tools/frontend/japanese_frontend.py\<close>: the
  split of one logical utterance into independently prepared segments of at most 80 NJD words, cut
  only at certified sentence ends.

  The while loop is \<open>range_loop\<close> (it ends because every selected end lies after the start), the
  inner for loop, which has no break, is \<open>select_end\<close>. \<open>greedy\<close> is the abstract specification:
  from each start, the farthest certified end whose interval is within the limit.
\<close>

definition MAXIMUM_NJD_WORDS_PER_SEGMENT :: nat where
  "MAXIMUM_NJD_WORDS_PER_SEGMENT = 80"

definition INDEPENDENT_SEGMENTATION_MODE :: string where
  "INDEPENDENT_SEGMENTATION_MODE = ''independent_sentence_segments_v1''"

record prepared_segment =
  pseg_segment_index :: nat
  pseg_source_char_start :: nat
  pseg_source_char_end :: nat
  pseg_source_utf8_start :: nat
  pseg_source_utf8_end :: nat
  pseg_prepared :: prepared_utterance

record prepared_segments =
  psegs_source_text :: pystr
  psegs_segmentation_mode :: string
  psegs_segments :: "prepared_segment list"

subsection \<open>Certified ranges\<close>

definition sentence_ends :: "pystr \<Rightarrow> nat set" where
  "sentence_ends source =
     set (map (\<lambda>(i, c). i + 1)
       (filter (\<lambda>(i, c). c \<in> set [12290, 65281, 65311, 10]) (enumerate 0 source)))"

definition certified_ends :: "prepared_utterance \<Rightarrow> nat list" where
  "certified_ends prepared =
     (let source_length = length (utt_source_text prepared);
          ends = sentence_ends (utt_source_text prepared)
      in sorted_list_of_set
           (set (filter (\<lambda>e. 0 < e \<and> e < source_length \<and> e \<in> ends)
                  (map seg_source_char_end (proof_segments (utt_proof prepared))))
            \<union> {source_length}))"

fun select_end ::
  "(nat \<Rightarrow> nat \<Rightarrow> nat result) \<Rightarrow> nat \<Rightarrow> nat list \<Rightarrow> nat option \<Rightarrow> nat option result" where
  "select_end word_count source_start [] selected = Inr selected"
| "select_end word_count source_start (source_end # ends) selected =
     (if source_end \<le> source_start then select_end word_count source_start ends selected
      else bindE (word_count source_start source_end) (\<lambda>count.
        if count \<le> 0
          then Inl (ambiguous ''certified source interval produced no OpenJTalk NJD word'')
        else select_end word_count source_start ends
          (if count \<le> MAXIMUM_NJD_WORDS_PER_SEGMENT then Some source_end else selected)))"

lemma select_end_after:
  "select_end cnt s ends sel = Inr (Some e) \<Longrightarrow> (\<And>x. sel = Some x \<Longrightarrow> s < x) \<Longrightarrow> s < e"
  by (induction cnt s ends sel rule: select_end.induct)
    (auto simp: result_simps split: if_splits)

function range_loop ::
  "(nat \<Rightarrow> nat \<Rightarrow> nat result) \<Rightarrow> nat list \<Rightarrow> nat \<Rightarrow> nat \<Rightarrow> (nat \<times> nat) list \<Rightarrow> (nat \<times> nat) list result"
where
  "range_loop word_count ends source_length source_start ranges =
     (if source_start < source_length then
        bindE (select_end word_count source_start ends None) (\<lambda>selected.
          case selected of
            None \<Rightarrow> Inl (ambiguous
              ''no certified sentence boundary satisfies the 80-NJD-word runtime limit'')
          | Some e \<Rightarrow> range_loop word_count ends source_length e (ranges @ [(source_start, e)]))
      else Inr ranges)"
  by pat_completeness auto

termination
  by (relation "measure (\<lambda>(word_count, ends, n, s, ranges). n - s)")
    (auto dest: select_end_after)

declare range_loop.simps [simp del]

definition certified_segment_ranges ::
  "prepared_utterance \<Rightarrow> (nat \<Rightarrow> nat \<Rightarrow> nat result) \<Rightarrow> (nat \<times> nat) list result" where
  "certified_segment_ranges prepared word_count =
     (let source_length = length (utt_source_text prepared) in
      bindE (range_loop word_count (certified_ends prepared) source_length 0 []) (\<lambda>ranges.
        if ranges = [] \<or> snd (last ranges) \<noteq> source_length
        then Inl (ambiguous ''certified long-text segmentation did not cover the exact source'')
        else Inr ranges))"

subsection \<open>prepare_segments\<close>

definition subtext :: "nat \<Rightarrow> nat \<Rightarrow> 'a list \<Rightarrow> 'a list" where
  "subtext i j xs = take (j - i) (drop i xs)"

definition prepare_range ::
  "pyenv \<Rightarrow> frontend_spec \<Rightarrow> runner \<Rightarrow> pystr \<Rightarrow> prepared_utterance \<Rightarrow> nat list \<Rightarrow> nat \<Rightarrow> nat \<times> nat \<Rightarrow>
   prepared_segment result" where
  "prepare_range env spec runner source_text prepared boundaries index r =
     (let (source_start, source_end) = r;
          segment_source = subtext source_start source_end source_text
      in bindE (if source_start = 0 \<and> source_end = length source_text then Inr prepared
                else prepare env spec runner segment_source) (\<lambda>segment_prepared.
         bindE (njd_word_count env runner segment_source) (\<lambda>count.
           if MAXIMUM_NJD_WORDS_PER_SEGMENT < count
             then Inl (ambiguous ''certified source segment exceeds the 80-NJD-word runtime limit'')
           else
         bindE (py_nth boundaries source_start) (\<lambda>utf8_start.
         bindE (py_nth boundaries source_end) (\<lambda>utf8_end.
           Inr \<lparr>pseg_segment_index = index, pseg_source_char_start = source_start,
             pseg_source_char_end = source_end, pseg_source_utf8_start = utf8_start,
             pseg_source_utf8_end = utf8_end, pseg_prepared = segment_prepared\<rparr>)))))"

definition prepare_segments ::
  "pyenv \<Rightarrow> frontend_spec \<Rightarrow> runner \<Rightarrow> pystr \<Rightarrow> prepared_segments result" where
  "prepare_segments env spec runner source_text =
     bindE (prepare env spec runner source_text) (\<lambda>prepared.
     bindE (certified_segment_ranges prepared
              (\<lambda>i j. njd_word_count env runner (subtext i j source_text))) (\<lambda>ranges.
     bindE (utf8_boundaries_from 0 source_text) (\<lambda>boundaries.
     bindE (mapE_from 0 (prepare_range env spec runner source_text prepared boundaries) ranges)
       (\<lambda>segments.
       Inr \<lparr>psegs_source_text = source_text,
            psegs_segmentation_mode = INDEPENDENT_SEGMENTATION_MODE, psegs_segments = segments\<rparr>))))"


subsection \<open>The greedy specification\<close>

definition within_limit :: "(nat \<Rightarrow> nat \<Rightarrow> nat result) \<Rightarrow> nat \<Rightarrow> nat \<Rightarrow> bool" where
  "within_limit word_count s e \<longleftrightarrow>
     (case word_count s e of Inl _ \<Rightarrow> False | Inr c \<Rightarrow> 0 < c \<and> c \<le> MAXIMUM_NJD_WORDS_PER_SEGMENT)"

definition counted :: "(nat \<Rightarrow> nat \<Rightarrow> nat result) \<Rightarrow> nat \<Rightarrow> nat \<Rightarrow> bool" where
  "counted word_count s e \<longleftrightarrow> (case word_count s e of Inl _ \<Rightarrow> False | Inr c \<Rightarrow> 0 < c)"

inductive greedy ::
  "(nat \<Rightarrow> nat \<Rightarrow> nat result) \<Rightarrow> nat list \<Rightarrow> nat \<Rightarrow> nat \<Rightarrow> (nat \<times> nat) list \<Rightarrow> bool"
  for word_count ends n where
  greedy_end: "greedy word_count ends n n []"
| greedy_cut: "\<lbrakk>s < n; e \<in> set ends; s < e; within_limit word_count s e;
     \<forall>e' \<in> set ends. s < e' \<longrightarrow> counted word_count s e';
     \<forall>e' \<in> set ends. e < e' \<longrightarrow> \<not> within_limit word_count s e';
     greedy word_count ends n e rs\<rbrakk> \<Longrightarrow> greedy word_count ends n s ((s, e) # rs)"

inductive_cases greedy_ConsE: "greedy word_count ends n s (r # rs)"
inductive_simps greedy_Nil [simp]: "greedy word_count ends n s []"

lemma select_end_eq_Inr:
  "select_end cnt s ends sel = Inr r \<longleftrightarrow>
     (\<forall>e \<in> set ends. s < e \<longrightarrow> counted cnt s e) \<and>
     r = (let fit = filter (\<lambda>e. s < e \<and> within_limit cnt s e) ends
          in if fit = [] then sel else Some (last fit))"
proof (induction ends arbitrary: sel)
  case Nil
  then show ?case by auto
next
  case (Cons e ends)
  show ?case
  proof (cases "cnt s e")
    case (Inl x)
    then show ?thesis by (auto simp: Cons.IH counted_def within_limit_def)
  next
    case (Inr c)
    then show ?thesis
      by (auto simp: Cons.IH counted_def within_limit_def Let_def)
  qed
qed

lemma le_last_sorted: "sorted xs \<Longrightarrow> y \<in> set xs \<Longrightarrow> y \<le> last (xs :: nat list)"
  by (induction xs) auto

lemma last_filter_sorted:
  assumes "sorted_wrt (<) xs" and "filter P xs \<noteq> []"
  shows "last (filter P xs) \<in> set xs" and "P (last (filter P xs))"
    and "y \<in> set xs \<Longrightarrow> last (filter P xs) < y \<Longrightarrow> \<not> P (y :: nat)"
proof -
  let ?f = "filter P xs"
  from assms(2) have "last ?f \<in> set ?f" by (rule last_in_set)
  then show "last ?f \<in> set xs" "P (last ?f)" by auto
  from assms(1) have "sorted ?f"
    by (intro sorted_wrt_filter strict_sorted_imp_sorted)
  then have "y \<in> set ?f \<Longrightarrow> y \<le> last ?f"
    by (rule le_last_sorted)
  then show "y \<in> set xs \<Longrightarrow> last ?f < y \<Longrightarrow> \<not> P y" by auto
qed

lemma select_end_Some:
  assumes "sorted_wrt (<) ends"
  shows "select_end cnt s ends None = Inr (Some e) \<longleftrightarrow>
    e \<in> set ends \<and> s < e \<and> within_limit cnt s e \<and>
    (\<forall>e' \<in> set ends. s < e' \<longrightarrow> counted cnt s e') \<and>
    (\<forall>e' \<in> set ends. e < e' \<longrightarrow> \<not> within_limit cnt s e')"
proof -
  let ?P = "\<lambda>e. s < e \<and> within_limit cnt s e"
  have "(filter ?P ends \<noteq> [] \<and> last (filter ?P ends) = e) \<longleftrightarrow>
      e \<in> set ends \<and> ?P e \<and> (\<forall>e' \<in> set ends. e < e' \<longrightarrow> \<not> ?P e')"
  proof (intro iffI conjI)
    assume "e \<in> set ends \<and> ?P e \<and> (\<forall>e' \<in> set ends. e < e' \<longrightarrow> \<not> ?P e')"
    then have e: "e \<in> set ends" "?P e" "\<forall>e' \<in> set ends. e < e' \<longrightarrow> \<not> ?P e'" by auto
    then show ne: "filter ?P ends \<noteq> []" by (auto simp: filter_empty_conv)
    note l = last_filter_sorted [OF assms ne]
    from l(1,2) e(3) have "\<not> e < last (filter ?P ends)" by blast
    moreover from l(3) [OF e(1)] e(2) have "\<not> last (filter ?P ends) < e" by blast
    ultimately show "last (filter ?P ends) = e" by simp
  next
    assume *: "filter ?P ends \<noteq> [] \<and> last (filter ?P ends) = e"
    note l = last_filter_sorted [OF assms conjunct1 [OF *]]
    from l * show "e \<in> set ends" "s < e" "within_limit cnt s e"
      "\<forall>e' \<in> set ends. e < e' \<longrightarrow> \<not> ?P e'" by blast+
  qed
  then show ?thesis by (auto simp: select_end_eq_Inr Let_def)
qed


lemma range_loop_eq_Inr:
  assumes "sorted_wrt (<) ends" and "\<forall>e \<in> set ends. e \<le> n"
    and "s \<le> n" and "range_loop cnt ends n s acc = Inr out"
  shows "\<exists>rs. out = acc @ rs \<and> greedy cnt ends n s rs"
  using assms
proof (induction cnt ends n s acc arbitrary: out rule: range_loop.induct)
  case (1 cnt ends n s acc)
  show ?case
  proof (cases "s < n")
    case False
    with "1.prems" show ?thesis by (auto simp: range_loop.simps [of cnt ends n n])
  next
    case True
    with "1.prems"(4) obtain e where e: "select_end cnt s ends None = Inr (Some e)"
      and rest: "range_loop cnt ends n e (acc @ [(s, e)]) = Inr out"
      by (auto simp: range_loop.simps [of cnt ends n s] result_simps split: option.splits)
    note sel = e [unfolded select_end_Some [OF "1.prems"(1)]]
    with "1.prems"(2) have "e \<le> n" by blast
    from "1.IH" [OF True e _ "1.prems"(1,2) this rest] obtain rs
      where rs: "out = (acc @ [(s, e)]) @ rs" "greedy cnt ends n e rs" by blast
    with sel True have "greedy cnt ends n s ((s, e) # rs)" by (intro greedy_cut) auto
    with rs(1) show ?thesis by auto
  qed
qed

lemma range_loop_greedy:
  assumes "sorted_wrt (<) ends"
  shows "greedy cnt ends n s rs \<Longrightarrow> range_loop cnt ends n s acc = Inr (acc @ rs)"
proof (induction arbitrary: acc rule: greedy.induct)
  case greedy_end
  then show ?case by (simp add: range_loop.simps)
next
  case (greedy_cut s e rs)
  then have "select_end cnt s ends None = Inr (Some e)" by (simp add: select_end_Some [OF assms])
  with greedy_cut.IH [of "acc @ [(s, e)]"] greedy_cut.hyps(1) show ?case
    by (simp add: range_loop.simps [of cnt ends n s])
qed

lemma greedy_last: "greedy cnt ends n s rs \<Longrightarrow> rs \<noteq> [] \<Longrightarrow> snd (last rs) = n"
  by (induction rule: greedy.induct) (auto elim: greedy.cases)

lemma set_certified_ends:
  "set (certified_ends u) = insert (length (utt_source_text u))
     {e \<in> seg_source_char_end ` set (proof_segments (utt_proof u)).
        0 < e \<and> e < length (utt_source_text u) \<and> e \<in> sentence_ends (utt_source_text u)}"
  unfolding certified_ends_def Let_def by (subst set_sorted_list_of_set) auto

lemma certified_ends_props:
  shows "sorted_wrt (<) (certified_ends u)" and "\<forall>e \<in> set (certified_ends u). e \<le> length (utt_source_text u)"
    and "e \<in> set (certified_ends u) \<longleftrightarrow> e = length (utt_source_text u) \<or>
      0 < e \<and> e < length (utt_source_text u) \<and> e \<in> sentence_ends (utt_source_text u) \<and>
      e \<in> seg_source_char_end ` set (proof_segments (utt_proof u))"
proof -
  show "sorted_wrt (<) (certified_ends u)"
    unfolding certified_ends_def Let_def by (rule strict_sorted_list_of_set)
qed (auto simp: set_certified_ends)

lemma certified_segment_ranges_greedy:
  "certified_segment_ranges u cnt = Inr rs \<longleftrightarrow>
     rs \<noteq> [] \<and> greedy cnt (certified_ends u) (length (utt_source_text u)) 0 rs"
proof
  note ends = certified_ends_props(1,2) [of u]
  assume "certified_segment_ranges u cnt = Inr rs"
  then have "range_loop cnt (certified_ends u) (length (utt_source_text u)) 0 [] = Inr rs" "rs \<noteq> []"
    by (auto simp: certified_segment_ranges_def Let_def result_simps split: if_splits)
  with range_loop_eq_Inr [OF ends] show "rs \<noteq> [] \<and>
      greedy cnt (certified_ends u) (length (utt_source_text u)) 0 rs" by fastforce
next
  assume g: "rs \<noteq> [] \<and> greedy cnt (certified_ends u) (length (utt_source_text u)) 0 rs"
  with range_loop_greedy [OF certified_ends_props(1)] greedy_last
  show "certified_segment_ranges u cnt = Inr rs"
    by (fastforce simp: certified_segment_ranges_def Let_def)
qed

lemma greedy_covers:
  "greedy cnt ends n s rs \<Longrightarrow> length xs = n \<Longrightarrow> concat (map (\<lambda>(i, j). subtext i j xs) rs) = drop s xs"
proof (induction rule: greedy.induct)
  case greedy_end
  then show ?case by simp
next
  case (greedy_cut s e rs)
  then show ?case by (simp add: subtext_def drop_take_split)
qed

lemma greedy_mem:
  "greedy cnt ends n s rs \<Longrightarrow> (i, j) \<in> set rs \<Longrightarrow> i < j \<and> j \<in> set ends \<and> within_limit cnt i j"
  by (induction rule: greedy.induct) auto

lemma greedy_starts: "greedy cnt ends n s rs \<Longrightarrow> (i, j) \<in> set rs \<Longrightarrow> s \<le> i"
proof (induction rule: greedy.induct)
  case greedy_end
  then show ?case by simp
next
  case (greedy_cut s e rs)
  then show ?case by fastforce
qed


lemma sentence_ends_iff:
  "e \<in> sentence_ends s \<longleftrightarrow> 0 < e \<and> e \<le> length s \<and> s ! (e - 1) \<in> {12290, 65281, 65311, 10}"
proof -
  have "e \<in> sentence_ends s \<longleftrightarrow> (\<exists>i < length s. e = i + 1 \<and> s ! i \<in> {12290, 65281, 65311, 10})"
    by (auto simp: sentence_ends_def enumerate_eq_zip set_zip image_iff; force)
  also have "\<dots> \<longleftrightarrow> 0 < e \<and> e \<le> length s \<and> s ! (e - 1) \<in> {12290, 65281, 65311, 10}"
    by (cases e) auto
  finally show ?thesis .
qed

text \<open>A certified end inside the source follows a sentence mark, never a line break.\<close>

lemma certified_end_mark:
  assumes u: "prepare env spec runner source = Inr u" and e: "e \<in> set (certified_ends u)"
    and "e \<noteq> length source"
  shows "0 < e" and "e < length source" and "source ! (e - 1) \<in> {12290, 65281, 65311}"
proof -
  from u obtain p core segs where
    p: "project_source env source = Inr p"
    and chain: "segment_chain p 0 0 segs (last_non_whitespace_source_end p) (length (core :: core_token list))"
    and src: "utt_source_text u = source" and segs: "proof_segments (utt_proof u) = segs"
    by (rule prepare_eq_Inr) blast
  from e assms(3) src segs obtain g where g: "g \<in> set segs" "e = seg_source_char_end g"
    and le: "0 < e" "e < length source" and "e \<in> sentence_ends source"
    by (auto simp: set_certified_ends)
  then have mark: "source ! (e - 1) \<in> {12290, 65281, 65311, 10}" by (simp add: sentence_ends_iff)
  from segment_chain_mem [OF chain g(1)] g(2) have "e \<in> set (prepared_source_char_ends p)" by simp
  with locked.ends_range [OF p] have "\<not> char_isspace (source ! (e - 1))" by blast
  then have "source ! (e - 1) \<noteq> 10" by (auto simp: char_isspace_def)
  with mark le show "0 < e" "e < length source" "source ! (e - 1) \<in> {12290, 65281, 65311}" by auto
qed

lemma prepare_segments_eq_Inr:
  assumes "prepare_segments env spec runner source = Inr ps"
  obtains u ranges bounds where "prepare env spec runner source = Inr u"
    "greedy (\<lambda>i j. njd_word_count env runner (subtext i j source)) (certified_ends u) (length source) 0 ranges"
    "utf8_boundaries_from 0 source = Inr bounds"
    "mapE_from 0 (prepare_range env spec runner source u bounds) ranges = Inr (psegs_segments ps)"
    "psegs_source_text ps = source"
proof -
  from assms obtain u ranges bounds segs where u: "prepare env spec runner source = Inr u"
    and r: "certified_segment_ranges u (\<lambda>i j. njd_word_count env runner (subtext i j source)) = Inr ranges"
    and b: "utf8_boundaries_from 0 source = Inr bounds"
    and m: "mapE_from 0 (prepare_range env spec runner source u bounds) ranges = Inr segs"
    and ps: "ps = \<lparr>psegs_source_text = source,
      psegs_segmentation_mode = INDEPENDENT_SEGMENTATION_MODE, psegs_segments = segs\<rparr>"
    by (auto simp: prepare_segments_def result_simps)
  from u have "utt_source_text u = source" by (rule prepare_eq_Inr)
  with r have "greedy (\<lambda>i j. njd_word_count env runner (subtext i j source)) (certified_ends u)
      (length source) 0 ranges" by (simp add: certified_segment_ranges_greedy)
  from that [OF u this b] m ps show ?thesis by simp
qed

lemma prepare_range_eq_Inr:
  assumes "prepare_range env spec runner source u bounds i (a, b) = Inr g"
    and u: "prepare env spec runner source = Inr u"
  shows "pseg_segment_index g = i" and "pseg_source_char_start g = a" and "pseg_source_char_end g = b"
    and "pseg_source_utf8_start g = bounds ! a" and "pseg_source_utf8_end g = bounds ! b"
    and "prepare env spec runner (subtext a b source) = Inr (pseg_prepared g)"
  using assms
  by (auto simp: prepare_range_def Let_def result_simps subtext_def split: if_splits)

lemma prepared_segments_shape:
  assumes "mapE_from 0 (prepare_range env spec runner source u bounds) ranges = Inr segs"
    and u: "prepare env spec runner source = Inr u"
  shows "map pseg_segment_index segs = [0..<length segs]"
    and "map (\<lambda>g. (pseg_source_char_start g, pseg_source_char_end g)) segs = ranges"
    and "g \<in> set segs \<Longrightarrow> prepare env spec runner
           (subtext (pseg_source_char_start g) (pseg_source_char_end g) source) = Inr (pseg_prepared g) \<and>
         pseg_source_utf8_start g = bounds ! pseg_source_char_start g \<and>
         pseg_source_utf8_end g = bounds ! pseg_source_char_end g"
proof -
  from mapE_from_length [OF assms(1)] have len: "length segs = length ranges" .
  have nth: "prepare_range env spec runner source u bounds i (fst (ranges ! i), snd (ranges ! i))
      = Inr (segs ! i)" if "i < length ranges" for i
    using mapE_from_nth [OF assms(1) that] by simp
  note range = prepare_range_eq_Inr [OF nth u]
  from range(1) len show "map pseg_segment_index segs = [0..<length segs]"
    by (intro nth_equalityI) auto
  from range(2,3) len show "map (\<lambda>g. (pseg_source_char_start g, pseg_source_char_end g)) segs = ranges"
    by (intro nth_equalityI) auto
  assume "g \<in> set segs"
  then obtain i where "i < length ranges" "g = segs ! i" by (metis in_set_conv_nth len)
  with range show "prepare env spec runner
           (subtext (pseg_source_char_start g) (pseg_source_char_end g) source) = Inr (pseg_prepared g) \<and>
         pseg_source_utf8_start g = bounds ! pseg_source_char_start g \<and>
         pseg_source_utf8_end g = bounds ! pseg_source_char_end g" by simp
qed


lemma greedy_returns:
  assumes "sorted_wrt (<) ends" and "n \<in> set ends" and "\<forall>e \<in> set ends. e \<le> n"
    and "\<And>a e. a = 0 \<or> a \<in> set ends \<Longrightarrow> e \<in> set ends \<Longrightarrow> a < e \<Longrightarrow> counted cnt a e"
    and "\<And>a. a = 0 \<or> a \<in> set ends \<Longrightarrow> a < n \<Longrightarrow> \<exists>e \<in> set ends. a < e \<and> within_limit cnt a e"
  shows "s = 0 \<or> s \<in> set ends \<Longrightarrow> s \<le> n \<Longrightarrow> \<exists>rs. greedy cnt ends n s rs"
proof (induction "n - s" arbitrary: s rule: less_induct)
  case less
  show ?case
  proof (cases "s = n")
    case True
    then show ?thesis by (auto intro: greedy_end)
  next
    case False
    with less.prems have sn: "s < n" by simp
    let ?fit = "filter (\<lambda>e. s < e \<and> within_limit cnt s e) ends"
    from assms(5) [OF less.prems(1) sn] have "?fit \<noteq> []" by (auto simp: filter_empty_conv)
    moreover from assms(4) [OF less.prems(1)] have "\<forall>e \<in> set ends. s < e \<longrightarrow> counted cnt s e" by blast
    ultimately have "select_end cnt s ends None = Inr (Some (last ?fit))"
      by (simp add: select_end_eq_Inr Let_def)
    then have sel: "last ?fit \<in> set ends" "s < last ?fit" "within_limit cnt s (last ?fit)"
      "\<forall>e' \<in> set ends. s < e' \<longrightarrow> counted cnt s e'"
      "\<forall>e' \<in> set ends. last ?fit < e' \<longrightarrow> \<not> within_limit cnt s e'"
      unfolding select_end_Some [OF assms(1)] by blast+
    with assms(3) have "last ?fit \<le> n" by blast
    moreover have "n - last ?fit < n - s" using sel(2) sn by (rule diff_less_mono2)
    ultimately obtain rs where "greedy cnt ends n (last ?fit) rs"
      using less.hyps [of "last ?fit"] sel(1) by blast
    with sel sn have "greedy cnt ends n s ((s, last ?fit) # rs)" by (intro greedy_cut)
    then show ?thesis ..
  qed
qed

lemma demo_segments_return:
  obtains ps where "prepare_segments demo_env demo_spec demo_runner [12354] = Inr ps"
    "length (psegs_segments ps) = 1"
proof -
  have "\<not> isl (prepare demo_env demo_spec demo_runner [12354])"
    by (simp add: prepare_run_simps demo_defs)
  then obtain u where u: "prepare demo_env demo_spec demo_runner [12354] = Inr u"
    by (cases "prepare demo_env demo_spec demo_runner [12354]") auto
  then have src: "utt_source_text u = [12354]" by (rule prepare_eq_Inr)
  then have "set (certified_ends u) = {1}" by (auto simp: set_certified_ends)
  with certified_ends_props(1) [of u] have ends: "certified_ends u = [1]"
    by (cases "certified_ends u"; cases "tl (certified_ends u)") fastforce+
  have count: "njd_word_count demo_env demo_runner [12354] = Inr 1"
    by (simp add: prepare_run_simps demo_defs njd_word_count_def)
  have "certified_segment_ranges u (\<lambda>i j. njd_word_count demo_env demo_runner (subtext i j [12354]))
      = Inr [(0, 1)]"
    by (simp add: certified_segment_ranges_def ends src range_loop.simps subtext_def count
        MAXIMUM_NJD_WORDS_PER_SEGMENT_def)
  then have "\<exists>ps. prepare_segments demo_env demo_spec demo_runner [12354] = Inr ps \<and>
      length (psegs_segments ps) = 1"
    by (simp add: prepare_segments_def u prepare_range_def subtext_def count utf8_char_def
        MAXIMUM_NJD_WORDS_PER_SEGMENT_def py_nth_def)
  with that show ?thesis by blast
qed

subsection \<open>Properties of the segmentation\<close>

text \<open>C31: certified_segment_ranges implements the greedy specification: it returns a list of ranges
exactly when the list is not empty and each range runs from the end of the one before (0 first, the
source length last) to the farthest certified end within the word limit, every interval measured on the
way having at least one word.\<close>

theorem ranges_implement_greedy:
  "certified_segment_ranges u cnt = Inr rs \<longleftrightarrow>
     rs \<noteq> [] \<and> greedy cnt (certified_ends u) (length (utt_source_text u)) 0 rs"
  by (rule certified_segment_ranges_greedy)

text \<open>The segmentation loop returns ranges whenever, from the start and from every certified end,
every interval to a later certified end has a word and one of them is within the limit.\<close>

theorem ranges_returned:
  assumes "utt_source_text u \<noteq> []"
    and "\<And>a e. a = 0 \<or> a \<in> set (certified_ends u) \<Longrightarrow> e \<in> set (certified_ends u) \<Longrightarrow> a < e \<Longrightarrow>
      counted cnt a e"
    and "\<And>a. a = 0 \<or> a \<in> set (certified_ends u) \<Longrightarrow> a < length (utt_source_text u) \<Longrightarrow>
      \<exists>e \<in> set (certified_ends u). a < e \<and> within_limit cnt a e"
  shows "\<exists>ranges. certified_segment_ranges u cnt = Inr ranges"
proof -
  have "\<exists>rs. greedy cnt (certified_ends u) (length (utt_source_text u)) 0 rs"
    using certified_ends_props assms(2,3) by (intro greedy_returns) auto
  then obtain rs where rs: "greedy cnt (certified_ends u) (length (utt_source_text u)) 0 rs" ..
  with assms(1) have "rs \<noteq> []" by auto
  with rs show ?thesis by (auto simp: certified_segment_ranges_greedy)
qed

theorem ranges_returned_witness:
  "\<exists>u ranges. prepare demo_env demo_spec demo_runner demo_source = Inr u \<and>
    certified_segment_ranges u (\<lambda>i j. Inr (j - i)) = Inr ranges"
proof -
  obtain u where u: "prepare demo_env demo_spec demo_runner demo_source = Inr u"
    by (rule demo_segment)
  then have src: "utt_source_text u = demo_source" by (rule prepare_eq_Inr)
  have n: "length (utt_source_text u) = 4" by (simp add: src demo_source_def)
  have "e \<le> 4" if "e \<in> set (certified_ends u)" for e
    using certified_ends_props(2) [of u] that n by auto
  then have "\<exists>ranges. certified_segment_ranges u (\<lambda>i j. Inr (j - i)) = Inr ranges"
    using n certified_ends_props(3) [of 4 u]
    by (intro ranges_returned)
      (auto simp: counted_def within_limit_def MAXIMUM_NJD_WORDS_PER_SEGMENT_def intro!: bexI [of _ 4])
  with u show ?thesis by blast
qed

text \<open>C21: the segments of a segmented utterance reassemble it: their source intervals concatenate to
the source, they are numbered in order, each is what preparing its own interval alone returns, and its
byte offsets are the lengths of the UTF-8 encodings of the source up to its ends.\<close>

theorem prepared_segments_reassemble:
  assumes "prepare_segments env spec runner source = Inr ps"
  defines "segs \<equiv> psegs_segments ps"
  shows "concat (map (\<lambda>g. subtext (pseg_source_char_start g) (pseg_source_char_end g) source) segs) = source
    \<and> map pseg_segment_index segs = [0..<length segs] \<and>
    (\<forall>g \<in> set segs. pseg_source_char_start g < pseg_source_char_end g \<and>
       prepare env spec runner (subtext (pseg_source_char_start g) (pseg_source_char_end g) source)
         = Inr (pseg_prepared g) \<and>
       (\<exists>b1 b2. utf8_encode (take (pseg_source_char_start g) source) = Inr b1 \<and>
          pseg_source_utf8_start g = length b1 \<and>
          utf8_encode (take (pseg_source_char_end g) source) = Inr b2 \<and>
          pseg_source_utf8_end g = length b2))"
proof -
  from assms(1) obtain u ranges bounds where u: "prepare env spec runner source = Inr u"
    and r: "greedy (\<lambda>i j. njd_word_count env runner (subtext i j source)) (certified_ends u)
      (length source) 0 ranges"
    and b: "utf8_boundaries_from 0 source = Inr bounds"
    and m: "mapE_from 0 (prepare_range env spec runner source u bounds) ranges = Inr segs"
    unfolding segs_def by (rule prepare_segments_eq_Inr)
  note shape = prepared_segments_shape [OF m u]
  from u have src: "utt_source_text u = source" by (rule prepare_eq_Inr)
  have "map (\<lambda>g. subtext (pseg_source_char_start g) (pseg_source_char_end g) source) segs =
      map (\<lambda>(i, j). subtext i j source) ranges"
    unfolding shape(2) [symmetric] by simp
  with greedy_covers [OF r, of source] have cover:
    "concat (map (\<lambda>g. subtext (pseg_source_char_start g) (pseg_source_char_end g) source) segs) = source"
    by simp
  have mem: "pseg_source_char_start g < pseg_source_char_end g \<and> pseg_source_char_end g \<le> length source"
    if "g \<in> set segs" for g
  proof -
    from that have "(pseg_source_char_start g, pseg_source_char_end g) \<in> set ranges"
      unfolding shape(2) [symmetric] by force
    from greedy_mem [OF r this] certified_ends_props(2) [of u] src show ?thesis by auto
  qed
  with shape(3) utf8_boundaries_from_props(4) [OF b] show ?thesis
    using cover shape(1) by (fastforce dest: less_imp_le)
qed

theorem prepared_segments_reassemble_witness:
  "\<exists>ps. prepare_segments demo_env demo_spec demo_runner [12354] = Inr ps \<and>
    concat (map (\<lambda>g. subtext (pseg_source_char_start g) (pseg_source_char_end g) [12354 :: nat])
      (psegs_segments ps)) = [12354]"
proof -
  obtain ps where ps: "prepare_segments demo_env demo_spec demo_runner [12354] = Inr ps"
    by (rule demo_segments_return)
  from ps prepared_segments_reassemble [OF ps] show ?thesis by blast
qed

text \<open>C38: every segment of a segmented utterance has between 1 and 80 NJD words, and every cut inside
the source follows one of the three sentence marks.\<close>

theorem prepared_segments_bounded:
  assumes "prepare_segments env spec runner source = Inr ps" and "g \<in> set (psegs_segments ps)"
  shows "(\<exists>c. njd_word_count env runner
      (subtext (pseg_source_char_start g) (pseg_source_char_end g) source) = Inr c \<and> 1 \<le> c \<and> c \<le> 80) \<and>
    (pseg_source_char_end g = length source \<or>
      source ! (pseg_source_char_end g - 1) \<in> {12290, 65281, 65311})"
proof -
  from assms(1) obtain u ranges bounds where u: "prepare env spec runner source = Inr u"
    and r: "greedy (\<lambda>i j. njd_word_count env runner (subtext i j source)) (certified_ends u)
      (length source) 0 ranges"
    and m: "mapE_from 0 (prepare_range env spec runner source u bounds) ranges = Inr (psegs_segments ps)"
    by (rule prepare_segments_eq_Inr)
  from assms(2) have "(pseg_source_char_start g, pseg_source_char_end g) \<in> set ranges"
    unfolding prepared_segments_shape(2) [OF m u, symmetric] by force
  note mem = greedy_mem [OF r this]
  then have "\<exists>c. njd_word_count env runner
      (subtext (pseg_source_char_start g) (pseg_source_char_end g) source) = Inr c \<and> 1 \<le> c \<and> c \<le> 80"
    by (auto simp: within_limit_def MAXIMUM_NJD_WORDS_PER_SEGMENT_def split: sum.splits)
  with certified_end_mark(3) [OF u] mem show ?thesis by blast
qed

theorem prepared_segments_bounded_witness:
  "\<exists>ps g c. prepare_segments demo_env demo_spec demo_runner [12354] = Inr ps \<and>
    g \<in> set (psegs_segments ps) \<and> njd_word_count demo_env demo_runner
      (subtext (pseg_source_char_start g) (pseg_source_char_end g) [12354]) = Inr c \<and> c \<le> 80"
proof -
  obtain ps where ps: "prepare_segments demo_env demo_spec demo_runner [12354] = Inr ps"
    "length (psegs_segments ps) = 1" by (rule demo_segments_return)
  from ps(2) obtain g where "g \<in> set (psegs_segments ps)" by (cases "psegs_segments ps") auto
  with ps(1) prepared_segments_bounded [OF ps(1) this] show ?thesis by blast
qed

text \<open>A line break is never a certified cut, although the code lists it among the sentence ends:
certified ends come from alignment segments, and these end on a character that is not white space.\<close>

theorem newline_never_certified:
  assumes "prepare env spec runner source = Inr u" and "0 < e" and "e < length source"
    and "source ! (e - 1) = 10"
  shows "e \<in> sentence_ends source \<and> e \<notin> set (certified_ends u)"
  using certified_end_mark(3) [OF assms(1), of e] assms(2-) by (auto simp: sentence_ends_iff)


theorem newline_never_certified_witness:
  "\<exists>u. prepare demo_env demo_spec demo_runner [12354, 10, 12354] = Inr u \<and>
    2 \<in> sentence_ends [12354, 10, 12354] \<and> 2 \<notin> set (certified_ends u)"
proof -
  have "\<not> isl (prepare demo_env demo_spec demo_runner [12354, 10, 12354])"
    by (simp add: prepare_run_simps demo_defs)
  then obtain u where u: "prepare demo_env demo_spec demo_runner [12354, 10, 12354] = Inr u"
    by (cases "prepare demo_env demo_spec demo_runner [12354, 10, 12354]") auto
  with newline_never_certified [OF u, of 2] show ?thesis by simp
qed

end
