(* ===== verification/LockedFrontend.thy ===== *)
theory LockedFrontend
  imports Segmentation
begin

text \<open>
  How a frontend is put together (\<open>tools/frontend/japanese_frontend.py\<close>): \<open>_verify_dictionary\<close>,
  \<open>_load_locked_runner\<close> and \<open>LockedJapaneseFrontend.from_files\<close>, with the properties of the
  locked assets they and \<open>load_frontend_spec\<close> establish.

  What the code asks of the interpreter and the operating system is the record \<open>host\<close>: the
  installed version of pyopenjtalk and its module (\<open>None\<close> when it cannot be imported), the file
  system, the names \<open>iterdir\<close> lists and \<open>Path.resolve(strict=True)\<close> (\<open>None\<close>: it raises).
  A directory in the place of a dictionary file raises when it is opened or has another size; the
  model raises in both cases, without modelling the size of a directory.
\<close>

subsection \<open>Paths\<close>

fun split_slash :: "pystr \<Rightarrow> pystr list" where
  "split_slash [] = [[]]"
| "split_slash (c # cs) =
     (if c = 47 then [] # split_slash cs
      else (case split_slash cs of [] \<Rightarrow> [[c]] | p # ps \<Rightarrow> (c # p) # ps))"

text \<open>\<open>Path(p).name\<close>: the last component that is neither empty nor a single dot.\<close>

definition path_name :: "pystr \<Rightarrow> pystr" where
  "path_name p =
     (let parts = filter (\<lambda>c. c \<noteq> [] \<and> c \<noteq> [46]) (split_slash p)
      in if parts = [] then [] else last parts)"

definition path_join :: "pystr \<Rightarrow> pystr \<Rightarrow> pystr" where
  "path_join dict_root name = dict_root @ 47 # name"

subsection \<open>The pyopenjtalk dictionary\<close>

record ojt_module =
  mod_dict_dir :: "pystr option"
  mod_run_frontend :: "runner option"

record host =
  host_fs :: filesystem
  host_iterdir :: "pystr \<Rightarrow> pystr list"
  host_resolve :: "pystr \<Rightarrow> pystr option"
  host_version :: "pystr option"
  host_module :: "ojt_module option"

definition unsafe_dictionary_path :: "pystr \<Rightarrow> bool" where
  "unsafe_dictionary_path path \<longleftrightarrow>
     path = [] \<or> path_name path \<noteq> path \<or> 47 \<in> set path \<or> 92 \<in> set path"

definition os_error :: "string \<Rightarrow> exn" where
  "os_error m = Exn PyOSError m"

definition verify_dictionary_file :: "host \<Rightarrow> pystr \<Rightarrow> dictionary_file \<Rightarrow> unit result" where
  "verify_dictionary_file h dict_root record =
     (if unsafe_dictionary_path (df_path record)
        then Inl (contract_error ''unsafe OpenJTalk dictionary path: '')
      else let path = path_join dict_root (df_path record) in
      if host_fs h path = Symlink
        then Inl (contract_error ''OpenJTalk dictionary file must not be a symbolic link: '')
      else (case host_resolve h path of
          None \<Rightarrow> Inl (os_error ''No such file or directory'')
        | Some resolved \<Rightarrow>
            (case host_fs h resolved of
               Regular bytes \<Rightarrow>
                 if int (length bytes) \<noteq> df_size_bytes record
                   then Inl (contract_error ''OpenJTalk dictionary size mismatch for '')
                 else if sha256_hex bytes \<noteq> df_sha256 record
                   then Inl (contract_error ''OpenJTalk dictionary SHA-256 mismatch for '')
                 else Inr ()
             | _ \<Rightarrow> Inl (os_error ''Is a directory''))))"

definition verify_dictionary :: "host \<Rightarrow> ojt_module \<Rightarrow> dictionary_spec \<Rightarrow> unit list result" where
  "verify_dictionary h ojt spec =
     (case mod_dict_dir ojt of
        None \<Rightarrow> Inl (contract_error ''pyopenjtalk has no OPEN_JTALK_DICT_DIR'')
      | Some unresolved \<Rightarrow>
          if host_fs h unresolved = Symlink
            then Inl (contract_error ''OpenJTalk dictionary must not be a symbolic link: '')
          else (case host_resolve h unresolved of
              None \<Rightarrow> Inl (os_error ''No such file or directory'')
            | Some dict_root \<Rightarrow>
                if host_fs h dict_root \<noteq> Directory
                  then Inl (contract_error ''OpenJTalk dictionary is not a directory: '')
                else if path_name dict_root \<noteq> dict_directory_name spec
                  then Inl (contract_error ''OpenJTalk dictionary directory mismatch: expected '')
                else if set (host_iterdir h dict_root) \<noteq> set (map df_path (dict_files spec))
                  then Inl (contract_error ''OpenJTalk dictionary entries mismatch: '')
                else mapE (verify_dictionary_file h dict_root) (dict_files spec)))"

definition load_locked_runner :: "host \<Rightarrow> frontend_spec \<Rightarrow> runner result" where
  "load_locked_runner h spec =
     (case (host_version h, host_module h) of
        (Some version, Some ojt) \<Rightarrow>
          if version \<noteq> ojt_version (pyopenjtalk spec)
            then Inl (contract_error ''pyopenjtalk version mismatch: expected '')
          else bindE (verify_dictionary h ojt (ojt_dictionary (pyopenjtalk spec))) (\<lambda>_.
            case mod_run_frontend ojt of
              None \<Rightarrow> Inl (contract_error ''pyopenjtalk.run_frontend is not callable'')
            | Some run \<Rightarrow> Inr run)
      | _ \<Rightarrow> Inl (contract_error ''locked pyopenjtalk is not installed''))"

definition from_files :: "pyenv \<Rightarrow> host \<Rightarrow> pystr \<Rightarrow> pystr \<Rightarrow> (frontend_spec \<times> runner) result" where
  "from_files env h lock_path contract_path =
     bindE (load_frontend_spec env (host_fs h) lock_path contract_path) (\<lambda>spec.
     bindE (load_locked_runner h spec) (\<lambda>runner.
     bindE (verify_golden env spec runner) (\<lambda>_. Inr (spec, runner))))"

subsection \<open>What loading has established\<close>

lemma verify_dictionary_file_eq_Inr:
  "verify_dictionary_file h dict_root r = Inr u \<longleftrightarrow>
     \<not> unsafe_dictionary_path (df_path r) \<and> host_fs h (path_join dict_root (df_path r)) \<noteq> Symlink \<and>
     (\<exists>resolved bytes. host_resolve h (path_join dict_root (df_path r)) = Some resolved \<and>
        host_fs h resolved = Regular bytes \<and> int (length bytes) = df_size_bytes r \<and>
        sha256_hex bytes = df_sha256 r)"
  by (auto simp: verify_dictionary_file_def Let_def split: option.splits fs_node.splits if_splits)

lemma load_frontend_spec_eq_Inr:
  assumes "load_frontend_spec env fs lock contract = Inr spec"
  obtains fl jl fc where "load_frontend_roots env fl jl fc = Inr spec"
  using assms by (auto simp: load_frontend_spec_def result_simps)

lemma load_frontend_spec_table:
  assumes "load_frontend_spec env fs lock contract = Inr spec"
  obtains v where "parse_token_table v (global_offset spec) (local_vocabulary_size spec) =
      Inr (token_table spec)"
    "canonical_token_table_sha256 env (token_table spec) = Inr (token_table_sha256 spec)"
    "check_effective_ids spec = Inr spec"
proof -
  from assms obtain fl jl fc where r: "load_frontend_roots env fl jl fc = Inr spec"
    by (rule load_frontend_spec_eq_Inr)
  from load_frontend_roots_eq_Inr(1) [OF r] obtain jc where
    "load_token_table env jl jc = Inr (global_offset spec, local_vocabulary_size spec,
       token_table spec, token_table_sha256 spec)" by blast
  note t = load_token_table_eq_Inr [OF this]
  from t(1,2) load_frontend_roots_eq_Inr(3) [OF r] that show ?thesis by blast
qed

lemma from_files_eq_Inr:
  "from_files env h lock contract = Inr (spec, runner) \<longleftrightarrow>
     load_frontend_spec env (host_fs h) lock contract = Inr spec \<and>
     load_locked_runner h spec = Inr runner \<and> verify_golden env spec runner = Inr ()"
  by (auto simp: from_files_def result_simps)


subsection \<open>A concrete installation\<close>

definition demo_rows :: "token_table_row list" where
  "demo_rows = map (\<lambda>(i, t). \<lparr>row_effective_local_id = int i, row_global_id = 100 + int i,
     row_local_id = int i, row_token = t\<rparr>)
     (enumerate 0 [space, pys ''0'', pys ''1'', [12450], [12290], long_vowel_mark, pys ''<pad>''])"

definition demo_digest :: pystr where
  "demo_digest = projr (canonical_token_table_sha256 demo_env demo_rows)"

definition demo_japanese :: json_object where
  "demo_japanese =
     [(pys ''tokenizer_name'', JStr JAPANESE_TOKENIZER_NAME), (pys ''global_offset'', JInt 100),
      (pys ''local_vocabulary_size'', JInt 7), (pys ''global_pad_token_id'', JInt 106),
      (pys ''token_table_canonicalization'', JStr TOKEN_TABLE_CANONICALIZATION),
      (pys ''token_table_sha256'', JStr demo_digest),
      (pys ''long_vowel_mark_effective_local_token_id'', JInt 5),
      (pys ''pyopenjtalk'', JObj
        [(pys ''version'', JStr (pys ''1'')),
         (pys ''dictionary'', JObj
           [(pys ''directory_name'', JStr (pys ''dic'')),
            (pys ''manifest_canonicalization'', JStr DICTIONARY_MANIFEST_CANONICALIZATION),
            (pys ''manifest_sha256'', JStr []),
            (pys ''files'', JList
              [JObj [(pys ''path'', JStr (pys ''f'')), (pys ''size_bytes'', JInt 1),
                     (pys ''sha256'', JStr (sha256_hex [7]))]])])]),
      (pys ''golden'', JObj
        [(pys ''raw_text'', JStr [12354]),
         (pys ''g2p_tokens'', JList [JStr (pys ''0''), JStr [12450]]),
         (pys ''local_token_ids'', JList (map JInt [0, 1, 3, 0])),
         (pys ''global_token_ids_with_eos'', JList (map JInt [100, 101, 103, 100, 107]))])]"

definition demo_frontend :: "json_object \<Rightarrow> json_object" where
  "demo_frontend japanese =
     [(pys ''aggregate_vocabulary_size'', JInt 107), (pys ''text_embedding_rows'', JInt 108),
      (pys ''bos_token_id'', JInt 0), (pys ''eos_token_id'', JInt 107),
      (pys ''text_token_dtype'', JStr (pys ''int64'')),
      (pys ''dependencies'', JObj (map (\<lambda>d. (d, JStr (pys ''1''))) required_runtime_dependencies)),
      (pys ''japanese'', JObj japanese)]"

definition demo_lock :: json where
  "demo_lock = JObj [(pys ''frontend'', JObj (demo_frontend demo_japanese))]"

definition demo_contract :: json_object where
  "demo_contract = demo_frontend ((pys ''token_table'', JList (map row_json demo_rows)) # demo_japanese)"

definition demo_loads :: "byte list \<Rightarrow> json option" where
  "demo_loads bytes = (if bytes = [1] then Some demo_lock
     else if bytes = [2] then Some (JObj demo_contract)
     else if bytes = [3] then Some (JObj (rotate1 demo_contract)) else None)"

definition demo_full_env :: pyenv where
  "demo_full_env = demo_env\<lparr>py_json_loads := demo_loads\<rparr>"

definition demo_host :: host where
  "demo_host = \<lparr>host_fs = (\<lambda>path. if path = pys ''lock'' then Regular [1]
       else if path = pys ''contract'' then Regular [2]
       else if path = pys ''reordered'' then Regular [3] else if path = pys ''dic'' then Directory
       else if path = pys ''dic/f'' then Regular [7] else Absent),
     host_iterdir = (\<lambda>path. [pys ''f'']), host_resolve = (\<lambda>path. Some path),
     host_version = Some (pys ''1''),
     host_module = Some \<lparr>mod_dict_dir = Some (pys ''dic''), mod_run_frontend = Some demo_runner\<rparr>\<rparr>"

lemma demo_digest_value:
  "\<exists>payload. dumps_utf8 (\<lambda>_. []) (JList (map row_json demo_rows)) = Inr payload"
  by (simp add: demo_rows_def row_json_def dumps_utf8_def enumerate_eq_zip json_str_def escape_char_def
      short_escape_def pys_def int_repr_def nat_digits.simps utf8_char_def space_def long_vowel_mark_def
      result_simps)


lemma demo_digest_eq: "canonical_token_table_sha256 demo_full_env demo_rows = Inr demo_digest"
  using demo_digest_value
  by (auto simp: demo_digest_def canonical_token_table_sha256_def demo_full_env_def demo_env_def)

lemma demo_parse: "parse_token_table (JList (map row_json demo_rows)) 100 7 = Inr demo_rows"
  by (simp add: parse_token_table_def demo_rows_def row_json_def parse_table_row_def member_of_def
      last_local_ids_def enumerate_eq_zip space_def long_vowel_mark_def pys_def)

definition demo_full_spec :: frontend_spec where
  "demo_full_spec = \<lparr>aggregate_vocabulary_size = 107, text_embedding_rows = 108, bos_token_id = 0,
     eos_token_id = 107, global_offset = 100, global_pad_token_id = 106, local_vocabulary_size = 7,
     long_vowel_mark_effective_local_token_id = 5,
     pyopenjtalk = \<lparr>ojt_version = pys ''1'', ojt_dictionary = \<lparr>dict_directory_name = pys ''dic'',
       dict_manifest_canonicalization = DICTIONARY_MANIFEST_CANONICALIZATION, dict_manifest_sha256 = [],
       dict_files = [\<lparr>df_path = pys ''f'', df_size_bytes = 1, df_sha256 = sha256_hex [7]\<rparr>]\<rparr>\<rparr>,
     token_table = demo_rows, token_table_sha256 = demo_digest, golden_raw_text = [12354],
     golden_g2p_tokens = [pys ''0'', [12450]], golden_local_token_ids = [0, 1, 3, 0],
     golden_global_token_ids_with_eos = [100, 101, 103, 100, 107]\<rparr>"

lemma demo_effective: "check_effective_ids demo_full_spec = Inr demo_full_spec"
  by (simp add: check_effective_ids_def demo_full_spec_def effective_local_ids_def effective_ids_of_def
      demo_rows_def enumerate_eq_zip space_def long_vowel_mark_def pys_def)

lemmas load_run_simps = load_frontend_roots_def check_scalar_fields_def scalar_fields_def
  check_equal_member_def member_of_def check_dependencies_def required_runtime_dependencies_def
  dict_get_def check_japanese_fields_def japanese_scalar_fields_def load_token_table_def
  load_dictionary_def load_dictionary_file_def check_golden_def golden_fields_def
  build_frontend_spec_def integer_tuple_def string_tuple_def num_case_def num_eq_def

lemma demo_files:
  "json_file demo_full_env (host_fs demo_host) (pys ''lock'')
     = Inr [(pys ''frontend'', JObj (demo_frontend demo_japanese))]"
  "json_file demo_full_env (host_fs demo_host) (pys ''contract'') = Inr demo_contract"
  "json_file demo_full_env (host_fs demo_host) (pys ''reordered'') = Inr (rotate1 demo_contract)"
  by (simp_all add: json_file_def demo_host_def demo_full_env_def demo_loads_def demo_lock_def)

lemma demo_roots:
  assumes "contract = demo_contract \<or> contract = rotate1 demo_contract"
  shows "load_frontend_roots demo_full_env (demo_frontend demo_japanese) demo_japanese contract
    = Inr demo_full_spec"
  using assms
  by (elim disjE) (simp_all add: load_run_simps demo_japanese_def demo_parse demo_digest_eq
      demo_effective demo_contract_def demo_frontend_def demo_full_spec_def [symmetric])

lemma demo_load:
  "load_frontend_spec demo_full_env (host_fs demo_host) (pys ''lock'') (pys ''contract'')
     = Inr demo_full_spec"
  "load_frontend_spec demo_full_env (host_fs demo_host) (pys ''lock'') (pys ''reordered'')
     = Inr demo_full_spec"
  using demo_roots [of demo_contract] demo_roots [of "rotate1 demo_contract"]
  by (simp_all add: load_frontend_spec_def demo_files member_of_def frontend_contract_of_def
      demo_contract_def demo_frontend_def)

lemma demo_runner_loads: "load_locked_runner demo_host demo_full_spec = Inr demo_runner"
  by (simp add: load_locked_runner_def demo_host_def demo_full_spec_def verify_dictionary_def
      verify_dictionary_file_def unsafe_dictionary_path_def path_name_def path_join_def Let_def pys_def)

lemma demo_golden: "verify_golden demo_full_env demo_full_spec demo_runner = Inr ()"
  by (simp add: verify_golden_def g2p_run_simps demo_full_env_def demo_env_def demo_runner_def
      demo_word_def demo_full_spec_def demo_rows_def enumerate_eq_zip long_vowel_mark_def)

lemma demo_from_files: "from_files demo_full_env demo_host (pys ''lock'') (pys ''contract'')
    = Inr (demo_full_spec, demo_runner)"
  by (simp add: from_files_eq_Inr demo_load demo_runner_loads demo_golden)

subsection \<open>Properties of the locked assets\<close>

text \<open>A token of a loaded specification resolves to the position of its last row in the token
table, so different tokens have different ids, every id is a row position, and its global id is the
language offset plus that position.\<close>

theorem loaded_tokens_resolve:
  assumes "load_frontend_spec env fs lock contract = Inr spec"
  shows "(effective_local_ids spec t = Some k \<longleftrightarrow> (\<exists>i. k = int i \<and> last_row_of (token_table spec) t i)) \<and>
    (effective_local_ids spec t = Some k \<and> effective_local_ids spec t' = Some k \<longrightarrow> t = t') \<and>
    (effective_local_ids spec t = Some k \<longrightarrow> 0 \<le> k \<and> k < local_vocabulary_size spec \<and>
       row_token (token_table spec ! nat k) = t \<and>
       row_global_id (token_table spec ! nat k) = global_offset spec + k)"
proof -
  from assms obtain v where
    v: "parse_token_table v (global_offset spec) (local_vocabulary_size spec) = Inr (token_table spec)"
    by (rule load_frontend_spec_table)
  have eff: "effective_local_ids spec t = Some k \<longleftrightarrow>
      (\<exists>i. k = int i \<and> last_row_of (token_table spec) t i)" for t k
    by (simp add: effective_local_ids_def effective_ids_of_iff [OF v])
  have range: "0 \<le> k \<and> k < local_vocabulary_size spec \<and> row_token (token_table spec ! nat k) = t \<and>
      row_global_id (token_table spec ! nat k) = global_offset spec + k"
    if "effective_local_ids spec t = Some k" for t
    using that parse_token_table_rows(1,3) [OF v] by (auto simp: eff last_row_of_def)
  with eff show ?thesis by (metis (no_types))
qed

theorem loaded_tokens_resolve_witness:
  "effective_local_ids demo_full_spec [12450] = Some 3 \<longleftrightarrow>
     (\<exists>i. (3::int) = int i \<and> last_row_of (token_table demo_full_spec) [12450] i)"
  using loaded_tokens_resolve [OF demo_load(1), of "[12450]" 3] by blast

text \<open>Loading a specification succeeds only if the captured token table is the locked one: its
canonical JSON has the locked SHA-256, it has the locked size with local ids in row order, the pad and
long-vowel tokens resolve to the locked ids, and the boundary space is local id 0.\<close>

theorem loaded_table_is_locked:
  assumes "load_frontend_spec env fs lock contract = Inr spec"
  shows "canonical_token_table_sha256 env (token_table spec) = Inr (token_table_sha256 spec) \<and>
    int (length (token_table spec)) = local_vocabulary_size spec \<and>
    map row_local_id (token_table spec) = map int [0..<length (token_table spec)] \<and>
    effective_local_ids spec (pys ''<pad>'') = Some (global_pad_token_id spec - global_offset spec) \<and>
    effective_local_ids spec long_vowel_mark = Some (long_vowel_mark_effective_local_token_id spec) \<and>
    effective_local_ids spec space = Some 0"
proof -
  from assms obtain v where
    v: "parse_token_table v (global_offset spec) (local_vocabulary_size spec) = Inr (token_table spec)"
    and sha: "canonical_token_table_sha256 env (token_table spec) = Inr (token_table_sha256 spec)"
    and ids: "check_effective_ids spec = Inr spec"
    by (rule load_frontend_spec_table)
  have "map row_local_id (token_table spec) = map int [0..<length (token_table spec)]"
    using parse_token_table_rows(2) [OF v] by (intro nth_equalityI) auto
  moreover have "space = pys '' ''" by (simp add: space_def pys_def)
  ultimately show ?thesis
    using sha ids parse_token_table_rows(1) [OF v] by (simp add: check_effective_ids_eq_Inr)
qed

theorem loaded_table_is_locked_witness:
  "canonical_token_table_sha256 demo_full_env (token_table demo_full_spec)
     = Inr (token_table_sha256 demo_full_spec)"
  using loaded_table_is_locked [OF demo_load(1)] by blast

text \<open>A frontend is only made from the locked runtime: the installed version is the locked one, the
dictionary directory holds exactly the locked file names, each under a safe name, none a symbolic link,
with the locked size and SHA-256, and the golden sentence converts to the locked tokens and ids.\<close>

theorem from_files_verified:
  assumes "from_files env h lock contract = Inr (spec, runner)"
  defines "dict \<equiv> ojt_dictionary (pyopenjtalk spec)"
  shows "host_version h = Some (ojt_version (pyopenjtalk spec)) \<and>
    (\<exists>dir. host_fs h dir = Directory \<and> path_name dir = dict_directory_name dict \<and>
       set (host_iterdir h dir) = set (map df_path (dict_files dict)) \<and>
       (\<forall>r \<in> set (dict_files dict). \<not> unsafe_dictionary_path (df_path r) \<and>
          host_fs h (path_join dir (df_path r)) \<noteq> Symlink \<and>
          (\<exists>file bytes. host_resolve h (path_join dir (df_path r)) = Some file \<and>
             host_fs h file = Regular bytes \<and> int (length bytes) = df_size_bytes r \<and>
             sha256_hex bytes = df_sha256 r))) \<and>
    (\<exists>g2p core. core_of env spec runner (py_lower env (golden_raw_text spec)) = Inr (g2p, core) \<and>
       map g2p_symbol g2p = golden_g2p_tokens spec \<and>
       golden_global_token_ids_with_eos spec =
         [global_offset spec] @ map core_global_token_id core @ [global_offset spec, eos_token_id spec])"
proof -
  from assms(1) have l: "load_frontend_spec env (host_fs h) lock contract = Inr spec"
    and r: "load_locked_runner h spec = Inr runner" and g: "verify_golden env spec runner = Inr ()"
    by (simp_all add: from_files_eq_Inr)
  from l have ids: "check_effective_ids spec = Inr spec" by (rule load_frontend_spec_table)
  have "space = pys '' ''" by (simp add: space_def pys_def)
  with ids have space0: "effective_local_ids spec space = Some 0"
    by (simp add: check_effective_ids_eq_Inr)
  from r obtain ojt us where ver: "host_version h = Some (ojt_version (pyopenjtalk spec))"
    and d: "verify_dictionary h ojt dict = Inr us"
    by (auto simp: load_locked_runner_def dict_def result_simps split: option.splits if_splits)
  from d obtain dir where dir: "host_fs h dir = Directory" "path_name dir = dict_directory_name dict"
      "set (host_iterdir h dir) = set (map df_path (dict_files dict))"
    and files: "mapE (verify_dictionary_file h dir) (dict_files dict) = Inr us"
    by (auto simp: verify_dictionary_def split: option.splits if_splits)
  from files have each: "\<exists>u. verify_dictionary_file h dir r = Inr u" if "r \<in> set (dict_files dict)" for r
    using that by (auto simp: mapE_Inr_iff list_all2_conv_all_nth in_set_conv_nth)
  from g have "\<exists>g2p core. core_of env spec runner (py_lower env (golden_raw_text spec)) = Inr (g2p, core) \<and>
       map g2p_symbol g2p = golden_g2p_tokens spec \<and>
       golden_global_token_ids_with_eos spec =
         [global_offset spec] @ map core_global_token_id core @ [global_offset spec, eos_token_id spec]"
    by (auto simp: verify_golden_def result_simps space0 split: if_splits)
  with ver dir each show ?thesis unfolding verify_dictionary_file_eq_Inr by blast
qed

theorem from_files_verified_witness:
  "host_version demo_host = Some (ojt_version (pyopenjtalk demo_full_spec)) \<and>
    (\<exists>g2p core. core_of demo_full_env demo_full_spec demo_runner
       (py_lower demo_full_env (golden_raw_text demo_full_spec)) = Inr (g2p, core))"
  using from_files_verified [OF demo_from_files] by blast

text \<open>The identity of the tokenizer does not depend on the order of the keys of the captured
contract: two contract files whose top-level objects have the same items in a different order give the
same identity whenever both load the same specification.\<close>

theorem identity_ignores_key_order:
  assumes "load_frontend_spec env fs lock c1 = Inr spec" and "load_frontend_spec env fs lock c2 = Inr spec"
    and "json_file env fs c1 = Inr kvs1" and "json_file env fs c2 = Inr kvs2"
    and "map_of kvs1 (pys ''frontend_contract'') = None" and "map_of kvs2 (pys ''frontend_contract'') = None"
    and "mset kvs1 = mset kvs2" and "distinct (map fst kvs1)"
  shows "tokenizer_identity_sha256 env fs lock c1 = tokenizer_identity_sha256 env fs lock c2"
proof -
  from dumps_perm [OF assms(7,8)] have
    "dumps_utf8 (py_float_repr env) (JObj kvs1) = dumps_utf8 (py_float_repr env) (JObj kvs2)"
    by (simp add: dumps_utf8_def)
  with assms(1-6) show ?thesis by (simp add: tokenizer_identity_sha256_def frontend_contract_of_def)
qed


theorem identity_ignores_key_order_witness:
  "tokenizer_identity_sha256 demo_full_env (host_fs demo_host) (pys ''lock'') (pys ''contract'') =
   tokenizer_identity_sha256 demo_full_env (host_fs demo_host) (pys ''lock'') (pys ''reordered'')"
  by (rule identity_ignores_key_order [OF demo_load demo_files(2,3)])
    (simp_all add: demo_contract_def demo_frontend_def)

end
