(* ===== verification/FrontendServer.thy ===== *)
theory FrontendServer
  imports LockedFrontend
begin

text \<open>
  The persistent JSONL process around the frontend (\<open>tools/frontend/japanese_frontend_server.py\<close>):
  \<open>_request\<close>, \<open>prepared_response\<close>, \<open>_write\<close> and \<open>serve\<close>, and the JSON record
  of an utterance (\<open>PreparedUtterance.to_json_record\<close>).

  The input is the bytes still unread, the output the JSON values written so far, each of them one
  line. \<open>serve_loop\<close> returns what was written and how the loop ended: normally at the end of the
  input, or with the exception that left \<open>serve\<close>. It ends because every read consumes a byte.
  The text of an error response is the model's message, which leaves interpolated values out.

  The locale \<open>segment_frontend\<close> is the protocol class \<open>Frontend\<close>: the one operation the server
  calls, with what it relies on.
\<close>

subsection \<open>The JSON record of an utterance\<close>

fun kind_name :: "token_kind \<Rightarrow> string" where
  "kind_name Pitch = ''pitch''"
| "kind_name Mora = ''mora''"
| "kind_name Ascii = ''ascii''"
| "kind_name Space = ''space''"
| "kind_name Punctuation = ''punctuation''"
| "kind_name NormalizedSpace = ''normalized_space''"
| "kind_name BoundarySpace = ''boundary_space''"
| "kind_name Eos = ''eos''"

definition json_opt :: "('a \<Rightarrow> json) \<Rightarrow> 'a option \<Rightarrow> json" where
  "json_opt f v = (case v of None \<Rightarrow> JNull | Some x \<Rightarrow> f x)"

abbreviation json_nat :: "nat \<Rightarrow> json" where
  "json_nat n \<equiv> JInt (int n)"

definition segment_json :: "source_segment \<Rightarrow> json" where
  "segment_json g = JObj
     [(pys ''source_char_start'', json_nat (seg_source_char_start g)),
      (pys ''source_char_end'', json_nat (seg_source_char_end g)),
      (pys ''source_utf8_start'', json_nat (seg_source_utf8_start g)),
      (pys ''source_utf8_end'', json_nat (seg_source_utf8_end g)),
      (pys ''core_token_start'', json_nat (seg_core_token_start g)),
      (pys ''core_token_end'', json_nat (seg_core_token_end g))]"

definition token_json :: "prepared_token \<Rightarrow> json" where
  "token_json t = JObj
     [(pys ''token_index'', json_nat (tok_token_index t)), (pys ''symbol'', JStr (tok_symbol t)),
      (pys ''kind'', JStr (pys (kind_name (tok_kind t)))),
      (pys ''unit_index'', json_opt json_nat (tok_unit_index t)),
      (pys ''local_token_id'', json_opt JInt (tok_local_token_id t)),
      (pys ''global_token_id'', JInt (tok_global_token_id t)),
      (pys ''source_char_start'', json_nat (tok_source_char_start t)),
      (pys ''source_char_end'', json_nat (tok_source_char_end t)),
      (pys ''source_utf8_start'', json_nat (tok_source_utf8_start t)),
      (pys ''source_utf8_end'', json_nat (tok_source_utf8_end t)),
      (pys ''commit_char_end'', json_nat (tok_commit_char_end t)),
      (pys ''commit_utf8_end'', json_nat (tok_commit_utf8_end t))]"

definition progress_json :: "source_progress \<Rightarrow> json" where
  "progress_json p = JObj
     [(pys ''committed_text_tokens'', json_nat (prog_committed_text_tokens p)),
      (pys ''source_char_end'', json_nat (prog_source_char_end p)),
      (pys ''source_utf8_end'', json_nat (prog_source_utf8_end p))]"

definition to_json_record :: "prepared_utterance \<Rightarrow> json" where
  "to_json_record u = JObj
     [(pys ''schema_version'', JInt 1), (pys ''source_text'', JStr (utt_source_text u)),
      (pys ''normalized_text'', JStr (utt_normalized_text u)),
      (pys ''g2p_tokens'', JList (map JStr (utt_g2p_tokens u))),
      (pys ''global_token_ids'', JList (map JInt (utt_global_token_ids u))),
      (pys ''tokens'', JList (map token_json (utt_tokens u))),
      (pys ''progress'', JList (map progress_json (utt_progress u))),
      (pys ''proof'', JObj
        [(pys ''method'', JStr (pys (proof_method (utt_proof u)))),
         (pys ''prepared_char_count'', json_nat (proof_prepared_char_count (utt_proof u))),
         (pys ''core_token_count'', json_nat (proof_core_token_count (utt_proof u))),
         (pys ''certified_prefix_count'', json_nat (proof_certified_prefix_count (utt_proof u))),
         (pys ''segments'', JList (map segment_json (proof_segments (utt_proof u))))])]"

subsection \<open>Requests\<close>

definition SCHEMA_VERSION :: int where
  "SCHEMA_VERSION = 1"

definition MAX_REQUEST_BYTES :: nat where
  "MAX_REQUEST_BYTES = 1048576"

definition protocol_error :: "string \<Rightarrow> exn" where
  "protocol_error m = Exn ProtocolError m"

definition request_fields :: "pystr list" where
  "request_fields = map pys [''schema_version'', ''request_id'', ''text'']"

definition ends_with_newline :: "byte list \<Rightarrow> bool" where
  "ends_with_newline line \<longleftrightarrow> line \<noteq> [] \<and> last line = 10"

definition parse_request :: "pyenv \<Rightarrow> byte list \<Rightarrow> (pystr \<times> pystr) result" where
  "parse_request env line =
     (if \<not> ends_with_newline line then Inl (protocol_error ''request line must end with LF'')
      else case py_json_loads env line of
        None \<Rightarrow> Inl (protocol_error ''request must be one strict UTF-8 JSON object'')
      | Some value \<Rightarrow>
          (case value of
             JObj kvs \<Rightarrow>
               if set (map fst kvs) \<noteq> set request_fields
                 then Inl (protocol_error ''request fields must be schema_version, request_id, and text'')
               else if \<not> py_eq (dict_get kvs (pys ''schema_version'')) (JInt SCHEMA_VERSION)
                 then Inl (protocol_error ''request schema_version must be 1'')
               else (case dict_get kvs (pys ''request_id'') of
                   JStr request_id \<Rightarrow>
                     if request_id = []
                       then Inl (protocol_error ''request_id must be a non-empty string'')
                     else if 0 \<in> set request_id
                       then Inl (protocol_error ''request_id exceeds the transport contract'')
                     else bindE (utf8_encode request_id) (\<lambda>encoded.
                       if 256 < length encoded
                         then Inl (protocol_error ''request_id exceeds the transport contract'')
                       else (case dict_get kvs (pys ''text'') of
                           JStr txt \<Rightarrow> Inr (request_id, txt)
                         | _ \<Rightarrow> Inl (protocol_error ''text must be a string'')))
                 | _ \<Rightarrow> Inl (protocol_error ''request_id must be a non-empty string''))
           | _ \<Rightarrow> Inl (protocol_error
               ''request fields must be schema_version, request_id, and text'')))"

subsection \<open>Responses\<close>

definition prepared_segment_json :: "prepared_segment \<Rightarrow> json" where
  "prepared_segment_json g = JObj
     [(pys ''segment_index'', json_nat (pseg_segment_index g)),
      (pys ''source_char_start'', json_nat (pseg_source_char_start g)),
      (pys ''source_char_end'', json_nat (pseg_source_char_end g)),
      (pys ''source_utf8_start'', json_nat (pseg_source_utf8_start g)),
      (pys ''source_utf8_end'', json_nat (pseg_source_utf8_end g)),
      (pys ''normalized_text'', JStr (utt_normalized_text (pseg_prepared g))),
      (pys ''global_token_ids'', JList (map JInt (utt_global_token_ids (pseg_prepared g)))),
      (pys ''progress'', JList (map progress_json (utt_progress (pseg_prepared g))))]"

definition prepared_response ::
  "(pystr \<Rightarrow> prepared_segments result) \<Rightarrow> pystr \<Rightarrow> pystr \<Rightarrow> pystr \<Rightarrow> json result" where
  "prepared_response segment identity_sha256 request_id txt =
     bindE (segment txt) (\<lambda>prepared.
       Inr (JObj
         [(pys ''schema_version'', JInt SCHEMA_VERSION),
          (pys ''type'', JStr (pys ''prepared_segments'')),
          (pys ''request_id'', JStr request_id),
          (pys ''tokenizer_identity_sha256'', JStr identity_sha256),
          (pys ''source_text'', JStr (psegs_source_text prepared)),
          (pys ''segmentation_mode'', JStr (pys (psegs_segmentation_mode prepared))),
          (pys ''segments'', JList (map prepared_segment_json (psegs_segments prepared)))]))"

text \<open>\<open>except (FrontendError, TypeError, ValueError)\<close>, by the class hierarchy.\<close>

fun caught_class :: "exn_class \<Rightarrow> string option" where
  "caught_class FrontendError = Some ''FrontendError''"
| "caught_class ContractError = Some ''ContractError''"
| "caught_class SourceNormalizationError = Some ''SourceNormalizationError''"
| "caught_class AmbiguousAlignmentError = Some ''AmbiguousAlignmentError''"
| "caught_class PyTypeError = Some ''TypeError''"
| "caught_class PyValueError = Some ''ValueError''"
| "caught_class PyUnicodeEncodeError = Some ''UnicodeEncodeError''"
| "caught_class PyUnicodeDecodeError = Some ''UnicodeDecodeError''"
| "caught_class _ = None"

definition error_response :: "pystr \<Rightarrow> string \<Rightarrow> exn \<Rightarrow> json" where
  "error_response request_id code e = JObj
     [(pys ''schema_version'', JInt SCHEMA_VERSION), (pys ''type'', JStr (pys ''error'')),
      (pys ''request_id'', JStr request_id), (pys ''error_code'', JStr (pys code)),
      (pys ''message'', JStr (pys (exn_message e)))]"

definition respond ::
  "(pystr \<Rightarrow> prepared_segments result) \<Rightarrow> pystr \<Rightarrow> pystr \<times> pystr \<Rightarrow> json result" where
  "respond segment identity_sha256 r =
     (case prepared_response segment identity_sha256 (fst r) (snd r) of
        Inr response \<Rightarrow> Inr response
      | Inl e \<Rightarrow> (case caught_class (exn_class e) of
            None \<Rightarrow> Inl e
          | Some code \<Rightarrow> Inr (error_response (fst r) code e)))"

definition ready_message :: "frontend_spec \<Rightarrow> pystr \<Rightarrow> json" where
  "ready_message spec identity_sha256 = JObj
     [(pys ''schema_version'', JInt SCHEMA_VERSION), (pys ''type'', JStr (pys ''ready'')),
      (pys ''tokenizer_identity_sha256'', JStr identity_sha256),
      (pys ''tokenizer_vocabulary_size'', JInt (aggregate_vocabulary_size spec)),
      (pys ''text_embedding_rows'', JInt (text_embedding_rows spec)),
      (pys ''bos_token_id'', JInt (bos_token_id spec)), (pys ''eos_token_id'', JInt (eos_token_id spec)),
      (pys ''japanese_global_pad_token_id'', JInt (global_pad_token_id spec))]"

text \<open>One line of output: \<open>_write\<close>.\<close>

definition write_line :: "pyenv \<Rightarrow> json \<Rightarrow> pystr" where
  "write_line env v = dumps False (py_float_repr env) v @ [10]"

subsection \<open>The loop\<close>

text \<open>\<open>source.readline(limit)\<close>: at most \<open>limit\<close> bytes, up to and including the first LF.\<close>

fun readline :: "nat \<Rightarrow> byte list \<Rightarrow> byte list \<times> byte list" where
  "readline 0 bytes = ([], bytes)"
| "readline (Suc n) [] = ([], [])"
| "readline (Suc n) (b # bs) =
     (if b = 10 then ([b], bs)
      else (let (line, rest) = readline n bs in (b # line, rest)))"

lemma readline_append: "readline n bytes = (line, rest) \<Longrightarrow> bytes = line @ rest"
  by (induction n bytes arbitrary: line rest rule: readline.induct)
    (auto simp: case_prod_beta prod_eq_iff split: if_splits)

function serve_loop ::
  "pyenv \<Rightarrow> (pystr \<Rightarrow> prepared_segments result) \<Rightarrow> pystr \<Rightarrow> byte list \<Rightarrow> json list \<Rightarrow>
   json list \<times> unit result" where
  "serve_loop env segment identity_sha256 source written =
     (let (line, rest) = readline (MAX_REQUEST_BYTES + 1) source in
      if line = [] then (written, Inr ())
      else if MAX_REQUEST_BYTES < length line
        then (written, Inl (protocol_error ''request exceeds the one-MiB transport limit''))
      else case parse_request env line of
        Inl e \<Rightarrow> (written, Inl e)
      | Inr r \<Rightarrow>
          (case respond segment identity_sha256 r of
             Inl e \<Rightarrow> (written, Inl e)
           | Inr response \<Rightarrow>
               serve_loop env segment identity_sha256 rest (written @ [response])))"
  by pat_completeness auto

termination
  by (relation "measure (\<lambda>(env, f, i, source, written). length source)")
    (auto dest!: readline_append [OF sym])

declare serve_loop.simps [simp del]

definition serve ::
  "pyenv \<Rightarrow> frontend_spec \<Rightarrow> (pystr \<Rightarrow> prepared_segments result) \<Rightarrow> pystr \<Rightarrow> byte list \<Rightarrow>
   json list \<times> unit result" where
  "serve env spec segment identity_sha256 source =
     serve_loop env segment identity_sha256 source [ready_message spec identity_sha256]"


subsection \<open>The interface of the frontend\<close>

locale segment_frontend =
  fixes segment :: "pystr \<Rightarrow> prepared_segments result"
  assumes echoes: "segment t = Inr ps \<Longrightarrow> psegs_source_text ps = t"
    and covers: "segment t = Inr ps \<Longrightarrow>
      concat (map (\<lambda>g. subtext (pseg_source_char_start g) (pseg_source_char_end g) t)
        (psegs_segments ps)) = t"
    and numbered: "segment t = Inr ps \<Longrightarrow>
      map pseg_segment_index (psegs_segments ps) = [0..<length (psegs_segments ps)]"

lemma prepare_segments_facts:
  assumes "prepare_segments env spec runner t = Inr ps"
  shows "psegs_source_text ps = t"
    and "concat (map (\<lambda>g. subtext (pseg_source_char_start g) (pseg_source_char_end g) t)
        (psegs_segments ps)) = t"
    and "map pseg_segment_index (psegs_segments ps) = [0..<length (psegs_segments ps)]"
proof -
  from assms obtain u ranges bounds where u: "prepare env spec runner t = Inr u"
    and g: "greedy (\<lambda>i j. njd_word_count env runner (subtext i j t)) (certified_ends u) (length t) 0 ranges"
    and m: "mapE_from 0 (prepare_range env spec runner t u bounds) ranges = Inr (psegs_segments ps)"
    and src: "psegs_source_text ps = t"
    by (rule prepare_segments_eq_Inr)
  note shape = prepared_segments_shape(1,2) [OF m u]
  from src show "psegs_source_text ps = t" .
  from shape(1) show "map pseg_segment_index (psegs_segments ps) = [0..<length (psegs_segments ps)]" .
  have "map (\<lambda>g. subtext (pseg_source_char_start g) (pseg_source_char_end g) t) (psegs_segments ps) =
      map (\<lambda>(i, j). subtext i j t) ranges"
    unfolding shape(2) [symmetric] by simp
  with greedy_covers [OF g, of t] show
    "concat (map (\<lambda>g. subtext (pseg_source_char_start g) (pseg_source_char_end g) t)
      (psegs_segments ps)) = t" by simp
qed

interpretation japanese: segment_frontend "prepare_segments env spec runner" for env spec runner
  by unfold_locales (fact prepare_segments_facts)+

definition response_member :: "json \<Rightarrow> string \<Rightarrow> json" where
  "response_member v k = (case v of JObj kvs \<Rightarrow> dict_get kvs (pys k) | _ \<Rightarrow> JNull)"

text \<open>The source intervals a response lists.\<close>

definition response_intervals :: "json \<Rightarrow> (int \<times> int) list" where
  "response_intervals v =
     (case response_member v ''segments'' of
        JList gs \<Rightarrow> concat (map (\<lambda>g.
          case (response_member g ''source_char_start'', response_member g ''source_char_end'') of
            (JInt a, JInt b) \<Rightarrow> [(a, b)] | _ \<Rightarrow> []) gs)
      | _ \<Rightarrow> [])"

context segment_frontend
begin

lemma response_covers:
  assumes "prepared_response segment identity request_id t = Inr v"
  shows "response_member v ''request_id'' = JStr request_id"
    and "response_member v ''source_text'' = JStr t"
    and "concat (map (\<lambda>(a, b). subtext (nat a) (nat b) t) (response_intervals v)) = t"
proof -
  from assms obtain ps where ps: "segment t = Inr ps"
    by (auto simp: prepared_response_def result_simps)
  have src: "psegs_source_text ps = t" by (rule echoes [OF ps])
  from assms ps src show "response_member v ''request_id'' = JStr request_id"
    "response_member v ''source_text'' = JStr t"
    by (auto simp: prepared_response_def response_member_def dict_get_def)
  have "response_intervals v =
      map (\<lambda>g. (int (pseg_source_char_start g), int (pseg_source_char_end g))) (psegs_segments ps)"
  proof -
    have "response_member v ''segments'' = JList (map prepared_segment_json (psegs_segments ps))"
      using assms ps by (auto simp: prepared_response_def response_member_def dict_get_def)
    then show ?thesis
      by (simp add: response_intervals_def comp_def prepared_segment_json_def response_member_def
          dict_get_def)
  qed
  with covers [OF ps] show "concat (map (\<lambda>(a, b). subtext (nat a) (nat b) t) (response_intervals v)) = t"
    by (simp add: comp_def)
qed

end

subsection \<open>Reading requests\<close>

definition request_line :: "byte list \<Rightarrow> bool" where
  "request_line line \<longleftrightarrow> ends_with_newline line \<and> 10 \<notin> set (butlast line) \<and>
     length line \<le> MAX_REQUEST_BYTES"

lemma readline_snoc:
  "10 \<notin> set xs \<Longrightarrow> length xs < n \<Longrightarrow> readline n (xs @ 10 # rest) = (xs @ [10], rest)"
proof (induction xs arbitrary: n)
  case Nil
  then show ?case by (cases n) auto
next
  case (Cons x xs)
  then show ?case by (cases n) auto
qed

lemma readline_request:
  assumes "request_line line"
  shows "readline (MAX_REQUEST_BYTES + 1) (line @ rest) = (line, rest)" and "line \<noteq> []"
    and "length line \<le> MAX_REQUEST_BYTES"
proof -
  from assms have line: "line = butlast line @ [10]"
    by (metis append_butlast_last_id ends_with_newline_def request_line_def)
  moreover from assms have "10 \<notin> set (butlast line)" "length (butlast line) < MAX_REQUEST_BYTES + 1"
    by (auto simp: request_line_def)
  ultimately show "readline (MAX_REQUEST_BYTES + 1) (line @ rest) = (line, rest)"
    using readline_snoc [of "butlast line" "MAX_REQUEST_BYTES + 1" rest] by (metis append.assoc append_Cons append_Nil)
  from assms show "line \<noteq> []" "length line \<le> MAX_REQUEST_BYTES"
    by (auto simp: request_line_def ends_with_newline_def)
qed

definition answered ::
  "pyenv \<Rightarrow> (pystr \<Rightarrow> prepared_segments result) \<Rightarrow> pystr \<Rightarrow> byte list \<Rightarrow> json \<Rightarrow> bool" where
  "answered env segment identity line response \<longleftrightarrow> request_line line \<and>
     (\<exists>r. parse_request env line = Inr r \<and> respond segment identity r = Inr response)"

lemma serve_loop_step:
  assumes "answered env segment identity line response"
  shows "serve_loop env segment identity (line @ rest) written =
    serve_loop env segment identity rest (written @ [response])"
  using assms readline_request(1) [of line rest] readline_request(2,3) [of line]
  by (auto simp: answered_def serve_loop.simps [of env segment identity "line @ rest"])

lemma serve_loop_answers:
  "list_all2 (answered env segment identity) lines responses \<Longrightarrow>
   serve_loop env segment identity (concat lines @ rest) written =
   serve_loop env segment identity rest (written @ responses)"
  by (induction lines responses arbitrary: written rule: list_all2_induct)
    (simp_all add: serve_loop_step)

lemma serve_loop_cases:
  obtains (finished) "serve_loop env segment identity source written = (written, Inr ())"
  | (oversized) "serve_loop env segment identity source written =
      (written, Inl (protocol_error ''request exceeds the one-MiB transport limit''))"
  | (rejected) line e where "parse_request env line = Inl e"
      "serve_loop env segment identity source written = (written, Inl e)"
  | (failed) r e where "respond segment identity r = Inl e"
      "serve_loop env segment identity source written = (written, Inl e)"
  | (answering) rest response where "length rest < length source"
      "serve_loop env segment identity source written =
       serve_loop env segment identity rest (written @ [response])"
proof -
  obtain line rest where read: "readline (MAX_REQUEST_BYTES + 1) source = (line, rest)"
    by (cases "readline (MAX_REQUEST_BYTES + 1) source")
  note loop = serve_loop.simps [of env segment identity source written, unfolded read, simplified]
  show ?thesis
  proof (cases "line = []")
    case True
    with loop finished show ?thesis by simp
  next
    case False
    with readline_append [OF read] have less: "length rest < length source" by simp
    show ?thesis
    proof (cases "MAX_REQUEST_BYTES < length line")
      case True
      with False loop oversized show ?thesis by simp
    next
      case small: False
      show ?thesis
      proof (cases "parse_request env line")
        case (Inl e)
        with False small loop rejected show ?thesis by simp
      next
        case (Inr r)
        with False small loop failed [of r] answering [OF less] show ?thesis
          by (cases "respond segment identity r") simp_all
      qed
    qed
  qed
qed

lemma serve_loop_written: "\<exists>rs. fst (serve_loop env segment identity source written) = written @ rs"
proof (induction "length source" arbitrary: source written rule: less_induct)
  case less
  show ?case
  proof (cases rule: serve_loop_cases [of env segment identity source written])
    case (answering rest response)
    with less [of rest "written @ [response]"] show ?thesis by auto
  qed simp_all
qed

lemma parse_request_raises:
  "parse_request env line = Inl e \<Longrightarrow>
   exn_class e = ProtocolError \<or> exn_class e = PyUnicodeEncodeError"
proof -
  have "utf8_encode s = Inl e \<Longrightarrow> exn_class e = PyUnicodeEncodeError" for s
  proof (induction s)
    case (Cons c cs)
    then show ?case
      by (auto simp: utf8_encode_Cons bindE_eq_Inl utf8_char_def split: if_splits)
  qed simp
  then show "parse_request env line = Inl e \<Longrightarrow>
     exn_class e = ProtocolError \<or> exn_class e = PyUnicodeEncodeError"
    by (auto simp: parse_request_def Let_def protocol_error_def bindE_eq_Inl
        split: if_splits option.splits json.splits)
qed

lemma respond_raises:
  "respond segment identity r = Inl e \<Longrightarrow>
   segment (snd r) = Inl e \<and> caught_class (exn_class e) = None"
  by (auto simp: respond_def prepared_response_def bindE_eq_Inl split: sum.splits option.splits)

lemma serve_loop_raises:
  "snd (serve_loop env segment identity source written) = Inl e \<Longrightarrow>
   exn_class e = ProtocolError \<or> exn_class e = PyUnicodeEncodeError \<or>
   caught_class (exn_class e) = None \<and> (\<exists>t. segment t = Inl e)"
proof (induction "length source" arbitrary: source written rule: less_induct)
  case less
  show ?case
  proof (cases rule: serve_loop_cases [of env segment identity source written])
    case (rejected line e')
    with less.prems parse_request_raises show ?thesis by auto
  next
    case (failed r e')
    with less.prems respond_raises [OF failed(1)] show ?thesis by auto
  next
    case (answering rest response)
    with less show ?thesis by auto
  qed (use less.prems in \<open>auto simp: protocol_error_def\<close>)
qed


subsection \<open>Properties of the server\<close>

definition demo_request :: "json \<Rightarrow> pystr \<Rightarrow> pystr \<Rightarrow> json" where
  "demo_request version request_id txt = JObj
     [(pys ''schema_version'', version), (pys ''request_id'', JStr request_id), (pys ''text'', JStr txt)]"

definition demo_server_env :: pyenv where
  "demo_server_env = demo_env\<lparr>py_json_loads := (\<lambda>bytes.
     if bytes = [1, 10] then Some (demo_request (JInt 1) (pys ''a'') [12354])
     else if bytes = [2, 10] then Some (demo_request (JInt 1) (pys ''b'') [32])
     else if bytes = [3, 10] then Some (demo_request (JBool True) (pys ''c'') [])
     else if bytes = [4, 10] then Some (demo_request (JInt 1) [55296] [])
     else None)\<rparr>"

abbreviation demo_segmenter :: "pystr \<Rightarrow> prepared_segments result" where
  "demo_segmenter \<equiv> prepare_segments demo_env demo_spec demo_runner"

text \<open>C22: the server answers every request of a well-formed input with exactly one response, in
order: for a sequence of lines that each hold one valid request whose preparation returns or fails with
an error the server catches, it writes the ready message and the responses, and ends normally.\<close>

theorem serve_answers_in_order:
  assumes "list_all2 (answered env segment identity) lines responses"
  shows "serve env spec segment identity (concat lines) = (ready_message spec identity # responses, Inr ())"
  using serve_loop_answers [OF assms, of "[]" "[ready_message spec identity]"]
  by (simp add: serve_def serve_loop.simps [of env segment identity "[]"] Let_def)

theorem serve_answers_in_order_witness:
  "\<exists>responses. serve demo_server_env demo_spec demo_segmenter [] (concat [[1, 10], [2, 10]]) =
     (ready_message demo_spec [] # responses, Inr ()) \<and> length responses = 2"
proof -
  obtain ps where ps: "demo_segmenter [12354] = Inr ps" by (rule demo_segments_return)
  have bad: "demo_segmenter [32] = Inl (normalization_error
      ''source text contains no non-whitespace Unicode scalar'')"
    by (simp add: prepare_segments_def prepare_def project_source_def char_isspace_def demo_env_def)
  have "\<exists>r. list_all2 (answered demo_server_env demo_segmenter []) [[1, 10], [2, 10]] r \<and> length r = 2"
    by (simp add: list_all2_Cons1 answered_def request_line_def ends_with_newline_def
        MAX_REQUEST_BYTES_def parse_request_def demo_server_env_def demo_request_def request_fields_def
        dict_get_def SCHEMA_VERSION_def num_case_def num_eq_def pys_def utf8_char_def respond_def
        prepared_response_def ps bad normalization_error_def result_simps)
  then obtain responses where
    "list_all2 (answered demo_server_env demo_segmenter []) [[1, 10], [2, 10]] responses"
    "length responses = 2" by blast
  with serve_answers_in_order [OF this(1)] show ?thesis by blast
qed



text \<open>A response to a text carries the request's id and text, and the source intervals of its
segments reassemble the text; this is what the parent process relies on of the locked frontend.\<close>

theorem response_reassembles_text:
  assumes "prepared_response (prepare_segments env spec runner) identity request_id t = Inr v"
  shows "response_member v ''request_id'' = JStr request_id \<and> response_member v ''source_text'' = JStr t \<and>
    concat (map (\<lambda>(a, b). subtext (nat a) (nat b) t) (response_intervals v)) = t"
  using japanese.response_covers [OF assms] by blast

theorem response_reassembles_text_witness:
  "\<exists>v. prepared_response demo_segmenter [] (pys ''a'') [12354] = Inr v \<and>
     response_member v ''source_text'' = JStr [12354]"
proof -
  obtain ps where "demo_segmenter [12354] = Inr ps" by (rule demo_segments_return)
  then obtain v where v: "prepared_response demo_segmenter [] (pys ''a'') [12354] = Inr v"
    by (simp add: prepared_response_def)
  with response_reassembles_text [OF v] show ?thesis by blast
qed

text \<open>Which lines are requests: a line is accepted exactly if it ends with a line feed, decodes to
an object with the three fields and no other, its schema version equals 1 the way Python compares (so
true and 1.0 are accepted as well), its id is a non-empty string without NUL whose UTF-8 form has at
most 256 bytes, and its text is a string.\<close>

theorem request_accepted_iff:
  "parse_request env line = Inr (request_id, txt) \<longleftrightarrow>
     ends_with_newline line \<and>
     (\<exists>kvs bytes version. py_json_loads env line = Some (JObj kvs) \<and>
        set (map fst kvs) = set request_fields \<and>
        map_of kvs (pys ''schema_version'') = Some version \<and>
        (version = JInt 1 \<or> version = JBool True \<or> version = JFloat (Fin 1)) \<and>
        map_of kvs (pys ''request_id'') = Some (JStr request_id) \<and>
        map_of kvs (pys ''text'') = Some (JStr txt) \<and>
        request_id \<noteq> [] \<and> 0 \<notin> set request_id \<and> utf8_encode request_id = Inr bytes \<and> length bytes \<le> 256)"
proof -
  have one: "py_eq v (JInt SCHEMA_VERSION) \<longleftrightarrow> v = JInt 1 \<or> v = JBool True \<or> v = JFloat (Fin 1)" for v
    unfolding SCHEMA_VERSION_def py_eq_sym_int [of v 1] py_eq_int_iff by (simp del: py_eq.simps) blast
  have get: "dict_get kvs k = v \<and> v \<noteq> JNull \<longleftrightarrow> map_of kvs k = Some v \<and> v \<noteq> JNull" for kvs k v
    by (auto simp: dict_get_def split: option.splits)
  have version: "py_eq (dict_get kvs k) (JInt SCHEMA_VERSION) \<longleftrightarrow>
      (\<exists>version. map_of kvs k = Some version \<and>
        (version = JInt 1 \<or> version = JBool True \<or> version = JFloat (Fin 1)))" for kvs k
    unfolding one using get by (metis json.distinct(1,3,5))
  have str: "(case dict_get kvs k of JStr s \<Rightarrow> f s | _ \<Rightarrow> Inl e) = Inr y \<longleftrightarrow>
      (\<exists>s. map_of kvs k = Some (JStr s) \<and> f s = Inr y)" for kvs k f e and y :: "pystr \<times> pystr"
    by (auto simp: dict_get_def split: option.splits json.splits)
  show ?thesis
    by (auto simp: parse_request_def version str result_simps split: option.splits json.splits if_splits;
        rule exI [of _ request_id]; fastforce simp: not_less)
qed

text \<open>A request whose id contains a lone surrogate, which JSON can spell, ends the server with a
UnicodeEncodeError: neither an error response nor the protocol error of the other malformed requests.\<close>

theorem surrogate_id_stops_server:
  assumes "request_line line" and "py_json_loads env line = Some (demo_request (JInt 1) [55296] txt)"
  shows "serve env spec segment identity (line @ rest) =
    ([ready_message spec identity], Inl (Exn PyUnicodeEncodeError ''surrogates not allowed''))"
proof -
  have "parse_request env line = Inl (Exn PyUnicodeEncodeError ''surrogates not allowed'')"
    using assms by (simp add: parse_request_def request_line_def demo_request_def request_fields_def
        dict_get_def SCHEMA_VERSION_def num_case_def num_eq_def utf8_encode_Cons utf8_char_def)
  with readline_request [OF assms(1)] show ?thesis
    by (simp add: serve_def serve_loop.simps [of env segment identity "line @ rest"])
qed

theorem surrogate_id_stops_server_witness:
  "serve demo_server_env demo_spec demo_segmenter [] ([4, 10] @ [1, 10]) =
    ([ready_message demo_spec []], Inl (Exn PyUnicodeEncodeError ''surrogates not allowed''))"
  by (rule surrogate_id_stops_server [of _ _ "[]"])
    (simp_all add: request_line_def ends_with_newline_def MAX_REQUEST_BYTES_def demo_server_env_def)

end
