(* ===== verification/NanoCodecContract.thy ===== *)
theory NanoCodecContract
  imports Json
begin

text \<open>
  The canonical NanoCodec state registry (\<open>tools/export/nanocodec_contract.py\<close>): every binding of
  the causal decoder's persistent state, in manifest order, with the two assertions at the end of
  \<open>canonical_state_bindings\<close>. The lemmas show that neither assertion can fail and that no two
  bindings of an engine share a tensor name.
\<close>

definition STAGE_CHANNELS :: "int list" where
  "STAGE_CHANNELS = [432, 216, 108, 54, 27]"

definition STAGE_OVERLAPS :: "int list" where
  "STAGE_OVERLAPS = [8, 8, 4, 2, 2]"

definition BRANCH_KERNELS :: "int list" where
  "BRANCH_KERNELS = [3, 7, 11]"

definition BLOCK_DILATIONS :: "int list" where
  "BLOCK_DILATIONS = [1, 3, 5]"

record codec_binding =
  cb_logical_name :: pystr
  cb_dtype :: string
  cb_shape :: "int \<times> int \<times> int"
  cb_initial_output_binding :: pystr
  cb_steady_input_binding :: pystr
  cb_steady_output_binding :: pystr
  cb_tail_input_binding :: pystr
  cb_tail_output_binding :: pystr

definition manifest_record :: "codec_binding \<Rightarrow> json" where
  "manifest_record b = JObj
     [(pys ''logical_name'', JStr (cb_logical_name b)), (pys ''dtype'', JStr (pys (cb_dtype b))),
      (pys ''shape'', case cb_shape b of (x, y, z) \<Rightarrow> JList [JInt x, JInt y, JInt z]),
      (pys ''initial_output_binding'', JStr (cb_initial_output_binding b)),
      (pys ''steady_input_binding'', JStr (cb_steady_input_binding b)),
      (pys ''steady_output_binding'', JStr (cb_steady_output_binding b)),
      (pys ''tail_input_binding'', JStr (cb_tail_input_binding b)),
      (pys ''tail_output_binding'', JStr (cb_tail_output_binding b))]"

definition make_binding :: "pystr \<Rightarrow> int \<times> int \<times> int \<Rightarrow> codec_binding" where
  "make_binding logical_name shape =
     \<lparr>cb_logical_name = logical_name, cb_dtype = ''fp32'', cb_shape = shape,
      cb_initial_output_binding = pys ''state_out.'' @ logical_name,
      cb_steady_input_binding = pys ''state_in.'' @ logical_name,
      cb_steady_output_binding = pys ''state_out.'' @ logical_name,
      cb_tail_input_binding = pys ''state_in.'' @ logical_name,
      cb_tail_output_binding = pys ''state_out.'' @ logical_name\<rparr>"

definition upsample_bindings :: "codec_binding list" where
  "upsample_bindings =
     map (\<lambda>(stage_index, channels, overlap).
       make_binding (pys ''upsample_convs.'' @ nat_digits stage_index @ pys ''.pending_overlap'')
         (1, channels, overlap))
       (enumerate 0 (zip STAGE_CHANNELS STAGE_OVERLAPS))"

definition block_prefix :: "nat \<Rightarrow> nat \<Rightarrow> nat \<Rightarrow> pystr" where
  "block_prefix stage_index branch_index block_index =
     pys ''residual_layers.'' @ nat_digits stage_index @ pys ''.branches.'' @ nat_digits branch_index
     @ pys ''.residual_blocks.'' @ nat_digits block_index"

definition residual_bindings :: "codec_binding list" where
  "residual_bindings =
     concat (map (\<lambda>(stage_index, channels).
       concat (map (\<lambda>(branch_index, kernel_size).
         concat (map (\<lambda>(block_index, dilation).
           [make_binding (block_prefix stage_index branch_index block_index
                @ pys ''.input_conv.input_history'') (1, channels, (kernel_size - 1) * dilation),
            make_binding (block_prefix stage_index branch_index block_index
                @ pys ''.skip_conv.input_history'') (1, channels, kernel_size - 1)])
           (enumerate 0 BLOCK_DILATIONS)))
         (enumerate 0 BRANCH_KERNELS)))
       (enumerate 0 STAGE_CHANNELS))"

definition registry :: "codec_binding list" where
  "registry = [make_binding (pys ''pre_conv.input_history'') (1, 32, 6)] @ upsample_bindings
     @ residual_bindings @ [make_binding (pys ''post_conv.input_history'') (1, 27, 2)]"

definition canonical_state_bindings :: "codec_binding list result" where
  "canonical_state_bindings =
     (if length registry \<noteq> 97
        then Inl (Exn PyAssertionError ''canonical NanoCodec state count changed: '')
      else if length (remdups (map cb_logical_name registry)) \<noteq> length (map cb_logical_name registry)
        then Inl (Exn PyAssertionError ''canonical NanoCodec state names are duplicated'')
      else Inr registry)"

subsection \<open>Lemmas\<close>

lemma cb_simps [simp]:
  "cb_logical_name (make_binding n s) = n" "cb_shape (make_binding n s) = s"
  "cb_dtype (make_binding n s) = ''fp32''"
  by (simp_all add: make_binding_def)

lemma digit_name: "n < 10 \<Longrightarrow> nat_digits n = [48 + n]"
  by (simp add: nat_digits.simps)

lemmas registry_unfold = registry_def upsample_bindings_def residual_bindings_def STAGE_CHANNELS_def
  STAGE_OVERLAPS_def BRANCH_KERNELS_def BLOCK_DILATIONS_def enumerate_eq_zip

lemma length_registry: "length registry = 97"
  by (simp add: registry_unfold)

lemma block_prefix_inject:
  assumes "a < 10" "b < 10" "c < 10" "a' < 10" "b' < 10" "c' < 10"
  shows "block_prefix a b c @ x = block_prefix a' b' c' @ y \<longleftrightarrow> a = a' \<and> b = b' \<and> c = c' \<and> x = y"
  using assms by (auto simp: block_prefix_def digit_name)

definition block_name :: "nat \<times> nat \<times> nat \<times> bool \<Rightarrow> pystr" where
  "block_name = (\<lambda>(a, b, c, skip). block_prefix a b c
     @ (if skip then pys ''.skip_conv.input_history'' else pys ''.input_conv.input_history''))"

definition stage_name :: "nat \<Rightarrow> pystr" where
  "stage_name i = pys ''upsample_convs.'' @ nat_digits i @ pys ''.pending_overlap''"

definition block_indices :: "(nat \<times> nat \<times> nat \<times> bool) list" where
  "block_indices = List.product [0, 1, 2, 3, 4] (List.product [0, 1, 2] (List.product [0, 1, 2] [False, True]))"

lemma registry_names:
  "map cb_logical_name registry = [pys ''pre_conv.input_history''] @ map stage_name [0, 1, 2, 3, 4]
     @ map block_name block_indices @ [pys ''post_conv.input_history'']"
  by (simp add: registry_unfold block_indices_def block_name_def stage_name_def eval_nat_numeral)

lemma block_indices_bound:
  "(a, b, c, skip) \<in> set block_indices \<Longrightarrow> a < 10 \<and> b < 10 \<and> c < 10"
  by (auto simp: block_indices_def)

lemma distinct_block_indices: "distinct block_indices"
  unfolding block_indices_def by (intro distinct_product) simp_all

lemma block_names_distinct: "distinct (map block_name block_indices)"
proof -
  have "inj_on block_name (set block_indices)"
  proof (rule inj_onI)
    fix x y assume xy: "x \<in> set block_indices" "y \<in> set block_indices" "block_name x = block_name y"
    obtain a b c f a' b' c' f' where e: "x = (a, b, c, f)" "y = (a', b', c', f')"
      by (cases x; cases y) auto
    with xy block_indices_bound have
      "a < 10 \<and> b < 10 \<and> c < 10" "a' < 10 \<and> b' < 10 \<and> c' < 10" by blast+
    with xy(3) e show "x = y"
      using block_prefix_inject [of a b c a' b' c' "[]" "[]"]
      by (cases f; cases f') (simp_all add: block_name_def block_prefix_inject)
  qed
  with distinct_block_indices show ?thesis by (simp add: distinct_map)
qed

lemma name_heads:
  "hd (stage_name i) = 117" "hd (block_name x) = 114" "hd (pys ''pre_conv.input_history'') = 112"
  "hd (pys ''post_conv.input_history'') = 112"
proof -
  show "hd (block_name x) = 114"
    by (cases x rule: prod_cases4) (simp add: block_name_def block_prefix_def pys_def)
qed (simp_all add: stage_name_def pys_def)

lemma stage_names_distinct: "distinct (map stage_name [0, 1, 2, 3, 4])"
  by (simp add: stage_name_def digit_name)

lemma distinct_parts:
  "distinct as \<Longrightarrow> distinct bs \<Longrightarrow> (\<And>a b. a \<in> set as \<Longrightarrow> b \<in> set bs \<Longrightarrow> a \<noteq> b) \<Longrightarrow>
   x \<notin> set as \<union> set bs \<Longrightarrow> y \<notin> set as \<union> set bs \<Longrightarrow> x \<noteq> y \<Longrightarrow> distinct ([x] @ as @ bs @ [y])"
  by auto

lemma registry_names_distinct: "distinct (map cb_logical_name registry)"
proof -
  have ne: "pys ''pre_conv.input_history'' \<noteq> stage_name i" "pys ''pre_conv.input_history'' \<noteq> block_name x"
    "pys ''post_conv.input_history'' \<noteq> stage_name i" "pys ''post_conv.input_history'' \<noteq> block_name x"
    "stage_name i \<noteq> block_name x" for i x
    using name_heads by (metis numeral_eq_iff semiring_norm(87,88,89,90))+
  show ?thesis
    unfolding registry_names
    by (intro distinct_parts block_names_distinct stage_names_distinct)
      (auto simp: ne ne [symmetric])
qed


subsection \<open>Properties\<close>

text \<open>The registry is returned: neither assertion of canonical_state_bindings can fail, and there
are 97 bindings with distinct names, each a single-batch FP32 tensor with a positive number of channels
and of history frames.\<close>

theorem canonical_bindings_return:
  "canonical_state_bindings = Inr registry \<and> length registry = 97 \<and>
   distinct (map cb_logical_name registry) \<and>
   list_all (\<lambda>b. cb_dtype b = ''fp32'' \<and> (case cb_shape b of (n, channels, frames) \<Rightarrow>
     n = 1 \<and> 0 < channels \<and> 0 < frames)) registry"
proof -
  have "length (remdups (map cb_logical_name registry)) = length (map cb_logical_name registry)"
    using registry_names_distinct by (metis distinct_remdups_id)
  then have "canonical_state_bindings = Inr registry"
    by (simp add: canonical_state_bindings_def length_registry)
  moreover have "list_all (\<lambda>b. cb_dtype b = ''fp32'' \<and> (case cb_shape b of (n, channels, frames) \<Rightarrow>
     n = 1 \<and> 0 < channels \<and> 0 < frames)) registry"
    by (simp add: registry_unfold)
  ultimately show ?thesis using length_registry registry_names_distinct by blast
qed

text \<open>The steady engine never reads and writes one tensor under the same name: over the whole
registry the input names and the output names of an engine are distinct, and no input name is an output
name; the initial, steady and tail engines agree on every output and input name.\<close>

theorem engine_bindings_disjoint:
  "distinct (map cb_steady_input_binding registry @ map cb_steady_output_binding registry) \<and>
   list_all (\<lambda>b. cb_initial_output_binding b = cb_steady_output_binding b \<and>
     cb_tail_output_binding b = cb_steady_output_binding b \<and>
     cb_tail_input_binding b = cb_steady_input_binding b) registry"
proof -
  have made: "b \<in> set registry \<Longrightarrow> b = make_binding (cb_logical_name b) (cb_shape b)" for b
    by (auto simp: registry_def upsample_bindings_def residual_bindings_def)
  have ins: "map cb_steady_input_binding registry = map (\<lambda>n. pys ''state_in.'' @ n) (map cb_logical_name registry)"
    and outs: "map cb_steady_output_binding registry = map (\<lambda>n. pys ''state_out.'' @ n) (map cb_logical_name registry)"
    using made by (auto simp: make_binding_def) (metis codec_binding.select_convs(5,6))+
  have "distinct (map (\<lambda>n. pys k @ n) (map cb_logical_name registry))" for k
    using registry_names_distinct by (subst distinct_map) (simp add: inj_on_def)
  moreover have "pys ''state_in.'' @ n \<noteq> pys ''state_out.'' @ n'" for n n'
    by (simp add: pys_def)
  ultimately have "distinct (map cb_steady_input_binding registry @ map cb_steady_output_binding registry)"
    unfolding ins outs by auto
  moreover have "list_all (\<lambda>b. cb_initial_output_binding b = cb_steady_output_binding b \<and>
     cb_tail_output_binding b = cb_steady_output_binding b \<and>
     cb_tail_input_binding b = cb_steady_input_binding b) registry"
    unfolding list_all_iff
  proof
    fix b assume "b \<in> set registry"
    from made [OF this] obtain n s where "b = make_binding n s" by blast
    then show "cb_initial_output_binding b = cb_steady_output_binding b \<and>
     cb_tail_output_binding b = cb_steady_output_binding b \<and>
     cb_tail_input_binding b = cb_steady_input_binding b" by (simp add: make_binding_def)
  qed
  ultimately show ?thesis ..
qed

end
