(* ===== verification/SequenceTracker.thy ===== *)
theory SequenceTracker
  imports Json Sha256
begin

text \<open>
  Code and end-of-speech accounting of one generation (\<open>tools/export/sequence_contract.py\<close>):
  \<open>SequenceCodeTracker\<close> with its \<open>accept_step\<close>, \<open>generated_codes\<close> and \<open>compare\<close>.

  A tensor is its element type, its shape and its elements in row-major order. A chunk the tracker
  keeps is the list of its codebook rows (\<open>codec_tokens[0, c, :valid_frames]\<close>); concatenating
  chunks along the frame axis concatenates each row. \<open>accept_step\<close> changes the tracker only on
  success, so the model returns the new tracker with the result.
\<close>

definition ACTUAL_BATCH :: nat where "ACTUAL_BATCH = 1"
definition CODEBOOKS :: nat where "CODEBOOKS = 8"
definition FRAMES_PER_STEP :: nat where "FRAMES_PER_STEP = 2"
definition LOCAL_AR_POSITIONS :: nat where "LOCAL_AR_POSITIONS = CODEBOOKS * FRAMES_PER_STEP"
definition MIN_GENERATED_FRAMES :: nat where "MIN_GENERATED_FRAMES = 4"
definition MAX_DECODER_STEPS :: nat where "MAX_DECODER_STEPS = 250"

datatype dtype = Int64 | Int32 | Float32 | BFloat16

record tensor =
  t_dtype :: dtype
  t_shape :: "nat list"
  t_data :: "int list"

definition tensor_wf :: "tensor \<Rightarrow> bool" where
  "tensor_wf t \<longleftrightarrow> length (t_data t) = prod_list (t_shape t)"

record code_mismatch =
  mm_frame :: nat
  mm_codebook :: nat
  mm_actual :: "int option"
  mm_expected :: "int option"

record sequence_comparison =
  sc_code_exact :: bool
  sc_first_mismatch :: "code_mismatch option"
  sc_generated_frames :: nat
  sc_expected_frames :: nat
  sc_generated_codes_sha256 :: pystr
  sc_expected_codes_sha256 :: pystr
  sc_terminal_decoder_step :: nat
  sc_terminal_end_frame_index :: int
  sc_local_ar_invocations :: nat
  sc_final_rng_counter :: int

definition require_tensor :: "tensor \<Rightarrow> dtype \<Rightarrow> nat list \<Rightarrow> unit result" where
  "require_tensor value dt shape =
     guardE (t_dtype value \<noteq> dt \<or> t_shape value \<noteq> shape) (Exn PyValueError '' must be '')"

text \<open>Eight little-endian bytes of each element, two's complement.\<close>

definition le_int64 :: "int \<Rightarrow> byte list" where
  "le_int64 x = map (\<lambda>i. of_int (x div 256 ^ i)) [0..<8]"

definition int64_payload :: "tensor \<Rightarrow> byte list result" where
  "int64_payload value =
     (if t_dtype value \<noteq> Int64 then Inl (Exn PyValueError ''code tensor must be INT64, got '')
      else Inr (concat (map le_int64 (t_data value))))"

subsection \<open>The tracker\<close>

record tracker =
  decoder_step :: nat
  rng_counter :: int
  terminal_end_frame_index :: "int option"
  terminal_decoder_step :: "nat option"
  chunks :: "int list list list"

definition make_tracker :: "int \<Rightarrow> tracker result" where
  "make_tracker initial_rng_counter =
     (if initial_rng_counter < 0 then Inl (Exn PyValueError ''initial_rng_counter must be non-negative'')
      else Inr \<lparr>decoder_step = 0, rng_counter = initial_rng_counter, terminal_end_frame_index = None,
                terminal_decoder_step = None, chunks = []\<rparr>)"

definition forbid_eos :: "tracker \<Rightarrow> bool" where
  "forbid_eos t \<longleftrightarrow> decoder_step t * FRAMES_PER_STEP < MIN_GENERATED_FRAMES"

definition ended :: "tracker \<Rightarrow> bool" where
  "ended t \<longleftrightarrow> terminal_decoder_step t \<noteq> None"

definition local_ar_invocations :: "tracker \<Rightarrow> nat" where
  "local_ar_invocations t = decoder_step t + (if ended t then 1 else 0)"

text \<open>\<open>tensor[0, codebook, :]\<close> of a tensor of shape \<open>(1, n, width)\<close>, for every codebook.\<close>

definition rows_of :: "nat \<Rightarrow> nat \<Rightarrow> int list \<Rightarrow> int list list" where
  "rows_of n width xs = map (\<lambda>c. take width (drop (c * width) xs)) [0..<n]"

definition item :: "tensor \<Rightarrow> int" where
  "item t = hd (t_data t)"

record local_ar_step =
  codec_tokens :: tensor
  updated_rng_counter :: tensor
  invalid_rows :: tensor
  end_frame_index :: tensor

definition runtime_error :: "string \<Rightarrow> exn" where
  "runtime_error m = Exn PyRuntimeError m"

definition require_step :: "local_ar_step \<Rightarrow> unit result" where
  "require_step s =
     bindE (require_tensor (codec_tokens s) Int64 [ACTUAL_BATCH, CODEBOOKS, FRAMES_PER_STEP]) (\<lambda>_.
     bindE (require_tensor (updated_rng_counter s) Int64 [ACTUAL_BATCH]) (\<lambda>_.
     bindE (require_tensor (invalid_rows s) Int32 [ACTUAL_BATCH]) (\<lambda>_.
     require_tensor (end_frame_index s) Int32 [ACTUAL_BATCH])))"

definition accept_step :: "tracker \<Rightarrow> local_ar_step \<Rightarrow> (tracker \<times> bool) result" where
  "accept_step t s =
     (if ended t then Inl (runtime_error ''cannot accept a Local AR step after EOS'')
      else if MAX_DECODER_STEPS \<le> decoder_step t then Inl (runtime_error ''decoder step limit is '')
      else bindE (require_step s) (\<lambda>_.
        let invalid = item (invalid_rows s);
            next_counter = item (updated_rng_counter s);
            end_index = item (end_frame_index s)
        in if invalid \<noteq> 0 then Inl (runtime_error ''Local AR rejected the row: '')
           else if next_counter \<noteq> rng_counter t + int LOCAL_AR_POSITIONS
             then Inl (runtime_error ''Local AR RNG counter is not contiguous: '')
           else if end_index \<notin> set [-1, 0, 1]
             then Inl (runtime_error ''Local AR end_frame_index must be -1, 0, or 1, got '')
           else if forbid_eos t \<and> end_index \<noteq> -1
             then Inl (runtime_error ''Local AR reported EOS before min_generated_frames: '')
           else
             let valid_frames = (if end_index = -1 then FRAMES_PER_STEP else nat end_index);
                 rows = rows_of CODEBOOKS FRAMES_PER_STEP (t_data (codec_tokens s));
                 kept = (if valid_frames \<noteq> 0 then chunks t @ [map (take valid_frames) rows]
                         else chunks t)
             in if end_index = -1
                then Inr (t\<lparr>chunks := kept, rng_counter := next_counter,
                            decoder_step := decoder_step t + 1\<rparr>, False)
                else Inr (t\<lparr>chunks := kept, rng_counter := next_counter,
                            terminal_decoder_step := Some (decoder_step t),
                            terminal_end_frame_index := Some end_index\<rparr>, True)))"

text \<open>\<open>torch.cat(self._chunks, dim=2)\<close>, as codebook rows.\<close>

definition generated_rows :: "tracker \<Rightarrow> int list list" where
  "generated_rows t = map (\<lambda>c. concat (map (\<lambda>chunk. chunk ! c) (chunks t))) [0..<CODEBOOKS]"

definition generated_codes :: "tracker \<Rightarrow> tensor" where
  "generated_codes t = \<lparr>t_dtype = Int64,
     t_shape = [ACTUAL_BATCH, CODEBOOKS, length (hd (generated_rows t))],
     t_data = concat (generated_rows t)\<rparr>"

subsection \<open>Comparison\<close>

text \<open>\<open>torch.nonzero\<close> of the transposed inequality lists frames first, codebooks second.\<close>

definition first_unequal :: "int list list \<Rightarrow> int list list \<Rightarrow> nat \<Rightarrow> (nat \<times> nat) option" where
  "first_unequal g e overlap =
     find (\<lambda>(frame, codebook). g ! codebook ! frame \<noteq> e ! codebook ! frame)
       (List.product [0..<overlap] [0..<CODEBOOKS])"

definition first_mismatch_of :: "int list list \<Rightarrow> int list list \<Rightarrow> nat \<Rightarrow> nat \<Rightarrow> code_mismatch option" where
  "first_mismatch_of g e generated_frames expected_frames =
     (let overlap = min generated_frames expected_frames in
      case first_unequal g e overlap of
        Some (frame, codebook) \<Rightarrow>
          Some \<lparr>mm_frame = frame, mm_codebook = codebook, mm_actual = Some (g ! codebook ! frame),
                mm_expected = Some (e ! codebook ! frame)\<rparr>
      | None \<Rightarrow>
          if generated_frames \<noteq> expected_frames
          then Some \<lparr>mm_frame = overlap, mm_codebook = 0,
                 mm_actual = (if overlap < generated_frames then Some (g ! 0 ! overlap) else None),
                 mm_expected = (if overlap < expected_frames then Some (e ! 0 ! overlap) else None)\<rparr>
          else None)"

definition compare_codes :: "tracker \<Rightarrow> tensor \<Rightarrow> sequence_comparison result" where
  "compare_codes t expected_codes =
     (if \<not> ended t then Inl (runtime_error ''cannot compare a sequence before EOS'')
      else if length (t_shape expected_codes) \<noteq> 3
        then Inl (Exn PyValueError ''expected_codes must have rank 3, got '')
      else bindE (require_tensor expected_codes Int64
                    [ACTUAL_BATCH, CODEBOOKS, last (t_shape expected_codes)]) (\<lambda>_.
        let generated = generated_codes t;
            generated_frames = t_shape generated ! 2;
            expected_frames = t_shape expected_codes ! 2;
            mismatch = first_mismatch_of (generated_rows t)
              (rows_of CODEBOOKS expected_frames (t_data expected_codes))
              generated_frames expected_frames
        in bindE (int64_payload generated) (\<lambda>generated_payload.
           bindE (int64_payload expected_codes) (\<lambda>expected_payload.
             case (terminal_decoder_step t, terminal_end_frame_index t) of
               (None, _) \<Rightarrow> Inl (Exn PyAssertionError ''ended sequence has no terminal decoder step'')
             | (_, None) \<Rightarrow> Inl (Exn PyAssertionError ''ended sequence has no terminal EOS frame'')
             | (Some step, Some frame) \<Rightarrow>
                 Inr \<lparr>sc_code_exact = mismatch = None, sc_first_mismatch = mismatch,
                   sc_generated_frames = generated_frames, sc_expected_frames = expected_frames,
                   sc_generated_codes_sha256 = sha256_hex generated_payload,
                   sc_expected_codes_sha256 = sha256_hex expected_payload,
                   sc_terminal_decoder_step = step, sc_terminal_end_frame_index = frame,
                   sc_local_ar_invocations = local_ar_invocations t,
                   sc_final_rng_counter = rng_counter t\<rparr>))))"


subsection \<open>Reachable trackers\<close>

text \<open>The steps a tracker has accepted since it was made, oldest first.\<close>

inductive tracked :: "int \<Rightarrow> tracker \<Rightarrow> local_ar_step list \<Rightarrow> bool" for c where
  tracked_made: "make_tracker c = Inr t \<Longrightarrow> tracked c t []"
| tracked_step: "tracked c t ss \<Longrightarrow> tensor_wf (codec_tokens s) \<Longrightarrow> accept_step t s = Inr (t', b) \<Longrightarrow>
    tracked c t' (ss @ [s])"

definition step_rows :: "local_ar_step \<Rightarrow> int list list" where
  "step_rows s = rows_of CODEBOOKS FRAMES_PER_STEP (t_data (codec_tokens s))"

lemma require_step_eq_Inr:
  "require_step s = Inr u \<longleftrightarrow>
     t_dtype (codec_tokens s) = Int64 \<and> t_shape (codec_tokens s) = [ACTUAL_BATCH, CODEBOOKS, FRAMES_PER_STEP] \<and>
     t_dtype (updated_rng_counter s) = Int64 \<and> t_shape (updated_rng_counter s) = [ACTUAL_BATCH] \<and>
     t_dtype (invalid_rows s) = Int32 \<and> t_shape (invalid_rows s) = [ACTUAL_BATCH] \<and>
     t_dtype (end_frame_index s) = Int32 \<and> t_shape (end_frame_index s) = [ACTUAL_BATCH]"
  by (auto simp: require_step_def require_tensor_def result_simps)

lemma accept_step_cases:
  assumes "accept_step t s = Inr (t', b)"
  obtains (continue) "item (end_frame_index s) = -1" "\<not> b"
      "t' = t\<lparr>chunks := chunks t @ [step_rows s], rng_counter := rng_counter t + 16,
              decoder_step := decoder_step t + 1\<rparr>"
      "\<not> ended t" "decoder_step t < MAX_DECODER_STEPS" "require_step s = Inr ()"
  | (stop) i where "item (end_frame_index s) = i" "i = 0 \<or> i = 1" b
      "t' = t\<lparr>chunks := (if i = 0 then chunks t else chunks t @ [map (take 1) (step_rows s)]),
              rng_counter := rng_counter t + 16, terminal_decoder_step := Some (decoder_step t),
              terminal_end_frame_index := Some i\<rparr>"
      "\<not> ended t" "decoder_step t < MAX_DECODER_STEPS" "require_step s = Inr ()" "\<not> forbid_eos t"
proof -
  have full: "map (take FRAMES_PER_STEP) (step_rows s) = step_rows s"
    by (simp add: step_rows_def rows_of_def comp_def min.idem)
  from assms have a: "\<not> ended t" "decoder_step t < MAX_DECODER_STEPS" "require_step s = Inr ()"
    "item (updated_rng_counter s) = rng_counter t + 16"
    by (auto simp: accept_step_def Let_def result_simps LOCAL_AR_POSITIONS_def CODEBOOKS_def
        FRAMES_PER_STEP_def split: if_splits)
  from assms consider "item (end_frame_index s) = -1" | "item (end_frame_index s) = 0 \<or> item (end_frame_index s) = 1"
    by (auto simp: accept_step_def Let_def result_simps split: if_splits)
  then show ?thesis
  proof cases
    case 1
    with assms a full show ?thesis
      by (intro continue)
        (auto simp: accept_step_def Let_def result_simps step_rows_def FRAMES_PER_STEP_def split: if_splits)
  next
    case 2
    with assms a show ?thesis
      by (intro stop [of "item (end_frame_index s)"])
        (auto simp: accept_step_def Let_def result_simps step_rows_def split: if_splits)
  qed
qed

definition kept_frames :: "tracker \<Rightarrow> nat" where
  "kept_frames t = FRAMES_PER_STEP * decoder_step t
     + (case terminal_end_frame_index t of None \<Rightarrow> 0 | Some i \<Rightarrow> nat i)"

lemma step_rows_shape:
  assumes "tensor_wf (codec_tokens s)" and "require_step s = Inr u"
  shows "length (step_rows s) = CODEBOOKS" and "c < CODEBOOKS \<Longrightarrow> length (step_rows s ! c) = FRAMES_PER_STEP"
proof -
  from assms have len: "length (t_data (codec_tokens s)) = CODEBOOKS * FRAMES_PER_STEP"
    by (simp add: tensor_wf_def require_step_eq_Inr ACTUAL_BATCH_def)
  show "length (step_rows s) = CODEBOOKS" by (simp add: step_rows_def rows_of_def)
  assume "c < CODEBOOKS"
  then have "c * FRAMES_PER_STEP + FRAMES_PER_STEP \<le> CODEBOOKS * FRAMES_PER_STEP"
    by (metis Suc_leI add.commute mult_Suc mult_le_mono1)
  with \<open>c < CODEBOOKS\<close> len show "length (step_rows s ! c) = FRAMES_PER_STEP"
    by (simp add: step_rows_def rows_of_def)
qed

text \<open>What every reachable tracker satisfies; \<open>ss\<close> are the steps it accepted.\<close>

definition tracker_inv :: "int \<Rightarrow> tracker \<Rightarrow> local_ar_step list \<Rightarrow> bool" where
  "tracker_inv c t ss \<longleftrightarrow>
     rng_counter t = c + 16 * int (length ss) \<and> local_ar_invocations t = length ss \<and>
     decoder_step t \<le> MAX_DECODER_STEPS \<and>
     (ended t \<longrightarrow> decoder_step t < MAX_DECODER_STEPS \<and> MIN_GENERATED_FRAMES \<le> kept_frames t \<and>
        terminal_decoder_step t = Some (decoder_step t) \<and>
        (terminal_end_frame_index t = Some 0 \<or> terminal_end_frame_index t = Some 1)) \<and>
     (\<not> ended t \<longrightarrow> terminal_end_frame_index t = None) \<and>
     generated_rows t =
       map (\<lambda>cb. take (kept_frames t) (concat (map (\<lambda>s. step_rows s ! cb) ss))) [0..<CODEBOOKS] \<and>
     (\<forall>cb < CODEBOOKS. length (concat (map (\<lambda>s. step_rows s ! cb) ss)) = FRAMES_PER_STEP * length ss)"

lemma tracker_inv_made: "make_tracker c = Inr t \<Longrightarrow> tracker_inv c t []"
  by (auto simp: make_tracker_def tracker_inv_def local_ar_invocations_def ended_def generated_rows_def
      kept_frames_def split: if_splits)

lemma tracker_inv_continue:
  assumes inv: "tracker_inv c t ss" and wf: "tensor_wf (codec_tokens s)" and req: "require_step s = Inr ()"
    and "\<not> ended t" and step: "decoder_step t < MAX_DECODER_STEPS"
  shows "tracker_inv c (t\<lparr>chunks := chunks t @ [step_rows s], rng_counter := rng_counter t + 16,
    decoder_step := decoder_step t + 1\<rparr>) (ss @ [s])" (is "tracker_inv c ?t (ss @ [s])")
proof -
  from inv assms(4) have t: "terminal_end_frame_index t = None" "decoder_step t = length ss"
    by (auto simp: tracker_inv_def local_ar_invocations_def)
  then have kept: "kept_frames t = FRAMES_PER_STEP * length ss"
    "kept_frames ?t = FRAMES_PER_STEP * length (ss @ [s])"
    by (simp_all add: kept_frames_def)
  note rows = step_rows_shape [OF wf req]
  have "generated_rows ?t = map (\<lambda>cb. generated_rows t ! cb @ step_rows s ! cb) [0..<CODEBOOKS]"
    by (simp add: generated_rows_def)
  also have "\<dots> = map (\<lambda>cb. take (kept_frames ?t) (concat (map (\<lambda>s. step_rows s ! cb) (ss @ [s]))))
      [0..<CODEBOOKS]"
    using inv rows(2) kept by (auto simp: tracker_inv_def)
  finally show ?thesis
    using inv assms(4) step rows t
    by (auto simp: tracker_inv_def local_ar_invocations_def ended_def)
qed

lemma tracker_inv_stop:
  assumes inv: "tracker_inv c t ss" and wf: "tensor_wf (codec_tokens s)" and req: "require_step s = Inr ()"
    and "\<not> ended t" and step: "decoder_step t < MAX_DECODER_STEPS" and "\<not> forbid_eos t"
    and i: "i = 0 \<or> i = 1"
  shows "tracker_inv c (t\<lparr>chunks := (if i = 0 then chunks t else chunks t @ [map (take 1) (step_rows s)]),
    rng_counter := rng_counter t + 16, terminal_decoder_step := Some (decoder_step t),
    terminal_end_frame_index := Some i\<rparr>) (ss @ [s])" (is "tracker_inv c ?t (ss @ [s])")
proof -
  from inv assms(4) have t: "terminal_end_frame_index t = None" "decoder_step t = length ss"
    by (auto simp: tracker_inv_def local_ar_invocations_def)
  then have kept: "kept_frames t = FRAMES_PER_STEP * length ss"
    "kept_frames ?t = FRAMES_PER_STEP * length ss + nat i"
    by (simp_all add: kept_frames_def)
  note rows = step_rows_shape [OF wf req]
  have "generated_rows ?t = map (\<lambda>cb. generated_rows t ! cb @ take (nat i) (step_rows s ! cb)) [0..<CODEBOOKS]"
    using i rows(1) by (auto simp: generated_rows_def)
  also have "\<dots> = map (\<lambda>cb. take (kept_frames ?t) (concat (map (\<lambda>s. step_rows s ! cb) (ss @ [s]))))
      [0..<CODEBOOKS]"
    using inv rows(2) kept by (auto simp: tracker_inv_def)
  finally show ?thesis
    using inv assms(4,6) step rows t i kept
    by (auto simp: tracker_inv_def local_ar_invocations_def ended_def forbid_eos_def
        mult.commute [of FRAMES_PER_STEP])
qed

lemma tracked_inv: "tracked c t ss \<Longrightarrow> tracker_inv c t ss"
proof (induction rule: tracked.induct)
  case (tracked_made t)
  then show ?case by (rule tracker_inv_made)
next
  case (tracked_step t ss s t' b)
  from tracked_step.hyps(3) show ?case
  proof (cases rule: accept_step_cases)
    case continue
    with tracked_step tracker_inv_continue show ?thesis by simp
  next
    case (stop i)
    with tracked_step tracker_inv_stop show ?thesis by simp
  qed
qed


subsection \<open>Rows and tensors\<close>

lemma rows_of_Suc: "rows_of (Suc n) w xs = take w xs # rows_of n w (drop w xs)"
  by (simp add: rows_of_def map_upt_Suc add.commute del: upt_Suc)

lemma rows_of_0 [simp]: "rows_of 0 w xs = []"
  by (simp add: rows_of_def)

lemma concat_rows_of: "length xs = n * w \<Longrightarrow> concat (rows_of n w xs) = xs"
  by (induction n arbitrary: xs) (auto simp: rows_of_Suc)

lemma rows_of_concat:
  "\<forall>row \<in> set g. length row = w \<Longrightarrow> rows_of (length g) w (concat g) = g"
  by (induction g) (simp_all add: rows_of_Suc)

lemma length_rows_of [simp]: "length (rows_of n w xs) = n"
  by (simp add: rows_of_def)

lemma rows_of_width: "length xs = n * w \<Longrightarrow> row \<in> set (rows_of n w xs) \<Longrightarrow> length row = w"
proof (induction n arbitrary: xs)
  case 0
  then show ?case by simp
next
  case (Suc n)
  then have "length (drop w xs) = n * w" by simp
  from Suc.IH [OF this] Suc.prems show ?case by (auto simp: rows_of_Suc)
qed

lemma first_unequal_None:
  "first_unequal g e k = None \<longleftrightarrow> (\<forall>f < k. \<forall>c < CODEBOOKS. g ! c ! f = e ! c ! f)"
  by (auto simp: first_unequal_def find_None_iff)

lemma first_mismatch_None:
  assumes "length g = CODEBOOKS" "length e = CODEBOOKS" "\<forall>row \<in> set g. length row = m"
    "\<forall>row \<in> set e. length row = n"
  shows "first_mismatch_of g e m n = None \<longleftrightarrow> g = e"
proof
  assume "first_mismatch_of g e m n = None"
  then have mn: "m = n" and eq: "\<forall>f < n. \<forall>c < CODEBOOKS. g ! c ! f = e ! c ! f"
    by (auto simp: first_mismatch_of_def Let_def first_unequal_None split: option.splits if_splits)
  show "g = e"
  proof (rule nth_equalityI)
    show "length g = length e" using assms by simp
    fix c assume c: "c < length g"
    with assms mn have "length (g ! c) = n" "length (e ! c) = n" by auto
    with eq c assms(1) show "g ! c = e ! c" by (intro nth_equalityI) auto
  qed
next
  assume e: "g = e"
  have "0 < CODEBOOKS" by (simp add: CODEBOOKS_def)
  with assms have "g ! 0 \<in> set g" by (intro nth_mem) simp
  with assms e have "m = n" by auto
  with e show "first_mismatch_of g e m n = None"
    by (simp add: first_mismatch_of_def Let_def first_unequal_None [THEN iffD2])
qed

lemma generated_rows_width:
  assumes "tracker_inv c t ss"
  shows "length (generated_rows t) = CODEBOOKS"
    and "row \<in> set (generated_rows t) \<Longrightarrow> length row = kept_frames t"
proof -
  show "length (generated_rows t) = CODEBOOKS" by (simp add: generated_rows_def)
  have "kept_frames t \<le> FRAMES_PER_STEP * length ss"
    using assms by (cases "ended t")
      (auto simp: tracker_inv_def kept_frames_def local_ar_invocations_def FRAMES_PER_STEP_def)
  with assms show "row \<in> set (generated_rows t) \<Longrightarrow> length row = kept_frames t"
    by (auto simp: tracker_inv_def)
qed

lemma generated_codes_eq_iff:
  assumes inv: "tracker_inv c t ss" and e: "t_dtype e = Int64" "t_shape e = [ACTUAL_BATCH, CODEBOOKS, w]"
    and wf: "tensor_wf e"
  shows "generated_codes t = e \<longleftrightarrow> generated_rows t = rows_of CODEBOOKS w (t_data e)"
proof -
  note g = generated_rows_width [OF inv]
  have "0 < CODEBOOKS" by (simp add: CODEBOOKS_def)
  with g have hd: "length (hd (generated_rows t)) = kept_frames t"
    by (metis hd_in_set length_0_conv less_numeral_extra(3))
  from wf e have data: "length (t_data e) = CODEBOOKS * w" by (simp add: tensor_wf_def ACTUAL_BATCH_def)
  have "generated_codes t = e \<longleftrightarrow> kept_frames t = w \<and> concat (generated_rows t) = t_data e"
    using e hd by (cases e) (auto simp: generated_codes_def)
  also have "\<dots> \<longleftrightarrow> generated_rows t = rows_of CODEBOOKS w (t_data e)"
  proof
    assume "kept_frames t = w \<and> concat (generated_rows t) = t_data e"
    with rows_of_concat [of "generated_rows t" w] g show "generated_rows t = rows_of CODEBOOKS w (t_data e)"
      by auto
  next
    assume r: "generated_rows t = rows_of CODEBOOKS w (t_data e)"
    with rows_of_width [OF data] hd \<open>0 < CODEBOOKS\<close> g show "kept_frames t = w \<and> concat (generated_rows t) = t_data e"
      by (metis concat_rows_of data hd_in_set length_0_conv less_numeral_extra(3))
  qed
  finally show ?thesis .
qed

lemma compare_codes_result:
  assumes "tracked c t ss" and "ended t" and "tensor_wf expected" and "t_dtype expected = Int64"
    and "t_shape expected = [1, 8, w]"
  shows "\<exists>r. compare_codes t expected = Inr r \<and>
    (sc_code_exact r \<longleftrightarrow> generated_codes t = expected) \<and>
    (sc_code_exact r \<longleftrightarrow> sc_first_mismatch r = None) \<and> sc_generated_frames r = kept_frames t \<and>
    sc_local_ar_invocations r = local_ar_invocations t \<and> sc_final_rng_counter r = rng_counter t"
proof -
  from assms(1) have inv: "tracker_inv c t ss" by (rule tracked_inv)
  note g = generated_rows_width [OF inv]
  have shape: "t_shape expected = [ACTUAL_BATCH, CODEBOOKS, w]"
    using assms(5) by (simp add: ACTUAL_BATCH_def CODEBOOKS_def)
  have "0 < CODEBOOKS" by (simp add: CODEBOOKS_def)
  with g have hd: "length (hd (generated_rows t)) = kept_frames t"
    by (metis hd_in_set length_0_conv less_numeral_extra(3))
  let ?e = "rows_of CODEBOOKS w (t_data expected)"
  from assms(3) shape have "length (t_data expected) = CODEBOOKS * w"
    by (simp add: tensor_wf_def ACTUAL_BATCH_def)
  note rows_of_width [OF this]
  then have none: "first_mismatch_of (generated_rows t) ?e (kept_frames t) w = None \<longleftrightarrow>
      generated_codes t = expected"
    unfolding generated_codes_eq_iff [OF inv assms(4) shape assms(3)]
    using g by (intro first_mismatch_None) auto
  from inv assms(2) obtain i where "terminal_decoder_step t = Some (decoder_step t)"
    "terminal_end_frame_index t = Some i" by (auto simp: tracker_inv_def)
  then show ?thesis
    using assms(2,4) shape none hd
    by (simp add: compare_codes_def require_tensor_def Let_def int64_payload_def generated_codes_def)
qed

subsection \<open>Properties\<close>

text \<open>C25: a tracker keeps exactly the codes before the end of speech. After any sequence of accepted
steps, row c of its codes is the concatenation of row c of the steps, cut at the reported end frame of
the last step; it has made one Local AR invocation per step, and the random counter has advanced by the
16 positions of each.\<close>

theorem tracker_keeps_codes_before_eos:
  assumes "tracked c t ss"
  shows "generated_rows t =
      map (\<lambda>cb. take (kept_frames t) (concat (map (\<lambda>s. step_rows s ! cb) ss))) [0..<CODEBOOKS] \<and>
    local_ar_invocations t = length ss \<and> rng_counter t = c + 16 * int (length ss)"
  using tracked_inv [OF assms] by (simp add: tracker_inv_def)

definition demo_step :: "int \<Rightarrow> int \<Rightarrow> local_ar_step" where
  "demo_step counter end_index = \<lparr>
     codec_tokens = \<lparr>t_dtype = Int64, t_shape = [1, 8, 2], t_data = map int [0..<16]\<rparr>,
     updated_rng_counter = \<lparr>t_dtype = Int64, t_shape = [1], t_data = [counter]\<rparr>,
     invalid_rows = \<lparr>t_dtype = Int32, t_shape = [1], t_data = [0]\<rparr>,
     end_frame_index = \<lparr>t_dtype = Int32, t_shape = [1], t_data = [end_index]\<rparr>\<rparr>"

lemma demo_tracked:
  obtains t where "tracked 0 t [demo_step 16 (-1), demo_step 32 (-1), demo_step 48 1]" "ended t"
proof -
  obtain t0 where t0: "make_tracker 0 = Inr t0" by (simp add: make_tracker_def)
  have wf: "tensor_wf (codec_tokens (demo_step a b))" for a b
    by (simp add: tensor_wf_def demo_step_def)
  note step_consts = ACTUAL_BATCH_def CODEBOOKS_def FRAMES_PER_STEP_def LOCAL_AR_POSITIONS_def
    MIN_GENERATED_FRAMES_def MAX_DECODER_STEPS_def ended_def forbid_eos_def
  have req: "require_step (demo_step a b) = Inr ()"
    and it: "item (invalid_rows (demo_step a b)) = 0" "item (updated_rng_counter (demo_step a b)) = a"
      "item (end_frame_index (demo_step a b)) = b" for a b
    by (simp_all add: demo_step_def require_step_eq_Inr item_def step_consts)
  from t0 obtain t1 where t1: "accept_step t0 (demo_step 16 (-1)) = Inr (t1, False)"
    and s1: "decoder_step t1 = 1" "rng_counter t1 = 16" "terminal_decoder_step t1 = None"
    by (auto simp: make_tracker_def accept_step_def req it Let_def step_consts)
  from s1 obtain t2 where t2: "accept_step t1 (demo_step 32 (-1)) = Inr (t2, False)"
    and s2: "decoder_step t2 = 2" "rng_counter t2 = 32" "terminal_decoder_step t2 = None"
    by (auto simp: accept_step_def req it Let_def step_consts)
  from s2 obtain t3 where t3: "accept_step t2 (demo_step 48 1) = Inr (t3, True)" "ended t3"
    by (auto simp: accept_step_def req it Let_def step_consts)
  from tracked_step [OF tracked_step [OF tracked_step [OF tracked_made [OF t0] wf t1] wf t2] wf t3(1)]
  have "tracked 0 t3 [demo_step 16 (-1), demo_step 32 (-1), demo_step 48 1]" by simp
  from that [OF this t3(2)] show ?thesis .
qed

theorem tracker_keeps_codes_before_eos_witness:
  "\<exists>t. tracked 0 t [demo_step 16 (-1), demo_step 32 (-1), demo_step 48 1] \<and>
     local_ar_invocations t = 3 \<and> rng_counter t = 48"
proof -
  obtain t where t: "tracked 0 t [demo_step 16 (-1), demo_step 32 (-1), demo_step 48 1]"
    by (rule demo_tracked)
  from tracker_keeps_codes_before_eos [OF t] have "local_ar_invocations t = 3 \<and> rng_counter t = 48" by simp
  with t show ?thesis by blast
qed

text \<open>The bounds of a generation: a reachable tracker never passes 250 decoder steps; one that has
ended holds at least the four minimum frames, ended in its last step at frame 0 or 1, and accepts no
further step; one that has used its 250 steps accepts none either.\<close>

theorem tracker_bounds:
  assumes "tracked c t ss"
  shows "length ss \<le> 250 \<and> decoder_step t \<le> 250 \<and>
    (ended t \<longrightarrow> 4 \<le> kept_frames t \<and> length ss = decoder_step t + 1 \<and>
       (terminal_end_frame_index t = Some 0 \<or> terminal_end_frame_index t = Some 1)) \<and>
    (ended t \<or> decoder_step t = 250 \<longrightarrow> (\<exists>m. accept_step t s = Inl (runtime_error m)))"
  using tracked_inv [OF assms]
  by (auto simp: tracker_inv_def local_ar_invocations_def MAX_DECODER_STEPS_def
      MIN_GENERATED_FRAMES_def accept_step_def)

theorem tracker_bounds_witness:
  "\<exists>t m. tracked 0 t [demo_step 16 (-1), demo_step 32 (-1), demo_step 48 1] \<and> 4 \<le> kept_frames t \<and>
     accept_step t (demo_step 64 0) = Inl (runtime_error m)"
proof -
  obtain t where t: "tracked 0 t [demo_step 16 (-1), demo_step 32 (-1), demo_step 48 1]" "ended t"
    by (rule demo_tracked)
  with tracker_bounds [OF t(1), of "demo_step 64 0"] show ?thesis by blast
qed

text \<open>The comparison is exact: for a tracker that has ended and a well-formed INT64 tensor of shape
(1, 8, w) it returns, and it reports equality exactly when the generated codes are that tensor.\<close>

theorem compare_codes_exact:
  assumes "tracked c t ss" and "ended t" and "tensor_wf expected" and "t_dtype expected = Int64"
    and "t_shape expected = [1, 8, w]"
  shows "\<exists>r. compare_codes t expected = Inr r \<and>
    (sc_code_exact r \<longleftrightarrow> generated_codes t = expected) \<and>
    (sc_code_exact r \<longleftrightarrow> sc_first_mismatch r = None) \<and> sc_generated_frames r = kept_frames t"
proof -
  from compare_codes_result [OF assms] obtain r where "compare_codes t expected = Inr r"
    "sc_code_exact r \<longleftrightarrow> generated_codes t = expected" "sc_code_exact r \<longleftrightarrow> sc_first_mismatch r = None"
    "sc_generated_frames r = kept_frames t" by (elim exE conjE)
  then show ?thesis by (intro exI [of _ r] conjI)
qed

theorem compare_codes_exact_witness:
  "\<exists>t r. tracked 0 t [demo_step 16 (-1), demo_step 32 (-1), demo_step 48 1] \<and>
     compare_codes t \<lparr>t_dtype = Int64, t_shape = [1, 8, 0], t_data = []\<rparr> = Inr r \<and> \<not> sc_code_exact r"
proof -
  obtain t where t: "tracked 0 t [demo_step 16 (-1), demo_step 32 (-1), demo_step 48 1]" "ended t"
    by (rule demo_tracked)
  have "4 \<le> kept_frames t" using tracked_inv [OF t(1)] t(2)
    by (simp add: tracker_inv_def MIN_GENERATED_FRAMES_def)
  moreover have "hd (generated_rows t) \<in> set (generated_rows t)"
    using generated_rows_width(1) [OF tracked_inv [OF t(1)]]
    by (intro hd_in_set) (auto simp: CODEBOOKS_def)
  ultimately have "generated_codes t \<noteq> \<lparr>t_dtype = Int64, t_shape = [1, 8, 0], t_data = []\<rparr>"
    using generated_rows_width(2) [OF tracked_inv [OF t(1)]] by (auto simp: generated_codes_def)
  with t compare_codes_exact [OF t, of "\<lparr>t_dtype = Int64, t_shape = [1, 8, 0], t_data = []\<rparr>" 0]
  show ?thesis by (auto simp: tensor_wf_def)
qed

end
