(* ===== verification/AlignmentController.thy ===== *)
theory AlignmentController
  imports Prelude
begin

text \<open>
  The host-side alignment policy (\<open>tools/export/alignment_controller.py\<close>): the state machine that
  selects the next attended text position and builds the prior of the next decoder step.

  A score is a linearly ordered value, or \<open>None\<close> for minus infinity (which \<open>masked_fill\<close>
  writes outside the search window). \<open>torch.argmax\<close> is a parameter, since it may return any of
  several maximal positions; the locale \<open>argmax_law\<close> states its documented contract. The prior is
  a list of row lists whose elements are the epsilon or one (\<open>prior_value\<close>).
\<close>

definition CFG_ROWS :: nat where "CFG_ROWS = 2"
definition INITIAL_ATTENDED :: nat where "INITIAL_ATTENDED = 1"
definition IGNORED_TERMINAL_TOKENS :: int where "IGNORED_TERMINAL_TOKENS = 3"
definition SHORT_TEXT_NO_PRIOR_MAX_TOKENS :: nat where "SHORT_TEXT_NO_PRIOR_MAX_TOKENS = 5"
definition LOOKAHEAD :: nat where "LOOKAHEAD = 6"
definition SINK_THRESHOLD :: nat where "SINK_THRESHOLD = 4"

datatype prior_value = PRIOR_EPSILON | PriorOne

datatype score_type = BF16 | OtherType

record 'a alignment =
  al_shape :: "nat \<times> nat"
  al_dtype :: score_type
  al_device :: string
  al_conditional :: "'a option list"

record controller =
  text_length :: nat
  device :: string
  last_attended :: nat
  counters :: "nat list"

record alignment_update =
  upd_prior :: "prior_value list list"
  upd_attended :: nat

definition make_controller :: "int \<Rightarrow> string \<Rightarrow> score_type \<Rightarrow> controller result" where
  "make_controller n dev dt =
     (if n < 1 then Inl (Exn PyValueError ''text_length must be positive, got '')
      else if dt \<noteq> BF16 then Inl (Exn PyValueError ''Sofia alignment dtype must be BF16, got '')
      else Inr \<lparr>text_length = nat n, device = dev,
                last_attended = min INITIAL_ATTENDED (nat n - 1), counters = replicate (nat n) 0\<rparr>)"

subsection \<open>Selecting the attended position\<close>

definition search_start :: "controller \<Rightarrow> nat" where
  "search_start c =
     min (last_attended c + (if SINK_THRESHOLD \<le> counters c ! last_attended c then 1 else 0))
       (text_length c)"

definition window_end :: "controller \<Rightarrow> int" where
  "window_end c = min (int (search_start c + LOOKAHEAD)) (int (text_length c) - IGNORED_TERMINAL_TOKENS)"

definition in_window :: "controller \<Rightarrow> nat \<Rightarrow> bool" where
  "in_window c p \<longleftrightarrow> search_start c \<le> p \<and> int p < window_end c"

definition masked_scores :: "controller \<Rightarrow> 'a option list \<Rightarrow> 'a option list" where
  "masked_scores c scores =
     map (\<lambda>p. if in_window c p then scores ! p else None) [0..<text_length c]"

definition attended_position :: "('a option list \<Rightarrow> nat) \<Rightarrow> controller \<Rightarrow> 'a option list \<Rightarrow> nat" where
  "attended_position argmax c scores =
     (if int (search_start c) < window_end c then argmax (masked_scores c scores)
      else text_length c - 1)"

subsection \<open>The prior\<close>

definition prior_indices :: "nat \<Rightarrow> nat \<Rightarrow> nat list" where
  "prior_indices n attended =
     (let history_floor = min INITIAL_ATTENDED (n - 1)
      in [min (max (attended - 1) history_floor) (n - 1), attended]
         @ map (\<lambda>offset. min (attended + offset) (n - 1)) [1..<LOOKAHEAD + 1])"

definition scatter_ones :: "nat list \<Rightarrow> prior_value list \<Rightarrow> prior_value list" where
  "scatter_ones positions row = fold (\<lambda>i row. row[i := PriorOne]) positions row"

text \<open>\<open>positions.masked_fill(counters < SINK_THRESHOLD, -1).amax()\<close>\<close>

definition maximum_sink :: "nat list \<Rightarrow> int" where
  "maximum_sink counts =
     fold max (map (\<lambda>p. if counts ! p < SINK_THRESHOLD then -1 else int p) [0..<length counts]) (-1)"

definition conditional_prior :: "nat \<Rightarrow> nat \<Rightarrow> nat list \<Rightarrow> prior_value list" where
  "conditional_prior n attended counts =
     (let row = scatter_ones (prior_indices n attended) (replicate n PRIOR_EPSILON);
          row = (if n \<le> SHORT_TEXT_NO_PRIOR_MAX_TOKENS then replicate n PriorOne else row)
      in map (\<lambda>p. if int p \<le> maximum_sink counts then PRIOR_EPSILON else row ! p) [0..<n])"

subsection \<open>update\<close>

definition update ::
  "('a option list \<Rightarrow> nat) \<Rightarrow> controller \<Rightarrow> 'a alignment \<Rightarrow> (controller \<times> alignment_update) result"
where
  "update argmax c al =
     (if al_shape al \<noteq> (CFG_ROWS, text_length c) \<or> al_dtype al \<noteq> BF16 \<or> al_device al \<noteq> device c
      then Inl (Exn PyValueError ''alignment does not match controller state: '')
      else
        let attended = attended_position argmax c (al_conditional al);
            counts = (counters c)[attended := counters c ! attended + 1]
        in Inr (c\<lparr>last_attended := attended, counters := counts\<rparr>,
                \<lparr>upd_prior = [conditional_prior (text_length c) attended counts,
                              replicate (text_length c) PRIOR_EPSILON],
                 upd_attended = attended\<rparr>))"

subsection \<open>The contract of argmax\<close>

text \<open>The position returned is in range and no element is larger there.\<close>

locale argmax_law =
  fixes argmax :: "'a::linorder option list \<Rightarrow> nat"
  assumes in_range: "xs \<noteq> [] \<Longrightarrow> argmax xs < length xs"
    and maximal: "i < length xs \<Longrightarrow> xs ! i = Some v \<Longrightarrow> \<exists>w. xs ! argmax xs = Some w \<and> v \<le> w"

text \<open>The first maximal position, a choice that keeps the contract.\<close>

primrec first_argmax :: "'a::linorder option list \<Rightarrow> nat" where
  "first_argmax [] = 0"
| "first_argmax (x # xs) =
     (if xs = [] then 0
      else case xs ! first_argmax xs of
        None \<Rightarrow> 0
      | Some w \<Rightarrow> (case x of Some v \<Rightarrow> if w \<le> v then 0 else Suc (first_argmax xs)
                  | None \<Rightarrow> Suc (first_argmax xs)))"

lemma first_argmax_range: "xs \<noteq> [] \<Longrightarrow> first_argmax xs < length xs"
  by (induction xs) (auto split: option.splits)

lemma first_argmax_maximal:
  "i < length xs \<Longrightarrow> xs ! i = Some v \<Longrightarrow> \<exists>w. xs ! first_argmax xs = Some w \<and> v \<le> w"
proof (induction xs arbitrary: i)
  case Nil
  then show ?case by simp
next
  case (Cons x xs)
  show ?case
  proof (cases i)
    case 0
    with Cons.prems show ?thesis by (auto split: option.splits)
  next
    case (Suc j)
    with Cons.prems have "j < length xs" "xs ! j = Some v" by auto
    with Cons.IH obtain w where "xs ! first_argmax xs = Some w" "v \<le> w" by blast
    with \<open>j < length xs\<close> show ?thesis by (auto split: option.splits)
  qed
qed

interpretation first: argmax_law first_argmax
  by unfold_locales (auto intro: first_argmax_range first_argmax_maximal)

subsection \<open>Well-formed controllers\<close>

definition controller_inv :: "controller \<Rightarrow> bool" where
  "controller_inv c \<longleftrightarrow> 0 < text_length c \<and> length (counters c) = text_length c \<and>
     last_attended c < text_length c \<and>
     (\<forall>p < text_length c - 1. counters c ! p \<le> SINK_THRESHOLD) \<and>
     (\<forall>p < text_length c. counters c ! p \<noteq> 0 \<longrightarrow> p \<le> last_attended c)"

lemma make_controller_inv: "make_controller n dev dt = Inr c \<Longrightarrow> controller_inv c"
  by (auto simp: make_controller_def controller_inv_def split: if_splits)

text \<open>A step needs a finite score in the search window, when that window is not empty.\<close>

definition scores_ok :: "controller \<Rightarrow> 'a option list \<Rightarrow> bool" where
  "scores_ok c scores \<longleftrightarrow> length scores = text_length c \<and>
     (int (search_start c) < window_end c \<longrightarrow>
        list_ex (\<lambda>p. in_window c p \<and> scores ! p \<noteq> None) [0..<text_length c])"

context argmax_law
begin

lemma attended_in_window:
  assumes inv: "controller_inv c" and ok: "scores_ok c scores"
  shows "attended_position argmax c scores < text_length c \<and>
    (int (search_start c) < window_end c \<longrightarrow>
       in_window c (attended_position argmax c scores) \<and>
       (\<forall>p v. in_window c p \<and> p < text_length c \<and> scores ! p = Some v \<longrightarrow>
          (\<exists>w. scores ! attended_position argmax c scores = Some w \<and> v \<le> w))) \<and>
    (\<not> int (search_start c) < window_end c \<longrightarrow>
       attended_position argmax c scores = text_length c - 1)"
proof (cases "int (search_start c) < window_end c")
  case False
  with inv show ?thesis by (simp add: attended_position_def controller_inv_def)
next
  case True
  let ?m = "masked_scores c scores"
  have len: "length ?m = text_length c" by (simp add: masked_scores_def)
  with inv have "?m \<noteq> []" by (auto simp: controller_inv_def)
  from in_range [OF this] len have range: "argmax ?m < text_length c" by simp
  have max: "\<exists>w. ?m ! argmax ?m = Some w \<and> v \<le> w"
    if "in_window c p" "p < text_length c" "scores ! p = Some v" for p v
    using maximal [of p ?m v] that len by (simp add: masked_scores_def)
  from ok True obtain p v where "in_window c p" "p < text_length c" "scores ! p = Some v"
    by (auto simp: scores_ok_def list_ex_iff)
  from max [OF this] range have "in_window c (argmax ?m)"
    by (auto simp: masked_scores_def split: if_splits)
  then have "?m ! argmax ?m = scores ! argmax ?m" using range by (simp add: masked_scores_def)
  with max range \<open>in_window c (argmax ?m)\<close> True show ?thesis
    by (auto simp: attended_position_def)
qed

end

lemma search_start_ge: "controller_inv c \<Longrightarrow> last_attended c \<le> search_start c"
  by (simp add: search_start_def controller_inv_def)

lemma update_eq_Inr:
  "update argmax c al = Inr (c', u) \<longleftrightarrow>
     al_shape al = (CFG_ROWS, text_length c) \<and> al_dtype al = BF16 \<and> al_device al = device c \<and>
     (let a = attended_position argmax c (al_conditional al);
          counts = (counters c)[a := counters c ! a + 1]
      in c' = c\<lparr>last_attended := a, counters := counts\<rparr> \<and>
         u = \<lparr>upd_prior = [conditional_prior (text_length c) a counts,
                replicate (text_length c) PRIOR_EPSILON], upd_attended = a\<rparr>)"
  by (auto simp: update_def Let_def)

context argmax_law
begin

lemma update_keeps_inv:
  assumes inv: "controller_inv c" and ok: "scores_ok c (al_conditional al)"
    and upd: "update argmax c al = Inr (c', u)"
  shows "controller_inv c' \<and> text_length c' = text_length c \<and> last_attended c \<le> last_attended c' \<and>
    last_attended c' = upd_attended u \<and>
    counters c' = (counters c)[last_attended c' := counters c ! last_attended c' + 1] \<and>
    (last_attended c' = text_length c - 1 \<or> counters c ! last_attended c' < SINK_THRESHOLD)"
proof -
  let ?a = "attended_position argmax c (al_conditional al)"
  from upd have c': "c' = c\<lparr>last_attended := ?a, counters := (counters c)[?a := counters c ! ?a + 1]\<rparr>"
    and u: "upd_attended u = ?a" by (auto simp: update_eq_Inr Let_def)
  note a = attended_in_window [OF inv ok]
  have fresh: "last_attended c \<le> ?a \<and> (?a = text_length c - 1 \<or> counters c ! ?a < SINK_THRESHOLD)"
  proof (cases "int (search_start c) < window_end c")
    case False
    with a inv show ?thesis by (auto simp: controller_inv_def)
  next
    case True
    with a have ge: "search_start c \<le> ?a" and lt: "?a < text_length c" by (auto simp: in_window_def)
    show ?thesis
    proof (cases "?a = last_attended c")
      case eq: True
      with ge inv have "\<not> SINK_THRESHOLD \<le> counters c ! last_attended c"
        by (auto simp: search_start_def controller_inv_def split: if_splits)
      with eq show ?thesis by simp
    next
      case False
      with ge search_start_ge [OF inv] have gt: "last_attended c < ?a" by simp
      with inv lt have "counters c ! ?a = 0" unfolding controller_inv_def
        by (meson linorder_not_le)
      with gt show ?thesis by (simp add: SINK_THRESHOLD_def)
    qed
  qed
  have "controller_inv c'"
    using inv fresh a by (auto simp: controller_inv_def c' nth_list_update Suc_le_eq)
  with fresh show ?thesis by (simp add: c' u)
qed

end

lemma sorted_le_last: "x \<in> set xs \<Longrightarrow> sorted xs \<Longrightarrow> x \<le> last (xs :: nat list)"
  by (induction xs) auto

subsection \<open>Runs\<close>

text \<open>The updates of a session: the scores each was given, oldest first, and the positions it attended.\<close>

inductive session ::
  "('a::linorder option list \<Rightarrow> nat) \<Rightarrow> controller \<Rightarrow> nat list \<Rightarrow> controller \<Rightarrow> bool"
  for argmax where
  session_start: "session argmax c [] c"
| session_step: "session argmax c ps c' \<Longrightarrow> scores_ok c' (al_conditional al) \<Longrightarrow>
    update argmax c' al = Inr (c'', u) \<Longrightarrow> session argmax c (ps @ [upd_attended u]) c''"

context argmax_law
begin

lemma session_inv:
  "session argmax c ps c' \<Longrightarrow> controller_inv c \<Longrightarrow>
   controller_inv c' \<and> text_length c' = text_length c \<and> sorted (last_attended c # ps) \<and>
   last (last_attended c # ps) = last_attended c' \<and>
   (\<forall>p < text_length c. counters c' ! p = counters c ! p + count_list ps p)"
proof (induction rule: session.induct)
  case (session_start c)
  then show ?case by simp
next
  case (session_step c ps c' al c'' u)
  then have inv: "controller_inv c'" and IH: "text_length c' = text_length c"
    "sorted (last_attended c # ps)" "last (last_attended c # ps) = last_attended c'"
    "\<forall>p < text_length c. counters c' ! p = counters c ! p + count_list ps p" by auto
  note upd = update_keeps_inv [OF inv session_step.hyps(2,3)]
  have "sorted ((last_attended c # ps) @ [upd_attended u])"
  proof -
    have "x \<le> last (last_attended c # ps)" if "x \<in> set (last_attended c # ps)" for x
      using that IH(2) by (rule sorted_le_last)
    with IH(2,3) upd show ?thesis by (fastforce simp: sorted_append)
  qed
  moreover have "counters c'' ! p = counters c ! p + count_list (ps @ [upd_attended u]) p"
    if "p < text_length c" for p
    using upd IH(1,4) that inv by (auto simp: nth_list_update controller_inv_def)
  ultimately show ?case using upd IH(1) by simp
qed

end


subsection \<open>The prior, position by position\<close>

lemma scatter_ones_nth:
  "p < length row \<Longrightarrow> scatter_ones is row ! p = (if p \<in> set is then PriorOne else row ! p)"
  by (induction "is" arbitrary: row) (auto simp: scatter_ones_def nth_list_update)

lemma fold_max_ge: "x \<le> fold max xs (m :: int) \<longleftrightarrow> x \<le> m \<or> (\<exists>y \<in> set xs. x \<le> y)"
  by (induction xs arbitrary: m) auto

lemma le_maximum_sink:
  "int p \<le> maximum_sink counts \<longleftrightarrow> (\<exists>q. p \<le> q \<and> q < length counts \<and> SINK_THRESHOLD \<le> counts ! q)"
proof -
  have "int p \<le> maximum_sink counts \<longleftrightarrow>
      (\<exists>q < length counts. int p \<le> (if counts ! q < SINK_THRESHOLD then -1 else int q))"
    by (auto simp: maximum_sink_def fold_max_ge simp del: if_image_distrib)
  also have "\<dots> \<longleftrightarrow> (\<exists>q. p \<le> q \<and> q < length counts \<and> SINK_THRESHOLD \<le> counts ! q)"
    by (auto split: if_splits; metis of_nat_le_iff linorder_not_le)
  finally show ?thesis .
qed

lemma conditional_prior_nth:
  assumes "p < n"
  shows "conditional_prior n a counts ! p = PriorOne \<longleftrightarrow>
    (n \<le> SHORT_TEXT_NO_PRIOR_MAX_TOKENS \<or> p \<in> set (prior_indices n a)) \<and>
    \<not> (\<exists>q. p \<le> q \<and> q < length counts \<and> SINK_THRESHOLD \<le> counts ! q)"
  using assms by (auto simp: conditional_prior_def Let_def scatter_ones_nth le_maximum_sink)

subsection \<open>Properties\<close>

lemma session_positions:
  assumes "argmax_law argmax" and "make_controller n dev dt = Inr c" and "session argmax c ps c'"
  shows "sorted ps" and "\<forall>p \<in> set ps. p < nat n"
    and "p < nat n - 1 \<Longrightarrow> count_list ps p \<le> SINK_THRESHOLD"
    and "ps \<noteq> [] \<Longrightarrow> last ps = last_attended c'" and "controller_inv c'"
proof -
  from assms(2) have inv: "controller_inv c" by (rule make_controller_inv)
  from assms(2) have n: "text_length c = nat n" and zero: "p < nat n \<Longrightarrow> counters c ! p = 0" for p
    by (auto simp: make_controller_def split: if_splits)
  from argmax_law.session_inv [OF assms(1,3) inv] have s: "controller_inv c'" "text_length c' = nat n"
    "sorted (last_attended c # ps)" "last (last_attended c # ps) = last_attended c'"
    "\<forall>p < nat n. counters c' ! p = counters c ! p + count_list ps p" by (auto simp: n)
  from s(3) show "sorted ps" by simp
  from s(4) show last: "ps \<noteq> [] \<Longrightarrow> last ps = last_attended c'" by simp
  from s(1) show "controller_inv c'" .
  show "\<forall>p \<in> set ps. p < nat n"
  proof
    fix p assume p: "p \<in> set ps"
    from s(3) have "sorted ps" by simp
    with p have "p \<le> last ps" by (rule sorted_le_last)
    also from p have "ps \<noteq> []" by auto
    with last s(1,2) have "last ps < nat n" by (simp add: controller_inv_def)
    finally show "p < nat n" .
  qed
  show "p < nat n - 1 \<Longrightarrow> count_list ps p \<le> SINK_THRESHOLD"
    using s(1,2,5) zero by (fastforce simp: controller_inv_def)
qed

definition demo_alignment :: "nat \<Rightarrow> int alignment" where
  "demo_alignment n = \<lparr>al_shape = (2, n), al_dtype = BF16, al_device = ''cpu'',
     al_conditional = map (\<lambda>p. Some (int p)) [0..<n]\<rparr>"

lemma demo_session:
  obtains c c' u where "make_controller 8 ''cpu'' BF16 = Inr c"
    "update first_argmax c (demo_alignment 8) = Inr (c', u)"
    "session (first_argmax :: int option list \<Rightarrow> nat) c [upd_attended u] c'" "text_length c = 8"
proof -
  define c where "c = \<lparr>text_length = 8, device = ''cpu'', last_attended = 1, counters = replicate 8 0\<rparr>"
  have c: "make_controller 8 ''cpu'' BF16 = Inr c"
    by (simp add: c_def make_controller_def INITIAL_ATTENDED_def)
  obtain c' u where u: "update first_argmax c (demo_alignment 8) = Inr (c', u)"
    by (auto simp: c_def update_eq_Inr Let_def demo_alignment_def CFG_ROWS_def)
  have "search_start c = 1" "window_end c = 5"
    by (simp_all add: search_start_def window_end_def c_def SINK_THRESHOLD_def LOOKAHEAD_def
        IGNORED_TERMINAL_TOKENS_def)
  then have "scores_ok c (al_conditional (demo_alignment 8))"
    by (auto simp: scores_ok_def c_def demo_alignment_def list_ex_iff in_window_def intro!: bexI [of _ 1])
  from session_step [OF session_start this u]
  have "session (first_argmax :: int option list \<Rightarrow> nat) c [upd_attended u] c'" by simp
  from that [OF c u this] show ?thesis by (simp add: c_def)
qed

lemma demo_end:
  obtains c c' ps where "make_controller 1 ''cpu'' BF16 = Inr c"
    "session (first_argmax :: int option list \<Rightarrow> nat) c ps c'" "length ps = 1"
proof -
  define c where "c = \<lparr>text_length = 1, device = ''cpu'', last_attended = 0, counters = [0]\<rparr>"
  have c: "make_controller 1 ''cpu'' BF16 = Inr c"
    by (simp add: c_def make_controller_def INITIAL_ATTENDED_def)
  obtain c' u where u: "update first_argmax c (demo_alignment 1) = Inr (c', u)"
    by (auto simp: c_def update_eq_Inr Let_def demo_alignment_def CFG_ROWS_def)
  have "scores_ok c (al_conditional (demo_alignment 1))"
    by (simp add: scores_ok_def c_def demo_alignment_def window_end_def IGNORED_TERMINAL_TOKENS_def)
  from session_step [OF session_start this u]
  have "session (first_argmax :: int option list \<Rightarrow> nat) c [upd_attended u] c'" by simp
  from that [OF c this] show ?thesis by simp
qed

text \<open>C23: the attended positions of a session are monotone and stay in the text, and no position
before the last is attended more than four times, for every argmax that keeps its contract and all
scores with a finite value in each search window.\<close>

theorem session_monotone:
  assumes "argmax_law argmax" and "make_controller n dev dt = Inr c" and "session argmax c ps c'"
  shows "sorted ps \<and> (\<forall>p \<in> set ps. p < nat n) \<and> (\<forall>p < nat n - 1. count_list ps p \<le> SINK_THRESHOLD)"
  using session_positions [OF assms] by blast

theorem session_monotone_witness:
  "\<exists>c c' ps. make_controller 8 ''cpu'' BF16 = Inr c \<and> session (first_argmax :: int option list \<Rightarrow> nat) c ps c' \<and>
     length ps = 1 \<and> (\<forall>p < nat 8 - 1. count_list ps p \<le> SINK_THRESHOLD)"
proof -
  obtain c c' and u :: alignment_update where d: "make_controller 8 ''cpu'' BF16 = Inr c"
    "session (first_argmax :: int option list \<Rightarrow> nat) c [upd_attended u] c'" by (rule demo_session)
  from session_monotone [OF first.argmax_law_axioms d] d show ?thesis
    by (intro exI [of _ c] exI [of _ c'] exI [of _ "[upd_attended u]"]) simp
qed

text \<open>C40: a session always reaches the end of the text: after more than four updates per position
before the last one, the last position is attended.\<close>

theorem session_reaches_end:
  assumes "argmax_law argmax" and "make_controller n dev dt = Inr c" and "session argmax c ps c'"
    and "SINK_THRESHOLD * (nat n - 1) < length ps"
  shows "last ps = nat n - 1"
proof (rule ccontr)
  note s = session_positions [OF assms(1-3)]
  from assms(4) have ne: "ps \<noteq> []" by auto
  assume "last ps \<noteq> nat n - 1"
  moreover from s(2) ne have "last ps < nat n" by simp
  ultimately have lt: "last ps < nat n - 1" by arith
  have "p \<le> last ps" if "p \<in> set ps" for p
    using s(1) that by (rule sorted_le_last [rotated])
  with lt have sub: "set ps \<subseteq> {..<nat n - 1}" by fastforce
  then have "length ps = (\<Sum>p < nat n - 1. count_list ps p)"
    by (simp add: sum_count_set)
  also have "\<dots> \<le> (\<Sum>p < nat n - 1. SINK_THRESHOLD)"
    by (rule sum_mono) (use s(3) in simp)
  finally show False using assms(4) by (simp add: mult.commute)
qed

theorem session_reaches_end_witness:
  "\<exists>c c' ps. make_controller 1 ''cpu'' BF16 = Inr c \<and> session (first_argmax :: int option list \<Rightarrow> nat) c ps c' \<and>
     length ps = 1 \<and> last ps = nat 1 - 1"
proof -
  obtain c c' ps where d: "make_controller 1 ''cpu'' BF16 = Inr c"
    "session (first_argmax :: int option list \<Rightarrow> nat) c ps c'" "length ps = 1" by (rule demo_end)
  from d(3) have "SINK_THRESHOLD * (nat 1 - 1) < length ps" by simp
  from session_reaches_end [OF first.argmax_law_axioms d(1,2) this] d show ?thesis by blast
qed

text \<open>The prior an update hands to the decoder: at text position p the conditional row is one
exactly if the text is short or p is the attended position, the one before it (not before the history
floor) or one of the six after it, each clamped to the last position, and no position from p on has
been attended four times; every other entry, and the whole unconditional row, is the epsilon.\<close>

theorem update_prior:
  assumes "update argmax c al = Inr (c', u)" and "p < text_length c"
  shows "\<exists>conditional unconditional. upd_prior u = [conditional, unconditional] \<and>
    unconditional ! p = PRIOR_EPSILON \<and>
    (conditional ! p = PriorOne \<longleftrightarrow>
       (text_length c \<le> 5 \<or> p = upd_attended u \<or>
        p = min (max (upd_attended u - 1) (min 1 (text_length c - 1))) (text_length c - 1) \<or>
        (\<exists>k. 1 \<le> k \<and> k \<le> 6 \<and> p = min (upd_attended u + k) (text_length c - 1))) \<and>
       \<not> (\<exists>q. p \<le> q \<and> q < length (counters c') \<and> 4 \<le> counters c' ! q))"
proof -
  let ?n = "text_length c" and ?a = "upd_attended u"
  have "p \<in> set (prior_indices ?n ?a) \<longleftrightarrow> p = ?a \<or> p = min (max (?a - 1) (min 1 (?n - 1))) (?n - 1) \<or>
      (\<exists>k. 1 \<le> k \<and> k \<le> 6 \<and> p = min (?a + k) (?n - 1))"
    by (auto simp: prior_indices_def Let_def INITIAL_ATTENDED_def LOOKAHEAD_def image_iff Bex_def
        less_Suc_eq_le)
  with conditional_prior_nth [OF assms(2), of ?a "counters c'"] assms show ?thesis
    by (auto simp: update_eq_Inr Let_def SHORT_TEXT_NO_PRIOR_MAX_TOKENS_def SINK_THRESHOLD_def)
qed


theorem update_prior_witness:
  "\<exists>c c' u conditional unconditional. make_controller 8 ''cpu'' BF16 = Inr c \<and>
     update first_argmax c (demo_alignment 8) = Inr (c', u) \<and>
     upd_prior u = [conditional, unconditional] \<and> unconditional ! 3 = PRIOR_EPSILON"
proof -
  obtain c c' u where d: "make_controller 8 ''cpu'' BF16 = Inr c"
    "update first_argmax c (demo_alignment 8) = Inr (c', u)" "text_length c = 8" by (rule demo_session)
  from d(3) have "3 < text_length c" by simp
  from update_prior [OF d(2) this] d(1,2) show ?thesis by blast
qed

end
