(* ===== verification/PackageJson.thy ===== *)
theory PackageJson
  imports Json Sha256
begin

text \<open>
  The JSON layer of \<open>tools/bundle/package_runtime_bundle.py\<close>: how a payload becomes a value without
  repeated keys and without non-finite numbers, and the checked accessors \<open>require_*\<close> every parser of
  the packager is built from.

  Outside the repository are \<open>json.loads\<close> (the field \<open>pk_loads\<close>: the value with repeated keys still
  in place, \<open>None\<close> for a decoding error), the conversion of an \<open>int\<close> to a \<open>float\<close> (\<open>None\<close> when it is
  too large) and \<open>datetime.fromisoformat\<close> (\<open>None\<close> for \<open>ValueError\<close>, otherwise the UTC offset, itself
  \<open>None\<close> for a naive time). Nothing is assumed of them. A finite \<open>float\<close> is the rational it denotes.

  The \<open>path\<close> arguments of the source only label messages. Each accessor comes with the exact
  condition under which it returns, in the collection \<open>accessor_simps\<close>; the locale \<open>json_codec\<close> is
  the contract between a parser and the renderer whose output it must accept again.
\<close>

named_theorems accessor_simps
  \<open>when the checked accessors return, and what\<close>

record pkg_env =
  pk_loads :: "byte list \<Rightarrow> json option"
  pk_float_of_int :: "int \<Rightarrow> rat option"
  pk_fromisoformat :: "pystr \<Rightarrow> int option option"

definition pkg_error :: "string \<Rightarrow> exn" where
  "pkg_error m = Exn PackageError m"

subsection \<open>From a payload to a value\<close>

fun reject_loop :: "json_object \<Rightarrow> json_object \<Rightarrow> json result" where
  "reject_loop acc [] = Inr (JObj acc)"
| "reject_loop acc ((k, v) # rest) =
     (if k \<in> set (map fst acc) then Inl (pkg_error ''duplicate JSON object key: '')
      else reject_loop (acc @ [(k, v)]) rest)"

definition reject_duplicate_json_object :: "json_object \<Rightarrow> json result" where
  "reject_duplicate_json_object pairs = reject_loop [] pairs"

text \<open>\<open>json.loads(..., object_pairs_hook=reject_duplicate_json_object)\<close> calls the hook for every
  object, the inner ones first.\<close>

fun with_pairs_hook :: "json \<Rightarrow> json result" where
  "with_pairs_hook (JList vs) = bindE (mapE with_pairs_hook vs) (\<lambda>ws. Inr (JList ws))"
| "with_pairs_hook (JObj kvs) =
     bindE (mapE (\<lambda>kv. bindE (with_pairs_hook (snd kv)) (\<lambda>w. Inr (fst kv, w))) kvs)
       reject_duplicate_json_object"
| "with_pairs_hook v = Inr v"

fun normalize_json :: "json \<Rightarrow> json result" where
  "normalize_json (JFloat f) =
     (case f of Fin q \<Rightarrow> Inr (JFloat f) | _ \<Rightarrow> Inl (pkg_error '': non-finite JSON number''))"
| "normalize_json (JList vs) = bindE (mapE normalize_json vs) (\<lambda>ws. Inr (JList ws))"
| "normalize_json (JObj kvs) =
     bindE (mapE (\<lambda>kv. bindE (normalize_json (snd kv)) (\<lambda>w. Inr (fst kv, w))) kvs)
       (\<lambda>ws. Inr (JObj ws))"
| "normalize_json v = Inr v"

definition parse_json_payload :: "pkg_env \<Rightarrow> byte list \<Rightarrow> json result" where
  "parse_json_payload env payload =
     (case pk_loads env payload of
        None \<Rightarrow> Inl (pkg_error '': invalid UTF-8 JSON: '')
      | Some raw \<Rightarrow> bindE (with_pairs_hook raw) normalize_json)"

text \<open>\<open>canonical_json_bytes\<close> uses the compact separators of \<open>Json\<close>'s \<open>dumps\<close>.\<close>

definition canonical_json_bytes :: "(pyfloat \<Rightarrow> pystr) \<Rightarrow> json \<Rightarrow> byte list result" where
  "canonical_json_bytes frepr v = dumps_utf8 frepr v"

definition sha256_bytes :: "byte list \<Rightarrow> pystr" where
  "sha256_bytes payload = sha256_hex payload"

subsection \<open>Accessors\<close>

definition require_object :: "json \<Rightarrow> string list \<Rightarrow> json_object result" where
  "require_object v keys =
     (case v of
        JObj kvs \<Rightarrow>
          let actual = set (map fst kvs); expected = set (map pys keys);
              missing = expected - actual; unknown = actual - expected
          in if missing \<noteq> {} \<or> unknown \<noteq> {} then Inl (pkg_error '': keys mismatch; missing=, unknown='')
             else Inr kvs
      | _ \<Rightarrow> Inl (pkg_error '': expected an object''))"

text \<open>\<open>document[key]\<close>.\<close>

definition field :: "json_object \<Rightarrow> string \<Rightarrow> json result" where
  "field doc key =
     (case map_of doc (pys key) of None \<Rightarrow> Inl (Exn PyKeyError key) | Some v \<Rightarrow> Inr v)"

definition require_string :: "json \<Rightarrow> pystr result" where
  "require_string v =
     (case v of
        JStr s \<Rightarrow> if s = [] then Inl (pkg_error '': expected a non-empty string'') else Inr s
      | _ \<Rightarrow> Inl (pkg_error '': expected a non-empty string''))"

definition is_alnum :: "nat \<Rightarrow> bool" where
  "is_alnum c \<longleftrightarrow> 48 \<le> c \<and> c \<le> 57 \<or> 65 \<le> c \<and> c \<le> 90 \<or> 97 \<le> c \<and> c \<le> 122"

text \<open>\<open>[A-Za-z0-9][A-Za-z0-9._-]{0,127}\<close>\<close>

definition identifier_pattern :: "pystr \<Rightarrow> bool" where
  "identifier_pattern s \<longleftrightarrow>
     s \<noteq> [] \<and> is_alnum (hd s) \<and> length s \<le> 128 \<and>
     list_all (\<lambda>c. is_alnum c \<or> c = 46 \<or> c = 95 \<or> c = 45) (tl s)"

definition lower_hex_pattern :: "nat \<Rightarrow> pystr \<Rightarrow> bool" where
  "lower_hex_pattern n s \<longleftrightarrow> length s = n \<and> list_all is_hex_char s"

definition sha256_pattern :: "pystr \<Rightarrow> bool" where
  "sha256_pattern = lower_hex_pattern 64"

definition git_sha1_pattern :: "pystr \<Rightarrow> bool" where
  "git_sha1_pattern = lower_hex_pattern 40"

definition require_identifier :: "json \<Rightarrow> pystr result" where
  "require_identifier v =
     bindE (require_string v) (\<lambda>s.
       if identifier_pattern s then Inr s else Inl (pkg_error '': invalid identifier''))"

definition require_sha256 :: "json \<Rightarrow> pystr result" where
  "require_sha256 v =
     bindE (require_string v) (\<lambda>s.
       if sha256_pattern s then Inr s else Inl (pkg_error '': expected a lowercase SHA-256''))"

definition require_git_sha1 :: "json \<Rightarrow> pystr result" where
  "require_git_sha1 v =
     bindE (require_string v) (\<lambda>s.
       if git_sha1_pattern s then Inr s else Inl (pkg_error '': expected a lowercase Git SHA-1''))"

fun require_bool :: "json \<Rightarrow> bool result" where
  "require_bool (JBool b) = Inr b"
| "require_bool _ = Inl (pkg_error '': expected a boolean'')"

definition pkg_require_int :: "json \<Rightarrow> int \<Rightarrow> int \<Rightarrow> int result" where
  "pkg_require_int v minimum maximum =
     (case v of
        JInt i \<Rightarrow>
          if i < minimum \<or> maximum < i then Inl (pkg_error '': integer outside '') else Inr i
      | _ \<Rightarrow> Inl (pkg_error '': expected an integer''))"

abbreviation "max_u64 \<equiv> 2 ^ 64 - 1 :: int"
abbreviation "max_u32 \<equiv> 2 ^ 32 - 1 :: int"
abbreviation "max_i31 \<equiv> 2 ^ 31 - 1 :: int"

definition require_float :: "pkg_env \<Rightarrow> json \<Rightarrow> rat result" where
  "require_float env v =
     (case v of
        JInt i \<Rightarrow>
          (case pk_float_of_int env i of
             None \<Rightarrow> Inl (Exn PyOverflowError ''int too large to convert to float'')
           | Some q \<Rightarrow> Inr q)
      | JFloat (Fin q) \<Rightarrow> Inr q
      | _ \<Rightarrow> Inl (pkg_error '': expected a finite number''))"

definition require_int_tuple :: "json \<Rightarrow> int \<Rightarrow> int \<Rightarrow> int list result" where
  "require_int_tuple v minimum maximum =
     (case v of
        JList vs \<Rightarrow> mapE (\<lambda>item. pkg_require_int item minimum maximum) vs
      | _ \<Rightarrow> Inl (pkg_error '': expected an integer array''))"

definition require_timestamp :: "pkg_env \<Rightarrow> json \<Rightarrow> pystr result" where
  "require_timestamp env v =
     bindE (require_string v) (\<lambda>s.
       if last s \<noteq> 90 then Inl (pkg_error '': timestamp must end in Z'')
       else
         case pk_fromisoformat env (butlast s @ pys ''+00:00'') of
           None \<Rightarrow> Inl (pkg_error '': invalid UTC timestamp: '')
         | Some offset \<Rightarrow>
             if offset \<noteq> Some 0 then Inl (pkg_error '': timestamp is not UTC'') else Inr s)"

subsection \<open>Relative paths\<close>

text \<open>\<open>PurePosixPath\<close>: its root (two leading slashes are kept, three or more are one) and its
  components without empty and \<open>"."\<close> ones.\<close>

fun split_slash :: "pystr \<Rightarrow> pystr list" where
  "split_slash [] = [[]]"
| "split_slash (c # cs) =
     (if c = 47 then [] # split_slash cs
      else case split_slash cs of [] \<Rightarrow> [[c]] | p # ps \<Rightarrow> (c # p) # ps)"

fun join_slash :: "pystr list \<Rightarrow> pystr" where
  "join_slash [] = []"
| "join_slash [p] = p"
| "join_slash (p # ps) = p @ [47] @ join_slash ps"

definition pure_root :: "pystr \<Rightarrow> pystr" where
  "pure_root t =
     (if take 2 t = [47, 47] \<and> take 3 t \<noteq> [47, 47, 47] then [47, 47]
      else if take 1 t = [47] then [47] else [])"

definition pure_components :: "pystr \<Rightarrow> pystr list" where
  "pure_components t = filter (\<lambda>p. p \<noteq> [] \<and> p \<noteq> [46]) (split_slash t)"

definition as_posix :: "pystr \<Rightarrow> pystr" where
  "as_posix t =
     (if pure_root t = [] \<and> pure_components t = [] then [46]
      else pure_root t @ join_slash (pure_components t))"

definition require_relative_path :: "json \<Rightarrow> pystr result" where
  "require_relative_path v =
     bindE (require_string v) (\<lambda>t.
       if 92 \<in> set t \<or> list_ex (\<lambda>c. c \<le> 31 \<or> c = 127) t
         then Inl (pkg_error '': path contains a forbidden byte'')
       else if pure_root t \<noteq> [] \<or> t \<noteq> as_posix t
         then Inl (pkg_error '': path must be normalized and relative'')
       else if list_ex (\<lambda>p. p = [] \<or> p = [46] \<or> p = [46, 46]) (pure_components t)
         then Inl (pkg_error '': '.', '..', and empty components are forbidden'')
       else Inr t)"

subsection \<open>When the accessors return\<close>

lemma pkg_error_class [simp]: "exn_class (pkg_error m) = PackageError"
  by (simp add: pkg_error_def)

lemma field_Inr_iff [accessor_simps]: "field doc key = Inr v \<longleftrightarrow> map_of doc (pys key) = Some v"
  by (simp add: field_def split: option.splits)

lemma require_object_Inr_iff:
  "require_object v keys = Inr doc \<longleftrightarrow> v = JObj doc \<and> fst ` set doc = pys ` set keys"
  by (auto simp: require_object_def Let_def split: json.splits)

lemma require_string_Inr_iff [accessor_simps]: "require_string v = Inr s \<longleftrightarrow> v = JStr s \<and> s \<noteq> []"
  by (auto simp: require_string_def split: json.splits)

lemma require_identifier_Inr_iff [accessor_simps]:
  "require_identifier v = Inr s \<longleftrightarrow> v = JStr s \<and> identifier_pattern s"
  by (auto simp: require_identifier_def bindE_eq_Inr require_string_Inr_iff identifier_pattern_def
      split: if_splits)

lemma patterns_reject_empty [simp]: "\<not> sha256_pattern []" "\<not> git_sha1_pattern []"
  by (simp_all add: sha256_pattern_def git_sha1_pattern_def lower_hex_pattern_def)

lemma require_sha256_Inr_iff [accessor_simps]:
  "require_sha256 v = Inr s \<longleftrightarrow> v = JStr s \<and> sha256_pattern s"
  by (cases s) (auto simp: require_sha256_def bindE_eq_Inr require_string_Inr_iff split: if_splits)

lemma require_git_sha1_Inr_iff [accessor_simps]:
  "require_git_sha1 v = Inr s \<longleftrightarrow> v = JStr s \<and> git_sha1_pattern s"
  by (cases s) (auto simp: require_git_sha1_def bindE_eq_Inr require_string_Inr_iff split: if_splits)

lemma require_bool_Inr_iff [accessor_simps]: "require_bool v = Inr b \<longleftrightarrow> v = JBool b"
  by (cases v) auto

lemma pkg_require_int_Inr_iff [accessor_simps]:
  "pkg_require_int v lo hi = Inr i \<longleftrightarrow> v = JInt i \<and> lo \<le> i \<and> i \<le> hi"
  by (auto simp: pkg_require_int_def split: json.splits)

lemma require_float_Fin [simp]: "require_float env (JFloat (Fin q)) = Inr q"
  by (simp add: require_float_def)

lemma require_int_tuple_Inr_iff [accessor_simps]:
  "require_int_tuple v lo hi = Inr is \<longleftrightarrow> v = JList (map JInt is) \<and> (\<forall>i \<in> set is. lo \<le> i \<and> i \<le> hi)"
proof -
  have "mapE (\<lambda>item. pkg_require_int item lo hi) vs = Inr is \<longleftrightarrow>
      vs = map JInt is \<and> (\<forall>i \<in> set is. lo \<le> i \<and> i \<le> hi)" for vs
    by (induction vs arbitrary: "is") (auto simp: bindE_eq_Inr pkg_require_int_Inr_iff)
  then show ?thesis by (auto simp: require_int_tuple_def split: json.splits)
qed

lemma require_timestamp_Inr_iff:
  "require_timestamp env v = Inr s \<longleftrightarrow>
     v = JStr s \<and> s \<noteq> [] \<and> last s = 90 \<and>
     pk_fromisoformat env (butlast s @ pys ''+00:00'') = Some (Some 0)"
  by (auto simp: require_timestamp_def bindE_eq_Inr require_string_Inr_iff
      split: if_splits option.splits)

subsection \<open>Payloads: accepted exactly when clean, and unchanged\<close>

primrec finite_json :: "json \<Rightarrow> bool" where
  "finite_json JNull \<longleftrightarrow> True"
| "finite_json (JBool b) \<longleftrightarrow> True"
| "finite_json (JInt i) \<longleftrightarrow> True"
| "finite_json (JFloat f) \<longleftrightarrow> (\<exists>q. f = Fin q)"
| "finite_json (JStr s) \<longleftrightarrow> True"
| "finite_json (JList vs) \<longleftrightarrow> list_all id (map finite_json vs)"
| "finite_json (JObj kvs) \<longleftrightarrow> list_all id (map snd (map (map_prod id finite_json) kvs))"

lemma reject_loop_Inr_iff:
  "distinct (map fst acc) \<Longrightarrow>
   reject_loop acc kvs = Inr v \<longleftrightarrow> v = JObj (acc @ kvs) \<and> distinct (map fst (acc @ kvs))"
proof (induction kvs arbitrary: acc)
  case Nil
  then show ?case by auto
next
  case (Cons kv kvs)
  obtain k w where kv: "kv = (k, w)" by fastforce
  show ?case
  proof (cases "k \<in> set (map fst acc)")
    case True
    with kv show ?thesis by auto
  next
    case False
    with Cons.prems have "distinct (map fst (acc @ [(k, w)]))" by auto
    from Cons.IH [OF this] False kv show ?thesis by auto
  qed
qed

lemma reject_duplicate_json_object_Inr_iff:
  "reject_duplicate_json_object kvs = Inr v \<longleftrightarrow> v = JObj kvs \<and> distinct (map fst kvs)"
  by (simp add: reject_duplicate_json_object_def reject_loop_Inr_iff)

lemma mapE_identity_iff:
  assumes "\<And>x y. x \<in> set xs \<Longrightarrow> f x = Inr y \<longleftrightarrow> y = x \<and> P x"
  shows "mapE f xs = Inr ys \<longleftrightarrow> ys = xs \<and> (\<forall>x \<in> set xs. P x)"
  using assms
proof (induction xs arbitrary: ys)
  case Nil
  then show ?case by auto
next
  case (Cons x xs)
  then have "f x = Inr y \<longleftrightarrow> y = x \<and> P x" for y by simp
  moreover from Cons have "mapE f xs = Inr zs \<longleftrightarrow> zs = xs \<and> (\<forall>x \<in> set xs. P x)" for zs by simp
  ultimately show ?case by (auto simp: bindE_eq_Inr)
qed

lemma member_identity_iff:
  assumes "\<And>w. f (snd kv) = Inr w \<longleftrightarrow> w = snd kv \<and> P (snd kv)"
  shows "bindE (f (snd kv)) (\<lambda>w. Inr (fst kv, w)) = Inr kw \<longleftrightarrow> kw = kv \<and> P (snd kv)"
  using assms by (cases kv) (auto simp: bindE_eq_Inr)

lemma with_pairs_hook_Inr_iff: "with_pairs_hook v = Inr w \<longleftrightarrow> w = v \<and> json_wf v"
proof (induction v arbitrary: w)
  case (JList vs)
  have "mapE with_pairs_hook vs = Inr ws \<longleftrightarrow> ws = vs \<and> (\<forall>v \<in> set vs. json_wf v)" for ws
    by (rule mapE_identity_iff) (rule JList)
  then show ?case by (auto simp: bindE_eq_Inr)
next
  case (JObj kvs)
  have "mapE (\<lambda>kv. bindE (with_pairs_hook (snd kv)) (\<lambda>w. Inr (fst kv, w))) kvs = Inr ws
      \<longleftrightarrow> ws = kvs \<and> (\<forall>kv \<in> set kvs. json_wf (snd kv))" for ws
    by (rule mapE_identity_iff, rule member_identity_iff, rule JObj) (auto simp: snds.simps)
  then show ?case by (auto simp: bindE_eq_Inr reject_duplicate_json_object_Inr_iff)
qed auto

lemma normalize_json_Inr_iff: "normalize_json v = Inr w \<longleftrightarrow> w = v \<and> finite_json v"
proof (induction v arbitrary: w)
  case (JList vs)
  have "mapE normalize_json vs = Inr ws \<longleftrightarrow> ws = vs \<and> (\<forall>v \<in> set vs. finite_json v)" for ws
    by (rule mapE_identity_iff) (rule JList)
  then show ?case by (auto simp: bindE_eq_Inr list_all_iff)
next
  case (JObj kvs)
  have "mapE (\<lambda>kv. bindE (normalize_json (snd kv)) (\<lambda>w. Inr (fst kv, w))) kvs = Inr ws
      \<longleftrightarrow> ws = kvs \<and> (\<forall>kv \<in> set kvs. finite_json (snd kv))" for ws
    by (rule mapE_identity_iff, rule member_identity_iff, rule JObj) (auto simp: snds.simps)
  then show ?case by (auto simp: bindE_eq_Inr list_all_iff)
qed (auto split: pyfloat.splits)

subsection \<open>Paths: accepted exactly when safe\<close>

lemma split_slash_nonempty [simp]: "split_slash t \<noteq> []"
  by (cases t) (auto split: list.splits)

lemma join_slash_Cons: "ps \<noteq> [] \<Longrightarrow> join_slash (p # ps) = p @ [47] @ join_slash ps"
  by (cases ps) auto

lemma join_slash_Cons_char: "join_slash ((c # p) # ps) = c # join_slash (p # ps)"
  by (cases ps) auto

lemma join_split_slash [simp]: "join_slash (split_slash t) = t"
proof (induction t)
  case (Cons c cs)
  then show ?case
    by (cases "split_slash cs") (auto simp: join_slash_Cons join_slash_Cons_char)
qed simp

lemma split_slash_no_slash: "p \<in> set (split_slash t) \<Longrightarrow> 47 \<notin> set p"
  by (induction t arbitrary: p) (auto split: if_splits list.splits)

lemma split_slash_append:
  "47 \<notin> set p \<Longrightarrow> split_slash (p @ 47 # t) = p # split_slash t"
  by (induction p) auto

lemma split_slash_single: "47 \<notin> set p \<Longrightarrow> split_slash p = [p]"
  by (induction p) auto

lemma split_join_slash:
  "ps \<noteq> [] \<Longrightarrow> \<forall>p \<in> set ps. 47 \<notin> set p \<Longrightarrow> split_slash (join_slash ps) = ps"
  by (induction ps rule: join_slash.induct) (auto simp: split_slash_single split_slash_append)

lemma split_slash_inject: "split_slash s = split_slash t \<Longrightarrow> s = t"
  by (metis join_split_slash)

text \<open>The condition a destination has to meet: neither a backslash nor a control character, and every
  component a proper name. \<open>"."\<close> alone is accepted as well.\<close>

definition clean_chars :: "pystr \<Rightarrow> bool" where
  "clean_chars t \<longleftrightarrow> (\<forall>c \<in> set t. c \<noteq> 92 \<and> 31 < c \<and> c \<noteq> 127)"

definition proper_components :: "pystr \<Rightarrow> bool" where
  "proper_components t \<longleftrightarrow> (\<forall>p \<in> set (split_slash t). p \<noteq> [] \<and> p \<noteq> [46] \<and> p \<noteq> [46, 46])"

lemma pure_root_Nil_iff: "pure_root t = [] \<longleftrightarrow> take 1 t \<noteq> [47]"
  by (cases t; cases "tl t") (auto simp: pure_root_def)

lemma normal_relative_iff:
  "pure_root t = [] \<and> t = as_posix t \<longleftrightarrow>
     t = [46] \<or> (\<forall>p \<in> set (split_slash t). p \<noteq> [] \<and> p \<noteq> [46])"
proof (cases "pure_components t = []")
  case True
  have posix: "as_posix t = [46]" if "pure_root t = []"
    using True that by (simp add: as_posix_def)
  have "pure_root t = [] \<and> t = as_posix t \<longleftrightarrow> t = [46]"
  proof (cases "pure_root t = []")
    case True
    with posix show ?thesis by simp
  next
    case False
    then have "t \<noteq> [46]" by (auto simp: pure_root_def)
    with False show ?thesis by simp
  qed
  moreover have "\<not> (\<forall>p \<in> set (split_slash t). p \<noteq> [] \<and> p \<noteq> [46])"
  proof
    assume "\<forall>p \<in> set (split_slash t). p \<noteq> [] \<and> p \<noteq> [46]"
    then have "pure_components t = split_slash t" by (simp add: pure_components_def filter_id_conv)
    with True show False by simp
  qed
  ultimately show ?thesis by blast
next
  case False
  let ?comps = "pure_components t"
  have slashfree: "\<forall>p \<in> set ?comps. 47 \<notin> set p"
    by (auto simp: pure_components_def dest: split_slash_no_slash)
  have "pure_components [46] = []" by (simp add: pure_components_def)
  with False have dot: "t \<noteq> [46]" by metis
  have "t = join_slash ?comps \<longleftrightarrow> split_slash t = ?comps"
  proof
    assume "t = join_slash ?comps"
    then have "split_slash t = split_slash (join_slash ?comps)" by (rule arg_cong)
    then show "split_slash t = ?comps" by (simp only: split_join_slash [OF False slashfree])
  next
    assume "split_slash t = ?comps"
    then have "join_slash (split_slash t) = join_slash ?comps" by (rule arg_cong)
    then show "t = join_slash ?comps" by (simp only: join_split_slash)
  qed
  also have "\<dots> \<longleftrightarrow> (\<forall>p \<in> set (split_slash t). p \<noteq> [] \<and> p \<noteq> [46])"
    unfolding pure_components_def
    by (subst eq_commute [of "split_slash t"]) (rule filter_id_conv)
  finally have comps: "t = join_slash ?comps \<longleftrightarrow> (\<forall>p \<in> set (split_slash t). p \<noteq> [] \<and> p \<noteq> [46])" .
  have root: "pure_root t = []" if "\<forall>p \<in> set (split_slash t). p \<noteq> [] \<and> p \<noteq> [46]"
  proof (cases t)
    case (Cons c cs)
    have "[] \<in> set (split_slash t)" if "c = 47" using that Cons by simp
    with that have "c \<noteq> 47" by blast
    with Cons show ?thesis by (simp add: pure_root_Nil_iff)
  qed (simp add: pure_root_Nil_iff)
  have "as_posix t = join_slash ?comps" if "pure_root t = []"
    using that False by (simp add: as_posix_def)
  then have "pure_root t = [] \<and> t = as_posix t \<longleftrightarrow> pure_root t = [] \<and> t = join_slash ?comps"
    by (rule conj_cong [OF refl arg_cong])
  with comps root dot show ?thesis by blast
qed

lemma pure_components_normal:
  "\<forall>p \<in> set (split_slash t). p \<noteq> [] \<and> p \<noteq> [46] \<Longrightarrow> pure_components t = split_slash t"
  by (simp add: pure_components_def filter_id_conv)

lemma three_checks_Inr_iff:
  "(if a then Inl e1 else if b then Inl e2 else if c then Inl e3 else Inr x) = Inr y \<longleftrightarrow>
     y = x \<and> \<not> a \<and> \<not> b \<and> \<not> c"
  by auto

lemma require_relative_path_Inr_iff:
  "require_relative_path v = Inr t \<longleftrightarrow>
     v = JStr t \<and> t \<noteq> [] \<and> clean_chars t \<and> (t = [46] \<or> proper_components t)"
proof -
  have clean: "\<not> (92 \<in> set t \<or> list_ex (\<lambda>c. c \<le> 31 \<or> c = 127) t) \<longleftrightarrow> clean_chars t"
    by (auto simp: clean_chars_def list_ex_iff)
  have dots: "\<not> list_ex (\<lambda>p. p = [] \<or> p = [46] \<or> p = [46, 46]) (pure_components t) \<longleftrightarrow>
      t = [46] \<or> proper_components t" if "pure_root t = [] \<and> t = as_posix t"
  proof (cases "t = [46]")
    case True
    then show ?thesis by (simp add: pure_components_def)
  next
    case False
    with that have "\<forall>p \<in> set (split_slash t). p \<noteq> [] \<and> p \<noteq> [46]"
      unfolding normal_relative_iff by blast
    with False show ?thesis
      by (auto simp: pure_components_normal proper_components_def list_ex_iff)
  qed
  have normal: "pure_root t = [] \<and> t = as_posix t" if "t = [46] \<or> proper_components t"
    unfolding normal_relative_iff using that by (auto simp: proper_components_def)
  have "require_relative_path v = Inr t \<longleftrightarrow>
      v = JStr t \<and> t \<noteq> [] \<and> clean_chars t \<and> (pure_root t = [] \<and> t = as_posix t) \<and>
      \<not> list_ex (\<lambda>p. p = [] \<or> p = [46] \<or> p = [46, 46]) (pure_components t)"
    unfolding require_relative_path_def bindE_eq_Inr require_string_Inr_iff three_checks_Inr_iff clean
      [symmetric] by blast
  with dots normal show ?thesis by blast
qed

subsection \<open>Parsers and renderers\<close>

text \<open>What a parser promises of the value its result is rendered as: it is accepted again, with the
  same result.\<close>

locale json_codec =
  fixes parse :: "json \<Rightarrow> 'a result" and render :: "'a \<Rightarrow> json"
  assumes reparse: "parse v = Inr x \<Longrightarrow> parse (render x) = Inr x"
begin

lemma render_determines:
  "parse v = Inr x \<Longrightarrow> parse w = Inr y \<Longrightarrow> render x = render y \<Longrightarrow> x = y"
  by (metis reparse sum.inject(2))

lemma list_reparse: "mapE parse vs = Inr xs \<Longrightarrow> mapE parse (map render xs) = Inr xs"
  by (induction vs arbitrary: xs) (auto simp: bindE_eq_Inr intro: reparse)

end

interpretation ident: json_codec require_identifier JStr
  by unfold_locales (simp add: require_identifier_Inr_iff)

interpretation digest: json_codec require_sha256 JStr
  by unfold_locales (simp add: require_sha256_Inr_iff)

interpretation bounded_int: json_codec "\<lambda>v. pkg_require_int v lo hi" JInt for lo hi
  by unfold_locales (simp add: pkg_require_int_Inr_iff)

interpretation finite_number: json_codec "require_float env" "\<lambda>q. JFloat (Fin q)" for env
  by unfold_locales simp

interpretation int_tuple: json_codec "\<lambda>v. require_int_tuple v lo hi" "\<lambda>is. JList (map JInt is)" for lo hi
  by unfold_locales (simp add: require_int_tuple_Inr_iff)

interpretation relative_path: json_codec require_relative_path JStr
  by unfold_locales (simp add: require_relative_path_Inr_iff)

subsection \<open>Which exceptions a parser raises\<close>

text \<open>The packager's own error, or, where \<open>overflow\<close> says so, the \<open>OverflowError\<close> of converting an
  integer to a float; in particular never \<open>KeyError\<close>.\<close>

definition clean_failure :: "bool \<Rightarrow> 'a result \<Rightarrow> bool" where
  "clean_failure overflow m \<longleftrightarrow>
     (\<forall>e. m = Inl e \<longrightarrow> exn_class e = PackageError \<or> overflow \<and> exn_class e = PyOverflowError)"

named_theorems clean_intros \<open>parsers that fail cleanly\<close>

lemma clean_bindE [clean_intros]:
  "clean_failure ov m \<Longrightarrow> (\<And>x. m = Inr x \<Longrightarrow> clean_failure ov (f x)) \<Longrightarrow> clean_failure ov (bindE m f)"
  by (auto simp: clean_failure_def bindE_eq_Inl)

lemma clean_Inr [clean_intros]: "clean_failure ov (Inr x)"
  by (simp add: clean_failure_def)

lemma clean_pkg_error [clean_intros]: "clean_failure ov (Inl (pkg_error m))"
  by (simp add: clean_failure_def)

lemma clean_if [clean_intros]:
  "(b \<Longrightarrow> clean_failure ov m) \<Longrightarrow> (\<not> b \<Longrightarrow> clean_failure ov n) \<Longrightarrow> clean_failure ov (if b then m else n)"
  by simp

lemma clean_mapE [clean_intros]: "(\<And>x. clean_failure ov (f x)) \<Longrightarrow> clean_failure ov (mapE f xs)"
  by (induction xs) (auto intro!: clean_intros)

lemma clean_require_object [clean_intros]: "clean_failure ov (require_object v keys)"
  by (auto simp: require_object_def Let_def intro: clean_intros split: json.splits)

lemma clean_field [clean_intros]:
  assumes "require_object v keys = Inr doc" and "key \<in> set keys"
  shows "clean_failure ov (field doc key)"
proof -
  from assms have "pys key \<in> fst ` set doc" by (simp add: require_object_Inr_iff)
  then have "map_of doc (pys key) \<noteq> None" by (simp add: map_of_eq_None_iff)
  then show ?thesis by (auto simp: clean_failure_def field_def)
qed

lemma clean_require_string [clean_intros]: "clean_failure ov (require_string v)"
  by (auto simp: require_string_def intro: clean_intros split: json.splits)

lemma clean_require_identifier [clean_intros]: "clean_failure ov (require_identifier v)"
  unfolding require_identifier_def by (intro clean_intros)

lemma clean_require_sha256 [clean_intros]: "clean_failure ov (require_sha256 v)"
  unfolding require_sha256_def by (intro clean_intros)

lemma clean_require_git_sha1 [clean_intros]: "clean_failure ov (require_git_sha1 v)"
  unfolding require_git_sha1_def by (intro clean_intros)

lemma clean_require_bool [clean_intros]: "clean_failure ov (require_bool v)"
  by (cases v) (auto intro: clean_intros)

lemma clean_pkg_require_int [clean_intros]: "clean_failure ov (pkg_require_int v lo hi)"
  by (auto simp: pkg_require_int_def intro: clean_intros split: json.splits)

lemma clean_require_float [clean_intros]:
  "\<forall>i. pk_float_of_int env i = None \<longrightarrow> ov \<Longrightarrow> clean_failure ov (require_float env v)"
  by (auto simp: require_float_def clean_failure_def split: json.splits pyfloat.splits option.splits)

lemma clean_require_int_tuple [clean_intros]: "clean_failure ov (require_int_tuple v lo hi)"
  by (auto simp: require_int_tuple_def intro!: clean_intros split: json.splits)

lemma clean_require_timestamp [clean_intros]: "clean_failure ov (require_timestamp env v)"
  unfolding require_timestamp_def
  by (intro clean_intros) (auto intro!: clean_intros split: option.splits)

lemma clean_require_relative_path [clean_intros]: "clean_failure ov (require_relative_path v)"
  unfolding require_relative_path_def by (intro clean_intros)

subsection \<open>Properties\<close>

lemma parse_json_payload_accepted:
  "parse_json_payload env payload = Inr v \<longleftrightarrow>
     pk_loads env payload = Some v \<and> json_wf v \<and> finite_json v"
  by (auto simp: parse_json_payload_def bindE_eq_Inr with_pairs_hook_Inr_iff normalize_json_Inr_iff
      split: option.splits)

text \<open>A payload is accepted exactly if it decodes to a value in which no object repeats a key and
  every number is finite, and then it is that value, unchanged.\<close>

theorem payload_accepted_iff:
  "parse_json_payload env payload = Inr v \<longleftrightarrow>
     pk_loads env payload = Some v \<and> json_wf v \<and> finite_json v"
  by (rule parse_json_payload_accepted)

text \<open>A string is accepted as a relative path exactly if it has no backslash and no control
  character and all its components are proper names (none is empty, a dot or two dots), except that the
  single dot is accepted too. So no accepted path leaves the directory it is joined to.\<close>

theorem relative_path_accepted_iff:
  "require_relative_path v = Inr t \<longleftrightarrow>
     v = JStr t \<and> t \<noteq> [] \<and> clean_chars t \<and> (t = [46] \<or> proper_components t)"
  by (rule require_relative_path_Inr_iff)

end
