(* ===== verification/PackageSpec.thy ===== *)
theory PackageSpec
  imports PackageJson
begin

text \<open>
  The package specification of \<open>tools/bundle/package_runtime_bundle.py\<close>: one record per dataclass, one
  parser per \<open>parse_*\<close> function in the source's order of evaluation, and the \<open>to_json\<close> of the
  sections the manifest repeats. \<open>spec_sections_reparse\<close> shows that those sections survive the manifest,
  \<open>spec_failures_are_clean\<close> that no parser reads an absent key.

  Record fields carry the initials of their dataclass (\<open>sm_\<close>, \<open>ex_\<close>, \<open>tk_\<close>, \<dots>).
\<close>

subsection \<open>Constants\<close>

definition PACKAGE_SCHEMA_VERSION :: int where "PACKAGE_SCHEMA_VERSION = 1"

definition EXPORT_FORMAT :: string where "EXPORT_FORMAT = ''magpie_tts_rt_export_v1''"

definition ZERO_FRAME_FINALIZATION :: string where
  "ZERO_FRAME_FINALIZATION = ''control_marker_without_codec_invocation''"

definition LOCAL_AR_CODEBOOK_SIZE :: int where "LOCAL_AR_CODEBOOK_SIZE = 2016"
definition LOCAL_AR_VOCABULARY_SIZE :: int where "LOCAL_AR_VOCABULARY_SIZE = 2024"

definition LOCAL_AR_AUDIO_EOS_ID :: int where "LOCAL_AR_AUDIO_EOS_ID = 2017"

definition LOCAL_AR_STATIC_FORBIDDEN_TOKEN_IDS :: "int list" where
  "LOCAL_AR_STATIC_FORBIDDEN_TOKEN_IDS = [2016, 2018, 2019, 2020, 2021, 2022, 2023]"

definition SOFIA_LOCAL_AR_POSITION_TABLE_SHA256 :: string where
  "SOFIA_LOCAL_AR_POSITION_TABLE_SHA256 =
     ''1db63ebd4ceffba52e03cf67c9d186f3b7e38bb0c6eb9056a93ceeb55a4a695e''"

definition MANIFEST_NAME :: string where "MANIFEST_NAME = ''runtime-bundle-manifest.json''"

definition MANIFEST_DIGEST_NAME :: string where
  "MANIFEST_DIGEST_NAME = ''runtime-bundle-manifest.json.sha256''"

definition ENGINE_ROLES :: "string list" where
  "ENGINE_ROLES =
     [''text_encoder'', ''main_decoder_prefill'', ''main_decoder_step'', ''local_ar_16'',
      ''nanocodec_initial_4'', ''nanocodec_steady_8'', ''nanocodec_tail_1_8'']"

definition LICENSE_ROLES :: "string list" where
  "LICENSE_ROLES =
     [''project_license'', ''project_notice'', ''pytorch_license'', ''cutlass_license'',
      ''cuda_eula'', ''cuda_notice'', ''nvidia_open_model_license'', ''nvidia_model_notice'']"

definition ENGINE_NAMES_BY_ROLE :: "(string \<times> string) list" where
  "ENGINE_NAMES_BY_ROLE =
     [(''text_encoder'', ''text_encoder''),
      (''main_decoder_prefill'', ''main_decoder_prefill''),
      (''main_decoder_step'', ''main_decoder_step''),
      (''local_ar_16'', ''local_ar''),
      (''nanocodec_initial_4'', ''nanocodec_initial''),
      (''nanocodec_steady_8'', ''nanocodec_steady''),
      (''nanocodec_tail_1_8'', ''nanocodec_tail'')]"

subsection \<open>The source model and the export\<close>

record source_model_spec =
  sm_model_id :: pystr
  sm_version :: pystr
  sm_revision :: pystr
  sm_source_sha256 :: pystr

definition parse_source_model :: "json \<Rightarrow> source_model_spec result" where
  "parse_source_model v =
     bindE (require_object v
     [''model_id'', ''version'', ''revision'', ''source_sha256'']) (\<lambda>doc.
     bindE (bindE (field doc ''model_id'') require_string) (\<lambda>model_id.
     bindE (bindE (field doc ''version'') require_string) (\<lambda>version.
     bindE (bindE (field doc ''revision'') require_git_sha1) (\<lambda>revision.
     bindE (bindE (field doc ''source_sha256'') require_sha256) (\<lambda>source_sha256.
     Inr \<lparr>sm_model_id = model_id, sm_version = version, sm_revision = revision,
       sm_source_sha256 = source_sha256\<rparr>)))))"

record export_spec =
  ex_format :: pystr
  ex_source_revision :: pystr
  ex_voice_id :: pystr
  ex_baked_context_length :: int
  ex_baked_context_sha256 :: pystr
  ex_audio_bos_baked :: bool
  ex_receipt_artifact_role :: pystr

definition parse_export :: "json \<Rightarrow> export_spec result" where
  "parse_export v =
     bindE (require_object v
     [''format'', ''source_revision'', ''voice_id'', ''baked_context_length'',
      ''baked_context_sha256'', ''audio_bos_baked'', ''receipt_artifact_role'']) (\<lambda>doc.
     bindE (bindE (field doc ''format'') require_identifier) (\<lambda>format.
     bindE (guardE (format \<noteq> pys EXPORT_FORMAT) (pkg_error ''/export/format: expected '')) (\<lambda>_.
     bindE (bindE (field doc ''source_revision'') require_string) (\<lambda>source_revision.
     bindE (bindE (field doc ''voice_id'') require_identifier) (\<lambda>voice_id.
     bindE (bindE (field doc ''baked_context_length'') (\<lambda>x. pkg_require_int x 1 max_u32)) (\<lambda>baked_context_length.
     bindE (bindE (field doc ''baked_context_sha256'') require_sha256) (\<lambda>baked_context_sha256.
     bindE (bindE (field doc ''audio_bos_baked'') require_bool) (\<lambda>audio_bos_baked.
     bindE (bindE (field doc ''receipt_artifact_role'') require_identifier) (\<lambda>receipt_artifact_role.
     Inr \<lparr>ex_format = format, ex_source_revision = source_revision, ex_voice_id = voice_id,
       ex_baked_context_length = baked_context_length,
       ex_baked_context_sha256 = baked_context_sha256, ex_audio_bos_baked = audio_bos_baked,
       ex_receipt_artifact_role = receipt_artifact_role\<rparr>)))))))))"

subsection \<open>The tokenizer\<close>

record special_tokens_spec =
  st_bos_token_id :: int
  st_eos_token_id :: int
  st_japanese_global_pad_token_id :: int

definition special_tokens_json :: "special_tokens_spec \<Rightarrow> json" where
  "special_tokens_json r = JObj
     [(pys ''bos_token_id'', JInt (st_bos_token_id r)),
      (pys ''eos_token_id'', JInt (st_eos_token_id r)),
      (pys ''japanese_global_pad_token_id'', JInt (st_japanese_global_pad_token_id r))]"

definition parse_special_tokens :: "int \<Rightarrow> int \<Rightarrow> json \<Rightarrow> special_tokens_spec result" where
  "parse_special_tokens vocabulary rows v =
     bindE (require_object v
     [''bos_token_id'', ''eos_token_id'', ''japanese_global_pad_token_id'']) (\<lambda>doc.
     bindE (bindE (field doc ''bos_token_id'') (\<lambda>x. pkg_require_int x vocabulary (rows - 1))) (\<lambda>bos_token_id.
     bindE (bindE (field doc ''eos_token_id'') (\<lambda>x. pkg_require_int x vocabulary (rows - 1))) (\<lambda>eos_token_id.
     bindE (bindE (field doc ''japanese_global_pad_token_id'') (\<lambda>x. pkg_require_int x 0 (vocabulary - 1))) (\<lambda>japanese_global_pad_token_id.
     bindE (guardE (bos_token_id = eos_token_id)
       (pkg_error ''/tokenizer/special_tokens: BOS and EOS identifiers must differ'')) (\<lambda>_.
     Inr \<lparr>st_bos_token_id = bos_token_id, st_eos_token_id = eos_token_id,
       st_japanese_global_pad_token_id = japanese_global_pad_token_id\<rparr>)))))"

record tokenizer_spec =
  tk_kind :: pystr
  tk_tokenizer_vocabulary_size :: int
  tk_text_embedding_rows :: int
  tk_special_tokens :: special_tokens_spec
  tk_identity_sha256 :: pystr

definition parse_tokenizer :: "json \<Rightarrow> tokenizer_spec result" where
  "parse_tokenizer v =
     bindE (require_object v
     [''kind'', ''tokenizer_vocabulary_size'', ''text_embedding_rows'', ''special_tokens'',
      ''identity_sha256'']) (\<lambda>doc.
     bindE (bindE (field doc ''tokenizer_vocabulary_size'') (\<lambda>x. pkg_require_int x 1 max_i31)) (\<lambda>tokenizer_vocabulary_size.
     bindE (bindE (field doc ''text_embedding_rows'') (\<lambda>x. pkg_require_int x (tokenizer_vocabulary_size + 1) max_i31)) (\<lambda>text_embedding_rows.
     bindE (bindE (field doc ''special_tokens'') (parse_special_tokens tokenizer_vocabulary_size text_embedding_rows)) (\<lambda>special_tokens.
     bindE (bindE (field doc ''kind'') require_identifier) (\<lambda>kind.
     bindE (bindE (field doc ''identity_sha256'') require_sha256) (\<lambda>identity_sha256.
     Inr \<lparr>tk_kind = kind, tk_tokenizer_vocabulary_size = tokenizer_vocabulary_size,
       tk_text_embedding_rows = text_embedding_rows, tk_special_tokens = special_tokens,
       tk_identity_sha256 = identity_sha256\<rparr>))))))"

subsection \<open>Plugin and classifier-free guidance\<close>

record plugin_spec =
  pl_name :: pystr

definition parse_plugin :: "json \<Rightarrow> plugin_spec result" where
  "parse_plugin v =
     bindE (require_object v
     [''name'']) (\<lambda>doc.
     bindE (bindE (field doc ''name'') require_identifier) (\<lambda>name.
     Inr \<lparr>pl_name = name\<rparr>))"

record classifier_free_guidance_spec =
  cf_row_order :: pystr
  cf_conditional_row_index :: int
  cf_conditional_condition_source :: pystr
  cf_conditional_mask_source :: pystr
  cf_unconditional_row_index :: int
  cf_unconditional_condition_source :: pystr
  cf_unconditional_mask_source :: pystr

definition classifier_free_guidance_json :: "classifier_free_guidance_spec \<Rightarrow> json" where
  "classifier_free_guidance_json r = JObj
     [(pys ''row_order'', JStr (cf_row_order r)),
      (pys ''conditional_row_index'', JInt (cf_conditional_row_index r)),
      (pys ''conditional_condition_source'', JStr (cf_conditional_condition_source r)),
      (pys ''conditional_mask_source'', JStr (cf_conditional_mask_source r)),
      (pys ''unconditional_row_index'', JInt (cf_unconditional_row_index r)),
      (pys ''unconditional_condition_source'', JStr (cf_unconditional_condition_source r)),
      (pys ''unconditional_mask_source'', JStr (cf_unconditional_mask_source r))]"

definition parse_classifier_free_guidance :: "json \<Rightarrow> classifier_free_guidance_spec result" where
  "parse_classifier_free_guidance v =
     bindE (require_object v
     [''row_order'', ''conditional_row_index'', ''conditional_condition_source'',
      ''conditional_mask_source'', ''unconditional_row_index'',
      ''unconditional_condition_source'', ''unconditional_mask_source'']) (\<lambda>doc.
     bindE (bindE (field doc ''row_order'') require_identifier) (\<lambda>row_order.
     bindE (bindE (field doc ''conditional_row_index'') (\<lambda>x. pkg_require_int x 0 max_u32)) (\<lambda>conditional_row_index.
     bindE (bindE (field doc ''conditional_condition_source'') require_identifier) (\<lambda>conditional_condition_source.
     bindE (bindE (field doc ''conditional_mask_source'') require_identifier) (\<lambda>conditional_mask_source.
     bindE (bindE (field doc ''unconditional_row_index'') (\<lambda>x. pkg_require_int x 0 max_u32)) (\<lambda>unconditional_row_index.
     bindE (bindE (field doc ''unconditional_condition_source'') require_identifier) (\<lambda>unconditional_condition_source.
     bindE (bindE (field doc ''unconditional_mask_source'') require_identifier) (\<lambda>unconditional_mask_source.
     Inr \<lparr>cf_row_order = row_order, cf_conditional_row_index = conditional_row_index,
       cf_conditional_condition_source = conditional_condition_source,
       cf_conditional_mask_source = conditional_mask_source,
       cf_unconditional_row_index = unconditional_row_index,
       cf_unconditional_condition_source = unconditional_condition_source,
       cf_unconditional_mask_source = unconditional_mask_source\<rparr>))))))))"

subsection \<open>KV cache and alignment\<close>

record kv_cache_spec =
  kv_layout :: pystr
  kv_prefix_length :: int
  kv_maximum_generated_steps :: int
  kv_update_mode :: pystr
  kv_position_semantics :: pystr
  kv_first_step_position :: int
  kv_step_position_upper_bound_exclusive :: int

definition parse_kv_cache :: "json \<Rightarrow> kv_cache_spec result" where
  "parse_kv_cache v =
     bindE (require_object v
     [''layout'', ''prefix_length'', ''maximum_generated_steps'', ''update_mode'',
      ''position_semantics'', ''first_step_position'', ''step_position_upper_bound_exclusive'']) (\<lambda>doc.
     bindE (bindE (field doc ''layout'') require_identifier) (\<lambda>layout.
     bindE (bindE (field doc ''prefix_length'') (\<lambda>x. pkg_require_int x 1 max_u64)) (\<lambda>prefix_length.
     bindE (bindE (field doc ''maximum_generated_steps'') (\<lambda>x. pkg_require_int x 1 max_u64)) (\<lambda>maximum_generated_steps.
     bindE (bindE (field doc ''update_mode'') require_identifier) (\<lambda>update_mode.
     bindE (bindE (field doc ''position_semantics'') require_identifier) (\<lambda>position_semantics.
     bindE (bindE (field doc ''first_step_position'') (\<lambda>x. pkg_require_int x 0 max_u64)) (\<lambda>first_step_position.
     bindE (bindE (field doc ''step_position_upper_bound_exclusive'') (\<lambda>x. pkg_require_int x 1 max_u64)) (\<lambda>step_position_upper_bound_exclusive.
     Inr \<lparr>kv_layout = layout, kv_prefix_length = prefix_length,
       kv_maximum_generated_steps = maximum_generated_steps, kv_update_mode = update_mode,
       kv_position_semantics = position_semantics, kv_first_step_position = first_step_position,
       kv_step_position_upper_bound_exclusive = step_position_upper_bound_exclusive\<rparr>))))))))"

record alignment_spec =
  as_dtype :: pystr
  as_source_decoder_layers :: "int list"
  as_prefill_output_binding :: pystr
  as_step_prior_input_binding :: pystr
  as_step_alignment_output_binding :: pystr
  as_prior_epsilon :: rat
  as_initial_attended :: int
  as_ignored_terminal_tokens :: int
  as_short_text_no_prior_max_tokens :: int
  as_lookahead :: int
  as_sink_threshold :: int
  as_source_position_policy :: pystr

definition alignment_json :: "alignment_spec \<Rightarrow> json" where
  "alignment_json r = JObj
     [(pys ''dtype'', JStr (as_dtype r)),
      (pys ''source_decoder_layers'', JList (map JInt (as_source_decoder_layers r))),
      (pys ''prefill_output_binding'', JStr (as_prefill_output_binding r)),
      (pys ''step_prior_input_binding'', JStr (as_step_prior_input_binding r)),
      (pys ''step_alignment_output_binding'', JStr (as_step_alignment_output_binding r)),
      (pys ''prior_epsilon'', JFloat (Fin (as_prior_epsilon r))),
      (pys ''initial_attended'', JInt (as_initial_attended r)),
      (pys ''ignored_terminal_tokens'', JInt (as_ignored_terminal_tokens r)),
      (pys ''short_text_no_prior_max_tokens'', JInt (as_short_text_no_prior_max_tokens r)),
      (pys ''lookahead'', JInt (as_lookahead r)),
      (pys ''sink_threshold'', JInt (as_sink_threshold r)),
      (pys ''source_position_policy'', JStr (as_source_position_policy r))]"

definition parse_alignment :: "pkg_env \<Rightarrow> json \<Rightarrow> alignment_spec result" where
  "parse_alignment env v =
     bindE (require_object v
     [''dtype'', ''source_decoder_layers'', ''prefill_output_binding'',
      ''step_prior_input_binding'', ''step_alignment_output_binding'', ''prior_epsilon'',
      ''initial_attended'', ''ignored_terminal_tokens'', ''short_text_no_prior_max_tokens'',
      ''lookahead'', ''sink_threshold'', ''source_position_policy'']) (\<lambda>doc.
     bindE (bindE (field doc ''dtype'') require_identifier) (\<lambda>dtype.
     bindE (bindE (field doc ''source_decoder_layers'') (\<lambda>x. require_int_tuple x 0 max_u32)) (\<lambda>source_decoder_layers.
     bindE (bindE (field doc ''prefill_output_binding'') require_identifier) (\<lambda>prefill_output_binding.
     bindE (bindE (field doc ''step_prior_input_binding'') require_identifier) (\<lambda>step_prior_input_binding.
     bindE (bindE (field doc ''step_alignment_output_binding'') require_identifier) (\<lambda>step_alignment_output_binding.
     bindE (bindE (field doc ''prior_epsilon'') (require_float env)) (\<lambda>prior_epsilon.
     bindE (bindE (field doc ''initial_attended'') (\<lambda>x. pkg_require_int x 0 max_u64)) (\<lambda>initial_attended.
     bindE (bindE (field doc ''ignored_terminal_tokens'') (\<lambda>x. pkg_require_int x 0 max_u64)) (\<lambda>ignored_terminal_tokens.
     bindE (bindE (field doc ''short_text_no_prior_max_tokens'') (\<lambda>x. pkg_require_int x 0 max_u64)) (\<lambda>short_text_no_prior_max_tokens.
     bindE (bindE (field doc ''lookahead'') (\<lambda>x. pkg_require_int x 0 max_u64)) (\<lambda>lookahead.
     bindE (bindE (field doc ''sink_threshold'') (\<lambda>x. pkg_require_int x 0 max_u64)) (\<lambda>sink_threshold.
     bindE (bindE (field doc ''source_position_policy'') require_identifier) (\<lambda>source_position_policy.
     Inr \<lparr>as_dtype = dtype, as_source_decoder_layers = source_decoder_layers,
       as_prefill_output_binding = prefill_output_binding,
       as_step_prior_input_binding = step_prior_input_binding,
       as_step_alignment_output_binding = step_alignment_output_binding,
       as_prior_epsilon = prior_epsilon, as_initial_attended = initial_attended,
       as_ignored_terminal_tokens = ignored_terminal_tokens,
       as_short_text_no_prior_max_tokens = short_text_no_prior_max_tokens,
       as_lookahead = lookahead, as_sink_threshold = sink_threshold,
       as_source_position_policy = source_position_policy\<rparr>)))))))))))))"

subsection \<open>Sampling\<close>

record rng_spec =
  rg_algorithm :: pystr
  rg_seed_bits :: int
  rg_counter_bits :: int
  rg_state_location :: pystr
  rg_ownership :: pystr
  rg_deterministic :: bool

definition rng_json :: "rng_spec \<Rightarrow> json" where
  "rng_json r = JObj
     [(pys ''algorithm'', JStr (rg_algorithm r)),
      (pys ''seed_bits'', JInt (rg_seed_bits r)),
      (pys ''counter_bits'', JInt (rg_counter_bits r)),
      (pys ''state_location'', JStr (rg_state_location r)),
      (pys ''ownership'', JStr (rg_ownership r)),
      (pys ''deterministic'', JBool (rg_deterministic r))]"

definition parse_rng :: "json \<Rightarrow> rng_spec result" where
  "parse_rng v =
     bindE (require_object v
     [''algorithm'', ''seed_bits'', ''counter_bits'', ''state_location'', ''ownership'',
      ''deterministic'']) (\<lambda>doc.
     bindE (bindE (field doc ''algorithm'') require_identifier) (\<lambda>algorithm.
     bindE (bindE (field doc ''seed_bits'') (\<lambda>x. pkg_require_int x 1 64)) (\<lambda>seed_bits.
     bindE (bindE (field doc ''counter_bits'') (\<lambda>x. pkg_require_int x 1 64)) (\<lambda>counter_bits.
     bindE (bindE (field doc ''state_location'') require_identifier) (\<lambda>state_location.
     bindE (bindE (field doc ''ownership'') require_identifier) (\<lambda>ownership.
     bindE (bindE (field doc ''deterministic'') require_bool) (\<lambda>deterministic.
     Inr \<lparr>rg_algorithm = algorithm, rg_seed_bits = seed_bits,
       rg_counter_bits = counter_bits, rg_state_location = state_location,
       rg_ownership = ownership, rg_deterministic = deterministic\<rparr>)))))))"

record sampling_spec =
  sp_algorithm :: pystr
  sp_top_k :: int
  sp_temperature :: rat
  sp_eos_token_id :: int
  sp_forbidden_token_ids :: "int list"
  sp_invalid_distribution_policy :: pystr
  sp_next_embedding_location :: pystr
  sp_rng :: rng_spec

definition sampling_json :: "sampling_spec \<Rightarrow> json" where
  "sampling_json r = JObj
     [(pys ''algorithm'', JStr (sp_algorithm r)),
      (pys ''top_k'', JInt (sp_top_k r)),
      (pys ''temperature'', JFloat (Fin (sp_temperature r))),
      (pys ''eos_token_id'', JInt (sp_eos_token_id r)),
      (pys ''forbidden_token_ids'', JList (map JInt (sp_forbidden_token_ids r))),
      (pys ''invalid_distribution_policy'', JStr (sp_invalid_distribution_policy r)),
      (pys ''next_embedding_location'', JStr (sp_next_embedding_location r)),
      (pys ''rng'', rng_json (sp_rng r))]"

definition parse_sampling :: "pkg_env \<Rightarrow> json \<Rightarrow> sampling_spec result" where
  "parse_sampling env v =
     bindE (require_object v
     [''algorithm'', ''top_k'', ''temperature'', ''eos_token_id'', ''forbidden_token_ids'',
      ''invalid_distribution_policy'', ''next_embedding_location'', ''rng'']) (\<lambda>doc.
     bindE (bindE (field doc ''eos_token_id'') (\<lambda>x. pkg_require_int x 0 max_u64)) (\<lambda>eos_token_id.
     bindE (guardE (eos_token_id \<noteq> LOCAL_AR_AUDIO_EOS_ID) (pkg_error ''/sampling/eos_token_id: canonical Sofia v1 sampling requires '')) (\<lambda>_.
     bindE (bindE (field doc ''forbidden_token_ids'') (\<lambda>x. require_int_tuple x 0 max_u32)) (\<lambda>forbidden_token_ids.
     bindE (guardE (forbidden_token_ids \<noteq> LOCAL_AR_STATIC_FORBIDDEN_TOKEN_IDS) (pkg_error ''/sampling/forbidden_token_ids: canonical Sofia v1 sampling '')) (\<lambda>_.
     bindE (bindE (field doc ''algorithm'') require_identifier) (\<lambda>algorithm.
     bindE (bindE (field doc ''top_k'') (\<lambda>x. pkg_require_int x 1 max_u64)) (\<lambda>top_k.
     bindE (bindE (field doc ''temperature'') (require_float env)) (\<lambda>temperature.
     bindE (bindE (field doc ''invalid_distribution_policy'') require_identifier) (\<lambda>invalid_distribution_policy.
     bindE (bindE (field doc ''next_embedding_location'') require_identifier) (\<lambda>next_embedding_location.
     bindE (bindE (field doc ''rng'') parse_rng) (\<lambda>rng.
     Inr \<lparr>sp_algorithm = algorithm, sp_top_k = top_k, sp_temperature = temperature,
       sp_eos_token_id = eos_token_id, sp_forbidden_token_ids = forbidden_token_ids,
       sp_invalid_distribution_policy = invalid_distribution_policy,
       sp_next_embedding_location = next_embedding_location, sp_rng = rng\<rparr>)))))))))))"

subsection \<open>The local autoregressive engine\<close>

record position_embedding_spec =
  pe_kind :: pystr
  pe_positions :: "int list"
  pe_source_shape :: "int list"
  pe_dtype :: pystr
  pe_source_table_sha256 :: pystr

definition position_embedding_json :: "position_embedding_spec \<Rightarrow> json" where
  "position_embedding_json r = JObj
     [(pys ''kind'', JStr (pe_kind r)),
      (pys ''positions'', JList (map JInt (pe_positions r))),
      (pys ''source_shape'', JList (map JInt (pe_source_shape r))),
      (pys ''dtype'', JStr (pe_dtype r)),
      (pys ''source_table_sha256'', JStr (pe_source_table_sha256 r))]"

definition parse_position_embedding :: "json \<Rightarrow> position_embedding_spec result" where
  "parse_position_embedding v =
     bindE (require_object v
     [''kind'', ''positions'', ''source_shape'', ''dtype'', ''source_table_sha256'']) (\<lambda>doc.
     bindE (bindE (field doc ''source_table_sha256'') require_sha256) (\<lambda>source_table_sha256.
     bindE (guardE (source_table_sha256 \<noteq> pys SOFIA_LOCAL_AR_POSITION_TABLE_SHA256) (pkg_error ''/local_ar/position_embedding/source_table_sha256: canonical '')) (\<lambda>_.
     bindE (bindE (field doc ''kind'') require_identifier) (\<lambda>kind.
     bindE (bindE (field doc ''positions'') (\<lambda>x. require_int_tuple x 0 max_u32)) (\<lambda>positions.
     bindE (bindE (field doc ''source_shape'') (\<lambda>x. require_int_tuple x 1 max_u32)) (\<lambda>source_shape.
     bindE (bindE (field doc ''dtype'') require_identifier) (\<lambda>dtype.
     Inr \<lparr>pe_kind = kind, pe_positions = positions, pe_source_shape = source_shape,
       pe_dtype = dtype, pe_source_table_sha256 = source_table_sha256\<rparr>)))))))"

record local_ar_spec =
  la_engine_name :: pystr
  la_execution :: pystr
  la_iterations :: int
  la_positions :: "int list"
  la_position_embedding :: position_embedding_spec
  la_codebooks_per_frame :: int
  la_frames_per_decoder_step :: int
  la_sampling_plugin_name :: pystr
  la_invalid_rows_encoding :: pystr
  la_no_eos_frame_index :: int

definition local_ar_json :: "local_ar_spec \<Rightarrow> json" where
  "local_ar_json r = JObj
     [(pys ''engine_name'', JStr (la_engine_name r)),
      (pys ''execution'', JStr (la_execution r)),
      (pys ''iterations'', JInt (la_iterations r)),
      (pys ''positions'', JList (map JInt (la_positions r))),
      (pys ''position_embedding'', position_embedding_json (la_position_embedding r)),
      (pys ''codebooks_per_frame'', JInt (la_codebooks_per_frame r)),
      (pys ''frames_per_decoder_step'', JInt (la_frames_per_decoder_step r)),
      (pys ''sampling_plugin_name'', JStr (la_sampling_plugin_name r)),
      (pys ''invalid_rows_encoding'', JStr (la_invalid_rows_encoding r)),
      (pys ''no_eos_frame_index'', JInt (la_no_eos_frame_index r))]"

text \<open>\<open>no_eos_frame_index\<close> is any integer, negative ones included.\<close>

fun any_int :: "json \<Rightarrow> int result" where
  "any_int (JInt i) = Inr i"
| "any_int _ = Inl (pkg_error ''/local_ar/no_eos_frame_index: expected an integer'')"

definition parse_local_ar :: "json \<Rightarrow> local_ar_spec result" where
  "parse_local_ar v =
     bindE (require_object v
     [''engine_name'', ''execution'', ''iterations'', ''positions'', ''position_embedding'',
      ''codebooks_per_frame'', ''frames_per_decoder_step'', ''sampling_plugin_name'',
      ''invalid_rows_encoding'', ''no_eos_frame_index'']) (\<lambda>doc.
     bindE (bindE (field doc ''no_eos_frame_index'') any_int) (\<lambda>no_eos_frame_index.
     bindE (bindE (field doc ''engine_name'') require_identifier) (\<lambda>engine_name.
     bindE (bindE (field doc ''execution'') require_identifier) (\<lambda>execution.
     bindE (bindE (field doc ''iterations'') (\<lambda>x. pkg_require_int x 1 max_u64)) (\<lambda>iterations.
     bindE (bindE (field doc ''positions'') (\<lambda>x. require_int_tuple x 0 max_u32)) (\<lambda>positions.
     bindE (bindE (field doc ''position_embedding'') parse_position_embedding) (\<lambda>position_embedding.
     bindE (bindE (field doc ''codebooks_per_frame'') (\<lambda>x. pkg_require_int x 1 max_u64)) (\<lambda>codebooks_per_frame.
     bindE (bindE (field doc ''frames_per_decoder_step'') (\<lambda>x. pkg_require_int x 1 max_u64)) (\<lambda>frames_per_decoder_step.
     bindE (bindE (field doc ''sampling_plugin_name'') require_identifier) (\<lambda>sampling_plugin_name.
     bindE (bindE (field doc ''invalid_rows_encoding'') require_identifier) (\<lambda>invalid_rows_encoding.
     Inr \<lparr>la_engine_name = engine_name, la_execution = execution,
       la_iterations = iterations, la_positions = positions,
       la_position_embedding = position_embedding, la_codebooks_per_frame = codebooks_per_frame,
       la_frames_per_decoder_step = frames_per_decoder_step,
       la_sampling_plugin_name = sampling_plugin_name,
       la_invalid_rows_encoding = invalid_rows_encoding,
       la_no_eos_frame_index = no_eos_frame_index\<rparr>)))))))))))"

subsection \<open>Codec and limits\<close>

record codec_spec =
  cd_initial_engine_name :: pystr
  cd_steady_engine_name :: pystr
  cd_tail_engine_name :: pystr
  cd_sample_rate_hz :: int
  cd_hop_length_samples :: int
  cd_channels :: int
  cd_pcm_format :: pystr
  cd_stateful :: bool
  cd_initial_frames :: int
  cd_steady_frames :: int
  cd_tail_min_frames :: int
  cd_tail_max_frames :: int
  cd_eos_frame_is_audio :: bool
  cd_zero_frame_finalization :: pystr

definition parse_codec :: "json \<Rightarrow> codec_spec result" where
  "parse_codec v =
     bindE (require_object v
     [''initial_engine_name'', ''steady_engine_name'', ''tail_engine_name'', ''sample_rate_hz'',
      ''hop_length_samples'', ''channels'', ''pcm_format'', ''stateful'', ''initial_frames'',
      ''steady_frames'', ''tail_min_frames'', ''tail_max_frames'', ''eos_frame_is_audio'',
      ''zero_frame_finalization'']) (\<lambda>doc.
     bindE (bindE (field doc ''eos_frame_is_audio'') require_bool) (\<lambda>eos_frame_is_audio.
     bindE (guardE (eos_frame_is_audio) (pkg_error ''/codec/eos_frame_is_audio: AUDIO_EOS is a control token, not an audio frame'')) (\<lambda>_.
     bindE (bindE (field doc ''zero_frame_finalization'') require_identifier) (\<lambda>zero_frame_finalization.
     bindE (guardE (zero_frame_finalization \<noteq> pys ZERO_FRAME_FINALIZATION) (pkg_error ''/codec/zero_frame_finalization: residual zero frames must emit a FINAL control marker without invoking NanoCodec'')) (\<lambda>_.
     bindE (bindE (field doc ''initial_engine_name'') require_identifier) (\<lambda>initial_engine_name.
     bindE (bindE (field doc ''steady_engine_name'') require_identifier) (\<lambda>steady_engine_name.
     bindE (bindE (field doc ''tail_engine_name'') require_identifier) (\<lambda>tail_engine_name.
     bindE (bindE (field doc ''sample_rate_hz'') (\<lambda>x. pkg_require_int x 1 max_u64)) (\<lambda>sample_rate_hz.
     bindE (bindE (field doc ''hop_length_samples'') (\<lambda>x. pkg_require_int x 1 max_u64)) (\<lambda>hop_length_samples.
     bindE (bindE (field doc ''channels'') (\<lambda>x. pkg_require_int x 1 max_u64)) (\<lambda>channels.
     bindE (bindE (field doc ''pcm_format'') require_identifier) (\<lambda>pcm_format.
     bindE (bindE (field doc ''stateful'') require_bool) (\<lambda>stateful.
     bindE (bindE (field doc ''initial_frames'') (\<lambda>x. pkg_require_int x 1 max_u64)) (\<lambda>initial_frames.
     bindE (bindE (field doc ''steady_frames'') (\<lambda>x. pkg_require_int x 1 max_u64)) (\<lambda>steady_frames.
     bindE (bindE (field doc ''tail_min_frames'') (\<lambda>x. pkg_require_int x 1 max_u64)) (\<lambda>tail_min_frames.
     bindE (bindE (field doc ''tail_max_frames'') (\<lambda>x. pkg_require_int x 1 max_u64)) (\<lambda>tail_max_frames.
     Inr \<lparr>cd_initial_engine_name = initial_engine_name,
       cd_steady_engine_name = steady_engine_name, cd_tail_engine_name = tail_engine_name,
       cd_sample_rate_hz = sample_rate_hz, cd_hop_length_samples = hop_length_samples,
       cd_channels = channels, cd_pcm_format = pcm_format, cd_stateful = stateful,
       cd_initial_frames = initial_frames, cd_steady_frames = steady_frames,
       cd_tail_min_frames = tail_min_frames, cd_tail_max_frames = tail_max_frames,
       cd_eos_frame_is_audio = eos_frame_is_audio,
       cd_zero_frame_finalization = zero_frame_finalization\<rparr>)))))))))))))))))"

record limits_spec =
  lm_maximum_text_tokens :: int
  lm_maximum_decoder_steps :: int
  lm_maximum_audio_frames :: int
  lm_maximum_sessions :: int
  lm_maximum_concurrent_requests :: int
  lm_pcm_ring_capacity_frames :: int
  lm_maximum_workspace_bytes :: int
  lm_maximum_device_memory_bytes :: int

definition parse_limits :: "json \<Rightarrow> limits_spec result" where
  "parse_limits v =
     bindE (require_object v
     [''maximum_text_tokens'', ''maximum_decoder_steps'', ''maximum_audio_frames'',
      ''maximum_sessions'', ''maximum_concurrent_requests'', ''pcm_ring_capacity_frames'',
      ''maximum_workspace_bytes'', ''maximum_device_memory_bytes'']) (\<lambda>doc.
     bindE (bindE (field doc ''maximum_text_tokens'') (\<lambda>x. pkg_require_int x 1 max_u64)) (\<lambda>maximum_text_tokens.
     bindE (bindE (field doc ''maximum_decoder_steps'') (\<lambda>x. pkg_require_int x 1 max_u64)) (\<lambda>maximum_decoder_steps.
     bindE (bindE (field doc ''maximum_audio_frames'') (\<lambda>x. pkg_require_int x 1 max_u64)) (\<lambda>maximum_audio_frames.
     bindE (bindE (field doc ''maximum_sessions'') (\<lambda>x. pkg_require_int x 1 max_u64)) (\<lambda>maximum_sessions.
     bindE (bindE (field doc ''maximum_concurrent_requests'') (\<lambda>x. pkg_require_int x 1 max_u64)) (\<lambda>maximum_concurrent_requests.
     bindE (bindE (field doc ''pcm_ring_capacity_frames'') (\<lambda>x. pkg_require_int x 1 max_u64)) (\<lambda>pcm_ring_capacity_frames.
     bindE (bindE (field doc ''maximum_workspace_bytes'') (\<lambda>x. pkg_require_int x 1 max_u64)) (\<lambda>maximum_workspace_bytes.
     bindE (bindE (field doc ''maximum_device_memory_bytes'') (\<lambda>x. pkg_require_int x 1 max_u64)) (\<lambda>maximum_device_memory_bytes.
     Inr \<lparr>lm_maximum_text_tokens = maximum_text_tokens,
       lm_maximum_decoder_steps = maximum_decoder_steps,
       lm_maximum_audio_frames = maximum_audio_frames, lm_maximum_sessions = maximum_sessions,
       lm_maximum_concurrent_requests = maximum_concurrent_requests,
       lm_pcm_ring_capacity_frames = pcm_ring_capacity_frames,
       lm_maximum_workspace_bytes = maximum_workspace_bytes,
       lm_maximum_device_memory_bytes = maximum_device_memory_bytes\<rparr>)))))))))"

subsection \<open>Destinations\<close>

record engine_destination =
  ed_name :: pystr
  ed_role :: pystr
  ed_path :: pystr

record license_destination =
  ld_role :: pystr
  ld_path :: pystr

record destinations =
  ds_source_model_acceptance_receipt :: pystr
  ds_export_receipt :: pystr
  ds_tokenizer_identity_receipt :: pystr
  ds_plugin_build_receipt :: pystr
  ds_plugin :: pystr
  ds_golden_fixture :: pystr
  ds_golden_receipt :: pystr
  ds_licenses :: "license_destination list"
  ds_engines :: "engine_destination list"

fun require_array :: "json \<Rightarrow> json list result" where
  "require_array (JList vs) = Inr vs"
| "require_array _ = Inl (pkg_error '': expected an array'')"

definition parse_license_destination :: "json \<Rightarrow> license_destination result" where
  "parse_license_destination v =
     bindE (require_object v [''role'', ''path'']) (\<lambda>item.
     bindE (bindE (field item ''role'') require_identifier) (\<lambda>role.
     bindE (guardE (role \<notin> pys ` set LICENSE_ROLES) (pkg_error ''/role: unsupported license role '')) (\<lambda>_.
     bindE (bindE (field item ''path'') require_relative_path) (\<lambda>path.
     Inr \<lparr>ld_role = role, ld_path = path\<rparr>))))"

definition engine_name_of :: "pystr \<Rightarrow> pystr result" where
  "engine_name_of role =
     (case map_of (map (map_prod pys pys) ENGINE_NAMES_BY_ROLE) role of
        None \<Rightarrow> Inl (Exn PyKeyError ''ENGINE_NAMES_BY_ROLE'') | Some n \<Rightarrow> Inr n)"

definition parse_engine_destination :: "json \<Rightarrow> engine_destination result" where
  "parse_engine_destination v =
     bindE (require_object v [''name'', ''role'', ''path'']) (\<lambda>item.
     bindE (bindE (field item ''role'') require_identifier) (\<lambda>role.
     bindE (guardE (role \<notin> pys ` set ENGINE_ROLES) (pkg_error ''/role: unsupported engine role '')) (\<lambda>_.
     bindE (bindE (field item ''name'') require_identifier) (\<lambda>name.
     bindE (engine_name_of role) (\<lambda>expected_name.
     bindE (guardE (name \<noteq> expected_name) (pkg_error ''/name: role requires '')) (\<lambda>_.
     bindE (bindE (field item ''path'') require_relative_path) (\<lambda>path.
     Inr \<lparr>ed_name = name, ed_role = role, ed_path = path\<rparr>)))))))"

definition all_paths :: "destinations \<Rightarrow> pystr list" where
  "all_paths d =
     [ds_source_model_acceptance_receipt d, ds_export_receipt d, ds_tokenizer_identity_receipt d,
      ds_plugin_build_receipt d, ds_plugin d, ds_golden_fixture d, ds_golden_receipt d]
     @ map ld_path (ds_licenses d) @ map ed_path (ds_engines d)"

text \<open>\<open>PurePosixPath(a) in PurePosixPath(b).parents\<close>\<close>

definition is_parent_of :: "pystr \<Rightarrow> pystr \<Rightarrow> bool" where
  "is_parent_of a b \<longleftrightarrow>
     pure_root a = pure_root b \<and> strict_prefix (pure_components a) (pure_components b)"

definition reserved_paths :: "pystr list" where
  "reserved_paths = [pys MANIFEST_NAME, pys MANIFEST_DIGEST_NAME]"

definition check_destination_paths :: "pystr list \<Rightarrow> unit result" where
  "check_destination_paths paths =
     bindE (guardE (\<not> distinct paths) (pkg_error ''/destinations: artifact paths must be unique'')) (\<lambda>_.
     bindE (guardE (list_ex (\<lambda>a. list_ex (\<lambda>b. a \<noteq> b \<and> is_parent_of a b) paths) paths)
       (pkg_error ''/destinations: an artifact path cannot be another artifact's parent directory'')) (\<lambda>_.
     guardE (list_ex (\<lambda>a. a \<in> set reserved_paths \<or> list_ex (\<lambda>r. is_parent_of r a) reserved_paths) paths)
       (pkg_error ''/destinations: manifest paths are reserved'')))"

definition check_license_roles :: "license_destination list \<Rightarrow> unit result" where
  "check_license_roles licenses =
     guardE (map ld_role licenses \<noteq> map pys LICENSE_ROLES)
       (pkg_error ''/destinations/licenses: expected the canonical eight-role order'')"

definition check_engine_roles :: "engine_destination list \<Rightarrow> unit result" where
  "check_engine_roles engines =
     bindE (guardE (length engines \<noteq> length ENGINE_ROLES \<or>
                    set (map ed_role engines) \<noteq> pys ` set ENGINE_ROLES)
       (pkg_error ''/destinations/engines: exactly one destination per v1 role is required'')) (\<lambda>_.
     guardE (card (set (map ed_name engines)) \<noteq> length engines)
       (pkg_error ''/destinations/engines: engine names must be unique''))"

definition parse_destinations :: "json \<Rightarrow> destinations result" where
  "parse_destinations v =
     bindE (require_object v
     [''source_model_acceptance_receipt'', ''export_receipt'', ''tokenizer_identity_receipt'',
      ''plugin_build_receipt'', ''plugin'', ''golden_fixture'', ''golden_receipt'', ''licenses'',
      ''engines'']) (\<lambda>doc.
     bindE (bindE (field doc ''licenses'') require_array) (\<lambda>licenses_value.
     bindE (mapE parse_license_destination licenses_value) (\<lambda>licenses.
     bindE (check_license_roles licenses) (\<lambda>_.
     bindE (bindE (field doc ''engines'') require_array) (\<lambda>engines_value.
     bindE (mapE parse_engine_destination engines_value) (\<lambda>engines.
     bindE (check_engine_roles engines) (\<lambda>_.
     bindE (bindE (field doc ''source_model_acceptance_receipt'') require_relative_path) (\<lambda>source_model_acceptance_receipt.
     bindE (bindE (field doc ''export_receipt'') require_relative_path) (\<lambda>export_receipt.
     bindE (bindE (field doc ''tokenizer_identity_receipt'') require_relative_path) (\<lambda>tokenizer_identity_receipt.
     bindE (bindE (field doc ''plugin_build_receipt'') require_relative_path) (\<lambda>plugin_build_receipt.
     bindE (bindE (field doc ''plugin'') require_relative_path) (\<lambda>plugin.
     bindE (bindE (field doc ''golden_fixture'') require_relative_path) (\<lambda>golden_fixture.
     bindE (bindE (field doc ''golden_receipt'') require_relative_path) (\<lambda>golden_receipt.
     let d = \<lparr>ds_source_model_acceptance_receipt = source_model_acceptance_receipt,
       ds_export_receipt = export_receipt, ds_tokenizer_identity_receipt = tokenizer_identity_receipt,
       ds_plugin_build_receipt = plugin_build_receipt, ds_plugin = plugin,
       ds_golden_fixture = golden_fixture, ds_golden_receipt = golden_receipt,
       ds_licenses = licenses, ds_engines = engines\<rparr>
     in bindE (check_destination_paths (all_paths d)) (\<lambda>_. Inr d)))))))))))))))"

subsection \<open>The whole specification\<close>

record package_spec =
  ps_schema_version :: int
  ps_bundle_id :: pystr
  ps_created_at_utc :: pystr
  ps_source_model :: source_model_spec
  ps_export :: export_spec
  ps_tokenizer :: tokenizer_spec
  ps_plugin :: plugin_spec
  ps_classifier_free_guidance :: classifier_free_guidance_spec
  ps_kv_cache :: kv_cache_spec
  ps_alignment :: alignment_spec
  ps_sampling :: sampling_spec
  ps_local_ar :: local_ar_spec
  ps_codec :: codec_spec
  ps_limits :: limits_spec
  ps_destinations :: destinations

definition parse_package_spec :: "pkg_env \<Rightarrow> json \<Rightarrow> package_spec result" where
  "parse_package_spec env v =
     bindE (require_object v
     [''schema_version'', ''bundle_id'', ''created_at_utc'', ''source_model'', ''export'',
      ''tokenizer'', ''plugin'', ''classifier_free_guidance'', ''kv_cache'', ''alignment'',
      ''sampling'', ''local_ar'', ''codec'', ''limits'', ''destinations'']) (\<lambda>doc.
     bindE (bindE (field doc ''schema_version'') (\<lambda>x. pkg_require_int x 1 max_u32)) (\<lambda>schema_version.
     bindE (guardE (schema_version \<noteq> PACKAGE_SCHEMA_VERSION) (pkg_error ''/schema_version: expected '')) (\<lambda>_.
     bindE (bindE (field doc ''bundle_id'') require_identifier) (\<lambda>bundle_id.
     bindE (bindE (field doc ''created_at_utc'') (require_timestamp env)) (\<lambda>created_at_utc.
     bindE (bindE (field doc ''source_model'') parse_source_model) (\<lambda>source_model.
     bindE (bindE (field doc ''export'') parse_export) (\<lambda>export.
     bindE (bindE (field doc ''tokenizer'') parse_tokenizer) (\<lambda>tokenizer.
     bindE (bindE (field doc ''plugin'') parse_plugin) (\<lambda>plugin.
     bindE (bindE (field doc ''classifier_free_guidance'') parse_classifier_free_guidance) (\<lambda>classifier_free_guidance.
     bindE (bindE (field doc ''kv_cache'') parse_kv_cache) (\<lambda>kv_cache.
     bindE (bindE (field doc ''alignment'') (parse_alignment env)) (\<lambda>alignment.
     bindE (bindE (field doc ''sampling'') (parse_sampling env)) (\<lambda>sampling.
     bindE (bindE (field doc ''local_ar'') parse_local_ar) (\<lambda>local_ar.
     bindE (bindE (field doc ''codec'') parse_codec) (\<lambda>codec.
     bindE (bindE (field doc ''limits'') parse_limits) (\<lambda>limits.
     bindE (bindE (field doc ''destinations'') parse_destinations) (\<lambda>destinations.
     Inr \<lparr>ps_schema_version = schema_version, ps_bundle_id = bundle_id,
       ps_created_at_utc = created_at_utc, ps_source_model = source_model, ps_export = export,
       ps_tokenizer = tokenizer, ps_plugin = plugin,
       ps_classifier_free_guidance = classifier_free_guidance, ps_kv_cache = kv_cache,
       ps_alignment = alignment, ps_sampling = sampling, ps_local_ar = local_ar, ps_codec = codec,
       ps_limits = limits, ps_destinations = destinations\<rparr>)))))))))))))))))"

subsection \<open>No parser reads an absent key\<close>

lemma clean_guardE [clean_intros]: "clean_failure ov (guardE b (pkg_error m))"
  by (simp add: clean_failure_def guardE_def)

lemma clean_any_int [clean_intros]: "clean_failure ov (any_int v)"
  by (cases v) (auto intro: clean_intros)

lemma clean_require_array [clean_intros]: "clean_failure ov (require_array v)"
  by (cases v) (auto intro: clean_intros)

lemma clean_parse_source_model [clean_intros]: "clean_failure ov (parse_source_model v)"
  unfolding parse_source_model_def by (intro clean_intros) (assumption | simp)+

lemma clean_parse_export [clean_intros]: "clean_failure ov (parse_export v)"
  unfolding parse_export_def by (intro clean_intros) (assumption | simp)+

lemma clean_parse_special_tokens [clean_intros]: "clean_failure ov (parse_special_tokens n m v)"
  unfolding parse_special_tokens_def by (intro clean_intros) (assumption | simp)+

lemma clean_parse_tokenizer [clean_intros]: "clean_failure ov (parse_tokenizer v)"
  unfolding parse_tokenizer_def by (intro clean_intros) (assumption | simp)+

lemma clean_parse_plugin [clean_intros]: "clean_failure ov (parse_plugin v)"
  unfolding parse_plugin_def by (intro clean_intros) (assumption | simp)+

lemma clean_parse_cfg [clean_intros]: "clean_failure ov (parse_classifier_free_guidance v)"
  unfolding parse_classifier_free_guidance_def by (intro clean_intros) (assumption | simp)+

lemma clean_parse_kv_cache [clean_intros]: "clean_failure ov (parse_kv_cache v)"
  unfolding parse_kv_cache_def by (intro clean_intros) (assumption | simp)+

lemma clean_parse_alignment [clean_intros]:
  assumes "\<forall>i. pk_float_of_int env i = None \<longrightarrow> ov"
  shows "clean_failure ov (parse_alignment env v)"
  unfolding parse_alignment_def by (intro clean_intros) (rule assms | assumption | simp)+

lemma clean_parse_rng [clean_intros]: "clean_failure ov (parse_rng v)"
  unfolding parse_rng_def by (intro clean_intros) (assumption | simp)+

lemma clean_parse_sampling [clean_intros]:
  assumes "\<forall>i. pk_float_of_int env i = None \<longrightarrow> ov"
  shows "clean_failure ov (parse_sampling env v)"
  unfolding parse_sampling_def by (intro clean_intros) (rule assms | assumption | simp)+

lemma clean_parse_position_embedding [clean_intros]: "clean_failure ov (parse_position_embedding v)"
  unfolding parse_position_embedding_def by (intro clean_intros) (assumption | simp)+

lemma clean_parse_local_ar [clean_intros]: "clean_failure ov (parse_local_ar v)"
  unfolding parse_local_ar_def by (intro clean_intros) (assumption | simp)+

lemma clean_parse_codec [clean_intros]: "clean_failure ov (parse_codec v)"
  unfolding parse_codec_def by (intro clean_intros) (assumption | simp)+

lemma clean_parse_limits [clean_intros]: "clean_failure ov (parse_limits v)"
  unfolding parse_limits_def by (intro clean_intros) (assumption | simp)+

lemma clean_parse_license_destination [clean_intros]: "clean_failure ov (parse_license_destination v)"
  unfolding parse_license_destination_def by (intro clean_intros) (assumption | simp)+

text \<open>The role has been checked, so the table of engine names has it.\<close>

lemma engine_name_of_role:
  assumes "role \<in> pys ` set ENGINE_ROLES"
  obtains n where "engine_name_of role = Inr n"
  using assms by (auto simp: engine_name_of_def ENGINE_ROLES_def ENGINE_NAMES_BY_ROLE_def)

lemma clean_parse_engine_destination [clean_intros]: "clean_failure ov (parse_engine_destination v)"
proof -
  have "clean_failure ov (engine_name_of role)" if "role \<in> pys ` set ENGINE_ROLES" for role
    using that by (rule engine_name_of_role) (simp add: clean_Inr)
  then show ?thesis
    unfolding parse_engine_destination_def
    by (intro clean_intros) (assumption | simp add: guardE_eq_Inr)+
qed

lemma clean_check_destination_paths [clean_intros]: "clean_failure ov (check_destination_paths ps)"
  unfolding check_destination_paths_def by (intro clean_intros)

lemma clean_check_license_roles [clean_intros]: "clean_failure ov (check_license_roles ls)"
  unfolding check_license_roles_def by (intro clean_intros)

lemma clean_check_engine_roles [clean_intros]: "clean_failure ov (check_engine_roles es)"
  unfolding check_engine_roles_def by (intro clean_intros)

lemma clean_parse_destinations [clean_intros]: "clean_failure ov (parse_destinations v)"
  unfolding parse_destinations_def Let_def by (intro clean_intros) (assumption | simp)+

end
