(* ===== verification/PackageSpecFacts.thy ===== *)
theory PackageSpecFacts
  imports PackageSpec
begin

text \<open>
  What an accepted package specification guarantees. The sections the manifest repeats are codecs
  (\<open>json_codec\<close>): parsing what \<open>to_json\<close> writes gives the same section. The destinations of an accepted
  specification are distinct, safe and laid out so that every file can be created.
\<close>

subsection \<open>Sections that survive the manifest\<close>

lemma require_object_JObj: "map fst kvs = map pys keys \<Longrightarrow> require_object (JObj kvs) keys = Inr kvs"
  by (simp add: require_object_Inr_iff flip: set_map)

lemma special_tokens_reparse:
  "parse_special_tokens n m v = Inr r \<Longrightarrow> parse_special_tokens n m (special_tokens_json r) = Inr r"
  by (auto simp: parse_special_tokens_def special_tokens_json_def require_object_JObj field_def
      result_simps accessor_simps)

lemma cfg_reparse:
  "parse_classifier_free_guidance v = Inr r \<Longrightarrow>
   parse_classifier_free_guidance (classifier_free_guidance_json r) = Inr r"
  by (auto simp: parse_classifier_free_guidance_def classifier_free_guidance_json_def
      require_object_JObj field_def result_simps accessor_simps)

lemma alignment_reparse:
  "parse_alignment env v = Inr r \<Longrightarrow> parse_alignment env (alignment_json r) = Inr r"
  by (auto simp: parse_alignment_def alignment_json_def require_object_JObj field_def
      result_simps accessor_simps)

lemma rng_reparse: "parse_rng v = Inr r \<Longrightarrow> parse_rng (rng_json r) = Inr r"
  by (auto simp: parse_rng_def rng_json_def require_object_JObj field_def
      result_simps accessor_simps)

lemma sampling_reparse:
  "parse_sampling env v = Inr r \<Longrightarrow> parse_sampling env (sampling_json r) = Inr r"
  by (auto simp: parse_sampling_def sampling_json_def require_object_JObj field_def
      result_simps accessor_simps rng_reparse)

lemma position_embedding_reparse:
  "parse_position_embedding v = Inr r \<Longrightarrow>
   parse_position_embedding (position_embedding_json r) = Inr r"
  by (auto simp: parse_position_embedding_def position_embedding_json_def require_object_JObj field_def
      result_simps accessor_simps)

lemma any_int_Inr_iff [accessor_simps]: "any_int v = Inr i \<longleftrightarrow> v = JInt i"
  by (cases v) auto

lemma local_ar_reparse: "parse_local_ar v = Inr r \<Longrightarrow> parse_local_ar (local_ar_json r) = Inr r"
  by (auto simp: parse_local_ar_def local_ar_json_def require_object_JObj field_def
      result_simps accessor_simps position_embedding_reparse)

interpretation special_tokens: json_codec "parse_special_tokens n m" special_tokens_json for n m
  by unfold_locales (rule special_tokens_reparse)

interpretation cfg: json_codec parse_classifier_free_guidance classifier_free_guidance_json
  by unfold_locales (rule cfg_reparse)

interpretation alignment: json_codec "parse_alignment env" alignment_json for env
  by unfold_locales (rule alignment_reparse)

interpretation rng: json_codec parse_rng rng_json
  by unfold_locales (rule rng_reparse)

interpretation sampling: json_codec "parse_sampling env" sampling_json for env
  by unfold_locales (rule sampling_reparse)

interpretation position_embedding: json_codec parse_position_embedding position_embedding_json
  by unfold_locales (rule position_embedding_reparse)

interpretation local_ar: json_codec parse_local_ar local_ar_json
  by unfold_locales (rule local_ar_reparse)

subsection \<open>Destinations\<close>

lemma parse_license_destination_path:
  "parse_license_destination v = Inr l \<Longrightarrow> require_relative_path (JStr (ld_path l)) = Inr (ld_path l)"
  by (auto simp: parse_license_destination_def result_simps require_relative_path_Inr_iff)

lemma parse_engine_destination_path:
  "parse_engine_destination v = Inr d \<Longrightarrow> require_relative_path (JStr (ed_path d)) = Inr (ed_path d)"
  by (auto simp: parse_engine_destination_def result_simps require_relative_path_Inr_iff)

lemma parse_engine_destination_name:
  "parse_engine_destination v = Inr d \<Longrightarrow> engine_name_of (ed_role d) = Inr (ed_name d)"
  by (auto simp: parse_engine_destination_def result_simps)

lemma mapE_all: "mapE f vs = Inr xs \<Longrightarrow> (\<And>v x. f v = Inr x \<Longrightarrow> P x) \<Longrightarrow> \<forall>x \<in> set xs. P x"
  by (induction vs arbitrary: xs) (auto simp: bindE_eq_Inr)

text \<open>What the checks of \<open>parse_destinations\<close> leave of a destination list.\<close>

definition destinations_inv :: "destinations \<Rightarrow> bool" where
  "destinations_inv d \<longleftrightarrow>
     check_destination_paths (all_paths d) = Inr () \<and>
     check_license_roles (ds_licenses d) = Inr () \<and>
     check_engine_roles (ds_engines d) = Inr () \<and>
     (\<forall>p \<in> set (all_paths d). require_relative_path (JStr p) = Inr p) \<and>
     (\<forall>e \<in> set (ds_engines d). engine_name_of (ed_role e) = Inr (ed_name e))"

lemma relative_path_self: "require_relative_path v = Inr t \<Longrightarrow> require_relative_path (JStr t) = Inr t"
  by (rule relative_path.reparse)

lemma parse_destinations_inv: "parse_destinations v = Inr d \<Longrightarrow> destinations_inv d"
  unfolding parse_destinations_def Let_def bindE_eq_Inr
  apply (elim exE conjE)
  apply (frule mapE_all [where f = parse_license_destination], erule parse_license_destination_path)
  apply (frule mapE_all [where f = parse_engine_destination], erule parse_engine_destination_path)
  apply (frule mapE_all [where f = parse_engine_destination], erule parse_engine_destination_name)
  apply (auto simp: destinations_inv_def all_paths_def intro: relative_path_self)
  done

lemma proper_components_facts:
  assumes "proper_components p"
  shows "pure_root p = []" and "pure_components p = split_slash p"
proof -
  from assms have plain: "\<forall>c \<in> set (split_slash p). c \<noteq> [] \<and> c \<noteq> [46]"
    by (simp add: proper_components_def)
  then show "pure_components p = split_slash p" by (rule pure_components_normal)
  from plain show "pure_root p = []" using normal_relative_iff [of p] by blast
qed

lemma dot_facts: "pure_root [46] = []" "pure_components [46] = []"
  by (simp_all add: pure_root_def pure_components_def)

text \<open>The single dot is accepted as a path, but it is a parent of every other one.\<close>

lemma dot_rejected:
  assumes paths: "\<forall>p \<in> set ps. p = [46] \<or> proper_components p"
    and "\<forall>a \<in> set ps. \<forall>b \<in> set ps. a \<noteq> b \<longrightarrow> \<not> is_parent_of a b" and "distinct ps" and "2 \<le> length ps"
  shows "\<forall>p \<in> set ps. proper_components p"
proof (rule ccontr)
  assume "\<not> ?thesis"
  with paths have dot: "[46] \<in> set ps" by auto
  have "1 < card (set ps)" using assms(3,4) by (simp add: distinct_card)
  then obtain q where q: "q \<in> set ps" "q \<noteq> [46]"
    by (metis card.empty card_1_singleton_iff is_singletonI' is_singleton_altdef less_irrefl not_one_less_zero)
  with paths have "proper_components q" by blast
  then have "is_parent_of [46] q"
    by (simp add: is_parent_of_def proper_components_facts dot_facts strict_prefix_def prefix_def)
      (metis append_Nil split_slash_nonempty)
  with assms(2) dot q show False by metis
qed

lemma check_destination_paths_iff:
  "check_destination_paths ps = Inr u \<longleftrightarrow>
     distinct ps \<and> (\<forall>a \<in> set ps. \<forall>b \<in> set ps. a \<noteq> b \<longrightarrow> \<not> is_parent_of a b) \<and>
     (\<forall>a \<in> set ps. a \<notin> set reserved_paths \<and> (\<forall>r \<in> set reserved_paths. \<not> is_parent_of r a))"
  by (auto simp: check_destination_paths_def bindE_eq_Inr guardE_eq_Inr list_ex_iff)

lemma split_reserved:
  "split_slash (pys MANIFEST_NAME) = [pys MANIFEST_NAME]"
  "split_slash (pys MANIFEST_DIGEST_NAME) = [pys MANIFEST_DIGEST_NAME]"
  by (simp_all add: MANIFEST_NAME_def MANIFEST_DIGEST_NAME_def pys_def split_slash_single)

lemma not_below_reserved:
  assumes "proper_components p" and "split_slash r = [r]" and "proper_components r"
    and "p \<noteq> r" and "\<not> is_parent_of r p"
  shows "hd (split_slash p) \<noteq> r"
proof
  assume hd: "hd (split_slash p) = r"
  obtain c cs where p: "split_slash p = c # cs" by (cases "split_slash p") auto
  with hd have "c = r" by simp
  show False
  proof (cases cs)
    case Nil
    with p \<open>c = r\<close> assms(2) have "split_slash p = split_slash r" by simp
    then have "p = r" by (rule split_slash_inject)
    with assms(4) show False ..
  next
    case (Cons d ds)
    with p \<open>c = r\<close> assms(1,2,3) have "is_parent_of r p"
      by (simp add: is_parent_of_def proper_components_facts)
    with assms(5) show False ..
  qed
qed

lemma proper_reserved: "proper_components (pys MANIFEST_NAME)" "proper_components (pys MANIFEST_DIGEST_NAME)"
  by (simp_all add: proper_components_def split_reserved)
    (simp_all add: MANIFEST_NAME_def MANIFEST_DIGEST_NAME_def pys_def)

lemma destinations_lengths:
  assumes "destinations_inv d"
  shows "length (ds_licenses d) = 8" and "length (ds_engines d) = 7" and "length (all_paths d) = 22"
proof -
  from assms have "map ld_role (ds_licenses d) = map pys LICENSE_ROLES"
    by (simp add: destinations_inv_def check_license_roles_def guardE_eq_Inr)
  then have "length (map ld_role (ds_licenses d)) = length (map pys LICENSE_ROLES)" by simp
  then show l: "length (ds_licenses d) = 8" by (simp add: LICENSE_ROLES_def)
  from assms show e: "length (ds_engines d) = 7"
    by (simp add: destinations_inv_def check_engine_roles_def bindE_eq_Inr guardE_eq_Inr ENGINE_ROLES_def)
  from l e show "length (all_paths d) = 22" by (simp add: all_paths_def)
qed

lemma destinations_paths:
  assumes inv: "destinations_inv d" and p: "p \<in> set (all_paths d)"
  shows "p \<noteq> []" and "clean_chars p" and "proper_components p"
proof -
  from inv have ok: "\<forall>q \<in> set (all_paths d). q \<noteq> [] \<and> clean_chars q \<and> (q = [46] \<or> proper_components q)"
    by (simp add: destinations_inv_def require_relative_path_Inr_iff)
  with p show "p \<noteq> []" "clean_chars p" by simp_all
  from inv have "distinct (all_paths d)"
    "\<forall>a \<in> set (all_paths d). \<forall>b \<in> set (all_paths d). a \<noteq> b \<longrightarrow> \<not> is_parent_of a b"
    unfolding destinations_inv_def check_destination_paths_iff by blast+
  with dot_rejected [of "all_paths d"] ok destinations_lengths(3) [OF inv]
  have "\<forall>q \<in> set (all_paths d). proper_components q" by simp
  with p show "proper_components p" by blast
qed

lemma destinations_prefix_free:
  assumes inv: "destinations_inv d" and "p \<in> set (all_paths d)" "q \<in> set (all_paths d)" "p \<noteq> q"
  shows "\<not> prefix (split_slash p) (split_slash q)"
proof
  assume pre: "prefix (split_slash p) (split_slash q)"
  from \<open>p \<noteq> q\<close> have "split_slash p \<noteq> split_slash q" using split_slash_inject by blast
  with pre have "is_parent_of p q"
    using destinations_paths(3) [OF inv] assms(2,3)
    by (simp add: is_parent_of_def proper_components_facts strict_prefix_def)
  with inv assms(2-4) show False
    by (auto simp: destinations_inv_def check_destination_paths_iff)
qed

lemma destinations_not_reserved:
  assumes inv: "destinations_inv d" and p: "p \<in> set (all_paths d)"
  shows "hd (split_slash p) \<noteq> pys MANIFEST_NAME" and "hd (split_slash p) \<noteq> pys MANIFEST_DIGEST_NAME"
proof -
  from inv p have free: "\<forall>r \<in> set reserved_paths. p \<noteq> r \<and> \<not> is_parent_of r p"
    by (auto simp: destinations_inv_def check_destination_paths_iff)
  note proper = destinations_paths(3) [OF inv p]
  show "hd (split_slash p) \<noteq> pys MANIFEST_NAME"
    using free by (intro not_below_reserved proper split_reserved proper_reserved)
      (simp_all add: reserved_paths_def)
  show "hd (split_slash p) \<noteq> pys MANIFEST_DIGEST_NAME"
    using free by (intro not_below_reserved proper split_reserved proper_reserved)
      (simp_all add: reserved_paths_def)
qed

subsection \<open>An accepted specification\<close>

definition demo_digest :: pystr where "demo_digest = replicate 64 48"
definition demo_revision :: pystr where "demo_revision = replicate 40 97"

lemma demo_digest_ok [simp]: "sha256_pattern demo_digest" "git_sha1_pattern demo_revision"
  by (simp_all add: sha256_pattern_def git_sha1_pattern_def lower_hex_pattern_def demo_digest_def
      demo_revision_def is_hex_char_def list_all_iff)

definition demo_special_tokens :: special_tokens_spec where
  "demo_special_tokens =
     \<lparr>st_bos_token_id = 100, st_eos_token_id = 101, st_japanese_global_pad_token_id = 7\<rparr>"

definition demo_cfg :: classifier_free_guidance_spec where
  "demo_cfg = \<lparr>cf_row_order = pys ''cond_uncond'', cf_conditional_row_index = 0,
     cf_conditional_condition_source = pys ''text'', cf_conditional_mask_source = pys ''text'',
     cf_unconditional_row_index = 1, cf_unconditional_condition_source = pys ''zeros'',
     cf_unconditional_mask_source = pys ''zeros''\<rparr>"

definition demo_alignment_spec :: alignment_spec where
  "demo_alignment_spec = \<lparr>as_dtype = pys ''bf16'', as_source_decoder_layers = [4, 6],
     as_prefill_output_binding = pys ''prefill_alignment'', as_step_prior_input_binding = pys ''prior'',
     as_step_alignment_output_binding = pys ''alignment'', as_prior_epsilon = 1 / 10,
     as_initial_attended = 1, as_ignored_terminal_tokens = 3, as_short_text_no_prior_max_tokens = 5,
     as_lookahead = 6, as_sink_threshold = 4, as_source_position_policy = pys ''last''\<rparr>"

definition demo_rng :: rng_spec where
  "demo_rng = \<lparr>rg_algorithm = pys ''philox'', rg_seed_bits = 64, rg_counter_bits = 64,
     rg_state_location = pys ''device'', rg_ownership = pys ''session'', rg_deterministic = True\<rparr>"

definition demo_sampling :: sampling_spec where
  "demo_sampling = \<lparr>sp_algorithm = pys ''top_k'', sp_top_k = 80, sp_temperature = 3 / 5,
     sp_eos_token_id = 2017, sp_forbidden_token_ids = LOCAL_AR_STATIC_FORBIDDEN_TOKEN_IDS,
     sp_invalid_distribution_policy = pys ''reject_row'', sp_next_embedding_location = pys ''device'',
     sp_rng = demo_rng\<rparr>"

definition demo_position_embedding :: position_embedding_spec where
  "demo_position_embedding = \<lparr>pe_kind = pys ''table'', pe_positions = [0, 1], pe_source_shape = [18, 768],
     pe_dtype = pys ''bf16'', pe_source_table_sha256 = pys SOFIA_LOCAL_AR_POSITION_TABLE_SHA256\<rparr>"

definition demo_local_ar :: local_ar_spec where
  "demo_local_ar = \<lparr>la_engine_name = pys ''local_ar'', la_execution = pys ''graph'', la_iterations = 16,
     la_positions = [0, 1], la_position_embedding = demo_position_embedding, la_codebooks_per_frame = 8,
     la_frames_per_decoder_step = 2, la_sampling_plugin_name = pys ''MagpieLocalARSampling'',
     la_invalid_rows_encoding = pys ''bitmask'', la_no_eos_frame_index = -1\<rparr>"

definition demo_codec :: codec_spec where
  "demo_codec = \<lparr>cd_initial_engine_name = pys ''nanocodec_initial'',
     cd_steady_engine_name = pys ''nanocodec_steady'', cd_tail_engine_name = pys ''nanocodec_tail'',
     cd_sample_rate_hz = 22050, cd_hop_length_samples = 1024, cd_channels = 1,
     cd_pcm_format = pys ''f32le'', cd_stateful = True, cd_initial_frames = 4, cd_steady_frames = 8,
     cd_tail_min_frames = 1, cd_tail_max_frames = 8, cd_eos_frame_is_audio = False,
     cd_zero_frame_finalization = pys ZERO_FRAME_FINALIZATION\<rparr>"

definition demo_json :: "(string \<times> json) list \<Rightarrow> json" where
  "demo_json kvs = JObj (map (map_prod pys id) kvs)"

text \<open>One-letter destinations: \<open>a\<close> to \<open>v\<close>.\<close>

definition demo_licenses :: "license_destination list" where
  "demo_licenses =
     map (\<lambda>(role, c). \<lparr>ld_role = pys role, ld_path = [c]\<rparr>) (zip LICENSE_ROLES [104..<112])"

definition demo_engines :: "engine_destination list" where
  "demo_engines =
     map (\<lambda>((role, name), c). \<lparr>ed_name = pys name, ed_role = pys role, ed_path = [c]\<rparr>)
       (zip ENGINE_NAMES_BY_ROLE [112..<119])"

definition demo_destinations :: destinations where
  "demo_destinations =
     \<lparr>ds_source_model_acceptance_receipt = [97], ds_export_receipt = [98],
      ds_tokenizer_identity_receipt = [99], ds_plugin_build_receipt = [100], ds_plugin = [101],
      ds_golden_fixture = [102], ds_golden_receipt = [103],
      ds_licenses = demo_licenses, ds_engines = demo_engines\<rparr>"

definition license_json :: "license_destination \<Rightarrow> json" where
  "license_json l = demo_json [(''role'', JStr (ld_role l)), (''path'', JStr (ld_path l))]"

definition engine_json :: "engine_destination \<Rightarrow> json" where
  "engine_json e =
     demo_json [(''name'', JStr (ed_name e)), (''role'', JStr (ed_role e)), (''path'', JStr (ed_path e))]"

definition demo_destinations_json :: json where
  "demo_destinations_json = demo_json
     [(''source_model_acceptance_receipt'', JStr [97]), (''export_receipt'', JStr [98]),
      (''tokenizer_identity_receipt'', JStr [99]), (''plugin_build_receipt'', JStr [100]),
      (''plugin'', JStr [101]), (''golden_fixture'', JStr [102]), (''golden_receipt'', JStr [103]),
      (''licenses'', JList (map license_json demo_licenses)),
      (''engines'', JList (map engine_json demo_engines))]"

lemma demo_special_tokens_parse:
  "parse_special_tokens 100 102 (special_tokens_json demo_special_tokens) = Inr demo_special_tokens"
  by (simp add: parse_special_tokens_def special_tokens_json_def demo_special_tokens_def
      require_object_JObj field_def pkg_require_int_def)

lemmas section_eval = require_object_JObj field_def pkg_require_int_def require_identifier_def
  require_string_def require_sha256_def require_int_tuple_def identifier_pattern_def is_alnum_def pys_def

lemma demo_cfg_parse:
  "parse_classifier_free_guidance (classifier_free_guidance_json demo_cfg) = Inr demo_cfg"
  by (simp add: parse_classifier_free_guidance_def classifier_free_guidance_json_def demo_cfg_def
      section_eval)

lemma demo_alignment_parse:
  "parse_alignment env (alignment_json demo_alignment_spec) = Inr demo_alignment_spec"
  by (simp add: parse_alignment_def alignment_json_def demo_alignment_spec_def section_eval)

lemma demo_rng_parse: "parse_rng (rng_json demo_rng) = Inr demo_rng"
  by (simp add: parse_rng_def rng_json_def demo_rng_def section_eval)

lemma demo_sampling_parse: "parse_sampling env (sampling_json demo_sampling) = Inr demo_sampling"
  by (simp add: parse_sampling_def sampling_json_def demo_sampling_def section_eval demo_rng_parse
      LOCAL_AR_AUDIO_EOS_ID_def LOCAL_AR_STATIC_FORBIDDEN_TOKEN_IDS_def)

lemma demo_position_embedding_parse:
  "parse_position_embedding (position_embedding_json demo_position_embedding) = Inr demo_position_embedding"
  by (simp add: parse_position_embedding_def position_embedding_json_def demo_position_embedding_def
      section_eval SOFIA_LOCAL_AR_POSITION_TABLE_SHA256_def sha256_pattern_def lower_hex_pattern_def
      is_hex_char_def)

lemma demo_local_ar_parse: "parse_local_ar (local_ar_json demo_local_ar) = Inr demo_local_ar"
  by (simp add: parse_local_ar_def local_ar_json_def demo_local_ar_def section_eval
      demo_position_embedding_parse)

lemma role_patterns:
  "\<forall>r \<in> set LICENSE_ROLES. identifier_pattern (pys r)"
  "\<forall>(r, n) \<in> set ENGINE_NAMES_BY_ROLE. identifier_pattern (pys r) \<and> identifier_pattern (pys n)"
  by (simp_all add: LICENSE_ROLES_def ENGINE_NAMES_BY_ROLE_def identifier_pattern_def is_alnum_def pys_def)

lemma engine_table:
  "(r, n) \<in> set ENGINE_NAMES_BY_ROLE \<Longrightarrow> r \<in> set ENGINE_ROLES \<and> engine_name_of (pys r) = Inr (pys n)"
  by (auto simp: ENGINE_NAMES_BY_ROLE_def ENGINE_ROLES_def engine_name_of_def)

lemma parse_license_json:
  assumes "\<exists>r \<in> set LICENSE_ROLES. ld_role l = pys r"
    and "require_relative_path (JStr (ld_path l)) = Inr (ld_path l)"
  shows "parse_license_destination (license_json l) = Inr l"
  using assms role_patterns(1)
  by (auto simp: parse_license_destination_def license_json_def demo_json_def require_object_JObj
      field_def bindE_eq_Inr accessor_simps guardE_def)

lemma parse_engine_json:
  assumes "\<exists>(r, n) \<in> set ENGINE_NAMES_BY_ROLE. ed_role e = pys r \<and> ed_name e = pys n"
    and "require_relative_path (JStr (ed_path e)) = Inr (ed_path e)"
  shows "parse_engine_destination (engine_json e) = Inr e"
proof -
  from assms(1) obtain r n where rn: "(r, n) \<in> set ENGINE_NAMES_BY_ROLE"
    and e: "ed_role e = pys r" "ed_name e = pys n" by blast
  from rn role_patterns(2) have "identifier_pattern (pys r)" "identifier_pattern (pys n)" by blast+
  with engine_table [OF rn] e assms(2) show ?thesis
    by (simp add: parse_engine_destination_def engine_json_def demo_json_def require_object_JObj
        field_def bindE_eq_Inr accessor_simps guardE_def)
qed

lemma mapE_section: "\<forall>x \<in> set xs. f (g x) = Inr x \<Longrightarrow> mapE f (map g xs) = Inr xs"
  by (induction xs) auto

lemma demo_path_parse: "require_relative_path (JStr [c]) = Inr [c]" if "97 \<le> c" "c < 119"
  using that by (simp add: require_relative_path_Inr_iff clean_chars_def proper_components_def)

lemma demo_licenses_parse:
  "mapE parse_license_destination (map license_json demo_licenses) = Inr demo_licenses"
proof (rule mapE_section, rule ballI)
  fix l assume "l \<in> set demo_licenses"
  then obtain r c where "(r, c) \<in> set (zip LICENSE_ROLES [104..<112])"
    and l: "l = \<lparr>ld_role = pys r, ld_path = [c]\<rparr>" by (auto simp: demo_licenses_def)
  then have "r \<in> set LICENSE_ROLES" "c \<in> set [104..<112]" by (blast dest: set_zip_leftD set_zip_rightD)+
  with l show "parse_license_destination (license_json l) = Inr l"
    by (intro parse_license_json) (auto intro!: demo_path_parse)
qed

lemma demo_engines_parse:
  "mapE parse_engine_destination (map engine_json demo_engines) = Inr demo_engines"
proof (rule mapE_section, rule ballI)
  fix e assume "e \<in> set demo_engines"
  then obtain r n c where "((r, n), c) \<in> set (zip ENGINE_NAMES_BY_ROLE [112..<119])"
    and e: "e = \<lparr>ed_name = pys n, ed_role = pys r, ed_path = [c]\<rparr>" by (auto simp: demo_engines_def)
  then have "(r, n) \<in> set ENGINE_NAMES_BY_ROLE" "c \<in> set [112..<119]"
    by (blast dest: set_zip_leftD set_zip_rightD)+
  with e show "parse_engine_destination (engine_json e) = Inr e"
    by (intro parse_engine_json) (auto intro!: demo_path_parse)
qed

text \<open>One-component paths need only be distinct.\<close>

lemma flat_paths_pass:
  assumes "distinct ps" and "\<forall>p \<in> set ps. \<exists>c. p = [c] \<and> c \<noteq> 46 \<and> c \<noteq> 47"
  shows "check_destination_paths ps = Inr ()"
proof -
  have comps: "pure_components p = [p]" if "p \<in> set ps" for p
    using assms(2) that by (auto simp: pure_components_def)
  have "\<not> is_parent_of a b" if "a \<in> set ps" "b \<in> set ps" for a b
    by (simp add: is_parent_of_def comps that)
  moreover have "\<not> is_parent_of (pys r) b" if "b \<in> set ps" "r = MANIFEST_NAME \<or> r = MANIFEST_DIGEST_NAME" for b r
    using that proper_reserved by (auto simp: is_parent_of_def comps proper_components_facts split_reserved)
  moreover have "pys MANIFEST_NAME \<notin> set ps \<and> pys MANIFEST_DIGEST_NAME \<notin> set ps"
    using assms(2) by (auto simp: MANIFEST_NAME_def MANIFEST_DIGEST_NAME_def pys_def)
  ultimately show ?thesis
    using assms(1) by (auto simp: check_destination_paths_iff reserved_paths_def)
qed

lemma demo_all_paths: "all_paths demo_destinations = map (\<lambda>c. [c]) [97..<119]"
  by (simp add: all_paths_def demo_destinations_def demo_licenses_def demo_engines_def LICENSE_ROLES_def
      ENGINE_NAMES_BY_ROLE_def upt_rec)

lemma demo_paths_pass: "check_destination_paths (all_paths demo_destinations) = Inr ()"
  by (rule flat_paths_pass) (auto simp: demo_all_paths distinct_map inj_on_def)

lemma demo_license_roles_pass: "check_license_roles demo_licenses = Inr ()"
  by (simp add: check_license_roles_def demo_licenses_def LICENSE_ROLES_def upt_rec)

lemma demo_engine_roles_pass: "check_engine_roles demo_engines = Inr ()"
  by (simp add: check_engine_roles_def demo_engines_def ENGINE_NAMES_BY_ROLE_def ENGINE_ROLES_def upt_rec
      card_insert_if)

lemma demo_destinations_parse: "parse_destinations demo_destinations_json = Inr demo_destinations"
  using demo_paths_pass
  by (simp add: parse_destinations_def demo_destinations_json_def demo_json_def require_object_JObj
      field_def demo_licenses_parse demo_license_roles_pass demo_engines_parse demo_engine_roles_pass
      demo_path_parse demo_destinations_def Let_def)

definition demo_env :: pkg_env where
  "demo_env = \<lparr>pk_loads = (\<lambda>_. None), pk_float_of_int = (\<lambda>i. Some (of_int i)),
     pk_fromisoformat = (\<lambda>_. Some (Some 0))\<rparr>"

definition demo_source_model_json :: json where
  "demo_source_model_json = demo_json
     [(''model_id'', JStr (pys ''magpie'')), (''version'', JStr (pys ''1'')),
      (''revision'', JStr demo_revision), (''source_sha256'', JStr demo_digest)]"

definition demo_export_json :: json where
  "demo_export_json = demo_json
     [(''format'', JStr (pys EXPORT_FORMAT)), (''source_revision'', JStr (pys ''main'')),
      (''voice_id'', JStr (pys ''sofia'')), (''baked_context_length'', JInt 100),
      (''baked_context_sha256'', JStr demo_digest), (''audio_bos_baked'', JBool True),
      (''receipt_artifact_role'', JStr (pys ''export_receipt''))]"

definition demo_tokenizer_json :: json where
  "demo_tokenizer_json = demo_json
     [(''kind'', JStr (pys ''ipa'')), (''tokenizer_vocabulary_size'', JInt 100),
      (''text_embedding_rows'', JInt 102), (''special_tokens'', special_tokens_json demo_special_tokens),
      (''identity_sha256'', JStr demo_digest)]"

definition demo_kv_json :: json where
  "demo_kv_json = demo_json
     [(''layout'', JStr (pys ''bshd'')), (''prefix_length'', JInt 1),
      (''maximum_generated_steps'', JInt 250), (''update_mode'', JStr (pys ''in_place'')),
      (''position_semantics'', JStr (pys ''absolute'')), (''first_step_position'', JInt 0),
      (''step_position_upper_bound_exclusive'', JInt 250)]"

definition demo_codec_json :: json where
  "demo_codec_json = demo_json
     [(''initial_engine_name'', JStr (pys ''nanocodec_initial'')),
      (''steady_engine_name'', JStr (pys ''nanocodec_steady'')),
      (''tail_engine_name'', JStr (pys ''nanocodec_tail'')), (''sample_rate_hz'', JInt 22050),
      (''hop_length_samples'', JInt 1024), (''channels'', JInt 1), (''pcm_format'', JStr (pys ''f32le'')),
      (''stateful'', JBool True), (''initial_frames'', JInt 4), (''steady_frames'', JInt 8),
      (''tail_min_frames'', JInt 1), (''tail_max_frames'', JInt 8), (''eos_frame_is_audio'', JBool False),
      (''zero_frame_finalization'', JStr (pys ZERO_FRAME_FINALIZATION))]"

definition demo_limits_json :: json where
  "demo_limits_json = demo_json
     (map (\<lambda>k. (k, JInt 512))
       [''maximum_text_tokens'', ''maximum_decoder_steps'', ''maximum_audio_frames'', ''maximum_sessions'',
        ''maximum_concurrent_requests'', ''pcm_ring_capacity_frames'', ''maximum_workspace_bytes'',
        ''maximum_device_memory_bytes''])"

definition demo_package_json :: json where
  "demo_package_json = demo_json
     [(''schema_version'', JInt 1), (''bundle_id'', JStr (pys ''demo'')),
      (''created_at_utc'', JStr (pys ''2026-01-01T00:00:00Z'')), (''source_model'', demo_source_model_json),
      (''export'', demo_export_json), (''tokenizer'', demo_tokenizer_json),
      (''plugin'', demo_json [(''name'', JStr (pys ''plugins''))]),
      (''classifier_free_guidance'', classifier_free_guidance_json demo_cfg), (''kv_cache'', demo_kv_json),
      (''alignment'', alignment_json demo_alignment_spec), (''sampling'', sampling_json demo_sampling),
      (''local_ar'', local_ar_json demo_local_ar), (''codec'', demo_codec_json),
      (''limits'', demo_limits_json), (''destinations'', demo_destinations_json)]"

lemma demo_source_model_parse: "\<exists>x. parse_source_model demo_source_model_json = Inr x"
  by (simp add: parse_source_model_def demo_source_model_json_def demo_json_def section_eval
      require_git_sha1_def) (simp add: demo_digest_def demo_revision_def)

lemma demo_export_parse: "\<exists>x. parse_export demo_export_json = Inr x"
  by (simp add: parse_export_def demo_export_json_def demo_json_def section_eval EXPORT_FORMAT_def)
    (simp add: demo_digest_def)

definition demo_tokenizer :: tokenizer_spec where
  "demo_tokenizer =
     \<lparr>tk_kind = pys ''ipa'', tk_tokenizer_vocabulary_size = 100, tk_text_embedding_rows = 102,
      tk_special_tokens = demo_special_tokens, tk_identity_sha256 = demo_digest\<rparr>"

lemma demo_tokenizer_parse: "parse_tokenizer demo_tokenizer_json = Inr demo_tokenizer"
  by (simp add: parse_tokenizer_def demo_tokenizer_json_def demo_json_def section_eval
      demo_special_tokens_parse demo_tokenizer_def) (simp add: demo_digest_def)

lemma demo_kv_parse: "\<exists>x. parse_kv_cache demo_kv_json = Inr x"
  by (simp add: parse_kv_cache_def demo_kv_json_def demo_json_def section_eval)

lemma demo_codec_parse: "parse_codec demo_codec_json = Inr demo_codec"
  by (simp add: parse_codec_def demo_codec_json_def demo_json_def section_eval demo_codec_def
      ZERO_FRAME_FINALIZATION_def)

lemma demo_limits_parse: "\<exists>x. parse_limits demo_limits_json = Inr x"
  by (simp add: parse_limits_def demo_limits_json_def demo_json_def section_eval)

lemma demo_package_parse:
  "\<exists>s. parse_package_spec demo_env demo_package_json = Inr s \<and> ps_destinations s = demo_destinations"
proof -
  obtain sm ex kv lm where
    "parse_source_model demo_source_model_json = Inr sm" "parse_export demo_export_json = Inr ex"
    "parse_kv_cache demo_kv_json = Inr kv" "parse_limits demo_limits_json = Inr lm"
    using demo_source_model_parse demo_export_parse demo_kv_parse demo_limits_parse by blast
  then show ?thesis
    by (simp add: parse_package_spec_def demo_package_json_def demo_json_def section_eval
        PACKAGE_SCHEMA_VERSION_def demo_tokenizer_parse demo_cfg_parse demo_alignment_parse
        demo_sampling_parse demo_local_ar_parse demo_codec_parse demo_destinations_parse
        parse_plugin_def require_timestamp_def demo_env_def)
qed

subsection \<open>Properties\<close>

lemma parse_package_spec_sections:
  assumes "parse_package_spec env v = Inr s"
  obtains doc where
    "\<exists>w. map_of doc (pys ''classifier_free_guidance'') = Some w \<and>
       parse_classifier_free_guidance w = Inr (ps_classifier_free_guidance s)"
    "\<exists>w. map_of doc (pys ''alignment'') = Some w \<and> parse_alignment env w = Inr (ps_alignment s)"
    "\<exists>w. map_of doc (pys ''sampling'') = Some w \<and> parse_sampling env w = Inr (ps_sampling s)"
    "\<exists>w. map_of doc (pys ''local_ar'') = Some w \<and> parse_local_ar w = Inr (ps_local_ar s)"
    "\<exists>w. map_of doc (pys ''tokenizer'') = Some w \<and> parse_tokenizer w = Inr (ps_tokenizer s)"
    "\<exists>w. map_of doc (pys ''codec'') = Some w \<and> parse_codec w = Inr (ps_codec s)"
    "\<exists>w. map_of doc (pys ''destinations'') = Some w \<and> parse_destinations w = Inr (ps_destinations s)"
  using assms
  unfolding parse_package_spec_def bindE_eq_Inr guardE_eq_Inr field_Inr_iff
  apply (elim exE conjE)
  subgoal premises prems for doc
    by (rule prems(1) [of doc]) (insert prems(2-), auto)
  done

lemma parse_tokenizer_special:
  assumes "parse_tokenizer v = Inr t"
  shows "\<exists>w. parse_special_tokens (tk_tokenizer_vocabulary_size t) (tk_text_embedding_rows t) w
           = Inr (tk_special_tokens t)"
  using assms by (auto simp: parse_tokenizer_def result_simps accessor_simps)

text \<open>C33: the sections of an accepted specification that the manifest repeats are faithful: the
  document \<open>to_json\<close> writes for each of them is accepted by the section's own parser and gives the
  same section.\<close>

theorem spec_sections_reparse:
  assumes "parse_package_spec env v = Inr s"
  shows "parse_classifier_free_guidance (classifier_free_guidance_json (ps_classifier_free_guidance s))
           = Inr (ps_classifier_free_guidance s) \<and>
         parse_alignment env (alignment_json (ps_alignment s)) = Inr (ps_alignment s) \<and>
         parse_sampling env (sampling_json (ps_sampling s)) = Inr (ps_sampling s) \<and>
         parse_local_ar (local_ar_json (ps_local_ar s)) = Inr (ps_local_ar s) \<and>
         parse_special_tokens (tk_tokenizer_vocabulary_size (ps_tokenizer s))
           (tk_text_embedding_rows (ps_tokenizer s)) (special_tokens_json (tk_special_tokens (ps_tokenizer s)))
           = Inr (tk_special_tokens (ps_tokenizer s))"
  using assms
  by (rule parse_package_spec_sections)
    (blast intro: cfg.reparse alignment.reparse sampling.reparse local_ar.reparse special_tokens.reparse
      dest: parse_tokenizer_special)

theorem spec_sections_reparse_witness:
  "\<exists>s. parse_package_spec demo_env demo_package_json = Inr s \<and>
     parse_local_ar (local_ar_json (ps_local_ar s)) = Inr (ps_local_ar s)"
proof -
  from demo_package_parse obtain s where "parse_package_spec demo_env demo_package_json = Inr s" by blast
  with spec_sections_reparse [OF this] show ?thesis by blast
qed

text \<open>C2: the destinations of an accepted specification: 22 distinct paths, each made of proper
  names, none a directory on the way to another, and none at or below one of the two manifest names.\<close>

theorem destinations_safe:
  assumes "parse_destinations v = Inr d"
  shows "length (all_paths d) = 22 \<and> distinct (all_paths d) \<and>
         (\<forall>p \<in> set (all_paths d). clean_chars p \<and> proper_components p \<and>
            hd (split_slash p) \<noteq> pys MANIFEST_NAME \<and> hd (split_slash p) \<noteq> pys MANIFEST_DIGEST_NAME) \<and>
         (\<forall>p \<in> set (all_paths d). \<forall>q \<in> set (all_paths d). p \<noteq> q \<longrightarrow> \<not> prefix (split_slash p) (split_slash q))"
proof -
  from assms have inv: "destinations_inv d" by (rule parse_destinations_inv)
  then have "distinct (all_paths d)" by (simp add: destinations_inv_def check_destination_paths_iff)
  with destinations_lengths(3) [OF inv] destinations_paths [OF inv] destinations_prefix_free [OF inv]
    destinations_not_reserved [OF inv]
  show ?thesis by blast
qed

theorem destinations_safe_witness:
  "parse_destinations demo_destinations_json = Inr demo_destinations \<and> distinct (all_paths demo_destinations)"
  using destinations_safe [OF demo_destinations_parse] demo_destinations_parse by blast

lemma permitted_tokens:
  "{0..<LOCAL_AR_VOCABULARY_SIZE} - set LOCAL_AR_STATIC_FORBIDDEN_TOKEN_IDS =
     insert LOCAL_AR_AUDIO_EOS_ID {0..<LOCAL_AR_CODEBOOK_SIZE}"
  by (auto simp: LOCAL_AR_VOCABULARY_SIZE_def LOCAL_AR_STATIC_FORBIDDEN_TOKEN_IDS_def
      LOCAL_AR_AUDIO_EOS_ID_def LOCAL_AR_CODEBOOK_SIZE_def)

lemma parse_sampling_tokens:
  "parse_sampling env v = Inr r \<Longrightarrow>
   sp_eos_token_id r = LOCAL_AR_AUDIO_EOS_ID \<and> sp_forbidden_token_ids r = LOCAL_AR_STATIC_FORBIDDEN_TOKEN_IDS"
  by (auto simp: parse_sampling_def result_simps)

lemma parse_tokenizer_bounds:
  "parse_tokenizer v = Inr t \<Longrightarrow>
   1 \<le> tk_tokenizer_vocabulary_size t \<and> tk_text_embedding_rows t < 2 ^ 31 \<and>
   (\<forall>i \<in> {st_bos_token_id (tk_special_tokens t), st_eos_token_id (tk_special_tokens t)}.
      tk_tokenizer_vocabulary_size t \<le> i \<and> i < tk_text_embedding_rows t) \<and>
   st_bos_token_id (tk_special_tokens t) \<noteq> st_eos_token_id (tk_special_tokens t) \<and>
   0 \<le> st_japanese_global_pad_token_id (tk_special_tokens t) \<and>
   st_japanese_global_pad_token_id (tk_special_tokens t) < tk_tokenizer_vocabulary_size t"
  by (auto simp: parse_tokenizer_def parse_special_tokens_def result_simps accessor_simps)

lemma parse_codec_streams:
  "parse_codec v = Inr c \<Longrightarrow>
   \<not> cd_eos_frame_is_audio c \<and> cd_zero_frame_finalization c = pys ZERO_FRAME_FINALIZATION"
  by (auto simp: parse_codec_def result_simps)

text \<open>The token contract of an accepted specification. Of the vocabulary of 2024 the sampler may
  draw exactly the 2016 codec tokens and the end of speech, which is not a codec frame; the two text
  control tokens are distinct rows reserved above the tokenizer's vocabulary, the padding token is
  inside it.\<close>

theorem spec_token_contract:
  assumes "parse_package_spec env v = Inr s"
  shows "{0..<LOCAL_AR_VOCABULARY_SIZE} - set (sp_forbidden_token_ids (ps_sampling s)) =
           insert (sp_eos_token_id (ps_sampling s)) {0..<LOCAL_AR_CODEBOOK_SIZE} \<and>
         sp_eos_token_id (ps_sampling s) \<notin> {0..<LOCAL_AR_CODEBOOK_SIZE} \<and>
         \<not> cd_eos_frame_is_audio (ps_codec s) \<and>
         (let t = ps_tokenizer s; k = tk_special_tokens t
          in tk_tokenizer_vocabulary_size t \<le> min (st_bos_token_id k) (st_eos_token_id k) \<and>
             max (st_bos_token_id k) (st_eos_token_id k) < tk_text_embedding_rows t \<and>
             tk_text_embedding_rows t < 2 ^ 31 \<and>
             st_bos_token_id k \<noteq> st_eos_token_id k \<and>
             st_japanese_global_pad_token_id k \<in> {0..<tk_tokenizer_vocabulary_size t})"
  using assms
proof (rule parse_package_spec_sections)
  fix doc
  assume "\<exists>w. map_of doc (pys ''sampling'') = Some w \<and> parse_sampling env w = Inr (ps_sampling s)"
  then have sampling: "sp_eos_token_id (ps_sampling s) = LOCAL_AR_AUDIO_EOS_ID"
    "sp_forbidden_token_ids (ps_sampling s) = LOCAL_AR_STATIC_FORBIDDEN_TOKEN_IDS"
    by (auto dest: parse_sampling_tokens)
  assume "\<exists>w. map_of doc (pys ''tokenizer'') = Some w \<and> parse_tokenizer w = Inr (ps_tokenizer s)"
  then obtain w where "parse_tokenizer w = Inr (ps_tokenizer s)" by blast
  note tokenizer = parse_tokenizer_bounds [OF this]
  assume "\<exists>w. map_of doc (pys ''codec'') = Some w \<and> parse_codec w = Inr (ps_codec s)"
  then have "\<not> cd_eos_frame_is_audio (ps_codec s)" by (auto dest: parse_codec_streams)
  with sampling tokenizer permitted_tokens show ?thesis
    by (simp add: Let_def) (simp add: LOCAL_AR_AUDIO_EOS_ID_def LOCAL_AR_CODEBOOK_SIZE_def)
qed

theorem spec_token_contract_witness:
  "\<exists>s. parse_package_spec demo_env demo_package_json = Inr s \<and> \<not> cd_eos_frame_is_audio (ps_codec s)"
proof -
  from demo_package_parse obtain s where "parse_package_spec demo_env demo_package_json = Inr s" by blast
  with spec_token_contract [OF this] show ?thesis by blast
qed

text \<open>A specification that is rejected raises the packager's own error, whatever the document
  holds; the one other exception is the OverflowError of an integer too large for a float. In particular
  no parser reads a key that may be absent, and a role's engine name is always in the table.\<close>

theorem spec_failures_are_clean:
  assumes "parse_package_spec env v = Inl e"
  shows "exn_class e = PackageError \<or>
         exn_class e = PyOverflowError \<and> (\<exists>i. pk_float_of_int env i = None)"
proof -
  let ?ov = "\<exists>i. pk_float_of_int env i = None"
  have ov: "\<forall>i. pk_float_of_int env i = None \<longrightarrow> ?ov" by blast
  have "clean_failure ?ov (parse_package_spec env v)"
    unfolding parse_package_spec_def by (intro clean_intros) (rule ov | assumption | simp)+
  with assms show ?thesis by (auto simp: clean_failure_def)
qed

theorem spec_failures_are_clean_witness:
  "parse_package_spec demo_env JNull = Inl (pkg_error '': expected an object'') \<and>
   exn_class (pkg_error '': expected an object'') = PackageError"
proof -
  have "parse_package_spec demo_env JNull = Inl (pkg_error '': expected an object'')"
    by (simp add: parse_package_spec_def require_object_def)
  with spec_failures_are_clean [OF this] show ?thesis by (simp add: demo_env_def)
qed

end
