(* ===== verification/EnginePlans.thy ===== *)
theory EnginePlans
  imports PackageSpec
begin

text \<open>
  Inspecting a deserialized TensorRT plan (\<open>tensor_dtype_name\<close>, \<open>inspect_engine\<close>, \<open>tensor_map\<close> and
  \<open>require_tensor\<close> of \<open>tools/bundle/package_runtime_bundle.py\<close>) and the dataclasses it fills.

  TensorRT is outside the repository: an engine is the record of the answers to the queries the source
  makes (\<open>trt_engine\<close>), indexed the way the source asks, and nothing is assumed of them. A name that is
  not a string is \<open>None\<close>. \<open>inspected_wf\<close> is the invariant of an inspected engine and \<open>inspect_engine_wf\<close>
  shows that every accepted plan has it.
\<close>

subsection \<open>Dataclasses\<close>

record tensor_spec =
  ts_name :: pystr
  ts_dtype :: pystr
  ts_shape :: "int list"
  ts_location :: pystr
  ts_shape_inference_io :: bool

definition tensor_spec_json :: "tensor_spec \<Rightarrow> json" where
  "tensor_spec_json t = JObj
     [(pys ''name'', JStr (ts_name t)), (pys ''dtype'', JStr (ts_dtype t)),
      (pys ''shape'', JList (map JInt (ts_shape t))), (pys ''location'', JStr (ts_location t)),
      (pys ''shape_inference_io'', JBool (ts_shape_inference_io t))]"

record tensor_range =
  tr_tensor_name :: pystr
  tr_minimum :: "int list"
  tr_optimum :: "int list"
  tr_maximum :: "int list"

definition tensor_range_json :: "tensor_range \<Rightarrow> json" where
  "tensor_range_json r = JObj
     [(pys ''tensor_name'', JStr (tr_tensor_name r)), (pys ''min'', JList (map JInt (tr_minimum r))),
      (pys ''opt'', JList (map JInt (tr_optimum r))), (pys ''max'', JList (map JInt (tr_maximum r)))]"

record optimization_profile =
  op_name :: pystr
  op_input_shapes :: "tensor_range list"
  op_input_values :: "tensor_range list"

definition optimization_profile_json :: "optimization_profile \<Rightarrow> json" where
  "optimization_profile_json p = JObj
     [(pys ''name'', JStr (op_name p)), (pys ''input_shapes'', JList (map tensor_range_json (op_input_shapes p))),
      (pys ''input_values'', JList (map tensor_range_json (op_input_values p)))]"

record inspected_engine =
  ie_inputs :: "tensor_spec list"
  ie_outputs :: "tensor_spec list"
  ie_profiles :: "optimization_profile list"

record file_artifact =
  fa_path :: pystr
  fa_sha256 :: pystr
  fa_size_bytes :: int

definition file_artifact_json :: "file_artifact \<Rightarrow> json" where
  "file_artifact_json f = JObj
     [(pys ''path'', JStr (fa_path f)), (pys ''sha256'', JStr (fa_sha256 f)),
      (pys ''size_bytes'', JInt (fa_size_bytes f))]"

subsection \<open>What TensorRT answers\<close>

datatype trt_dtype = TrtFloat32 | TrtFloat16 | TrtBFloat16 | TrtInt64 | TrtInt32 | TrtInt8 | TrtUint8 | TrtBool
  | TrtOther

datatype trt_mode = ModeInput | ModeOutput | ModeNone

datatype trt_location = LocationDevice | LocationHost

record trt_engine =
  num_optimization_profiles :: nat
  num_io_tensors :: nat
  get_tensor_name :: "nat \<Rightarrow> pystr option"
  get_tensor_mode :: "pystr \<Rightarrow> trt_mode"
  get_tensor_location :: "pystr \<Rightarrow> trt_location"
  is_shape_inference_io :: "pystr \<Rightarrow> bool"
  get_tensor_shape :: "pystr \<Rightarrow> int list"
  get_tensor_dtype :: "pystr \<Rightarrow> trt_dtype"
  get_tensor_profile_shape :: "pystr \<Rightarrow> int list \<times> int list \<times> int list"

fun tensor_dtype_name :: "trt_dtype \<Rightarrow> pystr result" where
  "tensor_dtype_name TrtFloat32 = Inr (pys ''fp32'')"
| "tensor_dtype_name TrtFloat16 = Inr (pys ''fp16'')"
| "tensor_dtype_name TrtBFloat16 = Inr (pys ''bf16'')"
| "tensor_dtype_name TrtInt64 = Inr (pys ''int64'')"
| "tensor_dtype_name TrtInt32 = Inr (pys ''int32'')"
| "tensor_dtype_name TrtInt8 = Inr (pys ''int8'')"
| "tensor_dtype_name TrtUint8 = Inr (pys ''uint8'')"
| "tensor_dtype_name TrtBool = Inr (pys ''bool'')"
| "tensor_dtype_name TrtOther = Inl (pkg_error ''TensorRT plan uses unsupported dtype '')"

definition PROFILE_NAMES_BY_ROLE :: "(string \<times> string) list" where
  "PROFILE_NAMES_BY_ROLE =
     [(''text_encoder'', ''text_1_512''), (''main_decoder_prefill'', ''text_1_512''),
      (''main_decoder_step'', ''text_1_512''), (''local_ar_16'', ''fixed''),
      (''nanocodec_initial_4'', ''fixed''), (''nanocodec_steady_8'', ''fixed''),
      (''nanocodec_tail_1_8'', ''tail_1_8'')]"

subsection \<open>One tensor\<close>

abbreviation step_role :: "pystr \<Rightarrow> bool" where
  "step_role role \<equiv> role = pys ''main_decoder_step''"

definition is_step_position :: "pystr \<Rightarrow> pystr \<Rightarrow> trt_mode \<Rightarrow> bool" where
  "is_step_position role name mode \<longleftrightarrow> step_role role \<and> name = pys ''position'' \<and> mode = ModeInput"

definition is_step_status_input :: "pystr \<Rightarrow> pystr \<Rightarrow> bool" where
  "is_step_status_input role name \<longleftrightarrow> step_role role \<and> name = pys ''execution_status_in''"

definition is_step_status_output :: "pystr \<Rightarrow> pystr \<Rightarrow> bool" where
  "is_step_status_output role name \<longleftrightarrow> step_role role \<and> name = pys ''execution_status_out''"

text \<open>The loop body after the name has been accepted; the location name is \<open>"device"\<close> on every branch
  that does not raise.\<close>

definition inspect_tensor :: "trt_engine \<Rightarrow> pystr \<Rightarrow> pystr \<Rightarrow> tensor_spec result" where
  "inspect_tensor engine role name =
     (let mode = get_tensor_mode engine name;
          location = get_tensor_location engine name;
          shape_io = is_shape_inference_io engine name;
          shape = get_tensor_shape engine name
      in
     bindE (guardE (mode = ModeNone) (pkg_error '': unsupported I/O mode for '')) (\<lambda>_.
     bindE (guardE (is_step_status_input role name \<and> mode \<noteq> ModeInput)
       (pkg_error ''main_decoder_step: execution_status_in must be an input'')) (\<lambda>_.
     bindE (guardE (is_step_status_output role name \<and> mode \<noteq> ModeOutput)
       (pkg_error ''main_decoder_step: execution_status_out must be an output'')) (\<lambda>_.
     bindE (if is_step_position role name mode
       then guardE (location \<noteq> LocationDevice \<or> shape_io)
         (pkg_error ''main_decoder_step: position must be the authenticated DEVICE execution input'')
       else guardE (location \<noteq> LocationDevice \<or> shape_io)
         (pkg_error '': every tensor must be an ordinary DEVICE execution tensor: '')) (\<lambda>_.
     bindE (guardE (list_ex (\<lambda>n. n = 0 \<or> n < -1) shape) (pkg_error '': invalid declared shape for '')) (\<lambda>_.
     bindE (tensor_dtype_name (get_tensor_dtype engine name)) (\<lambda>dtype.
     bindE (guardE (is_step_position role name mode \<and> (dtype \<noteq> pys ''int64'' \<or> shape \<noteq> []))
       (pkg_error ''main_decoder_step: position must be a scalar int64 DEVICE execution input'')) (\<lambda>_.
     bindE (guardE ((is_step_status_input role name \<or> is_step_status_output role name) \<and>
                    (dtype \<noteq> pys ''int32'' \<or> shape \<noteq> []))
       (pkg_error ''main_decoder_step: execution status must be scalar int32 DEVICE execution I/O'')) (\<lambda>_.
     Inr \<lparr>ts_name = name, ts_dtype = dtype, ts_shape = shape, ts_location = pys ''device'',
          ts_shape_inference_io = shape_io\<rparr>)))))))))"

subsection \<open>The loop over the tensors\<close>

text \<open>The state of the loop: the names seen, and the inputs, outputs and dynamic input names so far.\<close>

record scan_state =
  sc_names :: "pystr set"
  sc_inputs :: "tensor_spec list"
  sc_outputs :: "tensor_spec list"
  sc_dynamic :: "pystr list"

definition scan_start :: scan_state where
  "scan_start = \<lparr>sc_names = {}, sc_inputs = [], sc_outputs = [], sc_dynamic = []\<rparr>"

definition scan_step :: "trt_engine \<Rightarrow> pystr \<Rightarrow> nat \<Rightarrow> scan_state \<Rightarrow> scan_state result" where
  "scan_step engine role index s =
     (case get_tensor_name engine index of
        None \<Rightarrow> Inl (pkg_error '': TensorRT returned an invalid I/O name'')
      | Some name \<Rightarrow>
     bindE (guardE (name = []) (pkg_error '': TensorRT returned an invalid I/O name'')) (\<lambda>_.
     bindE (guardE (name \<in> sc_names s) (pkg_error '': duplicate TensorRT I/O name '')) (\<lambda>_.
     bindE (inspect_tensor engine role name) (\<lambda>spec.
     let s = s\<lparr>sc_names := insert name (sc_names s)\<rparr>
     in Inr (if get_tensor_mode engine name = ModeInput
             then s\<lparr>sc_inputs := sc_inputs s @ [spec],
                    sc_dynamic := sc_dynamic s @ (if -1 \<in> set (ts_shape spec) then [name] else [])\<rparr>
             else s\<lparr>sc_outputs := sc_outputs s @ [spec]\<rparr>)))))"

fun scan_tensors :: "trt_engine \<Rightarrow> pystr \<Rightarrow> nat list \<Rightarrow> scan_state \<Rightarrow> scan_state result" where
  "scan_tensors engine role [] s = Inr s"
| "scan_tensors engine role (i # is) s =
     bindE (scan_step engine role i s) (\<lambda>s. scan_tensors engine role is s)"

subsection \<open>Profiles\<close>

definition check_concrete :: "int list \<Rightarrow> int list \<Rightarrow> unit result" where
  "check_concrete declared concrete =
     bindE (guardE (length concrete \<noteq> length declared \<or> list_ex (\<lambda>n. n \<le> 0) concrete)
       (pkg_error '': invalid profile shape for '')) (\<lambda>_.
     bindE (zip_strict declared concrete) (\<lambda>axes.
     guardE (list_ex (\<lambda>(d, a). d \<noteq> -1 \<and> d \<noteq> a) axes) (pkg_error '': profile changes static axis '')))"

text \<open>\<open>next(item.shape for item in inputs if item.name == name)\<close>\<close>

definition declared_shape :: "tensor_spec list \<Rightarrow> pystr \<Rightarrow> int list result" where
  "declared_shape inputs name =
     (case find (\<lambda>t. ts_name t = name) inputs of
        None \<Rightarrow> Inl (Exn PyRuntimeError ''StopIteration'') | Some t \<Rightarrow> Inr (ts_shape t))"

definition inspect_profile :: "trt_engine \<Rightarrow> tensor_spec list \<Rightarrow> pystr \<Rightarrow> tensor_range result" where
  "inspect_profile engine inputs name =
     (case get_tensor_profile_shape engine name of (minimum, optimum, maximum) \<Rightarrow>
     bindE (declared_shape inputs name) (\<lambda>declared.
     bindE (check_concrete declared minimum) (\<lambda>_.
     bindE (check_concrete declared optimum) (\<lambda>_.
     bindE (check_concrete declared maximum) (\<lambda>_.
     bindE (zip_strict minimum optimum) (\<lambda>_.
     bindE (zip_strict optimum maximum) (\<lambda>_.
     bindE (guardE (\<not> list_all (\<lambda>(low, middle, high). low \<le> middle \<and> middle \<le> high)
                        (zip minimum (zip optimum maximum)))
       (pkg_error '': non-monotonic profile for '')) (\<lambda>_.
     Inr \<lparr>tr_tensor_name = name, tr_minimum = minimum, tr_optimum = optimum, tr_maximum = maximum\<rparr>))))))))"

subsection \<open>inspect_engine\<close>

definition recurrence_bindings_missing :: "scan_state \<Rightarrow> bool" where
  "recurrence_bindings_missing s \<longleftrightarrow>
     \<not> {pys ''position'', pys ''execution_status_in''} \<subseteq> ts_name ` set (sc_inputs s) \<or>
     pys ''execution_status_out'' \<notin> ts_name ` set (sc_outputs s)"

definition profile_name :: "pystr \<Rightarrow> pystr result" where
  "profile_name role =
     (case map_of (map (map_prod pys pys) PROFILE_NAMES_BY_ROLE) role of
        None \<Rightarrow> Inl (Exn PyKeyError ''PROFILE_NAMES_BY_ROLE'') | Some n \<Rightarrow> Inr n)"

definition inspect_engine :: "trt_engine \<Rightarrow> pystr \<Rightarrow> inspected_engine result" where
  "inspect_engine engine role =
     bindE (guardE (num_optimization_profiles engine \<noteq> 1)
       (pkg_error '': v1 requires exactly one optimization profile, got '')) (\<lambda>_.
     bindE (scan_tensors engine role [0..<num_io_tensors engine] scan_start) (\<lambda>s.
     bindE (guardE (sc_inputs s = [] \<or> sc_outputs s = [])
       (pkg_error '': plan must expose inputs and outputs'')) (\<lambda>_.
     bindE (guardE (step_role role \<and> recurrence_bindings_missing s)
       (pkg_error ''main_decoder_step: position and execution_status_in/out are mandatory recurrence bindings''))
       (\<lambda>_.
     bindE (mapE (inspect_profile engine (sc_inputs s)) (sc_dynamic s)) (\<lambda>ranges.
     bindE (profile_name role) (\<lambda>pname.
     Inr \<lparr>ie_inputs = sc_inputs s, ie_outputs = sc_outputs s,
          ie_profiles = [\<lparr>op_name = pname, op_input_shapes = ranges, op_input_values = []\<rparr>]\<rparr>))))))"

subsection \<open>What an accepted tensor, loop and profile are\<close>

definition tensor_ok :: "tensor_spec \<Rightarrow> bool" where
  "tensor_ok t \<longleftrightarrow> ts_name t \<noteq> [] \<and> ts_location t = pys ''device'' \<and> \<not> ts_shape_inference_io t \<and>
     (\<forall>n \<in> set (ts_shape t). n = -1 \<or> 0 < n)"

lemma guardE_both: "(if a then guardE c e else guardE c f) = Inr u \<longleftrightarrow> \<not> c"
  by (simp add: guardE_def)

lemma inspect_tensor_Inr_iff:
  "inspect_tensor engine role name = Inr t \<longleftrightarrow>
     get_tensor_mode engine name \<noteq> ModeNone \<and>
     (is_step_status_input role name \<longrightarrow> get_tensor_mode engine name = ModeInput) \<and>
     (is_step_status_output role name \<longrightarrow> get_tensor_mode engine name = ModeOutput) \<and>
     get_tensor_location engine name = LocationDevice \<and> \<not> is_shape_inference_io engine name \<and>
     (\<forall>n \<in> set (get_tensor_shape engine name). n = -1 \<or> 0 < n) \<and>
     tensor_dtype_name (get_tensor_dtype engine name) = Inr (ts_dtype t) \<and>
     (is_step_position role name (get_tensor_mode engine name) \<longrightarrow>
        ts_dtype t = pys ''int64'' \<and> ts_shape t = []) \<and>
     (is_step_status_input role name \<or> is_step_status_output role name \<longrightarrow>
        ts_dtype t = pys ''int32'' \<and> ts_shape t = []) \<and>
     t = \<lparr>ts_name = name, ts_dtype = ts_dtype t, ts_shape = get_tensor_shape engine name,
          ts_location = pys ''device'', ts_shape_inference_io = False\<rparr>"
proof -
  have dims: "\<not> list_ex (\<lambda>n. n = 0 \<or> n < -1) shape \<longleftrightarrow> (\<forall>n \<in> set shape. n = -1 \<or> 0 < n)" for shape :: "int list"
    by (auto simp: list_ex_iff)
  show ?thesis
    unfolding inspect_tensor_def Let_def bindE_eq_Inr guardE_eq_Inr guardE_both dims
    by (cases t) auto
qed

lemma inspect_tensor_Inr:
  assumes "inspect_tensor engine role name = Inr t"
  shows "ts_name t = name" and "name \<noteq> [] \<Longrightarrow> tensor_ok t"
proof -
  from assms have t: "t = \<lparr>ts_name = name, ts_dtype = ts_dtype t, ts_shape = get_tensor_shape engine name,
      ts_location = pys ''device'', ts_shape_inference_io = False\<rparr>"
    and dims: "\<forall>n \<in> set (get_tensor_shape engine name). n = -1 \<or> 0 < n"
    unfolding inspect_tensor_Inr_iff by blast+
  from t show "ts_name t = name" by (metis tensor_spec.select_convs(1))
  from t dims show "name \<noteq> [] \<Longrightarrow> tensor_ok t"
    by (cases t) (simp add: tensor_ok_def)
qed

definition accepted_tensor :: "trt_engine \<Rightarrow> pystr \<Rightarrow> nat \<Rightarrow> tensor_spec \<Rightarrow> bool" where
  "accepted_tensor engine role i t \<longleftrightarrow>
     get_tensor_name engine i = Some (ts_name t) \<and> ts_name t \<noteq> [] \<and>
     inspect_tensor engine role (ts_name t) = Inr t"

abbreviation is_input :: "trt_engine \<Rightarrow> tensor_spec \<Rightarrow> bool" where
  "is_input engine t \<equiv> get_tensor_mode engine (ts_name t) = ModeInput"

abbreviation dynamic_names :: "tensor_spec list \<Rightarrow> pystr list" where
  "dynamic_names ts \<equiv> map ts_name (filter (\<lambda>t. -1 \<in> set (ts_shape t)) ts)"

definition scanned :: "trt_engine \<Rightarrow> scan_state \<Rightarrow> tensor_spec list \<Rightarrow> scan_state" where
  "scanned engine s ts =
     \<lparr>sc_names = sc_names s \<union> ts_name ` set ts,
      sc_inputs = sc_inputs s @ filter (is_input engine) ts,
      sc_outputs = sc_outputs s @ filter (\<lambda>t. \<not> is_input engine t) ts,
      sc_dynamic = sc_dynamic s @ dynamic_names (filter (is_input engine) ts)\<rparr>"

lemma scan_step_Inr:
  assumes "scan_step engine role i s = Inr s'"
  obtains t where "accepted_tensor engine role i t" and "ts_name t \<notin> sc_names s"
    and "s' = scanned engine s [t]"
proof -
  from assms obtain name t where name: "get_tensor_name engine i = Some name" "name \<noteq> []"
      "name \<notin> sc_names s" and t: "inspect_tensor engine role name = Inr t"
    and s': "s' = (let s = s\<lparr>sc_names := insert name (sc_names s)\<rparr>
      in if get_tensor_mode engine name = ModeInput
         then s\<lparr>sc_inputs := sc_inputs s @ [t],
                sc_dynamic := sc_dynamic s @ (if -1 \<in> set (ts_shape t) then [name] else [])\<rparr>
         else s\<lparr>sc_outputs := sc_outputs s @ [t]\<rparr>)"
    by (auto simp: scan_step_def result_simps Let_def split: option.splits)
  from inspect_tensor_Inr(1) [OF t] have "ts_name t = name" .
  with name t s' show ?thesis
    by (intro that [of t]) (auto simp: accepted_tensor_def scanned_def Let_def)
qed

lemma scanned_Nil [simp]: "scanned engine s [] = s"
  by (simp add: scanned_def)

lemma scanned_Cons: "scanned engine (scanned engine s [t]) ts = scanned engine s (t # ts)"
  by (simp add: scanned_def)

lemma scan_tensors_Inr:
  assumes "scan_tensors engine role is s = Inr s'"
  shows "\<exists>ts. list_all2 (accepted_tensor engine role) is ts \<and> distinct (map ts_name ts) \<and>
           sc_names s \<inter> ts_name ` set ts = {} \<and> s' = scanned engine s ts"
  using assms
proof (induction "is" arbitrary: s)
  case Nil
  then show ?case by (intro exI [of _ "[]"]) simp
next
  case (Cons i "is")
  from Cons.prems obtain s1 where step: "scan_step engine role i s = Inr s1"
    and rest: "scan_tensors engine role is s1 = Inr s'" by (auto simp: bindE_eq_Inr)
  from step obtain t where t: "accepted_tensor engine role i t" "ts_name t \<notin> sc_names s"
    and s1: "s1 = scanned engine s [t]" by (rule scan_step_Inr)
  from Cons.IH [OF rest] obtain ts where ts: "list_all2 (accepted_tensor engine role) is ts"
    "distinct (map ts_name ts)" "sc_names s1 \<inter> ts_name ` set ts = {}" "s' = scanned engine s1 ts" by blast
  from s1 have "sc_names s1 = insert (ts_name t) (sc_names s)" by (simp add: scanned_def)
  with t ts s1 show ?case
    by (intro exI [of _ "t # ts"]) (auto simp: scanned_Cons)
qed

definition range_ok :: "tensor_spec \<Rightarrow> tensor_range \<Rightarrow> bool" where
  "range_ok t r \<longleftrightarrow>
     length (tr_minimum r) = length (ts_shape t) \<and> length (tr_optimum r) = length (ts_shape t) \<and>
     length (tr_maximum r) = length (ts_shape t) \<and>
     (\<forall>a < length (ts_shape t).
        0 < tr_minimum r ! a \<and> tr_minimum r ! a \<le> tr_optimum r ! a \<and> tr_optimum r ! a \<le> tr_maximum r ! a \<and>
        (ts_shape t ! a \<noteq> -1 \<longrightarrow> tr_minimum r ! a = ts_shape t ! a \<and> tr_maximum r ! a = ts_shape t ! a))"

lemma check_concrete_Inr:
  "check_concrete declared concrete = Inr u \<longleftrightarrow>
     length concrete = length declared \<and>
     (\<forall>a < length declared. 0 < concrete ! a \<and> (declared ! a \<noteq> -1 \<longrightarrow> concrete ! a = declared ! a))"
proof (cases "length concrete = length declared")
  case True
  have "check_concrete declared concrete = Inr u \<longleftrightarrow>
      (\<forall>n \<in> set concrete. 0 < n) \<and> (\<forall>(d, n) \<in> set (zip declared concrete). d \<noteq> -1 \<longrightarrow> n = d)"
    using True by (auto simp: check_concrete_def result_simps zip_strict_def list_ex_iff not_le)
  also have "\<dots> \<longleftrightarrow> (\<forall>a < length declared. 0 < concrete ! a \<and> (declared ! a \<noteq> -1 \<longrightarrow> concrete ! a = declared ! a))"
    using True by (simp add: all_set_conv_all_nth) blast
  finally show ?thesis using True by simp
next
  case False
  then show ?thesis by (auto simp: check_concrete_def result_simps)
qed

lemma declared_shape_Inr:
  assumes "distinct (map ts_name inputs)" and "t \<in> set inputs"
  shows "declared_shape inputs (ts_name t) = Inr (ts_shape t)"
proof -
  from assms(2) have "\<exists>x \<in> set inputs. ts_name x = ts_name t" by blast
  then obtain x where x: "find (\<lambda>x. ts_name x = ts_name t) inputs = Some x"
    by (metis (mono_tags, lifting) find_None_iff option.exhaust)
  then have "x \<in> set inputs" "ts_name x = ts_name t" by (auto simp: find_Some_iff)
  with assms have "x = t" by (auto simp: distinct_map inj_on_def)
  with x show ?thesis by (simp add: declared_shape_def)
qed

lemma inspect_profile_Inr:
  assumes r: "inspect_profile engine inputs (ts_name t) = Inr r"
    and inputs: "distinct (map ts_name inputs)" "t \<in> set inputs"
  shows "tr_tensor_name r = ts_name t" and "range_ok t r"
proof -
  obtain lo op hi where shapes: "get_tensor_profile_shape engine (ts_name t) = (lo, op, hi)"
    by (cases "get_tensor_profile_shape engine (ts_name t)") auto
  with r declared_shape_Inr [OF inputs] have
    concrete: "check_concrete (ts_shape t) lo = Inr ()" "check_concrete (ts_shape t) op = Inr ()"
      "check_concrete (ts_shape t) hi = Inr ()"
    and mono: "list_all (\<lambda>(low, middle, high). low \<le> middle \<and> middle \<le> high) (zip lo (zip op hi))"
    and r': "r = \<lparr>tr_tensor_name = ts_name t, tr_minimum = lo, tr_optimum = op, tr_maximum = hi\<rparr>"
    by (auto simp: inspect_profile_def result_simps)
  from r' show "tr_tensor_name r = ts_name t" by simp
  from concrete have "length lo = length (ts_shape t)" "length op = length (ts_shape t)"
    "length hi = length (ts_shape t)" by (simp_all add: check_concrete_Inr)
  with concrete mono r' show "range_ok t r"
    by (auto simp: range_ok_def check_concrete_Inr list_all_length)
qed

subsection \<open>The invariant of an inspected engine\<close>

definition inspected_wf :: "inspected_engine \<Rightarrow> bool" where
  "inspected_wf r \<longleftrightarrow>
     ie_inputs r \<noteq> [] \<and> ie_outputs r \<noteq> [] \<and>
     distinct (map ts_name (ie_inputs r @ ie_outputs r)) \<and>
     (\<forall>t \<in> set (ie_inputs r @ ie_outputs r). tensor_ok t) \<and>
     (\<exists>p. ie_profiles r = [p] \<and> op_input_values p = [] \<and>
        list_all2 (\<lambda>t range. tr_tensor_name range = ts_name t \<and> range_ok t range)
          (filter (\<lambda>t. -1 \<in> set (ts_shape t)) (ie_inputs r)) (op_input_shapes p))"

lemma inspect_engine_scan:
  assumes "inspect_engine engine role = Inr r"
  obtains ts ranges where "list_all2 (accepted_tensor engine role) [0..<num_io_tensors engine] ts"
    and "distinct (map ts_name ts)" and "num_optimization_profiles engine = 1"
    and "ie_inputs r = filter (is_input engine) ts" and "ie_outputs r = filter (\<lambda>t. \<not> is_input engine t) ts"
    and "ie_inputs r \<noteq> []" and "ie_outputs r \<noteq> []"
    and "\<not> (step_role role \<and> recurrence_bindings_missing (scanned engine scan_start ts))"
    and "mapE (inspect_profile engine (ie_inputs r)) (dynamic_names (ie_inputs r)) = Inr ranges"
    and "\<exists>n. ie_profiles r = [\<lparr>op_name = n, op_input_shapes = ranges, op_input_values = []\<rparr>]"
proof -
  from assms obtain s ranges n where one: "num_optimization_profiles engine = 1"
    and s: "scan_tensors engine role [0..<num_io_tensors engine] scan_start = Inr s"
    and io: "sc_inputs s \<noteq> []" "sc_outputs s \<noteq> []"
    and rec: "\<not> (step_role role \<and> recurrence_bindings_missing s)"
    and ranges: "mapE (inspect_profile engine (sc_inputs s)) (sc_dynamic s) = Inr ranges"
    and r: "r = \<lparr>ie_inputs = sc_inputs s, ie_outputs = sc_outputs s,
      ie_profiles = [\<lparr>op_name = n, op_input_shapes = ranges, op_input_values = []\<rparr>]\<rparr>"
    unfolding inspect_engine_def bindE_eq_Inr guardE_eq_Inr by auto
  from scan_tensors_Inr [OF s] obtain ts where ts:
    "list_all2 (accepted_tensor engine role) [0..<num_io_tensors engine] ts"
    "distinct (map ts_name ts)" and s': "s = scanned engine scan_start ts" by blast
  from s' have "sc_inputs s = filter (is_input engine) ts"
    "sc_outputs s = filter (\<lambda>t. \<not> is_input engine t) ts"
    "sc_dynamic s = dynamic_names (filter (is_input engine) ts)"
    by (simp_all add: scanned_def scan_start_def)
  with r ts one io rec ranges s' show ?thesis by (intro that [of ts ranges]) auto
qed

lemma accepted_tensors_ok:
  "list_all2 (accepted_tensor engine role) is ts \<Longrightarrow> t \<in> set ts \<Longrightarrow> tensor_ok t"
  by (induction rule: list_all2_induct) (auto simp: accepted_tensor_def dest: inspect_tensor_Inr(2))

lemma filter_partition_set: "set (filter P xs @ filter (\<lambda>x. \<not> P x) xs) = set xs"
  by auto

lemma distinct_partition_names:
  "distinct (map f xs) \<Longrightarrow> distinct (map f (filter P xs @ filter (\<lambda>x. \<not> P x) xs))"
  by (induction xs) (auto simp: image_iff)

lemma inspect_engine_wf:
  assumes "inspect_engine engine role = Inr r"
  shows "inspected_wf r"
  using assms
proof (rule inspect_engine_scan)
  fix ts ranges
  assume ts: "list_all2 (accepted_tensor engine role) [0..<num_io_tensors engine] ts" "distinct (map ts_name ts)"
    and io: "ie_inputs r = filter (is_input engine) ts" "ie_outputs r = filter (\<lambda>t. \<not> is_input engine t) ts"
    and ne: "ie_inputs r \<noteq> []" "ie_outputs r \<noteq> []"
    and ranges: "mapE (inspect_profile engine (ie_inputs r)) (dynamic_names (ie_inputs r)) = Inr ranges"
    and p: "\<exists>n. ie_profiles r = [\<lparr>op_name = n, op_input_shapes = ranges, op_input_values = []\<rparr>]"
  have names: "distinct (map ts_name (ie_inputs r @ ie_outputs r))"
    unfolding io by (rule distinct_partition_names) (rule ts(2))
  then have inputs: "distinct (map ts_name (ie_inputs r))" by simp
  have "list_all2 (\<lambda>t range. tr_tensor_name range = ts_name t \<and> range_ok t range)
      (filter (\<lambda>t. -1 \<in> set (ts_shape t)) (ie_inputs r)) ranges"
    using ranges unfolding mapE_Inr_iff list_all2_map1
    by (rule list.rel_mono_strong) (auto intro: inspect_profile_Inr [OF _ inputs])
  moreover have "\<forall>t \<in> set (ie_inputs r @ ie_outputs r). tensor_ok t"
    using accepted_tensors_ok [OF ts(1)] unfolding io by auto
  ultimately show ?thesis using p ne names by (auto simp: inspected_wf_def)
qed

text \<open>The recurrence bindings of the step engine.\<close>

definition step_recurrence_ok :: "inspected_engine \<Rightarrow> bool" where
  "step_recurrence_ok r \<longleftrightarrow>
     (\<exists>t \<in> set (ie_inputs r). ts_name t = pys ''position'' \<and> ts_dtype t = pys ''int64'' \<and> ts_shape t = []) \<and>
     (\<exists>t \<in> set (ie_inputs r). ts_name t = pys ''execution_status_in'' \<and> ts_dtype t = pys ''int32'' \<and> ts_shape t = []) \<and>
     (\<exists>t \<in> set (ie_outputs r). ts_name t = pys ''execution_status_out'' \<and> ts_dtype t = pys ''int32'' \<and> ts_shape t = [])"

lemma accepted_tensor_at:
  "list_all2 (accepted_tensor engine role) is ts \<Longrightarrow> t \<in> set ts \<Longrightarrow>
   inspect_tensor engine role (ts_name t) = Inr t"
  by (induction rule: list_all2_induct) (auto simp: accepted_tensor_def)

lemma inspect_engine_recurrence:
  assumes "inspect_engine engine role = Inr r" and "step_role role"
  shows "step_recurrence_ok r"
  using assms(1)
proof (rule inspect_engine_scan)
  fix ts ranges
  assume ts: "list_all2 (accepted_tensor engine role) [0..<num_io_tensors engine] ts"
    and io: "ie_inputs r = filter (is_input engine) ts" "ie_outputs r = filter (\<lambda>t. \<not> is_input engine t) ts"
    and "\<not> (step_role role \<and> recurrence_bindings_missing (scanned engine scan_start ts))"
  with assms(2) obtain p i out where
    p: "p \<in> set ts" "is_input engine p" "ts_name p = pys ''position''" and
    i: "i \<in> set ts" "is_input engine i" "ts_name i = pys ''execution_status_in''" and
    out: "out \<in> set ts" "\<not> is_input engine out" "ts_name out = pys ''execution_status_out''"
    by (force simp: recurrence_bindings_missing_def scanned_def scan_start_def)
  have "ts_dtype p = pys ''int64'' \<and> ts_shape p = []"
    using accepted_tensor_at [OF ts p(1)] p(2,3) assms(2)
    unfolding inspect_tensor_Inr_iff by (simp add: is_step_position_def)
  moreover have "ts_dtype i = pys ''int32'' \<and> ts_shape i = []"
    using accepted_tensor_at [OF ts i(1)] i(3) assms(2)
    unfolding inspect_tensor_Inr_iff by (simp add: is_step_status_input_def)
  moreover have "ts_dtype out = pys ''int32'' \<and> ts_shape out = []"
    using accepted_tensor_at [OF ts out(1)] out(3) assms(2)
    unfolding inspect_tensor_Inr_iff by (simp add: is_step_status_output_def)
  ultimately show ?thesis using p i out io by (auto simp: step_recurrence_ok_def)
qed

subsection \<open>Properties\<close>

definition demo_plan :: trt_engine where
  "demo_plan =
     \<lparr>num_optimization_profiles = 1, num_io_tensors = 4,
      get_tensor_name = (\<lambda>i. Some (pys ([''position'', ''execution_status_in'', ''execution_status_out'', ''x''] ! i))),
      get_tensor_mode = (\<lambda>n. if n = pys ''execution_status_out'' then ModeOutput else ModeInput),
      get_tensor_location = (\<lambda>_. LocationDevice), is_shape_inference_io = (\<lambda>_. False),
      get_tensor_shape = (\<lambda>n. if n = pys ''x'' then [2, -1] else []),
      get_tensor_dtype = (\<lambda>n. if n = pys ''position'' then TrtInt64 else TrtInt32),
      get_tensor_profile_shape = (\<lambda>_. ([2, 1], [2, 64], [2, 512]))\<rparr>"

lemma demo_plan_inspected: "\<exists>r. inspect_engine demo_plan (pys ''main_decoder_step'') = Inr r"
  by (simp add: inspect_engine_def demo_plan_def scan_start_def scan_step_def inspect_tensor_def Let_def
      is_step_position_def is_step_status_input_def is_step_status_output_def
      recurrence_bindings_missing_def inspect_profile_def declared_shape_def check_concrete_def
      zip_strict_def profile_name_def PROFILE_NAMES_BY_ROLE_def upt_rec)

text \<open>C32: what an accepted plan guarantees. The names of its inputs and outputs are distinct and are
  exactly the names TensorRT reports; every dimension is positive or dynamic and every tensor an ordinary
  device tensor; there is one profile, with one range for each dynamic input in order, in which every axis
  has 0 < min <= opt <= max and a static axis keeps its size; and the step engine has its three
  recurrence bindings as scalars of the right type.\<close>

theorem inspect_engine_sound:
  assumes "inspect_engine engine role = Inr r"
  shows "inspected_wf r \<and> (step_role role \<longrightarrow> step_recurrence_ok r) \<and>
         Some ` ts_name ` set (ie_inputs r @ ie_outputs r) = get_tensor_name engine ` {0..<num_io_tensors engine}"
  using assms
proof (rule inspect_engine_scan)
  fix ts
  assume ts: "list_all2 (accepted_tensor engine role) [0..<num_io_tensors engine] ts"
    and io: "ie_inputs r = filter (is_input engine) ts" "ie_outputs r = filter (\<lambda>t. \<not> is_input engine t) ts"
  from ts have "map (get_tensor_name engine) [0..<num_io_tensors engine] = map (Some \<circ> ts_name) ts"
    by (induction rule: list_all2_induct) (auto simp: accepted_tensor_def)
  then have "set (map (get_tensor_name engine) [0..<num_io_tensors engine]) = set (map (Some \<circ> ts_name) ts)"
    by (rule arg_cong)
  then have "Some ` ts_name ` set (ie_inputs r @ ie_outputs r) = get_tensor_name engine ` {0..<num_io_tensors engine}"
    unfolding io filter_partition_set by (simp add: image_comp)
  with inspect_engine_wf [OF assms] inspect_engine_recurrence [OF assms] show ?thesis by blast
qed

theorem inspect_engine_sound_witness:
  "\<exists>r. inspect_engine demo_plan (pys ''main_decoder_step'') = Inr r \<and> step_recurrence_ok r"
proof -
  from demo_plan_inspected obtain r where "inspect_engine demo_plan (pys ''main_decoder_step'') = Inr r" by blast
  with inspect_engine_sound [OF this] show ?thesis by blast
qed

end
