(* ===== verification/OsFiles.thy ===== *)
theory OsFiles
  imports PackageJson
begin

text \<open>
  What the packager learns of a file from the operating system, and the two ways it authenticates an input
  (\<open>require_regular_non_symlink\<close>, \<open>read_verified_regular_file\<close> and \<open>load_json_file\<close> of
  \<open>tools/bundle/package_runtime_bundle.py\<close>).

  The answers of the system calls on one path are a \<open>path_view\<close>; reading a file is the record of what its
  descriptor answered (\<open>file_read\<close>: the status before, the chunks, the status after). An answer may be an
  exception. Nothing is assumed of the answers.
\<close>

subsection \<open>File status\<close>

record os_stat =
  st_mode :: nat
  st_dev :: nat
  st_ino :: nat
  st_size :: int
  st_mtime_ns :: int
  st_ctime_ns :: int

text \<open>\<open>S_IFMT\<close> is the top four of the sixteen mode bits.\<close>

definition s_isdir :: "os_stat \<Rightarrow> bool" where "s_isdir s \<longleftrightarrow> st_mode s div 4096 mod 16 = 4"
definition s_isreg :: "os_stat \<Rightarrow> bool" where "s_isreg s \<longleftrightarrow> st_mode s div 4096 mod 16 = 8"
definition s_islnk :: "os_stat \<Rightarrow> bool" where "s_islnk s \<longleftrightarrow> st_mode s div 4096 mod 16 = 10"

subsection \<open>Reading a descriptor\<close>

record file_read =
  fr_before :: os_stat
  fr_chunks :: "byte list list"
  fr_after :: os_stat

definition stable_fields :: "file_read \<Rightarrow> bool" where
  "stable_fields r \<longleftrightarrow>
     st_dev (fr_before r) = st_dev (fr_after r) \<and> st_ino (fr_before r) = st_ino (fr_after r) \<and>
     st_size (fr_before r) = st_size (fr_after r) \<and>
     st_mtime_ns (fr_before r) = st_mtime_ns (fr_after r) \<and>
     st_ctime_ns (fr_before r) = st_ctime_ns (fr_after r)"

text \<open>\<open>while True: chunk = os.read(...); if not chunk: break\<close>\<close>

definition read_until_eof :: "file_read \<Rightarrow> byte list" where
  "read_until_eof r = concat (takeWhile (\<lambda>c. c \<noteq> []) (fr_chunks r))"

subsection \<open>Inputs\<close>

record path_view =
  pv_lstat :: "os_stat result"
  pv_absolute :: pystr
  pv_resolve :: "pystr result"
  pv_open :: "file_read result"
  pv_executable :: bool

text \<open>\<open>except FileNotFoundError\<close>\<close>

definition missing_as :: "exn \<Rightarrow> 'a result \<Rightarrow> 'a result" where
  "missing_as e r =
     (case r of Inl x \<Rightarrow> if exn_class x = PyFileNotFoundError then Inl e else Inl x | Inr v \<Rightarrow> Inr v)"

definition require_regular_non_symlink :: "path_view \<Rightarrow> os_stat result" where
  "require_regular_non_symlink p =
     bindE (missing_as (pkg_error '' is missing: '') (pv_lstat p)) (\<lambda>status.
     bindE (guardE (s_islnk status) (pkg_error '' must not be a symbolic link: '')) (\<lambda>_.
     bindE (missing_as (pkg_error '' is missing: '') (pv_resolve p)) (\<lambda>resolved.
     bindE (guardE (pv_absolute p \<noteq> resolved)
       (pkg_error '' must not contain symbolic links or '..': '')) (\<lambda>_.
     bindE (guardE (\<not> s_isreg status) (pkg_error '' must be a regular file: '')) (\<lambda>_.
     bindE (guardE (st_size status \<le> 0) (pkg_error '' must be non-empty: '')) (\<lambda>_.
     Inr status))))))"

text \<open>\<open>while read_bytes < before.st_size\<close>, with \<open>n\<close> bytes left to read.\<close>

fun read_up_to :: "int \<Rightarrow> byte list list \<Rightarrow> byte list" where
  "read_up_to n [] = []"
| "read_up_to n (c # cs) = (if n \<le> 0 \<or> c = [] then [] else c @ read_up_to (n - int (length c)) cs)"

definition MAX_MANIFEST_BYTES :: int where "MAX_MANIFEST_BYTES = 16 * 1024 * 1024"

definition read_verified_regular_file :: "path_view \<Rightarrow> int \<Rightarrow> byte list result" where
  "read_verified_regular_file p maximum_bytes =
     bindE (require_regular_non_symlink p) (\<lambda>_.
     bindE (pv_open p) (\<lambda>r.
     bindE (guardE (\<not> s_isreg (fr_before r) \<or> st_size (fr_before r) \<le> 0)
       (pkg_error '' changed before reading: '')) (\<lambda>_.
     bindE (guardE (maximum_bytes < st_size (fr_before r)) (pkg_error '' exceeds  bytes: '')) (\<lambda>_.
     let payload = read_up_to (st_size (fr_before r)) (fr_chunks r)
     in bindE (guardE (\<not> stable_fields r \<or> int (length payload) \<noteq> st_size (fr_before r))
          (pkg_error '' changed while being read: '')) (\<lambda>_.
        Inr payload)))))"

definition load_json_file :: "pkg_env \<Rightarrow> path_view \<Rightarrow> json result" where
  "load_json_file env p = bindE (read_verified_regular_file p MAX_MANIFEST_BYTES) (parse_json_payload env)"

subsection \<open>What an accepted input is\<close>

lemma missing_as_Inr_iff [result_simps]: "missing_as e r = Inr v \<longleftrightarrow> r = Inr v"
  by (cases r) (auto simp: missing_as_def)

lemma require_regular_non_symlink_Inr_iff:
  "require_regular_non_symlink p = Inr s \<longleftrightarrow>
     pv_lstat p = Inr s \<and> pv_resolve p = Inr (pv_absolute p) \<and> s_isreg s \<and> 0 < st_size s"
  by (auto simp: require_regular_non_symlink_def result_simps s_islnk_def s_isreg_def)

lemma read_verified_regular_file_Inr:
  assumes "read_verified_regular_file p n = Inr bs"
  shows "\<exists>s r. require_regular_non_symlink p = Inr s \<and> pv_open p = Inr r \<and> s_isreg (fr_before r) \<and>
    stable_fields r \<and> bs = read_up_to (st_size (fr_before r)) (fr_chunks r) \<and>
    int (length bs) = st_size (fr_before r) \<and> bs \<noteq> [] \<and> int (length bs) \<le> n"
  using assms by (auto simp: read_verified_regular_file_def result_simps Let_def)

lemma load_json_file_Inr:
  "load_json_file env p = Inr v \<longleftrightarrow>
     (\<exists>bs. read_verified_regular_file p MAX_MANIFEST_BYTES = Inr bs \<and> parse_json_payload env bs = Inr v)"
  by (auto simp: load_json_file_def result_simps)

text \<open>The view of an unchanging regular file with these contents.\<close>

definition steady_view :: "byte list \<Rightarrow> path_view" where
  "steady_view bs =
     (let s = \<lparr>st_mode = 33188, st_dev = 1, st_ino = 7, st_size = int (length bs), st_mtime_ns = 0, st_ctime_ns = 0\<rparr>
      in \<lparr>pv_lstat = Inr s, pv_absolute = [], pv_resolve = Inr [],
          pv_open = Inr \<lparr>fr_before = s, fr_chunks = [bs], fr_after = s\<rparr>, pv_executable = False\<rparr>)"

lemma read_steady_view:
  "bs \<noteq> [] \<Longrightarrow> int (length bs) \<le> n \<Longrightarrow> read_verified_regular_file (steady_view bs) n = Inr bs"
  by (simp add: read_verified_regular_file_def require_regular_non_symlink_def steady_view_def Let_def s_isreg_def
      s_islnk_def missing_as_def stable_fields_def)

lemma load_steady_view:
  assumes "bs \<noteq> []" "int (length bs) \<le> MAX_MANIFEST_BYTES" "parse_json_payload env bs = Inr v"
  shows "load_json_file env (steady_view bs) = Inr v"
  using assms by (simp add: load_json_file_Inr read_steady_view)

end
