(* ===== verification/PyText.thy ===== *)
theory PyText
  imports Prelude
begin

text \<open>
  The parts of Python's text library the packager reads system output with: \<open>str.splitlines\<close>,
  \<open>str.split\<close>, \<open>str.strip\<close>, \<open>int(text, base)\<close> and the strict ASCII and UTF-8 decoders.

  Of the decimal digits only the ASCII ones are digits for \<open>py_int\<close>: the kernel and readelf write no
  others.
\<close>

definition is_digit :: "nat \<Rightarrow> bool" where
  "is_digit c \<longleftrightarrow> 48 \<le> c \<and> c \<le> 57"

subsection \<open>Splitting\<close>

text \<open>\<open>s.split(sep)\<close> for a separator of one character.\<close>

fun split_on :: "nat \<Rightarrow> pystr \<Rightarrow> pystr list" where
  "split_on sep [] = [[]]"
| "split_on sep (c # cs) =
     (if c = sep then [] # split_on sep cs
      else case split_on sep cs of [] \<Rightarrow> [[c]] | p # ps \<Rightarrow> (c # p) # ps)"

text \<open>\<open>head, tail = s.split(sep, 1)\<close>; \<open>None\<close> is the \<open>ValueError\<close> of the unpacking.\<close>

definition split_once :: "nat \<Rightarrow> pystr \<Rightarrow> (pystr \<times> pystr) option" where
  "split_once sep s =
     (if sep \<in> set s then Some (takeWhile (\<lambda>c. c \<noteq> sep) s, tl (dropWhile (\<lambda>c. c \<noteq> sep) s)) else None)"

text \<open>\<open>s.split(maxsplit=n)\<close>\<close>

primrec split_space :: "nat \<Rightarrow> pystr \<Rightarrow> pystr list" where
  "split_space 0 s =
     (let t = dropWhile char_isspace s in if t = [] then [] else [t])"
| "split_space (Suc n) s =
     (let t = dropWhile char_isspace s
      in if t = [] then []
         else takeWhile (Not \<circ> char_isspace) t # split_space n (dropWhile (Not \<circ> char_isspace) t))"

definition py_strip :: "pystr \<Rightarrow> pystr" where
  "py_strip s = rev (dropWhile char_isspace (rev (dropWhile char_isspace s)))"

definition is_line_break :: "nat \<Rightarrow> bool" where
  "is_line_break c \<longleftrightarrow> 10 \<le> c \<and> c \<le> 13 \<or> 28 \<le> c \<and> c \<le> 30 \<or> c = 133 \<or> c = 8232 \<or> c = 8233"

fun py_splitlines :: "pystr \<Rightarrow> pystr list" where
  "py_splitlines [] = []"
| "py_splitlines [c] = (if is_line_break c then [[]] else [[c]])"
| "py_splitlines (c # d # cs) =
     (if c = 13 \<and> d = 10 then [] # py_splitlines cs
      else if is_line_break c then [] # py_splitlines (d # cs)
      else case py_splitlines (d # cs) of [] \<Rightarrow> [[c]] | l # ls \<Rightarrow> (c # l) # ls)"

subsection \<open>Integers\<close>

definition digit_value :: "nat \<Rightarrow> nat \<Rightarrow> nat option" where
  "digit_value base c =
     (let d = if is_digit c then c - 48
              else if 97 \<le> c \<and> c \<le> 122 then c - 87
              else if 65 \<le> c \<and> c \<le> 90 then c - 55 else base
      in if d < base then Some d else None)"

text \<open>Digits may be separated by single underscores; \<open>ok\<close> says that the last character was a digit.\<close>

fun digits_value :: "nat \<Rightarrow> nat \<Rightarrow> bool \<Rightarrow> pystr \<Rightarrow> nat option" where
  "digits_value base acc ok [] = (if ok then Some acc else None)"
| "digits_value base acc ok (c # cs) =
     (if c = 95 then if ok then digits_value base acc False cs else None
      else case digit_value base c of
        None \<Rightarrow> None
      | Some d \<Rightarrow> digits_value base (acc * base + d) True cs)"

definition strip_prefix16 :: "pystr \<Rightarrow> pystr" where
  "strip_prefix16 s =
     (if take 2 s = [48, 120] \<or> take 2 s = [48, 88]
      then (if take 1 (drop 2 s) = [95] then drop 3 s else drop 2 s) else s)"

definition unsigned_value :: "nat \<Rightarrow> pystr \<Rightarrow> int option" where
  "unsigned_value base s =
     map_option int (digits_value base 0 False (if base = 16 then strip_prefix16 s else s))"

definition py_int :: "nat \<Rightarrow> pystr \<Rightarrow> int option" where
  "py_int base s =
     (let t = py_strip s
      in if take 1 t = [45] then map_option uminus (unsigned_value base (tl t))
         else if take 1 t = [43] then unsigned_value base (tl t)
         else unsigned_value base t)"

subsection \<open>Decoding bytes\<close>

text \<open>The bytes of a C buffer up to its first NUL (\<open>ctypes\<close>' \<open>value\<close>, \<open>split(b"\0", 1)[0]\<close>).\<close>

definition c_string :: "byte list \<Rightarrow> byte list" where
  "c_string bs = takeWhile (\<lambda>b. b \<noteq> 0) bs"

definition ascii_decode :: "byte list \<Rightarrow> pystr option" where
  "ascii_decode bs = (if list_all (\<lambda>b. b < 128) bs then Some (map unat bs) else None)"

definition is_continuation :: "nat \<Rightarrow> bool" where
  "is_continuation b \<longleftrightarrow> 128 \<le> b \<and> b < 192"

fun utf8_units :: "nat list \<Rightarrow> pystr option" where
  "utf8_units [] = Some []"
| "utf8_units (a # r) =
     (if a < 128 then map_option ((#) a) (utf8_units r)
      else if 194 \<le> a \<and> a < 224 then
        (case r of
           b # r \<Rightarrow>
             if is_continuation b
             then map_option ((#) ((a - 192) * 64 + (b - 128))) (utf8_units r) else None
         | _ \<Rightarrow> None)
      else if 224 \<le> a \<and> a < 240 then
        (case r of
           b # c # r \<Rightarrow>
             let p = (a - 224) * 4096 + (b - 128) * 64 + (c - 128)
             in if is_continuation b \<and> is_continuation c \<and> 2048 \<le> p \<and> \<not> (55296 \<le> p \<and> p < 57344)
                then map_option ((#) p) (utf8_units r) else None
         | _ \<Rightarrow> None)
      else if 240 \<le> a \<and> a < 245 then
        (case r of
           b # c # d # r \<Rightarrow>
             let p = (a - 240) * 262144 + (b - 128) * 4096 + (c - 128) * 64 + (d - 128)
             in if is_continuation b \<and> is_continuation c \<and> is_continuation d \<and> 65536 \<le> p \<and> p < 1114112
                then map_option ((#) p) (utf8_units r) else None
         | _ \<Rightarrow> None)
      else None)"

definition utf8_decode :: "byte list \<Rightarrow> pystr option" where
  "utf8_decode bs = utf8_units (map unat bs)"

subsection \<open>Lemmas\<close>

lemma split_on_nonempty [simp]: "split_on sep s \<noteq> []"
  by (induction sep s rule: split_on.induct) (auto split: list.splits)

lemma py_splitlines_no_break: "l \<in> set (py_splitlines s) \<Longrightarrow> c \<in> set l \<Longrightarrow> \<not> is_line_break c"
  by (induction s arbitrary: l rule: py_splitlines.induct)
    (fastforce split: if_splits list.splits)+

text \<open>What the encoder writes, the strict decoder reads back.\<close>

lemma unat_small_byte: "n < 256 \<Longrightarrow> unat (of_nat n :: byte) = n"
  by (simp add: unat_of_nat)

lemma utf8_units_2:
  "2 \<le> x \<Longrightarrow> x < 32 \<Longrightarrow> y < 64 \<Longrightarrow>
   utf8_units ((192 + x) # (128 + y) # r) = map_option ((#) (x * 64 + y)) (utf8_units r)"
  by (simp add: is_continuation_def)

lemma utf8_units_3:
  "x < 16 \<Longrightarrow> y < 64 \<Longrightarrow> z < 64 \<Longrightarrow> 2048 \<le> x * 4096 + y * 64 + z \<Longrightarrow>
   \<not> (55296 \<le> x * 4096 + y * 64 + z \<and> x * 4096 + y * 64 + z < 57344) \<Longrightarrow>
   utf8_units ((224 + x) # (128 + y) # (128 + z) # r) = map_option ((#) (x * 4096 + y * 64 + z)) (utf8_units r)"
  by (simp add: is_continuation_def Let_def)

lemma utf8_units_4:
  "w < 5 \<Longrightarrow> x < 64 \<Longrightarrow> y < 64 \<Longrightarrow> z < 64 \<Longrightarrow> 65536 \<le> w * 262144 + x * 4096 + y * 64 + z \<Longrightarrow>
   w * 262144 + x * 4096 + y * 64 + z < 1114112 \<Longrightarrow>
   utf8_units ((240 + w) # (128 + x) # (128 + y) # (128 + z) # r) =
     map_option ((#) (w * 262144 + x * 4096 + y * 64 + z)) (utf8_units r)"
  by (simp add: is_continuation_def Let_def)

lemma sixbit_digits:
  fixes c :: nat
  shows "c div 64 * 64 + c mod 64 = c"
    and "c div 4096 * 4096 + c div 64 mod 64 * 64 + c mod 64 = c"
    and "c div 262144 * 262144 + c div 4096 mod 64 * 4096 + c div 64 mod 64 * 64 + c mod 64 = c"
proof -
  have a: "c div 64 div 64 * 64 + c div 64 mod 64 = c div 64"
    and b: "c div 4096 div 64 * 64 + c div 4096 mod 64 = c div 4096" by simp_all
  have d: "c div 64 div 64 = c div 4096" "c div 4096 div 64 = c div 262144"
    by (simp_all add: div_mult2_eq [symmetric])
  show one: "c div 64 * 64 + c mod 64 = c" by simp
  with a d(1) show two: "c div 4096 * 4096 + c div 64 mod 64 * 64 + c mod 64 = c" by linarith
  with b d(2) show "c div 262144 * 262144 + c div 4096 mod 64 * 4096 + c div 64 mod 64 * 64 + c mod 64 = c"
    by linarith
qed

lemma utf8_units_char:
  assumes "utf8_char c = Inr bs" and "c < 1114112"
  shows "utf8_units (map unat bs @ r) = map_option ((#) c) (utf8_units r)"
proof -
  consider "c < 128" | "128 \<le> c" "c < 2048" | "2048 \<le> c" "c < 65536" | "65536 \<le> c" by linarith
  then show ?thesis
  proof cases
    case 1
    with assms show ?thesis by (auto simp: utf8_char_def unat_small_byte)
  next
    case 2
    have x: "c div 64 < 32" "2 \<le> c div 64" using 2 by (simp_all add: less_eq_div_iff_mult_less_eq less_mult_imp_div_less)
    from 2 assms(1) have "map unat bs = [192 + c div 64, 128 + c mod 64]"
      using x(1) by (auto simp: utf8_char_def unat_small_byte simp del: of_nat_add)
    with utf8_units_2 [OF x(2,1), of "c mod 64" r] show ?thesis by (simp add: sixbit_digits(1) del: utf8_units.simps)
  next
    case 3
    have x: "c div 4096 < 16" using 3 by (simp add: less_mult_imp_div_less)
    from 3 assms(1) have sur: "\<not> (55296 \<le> c \<and> c < 57344)" by (auto simp: utf8_char_def split: if_splits)
    with 3 assms(1) have "map unat bs = [224 + c div 4096, 128 + c div 64 mod 64, 128 + c mod 64]"
      using x by (auto simp: utf8_char_def unat_small_byte simp del: of_nat_add)
    with utf8_units_3 [OF x, of "c div 64 mod 64" "c mod 64" r] sur 3 show ?thesis
      unfolding sixbit_digits(2) by (simp del: utf8_units.simps)
  next
    case 4
    have x: "c div 262144 < 5" using assms(2) by (simp add: less_mult_imp_div_less)
    from 4 assms(1) have "map unat bs =
        [240 + c div 262144, 128 + c div 4096 mod 64, 128 + c div 64 mod 64, 128 + c mod 64]"
      using x by (auto simp: utf8_char_def unat_small_byte simp del: of_nat_add)
    with utf8_units_4 [OF x, of "c div 4096 mod 64" "c div 64 mod 64" "c mod 64" r] assms(2) 4 show ?thesis
      unfolding sixbit_digits(3) by (simp del: utf8_units.simps)
  qed
qed

lemma utf8_decode_encode:
  "utf8_encode s = Inr bs \<Longrightarrow> \<forall>c \<in> set s. c < 1114112 \<Longrightarrow> utf8_decode bs = Some s"
proof (induction s arbitrary: bs)
  case (Cons c s)
  then obtain b bs' where "utf8_char c = Inr b" "utf8_encode s = Inr bs'" "bs = b @ bs'"
    by (auto simp: utf8_encode_Cons bindE_eq_Inr)
  with Cons utf8_units_char show ?case by (auto simp: utf8_decode_def)
qed (simp add: utf8_decode_def)

end
