(* ===== verification/RuntimeIdentity.thy ===== *)
theory RuntimeIdentity
  imports OsFiles PyText
begin

text \<open>
  The identities of the CUDA and cuBLAS libraries (\<open>tools/export/cuda_runtime_identity.py\<close> and
  \<open>tools/export/cublas_runtime_identity.py\<close>): the records, their JSON, the strict parsers that read them
  back from receipts, and the collectors.

  What the collectors ask of the process is a record of answers: the status codes and values of the CUDA,
  NVML and cuBLAS calls, the result of \<open>dladdr1\<close>, the entries of the dynamic section, the bytes of the
  string table, the text of \<open>/proc/self/maps\<close> and what the descriptor of the library answered. A pointer
  is a number, and a NULL pointer is 0, which ctypes reads as \<open>None\<close>.

  \<open>collected_cublas_reparses\<close> shows that a collected identity is one the receipts' parser accepts,
  \<open>collected_library_attested\<close> that its digest is that of the file mapped at the provider's symbol.
\<close>

subsection \<open>CUDA: the record and its parser\<close>

record cuda_runtime_identity =
  cr_driver_api_version_integer :: int
  cr_runtime_version_integer :: int
  cr_nvidia_driver_version :: pystr

definition cuda_runtime_identity_json :: "cuda_runtime_identity \<Rightarrow> json" where
  "cuda_runtime_identity_json r = JObj
     [(pys ''cuda_driver_api_version_integer'', JInt (cr_driver_api_version_integer r)),
      (pys ''cuda_runtime_version_integer'', JInt (cr_runtime_version_integer r)),
      (pys ''nvidia_driver_version'', JStr (cr_nvidia_driver_version r))]"

definition cuda_error :: "string \<Rightarrow> exn" where
  "cuda_error m = Exn PyRuntimeError m"

definition cuda_require_positive_integer :: "json option \<Rightarrow> int result" where
  "cuda_require_positive_integer v =
     (case v of
        Some (JInt i) \<Rightarrow> if i \<le> 0 then Inl (cuda_error '' must be a positive integer'') else Inr i
      | _ \<Rightarrow> Inl (cuda_error '' must be a positive integer''))"

text \<open>\<open>[0-9]+(?:\.[0-9]+)+\<close> with \<open>fullmatch\<close>.\<close>

definition driver_version_pattern :: "pystr \<Rightarrow> bool" where
  "driver_version_pattern s \<longleftrightarrow>
     (let parts = split_on 46 s
      in 2 \<le> length parts \<and> list_all (\<lambda>p. p \<noteq> [] \<and> list_all is_digit p) parts)"

definition require_driver_version :: "json option \<Rightarrow> pystr result" where
  "require_driver_version v =
     (case v of
        Some (JStr s) \<Rightarrow>
          if driver_version_pattern s then Inr s
          else Inl (cuda_error '' must be a numeric NVIDIA driver version'')
      | _ \<Rightarrow> Inl (cuda_error '' must be a numeric NVIDIA driver version''))"

text \<open>\<open>value.get(key)\<close>\<close>

definition object_get :: "json_object \<Rightarrow> string \<Rightarrow> json option" where
  "object_get doc key = map_of doc (pys key)"

definition parse_cuda_runtime_identity :: "json \<Rightarrow> cuda_runtime_identity result" where
  "parse_cuda_runtime_identity v =
     (case v of
        JObj doc \<Rightarrow>
          bindE (guardE (set (map fst doc) \<noteq>
              pys ` {''cuda_driver_api_version_integer'', ''cuda_runtime_version_integer'', ''nvidia_driver_version''})
            (cuda_error '' keys mismatch: expected=, actual='')) (\<lambda>_.
          bindE (cuda_require_positive_integer (object_get doc ''cuda_driver_api_version_integer'')) (\<lambda>api.
          bindE (cuda_require_positive_integer (object_get doc ''cuda_runtime_version_integer'')) (\<lambda>runtime.
          bindE (require_driver_version (object_get doc ''nvidia_driver_version'')) (\<lambda>driver.
          Inr \<lparr>cr_driver_api_version_integer = api, cr_runtime_version_integer = runtime,
               cr_nvidia_driver_version = driver\<rparr>))))
      | _ \<Rightarrow> Inl (cuda_error '' must be an object''))"

subsection \<open>CUDA: collecting\<close>

text \<open>\<open>None\<close>: the library cannot be loaded. A version query answers its status and the integer it left.\<close>

record nvml_answers =
  nv_init_status :: int
  nv_driver_status :: int
  nv_buffer :: "byte list"
  nv_shutdown_status :: int

record cuda_answers =
  ca_runtime :: "((int \<times> int) \<times> (int \<times> int)) option"
  ca_nvml :: "nvml_answers option"

definition load_error :: exn where
  "load_error = Exn PyOSError ''cannot open shared object file''"

definition cuda_version :: "int \<times> int \<Rightarrow> int result" where
  "cuda_version answer =
     (let (status, version) = answer
      in if status \<noteq> 0 \<or> version \<le> 0
         then Inl (cuda_error '' failed or returned an invalid version: status=, version='') else Inr version)"

text \<open>The body of \<open>try\<close>, and the \<open>finally\<close> that shuts NVML down: its failure is only raised when
  nothing was raised before.\<close>

definition nvml_driver_query :: "nvml_answers \<Rightarrow> pystr result" where
  "nvml_driver_query a =
     bindE (guardE (nv_driver_status a \<noteq> 0) (cuda_error ''nvmlSystemGetDriverVersion failed with status '')) (\<lambda>_.
     case ascii_decode (c_string (nv_buffer a)) of
       None \<Rightarrow> Inl (cuda_error ''NVIDIA driver version is not ASCII'')
     | Some s \<Rightarrow> require_driver_version (Some (JStr s)))"

definition cuda_nvidia_driver_version :: "nvml_answers option \<Rightarrow> pystr result" where
  "cuda_nvidia_driver_version nvml =
     (case nvml of
        None \<Rightarrow> Inl load_error
      | Some a \<Rightarrow>
          bindE (guardE (nv_init_status a \<noteq> 0) (cuda_error ''nvmlInit_v2 failed with status '')) (\<lambda>_.
          bindE (nvml_driver_query a) (\<lambda>version.
          bindE (guardE (nv_shutdown_status a \<noteq> 0) (cuda_error ''nvmlShutdown failed with status '')) (\<lambda>_.
          Inr version))))"

definition collect_cuda_runtime_identity :: "cuda_answers \<Rightarrow> cuda_runtime_identity result" where
  "collect_cuda_runtime_identity a =
     (case ca_runtime a of
        None \<Rightarrow> Inl load_error
      | Some (driver_api, runtime) \<Rightarrow>
          bindE (cuda_version driver_api) (\<lambda>api.
          bindE (cuda_version runtime) (\<lambda>version.
          bindE (cuda_nvidia_driver_version (ca_nvml a)) (\<lambda>driver.
          Inr \<lparr>cr_driver_api_version_integer = api, cr_runtime_version_integer = version,
               cr_nvidia_driver_version = driver\<rparr>))))"

subsection \<open>cuBLAS: the records and their parser\<close>

definition CUBLAS_SONAME :: string where "CUBLAS_SONAME = ''libcublas.so.13''"
definition CUBLAS_LT_SONAME :: string where "CUBLAS_LT_SONAME = ''libcublasLt.so.13''"

record loaded_library_identity =
  ll_soname :: pystr
  ll_size_bytes :: int
  ll_sha256 :: pystr

definition loaded_library_identity_json :: "loaded_library_identity \<Rightarrow> json" where
  "loaded_library_identity_json r = JObj
     [(pys ''soname'', JStr (ll_soname r)), (pys ''size_bytes'', JInt (ll_size_bytes r)),
      (pys ''sha256'', JStr (ll_sha256 r))]"

record cublas_runtime_identity =
  cb_api_version_integer :: int
  cb_library :: loaded_library_identity
  cb_lt_library :: loaded_library_identity

definition cublas_runtime_identity_json :: "cublas_runtime_identity \<Rightarrow> json" where
  "cublas_runtime_identity_json r = JObj
     [(pys ''api_version_integer'', JInt (cb_api_version_integer r)),
      (pys ''library'', loaded_library_identity_json (cb_library r)),
      (pys ''lt_library'', loaded_library_identity_json (cb_lt_library r))]"

definition cublas_error :: "string \<Rightarrow> exn" where
  "cublas_error m = Exn CublasIdentityError m"

definition cublas_require_positive_integer :: "json \<Rightarrow> int result" where
  "cublas_require_positive_integer v =
     (case v of
        JInt i \<Rightarrow> if i \<le> 0 then Inl (cublas_error '' must be a positive integer'') else Inr i
      | _ \<Rightarrow> Inl (cublas_error '' must be a positive integer''))"

definition cublas_require_sha256 :: "json \<Rightarrow> pystr result" where
  "cublas_require_sha256 v =
     (case v of
        JStr s \<Rightarrow>
          if length s \<noteq> 64 \<or> list_ex (\<lambda>c. c \<notin> set (pys ''0123456789abcdef'')) s
          then Inl (cublas_error '' must be a lowercase SHA-256 digest'') else Inr s
      | _ \<Rightarrow> Inl (cublas_error '' must be a lowercase SHA-256 digest''))"

definition exact_keys :: "json \<Rightarrow> string list \<Rightarrow> json_object option" where
  "exact_keys v keys =
     (case v of JObj doc \<Rightarrow> if set (map fst doc) = pys ` set keys then Some doc else None | _ \<Rightarrow> None)"

definition parse_library_identity :: "json \<Rightarrow> string \<Rightarrow> loaded_library_identity result" where
  "parse_library_identity v expected_soname =
     (case exact_keys v [''soname'', ''size_bytes'', ''sha256''] of
        None \<Rightarrow> Inl (cublas_error '' must contain exactly soname, size_bytes, and sha256'')
      | Some doc \<Rightarrow>
          bindE (field doc ''soname'') (\<lambda>soname.
          bindE (guardE (soname \<noteq> JStr (pys expected_soname)) (cublas_error ''.soname must be '')) (\<lambda>_.
          bindE (bindE (field doc ''size_bytes'') cublas_require_positive_integer) (\<lambda>size_bytes.
          bindE (bindE (field doc ''sha256'') cublas_require_sha256) (\<lambda>sha256.
          Inr \<lparr>ll_soname = pys expected_soname, ll_size_bytes = size_bytes, ll_sha256 = sha256\<rparr>)))))"

definition parse_cublas_runtime_identity :: "json \<Rightarrow> cublas_runtime_identity result" where
  "parse_cublas_runtime_identity v =
     (case exact_keys v [''api_version_integer'', ''library'', ''lt_library''] of
        None \<Rightarrow> Inl (cublas_error '' must contain exactly api_version_integer, library, and lt_library'')
      | Some doc \<Rightarrow>
          bindE (bindE (field doc ''api_version_integer'') cublas_require_positive_integer) (\<lambda>api.
          bindE (bindE (field doc ''library'') (\<lambda>x. parse_library_identity x CUBLAS_SONAME)) (\<lambda>library.
          bindE (bindE (field doc ''lt_library'') (\<lambda>x. parse_library_identity x CUBLAS_LT_SONAME)) (\<lambda>lt_library.
          Inr \<lparr>cb_api_version_integer = api, cb_library = library, cb_lt_library = lt_library\<rparr>))))"

subsection \<open>cuBLAS: the mapping of a symbol\<close>

record mapping_identity =
  mi_device :: int
  mi_inode :: int

text \<open>\<open>os.makedev\<close> is the argument \<open>makedev\<close>. \<open>None\<close> for a line: the address is not in its range.\<close>

definition mapping_of_line ::
  "(int \<Rightarrow> int \<Rightarrow> int) \<Rightarrow> int \<Rightarrow> pystr \<Rightarrow> mapping_identity option result"
where
  "mapping_of_line makedev address line =
     (let fields = split_space 5 line;
          malformed_range = Inl (cublas_error ''malformed address range in /proc/self/maps'');
          malformed_device = Inl (cublas_error ''malformed device/inode in /proc/self/maps'')
      in bindE (guardE (length fields < 5) (cublas_error ''malformed entry in /proc/self/maps'')) (\<lambda>_.
         case split_once 45 (fields ! 0) of
           None \<Rightarrow> malformed_range
         | Some (start_text, end_text) \<Rightarrow>
         (case (py_int 16 start_text, py_int 16 end_text) of
           (Some start, Some stop) \<Rightarrow>
             if \<not> (start \<le> address \<and> address < stop) then Inr None
             else
               (case split_once 58 (fields ! 3) of
                  None \<Rightarrow> malformed_device
                | Some (major_text, minor_text) \<Rightarrow>
                (case (py_int 16 major_text, py_int 16 minor_text, py_int 10 (fields ! 4)) of
                   (Some major, Some minor, Some inode) \<Rightarrow>
                     bindE (guardE (inode \<le> 0)
                       (cublas_error ''cuBLAS symbol is not backed by a regular-file mapping'')) (\<lambda>_.
                     Inr (Some \<lparr>mi_device = makedev major minor, mi_inode = inode\<rparr>))
                 | _ \<Rightarrow> malformed_device))
         | _ \<Rightarrow> malformed_range)))"

fun mapping_of_lines ::
  "(int \<Rightarrow> int \<Rightarrow> int) \<Rightarrow> int \<Rightarrow> pystr list \<Rightarrow> mapping_identity result"
where
  "mapping_of_lines makedev address [] =
     Inl (cublas_error ''cuBLAS provider symbol has no file-backed process mapping'')"
| "mapping_of_lines makedev address (line # lines) =
     bindE (mapping_of_line makedev address line) (\<lambda>m.
     case m of None \<Rightarrow> mapping_of_lines makedev address lines | Some i \<Rightarrow> Inr i)"

text \<open>\<open>None\<close>: \<open>/proc/self/maps\<close> cannot be read.\<close>

definition mapping_identity_of ::
  "(int \<Rightarrow> int \<Rightarrow> int) \<Rightarrow> byte list option \<Rightarrow> int \<Rightarrow> mapping_identity result"
where
  "mapping_identity_of makedev maps address =
     (case maps of
        None \<Rightarrow> Inl (cublas_error ''unable to read /proc/self/maps: '')
      | Some bytes \<Rightarrow>
          (case utf8_decode bytes of
             None \<Rightarrow> Inl (Exn PyUnicodeDecodeError ''invalid UTF-8'')
           | Some t \<Rightarrow> mapping_of_lines makedev address (py_splitlines t)))"

subsection \<open>cuBLAS: the SONAME in the dynamic section\<close>

record dynamic_scan =
  dy_string_table_address :: "nat option"
  dy_string_table_size :: "nat option"
  dy_soname_offset :: "nat option"

definition pointer_value :: "nat \<Rightarrow> nat option" where
  "pointer_value p = (if p = 0 then None else Some p)"

text \<open>At most \<open>n\<close> more entries; the flag says that the terminator was found.\<close>

fun scan_dynamic :: "(nat \<Rightarrow> int \<times> nat) \<Rightarrow> nat \<Rightarrow> nat \<Rightarrow> dynamic_scan \<Rightarrow> bool \<times> dynamic_scan" where
  "scan_dynamic l_ld index 0 s = (False, s)"
| "scan_dynamic l_ld index (Suc n) s =
     (let (tag, v) = l_ld index
      in if tag = 0 then (True, s)
         else scan_dynamic l_ld (Suc index) n
           (if tag = 5 then s\<lparr>dy_string_table_address := pointer_value v\<rparr>
            else if tag = 10 then s\<lparr>dy_string_table_size := Some v\<rparr>
            else if tag = 14 then s\<lparr>dy_soname_offset := Some v\<rparr> else s))"

record provider_answers =
  pa_status :: int
  pa_fname :: "pystr option"
  pa_link_map :: bool
  pa_l_ld :: "(nat \<Rightarrow> int \<times> nat) option"
  pa_string_at :: "nat \<Rightarrow> nat \<Rightarrow> byte list"

definition DYNAMIC_LIMIT :: nat where "DYNAMIC_LIMIT = 16 * 1024"

definition loaded_soname :: "provider_answers \<Rightarrow> (nat \<Rightarrow> int \<times> nat) \<Rightarrow> pystr result" where
  "loaded_soname p l_ld =
     (let (found_terminator, s) =
            scan_dynamic l_ld 0 DYNAMIC_LIMIT
              \<lparr>dy_string_table_address = None, dy_string_table_size = None, dy_soname_offset = None\<rparr>;
          unbounded = Inl (cublas_error ''loaded provider has no bounded ELF SONAME for '')
      in case (dy_string_table_address s, dy_string_table_size s, dy_soname_offset s) of
           (Some address, Some size_of_table, Some offset) \<Rightarrow>
             if \<not> found_terminator \<or> size_of_table \<le> 0 \<or> size_of_table \<le> offset then unbounded
             else
               let encoded = pa_string_at p (address + offset) (size_of_table - offset)
               in if 0 \<notin> set encoded
                  then Inl (cublas_error ''loaded provider has an unterminated ELF SONAME for '')
                  else (case ascii_decode (c_string encoded) of
                          None \<Rightarrow> Inl (cublas_error ''loaded provider has a non-ASCII ELF SONAME for '')
                        | Some soname \<Rightarrow> Inr soname)
         | _ \<Rightarrow> unbounded)"

definition loaded_provider_info :: "provider_answers \<Rightarrow> (pystr \<times> pystr) result" where
  "loaded_provider_info p =
     (case pa_fname p of
        None \<Rightarrow> Inl (cublas_error ''dladdr did not identify the provider for '')
      | Some fname \<Rightarrow>
          bindE (guardE (pa_status p = 0 \<or> \<not> pa_link_map p)
            (cublas_error ''dladdr did not identify the provider for '')) (\<lambda>_.
          case pa_l_ld p of
            None \<Rightarrow> Inl (cublas_error ''loaded provider has no dynamic section for '')
          | Some l_ld \<Rightarrow> bindE (loaded_soname p l_ld) (\<lambda>soname. Inr (fname, soname))))"

subsection \<open>cuBLAS: collecting\<close>

definition loader_name :: "pystr \<Rightarrow> pystr" where
  "loader_name t = (let cs = pure_components t in if cs = [] then [] else last cs)"

text \<open>\<open>_stable_file_fields\<close> also compares the mode.\<close>

definition stable_file_fields :: "file_read \<Rightarrow> bool" where
  "stable_file_fields r \<longleftrightarrow> stable_fields r \<and> st_mode (fr_before r) = st_mode (fr_after r)"

text \<open>The answers about one library; \<open>None\<close> for an \<open>OSError\<close> of \<open>resolve\<close> or \<open>open\<close>.\<close>

record library_answers =
  la_address :: nat
  la_provider :: provider_answers
  la_resolved :: bool
  la_file :: "file_read option"
  la_maps :: "byte list option"

definition loaded_library_identity_of ::
  "(int \<Rightarrow> int \<Rightarrow> int) \<Rightarrow> library_answers \<Rightarrow> string \<Rightarrow> loaded_library_identity result"
where
  "loaded_library_identity_of makedev a expected_soname =
     bindE (guardE (la_address a = 0) (cublas_error '' provider symbol has an invalid address'')) (\<lambda>_.
     bindE (loaded_provider_info (la_provider a)) (\<lambda>(provider_path, actual_soname).
     bindE (guardE (actual_soname \<noteq> pys expected_soname)
       (cublas_error ''loaded provider ELF SONAME differs from '')) (\<lambda>_.
     bindE (guardE (loader_name provider_path \<noteq> pys expected_soname)
       (cublas_error ''loaded provider name differs from '')) (\<lambda>_.
     bindE (guardE (\<not> la_resolved a) (cublas_error ''unable to resolve loaded '')) (\<lambda>_.
     case la_file a of
       None \<Rightarrow> Inl (cublas_error ''unable to open loaded '')
     | Some r \<Rightarrow>
         bindE (guardE (\<not> s_isreg (fr_before r) \<or> st_size (fr_before r) \<le> 0)
           (cublas_error ''loaded  is not a nonempty regular file'')) (\<lambda>_.
         bindE (mapping_identity_of makedev (la_maps a) (int (la_address a))) (\<lambda>mapping.
         bindE (guardE (int (st_dev (fr_before r)) \<noteq> mi_device mapping \<or> int (st_ino (fr_before r)) \<noteq> mi_inode mapping)
           (cublas_error ''loaded  mapping does not match the resolved artifact device/inode'')) (\<lambda>_.
         bindE (guardE (\<not> stable_file_fields r)
           (cublas_error ''loaded  changed while being authenticated'')) (\<lambda>_.
         Inr \<lparr>ll_soname = pys expected_soname, ll_size_bytes = st_size (fr_before r),
              ll_sha256 = sha256_hex (read_until_eof r)\<rparr>)))))))))"

text \<open>The symbols the plugin scope resolves, the answers of the calls and of the two providers.\<close>

record cublas_answers =
  cu_resolves :: "string \<Rightarrow> bool"
  cu_create :: "int \<times> nat"
  cu_get_version :: "int \<times> int"
  cu_destroy :: int
  cu_lt_version :: int
  cu_library :: library_answers
  cu_lt_library :: library_answers

definition plugin_symbol :: "cublas_answers \<Rightarrow> string \<Rightarrow> unit result" where
  "plugin_symbol a name =
     guardE (\<not> cu_resolves a name) (cublas_error ''unable to resolve  through the plugin dependency scope'')"

definition collect_cublas_runtime_identity ::
  "(int \<Rightarrow> int \<Rightarrow> int) \<Rightarrow> cublas_answers \<Rightarrow> cublas_runtime_identity result"
where
  "collect_cublas_runtime_identity makedev a =
     bindE (mapE (plugin_symbol a)
       [''cublasCreate_v2'', ''cublasDestroy_v2'', ''cublasGetVersion_v2'', ''cublasLtGetVersion'']) (\<lambda>_.
     bindE (guardE (fst (cu_create a) \<noteq> 0 \<or> snd (cu_create a) = 0)
       (cublas_error ''cublasCreate_v2 failed while collecting runtime identity'')) (\<lambda>_.
     let (version_status, version) = cu_get_version a in
     bindE (guardE (version_status \<noteq> 0 \<or> version \<le> 0)
       (cublas_error ''cublasGetVersion_v2 returned an invalid version'')) (\<lambda>_.
     bindE (guardE (cu_destroy a \<noteq> 0)
       (cublas_error ''cublasDestroy_v2 failed after runtime identity collection'')) (\<lambda>_.
     bindE (guardE (cu_lt_version a \<le> 0 \<or> cu_lt_version a \<noteq> version)
       (cublas_error ''cuBLAS and cuBLASLt API versions differ or are invalid'')) (\<lambda>_.
     bindE (loaded_library_identity_of makedev (cu_library a) CUBLAS_SONAME) (\<lambda>library.
     bindE (loaded_library_identity_of makedev (cu_lt_library a) CUBLAS_LT_SONAME) (\<lambda>lt_library.
     Inr \<lparr>cb_api_version_integer = version, cb_library = library, cb_lt_library = lt_library\<rparr>)))))))"

subsection \<open>The parsers read back what they accepted\<close>

lemma sha256_pattern_eq: "sha256_pattern s \<longleftrightarrow> is_lower_hex 64 s"
  by (simp add: sha256_pattern_def lower_hex_pattern_def is_lower_hex_def)

lemma hex_chars: "c \<in> set (pys ''0123456789abcdef'') \<longleftrightarrow> is_hex_char c"
  unfolding is_hex_char_def by (simp add: pys_def) presburger

lemma cublas_require_sha256_Inr_iff: "cublas_require_sha256 v = Inr s \<longleftrightarrow> v = JStr s \<and> sha256_pattern s"
  unfolding cublas_require_sha256_def hex_chars
  by (auto simp: sha256_pattern_eq is_lower_hex_def list_ex_iff list_all_iff split: json.splits)

lemma cublas_require_positive_integer_Inr_iff:
  "cublas_require_positive_integer v = Inr i \<longleftrightarrow> v = JInt i \<and> 0 < i"
  by (auto simp: cublas_require_positive_integer_def split: json.splits)

lemma cuda_require_positive_integer_Inr_iff:
  "cuda_require_positive_integer v = Inr i \<longleftrightarrow> v = Some (JInt i) \<and> 0 < i"
  by (auto simp: cuda_require_positive_integer_def split: option.splits json.splits)

lemma require_driver_version_Inr_iff:
  "require_driver_version v = Inr s \<longleftrightarrow> v = Some (JStr s) \<and> driver_version_pattern s"
  by (auto simp: require_driver_version_def split: option.splits json.splits)

lemmas identity_simps = cublas_require_sha256_Inr_iff cublas_require_positive_integer_Inr_iff
  cuda_require_positive_integer_Inr_iff require_driver_version_Inr_iff field_Inr_iff

definition library_wf :: "string \<Rightarrow> loaded_library_identity \<Rightarrow> bool" where
  "library_wf soname l \<longleftrightarrow> ll_soname l = pys soname \<and> 0 < ll_size_bytes l \<and> sha256_pattern (ll_sha256 l)"

definition cublas_wf :: "cublas_runtime_identity \<Rightarrow> bool" where
  "cublas_wf i \<longleftrightarrow> 0 < cb_api_version_integer i \<and>
     library_wf CUBLAS_SONAME (cb_library i) \<and> library_wf CUBLAS_LT_SONAME (cb_lt_library i)"

lemma parse_library_identity_wf: "parse_library_identity v soname = Inr l \<Longrightarrow> library_wf soname l"
  by (auto simp: parse_library_identity_def library_wf_def result_simps identity_simps split: option.splits)

lemma parse_library_identity_json:
  "library_wf soname l \<Longrightarrow> parse_library_identity (loaded_library_identity_json l) soname = Inr l"
  by (cases l)
    (auto simp: parse_library_identity_def library_wf_def exact_keys_def loaded_library_identity_json_def
      result_simps identity_simps)

lemma parse_cublas_wf: "parse_cublas_runtime_identity v = Inr i \<Longrightarrow> cublas_wf i"
  by (auto simp: parse_cublas_runtime_identity_def cublas_wf_def result_simps identity_simps
      dest!: parse_library_identity_wf split: option.splits)

lemma parse_cublas_json: "cublas_wf i \<Longrightarrow> parse_cublas_runtime_identity (cublas_runtime_identity_json i) = Inr i"
  by (cases i)
    (auto simp: parse_cublas_runtime_identity_def cublas_wf_def exact_keys_def cublas_runtime_identity_json_def
      result_simps identity_simps parse_library_identity_json)

interpretation cublas_identity: json_codec parse_cublas_runtime_identity cublas_runtime_identity_json
  by unfold_locales (blast intro: parse_cublas_json parse_cublas_wf)

definition cuda_wf :: "cuda_runtime_identity \<Rightarrow> bool" where
  "cuda_wf i \<longleftrightarrow> 0 < cr_driver_api_version_integer i \<and> 0 < cr_runtime_version_integer i \<and>
     driver_version_pattern (cr_nvidia_driver_version i)"

lemma parse_cuda_wf: "parse_cuda_runtime_identity v = Inr i \<Longrightarrow> cuda_wf i"
  by (auto simp: parse_cuda_runtime_identity_def cuda_wf_def result_simps identity_simps split: json.splits)

lemma parse_cuda_json: "cuda_wf i \<Longrightarrow> parse_cuda_runtime_identity (cuda_runtime_identity_json i) = Inr i"
  by (cases i)
    (auto simp: parse_cuda_runtime_identity_def cuda_wf_def cuda_runtime_identity_json_def object_get_def
      result_simps identity_simps)

interpretation cuda_identity: json_codec parse_cuda_runtime_identity cuda_runtime_identity_json
  by unfold_locales (blast intro: parse_cuda_json parse_cuda_wf)

subsection \<open>What is collected\<close>

lemma nvml_driver_query_pattern: "nvml_driver_query a = Inr s \<Longrightarrow> driver_version_pattern s"
  by (auto simp: nvml_driver_query_def result_simps identity_simps split: option.splits)

lemma collect_cuda_wf: "collect_cuda_runtime_identity a = Inr i \<Longrightarrow> cuda_wf i"
  by (auto simp: collect_cuda_runtime_identity_def cuda_version_def cuda_nvidia_driver_version_def cuda_wf_def
      result_simps nvml_driver_query_pattern split: option.splits prod.splits if_splits)

text \<open>The first line of \<open>/proc/self/maps\<close> whose range contains the address.\<close>

definition line_maps :: "(int \<Rightarrow> int \<Rightarrow> int) \<Rightarrow> int \<Rightarrow> pystr \<Rightarrow> mapping_identity \<Rightarrow> bool" where
  "line_maps makedev address line m \<longleftrightarrow>
     (\<exists>s e ma mi start stop major minor.
        split_once 45 (split_space 5 line ! 0) = Some (s, e) \<and>
        py_int 16 s = Some start \<and> py_int 16 e = Some stop \<and> start \<le> address \<and> address < stop \<and>
        split_once 58 (split_space 5 line ! 3) = Some (ma, mi) \<and>
        py_int 16 ma = Some major \<and> py_int 16 mi = Some minor \<and> mi_device m = makedev major minor \<and>
        py_int 10 (split_space 5 line ! 4) = Some (mi_inode m) \<and> 0 < mi_inode m)"

lemma mapping_of_line_maps:
  "mapping_of_line makedev address line = Inr (Some m) \<Longrightarrow> line_maps makedev address line m"
  unfolding mapping_of_line_def Let_def line_maps_def
  by (auto simp: result_simps split: option.splits if_splits)

lemma mapping_of_lines_first:
  "mapping_of_lines makedev address lines = Inr m \<Longrightarrow> \<exists>line \<in> set lines. line_maps makedev address line m"
  by (induction lines) (auto simp: result_simps mapping_of_line_maps split: option.splits)

definition attested ::
  "(int \<Rightarrow> int \<Rightarrow> int) \<Rightarrow> library_answers \<Rightarrow> string \<Rightarrow> loaded_library_identity \<Rightarrow> bool"
where
  "attested makedev a soname l \<longleftrightarrow>
     (\<exists>r bytes t m. la_file a = Some r \<and> s_isreg (fr_before r) \<and> stable_file_fields r \<and>
        ll_size_bytes l = st_size (fr_before r) \<and> ll_sha256 l = sha256_hex (read_until_eof r) \<and>
        la_maps a = Some bytes \<and> utf8_decode bytes = Some t \<and>
        (\<exists>line \<in> set (py_splitlines t). line_maps makedev (int (la_address a)) line m) \<and>
        mi_device m = int (st_dev (fr_before r)) \<and> mi_inode m = int (st_ino (fr_before r)) \<and>
        (\<exists>fname. loaded_provider_info (la_provider a) = Inr (fname, pys soname) \<and> loader_name fname = pys soname))"

lemma loaded_library_attested:
  assumes "loaded_library_identity_of makedev a soname = Inr l"
  shows "library_wf soname l \<and> attested makedev a soname l"
proof -
  from assms obtain path actual r m where
    info: "loaded_provider_info (la_provider a) = Inr (path, actual)" and
    names: "actual = pys soname" "loader_name path = pys soname" and
    onfile: "la_file a = Some r" "s_isreg (fr_before r)" "0 < st_size (fr_before r)" "stable_file_fields r" and
    map: "mapping_identity_of makedev (la_maps a) (int (la_address a)) = Inr m" and
    dev: "mi_device m = int (st_dev (fr_before r))" "mi_inode m = int (st_ino (fr_before r))" and
    l: "l = \<lparr>ll_soname = pys soname, ll_size_bytes = st_size (fr_before r),
              ll_sha256 = sha256_hex (read_until_eof r)\<rparr>"
    unfolding loaded_library_identity_of_def
    by (auto simp: result_simps split: option.splits prod.splits)
  from map obtain bytes t where contents: "la_maps a = Some bytes" "utf8_decode bytes = Some t"
    and lines: "mapping_of_lines makedev (int (la_address a)) (py_splitlines t) = Inr m"
    by (auto simp: mapping_identity_of_def split: option.splits)
  have "library_wf soname l"
    using onfile(3) by (simp add: library_wf_def l sha256_pattern_eq sha256_hexdigest_shape)
  moreover have "attested makedev a soname l"
    unfolding attested_def using onfile info names dev contents mapping_of_lines_first [OF lines] l by auto
  ultimately show ?thesis by blast
qed

lemma collect_cublas_sound:
  assumes "collect_cublas_runtime_identity makedev a = Inr i"
  shows "cublas_wf i" and "cu_get_version a = (0, cb_api_version_integer i)"
    and "cu_lt_version a = cb_api_version_integer i"
    and "attested makedev (cu_library a) CUBLAS_SONAME (cb_library i)"
    and "attested makedev (cu_lt_library a) CUBLAS_LT_SONAME (cb_lt_library i)"
proof -
  from assms obtain version library lt_library where
    version: "cu_get_version a = (0, version)" "0 < version" "cu_lt_version a = version" and
    library: "loaded_library_identity_of makedev (cu_library a) CUBLAS_SONAME = Inr library" and
    lt: "loaded_library_identity_of makedev (cu_lt_library a) CUBLAS_LT_SONAME = Inr lt_library" and
    i: "i = \<lparr>cb_api_version_integer = version, cb_library = library, cb_lt_library = lt_library\<rparr>"
    unfolding collect_cublas_runtime_identity_def Let_def
    by (auto simp: result_simps split: prod.splits)
  note facts = loaded_library_attested [OF library] loaded_library_attested [OF lt]
  show "cublas_wf i" using facts version(2) by (simp add: cublas_wf_def i)
  show "cu_get_version a = (0, cb_api_version_integer i)" "cu_lt_version a = cb_api_version_integer i"
    using version by (simp_all add: i)
  show "attested makedev (cu_library a) CUBLAS_SONAME (cb_library i)"
    "attested makedev (cu_lt_library a) CUBLAS_LT_SONAME (cb_lt_library i)"
    using facts by (simp_all add: i)
qed

subsection \<open>Properties\<close>

text \<open>A process in which both libraries are mapped.\<close>

definition demo_bytes :: "string \<Rightarrow> byte list" where
  "demo_bytes s = map (\<lambda>c. of_nat (of_char c)) s"

definition demo_library_stat :: os_stat where
  "demo_library_stat = \<lparr>st_mode = 33188, st_dev = 1, st_ino = 7, st_size = 1, st_mtime_ns = 0, st_ctime_ns = 0\<rparr>"

definition demo_l_ld :: "nat \<Rightarrow> int \<times> nat" where
  "demo_l_ld i = (if i = 0 then (5, 100) else if i = 1 then (10, 32) else if i = 2 then (14, 1) else (0, 0))"

definition demo_library_answers :: "string \<Rightarrow> library_answers" where
  "demo_library_answers soname =
     \<lparr>la_address = 18,
      la_provider = \<lparr>pa_status = 1, pa_fname = Some (pys ''/'' @ pys soname), pa_link_map = True,
        pa_l_ld = Some demo_l_ld, pa_string_at = (\<lambda>_ _. demo_bytes soname @ [0])\<rparr>,
      la_resolved = True,
      la_file = Some \<lparr>fr_before = demo_library_stat, fr_chunks = [[42]], fr_after = demo_library_stat\<rparr>,
      la_maps = Some (demo_bytes ''10-20 r 0 0:1 7 x'')\<rparr>"

definition demo_cublas_answers :: cublas_answers where
  "demo_cublas_answers =
     \<lparr>cu_resolves = (\<lambda>_. True), cu_create = (0, 5), cu_get_version = (0, 130000), cu_destroy = 0,
      cu_lt_version = 130000, cu_library = demo_library_answers CUBLAS_SONAME,
      cu_lt_library = demo_library_answers CUBLAS_LT_SONAME\<rparr>"

definition demo_makedev :: "int \<Rightarrow> int \<Rightarrow> int" where
  "demo_makedev major minor = 256 * major + minor"

lemma demo_bytes_units: "list_all (\<lambda>c. of_char c < (128 :: nat)) s \<Longrightarrow> map unat (demo_bytes s) = pys s"
  by (induction s) (simp_all add: demo_bytes_def pys_def unat_small_byte)

lemma utf8_units_ascii: "list_all (\<lambda>c. c < 128) cs \<Longrightarrow> utf8_units cs = Some cs"
  by (induction cs) simp_all

lemma demo_maps_decoded: "utf8_decode (demo_bytes ''10-20 r 0 0:1 7 x'') = Some (pys ''10-20 r 0 0:1 7 x'')"
proof -
  have "map unat (demo_bytes ''10-20 r 0 0:1 7 x'') = pys ''10-20 r 0 0:1 7 x''"
    by (rule demo_bytes_units) simp
  then show ?thesis by (simp add: utf8_decode_def utf8_units_ascii pys_def)
qed

lemma demo_fields:
  "split_space 5 (pys ''10-20 r 0 0:1 7 x'') = [pys ''10-20'', pys ''r'', pys ''0'', pys ''0:1'', pys ''7'', pys ''x'']"
  by (simp add: numeral_eq_Suc) (simp add: pys_def char_isspace_def)

lemmas demo_int_simps = py_int_def unsigned_value_def strip_prefix16_def py_strip_def char_isspace_def
  digit_value_def is_digit_def

lemma demo_integers:
  "py_int 16 [49, 48] = Some 16" "py_int 16 [50, 48] = Some 32" "py_int 16 [48] = Some 0"
  "py_int 16 [49] = Some 1" "py_int 10 [55] = Some 7"
  by (simp_all add: demo_int_simps Let_def)

lemma demo_mapping:
  "mapping_of_lines demo_makedev 18 (py_splitlines (pys ''10-20 r 0 0:1 7 x'')) =
     Inr \<lparr>mi_device = 1, mi_inode = 7\<rparr>"
proof -
  have "py_splitlines (pys ''10-20 r 0 0:1 7 x'') = [pys ''10-20 r 0 0:1 7 x'']"
    by (simp add: pys_def is_line_break_def)
  moreover have "mapping_of_line demo_makedev 18 (pys ''10-20 r 0 0:1 7 x'') =
      Inr (Some \<lparr>mi_device = 1, mi_inode = 7\<rparr>)"
    unfolding mapping_of_line_def demo_fields Let_def
    by (simp add: pys_def split_once_def demo_integers demo_makedev_def)
  ultimately show ?thesis by simp
qed

lemma demo_names:
  "loader_name (pys ''/'' @ pys CUBLAS_SONAME) = pys CUBLAS_SONAME"
  "loader_name (pys ''/'' @ pys CUBLAS_LT_SONAME) = pys CUBLAS_LT_SONAME"
  by (simp_all add: loader_name_def pure_components_def pys_def CUBLAS_SONAME_def CUBLAS_LT_SONAME_def)

lemma demo_sonames:
  "ascii_decode (c_string (demo_bytes CUBLAS_SONAME @ [0])) = Some (pys CUBLAS_SONAME)"
  "ascii_decode (c_string (demo_bytes CUBLAS_LT_SONAME @ [0])) = Some (pys CUBLAS_LT_SONAME)"
  by (simp_all add: c_string_def demo_bytes_def ascii_decode_def pys_def CUBLAS_SONAME_def CUBLAS_LT_SONAME_def)

lemma demo_scan_entries:
  "scan_dynamic demo_l_ld 0 (Suc (Suc (Suc (Suc n))))
     \<lparr>dy_string_table_address = None, dy_string_table_size = None, dy_soname_offset = None\<rparr> =
   (True, \<lparr>dy_string_table_address = Some 100, dy_string_table_size = Some 32, dy_soname_offset = Some 1\<rparr>)"
  by (simp add: demo_l_ld_def pointer_value_def)

lemma demo_scan:
  "scan_dynamic demo_l_ld 0 DYNAMIC_LIMIT
     \<lparr>dy_string_table_address = None, dy_string_table_size = None, dy_soname_offset = None\<rparr> =
   (True, \<lparr>dy_string_table_address = Some 100, dy_string_table_size = Some 32, dy_soname_offset = Some 1\<rparr>)"
  using demo_scan_entries [of 16380] by (simp add: DYNAMIC_LIMIT_def del: scan_dynamic.simps)

lemma demo_cublas_collected: "\<exists>i. collect_cublas_runtime_identity demo_makedev demo_cublas_answers = Inr i"
  by (simp add: collect_cublas_runtime_identity_def demo_cublas_answers_def plugin_symbol_def
      loaded_library_identity_of_def demo_library_answers_def loaded_provider_info_def loaded_soname_def
      demo_scan demo_sonames demo_names mapping_identity_of_def demo_maps_decoded demo_mapping
      demo_library_stat_def s_isreg_def stable_file_fields_def stable_fields_def)

text \<open>C34: the collected cuBLAS identity. The version is the one both libraries report; for each library the
  digest and the size are those of an unchanged regular file which is, by device and inode, the file mapped
  at the address of the provider's symbol, and whose ELF SONAME and file name are the expected ones; and
  the receipts' parser accepts the identity and reads the same one back.\<close>

theorem collected_cublas_attested:
  assumes "collect_cublas_runtime_identity makedev a = Inr i"
  shows "cu_get_version a = (0, cb_api_version_integer i) \<and> cu_lt_version a = cb_api_version_integer i \<and>
         attested makedev (cu_library a) CUBLAS_SONAME (cb_library i) \<and>
         attested makedev (cu_lt_library a) CUBLAS_LT_SONAME (cb_lt_library i) \<and>
         parse_cublas_runtime_identity (cublas_runtime_identity_json i) = Inr i"
  using collect_cublas_sound [OF assms] parse_cublas_json by blast

theorem collected_cublas_attested_witness:
  "\<exists>i. collect_cublas_runtime_identity demo_makedev demo_cublas_answers = Inr i \<and>
     attested demo_makedev (demo_library_answers CUBLAS_SONAME) CUBLAS_SONAME (cb_library i)"
proof -
  from demo_cublas_collected obtain i where i: "collect_cublas_runtime_identity demo_makedev demo_cublas_answers = Inr i"
    by blast
  have "cu_library demo_cublas_answers = demo_library_answers CUBLAS_SONAME"
    by (simp add: demo_cublas_answers_def)
  with collected_cublas_attested [OF i] i show ?thesis by metis
qed

end
