(* ===== verification/ManifestFacts.thy ===== *)
theory ManifestFacts
  imports ManifestDerivation
begin

text \<open>
  What the derived parts of a manifest guarantee. \<open>carries us n t\<close> says that the tensor list \<open>us\<close> has a
  tensor named \<open>n\<close> of the type and shape of \<open>t\<close>; the codec and the key/value cache are described by it,
  and their derivations are shown to return exactly then.
\<close>

subsection \<open>Tensor lists as dictionaries\<close>

definition same_kind :: "tensor_spec \<Rightarrow> tensor_spec \<Rightarrow> bool" where
  "same_kind t u \<longleftrightarrow> ts_dtype u = ts_dtype t \<and> ts_shape u = ts_shape t"

definition carries :: "tensor_spec list \<Rightarrow> pystr \<Rightarrow> tensor_spec \<Rightarrow> bool" where
  "carries us n t \<longleftrightarrow> (\<exists>u \<in> set us. ts_name u = n \<and> same_kind t u)"

abbreviation named :: "tensor_spec list \<Rightarrow> tensor_dict" where
  "named ts \<equiv> map (\<lambda>t. (ts_name t, t)) ts"

lemma tensor_map_Inr_iff: "tensor_map ts = Inr m \<longleftrightarrow> distinct (map ts_name ts) \<and> m = named ts"
  by (auto simp: tensor_map_def)

lemma require_named_iff:
  assumes "distinct (map ts_name ts)"
  shows "plan_require_tensor (named ts) n = Inr t \<longleftrightarrow> t \<in> set ts \<and> ts_name t = n"
proof -
  have "distinct (map fst (named ts))" using assms by (simp add: comp_def)
  then have "map_of (named ts) n = Some t \<longleftrightarrow> (n, t) \<in> set (named ts)"
    by (rule map_of_eq_Some_iff)
  then show ?thesis by (auto simp: plan_require_tensor_def split: option.splits)
qed

subsection \<open>The codec recurrence\<close>

definition state_entry :: "pystr \<Rightarrow> tensor_spec \<Rightarrow> json" where
  "state_entry n t = JObj
     [(pys ''logical_name'', JStr n), (pys ''dtype'', JStr (ts_dtype t)),
      (pys ''shape'', JList (map JInt (ts_shape t))),
      (pys ''initial_output_binding'', JStr (state_output_name n)),
      (pys ''steady_input_binding'', JStr (state_input_name n)),
      (pys ''steady_output_binding'', JStr (state_output_name n)),
      (pys ''tail_input_binding'', JStr (state_input_name n)),
      (pys ''tail_output_binding'', JStr (state_output_name n))]"

definition state_carried ::
  "inspected_engine \<Rightarrow> inspected_engine \<Rightarrow> inspected_engine \<Rightarrow> pystr \<Rightarrow> tensor_spec \<Rightarrow> bool"
where
  "state_carried initial steady tail n t \<longleftrightarrow>
     t \<in> set (ie_outputs initial) \<and> ts_name t = state_output_name n \<and>
     carries (ie_inputs steady) (state_input_name n) t \<and>
     carries (ie_outputs steady) (state_output_name n) t \<and>
     carries (ie_inputs tail) (state_input_name n) t \<and>
     carries (ie_outputs tail) (state_output_name n) t"

abbreviation tensors_of ::
  "inspected_engine \<Rightarrow> inspected_engine \<Rightarrow> inspected_engine \<Rightarrow> codec_tensors"
where
  "tensors_of initial steady tail \<equiv>
     \<lparr>ct_initial_outputs = named (ie_outputs initial), ct_steady_inputs = named (ie_inputs steady),
      ct_steady_outputs = named (ie_outputs steady), ct_tail_inputs = named (ie_inputs tail),
      ct_tail_outputs = named (ie_outputs tail)\<rparr>"

definition names_distinct :: "inspected_engine \<Rightarrow> inspected_engine \<Rightarrow> inspected_engine \<Rightarrow> bool" where
  "names_distinct initial steady tail \<longleftrightarrow>
     distinct (map ts_name (ie_outputs initial)) \<and>
     distinct (map ts_name (ie_inputs steady)) \<and> distinct (map ts_name (ie_outputs steady)) \<and>
     distinct (map ts_name (ie_inputs tail)) \<and> distinct (map ts_name (ie_outputs tail))"

lemma candidates_iff:
  assumes "\<forall>(us, n) \<in> set reqs. distinct (map ts_name us)"
  shows "(\<exists>cs. mapE (\<lambda>(m, n). plan_require_tensor m n) (map (\<lambda>(us, n). (named us, n)) reqs) = Inr cs \<and>
            (\<forall>u \<in> set cs. same_kind t u)) \<longleftrightarrow> (\<forall>(us, n) \<in> set reqs. carries us n t)"
  using assms
proof (induction reqs)
  case Nil
  then show ?case by simp
next
  case (Cons r reqs)
  obtain us n where r: "r = (us, n)" by fastforce
  let ?rest = "mapE (\<lambda>(m, n). plan_require_tensor m n) (map (\<lambda>(us, n). (named us, n)) reqs)"
  have "(\<exists>cs. mapE (\<lambda>(m, n). plan_require_tensor m n) (map (\<lambda>(us, n). (named us, n)) (r # reqs)) = Inr cs \<and>
            (\<forall>u \<in> set cs. same_kind t u)) \<longleftrightarrow>
      (\<exists>u. plan_require_tensor (named us) n = Inr u \<and> same_kind t u) \<and>
      (\<exists>cs. ?rest = Inr cs \<and> (\<forall>u \<in> set cs. same_kind t u))"
    by (auto simp: r bindE_eq_Inr)
  moreover have "(\<exists>u. plan_require_tensor (named us) n = Inr u \<and> same_kind t u) \<longleftrightarrow> carries us n t"
    using Cons.prems by (auto simp: r require_named_iff carries_def)
  ultimately show ?case using Cons by (simp add: r)
qed

lemma derive_state_iff:
  assumes "names_distinct initial steady tail"
  shows "derive_state (tensors_of initial steady tail) n = Inr j \<longleftrightarrow>
           (\<exists>t. state_carried initial steady tail n t \<and> j = state_entry n t)"
proof -
  let ?reqs = "[(ie_inputs steady, state_input_name n), (ie_outputs steady, state_output_name n),
    (ie_inputs tail, state_input_name n), (ie_outputs tail, state_output_name n)]"
  have kinds: "\<not> list_ex (\<lambda>u. ts_dtype u \<noteq> ts_dtype t \<or> ts_shape u \<noteq> ts_shape t) cs \<longleftrightarrow>
      (\<forall>u \<in> set cs. same_kind t u)" for t cs
    by (auto simp: list_ex_iff same_kind_def)
  have "derive_state (tensors_of initial steady tail) n = Inr j \<longleftrightarrow>
      (\<exists>t. plan_require_tensor (named (ie_outputs initial)) (state_output_name n) = Inr t \<and>
         (\<exists>cs. mapE (\<lambda>(m, n). plan_require_tensor m n) (map (\<lambda>(us, n). (named us, n)) ?reqs) = Inr cs \<and>
            (\<forall>u \<in> set cs. same_kind t u)) \<and> j = state_entry n t)"
    unfolding derive_state_def codec_tensors.simps list.map prod.case bindE_eq_Inr guardE_eq_Inr kinds
      state_entry_def sum.inject
    by blast
  also have "\<dots> \<longleftrightarrow> (\<exists>t. state_carried initial steady tail n t \<and> j = state_entry n t)"
    using assms by (subst candidates_iff) (auto simp: names_distinct_def require_named_iff state_carried_def)
  finally show ?thesis .
qed

definition closed_bindings ::
  "inspected_engine \<Rightarrow> inspected_engine \<Rightarrow> inspected_engine \<Rightarrow> pystr list \<Rightarrow> bool"
where
  "closed_bindings initial steady tail names \<longleftrightarrow>
     ts_name ` set (ie_outputs initial) = expected_outputs names \<and>
     ts_name ` set (ie_inputs steady) = expected_inputs names \<and>
     ts_name ` set (ie_outputs steady) = expected_outputs names \<and>
     ts_name ` set (ie_inputs tail) = expected_inputs names \<and>
     ts_name ` set (ie_outputs tail) = expected_outputs names"

lemma check_binding_sets_iff:
  "check_binding_sets (tensors_of initial steady tail) names = Inr u \<longleftrightarrow>
     closed_bindings initial steady tail names"
  by (simp add: check_binding_sets_def bindE_eq_Inr guardE_eq_Inr closed_bindings_def image_image)

lemma engine_at_Inr_iff: "engine_at engines role = Inr e \<longleftrightarrow> map_of engines (pys role) = Some e"
  by (simp add: engine_at_def split: option.splits)

definition codec_recurrence ::
  "inspected_engine \<Rightarrow> inspected_engine \<Rightarrow> inspected_engine \<Rightarrow> json list \<Rightarrow> bool"
where
  "codec_recurrence initial steady tail states \<longleftrightarrow>
     (let names = logical_names (ie_outputs initial)
      in names_distinct initial steady tail \<and> length names = 97 \<and> distinct names \<and>
         closed_bindings initial steady tail names \<and>
         list_all2 (\<lambda>n j. \<exists>t. state_carried initial steady tail n t \<and> j = state_entry n t) names states)"

lemma derive_codec_iff:
  "derive_codec spec engines = Inr doc \<longleftrightarrow>
     (\<exists>initial steady tail states.
        map_of engines (pys ''nanocodec_initial_4'') = Some initial \<and>
        map_of engines (pys ''nanocodec_steady_8'') = Some steady \<and>
        map_of engines (pys ''nanocodec_tail_1_8'') = Some tail \<and>
        codec_recurrence initial steady tail states \<and> doc = codec_manifest_json spec states)"
  (is "_ \<longleftrightarrow> ?r")
proof -
  have states: "mapE (derive_state (tensors_of initial steady tail)) ns = Inr states \<longleftrightarrow>
      list_all2 (\<lambda>n j. \<exists>t. state_carried initial steady tail n t \<and> j = state_entry n t) ns states"
    if "names_distinct initial steady tail" for initial steady tail ns states
    unfolding mapE_Inr_iff derive_state_iff [OF that] ..
  show ?thesis
    unfolding derive_codec_def Let_def bindE_eq_Inr engine_at_Inr_iff tensor_map_Inr_iff guardE_eq_Inr
      check_binding_sets_iff codec_recurrence_def
    by (auto simp: states check_binding_sets_iff names_distinct_def)
qed

subsection \<open>The key/value cache\<close>

lemma carriesI:
  "u \<in> set us \<Longrightarrow> ts_name u = n \<Longrightarrow> ts_dtype u = ts_dtype t \<Longrightarrow> ts_shape u = ts_shape t \<Longrightarrow> carries us n t"
  by (auto simp: carries_def same_kind_def)

definition kv_layer_ok ::
  "inspected_engine \<Rightarrow> inspected_engine \<Rightarrow> kv_shapes \<Rightarrow> pystr \<Rightarrow> nat \<Rightarrow> bool"
where
  "kv_layer_ok prefill step k mask_type i \<longleftrightarrow>
     (let key = kv_first_key k; cross = (kv_first_cross k)\<lparr>ts_dtype := ts_dtype key\<rparr> in
        carries (ie_outputs prefill) (kv_tensor_name ''prefill_self_key_'' i) key \<and>
        carries (ie_outputs prefill) (kv_tensor_name ''prefill_self_value_'' i) key \<and>
        carries (ie_outputs prefill) (kv_tensor_name ''prefill_self_mask_'' i)
          (key\<lparr>ts_dtype := mask_type, ts_shape := [kv_batch k, kv_capacity k]\<rparr>) \<and>
        carries (ie_outputs prefill) (kv_tensor_name ''prefill_cross_key_'' i) cross \<and>
        carries (ie_outputs prefill) (kv_tensor_name ''prefill_cross_value_'' i) cross \<and>
        (\<forall>p \<in> {''step_self_key_in_'', ''step_self_value_in_'', ''step_self_mask_in_'',
               ''step_cross_key_in_'', ''step_cross_value_in_''}.
           kv_tensor_name p i \<in> ts_name ` set (ie_inputs step)) \<and>
        (\<forall>p \<in> {''step_self_key_out_'', ''step_self_value_out_'', ''step_self_mask_out_''}.
           kv_tensor_name p i \<in> ts_name ` set (ie_outputs step)))"

lemma require_all_Inr:
  assumes "distinct (map ts_name ts)"
  shows "require_all (named ts) names = Inr u \<longleftrightarrow> set names \<subseteq> ts_name ` set ts"
proof -
  have "(\<exists>xs. mapE (plan_require_tensor (named ts)) names = Inr xs) \<longleftrightarrow> set names \<subseteq> ts_name ` set ts"
    by (induction names) (auto simp: bindE_eq_Inr require_named_iff [OF assms])
  then show ?thesis by (simp add: require_all_def bindE_eq_Inr)
qed

definition kv_names_distinct :: "inspected_engine \<Rightarrow> inspected_engine \<Rightarrow> bool" where
  "kv_names_distinct prefill step \<longleftrightarrow> distinct (map ts_name (ie_outputs prefill)) \<and>
     distinct (map ts_name (ie_inputs step)) \<and> distinct (map ts_name (ie_outputs step))"

lemma check_kv_layer_Inr:
  assumes "kv_names_distinct prefill step"
    and "check_kv_layer (named (ie_outputs prefill)) (named (ie_inputs step)) (named (ie_outputs step)) k m i = Inr d"
  shows "kv_layer_ok prefill step k d i \<and> (m = None \<or> m = Some d)"
proof -
  from assms(1) have dist: "distinct (map ts_name (ie_outputs prefill))"
    "distinct (map ts_name (ie_inputs step))" "distinct (map ts_name (ie_outputs step))"
    by (simp_all add: kv_names_distinct_def)
  from assms(2) obtain sk sv sm ck cv where
    tensors: "sk \<in> set (ie_outputs prefill)" "ts_name sk = kv_tensor_name ''prefill_self_key_'' i"
      "sv \<in> set (ie_outputs prefill)" "ts_name sv = kv_tensor_name ''prefill_self_value_'' i"
      "sm \<in> set (ie_outputs prefill)" "ts_name sm = kv_tensor_name ''prefill_self_mask_'' i"
      "ck \<in> set (ie_outputs prefill)" "ts_name ck = kv_tensor_name ''prefill_cross_key_'' i"
      "cv \<in> set (ie_outputs prefill)" "ts_name cv = kv_tensor_name ''prefill_cross_value_'' i"
    and kinds: "ts_dtype sk = ts_dtype (kv_first_key k)" "ts_shape sk = ts_shape (kv_first_key k)"
      "ts_dtype sv = ts_dtype sk" "ts_shape sv = ts_shape sk" "ts_shape sm = [kv_batch k, kv_capacity k]"
      "ts_dtype ck = ts_dtype (kv_first_key k)" "ts_shape ck = ts_shape (kv_first_cross k)"
      "ts_dtype cv = ts_dtype ck" "ts_shape cv = ts_shape ck"
    and step: "require_all (named (ie_inputs step)) (map (\<lambda>p. kv_tensor_name p i)
       [''step_self_key_in_'', ''step_self_value_in_'', ''step_self_mask_in_'',
        ''step_cross_key_in_'', ''step_cross_value_in_'']) = Inr ()"
      "require_all (named (ie_outputs step)) (map (\<lambda>p. kv_tensor_name p i)
       [''step_self_key_out_'', ''step_self_value_out_'', ''step_self_mask_out_'']) = Inr ()"
    and m: "d = ts_dtype sm" "m = None \<or> m = Some (ts_dtype sm)"
    unfolding check_kv_layer_def bindE_eq_Inr guardE_eq_Inr require_named_iff [OF dist(1)] by auto
  from step have step': "(\<lambda>p. kv_tensor_name p i) ` {''step_self_key_in_'', ''step_self_value_in_'',
      ''step_self_mask_in_'', ''step_cross_key_in_'', ''step_cross_value_in_''} \<subseteq> ts_name ` set (ie_inputs step)"
    "(\<lambda>p. kv_tensor_name p i) ` {''step_self_key_out_'', ''step_self_value_out_'', ''step_self_mask_out_''}
      \<subseteq> ts_name ` set (ie_outputs step)"
    unfolding require_all_Inr [OF dist(2)] require_all_Inr [OF dist(3)] by simp_all
  have "kv_layer_ok prefill step k d i"
    unfolding kv_layer_ok_def Let_def
  proof (intro conjI)
    show "carries (ie_outputs prefill) (kv_tensor_name ''prefill_self_key_'' i) (kv_first_key k)"
      by (rule carriesI [OF tensors(1,2)]) (simp_all add: kinds)
    show "carries (ie_outputs prefill) (kv_tensor_name ''prefill_self_value_'' i) (kv_first_key k)"
      by (rule carriesI [OF tensors(3,4)]) (simp_all add: kinds)
    show "carries (ie_outputs prefill) (kv_tensor_name ''prefill_self_mask_'' i)
        (kv_first_key k\<lparr>ts_dtype := d, ts_shape := [kv_batch k, kv_capacity k]\<rparr>)"
      by (rule carriesI [OF tensors(5,6)]) (simp_all add: kinds m)
    show "carries (ie_outputs prefill) (kv_tensor_name ''prefill_cross_key_'' i)
        (kv_first_cross k\<lparr>ts_dtype := ts_dtype (kv_first_key k)\<rparr>)"
      by (rule carriesI [OF tensors(7,8)]) (simp_all add: kinds)
    show "carries (ie_outputs prefill) (kv_tensor_name ''prefill_cross_value_'' i)
        (kv_first_cross k\<lparr>ts_dtype := ts_dtype (kv_first_key k)\<rparr>)"
      by (rule carriesI [OF tensors(9,10)]) (simp_all add: kinds)
  qed (use step' in blast)+
  with m show ?thesis by blast
qed

lemma check_kv_layers_Inr:
  assumes "kv_names_distinct prefill step"
    and "check_kv_layers (named (ie_outputs prefill)) (named (ie_inputs step)) (named (ie_outputs step)) k m is = Inr m'"
  shows "(\<forall>i \<in> set is. \<exists>d. m' = Some d \<and> kv_layer_ok prefill step k d i) \<and> (m = None \<or> m' = m)"
  using assms(2)
proof (induction "is" arbitrary: m)
  case Nil
  then show ?case by simp
next
  case (Cons i "is")
  from Cons.prems obtain d where
    d: "check_kv_layer (named (ie_outputs prefill)) (named (ie_inputs step)) (named (ie_outputs step)) k m i = Inr d"
    and rest: "check_kv_layers (named (ie_outputs prefill)) (named (ie_inputs step)) (named (ie_outputs step)) k (Some d) is = Inr m'"
    by (auto simp: bindE_eq_Inr)
  from Cons.IH [OF rest] check_kv_layer_Inr [OF assms(1) d] show ?case by auto
qed

definition kv_cache_closed ::
  "inspected_engine \<Rightarrow> inspected_engine \<Rightarrow> kv_shapes \<Rightarrow> pystr \<Rightarrow> nat \<Rightarrow> bool"
where
  "kv_cache_closed prefill step k mask_type n \<longleftrightarrow>
     0 < n \<and> layer_indices_of (named (ie_outputs prefill)) = [0..<n] \<and>
     (\<exists>heads dim. ts_shape (kv_first_key k) = [kv_batch k, kv_capacity k, heads, dim] \<and> 0 < heads \<and> 0 < dim) \<and>
     (\<exists>heads dim. ts_shape (kv_first_cross k) = [kv_batch k, -1, heads, dim] \<and> 0 < heads \<and> 0 < dim) \<and>
     0 < kv_batch k \<and> 0 < kv_capacity k \<and> (\<forall>i < n. kv_layer_ok prefill step k mask_type i)"

definition json_member :: "json \<Rightarrow> string \<Rightarrow> json option" where
  "json_member v key = (case v of JObj kvs \<Rightarrow> map_of kvs (pys key) | _ \<Rightarrow> None)"

lemma shape4_Inr: "shape4 m t = Inr (a, b, c, d) \<longleftrightarrow> ts_shape t = [a, b, c, d]"
  by (auto simp: shape4_def split: list.splits)

lemma derive_kv_cache_closed:
  assumes "derive_kv_cache spec engines = Inr doc"
  shows "\<exists>prefill step k mask_type n.
     map_of engines (pys ''main_decoder_prefill'') = Some prefill \<and>
     map_of engines (pys ''main_decoder_step'') = Some step \<and>
     kv_cache_closed prefill step k mask_type n \<and>
     json_member doc ''layers'' = Some (JInt (int n)) \<and>
     json_member doc ''mask_dtype'' = Some (JStr mask_type) \<and>
     json_member doc ''self_cache_capacity'' = Some (JInt (kv_capacity k)) \<and>
     json_member doc ''layer_bindings'' = Some (JList (map layer_binding_json [0..<n]))"
proof -
  from assms obtain prefill step key cross a b c d x y z mask_type where
    engines: "map_of engines (pys ''main_decoder_prefill'') = Some prefill"
      "map_of engines (pys ''main_decoder_step'') = Some step"
    and dist: "distinct (map ts_name (ie_outputs prefill))" "distinct (map ts_name (ie_inputs step))"
      "distinct (map ts_name (ie_outputs step))"
    and indices: "layer_indices_of (named (ie_outputs prefill)) \<noteq> []"
      "layer_indices_of (named (ie_outputs prefill)) = [0..<length (layer_indices_of (named (ie_outputs prefill)))]"
    and shapes: "ts_shape key = [a, b, c, d]" "ts_shape cross = [a, -1, y, z]"
    and pos: "0 < a" "0 < b" "0 < c" "0 < d" "0 < y" "0 < z"
    and layers: "check_kv_layers (named (ie_outputs prefill)) (named (ie_inputs step)) (named (ie_outputs step))
       \<lparr>kv_first_key = key, kv_first_cross = cross, kv_batch = a, kv_capacity = b\<rparr> None
       (layer_indices_of (named (ie_outputs prefill))) = Inr (Some mask_type)"
    and doc: "json_member doc ''layers'' = Some (JInt (int (length (layer_indices_of (named (ie_outputs prefill))))))"
      "json_member doc ''mask_dtype'' = Some (JStr mask_type)"
      "json_member doc ''self_cache_capacity'' = Some (JInt b)"
      "json_member doc ''layer_bindings'' =
         Some (JList (map layer_binding_json (layer_indices_of (named (ie_outputs prefill)))))"
    unfolding derive_kv_cache_def bindE_eq_Inr guardE_eq_Inr tensor_map_Inr_iff engine_at_Inr_iff Let_def
    by (auto simp: shape4_Inr bindE_eq_Inr guardE_eq_Inr json_member_def split: option.splits)
  define n where "n = length (layer_indices_of (named (ie_outputs prefill)))"
  from indices have n: "layer_indices_of (named (ie_outputs prefill)) = [0..<n]" "0 < n" by (simp_all add: n_def)
  let ?k = "\<lparr>kv_first_key = key, kv_first_cross = cross, kv_batch = a, kv_capacity = b\<rparr>"
  from dist have "kv_names_distinct prefill step" by (simp add: kv_names_distinct_def)
  from check_kv_layers_Inr [OF this layers] n have "\<forall>i < n. kv_layer_ok prefill step ?k mask_type i" by auto
  with n shapes pos have "kv_cache_closed prefill step ?k mask_type n"
    by (simp add: kv_cache_closed_def)
  with engines doc n show ?thesis
    by (intro exI [of _ prefill] exI [of _ step] exI [of _ ?k] exI [of _ mask_type] exI [of _ n]) simp
qed

subsection \<open>Properties\<close>

definition demo_tensor :: "string \<Rightarrow> nat \<Rightarrow> int list \<Rightarrow> tensor_spec" where
  "demo_tensor p i shape =
     \<lparr>ts_name = kv_tensor_name p i, ts_dtype = pys ''bf16'', ts_shape = shape, ts_location = pys ''device'',
      ts_shape_inference_io = False\<rparr>"

definition demo_prefill :: inspected_engine where
  "demo_prefill =
     \<lparr>ie_inputs = [],
      ie_outputs = [demo_tensor ''prefill_self_key_'' 0 [2, 8, 12, 64], demo_tensor ''prefill_self_value_'' 0 [2, 8, 12, 64],
        demo_tensor ''prefill_self_mask_'' 0 [2, 8], demo_tensor ''prefill_cross_key_'' 0 [2, -1, 1, 128],
        demo_tensor ''prefill_cross_value_'' 0 [2, -1, 1, 128]],
      ie_profiles = []\<rparr>"

definition demo_step_plan :: inspected_engine where
  "demo_step_plan =
     \<lparr>ie_inputs = map (\<lambda>p. demo_tensor p 0 []) [''step_self_key_in_'', ''step_self_value_in_'',
        ''step_self_mask_in_'', ''step_cross_key_in_'', ''step_cross_value_in_''],
      ie_outputs = map (\<lambda>p. demo_tensor p 0 []) [''step_self_key_out_'', ''step_self_value_out_'',
        ''step_self_mask_out_''],
      ie_profiles = []\<rparr>"

definition demo_kv_spec :: kv_cache_spec where
  "demo_kv_spec = \<lparr>kv_layout = pys ''bshd'', kv_prefix_length = 1, kv_maximum_generated_steps = 7,
     kv_update_mode = pys ''in_place'', kv_position_semantics = pys ''absolute'', kv_first_step_position = 0,
     kv_step_position_upper_bound_exclusive = 7\<rparr>"

abbreviation demo_engine_map :: engine_map where
  "demo_engine_map \<equiv>
     [(pys ''main_decoder_prefill'', demo_prefill), (pys ''main_decoder_step'', demo_step_plan)]"

lemma demo_layer_names:
  "kv_tensor_name p 0 = pys p @ [48]"
  by (simp add: kv_tensor_name_def nat_digits.simps)

lemma demo_kv_derived: "\<exists>doc. derive_kv_cache demo_kv_spec demo_engine_map = Inr doc"
proof -
  have indices: "layer_indices_of (named (ie_outputs demo_prefill)) = [0]"
    by (simp add: demo_prefill_def demo_tensor_def demo_layer_names layer_indices_of_def layer_index_of_def
        List.map_filter_def Let_def pys_def is_digit_def decimal_def)
  have maps: "tensor_map (ie_outputs demo_prefill) = Inr (named (ie_outputs demo_prefill))"
    "tensor_map (ie_inputs demo_step_plan) = Inr (named (ie_inputs demo_step_plan))"
    "tensor_map (ie_outputs demo_step_plan) = Inr (named (ie_outputs demo_step_plan))"
    by (simp_all add: tensor_map_def demo_prefill_def demo_step_plan_def demo_tensor_def demo_layer_names)
  have names: "pys ''prefill_self_key_0'' = kv_tensor_name ''prefill_self_key_'' 0"
    "pys ''prefill_cross_key_0'' = kv_tensor_name ''prefill_cross_key_'' 0"
    by (simp_all add: demo_layer_names pys_def)
  show ?thesis
    by (simp add: derive_kv_cache_def engine_at_def maps indices names Let_def)
      (simp add: plan_require_tensor_def check_kv_layer_def require_all_def shape4_def demo_prefill_def
        demo_step_plan_def demo_tensor_def demo_layer_names)
qed

text \<open>C35: an accepted key/value cache is uniform and complete. The self-key outputs of the prefill
  engine are numbered 0 to n - 1; every layer has its keys, values and mask among the prefill outputs, all
  of one type and shape (fixed batch and capacity, dynamic text length for cross attention), and its eight
  step bindings among the step engine's inputs and outputs; the manifest lists exactly these n layers.\<close>

theorem derive_kv_cache_sound:
  assumes "derive_kv_cache spec engines = Inr doc"
  shows "\<exists>prefill step k mask_type n.
     map_of engines (pys ''main_decoder_prefill'') = Some prefill \<and>
     map_of engines (pys ''main_decoder_step'') = Some step \<and>
     kv_cache_closed prefill step k mask_type n \<and>
     json_member doc ''layers'' = Some (JInt (int n)) \<and>
     json_member doc ''mask_dtype'' = Some (JStr mask_type) \<and>
     json_member doc ''self_cache_capacity'' = Some (JInt (kv_capacity k)) \<and>
     json_member doc ''layer_bindings'' = Some (JList (map layer_binding_json [0..<n]))"
  using assms by (rule derive_kv_cache_closed)

theorem derive_kv_cache_sound_witness:
  "\<exists>doc n. derive_kv_cache demo_kv_spec demo_engine_map = Inr doc \<and>
     json_member doc ''layers'' = Some (JInt (int n))"
proof -
  from demo_kv_derived obtain doc where "derive_kv_cache demo_kv_spec demo_engine_map = Inr doc" by blast
  with derive_kv_cache_sound [OF this] show ?thesis by blast
qed

text \<open>C28: the codec is accepted exactly if it is a closed recurrence: the initial engine writes 97
  distinct states beside its two results, the steady and the tail engine read exactly these states beside
  the tokens and write exactly these beside the results, and the five tensors of a state agree in type and
  shape; the manifest then lists the states in the order the initial engine writes them.\<close>

theorem derive_codec_exact:
  "derive_codec spec engines = Inr doc \<longleftrightarrow>
     (\<exists>initial steady tail states.
        map_of engines (pys ''nanocodec_initial_4'') = Some initial \<and>
        map_of engines (pys ''nanocodec_steady_8'') = Some steady \<and>
        map_of engines (pys ''nanocodec_tail_1_8'') = Some tail \<and>
        codec_recurrence initial steady tail states \<and> doc = codec_manifest_json spec states)"
  by (rule derive_codec_iff)

end
