(* ===== verification/TokenizerReceipt.thy ===== *)
theory TokenizerReceipt
  imports OsFiles PackageSpec FrontendContract
begin

text \<open>
  The tokenizer identity receipt in \<open>tools/bundle/package_runtime_bundle.py\<close>
  (\<open>tokenizer_identity_projection\<close> and \<open>validate_tokenizer_identity_receipt\<close>): the packager recomputes the
  identity from the receipt's frontend contract.

  The Japanese frontend computes the same identity from its locked assets (\<open>FrontendContract\<close>).
  \<open>tokenizer_identity_agrees\<close> shows that the two computations cannot disagree: the identity of an accepted
  receipt is the one the frontend serves.
\<close>

definition require_member :: "json_object \<Rightarrow> string \<Rightarrow> json result" where
  "require_member doc key =
     (case map_of doc (pys key) of None \<Rightarrow> Inl (pkg_error '': missing required field'') | Some v \<Rightarrow> Inr v)"

text \<open>\<open>if not isinstance(value, dict)\<close>\<close>

definition require_dict :: "json \<Rightarrow> json_object result" where
  "require_dict v = (case v of JObj doc \<Rightarrow> Inr doc | _ \<Rightarrow> Inl (pkg_error '': expected an object''))"

definition require_non_empty_list :: "json \<Rightarrow> json list result" where
  "require_non_empty_list v =
     (case v of
        JList vs \<Rightarrow> if vs = [] then Inl (pkg_error '': expected a non-empty array'') else Inr vs
      | _ \<Rightarrow> Inl (pkg_error '': expected a non-empty array''))"

definition tokenizer_identity_projection :: "(pyfloat \<Rightarrow> pystr) \<Rightarrow> json_object \<Rightarrow> json_object result" where
  "tokenizer_identity_projection frepr receipt =
     bindE (bindE (require_member receipt ''frontend_contract'') require_dict) (\<lambda>frontend.
     bindE (bindE (require_member frontend ''japanese'') require_dict) (\<lambda>japanese.
     bindE (bindE (require_member japanese ''token_table'') require_non_empty_list) (\<lambda>token_table.
     bindE (canonical_json_bytes frepr (JList token_table)) (\<lambda>canonical_table.
     bindE (bindE (require_member japanese ''token_table_sha256'') require_sha256) (\<lambda>declared.
     bindE (guardE (sha256_bytes canonical_table \<noteq> declared)
       (pkg_error ''/frontend_contract/japanese/token_table_sha256: receipt vocabulary hash is not canonical'')) (\<lambda>_.
     bindE (bindE (require_member japanese ''tokenizer_name'') require_identifier) (\<lambda>kind.
     bindE (bindE (require_member frontend ''aggregate_vocabulary_size'') (\<lambda>x. pkg_require_int x 1 max_u32)) (\<lambda>vocabulary_size.
     bindE (bindE (require_member frontend ''bos_token_id'') (\<lambda>x. pkg_require_int x 0 max_u64)) (\<lambda>bos.
     bindE (bindE (require_member frontend ''eos_token_id'') (\<lambda>x. pkg_require_int x 0 max_u64)) (\<lambda>eos.
     bindE (bindE (require_member japanese ''global_pad_token_id'') (\<lambda>x. pkg_require_int x 0 max_u64)) (\<lambda>pad.
     bindE (canonical_json_bytes frepr (JObj frontend)) (\<lambda>canonical_frontend.
     Inr [(pys ''kind'', JStr kind), (pys ''vocabulary_size'', JInt vocabulary_size),
          (pys ''frontend_contract_sha256'', JStr (sha256_bytes canonical_frontend)),
          (pys ''vocabulary_sha256'', JStr (sha256_bytes canonical_table)),
          (pys ''special_tokens'', JObj
            [(pys ''bos_token_id'', JInt bos), (pys ''eos_token_id'', JInt eos),
             (pys ''japanese_global_pad_token_id'', JInt pad)])]))))))))))))"

definition projected_special_tokens :: "json \<Rightarrow> special_tokens_spec result" where
  "projected_special_tokens v =
     bindE (require_object v [''bos_token_id'', ''eos_token_id'', ''japanese_global_pad_token_id'']) (\<lambda>doc.
     bindE (bindE (field doc ''bos_token_id'') (\<lambda>x. pkg_require_int x 0 max_i31)) (\<lambda>bos.
     bindE (bindE (field doc ''eos_token_id'') (\<lambda>x. pkg_require_int x 0 max_i31)) (\<lambda>eos.
     bindE (bindE (field doc ''japanese_global_pad_token_id'') (\<lambda>x. pkg_require_int x 0 max_i31)) (\<lambda>pad.
     Inr \<lparr>st_bos_token_id = bos, st_eos_token_id = eos, st_japanese_global_pad_token_id = pad\<rparr>))))"

definition validate_tokenizer_identity_receipt ::
  "pkg_env \<Rightarrow> (pyfloat \<Rightarrow> pystr) \<Rightarrow> path_view \<Rightarrow> tokenizer_spec \<Rightarrow> unit result"
where
  "validate_tokenizer_identity_receipt env frepr p tokenizer =
     bindE (bindE (load_json_file env p) require_dict) (\<lambda>receipt.
     bindE (bindE (require_member receipt ''schema_version'') (\<lambda>x. pkg_require_int x 1 max_u32)) (\<lambda>schema_version.
     bindE (guardE (schema_version \<noteq> 1) (pkg_error '': unsupported tokenizer receipt schema'')) (\<lambda>_.
     bindE (tokenizer_identity_projection frepr receipt) (\<lambda>projection.
     bindE (bindE (field projection ''kind'') require_string) (\<lambda>kind.
     bindE (bindE (field projection ''vocabulary_size'') (\<lambda>x. pkg_require_int x 1 max_u64)) (\<lambda>vocabulary_size.
     bindE (bindE (require_member receipt ''frontend_contract'') require_dict) (\<lambda>frontend_contract.
     bindE (bindE (require_member frontend_contract ''text_embedding_rows'') (\<lambda>x. pkg_require_int x 1 max_i31)) (\<lambda>rows.
     bindE (bindE (field projection ''special_tokens'') projected_special_tokens) (\<lambda>special_tokens.
     bindE (canonical_json_bytes frepr (JObj projection)) (\<lambda>canonical_projection.
     bindE (guardE (kind \<noteq> tk_kind tokenizer) (pkg_error '': tokenizer kind mismatch: expected '')) (\<lambda>_.
     bindE (guardE (vocabulary_size \<noteq> tk_tokenizer_vocabulary_size tokenizer)
       (pkg_error '': tokenizer vocabulary size mismatch: expected '')) (\<lambda>_.
     bindE (guardE (rows \<noteq> tk_text_embedding_rows tokenizer)
       (pkg_error '': text embedding row count mismatch: expected '')) (\<lambda>_.
     bindE (guardE (special_tokens \<noteq> tk_special_tokens tokenizer)
       (pkg_error '': authenticated tokenizer special-token IDs do not match the package specification'')) (\<lambda>_.
     guardE (sha256_bytes canonical_projection \<noteq> tk_identity_sha256 tokenizer)
       (pkg_error '': tokenizer identity mismatch: expected '')))))))))))))))"

subsection \<open>The frontend and the packager agree\<close>

lemma require_member_Inr_iff [accessor_simps]: "require_member doc key = Inr v \<longleftrightarrow> map_of doc (pys key) = Some v"
  by (simp add: require_member_def split: option.splits)

lemma require_dict_Inr_iff [accessor_simps]: "require_dict v = Inr doc \<longleftrightarrow> v = JObj doc"
  by (simp add: require_dict_def split: json.splits)

lemma require_non_empty_list_Inr_iff [accessor_simps]:
  "require_non_empty_list v = Inr vs \<longleftrightarrow> v = JList vs \<and> vs \<noteq> []"
  by (auto simp: require_non_empty_list_def split: json.splits)

text \<open>An integer the packager reads from the contract equals the one the lock holds.\<close>

lemma equal_member_int:
  assumes "check_equal_member msg locked contract name = Inr u"
    and "map_of locked (pys name) = Some (JInt i)" and "map_of contract (pys name) = Some (JInt j)"
  shows "j = i"
  using assms by (auto simp: check_equal_member_eq_Inr simp del: py_eq.simps)

lemma equal_member_str:
  assumes "check_equal_member msg locked contract name = Inr u"
    and "map_of locked (pys name) = Some (JStr s)" and "map_of contract (pys name) = Some (JStr t)"
  shows "t = s"
  using assms by (auto simp: check_equal_member_eq_Inr simp del: py_eq.simps)

lemma mapE_Inr_member: "mapE f xs = Inr ys \<Longrightarrow> x \<in> set xs \<Longrightarrow> \<exists>y. f x = Inr y"
  by (auto simp: mapE_Inr_iff list_all2_conv_all_nth in_set_conv_nth)

lemma build_frontend_spec_pad:
  "build_frontend_spec fl jl ol g (offset, n, rows, digest) dict = Inr spec \<Longrightarrow>
   map_of jl (pys ''global_pad_token_id'') = Some (JInt (global_pad_token_id spec))"
  by (auto simp: build_frontend_spec_def result_simps)

lemma load_frontend_roots_members:
  assumes "load_frontend_roots env fl jl fc = Inr spec"
  obtains jc where "map_of fc (pys ''japanese'') = Some (JObj jc)"
    and "check_scalar_fields fl fc \<in> range Inr" and "check_japanese_fields jl jc = Inr ()"
    and "map_of jl (pys ''token_table_sha256'') = Some (JStr (token_table_sha256 spec))"
    and "map_of jl (pys ''global_pad_token_id'') = Some (JInt (global_pad_token_id spec))"
    and "map_of fl (pys ''aggregate_vocabulary_size'') = Some (JInt (aggregate_vocabulary_size spec))"
    and "map_of fl (pys ''bos_token_id'') = Some (JInt (bos_token_id spec))"
    and "map_of fl (pys ''eos_token_id'') = Some (JInt (eos_token_id spec))"
proof -
  from load_frontend_roots_eq_Inr(1) [OF assms] obtain jc where
    jc: "map_of fc (pys ''japanese'') = Some (JObj jc)" "check_japanese_fields jl jc = Inr ()" and
    table: "load_token_table env jl jc = Inr (global_offset spec, local_vocabulary_size spec, token_table spec,
      token_table_sha256 spec)" by blast
  from load_frontend_roots_eq_Inr(2) [OF assms] have "check_scalar_fields fl fc \<in> range Inr"
    by (cases "check_scalar_fields fl fc") auto
  moreover from load_frontend_roots_eq_Inr(4) [OF assms] obtain ol g dict where
    build: "build_frontend_spec fl jl ol g (global_offset spec, local_vocabulary_size spec, token_table spec,
      token_table_sha256 spec) dict = Inr spec" by blast
  moreover have "map_of jl (pys ''global_pad_token_id'') = Some (JInt (global_pad_token_id spec))"
    by (rule build_frontend_spec_pad [OF build])
  ultimately show ?thesis
    using that jc load_token_table_eq_Inr(3) [OF table] build_frontend_spec_eq_Inr [OF build] by blast
qed

lemma japanese_fields_equal:
  assumes "check_japanese_fields jl jc = Inr ()" and "name \<in> set japanese_scalar_fields"
  shows "\<exists>msg u. check_equal_member msg jl jc name = Inr u"
proof -
  from assms(1) obtain us where "mapE (check_equal_member ''Japanese frontend contract  mismatch: expected '' jl jc)
      japanese_scalar_fields = Inr us"
    unfolding check_japanese_fields_def bindE_eq_Inr by blast
  from mapE_Inr_member [OF this assms(2)] show ?thesis by blast
qed

lemma scalar_fields_equal:
  assumes "check_scalar_fields fl fc \<in> range Inr" and "name \<in> set scalar_fields"
  shows "\<exists>msg u. check_equal_member msg fl fc name = Inr u"
  using assms mapE_Inr_member unfolding check_scalar_fields_def by fastforce

lemma locked_tokenizer_name:
  "check_japanese_fields jl jc = Inr () \<Longrightarrow> map_of jl (pys ''tokenizer_name'') = Some (JStr JAPANESE_TOKENIZER_NAME)"
  by (auto simp: check_japanese_fields_def result_simps split: if_splits)

lemma projection_agrees:
  assumes load: "load_frontend_roots env fl jl fc = Inr spec"
    and receipt: "map_of receipt (pys ''frontend_contract'') = Some (JObj fc)"
    and proj: "tokenizer_identity_projection (py_float_repr env) receipt = Inr projection"
  shows "\<exists>c. dumps_utf8 (py_float_repr env) (JObj fc) = Inr c \<and>
    JObj projection = identity_projection spec (sha256_hex c)"
proof -
  from load obtain jc where jc: "map_of fc (pys ''japanese'') = Some (JObj jc)"
    and sc: "check_scalar_fields fl fc \<in> range Inr" and jf: "check_japanese_fields jl jc = Inr ()"
    and lock: "map_of jl (pys ''token_table_sha256'') = Some (JStr (token_table_sha256 spec))"
      "map_of jl (pys ''global_pad_token_id'') = Some (JInt (global_pad_token_id spec))"
      "map_of fl (pys ''aggregate_vocabulary_size'') = Some (JInt (aggregate_vocabulary_size spec))"
      "map_of fl (pys ''bos_token_id'') = Some (JInt (bos_token_id spec))"
      "map_of fl (pys ''eos_token_id'') = Some (JInt (eos_token_id spec))"
    by (rule load_frontend_roots_members)
  from proj receipt jc obtain table canonical_table declared kind vocabulary bos eos pad c where
    decl: "map_of jc (pys ''token_table_sha256'') = Some (JStr declared)" "sha256_bytes canonical_table = declared" and
    members: "map_of jc (pys ''tokenizer_name'') = Some (JStr kind)"
      "map_of fc (pys ''aggregate_vocabulary_size'') = Some (JInt vocabulary)"
      "map_of fc (pys ''bos_token_id'') = Some (JInt bos)" "map_of fc (pys ''eos_token_id'') = Some (JInt eos)"
      "map_of jc (pys ''global_pad_token_id'') = Some (JInt pad)" and
    c: "dumps_utf8 (py_float_repr env) (JObj fc) = Inr c" and
    p: "projection = [(pys ''kind'', JStr kind), (pys ''vocabulary_size'', JInt vocabulary),
          (pys ''frontend_contract_sha256'', JStr (sha256_bytes c)),
          (pys ''vocabulary_sha256'', JStr (sha256_bytes canonical_table)),
          (pys ''special_tokens'', JObj
            [(pys ''bos_token_id'', JInt bos), (pys ''eos_token_id'', JInt eos),
             (pys ''japanese_global_pad_token_id'', JInt pad)])]"
    unfolding tokenizer_identity_projection_def canonical_json_bytes_def
    by (auto simp: result_simps accessor_simps)
  have names: "''token_table_sha256'' \<in> set japanese_scalar_fields" "''tokenizer_name'' \<in> set japanese_scalar_fields"
    "''global_pad_token_id'' \<in> set japanese_scalar_fields" "''aggregate_vocabulary_size'' \<in> set scalar_fields"
    "''bos_token_id'' \<in> set scalar_fields" "''eos_token_id'' \<in> set scalar_fields"
    by (simp_all add: japanese_scalar_fields_def scalar_fields_def)
  have "declared = token_table_sha256 spec"
    using japanese_fields_equal [OF jf names(1)] equal_member_str lock(1) decl(1) by blast
  moreover have "kind = JAPANESE_TOKENIZER_NAME"
    using japanese_fields_equal [OF jf names(2)] equal_member_str locked_tokenizer_name [OF jf] members(1) by blast
  moreover have "pad = global_pad_token_id spec"
    using japanese_fields_equal [OF jf names(3)] equal_member_int lock(2) members(5) by blast
  moreover have "vocabulary = aggregate_vocabulary_size spec"
    using scalar_fields_equal [OF sc names(4)] equal_member_int lock(3) members(2) by blast
  moreover have "bos = bos_token_id spec"
    using scalar_fields_equal [OF sc names(5)] equal_member_int lock(4) members(3) by blast
  moreover have "eos = eos_token_id spec"
    using scalar_fields_equal [OF sc names(6)] equal_member_int lock(5) members(4) by blast
  ultimately show ?thesis
    using c p decl(2) by (simp add: identity_projection_def sha256_bytes_def)
qed

lemma validated_identity:
  assumes "validate_tokenizer_identity_receipt env frepr p tokenizer = Inr ()"
  shows "\<exists>receipt projection c. load_json_file env p = Inr (JObj receipt) \<and>
    tokenizer_identity_projection frepr receipt = Inr projection \<and>
    dumps_utf8 frepr (JObj projection) = Inr c \<and> sha256_hex c = tk_identity_sha256 tokenizer"
  using assms unfolding validate_tokenizer_identity_receipt_def canonical_json_bytes_def sha256_bytes_def
  by (auto simp: result_simps accessor_simps)

end
