(* ===== verification/TokenizerAgreement.thy ===== *)
theory TokenizerAgreement
  imports TokenizerReceipt LockedFrontend
begin

text \<open>
  The tokenizer identity across components: what the frontend computes from its locked assets
  (\<open>tokenizer_identity_sha256\<close> of \<open>tools/frontend/japanese_frontend.py\<close>) and what the packager demands of the
  receipt (\<open>validate_tokenizer_identity_receipt\<close> of \<open>tools/bundle/package_runtime_bundle.py\<close>) are the same
  digest.
\<close>

subsection \<open>Texts without surrogates can be written\<close>

definition surrogate :: "nat \<Rightarrow> bool" where
  "surrogate c \<longleftrightarrow> 55296 \<le> c \<and> c < 57344"

lemma utf8_char_total: "\<not> surrogate c \<Longrightarrow> \<exists>bs. utf8_char c = Inr bs"
  by (auto simp: utf8_char_def surrogate_def)

lemma utf8_encode_total: "\<forall>c \<in> set s. \<not> surrogate c \<Longrightarrow> \<exists>bs. utf8_encode s = Inr bs"
proof (induction s)
  case (Cons c s)
  then obtain b bs where "utf8_char c = Inr b" "utf8_encode s = Inr bs" using utf8_char_total by fastforce
  then show ?case by (simp add: utf8_encode_Cons)
qed simp

primrec plain_json :: "json \<Rightarrow> bool" where
  "plain_json JNull \<longleftrightarrow> True"
| "plain_json (JBool b) \<longleftrightarrow> True"
| "plain_json (JInt i) \<longleftrightarrow> True"
| "plain_json (JFloat f) \<longleftrightarrow> False"
| "plain_json (JStr s) \<longleftrightarrow> list_all (\<lambda>c. \<not> surrogate c) s"
| "plain_json (JList vs) \<longleftrightarrow> list_all id (map plain_json vs)"
| "plain_json (JObj kvs) \<longleftrightarrow>
     list_all (\<lambda>kv. list_all (\<lambda>c. \<not> surrogate c) (fst kv)) kvs \<and>
     list_all id (map snd (map (map_prod id plain_json) kvs))"

lemma nat_digits_chars: "c \<in> set (nat_digits n) \<Longrightarrow> c < 58"
  by (induction n rule: nat_digits.induct) (subst (asm) (2) nat_digits.simps, auto split: if_splits)

lemma int_repr_chars: "c \<in> set (int_repr i) \<Longrightarrow> \<not> surrogate c"
  by (auto simp: int_repr_def surrogate_def dest: nat_digits_chars split: if_splits)

lemma comma_join_chars: "c \<in> set (comma_join xs) \<Longrightarrow> c = 44 \<or> (\<exists>x \<in> set xs. c \<in> set x)"
  by (induction xs rule: comma_join.induct) auto

lemma escape_char_chars: "d \<in> set (escape_char False c) \<Longrightarrow> d = c \<or> \<not> surrogate d"
  by (auto simp: escape_char_def short_escape_def u_escape_def hex4_def hex_digit_def surrogate_def
      split: if_splits)

lemma json_str_chars: "\<forall>c \<in> set s. \<not> surrogate c \<Longrightarrow> d \<in> set (json_str False s) \<Longrightarrow> \<not> surrogate d"
  using escape_char_chars by (fastforce simp: json_str_def surrogate_def)

lemma dumps_chars: "plain_json v \<Longrightarrow> c \<in> set (dumps False frepr v) \<Longrightarrow> \<not> surrogate c"
proof (induction v arbitrary: c)
  case (JList vs)
  from JList.prems(2) consider "c = 91 \<or> c = 93 \<or> c = 44" | v where "v \<in> set vs" "c \<in> set (dumps False frepr v)"
    using comma_join_chars [of c "map (dumps False frepr) vs"] by fastforce
  then show ?case using JList by cases (auto simp: surrogate_def list_all_iff)
next
  case (JObj kvs)
  from JObj.prems(2) consider "c = 123 \<or> c = 125 \<or> c = 44 \<or> c = 58"
    | k v where "(k, v) \<in> set kvs" "c \<in> set (json_str False k) \<or> c \<in> set (dumps False frepr v)"
    using comma_join_chars [of c "map (\<lambda>(k, t). json_str False k @ [58] @ t)
      (sort_key fst (map (map_prod id (dumps False frepr)) kvs))"] by fastforce
  then show ?case
  proof cases
    case 1 then show ?thesis by (auto simp: surrogate_def)
  next
    case 2
    with JObj.prems(1) have "\<forall>c \<in> set k. \<not> surrogate c" "plain_json v" by (force simp: list_all_iff)+
    with 2 JObj.IH [of "(k, v)" v c] show ?thesis using json_str_chars by (auto simp: snds.simps)
  qed
next
  case (JStr s)
  then show ?case using json_str_chars [of s c] by (simp add: list_all_iff)
next
  case (JInt i)
  then show ?case using int_repr_chars by simp
qed (auto simp: pys_def surrogate_def split: if_splits)

lemma dumps_utf8_total: "plain_json v \<Longrightarrow> \<exists>bs. dumps_utf8 frepr v = Inr bs"
  unfolding dumps_utf8_def using dumps_chars utf8_encode_total by blast

subsection \<open>Properties\<close>

text \<open>The installation of \<open>LockedFrontend\<close>, with its contract in a receipt.\<close>

definition demo_receipt :: json_object where
  "demo_receipt = [(pys ''schema_version'', JInt 1), (pys ''frontend_contract'', JObj demo_contract)]"

definition receipt_loads :: "byte list \<Rightarrow> json option" where
  "receipt_loads bytes = (if bytes = [1] then Some demo_lock else if bytes = [4] then Some (JObj demo_receipt) else None)"

definition receipt_env :: pyenv where
  "receipt_env = demo_full_env\<lparr>py_json_loads := receipt_loads\<rparr>"

definition receipt_fs :: filesystem where
  "receipt_fs path = (if path = pys ''lock'' then Regular [1] else Regular [4])"

definition receipt_pkg_env :: pkg_env where
  "receipt_pkg_env = \<lparr>pk_loads = receipt_loads, pk_float_of_int = (\<lambda>i. None), pk_fromisoformat = (\<lambda>_. None)\<rparr>"

definition receipt_view :: path_view where
  "receipt_view = steady_view [4]"

definition receipt_tokenizer :: "pystr \<Rightarrow> tokenizer_spec" where
  "receipt_tokenizer d =
     \<lparr>tk_kind = JAPANESE_TOKENIZER_NAME, tk_tokenizer_vocabulary_size = 107, tk_text_embedding_rows = 108,
      tk_special_tokens = \<lparr>st_bos_token_id = 0, st_eos_token_id = 107, st_japanese_global_pad_token_id = 106\<rparr>,
      tk_identity_sha256 = d\<rparr>"

text \<open>C6: one tokenizer identity. If the frontend computes an identity from a contract file and the packager
  accepts the same document as the tokenizer identity receipt of a specification, the specification names
  the frontend's identity. So a bundle is packaged for exactly the tokenizer the frontend serves.\<close>

theorem tokenizer_identity_agrees:
  assumes "tokenizer_identity_sha256 fenv fs lock contract = Inr d"
    and "json_file fenv fs contract = Inr receipt" and "load_json_file env p = Inr (JObj receipt)"
    and "validate_tokenizer_identity_receipt env (py_float_repr fenv) p tokenizer = Inr ()"
  shows "tk_identity_sha256 tokenizer = d"
proof -
  from validated_identity [OF assms(4)] assms(3) obtain projection c where
    proj: "tokenizer_identity_projection (py_float_repr fenv) receipt = Inr projection" and
    c: "dumps_utf8 (py_float_repr fenv) (JObj projection) = Inr c" "sha256_hex c = tk_identity_sha256 tokenizer"
    by auto
  from proj obtain fc where fc: "map_of receipt (pys ''frontend_contract'') = Some (JObj fc)"
    by (auto simp: tokenizer_identity_projection_def result_simps accessor_simps)
  from assms(1,2) fc obtain spec fl jl cf cp where
    load: "load_frontend_roots fenv fl jl fc = Inr spec" and
    cf: "dumps_utf8 (py_float_repr fenv) (JObj fc) = Inr cf" and
    cp: "dumps_utf8 (py_float_repr fenv) (identity_projection spec (sha256_hex cf)) = Inr cp" and
    d: "d = sha256_hex cp"
    by (auto simp: tokenizer_identity_sha256_def load_frontend_spec_def frontend_contract_of_def result_simps)
  from projection_agrees [OF load fc proj] cf have "JObj projection = identity_projection spec (sha256_hex cf)"
    by simp
  with c cp d show ?thesis by simp
qed

lemma demo_digest_shape: "is_lower_hex 64 demo_digest"
  using demo_digest_eq sha256_hexdigest_shape unfolding canonical_token_table_sha256_def bindE_eq_Inr
  by (metis sum.inject(2))

lemma demo_contract_plain: "plain_json (JObj demo_contract)"
proof -
  have hex: "list_all (\<lambda>c. \<not> surrogate c) s" if "is_lower_hex n s" for s n
    using that by (auto simp: is_lower_hex_def list_all_iff is_hex_char_def surrogate_def)
  note digests = hex [OF demo_digest_shape] hex [OF sha256_hexdigest_shape [of "[7]"]]
  show ?thesis
    by (simp add: demo_contract_def demo_frontend_def demo_japanese_def demo_rows_def row_json_def
        enumerate_eq_zip required_runtime_dependencies_def digests)
      (simp add: pys_def surrogate_def JAPANESE_TOKENIZER_NAME_def TOKEN_TABLE_CANONICALIZATION_def
        DICTIONARY_MANIFEST_CANONICALIZATION_def space_def long_vowel_mark_def)
qed

lemma receipt_roots: "load_frontend_spec receipt_env receipt_fs (pys ''lock'') (pys ''contract'') = Inr demo_full_spec"
proof -
  have "load_frontend_roots receipt_env (demo_frontend demo_japanese) demo_japanese demo_contract =
      load_frontend_roots demo_full_env (demo_frontend demo_japanese) demo_japanese demo_contract"
    by (simp add: load_frontend_roots_def load_token_table_def canonical_token_table_sha256_def receipt_env_def
        cong: bindE_cong)
  then have "load_frontend_roots receipt_env (demo_frontend demo_japanese) demo_japanese demo_contract = Inr demo_full_spec"
    by (simp add: demo_roots)
  then show ?thesis
    by (simp add: load_frontend_spec_def json_file_def receipt_fs_def receipt_env_def receipt_loads_def demo_lock_def
        demo_receipt_def frontend_contract_of_def member_of_def demo_frontend_def [of demo_japanese])
qed

lemma receipt_projected:
  assumes c: "dumps_utf8 (py_float_repr receipt_env) (JObj demo_contract) = Inr c"
  shows "\<exists>projection. tokenizer_identity_projection (py_float_repr receipt_env) demo_receipt = Inr projection \<and>
    JObj projection = identity_projection demo_full_spec (sha256_hex c)"
proof -
  obtain x where x: "dumps_utf8 (py_float_repr receipt_env) (JList (map row_json demo_rows)) = Inr x"
    "sha256_hex x = demo_digest"
    using demo_digest_eq unfolding canonical_token_table_sha256_def bindE_eq_Inr receipt_env_def by auto
  have "sha256_pattern demo_digest"
    using sha256_hexdigest_shape [of x] x(2) by (simp add: sha256_pattern_def lower_hex_pattern_def is_lower_hex_def)
  then have digest: "require_sha256 (JStr demo_digest) = Inr demo_digest" by (simp add: require_sha256_Inr_iff)
  have kind: "require_identifier (JStr JAPANESE_TOKENIZER_NAME) = Inr JAPANESE_TOKENIZER_NAME"
    by (simp add: require_identifier_Inr_iff JAPANESE_TOKENIZER_NAME_def identifier_pattern_def pys_def is_alnum_def)
  have rows: "map row_json demo_rows \<noteq> []" by (simp add: demo_rows_def)
  show ?thesis
    using c x digest kind rows
    by (simp add: tokenizer_identity_projection_def demo_receipt_def demo_contract_def demo_frontend_def
        demo_japanese_def require_member_def require_dict_def require_non_empty_list_def canonical_json_bytes_def
        sha256_bytes_def pkg_require_int_def identity_projection_def demo_full_spec_def)
qed

lemma receipt_loaded: "load_json_file receipt_pkg_env receipt_view = Inr (JObj demo_receipt)"
proof -
  have wf: "json_wf (JObj demo_receipt)" "finite_json (JObj demo_receipt)"
    by (simp_all add: demo_receipt_def demo_contract_def demo_frontend_def demo_japanese_def demo_rows_def
        row_json_def enumerate_eq_zip required_runtime_dependencies_def)
  have "parse_json_payload receipt_pkg_env [4] = Inr (JObj demo_receipt)"
    using wf by (simp add: parse_json_payload_accepted receipt_pkg_env_def receipt_loads_def)
  then show ?thesis unfolding receipt_view_def by (intro load_steady_view) (simp_all add: MAX_MANIFEST_BYTES_def)
qed

lemma receipt_json_file: "json_file receipt_env receipt_fs (pys ''contract'') = Inr demo_receipt"
  by (simp add: json_file_def receipt_fs_def receipt_env_def receipt_loads_def)

lemma receipt_identity:
  "\<exists>d. tokenizer_identity_sha256 receipt_env receipt_fs (pys ''lock'') (pys ''contract'') = Inr d \<and>
     validate_tokenizer_identity_receipt receipt_pkg_env (py_float_repr receipt_env) receipt_view (receipt_tokenizer d) = Inr ()"
proof -
  obtain c where c: "dumps_utf8 (py_float_repr receipt_env) (JObj demo_contract) = Inr c"
    using dumps_utf8_total [OF demo_contract_plain] by blast
  obtain projection where p: "tokenizer_identity_projection (py_float_repr receipt_env) demo_receipt = Inr projection"
    "JObj projection = identity_projection demo_full_spec (sha256_hex c)"
    using receipt_projected [OF c] by blast
  have hex: "list_all (\<lambda>c. \<not> surrogate c) s" if "is_lower_hex n s" for s n
    using that by (auto simp: is_lower_hex_def list_all_iff is_hex_char_def surrogate_def)
  have "plain_json (identity_projection demo_full_spec (sha256_hex c))"
    by (simp add: identity_projection_def demo_full_spec_def hex [OF sha256_hexdigest_shape] hex [OF demo_digest_shape])
      (simp add: pys_def surrogate_def JAPANESE_TOKENIZER_NAME_def)
  then obtain cp where cp: "dumps_utf8 (py_float_repr receipt_env)
      (identity_projection demo_full_spec (sha256_hex c)) = Inr cp" using dumps_utf8_total by blast
  have "tokenizer_identity_sha256 receipt_env receipt_fs (pys ''lock'') (pys ''contract'') = Inr (sha256_hex cp)"
    using c cp
    by (simp add: tokenizer_identity_sha256_def receipt_roots receipt_json_file frontend_contract_of_def
        demo_receipt_def)
  moreover have "validate_tokenizer_identity_receipt receipt_pkg_env (py_float_repr receipt_env) receipt_view
      (receipt_tokenizer (sha256_hex cp)) = Inr ()"
    using p(2) cp
    by (simp add: validate_tokenizer_identity_receipt_def receipt_loaded p(1) require_dict_def)
      (auto simp: identity_projection_def field_def require_string_def projected_special_tokens_def
        require_member_def require_dict_def demo_receipt_def demo_contract_def demo_frontend_def
        pkg_require_int_def require_object_def receipt_tokenizer_def canonical_json_bytes_def sha256_bytes_def
        JAPANESE_TOKENIZER_NAME_def demo_full_spec_def)
  ultimately show ?thesis by blast
qed

theorem tokenizer_identity_agrees_witness:
  "\<exists>t d. tokenizer_identity_sha256 receipt_env receipt_fs (pys ''lock'') (pys ''contract'') = Inr d \<and>
     validate_tokenizer_identity_receipt receipt_pkg_env (py_float_repr receipt_env) receipt_view t = Inr () \<and>
     tk_identity_sha256 t = d"
proof -
  obtain d where d: "tokenizer_identity_sha256 receipt_env receipt_fs (pys ''lock'') (pys ''contract'') = Inr d"
    "validate_tokenizer_identity_receipt receipt_pkg_env (py_float_repr receipt_env) receipt_view (receipt_tokenizer d) = Inr ()"
    using receipt_identity by blast
  from tokenizer_identity_agrees [OF d(1) receipt_json_file receipt_loaded d(2)] d show ?thesis by blast
qed

end
