(* ===== verification/SourceReceipt.thy ===== *)
theory SourceReceipt
  imports OsFiles PackageSpec
begin

text \<open>
  The source-model acceptance receipt (\<open>validate_source_model_receipt\<close> of
  \<open>tools/bundle/package_runtime_bundle.py\<close>): one definition for each section of the document, in the order
  the source checks them.

  \<open>expect r x m\<close> is \<open>if r != x: raise PackageError(m)\<close> for a checked accessor \<open>r\<close>. JSON values are compared
  as Python compares them (\<open>py_eq\<close>).

  \<open>validate_source_model_receipt_facts\<close> collects what an accepted receipt says: it is about the model of the
  specification, its source map has the declared digest, every case replays exactly, the metrics are
  ordered, and no string in it is an absolute path.
\<close>

subsection \<open>Constants\<close>

definition NVIDIA_OPEN_MODEL_LICENSE_NAME :: string where
  "NVIDIA_OPEN_MODEL_LICENSE_NAME = ''NVIDIA Open Model License Agreement''"
definition NVIDIA_OPEN_MODEL_LICENSE_VERSION :: string where
  "NVIDIA_OPEN_MODEL_LICENSE_VERSION = ''2025-10-24''"
definition NVIDIA_OPEN_MODEL_LICENSE_FILE_NAME :: string where
  "NVIDIA_OPEN_MODEL_LICENSE_FILE_NAME = ''NVIDIA-Open-Model-License-Agreement-2025-10-24.pdf''"
definition NVIDIA_OPEN_MODEL_LICENSE_SHA256 :: string where
  "NVIDIA_OPEN_MODEL_LICENSE_SHA256 = ''4d2fb590aa9b30c47f2058bff17291df7fa2aa0c1bd775a20703da9bb267cfab''"
definition NVIDIA_MODEL_NOTICE_FILE_NAME :: string where
  "NVIDIA_MODEL_NOTICE_FILE_NAME = ''NOTICE''"
definition NVIDIA_MODEL_NOTICE_SHA256 :: string where
  "NVIDIA_MODEL_NOTICE_SHA256 = ''5fc60716a9ba57f3792e71ed776b4065671c64d0c2db716698f4d646ad833eb1''"

definition ORACLE_SOURCE_PATHS :: "string list" where
  "ORACLE_SOURCE_PATHS =
     [''nemo/collections/tts/models/easy_magpietts_inference.py'',
      ''nemo/collections/tts/models/magpietts.py'',
      ''nemo/collections/tts/models/magpietts_preference_optimization.py'',
      ''nemo/collections/tts/modules/ffn_modules.py'',
      ''nemo/collections/tts/modules/magpietts_fused_sampling.py'',
      ''nemo/collections/tts/modules/magpietts_inference/inference.py'',
      ''nemo/collections/tts/modules/magpietts_inference/utils.py'',
      ''nemo/collections/tts/modules/magpietts_modules.py'',
      ''nemo/collections/tts/modules/streaming_codec.py'',
      ''nemo/collections/tts/modules/streaming_synthesis.py'',
      ''nemo/collections/tts/modules/transformer_2501.py'']"

definition SOURCE_ACCEPTANCE_PASSED_GATES :: "string list" where
  "SOURCE_ACCEPTANCE_PASSED_GATES =
     [''all_cases_exercised'', ''callback_contracts_passed'', ''codec_fp32'', ''default_schedule_exact'',
      ''eos_alignment_passed'', ''explicit_outer_warmup_only'', ''finite_audio_artifacts_passed'',
      ''general_followup_case_passed'', ''generation_rtf_p95_below_one'', ''local_ar_graph_passed'',
      ''native_bf16_no_adapter'', ''native_codec_graphs_passed'', ''packed_first4_cases_passed'',
      ''runtime_acceptance_passed'', ''same_seed_replay_passed'', ''source_model_probe_unchanged'',
      ''total_rtf_p95_below_one'', ''zero_positive_playback_lateness'']"

definition SOURCE_ACCEPTANCE_CASE_NAMES :: "string list" where
  "SOURCE_ACCEPTANCE_CASE_NAMES =
     [''short_conversation'', ''punctuation'', ''latin_and_numbers'', ''long_multi_chunk'']"

definition SOURCE_ACCEPTANCE_METRICS :: "string list" where
  "SOURCE_ACCEPTANCE_METRICS =
     [''raw_ttfa_ms'', ''gapless_start_ms'', ''max_positive_playback_lateness_ms'', ''generation_rtf'', ''total_rtf'']"

definition SOURCE_ACCEPTANCE_AGGREGATE_FIELDS :: "string list" where
  "SOURCE_ACCEPTANCE_AGGREGATE_FIELDS =
     [''case_count''] @ SOURCE_ACCEPTANCE_METRICS @
     [''maximum_peak_cuda_allocated_bytes'', ''maximum_peak_cuda_reserved_bytes'']"

subsection \<open>Checks\<close>

definition expect :: "'a result \<Rightarrow> 'a \<Rightarrow> string \<Rightarrow> unit result" where
  "expect r expected m = bindE r (\<lambda>actual. guardE (actual \<noteq> expected) (pkg_error m))"

definition all_steps :: "('a \<Rightarrow> unit result) \<Rightarrow> 'a list \<Rightarrow> unit result" where
  "all_steps f xs = bindE (mapE f xs) (\<lambda>_. Inr ())"

abbreviation string_field :: "json_object \<Rightarrow> string \<Rightarrow> pystr result" where
  "string_field doc key \<equiv> bindE (field doc key) require_string"

abbreviation identifier_field :: "json_object \<Rightarrow> string \<Rightarrow> pystr result" where
  "identifier_field doc key \<equiv> bindE (field doc key) require_identifier"

abbreviation sha256_field :: "json_object \<Rightarrow> string \<Rightarrow> pystr result" where
  "sha256_field doc key \<equiv> bindE (field doc key) require_sha256"

abbreviation bool_field :: "json_object \<Rightarrow> string \<Rightarrow> bool result" where
  "bool_field doc key \<equiv> bindE (field doc key) require_bool"

abbreviation int_field :: "json_object \<Rightarrow> string \<Rightarrow> int \<Rightarrow> int \<Rightarrow> int result" where
  "int_field doc key minimum maximum \<equiv> bindE (field doc key) (\<lambda>v. pkg_require_int v minimum maximum)"

subsection \<open>The model, its license and its source\<close>

definition EXPECTED_LICENSE :: "(string \<times> string) list" where
  "EXPECTED_LICENSE =
     [(''name'', NVIDIA_OPEN_MODEL_LICENSE_NAME), (''version'', NVIDIA_OPEN_MODEL_LICENSE_VERSION),
      (''document_file_name'', NVIDIA_OPEN_MODEL_LICENSE_FILE_NAME),
      (''document_sha256'', NVIDIA_OPEN_MODEL_LICENSE_SHA256),
      (''required_notice_file_name'', NVIDIA_MODEL_NOTICE_FILE_NAME),
      (''required_notice_sha256'', NVIDIA_MODEL_NOTICE_SHA256)]"

definition check_license_field :: "json_object \<Rightarrow> string \<times> string \<Rightarrow> unit result" where
  "check_license_field doc fe =
     (let (key, expected) = fe in
     bindE (string_field doc key) (\<lambda>_.
     expect (if suffix ''sha256'' key then sha256_field doc key else string_field doc key) (pys expected)
       ''/source_model/license/: unexpected value''))"

definition check_source_model :: "json \<Rightarrow> source_model_spec \<Rightarrow> unit result" where
  "check_source_model v source_model =
     bindE (require_object v
       [''model_id'', ''version'', ''revision'', ''file_name'', ''sha256'', ''size_bytes'', ''license'']) (\<lambda>model.
     bindE (expect (string_field model ''model_id'') (sm_model_id source_model)
       ''/source_model/model_id: receipt targets a different model'') (\<lambda>_.
     bindE (expect (string_field model ''version'') (sm_version source_model)
       ''/source_model/version: receipt targets a different model version'') (\<lambda>_.
     bindE (expect (bindE (field model ''revision'') require_git_sha1) (sm_revision source_model)
       ''/source_model/revision: receipt targets a different immutable model revision'') (\<lambda>_.
     bindE (expect (string_field model ''file_name'') (pys ''magpie_tts_multilingual_357m.nemo'')
       ''/source_model/file_name: unexpected model file'') (\<lambda>_.
     bindE (expect (sha256_field model ''sha256'') (sm_source_sha256 source_model)
       ''/source_model/sha256: receipt does not match source_model.source_sha256'') (\<lambda>_.
     bindE (int_field model ''size_bytes'' 1 (2 ^ 63 - 1)) (\<lambda>_.
     bindE (bindE (field model ''license'') (\<lambda>x. require_object x (map fst EXPECTED_LICENSE))) (\<lambda>license.
     all_steps (check_license_field license) EXPECTED_LICENSE))))))))"

text \<open>\<open>relative.encode("utf-8") + b"\0" + digest.encode("ascii") + b"\n"\<close>\<close>

definition source_line :: "string \<times> pystr \<Rightarrow> byte list" where
  "source_line pd = map of_nat (pys (fst pd)) @ [0] @ map of_nat (snd pd) @ [10]"

definition source_bundle_sha256 :: "pystr list \<Rightarrow> pystr" where
  "source_bundle_sha256 digests = sha256_hex (concat (map source_line (zip ORACLE_SOURCE_PATHS digests)))"

definition check_oracle_source :: "json \<Rightarrow> unit result" where
  "check_oracle_source v =
     bindE (require_object v [''repository'', ''base_revision'', ''optimized_source_bundle_sha256'', ''files'']) (\<lambda>source.
     bindE (expect (string_field source ''repository'') (pys ''https://github.com/NVIDIA/NeMo.git'')
       ''/oracle_source/repository: unexpected repository'') (\<lambda>_.
     bindE (bindE (field source ''base_revision'') require_git_sha1) (\<lambda>_.
     bindE (bindE (field source ''files'') (\<lambda>x. require_object x ORACLE_SOURCE_PATHS)) (\<lambda>source_files.
     bindE (mapE (sha256_field source_files) ORACLE_SOURCE_PATHS) (\<lambda>digests.
     bindE (sha256_field source ''optimized_source_bundle_sha256'') (\<lambda>expected_bundle.
     guardE (source_bundle_sha256 digests \<noteq> expected_bundle)
       (pkg_error ''/oracle_source/optimized_source_bundle_sha256: does not authenticate the ordered 11-file source map'')))))))"

subsection \<open>The acceptance contract, the probe and the environment\<close>

definition EXPECTED_CONTRACT :: "(string \<times> json) list" where
  "EXPECTED_CONTRACT =
     [(''speaker_name'', JStr (pys ''Sofia'')), (''speaker_index'', JInt 4), (''sample_rate_hz'', JInt 22050),
      (''samples_per_codec_frame'', JInt 1024), (''first_codec_frames'', JInt 4), (''steady_codec_frames'', JInt 8),
      (''tail_codec_frames_min'', JInt 1), (''tail_codec_frames_max'', JInt 8)]"

definition check_contract_field :: "json_object \<Rightarrow> string \<times> json \<Rightarrow> unit result" where
  "check_contract_field contract fe =
     (let (key, expected) = fe in
     bindE (field contract key) (\<lambda>actual.
     guardE (\<not> py_eq actual expected) (pkg_error ''/acceptance_contract/: expected '')))"

text \<open>The checked contract has this seed.\<close>

definition check_acceptance_contract :: "json \<Rightarrow> int result" where
  "check_acceptance_contract v =
     bindE (require_object v
       [''speaker_name'', ''speaker_index'', ''local_ar_seed'', ''sample_rate_hz'', ''samples_per_codec_frame'',
        ''first_codec_frames'', ''steady_codec_frames'', ''tail_codec_frames_min'', ''tail_codec_frames_max'']) (\<lambda>contract.
     bindE (all_steps (check_contract_field contract) EXPECTED_CONTRACT) (\<lambda>_.
     int_field contract ''local_ar_seed'' 0 max_u64))"

definition check_probe :: "json \<Rightarrow> unit result" where
  "check_probe v =
     bindE (require_object v
       [''raw_receipt_sha256'', ''raw_receipt_size_bytes'', ''probe_sha256'', ''helper_sha256'', ''case_definition_sha256'']) (\<lambda>probe.
     bindE (mapE (sha256_field probe)
       [''raw_receipt_sha256'', ''probe_sha256'', ''helper_sha256'', ''case_definition_sha256'']) (\<lambda>_.
     bindE (int_field probe ''raw_receipt_size_bytes'' 1 MAX_MANIFEST_BYTES) (\<lambda>_. Inr ())))"

definition check_runtime_environment :: "json \<Rightarrow> unit result" where
  "check_runtime_environment v =
     bindE (require_object v
       [''torch_version'', ''torch_cuda_build'', ''cudnn_version'', ''cuda_driver_version'', ''gpu_name'',
        ''gpu_compute_capability'']) (\<lambda>runtime.
     bindE (mapE (string_field runtime)
       [''torch_version'', ''torch_cuda_build'', ''cuda_driver_version'', ''gpu_name'']) (\<lambda>_.
     bindE (int_field runtime ''cudnn_version'' 1 max_u32) (\<lambda>_.
     bindE (field runtime ''gpu_compute_capability'') (\<lambda>capability.
     guardE (\<not> py_eq capability (JList [JInt 11, JInt 0]))
       (pkg_error ''/runtime_environment/gpu_compute_capability: expected [11, 0]'')))))"

subsection \<open>The evidence\<close>

definition DETERMINISM_FIELDS :: "string list" where
  "DETERMINISM_FIELDS =
     [''case_name'', ''local_ar_seed'', ''first_codes_sha256'', ''replay_codes_sha256'', ''codes_exact'',
      ''first_pcm_f32le_sha256'', ''replay_pcm_f32le_sha256'', ''pcm_exact'', ''first_codec_frame_count'',
      ''replay_codec_frame_count'', ''codec_frame_count_exact'', ''passed'']"

text \<open>The operands of \<open>or\<close> are evaluated from the left, up to the first that holds.\<close>

definition exact_flag :: "json_object \<Rightarrow> string \<Rightarrow> unit result" where
  "exact_flag doc key =
     bindE (bool_field doc key) (\<lambda>b. guardE (\<not> b) (pkg_error '': same-seed replay is not exact''))"

definition same_value :: "'a \<Rightarrow> 'a \<Rightarrow> unit result" where
  "same_value x y = guardE (x \<noteq> y) (pkg_error '': same-seed replay is not exact'')"

definition check_determinism_record :: "int \<Rightarrow> json \<times> string \<Rightarrow> unit result" where
  "check_determinism_record expected_seed vn =
     bindE (require_object (fst vn) DETERMINISM_FIELDS) (\<lambda>doc.
     bindE (expect (string_field doc ''case_name'') (pys (snd vn)) ''/case_name: expected '') (\<lambda>_.
     bindE (expect (int_field doc ''local_ar_seed'' 0 max_u64) expected_seed ''/local_ar_seed: differs from contract'') (\<lambda>_.
     bindE (sha256_field doc ''first_codes_sha256'') (\<lambda>first_codes.
     bindE (sha256_field doc ''replay_codes_sha256'') (\<lambda>replay_codes.
     bindE (sha256_field doc ''first_pcm_f32le_sha256'') (\<lambda>first_pcm.
     bindE (sha256_field doc ''replay_pcm_f32le_sha256'') (\<lambda>replay_pcm.
     bindE (int_field doc ''first_codec_frame_count'' 1 max_u64) (\<lambda>first_frames.
     bindE (int_field doc ''replay_codec_frame_count'' 1 max_u64) (\<lambda>replay_frames.
     bindE (exact_flag doc ''codes_exact'') (\<lambda>_.
     bindE (same_value first_codes replay_codes) (\<lambda>_.
     bindE (exact_flag doc ''pcm_exact'') (\<lambda>_.
     bindE (same_value first_pcm replay_pcm) (\<lambda>_.
     bindE (exact_flag doc ''codec_frame_count_exact'') (\<lambda>_.
     bindE (same_value first_frames replay_frames) (\<lambda>_.
     exact_flag doc ''passed'')))))))))))))))"

definition check_determinism :: "json \<Rightarrow> int \<Rightarrow> unit result" where
  "check_determinism v expected_seed =
     (case v of
        JList vs \<Rightarrow>
          bindE (guardE (length vs \<noteq> length SOURCE_ACCEPTANCE_CASE_NAMES)
            (pkg_error ''/evidence/determinism: expected exactly four records'')) (\<lambda>_.
          all_steps (check_determinism_record expected_seed) (zip vs SOURCE_ACCEPTANCE_CASE_NAMES))
      | _ \<Rightarrow> Inl (pkg_error ''/evidence/determinism: expected an array''))"

definition check_metric :: "pkg_env \<Rightarrow> json_object \<Rightarrow> string \<Rightarrow> unit result" where
  "check_metric env aggregate name =
     bindE (bindE (field aggregate name) (\<lambda>x. require_object x [''median'', ''p95'', ''minimum'', ''maximum''])) (\<lambda>metric.
     bindE (bindE (field metric ''median'') (require_float env)) (\<lambda>median.
     bindE (bindE (field metric ''p95'') (require_float env)) (\<lambda>p95.
     bindE (bindE (field metric ''minimum'') (require_float env)) (\<lambda>minimum.
     bindE (bindE (field metric ''maximum'') (require_float env)) (\<lambda>maximum.
     guardE (minimum < 0 \<or> median < minimum \<or> maximum < median \<or> p95 < minimum \<or> maximum < p95)
       (pkg_error '': invalid metric ordering''))))))"

definition check_aggregate :: "pkg_env \<Rightarrow> json \<Rightarrow> unit result" where
  "check_aggregate env v =
     bindE (require_object v SOURCE_ACCEPTANCE_AGGREGATE_FIELDS) (\<lambda>aggregate.
     bindE (expect (int_field aggregate ''case_count'' 4 4) 4 ''/evidence/aggregate/case_count: expected 4'') (\<lambda>_.
     bindE (all_steps (check_metric env aggregate) SOURCE_ACCEPTANCE_METRICS) (\<lambda>_.
     bindE (mapE (\<lambda>key. int_field aggregate key 1 max_u64)
       [''maximum_peak_cuda_allocated_bytes'', ''maximum_peak_cuda_reserved_bytes'']) (\<lambda>_. Inr ()))))"

definition check_gate :: "json_object \<Rightarrow> string \<Rightarrow> unit result" where
  "check_gate gates gate = expect (bool_field gates gate) True ''/evidence/gates/: expected true''"

definition check_gates :: "json \<Rightarrow> unit result" where
  "check_gates v =
     bindE (require_object v (SOURCE_ACCEPTANCE_PASSED_GATES @ [''parakeet_gate_pending'', ''failures''])) (\<lambda>gates.
     bindE (all_steps (check_gate gates) SOURCE_ACCEPTANCE_PASSED_GATES) (\<lambda>_.
     bindE (check_gate gates ''parakeet_gate_pending'') (\<lambda>_.
     bindE (field gates ''failures'') (\<lambda>failures.
     guardE (\<not> py_eq failures (JList [])) (pkg_error ''/evidence/gates/failures: expected an empty array'')))))"

definition check_evidence :: "pkg_env \<Rightarrow> json \<Rightarrow> int \<Rightarrow> unit result" where
  "check_evidence env v expected_seed =
     bindE (require_object v [''case_names'', ''determinism'', ''aggregate'', ''gates'']) (\<lambda>evidence.
     bindE (field evidence ''case_names'') (\<lambda>case_names.
     bindE (guardE (\<not> py_eq case_names (JList (map (JStr \<circ> pys) SOURCE_ACCEPTANCE_CASE_NAMES)))
       (pkg_error ''/evidence/case_names: unexpected acceptance cases'')) (\<lambda>_.
     bindE (bindE (field evidence ''determinism'') (\<lambda>x. check_determinism x expected_seed)) (\<lambda>_.
     bindE (bindE (field evidence ''aggregate'') (check_aggregate env)) (\<lambda>_.
     bindE (field evidence ''gates'') check_gates)))))"

subsection \<open>No absolute path\<close>

definition is_letter :: "nat \<Rightarrow> bool" where
  "is_letter c \<longleftrightarrow> 65 \<le> c \<and> c \<le> 90 \<or> 97 \<le> c \<and> c \<le> 122"

text \<open>A leading slash, \<open>file:\<close>, or a drive letter with its separator.\<close>

definition absolute_path :: "pystr \<Rightarrow> bool" where
  "absolute_path s \<longleftrightarrow>
     take 1 s = [47] \<or> take 5 s = pys ''file:'' \<or>
     (3 \<le> length s \<and> is_letter (s ! 0) \<and> s ! 1 = 58 \<and> (s ! 2 = 92 \<or> s ! 2 = 47))"

fun reject_absolute_paths :: "json \<Rightarrow> unit result" where
  "reject_absolute_paths (JObj kvs) = bindE (mapE (\<lambda>kv. reject_absolute_paths (snd kv)) kvs) (\<lambda>_. Inr ())"
| "reject_absolute_paths (JList vs) = bindE (mapE reject_absolute_paths vs) (\<lambda>_. Inr ())"
| "reject_absolute_paths (JStr s) =
     guardE (absolute_path s) (pkg_error '': source-model receipt contains an absolute path'')"
| "reject_absolute_paths _ = Inr ()"

subsection \<open>The receipt\<close>

definition validate_source_model_receipt :: "pkg_env \<Rightarrow> path_view \<Rightarrow> source_model_spec \<Rightarrow> unit result" where
  "validate_source_model_receipt env p source_model =
     bindE (load_json_file env p) (\<lambda>v.
     bindE (require_object v
       [''schema_version'', ''artifact_role'', ''status'', ''created_at_utc'', ''source_model'', ''oracle_source'',
        ''acceptance_contract'', ''probe'', ''runtime_environment'', ''evidence'']) (\<lambda>doc.
     bindE (expect (int_field doc ''schema_version'' 1 2) 2 ''/schema_version: expected source receipt v2'') (\<lambda>_.
     bindE (expect (identifier_field doc ''artifact_role'') (pys ''source_model_acceptance'')
       ''/artifact_role: expected source_model_acceptance'') (\<lambda>_.
     bindE (expect (identifier_field doc ''status'') (pys ''accepted'')
       ''/status: source-model receipt is not accepted'') (\<lambda>_.
     bindE (bindE (field doc ''created_at_utc'') (require_timestamp env)) (\<lambda>_.
     bindE (bindE (field doc ''source_model'') (\<lambda>x. check_source_model x source_model)) (\<lambda>_.
     bindE (bindE (field doc ''oracle_source'') check_oracle_source) (\<lambda>_.
     bindE (bindE (field doc ''acceptance_contract'') check_acceptance_contract) (\<lambda>seed.
     bindE (bindE (field doc ''probe'') check_probe) (\<lambda>_.
     bindE (bindE (field doc ''runtime_environment'') check_runtime_environment) (\<lambda>_.
     bindE (bindE (field doc ''evidence'') (\<lambda>x. check_evidence env x seed)) (\<lambda>_.
     reject_absolute_paths (JObj doc)))))))))))))"

subsection \<open>What an accepted receipt says\<close>

fun json_at :: "json \<Rightarrow> string list \<Rightarrow> json option" where
  "json_at v [] = Some v"
| "json_at v (k # ks) =
     (case v of JObj doc \<Rightarrow> (case map_of doc (pys k) of None \<Rightarrow> None | Some w \<Rightarrow> json_at w ks) | _ \<Rightarrow> None)"

primrec json_strings :: "json \<Rightarrow> pystr set" where
  "json_strings JNull = {}"
| "json_strings (JBool b) = {}"
| "json_strings (JInt i) = {}"
| "json_strings (JFloat f) = {}"
| "json_strings (JStr s) = {s}"
| "json_strings (JList vs) = \<Union> (set (map json_strings vs))"
| "json_strings (JObj kvs) = \<Union> (set (map snd (map (map_prod id json_strings) kvs)))"

lemma json_strings_JObj [simp]: "json_strings (JObj kvs) = (\<Union>kv \<in> set kvs. json_strings (snd kv))"
  by force

declare json_strings.simps(7) [simp del]

lemma all_steps_Inr_iff [result_simps]: "all_steps f xs = Inr u \<longleftrightarrow> (\<forall>x \<in> set xs. f x = Inr ())"
proof -
  have "(\<exists>us. mapE f xs = Inr us) \<longleftrightarrow> (\<forall>x \<in> set xs. f x = Inr ())"
    by (induction xs) (auto simp: bindE_eq_Inr)
  then show ?thesis by (simp add: all_steps_def bindE_eq_Inr)
qed

lemma expect_Inr_iff [result_simps]: "expect r x m = Inr u \<longleftrightarrow> r = Inr x"
  by (auto simp: expect_def bindE_eq_Inr guardE_eq_Inr)

lemma reject_absolute_paths_Inr_iff:
  "reject_absolute_paths v = Inr u \<longleftrightarrow> (\<forall>s \<in> json_strings v. \<not> absolute_path s)"
proof (induction v rule: reject_absolute_paths.induct)
  case (1 kvs)
  have "reject_absolute_paths (JObj kvs) = all_steps (\<lambda>kv. reject_absolute_paths (snd kv)) kvs"
    by (simp add: all_steps_def)
  with 1 show ?case by (auto simp: all_steps_Inr_iff)
next
  case (2 vs)
  have "reject_absolute_paths (JList vs) = all_steps reject_absolute_paths vs" by (simp add: all_steps_def)
  with 2 show ?case by (auto simp: all_steps_Inr_iff)
qed (auto simp: result_simps)

definition exact_replay :: "int \<Rightarrow> string \<Rightarrow> json \<Rightarrow> bool" where
  "exact_replay seed name v \<longleftrightarrow>
     json_at v [''case_name''] = Some (JStr (pys name)) \<and> json_at v [''local_ar_seed''] = Some (JInt seed) \<and>
     (\<exists>codes pcm frames.
        json_at v [''first_codes_sha256''] = Some (JStr codes) \<and> json_at v [''replay_codes_sha256''] = Some (JStr codes) \<and>
        json_at v [''first_pcm_f32le_sha256''] = Some (JStr pcm) \<and> json_at v [''replay_pcm_f32le_sha256''] = Some (JStr pcm) \<and>
        json_at v [''first_codec_frame_count''] = Some (JInt frames) \<and>
        json_at v [''replay_codec_frame_count''] = Some (JInt frames) \<and> 1 \<le> frames)"

lemma check_determinism_record_exact:
  "check_determinism_record seed (v, name) = Inr u \<Longrightarrow> exact_replay seed name v"
  unfolding check_determinism_record_def exact_replay_def same_value_def
  by (auto simp: result_simps accessor_simps require_object_Inr_iff)

definition ordered_metric :: "pkg_env \<Rightarrow> json \<Rightarrow> bool" where
  "ordered_metric env v \<longleftrightarrow>
     (\<exists>median p95 lo hi vm vp vl vh.
        json_at v [''median''] = Some vm \<and> require_float env vm = Inr median \<and>
        json_at v [''p95''] = Some vp \<and> require_float env vp = Inr p95 \<and>
        json_at v [''minimum''] = Some vl \<and> require_float env vl = Inr lo \<and>
        json_at v [''maximum''] = Some vh \<and> require_float env vh = Inr hi \<and>
        0 \<le> lo \<and> lo \<le> median \<and> median \<le> hi \<and> lo \<le> p95 \<and> p95 \<le> hi)"

lemma check_metric_ordered:
  "check_metric env doc name = Inr u \<Longrightarrow> \<exists>v. map_of doc (pys name) = Some v \<and> ordered_metric env v"
  unfolding check_metric_def ordered_metric_def
  by (auto simp: result_simps accessor_simps require_object_Inr_iff)

definition about_model :: "source_model_spec \<Rightarrow> json \<Rightarrow> bool" where
  "about_model sm v \<longleftrightarrow>
     json_at v [''model_id''] = Some (JStr (sm_model_id sm)) \<and> json_at v [''version''] = Some (JStr (sm_version sm)) \<and>
     json_at v [''revision''] = Some (JStr (sm_revision sm)) \<and> json_at v [''sha256''] = Some (JStr (sm_source_sha256 sm)) \<and>
     (\<forall>(k, s) \<in> set EXPECTED_LICENSE. json_at v [''license'', k] = Some (JStr (pys s)))"

lemma check_license_field_Inr:
  "check_license_field doc (k, s) = Inr u \<Longrightarrow> map_of doc (pys k) = Some (JStr (pys s))"
  by (auto simp: check_license_field_def result_simps accessor_simps split: if_splits)

lemma check_source_model_about:
  assumes "check_source_model v sm = Inr u"
  shows "about_model sm v"
proof -
  from assms obtain doc license where doc: "v = JObj doc" and
    m: "map_of doc (pys ''model_id'') = Some (JStr (sm_model_id sm))"
       "map_of doc (pys ''version'') = Some (JStr (sm_version sm))"
       "map_of doc (pys ''revision'') = Some (JStr (sm_revision sm))"
       "map_of doc (pys ''sha256'') = Some (JStr (sm_source_sha256 sm))"
       "map_of doc (pys ''license'') = Some (JObj license)" and
    fields: "\<forall>fe \<in> set EXPECTED_LICENSE. check_license_field license fe = Inr ()"
    unfolding check_source_model_def by (auto simp: result_simps accessor_simps require_object_Inr_iff)
  have "json_at v [''license'', k] = Some (JStr (pys s))" if "(k, s) \<in> set EXPECTED_LICENSE" for k s
    using check_license_field_Inr [OF fields [rule_format, OF that]] m(5) by (simp add: doc)
  with m show ?thesis by (auto simp: about_model_def doc)
qed

definition source_authenticated :: "json \<Rightarrow> bool" where
  "source_authenticated v \<longleftrightarrow>
     (\<exists>digests. list_all2 (\<lambda>path d. json_at v [''files'', path] = Some (JStr d)) ORACLE_SOURCE_PATHS digests \<and>
        json_at v [''optimized_source_bundle_sha256''] = Some (JStr (source_bundle_sha256 digests)))"

lemma check_oracle_source_authenticated:
  assumes "check_oracle_source v = Inr u"
  shows "source_authenticated v"
proof -
  from assms obtain doc files digests where doc: "v = JObj doc" and
    source_files: "map_of doc (pys ''files'') = Some (JObj files)" and
    digests: "mapE (sha256_field files) ORACLE_SOURCE_PATHS = Inr digests" and
    declared: "map_of doc (pys ''optimized_source_bundle_sha256'') = Some (JStr (source_bundle_sha256 digests))"
    unfolding check_oracle_source_def by (auto simp: result_simps accessor_simps require_object_Inr_iff)
  have "list_all2 (\<lambda>path d. json_at v [''files'', path] = Some (JStr d)) ORACLE_SOURCE_PATHS digests"
    using digests unfolding mapE_Inr_iff
    by (rule list_all2_mono) (auto simp: doc source_files result_simps accessor_simps)
  with declared show ?thesis by (auto simp: source_authenticated_def doc)
qed

definition source_receipt_facts :: "pkg_env \<Rightarrow> source_model_spec \<Rightarrow> json \<Rightarrow> bool" where
  "source_receipt_facts env sm v \<longleftrightarrow>
     (\<exists>model source dets seed.
        json_at v [''source_model''] = Some model \<and> about_model sm model \<and>
        json_at v [''oracle_source''] = Some source \<and> source_authenticated source \<and>
        json_at v [''acceptance_contract'', ''local_ar_seed''] = Some (JInt seed) \<and>
        json_at v [''evidence'', ''determinism''] = Some (JList dets) \<and>
        list_all2 (exact_replay seed) SOURCE_ACCEPTANCE_CASE_NAMES dets \<and>
        (\<forall>name \<in> set SOURCE_ACCEPTANCE_METRICS.
           \<exists>m. json_at v [''evidence'', ''aggregate'', name] = Some m \<and> ordered_metric env m) \<and>
        (\<forall>gate \<in> set SOURCE_ACCEPTANCE_PASSED_GATES. json_at v [''evidence'', ''gates'', gate] = Some (JBool True)) \<and>
        (\<forall>s \<in> json_strings v. \<not> absolute_path s))"

lemma check_determinism_exact:
  assumes "check_determinism v seed = Inr u"
  shows "\<exists>dets. v = JList dets \<and> list_all2 (exact_replay seed) SOURCE_ACCEPTANCE_CASE_NAMES dets"
proof -
  from assms obtain vs where vs: "v = JList vs" "length vs = length SOURCE_ACCEPTANCE_CASE_NAMES"
    "\<forall>x \<in> set (zip vs SOURCE_ACCEPTANCE_CASE_NAMES). check_determinism_record seed x = Inr ()"
    by (auto simp: check_determinism_def result_simps split: json.splits)
  then have "list_all2 (exact_replay seed) SOURCE_ACCEPTANCE_CASE_NAMES vs"
    unfolding list_all2_conv_all_nth
    by (auto simp: set_zip intro!: check_determinism_record_exact)
  with vs(1) show ?thesis by blast
qed

lemma check_evidence_facts:
  assumes "check_evidence env v seed = Inr u"
  shows "\<exists>dets. json_at v [''determinism''] = Some (JList dets) \<and>
      list_all2 (exact_replay seed) SOURCE_ACCEPTANCE_CASE_NAMES dets"
    and "name \<in> set SOURCE_ACCEPTANCE_METRICS \<Longrightarrow> \<exists>m. json_at v [''aggregate'', name] = Some m \<and> ordered_metric env m"
    and "gate \<in> set SOURCE_ACCEPTANCE_PASSED_GATES \<Longrightarrow> json_at v [''gates'', gate] = Some (JBool True)"
proof -
  from assms obtain doc det agg gates where doc: "v = JObj doc" and
    m: "map_of doc (pys ''determinism'') = Some det" "check_determinism det seed = Inr ()"
       "map_of doc (pys ''aggregate'') = Some agg" "check_aggregate env agg = Inr ()"
       "map_of doc (pys ''gates'') = Some gates" "check_gates gates = Inr ()"
    unfolding check_evidence_def by (auto simp: result_simps accessor_simps require_object_Inr_iff)
  show "\<exists>dets. json_at v [''determinism''] = Some (JList dets) \<and>
      list_all2 (exact_replay seed) SOURCE_ACCEPTANCE_CASE_NAMES dets"
    using m(1) check_determinism_exact [OF m(2)] by (auto simp: doc)
  show "\<exists>m. json_at v [''aggregate'', name] = Some m \<and> ordered_metric env m" if "name \<in> set SOURCE_ACCEPTANCE_METRICS"
    using m(3,4) that check_metric_ordered unfolding check_aggregate_def doc
    by (fastforce simp: result_simps accessor_simps require_object_Inr_iff)
  show "json_at v [''gates'', gate] = Some (JBool True)" if "gate \<in> set SOURCE_ACCEPTANCE_PASSED_GATES"
    using m(5,6) that unfolding check_gates_def check_gate_def doc
    by (fastforce simp: result_simps accessor_simps require_object_Inr_iff)
qed

lemma validated_source_receipt:
  assumes "validate_source_model_receipt env p sm = Inr u"
  shows "\<exists>v. load_json_file env p = Inr v \<and> source_receipt_facts env sm v"
proof -
  from assms obtain doc model source contract seed evidence where
    load: "load_json_file env p = Inr (JObj doc)" and
    m: "map_of doc (pys ''source_model'') = Some model" "check_source_model model sm = Inr ()"
       "map_of doc (pys ''oracle_source'') = Some source" "check_oracle_source source = Inr ()"
       "map_of doc (pys ''acceptance_contract'') = Some contract" "check_acceptance_contract contract = Inr seed"
       "map_of doc (pys ''evidence'') = Some evidence" "check_evidence env evidence seed = Inr ()" and
    paths: "reject_absolute_paths (JObj doc) = Inr u"
    unfolding validate_source_model_receipt_def
    by (auto simp: result_simps accessor_simps require_object_Inr_iff)
  from m(6) have "json_at contract [''local_ar_seed''] = Some (JInt seed)"
    unfolding check_acceptance_contract_def by (auto simp: result_simps accessor_simps require_object_Inr_iff)
  with m check_source_model_about [OF m(2)] check_oracle_source_authenticated [OF m(4)] check_evidence_facts [OF m(8)]
    paths
  have "source_receipt_facts env sm (JObj doc)"
    unfolding source_receipt_facts_def reject_absolute_paths_Inr_iff by simp
  with load show ?thesis by blast
qed

subsection \<open>Properties\<close>

text \<open>A document whose members are listed in the order of the required keys.\<close>

lemma require_object_same: "map fst doc = map pys keys \<Longrightarrow> require_object (JObj doc) keys = Inr doc"
  by (metis image_set list.set_map require_object_Inr_iff)

abbreviation (input) jstr :: "string \<Rightarrow> json" where "jstr s \<equiv> JStr (pys s)"

definition zeros :: "nat \<Rightarrow> pystr" where "zeros n = replicate n 48"

definition demo_source_spec :: source_model_spec where
  "demo_source_spec =
     \<lparr>sm_model_id = pys ''m'', sm_version = pys ''v'', sm_revision = zeros 40, sm_source_sha256 = zeros 64\<rparr>"

definition demo_source_model :: json_object where
  "demo_source_model =
     [(pys ''model_id'', jstr ''m''), (pys ''version'', jstr ''v''), (pys ''revision'', JStr (zeros 40)),
      (pys ''file_name'', jstr ''magpie_tts_multilingual_357m.nemo''), (pys ''sha256'', JStr (zeros 64)),
      (pys ''size_bytes'', JInt 1),
      (pys ''license'', JObj (map (\<lambda>(k, s). (pys k, jstr s)) EXPECTED_LICENSE))]"

definition demo_oracle_source :: json_object where
  "demo_oracle_source =
     [(pys ''repository'', jstr ''https://github.com/NVIDIA/NeMo.git''), (pys ''base_revision'', JStr (zeros 40)),
      (pys ''optimized_source_bundle_sha256'',
         JStr (source_bundle_sha256 (map (\<lambda>_. zeros 64) ORACLE_SOURCE_PATHS))),
      (pys ''files'', JObj (map (\<lambda>p. (pys p, JStr (zeros 64))) ORACLE_SOURCE_PATHS))]"

definition demo_contract_section :: json_object where
  "demo_contract_section =
     [(pys ''speaker_name'', jstr ''Sofia''), (pys ''speaker_index'', JInt 4), (pys ''local_ar_seed'', JInt 7),
      (pys ''sample_rate_hz'', JInt 22050), (pys ''samples_per_codec_frame'', JInt 1024),
      (pys ''first_codec_frames'', JInt 4), (pys ''steady_codec_frames'', JInt 8),
      (pys ''tail_codec_frames_min'', JInt 1), (pys ''tail_codec_frames_max'', JInt 8)]"

definition demo_probe :: json_object where
  "demo_probe =
     [(pys ''raw_receipt_sha256'', JStr (zeros 64)), (pys ''raw_receipt_size_bytes'', JInt 1),
      (pys ''probe_sha256'', JStr (zeros 64)), (pys ''helper_sha256'', JStr (zeros 64)),
      (pys ''case_definition_sha256'', JStr (zeros 64))]"

definition demo_environment :: json_object where
  "demo_environment =
     [(pys ''torch_version'', jstr ''2''), (pys ''torch_cuda_build'', jstr ''13''), (pys ''cudnn_version'', JInt 9),
      (pys ''cuda_driver_version'', jstr ''580''), (pys ''gpu_name'', jstr ''Thor''),
      (pys ''gpu_compute_capability'', JList [JInt 11, JInt 0])]"

definition demo_determinism :: "string \<Rightarrow> json_object" where
  "demo_determinism name =
     [(pys ''case_name'', jstr name), (pys ''local_ar_seed'', JInt 7), (pys ''first_codes_sha256'', JStr (zeros 64)),
      (pys ''replay_codes_sha256'', JStr (zeros 64)), (pys ''codes_exact'', JBool True),
      (pys ''first_pcm_f32le_sha256'', JStr (zeros 64)), (pys ''replay_pcm_f32le_sha256'', JStr (zeros 64)),
      (pys ''pcm_exact'', JBool True), (pys ''first_codec_frame_count'', JInt 4),
      (pys ''replay_codec_frame_count'', JInt 4), (pys ''codec_frame_count_exact'', JBool True),
      (pys ''passed'', JBool True)]"

definition demo_metric :: json_object where
  "demo_metric =
     [(pys ''median'', JFloat (Fin 2)), (pys ''p95'', JFloat (Fin 3)), (pys ''minimum'', JFloat (Fin 1)),
      (pys ''maximum'', JFloat (Fin 3))]"

definition demo_aggregate :: json_object where
  "demo_aggregate = (pys ''case_count'', JInt 4) # map (\<lambda>m. (pys m, JObj demo_metric)) SOURCE_ACCEPTANCE_METRICS @
     [(pys ''maximum_peak_cuda_allocated_bytes'', JInt 1), (pys ''maximum_peak_cuda_reserved_bytes'', JInt 1)]"

definition demo_gates :: json_object where
  "demo_gates = map (\<lambda>g. (pys g, JBool True)) (SOURCE_ACCEPTANCE_PASSED_GATES @ [''parakeet_gate_pending'']) @
     [(pys ''failures'', JList [])]"

definition demo_evidence :: json_object where
  "demo_evidence =
     [(pys ''case_names'', JList (map (JStr \<circ> pys) SOURCE_ACCEPTANCE_CASE_NAMES)),
      (pys ''determinism'', JList (map (JObj \<circ> demo_determinism) SOURCE_ACCEPTANCE_CASE_NAMES)),
      (pys ''aggregate'', JObj demo_aggregate), (pys ''gates'', JObj demo_gates)]"

definition demo_source_receipt :: json_object where
  "demo_source_receipt =
     [(pys ''schema_version'', JInt 2), (pys ''artifact_role'', jstr ''source_model_acceptance''),
      (pys ''status'', jstr ''accepted''), (pys ''created_at_utc'', jstr ''Z''),
      (pys ''source_model'', JObj demo_source_model), (pys ''oracle_source'', JObj demo_oracle_source),
      (pys ''acceptance_contract'', JObj demo_contract_section), (pys ''probe'', JObj demo_probe),
      (pys ''runtime_environment'', JObj demo_environment), (pys ''evidence'', JObj demo_evidence)]"

definition demo_source_env :: pkg_env where
  "demo_source_env =
     \<lparr>pk_loads = (\<lambda>_. Some (JObj demo_source_receipt)), pk_float_of_int = (\<lambda>_. None),
      pk_fromisoformat = (\<lambda>_. Some (Some 0))\<rparr>"

lemma zeros_patterns [simp]: "sha256_pattern (zeros 64)" "git_sha1_pattern (zeros 40)" "zeros 40 \<noteq> []" "zeros 64 \<noteq> []"
  by (simp_all add: sha256_pattern_def git_sha1_pattern_def lower_hex_pattern_def zeros_def is_hex_char_def list_all_iff)

lemma sha256_hex_nonempty [simp]: "sha256_hex m \<noteq> []"
  using sha256_hexdigest_shape [of m] by (auto simp: is_lower_hex_def)

lemma sha256_hex_pattern [simp]: "sha256_pattern (sha256_hex m)"
  using sha256_hexdigest_shape [of m] by (simp add: sha256_pattern_def lower_hex_pattern_def is_lower_hex_def)

lemmas check_run_simps = require_object_same field_def require_string_def require_identifier_def require_sha256_def
  require_git_sha1_def pkg_require_int_def all_steps_def expect_def

lemma license_digests [simp]:
  "sha256_pattern (pys NVIDIA_OPEN_MODEL_LICENSE_SHA256)" "sha256_pattern (pys NVIDIA_MODEL_NOTICE_SHA256)"
  by (simp_all add: sha256_pattern_def lower_hex_pattern_def pys_def is_hex_char_def
      NVIDIA_OPEN_MODEL_LICENSE_SHA256_def NVIDIA_MODEL_NOTICE_SHA256_def)

lemma license_texts [simp]:
  "NVIDIA_OPEN_MODEL_LICENSE_NAME \<noteq> []" "NVIDIA_OPEN_MODEL_LICENSE_VERSION \<noteq> []"
  "NVIDIA_OPEN_MODEL_LICENSE_FILE_NAME \<noteq> []" "NVIDIA_OPEN_MODEL_LICENSE_SHA256 \<noteq> []"
  "NVIDIA_MODEL_NOTICE_FILE_NAME \<noteq> []" "NVIDIA_MODEL_NOTICE_SHA256 \<noteq> []"
  by (simp_all add: NVIDIA_OPEN_MODEL_LICENSE_NAME_def NVIDIA_OPEN_MODEL_LICENSE_VERSION_def
      NVIDIA_OPEN_MODEL_LICENSE_FILE_NAME_def NVIDIA_OPEN_MODEL_LICENSE_SHA256_def
      NVIDIA_MODEL_NOTICE_FILE_NAME_def NVIDIA_MODEL_NOTICE_SHA256_def)

lemma demo_source_model_checked: "check_source_model (JObj demo_source_model) demo_source_spec = Inr ()"
  by (simp add: check_source_model_def demo_source_model_def demo_source_spec_def check_run_simps
      check_license_field_def EXPECTED_LICENSE_def suffix_def)

lemma demo_oracle_source_checked: "check_oracle_source (JObj demo_oracle_source) = Inr ()"
  by (simp add: check_oracle_source_def demo_oracle_source_def check_run_simps ORACLE_SOURCE_PATHS_def
      source_bundle_sha256_def)

lemma demo_contract_checked: "check_acceptance_contract (JObj demo_contract_section) = Inr 7"
  by (simp add: check_acceptance_contract_def demo_contract_section_def check_run_simps check_contract_field_def
      EXPECTED_CONTRACT_def num_case_def num_eq_def)

lemma demo_probe_checked: "check_probe (JObj demo_probe) = Inr ()"
  by (simp add: check_probe_def demo_probe_def check_run_simps MAX_MANIFEST_BYTES_def)

lemma demo_environment_checked: "check_runtime_environment (JObj demo_environment) = Inr ()"
  by (simp add: check_runtime_environment_def demo_environment_def check_run_simps num_case_def num_eq_def)

lemma demo_determinism_checked:
  "check_determinism (JList (map (JObj \<circ> demo_determinism) SOURCE_ACCEPTANCE_CASE_NAMES)) 7 = Inr ()"
  by (simp add: check_determinism_def SOURCE_ACCEPTANCE_CASE_NAMES_def check_run_simps check_determinism_record_def
      demo_determinism_def DETERMINISM_FIELDS_def exact_flag_def same_value_def)

lemma demo_metric_checked:
  "map_of doc (pys name) = Some (JObj demo_metric) \<Longrightarrow> check_metric env doc name = Inr ()"
  by (simp add: check_metric_def check_run_simps demo_metric_def require_float_def)

lemma demo_aggregate_checked: "check_aggregate env (JObj demo_aggregate) = Inr ()"
  by (simp add: check_aggregate_def demo_aggregate_def check_run_simps demo_metric_checked
      SOURCE_ACCEPTANCE_AGGREGATE_FIELDS_def SOURCE_ACCEPTANCE_METRICS_def)

lemma demo_gates_checked: "check_gates (JObj demo_gates) = Inr ()"
  by (simp add: check_gates_def check_gate_def demo_gates_def check_run_simps SOURCE_ACCEPTANCE_PASSED_GATES_def)

lemma demo_evidence_checked: "check_evidence env (JObj demo_evidence) 7 = Inr ()"
  by (simp add: check_evidence_def demo_evidence_def require_object_same field_def demo_determinism_checked
      demo_aggregate_checked demo_gates_checked list_all2_map1 list_all2_map2 list_all2_same)

lemma demo_strings_relative:
  "\<forall>s \<in> json_strings (JObj demo_source_receipt). \<not> absolute_path s"
proof -
  have zeros_64: "\<not> absolute_path (zeros 64)" "\<not> absolute_path (zeros 40)"
    by (simp_all add: absolute_path_def zeros_def is_letter_def pys_def numeral_eq_Suc)
  have "take 1 (sha256_hex m) \<noteq> [47]" for m
    using sha256_hexdigest_shape [of m] by (cases "sha256_hex m") (auto simp: is_lower_hex_def is_hex_char_def)
  moreover have "take 5 (sha256_hex m) \<noteq> pys ''file:''" for m
  proof
    assume t: "take 5 (sha256_hex m) = pys ''file:''"
    have "set (take 5 (sha256_hex m)) \<subseteq> set (sha256_hex m)" by (rule set_take_subset)
    with t sha256_hexdigest_shape [of m] show False
      by (auto simp: is_lower_hex_def is_hex_char_def pys_def list_all_iff)
  qed
  moreover have "sha256_hex m ! 1 \<noteq> 58" for m
  proof -
    have "sha256_hex m ! 1 \<in> set (sha256_hex m)"
      using sha256_hexdigest_shape [of m] by (intro nth_mem) (simp add: is_lower_hex_def)
    moreover have "\<forall>c \<in> set (sha256_hex m). c \<noteq> 58"
      using sha256_hexdigest_shape [of m] by (auto simp: is_lower_hex_def is_hex_char_def list_all_iff)
    ultimately show ?thesis by blast
  qed
  ultimately have digest: "\<not> absolute_path (sha256_hex m)" for m by (auto simp: absolute_path_def)
  show ?thesis
    by (simp add: demo_source_receipt_def demo_source_model_def demo_oracle_source_def demo_contract_section_def
        demo_probe_def demo_environment_def demo_evidence_def demo_aggregate_def demo_metric_def demo_gates_def
        demo_determinism_def zeros_64 digest source_bundle_sha256_def)
      (simp add: absolute_path_def pys_def is_letter_def EXPECTED_LICENSE_def
      NVIDIA_OPEN_MODEL_LICENSE_NAME_def NVIDIA_OPEN_MODEL_LICENSE_VERSION_def
      NVIDIA_OPEN_MODEL_LICENSE_FILE_NAME_def NVIDIA_OPEN_MODEL_LICENSE_SHA256_def
      NVIDIA_MODEL_NOTICE_FILE_NAME_def NVIDIA_MODEL_NOTICE_SHA256_def
      SOURCE_ACCEPTANCE_CASE_NAMES_def SOURCE_ACCEPTANCE_METRICS_def SOURCE_ACCEPTANCE_PASSED_GATES_def)
qed

lemma demo_receipt_payload: "parse_json_payload demo_source_env [1] = Inr (JObj demo_source_receipt)"
  by (simp add: parse_json_payload_accepted demo_source_env_def demo_source_receipt_def demo_source_model_def
      demo_oracle_source_def demo_contract_section_def demo_probe_def demo_environment_def demo_evidence_def
      demo_aggregate_def demo_metric_def demo_gates_def demo_determinism_def EXPECTED_LICENSE_def
      ORACLE_SOURCE_PATHS_def SOURCE_ACCEPTANCE_CASE_NAMES_def SOURCE_ACCEPTANCE_METRICS_def
      SOURCE_ACCEPTANCE_PASSED_GATES_def)

lemma demo_receipt_accepted:
  "validate_source_model_receipt demo_source_env (steady_view [1]) demo_source_spec = Inr ()"
proof -
  have "load_json_file demo_source_env (steady_view [1]) = Inr (JObj demo_source_receipt)"
    by (rule load_steady_view) (simp_all add: demo_receipt_payload MAX_MANIFEST_BYTES_def)
  moreover have "reject_absolute_paths (JObj demo_source_receipt) = Inr ()"
    using demo_strings_relative by (simp only: reject_absolute_paths_Inr_iff simp_thms)
  moreover have "require_timestamp demo_source_env (jstr ''Z'') = Inr (pys ''Z'')"
    by (simp add: require_timestamp_Inr_iff demo_source_env_def) (simp add: pys_def)
  moreover have "require_identifier (jstr ''source_model_acceptance'') = Inr (pys ''source_model_acceptance'')"
    "require_identifier (jstr ''accepted'') = Inr (pys ''accepted'')"
    by (simp_all add: require_identifier_Inr_iff identifier_pattern_def pys_def is_alnum_def)
  ultimately show ?thesis
    unfolding validate_source_model_receipt_def
    by (simp del: reject_absolute_paths.simps add: demo_source_receipt_def require_object_same field_def expect_def pkg_require_int_def
        demo_source_model_checked demo_oracle_source_checked demo_contract_checked demo_probe_checked
        demo_environment_checked demo_evidence_checked)
qed

text \<open>C30: an accepted source-model receipt is a document about the model of the specification, whose ordered
  source map has the digest it declares, in which every acceptance case replays exactly with the seed of
  the contract, every metric is ordered, every gate passed, and no string is an absolute path.\<close>

theorem accepted_source_receipt:
  assumes "validate_source_model_receipt env p sm = Inr u"
  shows "\<exists>v. load_json_file env p = Inr v \<and> source_receipt_facts env sm v"
  using assms by (rule validated_source_receipt)

theorem accepted_source_receipt_witness:
  "\<exists>v. load_json_file demo_source_env (steady_view [1]) = Inr v \<and>
     source_receipt_facts demo_source_env demo_source_spec v"
  using accepted_source_receipt [OF demo_receipt_accepted] .

end
