(* ===== verification/HostRuntime.thy ===== *)
theory HostRuntime
  imports ManifestDerivation RuntimeIdentity
begin

text \<open>
  The host the bundle is packaged on, in \<open>tools/bundle/package_runtime_bundle.py\<close>: the dependency
  contract of the plugin (\<open>parse_plugin_dynamic_section\<close>), its registration (\<open>load_and_register_plugin\<close>),
  and the runtime fingerprint (\<open>parse_os_release\<close> to \<open>collect_runtime_fingerprint\<close>).

  What readelf prints, the structures and status codes the plugin returns and the answers of the CUDA
  driver and of NVML are inputs. The two regular expressions of the source are written out.
\<close>

subsection \<open>The dynamic section of the plugin\<close>

definition EXPECTED_PLUGIN_SONAME :: string where
  "EXPECTED_PLUGIN_SONAME = ''libmagpie_tts_rt_plugins.so.0''"

definition EXPECTED_PLUGIN_NEEDED :: "string list" where
  "EXPECTED_PLUGIN_NEEDED =
     [''libcublas.so.13'', ''libcuda.so.1'', ''libcudart.so.13'', ''libnvinfer.so.10'', ''libstdc++.so.6'',
      ''libgcc_s.so.1'', ''libc.so.6'', ''ld-linux-aarch64.so.1'']"

definition FORBIDDEN_PLUGIN_DYNAMIC_TAGS :: "string list" where
  "FORBIDDEN_PLUGIN_DYNAMIC_TAGS = [''RPATH'', ''RUNPATH'', ''AUDIT'', ''DEPAUDIT'', ''FILTER'', ''AUXILIARY'']"

text \<open>\<open>re.search(r"\(([A-Z0-9_]+)\).*?\[([^\]]*)\]", line)\<close>: the pattern at the start of a text, and the
  first position where it matches. The lazy \<open>.*?\<close> ends at the first bracket, since every later bracket
  is closed no earlier.\<close>

definition is_tag_char :: "nat \<Rightarrow> bool" where
  "is_tag_char c \<longleftrightarrow> 65 \<le> c \<and> c \<le> 90 \<or> 48 \<le> c \<and> c \<le> 57 \<or> c = 95"

definition bracketed :: "pystr \<Rightarrow> pystr option" where
  "bracketed s =
     (let t = dropWhile (\<lambda>c. c \<noteq> 91) s
      in if t = [] \<or> 93 \<notin> set (tl t) then None else Some (takeWhile (\<lambda>c. c \<noteq> 93) (tl t)))"

definition entry_here :: "pystr \<Rightarrow> (pystr \<times> pystr) option" where
  "entry_here s =
     (let tag = takeWhile is_tag_char (tl s); rest = dropWhile is_tag_char (tl s)
      in if take 1 s \<noteq> [40] \<or> tag = [] \<or> take 1 rest \<noteq> [41] then None
         else map_option (\<lambda>v. (tag, v)) (bracketed (tl rest)))"

fun dynamic_entry :: "pystr \<Rightarrow> (pystr \<times> pystr) option" where
  "dynamic_entry [] = None"
| "dynamic_entry (c # cs) = (case entry_here (c # cs) of Some e \<Rightarrow> Some e | None \<Rightarrow> dynamic_entry cs)"

record dynamic_section =
  dn_needed :: "pystr list"
  dn_sonames :: "pystr list"
  dn_forbidden :: "pystr set"

definition section_line :: "pystr \<Rightarrow> dynamic_section \<Rightarrow> dynamic_section" where
  "section_line line d =
     (case dynamic_entry line of
        None \<Rightarrow> d
      | Some (tag, v) \<Rightarrow>
          if tag = pys ''NEEDED'' then d\<lparr>dn_needed := dn_needed d @ [v]\<rparr>
          else if tag = pys ''SONAME'' then d\<lparr>dn_sonames := dn_sonames d @ [v]\<rparr>
          else if tag \<in> set (map pys FORBIDDEN_PLUGIN_DYNAMIC_TAGS)
            then d\<lparr>dn_forbidden := insert tag (dn_forbidden d)\<rparr>
          else d)"

definition read_dynamic_section :: "pystr \<Rightarrow> dynamic_section" where
  "read_dynamic_section output =
     fold section_line (py_splitlines output) \<lparr>dn_needed = [], dn_sonames = [], dn_forbidden = {}\<rparr>"

record plugin_dynamic_contract =
  dc_soname :: pystr
  dc_needed :: "pystr set"

definition parse_plugin_dynamic_section :: "pystr \<Rightarrow> plugin_dynamic_contract result" where
  "parse_plugin_dynamic_section output =
     (let d = read_dynamic_section output in
     bindE (guardE (dn_forbidden d \<noteq> {})
       (pkg_error ''plugin dynamic section contains forbidden tags: '')) (\<lambda>_.
     bindE (guardE (dn_sonames d \<noteq> [pys EXPECTED_PLUGIN_SONAME])
       (pkg_error ''plugin SONAME must be exactly '')) (\<lambda>_.
     bindE (guardE (\<not> distinct (dn_needed d))
       (pkg_error ''plugin dynamic section contains duplicate NEEDED entries'')) (\<lambda>_.
     bindE (guardE (set (dn_needed d) \<noteq> pys ` set EXPECTED_PLUGIN_NEEDED)
       (pkg_error ''plugin dependency closure differs from the fixed allowlist: missing=, extra='')) (\<lambda>_.
     Inr \<lparr>dc_soname = dn_sonames d ! 0, dc_needed = set (dn_needed d)\<rparr>)))))"

text \<open>\<open>None\<close>: there is no readelf; otherwise its exit code and what it printed.\<close>

definition inspect_plugin_dynamic_contract :: "(int \<times> pystr) option \<Rightarrow> plugin_dynamic_contract result" where
  "inspect_plugin_dynamic_contract readelf =
     (case readelf of
        None \<Rightarrow> Inl (pkg_error ''readelf is required to authenticate the plugin dependency contract'')
      | Some (returncode, output) \<Rightarrow>
          bindE (guardE (returncode \<noteq> 0) (pkg_error ''readelf failed while inspecting plugin dynamic section: ''))
            (\<lambda>_. parse_plugin_dynamic_section output))"

subsection \<open>Registering the plugin\<close>

definition PLUGIN_ABI_VERSION :: int where "PLUGIN_ABI_VERSION = 1"
definition PLUGIN_CREATOR_COUNT :: int where "PLUGIN_CREATOR_COUNT = 5"
definition PLUGIN_STATUS_OK :: int where "PLUGIN_STATUS_OK = 0"
definition PLUGIN_STATUS_ALREADY_REGISTERED :: int where "PLUGIN_STATUS_ALREADY_REGISTERED = 1"

definition EXPECTED_PLUGIN_CREATORS :: "(string \<times> string \<times> string) list" where
  "EXPECTED_PLUGIN_CREATORS =
     [(''MagpieLocalARSampling'', ''1'', ''magpie_tts_rt''), (''MagpieLocalAREos'', ''1'', ''magpie_tts_rt''),
      (''MagpieLayerNorm'', ''1'', ''magpie_tts_rt''), (''MagpieGeluTanh'', ''1'', ''magpie_tts_rt''),
      (''MagpieSoftmax'', ''1'', ''magpie_tts_rt'')]"

text \<open>The structures the plugin fills in, with the sizes C gives them on a 64-bit machine. A null
  \<open>register_plugins\<close> is \<open>None\<close>, otherwise it is the status it returns.\<close>

record plugin_creator =
  pc_struct_size :: int
  pc_abi_version :: int
  pc_name :: "byte list"
  pc_version :: "byte list"
  pc_plugin_namespace :: "byte list"

record plugin_api =
  pa_struct_size :: int
  pa_abi_version :: int
  pa_creator_count :: int
  pa_reserved_0 :: int
  pa_creators :: "plugin_creator list"
  pa_register_plugins :: "int option"
  pa_reserved :: "int list"

definition SIZEOF_PLUGIN_CREATOR :: int where "SIZEOF_PLUGIN_CREATOR = 152"
definition SIZEOF_PLUGIN_API :: int where "SIZEOF_PLUGIN_API = 816"

definition creator_record :: "plugin_creator \<Rightarrow> (pystr \<times> pystr \<times> pystr) result" where
  "creator_record c =
     bindE (guardE (pc_struct_size c \<noteq> SIZEOF_PLUGIN_CREATOR) (pkg_error ''plugin creator  has a wrong struct_size'')) (\<lambda>_.
     bindE (guardE (pc_abi_version c \<noteq> PLUGIN_ABI_VERSION) (pkg_error ''plugin creator  has a wrong ABI version'')) (\<lambda>_.
     case (ascii_decode (c_string (pc_name c)), ascii_decode (c_string (pc_version c)),
           ascii_decode (c_string (pc_plugin_namespace c))) of
       (Some name, Some version, Some namespace) \<Rightarrow> Inr (name, version, namespace)
     | _ \<Rightarrow> Inl (pkg_error ''plugin creator  identity is not ASCII'')))"

text \<open>The answers of loading the library: \<open>None\<close> when it cannot be loaded; its \<open>get_api\<close> entry point may be
  missing, and otherwise returns a status and the filled structure.\<close>

type_synonym plugin_library = "(int \<times> plugin_api) option option"

definition load_and_register_plugin ::
  "path_view \<Rightarrow> (int \<times> pystr) option \<Rightarrow> plugin_library \<Rightarrow> plugin_identity result"
where
  "load_and_register_plugin p readelf library =
     bindE (require_regular_non_symlink p) (\<lambda>_.
     bindE (inspect_plugin_dynamic_contract readelf) (\<lambda>_.
     case library of
       None \<Rightarrow> Inl load_error
     | Some None \<Rightarrow> Inl (Exn PyAttributeError ''undefined symbol: mtt_plugin_get_api_v1'')
     | Some (Some (status, api)) \<Rightarrow>
     bindE (guardE (status \<noteq> PLUGIN_STATUS_OK) (pkg_error ''plugin API query failed with status '')) (\<lambda>_.
     bindE (guardE (pa_struct_size api \<noteq> SIZEOF_PLUGIN_API)
       (pkg_error ''plugin returned an unexpected API structure size'')) (\<lambda>_.
     bindE (guardE (pa_abi_version api \<noteq> PLUGIN_ABI_VERSION)
       (pkg_error ''plugin returned an unexpected ABI version'')) (\<lambda>_.
     bindE (guardE (pa_creator_count api \<noteq> PLUGIN_CREATOR_COUNT)
       (pkg_error ''plugin returned an unexpected creator count'')) (\<lambda>_.
     bindE (guardE (pa_reserved_0 api \<noteq> 0 \<or> list_ex (\<lambda>n. n \<noteq> 0) (pa_reserved api))
       (pkg_error ''plugin API reserved fields are nonzero'')) (\<lambda>_.
     bindE (mapE creator_record (take (nat (pa_creator_count api)) (pa_creators api))) (\<lambda>creators.
     bindE (guardE (creators \<noteq> map (\<lambda>(n, v, s). (pys n, pys v, pys s)) EXPECTED_PLUGIN_CREATORS)
       (pkg_error ''plugin creator identity mismatch: expected '')) (\<lambda>_.
     case pa_register_plugins api of
       None \<Rightarrow> Inl (pkg_error ''plugin register function is null'')
     | Some registration_status \<Rightarrow>
     bindE (guardE (registration_status \<noteq> PLUGIN_STATUS_OK \<and> registration_status \<noteq> PLUGIN_STATUS_ALREADY_REGISTERED)
       (pkg_error ''plugin registration failed with status '')) (\<lambda>_.
     Inr \<lparr>pi_abi_version = pa_abi_version api, pi_creators = creators\<rparr>))))))))))"

subsection \<open>The operating system\<close>

definition quoted_value :: "pystr \<Rightarrow> pystr result" where
  "quoted_value raw_value =
     (if take 1 raw_value = [34]
      then if last raw_value \<noteq> 34 \<or> length raw_value < 2
           then Inl (pkg_error '': malformed quoted os-release value'')
           else Inr (butlast (tl raw_value))
      else Inr raw_value)"

fun os_release_fields :: "(pystr \<times> pystr) list \<Rightarrow> pystr list \<Rightarrow> (pystr \<times> pystr) list result" where
  "os_release_fields entries [] = Inr entries"
| "os_release_fields entries (raw_line # lines) =
     (let line = py_strip raw_line
      in if line = [] \<or> take 1 line = [35] then os_release_fields entries lines
         else case split_once 61 line of
           None \<Rightarrow> Inl (pkg_error '': malformed os-release entry'')
         | Some (key, raw_value) \<Rightarrow>
             if key = [] \<or> key \<in> set (map fst entries)
             then Inl (pkg_error '': duplicate or empty os-release key'')
             else bindE (quoted_value raw_value)
               (\<lambda>v. os_release_fields (entries @ [(key, v)]) lines))"

definition parse_os_release :: "path_view \<Rightarrow> (pystr \<times> pystr) result" where
  "parse_os_release p =
     bindE (read_verified_regular_file p (64 * 1024)) (\<lambda>payload.
     case utf8_decode payload of
       None \<Rightarrow> Inl (pkg_error '': os-release is not UTF-8'')
     | Some t \<Rightarrow>
         bindE (os_release_fields [] (py_splitlines t)) (\<lambda>entries.
         bindE (guardE (map_of entries (pys ''ID'') \<noteq> Some (pys ''ubuntu'') \<or>
                        map_of entries (pys ''VERSION_ID'') \<noteq> Some (pys ''24.04''))
           (pkg_error ''P2 v1 packaging requires exact Ubuntu 24.04 runtime identity'')) (\<lambda>_.
         Inr (pys ''linux'', pys ''ubuntu-24.04''))))"

subsection \<open>CUDA and the driver\<close>

definition require_cuda_success :: "int \<Rightarrow> unit result" where
  "require_cuda_success status = guardE (status \<noteq> 0) (pkg_error '' failed with CUDA status '')"

definition version_string :: "int \<Rightarrow> pystr" where
  "version_string v = int_repr (v div 1000) @ [46] @ int_repr (v mod 1000 div 10)"

text \<open>\<open>None\<close>: libcudart cannot be loaded; otherwise the status and the version.\<close>

definition cuda_runtime_version :: "(int \<times> int) option \<Rightarrow> pystr result" where
  "cuda_runtime_version runtime =
     (case runtime of
        None \<Rightarrow> Inl load_error
      | Some (status, version) \<Rightarrow>
          bindE (require_cuda_success status) (\<lambda>_.
          bindE (guardE (version \<le> 0) (pkg_error ''CUDA runtime returned an invalid version'')) (\<lambda>_.
          Inr (version_string version))))"

record device_answers =
  dv_init :: int
  dv_get :: int
  dv_name_status :: int
  dv_name :: "byte list"
  dv_capability_status :: int
  dv_major :: int
  dv_minor :: int

definition cuda_device_identity :: "device_answers option \<Rightarrow> (pystr \<times> pystr) result" where
  "cuda_device_identity driver =
     (case driver of
        None \<Rightarrow> Inl load_error
      | Some d \<Rightarrow>
          bindE (require_cuda_success (dv_init d)) (\<lambda>_.
          bindE (require_cuda_success (dv_get d)) (\<lambda>_.
          bindE (require_cuda_success (dv_name_status d)) (\<lambda>_.
          bindE (require_cuda_success (dv_capability_status d)) (\<lambda>_.
          case utf8_decode (c_string (dv_name d)) of
            None \<Rightarrow> Inl (pkg_error ''CUDA device name is not UTF-8'')
          | Some name \<Rightarrow>
              bindE (guardE (name = []) (pkg_error ''CUDA device name is empty'')) (\<lambda>_.
              Inr (name, int_repr (dv_major d) @ [46] @ int_repr (dv_minor d))))))))"

definition driver_version_answer :: "nvml_answers \<Rightarrow> pystr result" where
  "driver_version_answer a =
     bindE (guardE (nv_driver_status a \<noteq> 0) (pkg_error ''nvmlSystemGetDriverVersion failed with status '')) (\<lambda>_.
     case ascii_decode (c_string (nv_buffer a)) of
       None \<Rightarrow> Inl (pkg_error ''NVIDIA driver version is not ASCII'')
     | Some version \<Rightarrow>
         if driver_version_pattern version then Inr version
         else Inl (pkg_error ''invalid NVIDIA driver version ''))"

definition nvidia_driver_version :: "nvml_answers option \<Rightarrow> pystr result" where
  "nvidia_driver_version nvml =
     (case nvml of
        None \<Rightarrow> Inl load_error
      | Some a \<Rightarrow>
          bindE (guardE (nv_init_status a \<noteq> 0) (pkg_error ''nvmlInit_v2 failed with status '')) (\<lambda>_.
          bindE (driver_version_answer a) (\<lambda>version.
          bindE (guardE (nv_shutdown_status a \<noteq> 0) (pkg_error ''nvmlShutdown failed with status '')) (\<lambda>_.
          Inr version))))"

record host_answers =
  ho_os_release :: path_view
  ho_machine :: pystr
  ho_byteorder :: pystr
  ho_device :: "device_answers option"
  ho_cudart :: "(int \<times> int) option"
  ho_nvml :: "nvml_answers option"

definition collect_runtime_fingerprint ::
  "host_answers \<Rightarrow> pystr \<Rightarrow> int \<Rightarrow> cublas_runtime_identity \<Rightarrow> runtime_fingerprint result"
where
  "collect_runtime_fingerprint h tensorrt_version plugin_abi_version cublas_identity =
     bindE (parse_os_release (ho_os_release h)) (\<lambda>(os_name, os_version).
     bindE (guardE (ho_machine h \<noteq> pys ''aarch64'' \<and> ho_machine h \<noteq> pys ''x86_64'')
       (pkg_error ''unsupported architecture '')) (\<lambda>_.
     bindE (guardE (ho_byteorder h \<noteq> pys ''little'' \<and> ho_byteorder h \<noteq> pys ''big'')
       (pkg_error ''unsupported endianness '')) (\<lambda>_.
     bindE (cuda_device_identity (ho_device h)) (\<lambda>(gpu_name, compute_capability).
     bindE (guardE (gpu_name \<noteq> pys ''NVIDIA Thor'' \<or> compute_capability \<noteq> pys ''11.0'')
       (pkg_error ''P2 accepted bundle requires NVIDIA Thor sm_110, got '')) (\<lambda>_.
     bindE (cuda_runtime_version (ho_cudart h)) (\<lambda>cuda_version.
     bindE (nvidia_driver_version (ho_nvml h)) (\<lambda>driver_version.
     Inr \<lparr>rf_os_name = os_name, rf_os_version = os_version, rf_architecture = ho_machine h,
          rf_endianness = ho_byteorder h, rf_cuda_version = cuda_version, rf_cublas = cublas_identity,
          rf_tensorrt_version = tensorrt_version, rf_driver_version = driver_version,
          rf_gpu_name = gpu_name, rf_gpu_compute_capability = compute_capability,
          rf_plugin_abi_version = plugin_abi_version\<rparr>)))))))"

subsection \<open>The pattern of the dynamic section\<close>

text \<open>A match of the pattern at the start of \<open>s\<close>.\<close>

definition pattern_match :: "pystr \<Rightarrow> pystr \<Rightarrow> pystr \<Rightarrow> pystr \<Rightarrow> bool" where
  "pattern_match s tag mid v \<longleftrightarrow>
     tag \<noteq> [] \<and> (\<forall>c \<in> set tag. is_tag_char c) \<and> 93 \<notin> set v \<and>
     (\<exists>post. s = [40] @ tag @ [41] @ mid @ [91] @ v @ [93] @ post)"

lemma bracketed_Some:
  "bracketed s = Some v \<longleftrightarrow> 93 \<notin> set v \<and> (\<exists>mid post. 91 \<notin> set mid \<and> s = mid @ [91] @ v @ [93] @ post)"
proof
  assume "bracketed s = Some v"
  then have t: "dropWhile (\<lambda>c. c \<noteq> 91) s \<noteq> []" "93 \<in> set (tl (dropWhile (\<lambda>c. c \<noteq> 91) s))"
    "v = takeWhile (\<lambda>c. c \<noteq> 93) (tl (dropWhile (\<lambda>c. c \<noteq> 91) s))"
    by (auto simp: bracketed_def Let_def split: if_splits)
  let ?t = "dropWhile (\<lambda>c. c \<noteq> 91) s"
  have "hd ?t = 91" using t(1) hd_dropWhile by blast
  with t(1) have s: "s = takeWhile (\<lambda>c. c \<noteq> 91) s @ [91] @ tl ?t" by (metis append_Cons append_Nil list.collapse takeWhile_dropWhile_id)
  let ?u = "dropWhile (\<lambda>c. c \<noteq> 93) (tl ?t)"
  from t(2) have "?u \<noteq> []" by auto
  then have "hd ?u = 93" using hd_dropWhile by blast
  with \<open>?u \<noteq> []\<close> have "tl ?t = v @ [93] @ tl ?u"
    unfolding t(3) by (metis append_Cons append_Nil list.collapse takeWhile_dropWhile_id)
  with s have "s = takeWhile (\<lambda>c. c \<noteq> 91) s @ [91] @ v @ [93] @ tl ?u" by metis
  moreover have "91 \<notin> set (takeWhile (\<lambda>c. c \<noteq> 91) s)" "93 \<notin> set v"
    unfolding t(3) by (auto dest: set_takeWhileD)
  ultimately show "93 \<notin> set v \<and> (\<exists>mid post. 91 \<notin> set mid \<and> s = mid @ [91] @ v @ [93] @ post)" by blast
next
  assume "93 \<notin> set v \<and> (\<exists>mid post. 91 \<notin> set mid \<and> s = mid @ [91] @ v @ [93] @ post)"
  then obtain mid post where v: "93 \<notin> set v" and mid: "91 \<notin> set mid" and s: "s = mid @ [91] @ v @ [93] @ post"
    by blast
  from mid have d: "dropWhile (\<lambda>c. c \<noteq> 91) s = [91] @ v @ [93] @ post" unfolding s by (subst dropWhile_append2) auto
  from v have "takeWhile (\<lambda>c. c \<noteq> 93) (v @ 93 # post) = v" by (subst takeWhile_append2) auto
  with d show "bracketed s = Some v" by (simp add: bracketed_def Let_def)
qed

lemma not_tag_char: "\<not> is_tag_char 41"
  by (simp add: is_tag_char_def)

lemma entry_here_Some: "entry_here s = Some (tag, v) \<longleftrightarrow> (\<exists>mid. 91 \<notin> set mid \<and> pattern_match s tag mid v)"
proof
  assume e: "entry_here s = Some (tag, v)"
  let ?rest = "dropWhile is_tag_char (tl s)"
  from e have t: "take 1 s = [40]" "tag = takeWhile is_tag_char (tl s)" "tag \<noteq> []" "take 1 ?rest = [41]"
    "bracketed (tl ?rest) = Some v"
    by (auto simp: entry_here_def Let_def split: if_splits)
  from t(1) obtain u where "s = 40 # u" by (cases s) auto
  moreover from t(4) obtain w where w: "?rest = 41 # w" by (cases ?rest) auto
  ultimately have s: "s = [40] @ tag @ [41] @ w"
    unfolding t(2) using takeWhile_dropWhile_id [of is_tag_char u] by simp
  have "\<forall>c \<in> set tag. is_tag_char c" unfolding t(2) by (auto dest: set_takeWhileD)
  moreover from t(5) w obtain mid post where "93 \<notin> set v" "91 \<notin> set mid" "w = mid @ [91] @ v @ [93] @ post"
    by (auto simp: bracketed_Some)
  ultimately show "\<exists>mid. 91 \<notin> set mid \<and> pattern_match s tag mid v" unfolding pattern_match_def using s t(3) by blast
next
  assume "\<exists>mid. 91 \<notin> set mid \<and> pattern_match s tag mid v"
  then obtain mid post where m: "91 \<notin> set mid" "tag \<noteq> []" "\<forall>c \<in> set tag. is_tag_char c" "93 \<notin> set v"
    "s = [40] @ tag @ [41] @ mid @ [91] @ v @ [93] @ post"
    by (auto simp: pattern_match_def)
  let ?w = "mid @ [91] @ v @ [93] @ post"
  have "takeWhile is_tag_char (tag @ 41 # ?w) = tag" "dropWhile is_tag_char (tag @ 41 # ?w) = 41 # ?w"
    using m(3) not_tag_char by (simp_all add: takeWhile_append2 dropWhile_append2)
  moreover have "bracketed ?w = Some v" using m(1,4) by (auto simp: bracketed_Some)
  ultimately show "entry_here s = Some (tag, v)" using m(2,5) by (simp add: entry_here_def)
qed

lemma pattern_match_lazy: "pattern_match s tag mid v \<Longrightarrow> \<exists>mid' v'. 91 \<notin> set mid' \<and> pattern_match s tag mid' v'"
proof -
  assume "pattern_match s tag mid v"
  then obtain post where m: "tag \<noteq> []" "\<forall>c \<in> set tag. is_tag_char c"
    "s = [40] @ tag @ [41] @ mid @ [91] @ v @ [93] @ post" by (auto simp: pattern_match_def)
  let ?u = "mid @ [91] @ v @ [93] @ post"
  let ?d = "dropWhile (\<lambda>c. c \<noteq> 91) ?u"
  have "93 \<in> set ?d"
    by (cases "91 \<in> set mid") (auto simp: dropWhile_append1 dropWhile_append3 dropWhile_append)
  moreover have "?d \<noteq> []" using \<open>93 \<in> set ?d\<close> by auto
  moreover have "hd ?d = 91" using \<open>?d \<noteq> []\<close> hd_dropWhile by blast
  ultimately have "bracketed ?u \<noteq> None"
    unfolding bracketed_def Let_def by (cases ?d) auto
  then obtain v' where "bracketed ?u = Some v'" by blast
  then obtain mid' post' where "93 \<notin> set v'" "91 \<notin> set mid'" "?u = mid' @ [91] @ v' @ [93] @ post'"
    unfolding bracketed_Some by blast
  with m show ?thesis unfolding pattern_match_def by metis
qed

text \<open>The search finds the first position where the pattern matches, and nothing when it matches nowhere.\<close>

lemma dynamic_entry_Some_iff:
  "dynamic_entry line = Some (tag, v) \<longleftrightarrow>
     (\<exists>pre s mid. line = pre @ s \<and> 91 \<notin> set mid \<and> pattern_match s tag mid v \<and>
        (\<forall>pre' s'. line = pre' @ s' \<longrightarrow> length pre' < length pre \<longrightarrow> (\<nexists>t m w. pattern_match s' t m w)))"
proof (induction line rule: dynamic_entry.induct)
  case 1
  then show ?case by (simp add: pattern_match_def)
next
  case (2 c cs)
  show ?case
  proof (cases "entry_here (c # cs)")
    case None
    then have no: "\<nexists>t m w. pattern_match (c # cs) t m w" using entry_here_Some pattern_match_lazy by fastforce
    have "dynamic_entry (c # cs) = Some (tag, v) \<longleftrightarrow> dynamic_entry cs = Some (tag, v)" using None by simp
    also note 2 [OF None]
    also have "(\<exists>pre s mid. cs = pre @ s \<and> 91 \<notin> set mid \<and> pattern_match s tag mid v \<and>
        (\<forall>pre' s'. cs = pre' @ s' \<longrightarrow> length pre' < length pre \<longrightarrow> (\<nexists>t m w. pattern_match s' t m w))) \<longleftrightarrow>
      (\<exists>pre s mid. c # cs = pre @ s \<and> 91 \<notin> set mid \<and> pattern_match s tag mid v \<and>
        (\<forall>pre' s'. c # cs = pre' @ s' \<longrightarrow> length pre' < length pre \<longrightarrow> (\<nexists>t m w. pattern_match s' t m w)))"
      (is "?l \<longleftrightarrow> ?r")
    proof
      assume ?l
      then obtain pre s mid where "cs = pre @ s" "91 \<notin> set mid" "pattern_match s tag mid v"
        and least: "\<forall>pre' s'. cs = pre' @ s' \<longrightarrow> length pre' < length pre \<longrightarrow> (\<nexists>t m w. pattern_match s' t m w)"
        by blast
      moreover have "\<nexists>t m w. pattern_match s' t m w" if "c # cs = pre' @ s'" "length pre' < length (c # pre)" for pre' s'
        using that no least by (cases pre') auto
      ultimately show ?r by (intro exI [of _ "c # pre"] exI [of _ s] exI [of _ mid]) simp
    next
      assume ?r
      then obtain pre s mid where r: "c # cs = pre @ s" "91 \<notin> set mid" "pattern_match s tag mid v"
        and least: "\<forall>pre' s'. c # cs = pre' @ s' \<longrightarrow> length pre' < length pre \<longrightarrow> (\<nexists>t m w. pattern_match s' t m w)"
        by blast
      from r no obtain pre1 where pre: "pre = c # pre1" "cs = pre1 @ s" by (cases pre) auto
      moreover have "\<nexists>t m w. pattern_match s' t m w" if "cs = pre' @ s'" "length pre' < length pre1" for pre' s'
        using least [rule_format, of "c # pre'" s'] that pre by simp
      ultimately show ?l using r by blast
    qed
    finally show ?thesis .
  next
    case (Some e)
    obtain t w where e: "e = (t, w)" by fastforce
    with Some obtain m where m: "91 \<notin> set m" "pattern_match (c # cs) t m w" using entry_here_Some by blast
    show ?thesis
    proof
      assume "dynamic_entry (c # cs) = Some (tag, v)"
      with Some e have "t = tag" "w = v" by simp_all
      with m show "\<exists>pre s mid. c # cs = pre @ s \<and> 91 \<notin> set mid \<and> pattern_match s tag mid v \<and>
        (\<forall>pre' s'. c # cs = pre' @ s' \<longrightarrow> length pre' < length pre \<longrightarrow> (\<nexists>t m w. pattern_match s' t m w))"
        by (intro exI [of _ "[]"] exI [of _ "c # cs"] exI [of _ m]) simp
    next
      assume "\<exists>pre s mid. c # cs = pre @ s \<and> 91 \<notin> set mid \<and> pattern_match s tag mid v \<and>
        (\<forall>pre' s'. c # cs = pre' @ s' \<longrightarrow> length pre' < length pre \<longrightarrow> (\<nexists>t m w. pattern_match s' t m w))"
      then obtain pre s mid where r: "c # cs = pre @ s" "91 \<notin> set mid" "pattern_match s tag mid v"
        and least: "\<forall>pre' s'. c # cs = pre' @ s' \<longrightarrow> length pre' < length pre \<longrightarrow> (\<nexists>t m w. pattern_match s' t m w)"
        by blast
      from least [rule_format, of "[]" "c # cs"] m have "pre = []" by auto
      with r have "entry_here (c # cs) = Some (tag, v)" using entry_here_Some by auto
      then show "dynamic_entry (c # cs) = Some (tag, v)" by simp
    qed
  qed
qed

subsection \<open>What an accepted plugin guarantees\<close>

definition section_entries :: "pystr \<Rightarrow> (pystr \<times> pystr) list" where
  "section_entries output = List.map_filter dynamic_entry (py_splitlines output)"

definition values_of :: "string \<Rightarrow> (pystr \<times> pystr) list \<Rightarrow> pystr list" where
  "values_of tag entries = map snd (filter (\<lambda>e. fst e = pys tag) entries)"

lemma forbidden_tags: "''NEEDED'' \<notin> set FORBIDDEN_PLUGIN_DYNAMIC_TAGS"
  "''SONAME'' \<notin> set FORBIDDEN_PLUGIN_DYNAMIC_TAGS"
  by (auto simp: FORBIDDEN_PLUGIN_DYNAMIC_TAGS_def)

lemma fold_section_line:
  "dn_needed (fold section_line lines d) = dn_needed d @ values_of ''NEEDED'' (List.map_filter dynamic_entry lines)"
  "dn_sonames (fold section_line lines d) = dn_sonames d @ values_of ''SONAME'' (List.map_filter dynamic_entry lines)"
  "dn_forbidden (fold section_line lines d) = dn_forbidden d \<union>
     fst ` set (List.map_filter dynamic_entry lines) \<inter> set (map pys FORBIDDEN_PLUGIN_DYNAMIC_TAGS)"
  by (induction lines arbitrary: d)
    (auto simp: section_line_def values_of_def map_filter_simps forbidden_tags split: option.splits)

lemma read_dynamic_section_entries:
  "dn_needed (read_dynamic_section output) = values_of ''NEEDED'' (section_entries output)"
  "dn_sonames (read_dynamic_section output) = values_of ''SONAME'' (section_entries output)"
  "dn_forbidden (read_dynamic_section output) =
     fst ` set (section_entries output) \<inter> set (map pys FORBIDDEN_PLUGIN_DYNAMIC_TAGS)"
  by (simp_all add: read_dynamic_section_def section_entries_def fold_section_line)

definition dependencies_closed :: "pystr \<Rightarrow> bool" where
  "dependencies_closed output \<longleftrightarrow>
     (\<forall>e \<in> set (section_entries output). fst e \<notin> set (map pys FORBIDDEN_PLUGIN_DYNAMIC_TAGS)) \<and>
     values_of ''SONAME'' (section_entries output) = [pys EXPECTED_PLUGIN_SONAME] \<and>
     distinct (values_of ''NEEDED'' (section_entries output)) \<and>
     set (values_of ''NEEDED'' (section_entries output)) = pys ` set EXPECTED_PLUGIN_NEEDED"

lemma parse_plugin_dynamic_section_Inr_iff:
  "parse_plugin_dynamic_section output = Inr c \<longleftrightarrow>
     dependencies_closed output \<and>
     c = \<lparr>dc_soname = pys EXPECTED_PLUGIN_SONAME, dc_needed = pys ` set EXPECTED_PLUGIN_NEEDED\<rparr>"
  unfolding parse_plugin_dynamic_section_def Let_def read_dynamic_section_entries dependencies_closed_def
  by (auto simp: result_simps)

lemma inspect_plugin_dynamic_contract_Inr:
  "inspect_plugin_dynamic_contract readelf = Inr c \<Longrightarrow>
   \<exists>output. readelf = Some (0, output) \<and> dependencies_closed output"
  by (auto simp: inspect_plugin_dynamic_contract_def result_simps parse_plugin_dynamic_section_Inr_iff
      split: option.splits)

lemma plugin_registered:
  assumes "load_and_register_plugin p readelf library = Inr identity"
  shows "pi_abi_version identity = PLUGIN_ABI_VERSION"
    and "pi_creators identity = map (\<lambda>(n, v, s). (pys n, pys v, pys s)) EXPECTED_PLUGIN_CREATORS"
    and "\<exists>output. readelf = Some (0, output) \<and> dependencies_closed output"
    and "\<exists>api. library = Some (Some (PLUGIN_STATUS_OK, api)) \<and>
      (pa_register_plugins api = Some PLUGIN_STATUS_OK \<or>
       pa_register_plugins api = Some PLUGIN_STATUS_ALREADY_REGISTERED)"
  using assms inspect_plugin_dynamic_contract_Inr
  unfolding load_and_register_plugin_def
  by (auto simp: result_simps split: option.splits prod.splits)

text \<open>The fingerprint describes one host: Ubuntu 24.04 on a Thor, with the CUDA and driver versions the
  libraries report.\<close>

lemma parse_os_release_Inr: "parse_os_release p = Inr r \<Longrightarrow> r = (pys ''linux'', pys ''ubuntu-24.04'')"
  by (auto simp: parse_os_release_def result_simps split: option.splits)

lemma nvidia_driver_version_Inr:
  "nvidia_driver_version nvml = Inr v \<Longrightarrow> driver_version_pattern v \<and> cuda_nvidia_driver_version nvml = Inr v"
  by (auto simp: nvidia_driver_version_def cuda_nvidia_driver_version_def driver_version_answer_def
      nvml_driver_query_def require_driver_version_def result_simps split: option.splits if_splits)

lemma fingerprint_facts:
  assumes "collect_runtime_fingerprint h trt abi cublas = Inr r"
  shows "rf_os_name r = pys ''linux''" and "rf_os_version r = pys ''ubuntu-24.04''"
    and "rf_gpu_name r = pys ''NVIDIA Thor''" and "rf_gpu_compute_capability r = pys ''11.0''"
    and "rf_cublas r = cublas" and "rf_tensorrt_version r = trt" and "rf_plugin_abi_version r = abi"
    and "cuda_runtime_version (ho_cudart h) = Inr (rf_cuda_version r)"
    and "nvidia_driver_version (ho_nvml h) = Inr (rf_driver_version r)"
    and "cuda_device_identity (ho_device h) = Inr (rf_gpu_name r, rf_gpu_compute_capability r)"
  using assms unfolding collect_runtime_fingerprint_def
  by (auto simp: result_simps dest: parse_os_release_Inr split: prod.splits)

end
