(* ===== verification/BuildReceipt.thy ===== *)
theory BuildReceipt
  imports SourceReceipt HostRuntime TokenizerReceipt
begin

text \<open>
  The plugin build receipt of \<open>tools/bundle/package_runtime_bundle.py\<close>: \<open>validate_plugin_build_receipt\<close>, one
  definition for each section, and \<open>validate_plugin_build_source_tree\<close>, which compares the plugin's sources
  on disk with the receipt.

  \<open>validated_build_receipt\<close> collects what the evidence of an accepted receipt says.
\<close>

subsection \<open>The evidence\<close>

definition EXPECTED_PLUGIN_FILENAME :: string where
  "EXPECTED_PLUGIN_FILENAME = ''libmagpie_tts_rt_plugins.so.0.1.0''"

definition EXPECTED_PLUGIN_SOURCE_PATHS :: "string list" where
  "EXPECTED_PLUGIN_SOURCE_PATHS =
     [''CMakeLists.txt'', ''cmake/magpie_tts_rt_plugins.map'', ''include/magpie_tts_rt/magpie_tts_rt_plugin.h'',
      ''plugins/local_ar_plugins.cu'', ''plugins/local_ar_plugins.hpp'']"

record plugin_source_evidence =
  pe_path :: pystr
  pe_sha256 :: pystr
  pe_size_bytes :: int

record plugin_build_evidence =
  be_receipt_sha256 :: pystr
  be_receipt_size_bytes :: int
  be_plugin_sha256 :: pystr
  be_plugin_size_bytes :: int
  be_sources :: "plugin_source_evidence list"
  be_cublas_identity :: cublas_runtime_identity

text \<open>\<open>except RuntimeError as error: raise PackageError(str(error)) from error\<close>\<close>

definition is_runtime_error :: "exn \<Rightarrow> bool" where
  "is_runtime_error e \<longleftrightarrow> exn_class e \<in> 
     {PyRuntimeError, CublasIdentityError, PackageError, SourceAcceptanceError, CorpusSourceError}"

definition runtime_as_package :: "'a result \<Rightarrow> 'a result" where
  "runtime_as_package r =
     (case r of Inl e \<Rightarrow> if is_runtime_error e then Inl (pkg_error (exn_message e)) else Inl e | Inr x \<Rightarrow> Inr x)"

lemma runtime_as_package_Inr_iff [result_simps]: "runtime_as_package r = Inr x \<longleftrightarrow> r = Inr x"
  by (cases r) (auto simp: runtime_as_package_def)

subsection \<open>The artifact and its sources\<close>

text \<open>The checked needed libraries are strictly increasing: \<open>tuple(sorted(set(needed))) == needed\<close>.\<close>

definition check_needed :: "json \<Rightarrow> unit result" where
  "check_needed v =
     bindE (require_non_empty_list v) (\<lambda>vs.
     bindE (mapE require_string vs) (\<lambda>needed.
     bindE (guardE (sorted_list_of_set (set needed) \<noteq> needed)
       (pkg_error ''/artifact/needed: dependencies must be sorted and unique'')) (\<lambda>_.
     guardE (set needed \<noteq> pys ` set EXPECTED_PLUGIN_NEEDED)
       (pkg_error ''/artifact/needed: plugin dependency closure differs from the fixed allowlist''))))"

definition check_plugin_artifact :: "json \<Rightarrow> file_artifact \<Rightarrow> (int \<times> pystr) result" where
  "check_plugin_artifact v plugin =
     bindE (require_object v [''filename'', ''size_bytes'', ''sha256'', ''soname'', ''needed'']) (\<lambda>artifact.
     bindE (expect (string_field artifact ''filename'') (pys EXPECTED_PLUGIN_FILENAME)
       ''/artifact/filename: expected '') (\<lambda>_.
     bindE (int_field artifact ''size_bytes'' 1 max_u64) (\<lambda>size_bytes.
     bindE (sha256_field artifact ''sha256'') (\<lambda>digest.
     bindE (guardE (size_bytes \<noteq> fa_size_bytes plugin \<or> digest \<noteq> fa_sha256 plugin)
       (pkg_error ''/artifact: plugin build receipt does not authenticate the staged plugin'')) (\<lambda>_.
     bindE (expect (string_field artifact ''soname'') (pys EXPECTED_PLUGIN_SONAME)
       ''/artifact/soname: unexpected plugin SONAME'') (\<lambda>_.
     bindE (bindE (field artifact ''needed'') check_needed) (\<lambda>_.
     Inr (size_bytes, digest))))))))"

definition plugin_source_of :: "json \<Rightarrow> plugin_source_evidence result" where
  "plugin_source_of v =
     bindE (require_object v [''path'', ''size_bytes'', ''sha256'']) (\<lambda>source.
     bindE (bindE (field source ''path'') require_relative_path) (\<lambda>path.
     bindE (int_field source ''size_bytes'' 1 max_u64) (\<lambda>size_bytes.
     bindE (sha256_field source ''sha256'') (\<lambda>digest.
     Inr \<lparr>pe_path = path, pe_sha256 = digest, pe_size_bytes = size_bytes\<rparr>))))"

definition canonical_sources :: "plugin_source_evidence list \<Rightarrow> bool" where
  "canonical_sources sources \<longleftrightarrow> map pe_path sources = map pys EXPECTED_PLUGIN_SOURCE_PATHS"

definition check_plugin_sources :: "json \<Rightarrow> plugin_source_evidence list result" where
  "check_plugin_sources v =
     bindE (require_non_empty_list v) (\<lambda>vs.
     bindE (mapE plugin_source_of vs) (\<lambda>sources.
     bindE (guardE (\<not> canonical_sources sources)
       (pkg_error ''/source: expected the exact canonical plugin source inventory'')) (\<lambda>_.
     Inr sources)))"

subsection \<open>The toolchain and the build\<close>

definition check_tool_path :: "json_object \<Rightarrow> string \<Rightarrow> unit result" where
  "check_tool_path toolchain key =
     bindE (string_field toolchain key) (\<lambda>tool_path.
     guardE (pure_root tool_path = []) (pkg_error ''/toolchain/: expected an absolute path''))"

definition check_toolchain :: "json \<Rightarrow> unit result" where
  "check_toolchain v =
     bindE (require_object v
       [''cxx_path'', ''cxx_version'', ''nvcc_path'', ''nvcc_version'', ''linker_path'', ''linker_version'',
        ''readelf_path'', ''ninja_path'', ''ninja_version'', ''cmake_path'', ''cmake_version'', ''cuda_architecture''])
     (\<lambda>toolchain.
     bindE (all_steps (check_tool_path toolchain)
       [''cxx_path'', ''nvcc_path'', ''linker_path'', ''readelf_path'', ''ninja_path'', ''cmake_path'']) (\<lambda>_.
     bindE (mapE (string_field toolchain)
       [''cxx_version'', ''nvcc_version'', ''linker_version'', ''ninja_version'', ''cmake_version'']) (\<lambda>_.
     expect (string_field toolchain ''cuda_architecture'') (pys ''110'')
       ''/toolchain/cuda_architecture: expected NVIDIA Thor sm_110'')))"

text \<open>\<open>fragment in command\<close>\<close>

definition check_fragment :: "pystr \<Rightarrow> string \<Rightarrow> string \<Rightarrow> unit result" where
  "check_fragment command m fragment =
     guardE (\<not> sublist (pys fragment) command) (pkg_error m)"

definition required_compile_fragments :: "string list" where
  "required_compile_fragments =
     [''-c ${SOURCE_ROOT}/plugins/local_ar_plugins.cu'', ''-O3'', ''-DNDEBUG'', ''-std=c++20'',
      ''arch=compute_110,code=[compute_110,sm_110]'', ''-Xcompiler=-fPIC'',
      ''--frandom-seed=magpie_tts_rt_plugins_v1'', ''-Xcompiler=-Wall,-Wextra'', ''-Xcompiler=-Werror'']"

definition required_link_fragments :: "string list" where
  "required_link_fragments =
     [''-Wl,--no-undefined'', ''-Wl,--strip-all'',
      ''-Wl,--version-script=${SOURCE_ROOT}/cmake/magpie_tts_rt_plugins.map'', ''-shared'',
      ''-Wl,-soname,libmagpie_tts_rt_plugins.so.0'', ''-o '' @ EXPECTED_PLUGIN_FILENAME]"

definition CUTLASS_ARCHIVE_SHA256 :: string where
  "CUTLASS_ARCHIVE_SHA256 = ''5288044d2d5e81632ac0c812b6b85c744901a7d3fd11c9119f18f71c3cef5f79''"

definition expected_definitions :: json where
  "expected_definitions = JList (map (JStr \<circ> pys)
     [''CMAKE_BUILD_TYPE=Release'', ''CMAKE_CUDA_ARCHITECTURES=110'', ''MAGPIE_TTS_RT_WARNINGS_AS_ERRORS=ON''])"

definition check_build :: "json \<Rightarrow> unit result" where
  "check_build v =
     bindE (require_object v
       [''build_type'', ''tf32_policy'', ''cutlass_archive_sha256'', ''compile_command'', ''link_command'',
        ''cmake_definitions'']) (\<lambda>build.
     bindE (expect (string_field build ''build_type'') (pys ''Release'') ''/build/build_type: expected Release'') (\<lambda>_.
     bindE (expect (string_field build ''tf32_policy'') (pys ''disabled'')
       ''/build/tf32_policy: TF32 must be disabled'') (\<lambda>_.
     bindE (expect (sha256_field build ''cutlass_archive_sha256'') (pys CUTLASS_ARCHIVE_SHA256)
       ''/build/cutlass_archive_sha256: unpinned CUTLASS source'') (\<lambda>_.
     bindE (string_field build ''compile_command'') (\<lambda>compile_command.
     bindE (string_field build ''link_command'') (\<lambda>link_command.
     bindE (all_steps (check_fragment compile_command ''/build/compile_command: missing actual build fragment '')
       required_compile_fragments) (\<lambda>_.
     bindE (all_steps (check_fragment link_command ''/build/link_command: missing actual build fragment '')
       required_link_fragments) (\<lambda>_.
     bindE (field build ''cmake_definitions'') (\<lambda>definitions.
     guardE (\<not> py_eq definitions expected_definitions)
       (pkg_error ''/build/cmake_definitions: unexpected plugin build configuration''))))))))))"

subsection \<open>The receipt\<close>

definition validate_plugin_build_receipt ::
  "pkg_env \<Rightarrow> path_view \<Rightarrow> file_artifact \<Rightarrow> plugin_build_evidence result"
where
  "validate_plugin_build_receipt env p plugin =
     bindE (read_verified_regular_file p MAX_MANIFEST_BYTES) (\<lambda>payload.
     bindE (parse_json_payload env payload) (\<lambda>v.
     bindE (require_object v
       [''schema_version'', ''status'', ''artifact'', ''source'', ''toolchain'', ''build'', ''runtime_dependencies''])
     (\<lambda>doc.
     bindE (expect (string_field doc ''schema_version'') (pys ''magpie-tts-rt.plugin-build.v1'')
       ''/schema_version: unsupported plugin build receipt'') (\<lambda>_.
     bindE (expect (identifier_field doc ''status'') (pys ''recorded'')
       ''/status: plugin build receipt is not recorded'') (\<lambda>_.
     bindE (bindE (field doc ''artifact'') (\<lambda>x. check_plugin_artifact x plugin)) (\<lambda>(size_bytes, digest).
     bindE (bindE (field doc ''source'') check_plugin_sources) (\<lambda>sources.
     bindE (bindE (field doc ''toolchain'') check_toolchain) (\<lambda>_.
     bindE (bindE (field doc ''build'') check_build) (\<lambda>_.
     bindE (bindE (field doc ''runtime_dependencies'') (\<lambda>x. require_object x [''cublas''])) (\<lambda>dependencies.
     bindE (runtime_as_package (bindE (field dependencies ''cublas'') parse_cublas_runtime_identity)) (\<lambda>cublas.
     Inr \<lparr>be_receipt_sha256 = sha256_bytes payload, be_receipt_size_bytes = int (length payload),
          be_plugin_sha256 = digest, be_plugin_size_bytes = size_bytes, be_sources = sources,
          be_cublas_identity = cublas\<rparr>)))))))))))"

subsection \<open>The source tree\<close>

text \<open>The root directory (its absolute and resolved path, and whether it is a directory) and what is found
  below it at a relative path.\<close>

record source_root_view =
  sv_absolute :: pystr
  sv_resolve :: "pystr result"
  sv_is_dir :: bool
  sv_join :: "pystr list \<Rightarrow> path_view"

definition check_tree_source :: "source_root_view \<Rightarrow> plugin_source_evidence \<Rightarrow> unit result" where
  "check_tree_source view source =
     bindE (read_verified_regular_file (sv_join view (pure_components (pe_path source))) MAX_MANIFEST_BYTES) (\<lambda>payload.
     guardE (int (length payload) \<noteq> pe_size_bytes source \<or> sha256_bytes payload \<noteq> pe_sha256 source)
       (pkg_error ''plugin source does not match build receipt: ''))"

definition validate_plugin_build_source_tree :: "plugin_build_evidence \<Rightarrow> source_root_view \<Rightarrow> unit result" where
  "validate_plugin_build_source_tree evidence view =
     bindE (sv_resolve view) (\<lambda>resolved.
     bindE (guardE (sv_absolute view \<noteq> resolved \<or> \<not> sv_is_dir view)
       (pkg_error ''plugin source root must be an absolute nonsymlink directory'')) (\<lambda>_.
     bindE (guardE (\<not> canonical_sources (be_sources evidence))
       (pkg_error ''plugin source inventory is not canonical'')) (\<lambda>_.
     all_steps (check_tree_source view) (be_sources evidence))))"

subsection \<open>What an accepted receipt says\<close>

definition records_source :: "json \<Rightarrow> string \<Rightarrow> pystr \<Rightarrow> int \<Rightarrow> bool" where
  "records_source v path digest size_bytes \<longleftrightarrow>
     json_at v [''path''] = Some (JStr (pys path)) \<and> json_at v [''sha256''] = Some (JStr digest) \<and>
     json_at v [''size_bytes''] = Some (JInt size_bytes)"

lemma plugin_source_of_Inr:
  "plugin_source_of v = Inr s \<Longrightarrow> pe_path s = pys path \<Longrightarrow> records_source v path (pe_sha256 s) (pe_size_bytes s)"
  unfolding plugin_source_of_def records_source_def
  by (auto simp: result_simps accessor_simps require_object_Inr_iff require_relative_path_Inr_iff)

lemma check_plugin_sources_Inr:
  assumes "check_plugin_sources v = Inr sources"
  shows "canonical_sources sources"
    and "\<exists>vs. v = JList vs \<and> list_all2 (\<lambda>x s. plugin_source_of x = Inr s) vs sources"
  using assms
  by (auto simp: check_plugin_sources_def require_non_empty_list_def result_simps mapE_Inr_iff
      split: json.splits if_splits)

text \<open>The build the receipt records, and the sources it records in the canonical order.\<close>

definition build_facts :: "file_artifact \<Rightarrow> json \<Rightarrow> plugin_build_evidence \<Rightarrow> bool" where
  "build_facts plugin v e \<longleftrightarrow>
     be_plugin_sha256 e = fa_sha256 plugin \<and> be_plugin_size_bytes e = fa_size_bytes plugin \<and>
     json_at v [''artifact'', ''sha256''] = Some (JStr (fa_sha256 plugin)) \<and>
     json_at v [''artifact'', ''size_bytes''] = Some (JInt (fa_size_bytes plugin)) \<and>
     json_at v [''build'', ''cutlass_archive_sha256''] = Some (JStr (pys CUTLASS_ARCHIVE_SHA256)) \<and>
     (\<exists>command. json_at v [''build'', ''compile_command''] = Some (JStr command) \<and>
        (\<forall>fragment \<in> set required_compile_fragments. sublist (pys fragment) command)) \<and>
     (\<exists>command. json_at v [''build'', ''link_command''] = Some (JStr command) \<and>
        (\<forall>fragment \<in> set required_link_fragments. sublist (pys fragment) command)) \<and>
     (\<exists>c. json_at v [''runtime_dependencies'', ''cublas''] = Some c \<and>
        parse_cublas_runtime_identity c = Inr (be_cublas_identity e))"

definition sources_recorded :: "json \<Rightarrow> plugin_source_evidence list \<Rightarrow> bool" where
  "sources_recorded v sources \<longleftrightarrow>
     canonical_sources sources \<and>
     (\<exists>vs. json_at v [''source''] = Some (JList vs) \<and> list_all2 (\<lambda>x s. plugin_source_of x = Inr s) vs sources)"

lemma check_plugin_artifact_Inr:
  "check_plugin_artifact v plugin = Inr sd \<Longrightarrow>
     sd = (fa_size_bytes plugin, fa_sha256 plugin) \<and> json_at v [''sha256''] = Some (JStr (fa_sha256 plugin)) \<and>
     json_at v [''size_bytes''] = Some (JInt (fa_size_bytes plugin))"
  unfolding check_plugin_artifact_def
  by (auto simp: result_simps accessor_simps require_object_Inr_iff)

lemma check_build_Inr:
  "check_build v = Inr u \<Longrightarrow>
     json_at v [''cutlass_archive_sha256''] = Some (JStr (pys CUTLASS_ARCHIVE_SHA256)) \<and>
     (\<exists>command. json_at v [''compile_command''] = Some (JStr command) \<and>
        (\<forall>fragment \<in> set required_compile_fragments. sublist (pys fragment) command)) \<and>
     (\<exists>command. json_at v [''link_command''] = Some (JStr command) \<and>
        (\<forall>fragment \<in> set required_link_fragments. sublist (pys fragment) command))"
  unfolding check_build_def check_fragment_def
  by (auto simp: result_simps accessor_simps require_object_Inr_iff)

lemma validated_build_receipt:
  assumes "validate_plugin_build_receipt env p plugin = Inr e"
  shows "\<exists>payload v. read_verified_regular_file p MAX_MANIFEST_BYTES = Inr payload \<and>
    parse_json_payload env payload = Inr v \<and> build_facts plugin v e \<and> sources_recorded v (be_sources e) \<and>
    be_receipt_sha256 e = sha256_hex payload \<and> be_receipt_size_bytes e = int (length payload)"
proof -
  from assms obtain payload doc artifact sd sources source_doc build deps c cublas where
    m: "read_verified_regular_file p MAX_MANIFEST_BYTES = Inr payload" "parse_json_payload env payload = Inr (JObj doc)"
       "map_of doc (pys ''artifact'') = Some artifact" "check_plugin_artifact artifact plugin = Inr sd"
       "check_plugin_sources source_doc = Inr sources" "map_of doc (pys ''build'') = Some build" "check_build build = Inr ()"
       "map_of doc (pys ''runtime_dependencies'') = Some (JObj deps)" "map_of deps (pys ''cublas'') = Some c"
       "parse_cublas_runtime_identity c = Inr cublas"
       "e = \<lparr>be_receipt_sha256 = sha256_bytes payload, be_receipt_size_bytes = int (length payload),
          be_plugin_sha256 = snd sd, be_plugin_size_bytes = fst sd, be_sources = sources,
          be_cublas_identity = cublas\<rparr>" and source: "map_of doc (pys ''source'') = Some source_doc"
    unfolding validate_plugin_build_receipt_def
    by (auto simp: result_simps accessor_simps require_object_Inr_iff)
  have "build_facts plugin (JObj doc) e"
    unfolding build_facts_def m(11)
    using m(3,6,8-10) check_plugin_artifact_Inr [OF m(4)] check_build_Inr [OF m(7)] by simp
  moreover have "sources_recorded (JObj doc) (be_sources e)"
    unfolding sources_recorded_def m(11) using source check_plugin_sources_Inr [OF m(5)] by simp
  ultimately show ?thesis using m(1,2,11) by (auto simp: sha256_bytes_def)
qed

text \<open>The file below the root is the one the receipt records.\<close>

definition source_on_disk :: "source_root_view \<Rightarrow> string \<Rightarrow> json \<Rightarrow> bool" where
  "source_on_disk view path v \<longleftrightarrow>
     (\<exists>payload. read_verified_regular_file (sv_join view (pure_components (pys path))) MAX_MANIFEST_BYTES = Inr payload \<and>
        records_source v path (sha256_hex payload) (int (length payload)))"

lemma validated_source_tree:
  assumes tree: "validate_plugin_build_source_tree e view = Inr u" and rec: "sources_recorded v (be_sources e)"
  shows "\<exists>vs. json_at v [''source''] = Some (JList vs) \<and>
    list_all2 (source_on_disk view) EXPECTED_PLUGIN_SOURCE_PATHS vs"
proof -
  let ?sources = "be_sources e"
  from rec obtain vs where vs: "json_at v [''source''] = Some (JList vs)"
    "list_all2 (\<lambda>x s. plugin_source_of x = Inr s) vs ?sources" and paths: "map pe_path ?sources = map pys EXPECTED_PLUGIN_SOURCE_PATHS"
    by (auto simp: sources_recorded_def canonical_sources_def)
  from tree have ok: "\<forall>s \<in> set ?sources. check_tree_source view s = Inr ()"
    by (auto simp: validate_plugin_build_source_tree_def result_simps)
  have len: "length vs = length ?sources" "length ?sources = length EXPECTED_PLUGIN_SOURCE_PATHS"
    using vs(2) arg_cong [OF paths, of length] by (auto dest: list_all2_lengthD)
  have "source_on_disk view (EXPECTED_PLUGIN_SOURCE_PATHS ! i) (vs ! i)" if i: "i < length ?sources" for i
  proof -
    have path: "pe_path (?sources ! i) = pys (EXPECTED_PLUGIN_SOURCE_PATHS ! i)"
      using arg_cong [OF paths, of "\<lambda>xs. xs ! i"] i len by simp
    have "plugin_source_of (vs ! i) = Inr (?sources ! i)" using list_all2_nthD2 [OF vs(2) i] .
    from plugin_source_of_Inr [OF this path] bspec [OF ok nth_mem [OF i]] show ?thesis
      by (auto simp: source_on_disk_def check_tree_source_def path result_simps sha256_bytes_def)
  qed
  with len vs(1) show ?thesis by (auto simp: list_all2_conv_all_nth)
qed

subsection \<open>Properties\<close>

definition demo_identity_library :: "string \<Rightarrow> loaded_library_identity" where
  "demo_identity_library soname = \<lparr>ll_soname = pys soname, ll_size_bytes = 1, ll_sha256 = zeros 64\<rparr>"

definition demo_cublas_identity :: cublas_runtime_identity where
  "demo_cublas_identity =
     \<lparr>cb_api_version_integer = 130000, cb_library = demo_identity_library CUBLAS_SONAME,
      cb_lt_library = demo_identity_library CUBLAS_LT_SONAME\<rparr>"

lemma demo_cublas_identity_parsed:
  "parse_cublas_runtime_identity (cublas_runtime_identity_json demo_cublas_identity) = Inr demo_cublas_identity"
  by (rule parse_cublas_json)
    (simp add: cublas_wf_def library_wf_def demo_cublas_identity_def demo_identity_library_def)

definition demo_needed :: "string list" where
  "demo_needed =
     [''ld-linux-aarch64.so.1'', ''libc.so.6'', ''libcublas.so.13'', ''libcuda.so.1'', ''libcudart.so.13'',
      ''libgcc_s.so.1'', ''libnvinfer.so.10'', ''libstdc++.so.6'']"

definition demo_plugin_file :: file_artifact where
  "demo_plugin_file = \<lparr>fa_path = pys ''plugin.so'', fa_sha256 = zeros 64, fa_size_bytes = 9\<rparr>"

definition demo_artifact :: json_object where
  "demo_artifact =
     [(pys ''filename'', jstr EXPECTED_PLUGIN_FILENAME), (pys ''size_bytes'', JInt 9), (pys ''sha256'', JStr (zeros 64)),
      (pys ''soname'', jstr EXPECTED_PLUGIN_SONAME), (pys ''needed'', JList (map (JStr \<circ> pys) demo_needed))]"

definition demo_plugin_source :: "string \<Rightarrow> json_object" where
  "demo_plugin_source path =
     [(pys ''path'', jstr path), (pys ''size_bytes'', JInt 1), (pys ''sha256'', JStr (sha256_hex [1]))]"

definition demo_toolchain :: json_object where
  "demo_toolchain =
     map (\<lambda>k. (pys k, jstr ''/t''))
       [''cxx_path'', ''cxx_version'', ''nvcc_path'', ''nvcc_version'', ''linker_path'', ''linker_version'',
        ''readelf_path'', ''ninja_path'', ''ninja_version'', ''cmake_path'', ''cmake_version''] @
     [(pys ''cuda_architecture'', jstr ''110'')]"

definition demo_build :: json_object where
  "demo_build =
     [(pys ''build_type'', jstr ''Release''), (pys ''tf32_policy'', jstr ''disabled''),
      (pys ''cutlass_archive_sha256'', jstr CUTLASS_ARCHIVE_SHA256),
      (pys ''compile_command'', JStr (concat (map pys required_compile_fragments))),
      (pys ''link_command'', JStr (concat (map pys required_link_fragments))),
      (pys ''cmake_definitions'', expected_definitions)]"

definition demo_build_receipt :: json_object where
  "demo_build_receipt =
     [(pys ''schema_version'', jstr ''magpie-tts-rt.plugin-build.v1''), (pys ''status'', jstr ''recorded''),
      (pys ''artifact'', JObj demo_artifact),
      (pys ''source'', JList (map (JObj \<circ> demo_plugin_source) EXPECTED_PLUGIN_SOURCE_PATHS)),
      (pys ''toolchain'', JObj demo_toolchain), (pys ''build'', JObj demo_build),
      (pys ''runtime_dependencies'', JObj [(pys ''cublas'', cublas_runtime_identity_json demo_cublas_identity)])]"

definition demo_build_env :: pkg_env where
  "demo_build_env =
     \<lparr>pk_loads = (\<lambda>_. Some (JObj demo_build_receipt)), pk_float_of_int = (\<lambda>_. None),
      pk_fromisoformat = (\<lambda>_. None)\<rparr>"

definition demo_source_root :: source_root_view where
  "demo_source_root =
     \<lparr>sv_absolute = [], sv_resolve = Inr [], sv_is_dir = True, sv_join = (\<lambda>_. steady_view [1])\<rparr>"

definition demo_build_evidence :: plugin_build_evidence where
  "demo_build_evidence =
     \<lparr>be_receipt_sha256 = sha256_hex [2], be_receipt_size_bytes = 1, be_plugin_sha256 = zeros 64,
      be_plugin_size_bytes = 9,
      be_sources = map (\<lambda>p. \<lparr>pe_path = pys p, pe_sha256 = sha256_hex [1], pe_size_bytes = 1\<rparr>) EXPECTED_PLUGIN_SOURCE_PATHS,
      be_cublas_identity = demo_cublas_identity\<rparr>"

lemma demo_needed_checked: "check_needed (JList (map (JStr \<circ> pys) demo_needed)) = Inr ()"
proof -
  have "sorted (map pys demo_needed)" "distinct (map pys demo_needed)"
    by (simp_all add: demo_needed_def) (simp add: pys_def)
  then have "sorted_list_of_set (set (map pys demo_needed)) = map pys demo_needed"
    by (rule sorted_list_of_set.idem_if_sorted_distinct)
  moreover have "mapE require_string (map (JStr \<circ> pys) demo_needed) = Inr (map pys demo_needed)"
    by (simp add: demo_needed_def require_string_def)
  moreover have "set demo_needed = set EXPECTED_PLUGIN_NEEDED"
    by (auto simp: demo_needed_def EXPECTED_PLUGIN_NEEDED_def)
  moreover have "demo_needed \<noteq> []" by (simp add: demo_needed_def)
  ultimately show ?thesis by (simp add: check_needed_def require_non_empty_list_def)
qed

lemma demo_artifact_checked: "check_plugin_artifact (JObj demo_artifact) demo_plugin_file = Inr (9, zeros 64)"
  by (simp add: check_plugin_artifact_def demo_artifact_def demo_plugin_file_def check_run_simps demo_needed_checked
      EXPECTED_PLUGIN_FILENAME_def EXPECTED_PLUGIN_SONAME_def)

lemma demo_source_path:
  "path \<in> set EXPECTED_PLUGIN_SOURCE_PATHS \<Longrightarrow> require_relative_path (jstr path) = Inr (pys path)"
  unfolding require_relative_path_Inr_iff EXPECTED_PLUGIN_SOURCE_PATHS_def
  by (auto simp: clean_chars_def proper_components_def pys_def)

lemma demo_plugin_source_read:
  "path \<in> set EXPECTED_PLUGIN_SOURCE_PATHS \<Longrightarrow>
     plugin_source_of (JObj (demo_plugin_source path)) =
       Inr \<lparr>pe_path = pys path, pe_sha256 = sha256_hex [1], pe_size_bytes = 1\<rparr>"
  using demo_source_path
  by (simp add: plugin_source_of_def demo_plugin_source_def check_run_simps)

lemma demo_sources_checked:
  "check_plugin_sources (JList (map (JObj \<circ> demo_plugin_source) EXPECTED_PLUGIN_SOURCE_PATHS)) =
     Inr (be_sources demo_build_evidence)"
proof -
  have "mapE plugin_source_of (map (JObj \<circ> demo_plugin_source) EXPECTED_PLUGIN_SOURCE_PATHS) =
      Inr (be_sources demo_build_evidence)"
    unfolding mapE_Inr_iff
    by (simp add: demo_build_evidence_def list_all2_map1 list_all2_map2 list_all2_same demo_plugin_source_read)
  then show ?thesis
    by (simp add: check_plugin_sources_def require_non_empty_list_def canonical_sources_def demo_build_evidence_def
        EXPECTED_PLUGIN_SOURCE_PATHS_def)
qed

lemma demo_toolchain_checked: "check_toolchain (JObj demo_toolchain) = Inr ()"
  by (simp add: check_toolchain_def demo_toolchain_def check_run_simps check_tool_path_def)
    (simp add: pys_def pure_root_def)

lemma sublist_concat: "x \<in> set xs \<Longrightarrow> sublist x (concat xs)"
  by (metis concat.simps(2) concat_append in_set_conv_decomp sublist_appendI)

lemma fragments_checked:
  "all_steps (check_fragment (concat (map pys fragments)) m) fragments = Inr ()"
  by (simp add: all_steps_Inr_iff check_fragment_def guardE_def sublist_concat)

lemma demo_build_checked: "check_build (JObj demo_build) = Inr ()"
proof -
  have "sha256_pattern (pys CUTLASS_ARCHIVE_SHA256)"
    by (simp add: sha256_pattern_def lower_hex_pattern_def pys_def is_hex_char_def CUTLASS_ARCHIVE_SHA256_def)
  moreover have "CUTLASS_ARCHIVE_SHA256 \<noteq> []" by (simp add: CUTLASS_ARCHIVE_SHA256_def)
  moreover have "concat (map pys required_compile_fragments) \<noteq> []" "concat (map pys required_link_fragments) \<noteq> []"
    by (simp_all add: required_compile_fragments_def required_link_fragments_def)
  ultimately show ?thesis
    by (simp add: check_build_def demo_build_def check_run_simps fragments_checked [unfolded all_steps_def]
        expected_definitions_def)
qed

lemma demo_build_payload: "parse_json_payload demo_build_env [2] = Inr (JObj demo_build_receipt)"
  by (simp add: parse_json_payload_accepted demo_build_env_def demo_build_receipt_def demo_artifact_def
      demo_plugin_source_def demo_toolchain_def demo_build_def expected_definitions_def demo_needed_def
      EXPECTED_PLUGIN_SOURCE_PATHS_def cublas_runtime_identity_json_def loaded_library_identity_json_def)

lemma demo_build_receipt_accepted:
  "validate_plugin_build_receipt demo_build_env (steady_view [2]) demo_plugin_file = Inr demo_build_evidence"
proof -
  have "read_verified_regular_file (steady_view [2]) MAX_MANIFEST_BYTES = Inr [2]"
    by (rule read_steady_view) (simp_all add: MAX_MANIFEST_BYTES_def)
  moreover have "require_identifier (jstr ''recorded'') = Inr (pys ''recorded'')"
    by (simp add: require_identifier_Inr_iff identifier_pattern_def pys_def is_alnum_def)
  ultimately show ?thesis
    unfolding validate_plugin_build_receipt_def
    by (simp add: demo_build_payload demo_build_receipt_def require_object_same field_def expect_def require_string_def
        demo_artifact_checked demo_sources_checked demo_toolchain_checked demo_build_checked
        demo_cublas_identity_parsed runtime_as_package_def sha256_bytes_def)
      (simp add: demo_build_evidence_def)
qed

lemma demo_source_tree_accepted:
  "validate_plugin_build_source_tree demo_build_evidence demo_source_root = Inr ()"
proof -
  have "read_verified_regular_file (steady_view [1]) MAX_MANIFEST_BYTES = Inr [1]"
    by (rule read_steady_view) (simp_all add: MAX_MANIFEST_BYTES_def)
  then show ?thesis
    by (simp add: validate_plugin_build_source_tree_def demo_source_root_def canonical_sources_def
        demo_build_evidence_def all_steps_Inr_iff check_tree_source_def sha256_bytes_def)
qed



end
