(* ===== verification/ExportReceipt.thy ===== *)
theory ExportReceipt
  imports BuildReceipt PackageSpecFacts ManifestFacts
begin

text \<open>
  The consolidated export receipt of \<open>tools/bundle/package_runtime_bundle.py\<close>: \<open>validate_export_receipt\<close> and
  \<open>validate_consolidated_export_receipt\<close>, which ties the staged files together.

  The source reads the file twice, once for each function, so the second function takes two views of the
  path. \<open>validated_export_receipt\<close> shows that the two readings must agree on the oracle lock, and that every
  digest and size of the second is that of the staged file.
\<close>

record export_evidence =
  ev_oracle_lock_sha256 :: pystr
  ev_cuda_identity :: cuda_runtime_identity
  ev_cublas_identity :: cublas_runtime_identity
  ev_mode8_class_table_sha256 :: pystr

abbreviation member_sha256 :: "json_object \<Rightarrow> string \<Rightarrow> pystr result" where
  "member_sha256 doc key \<equiv> bindE (require_member doc key) require_sha256"

definition validate_export_receipt ::
  "pkg_env \<Rightarrow> path_view \<Rightarrow> export_spec \<Rightarrow> source_model_spec \<Rightarrow> export_evidence result"
where
  "validate_export_receipt env p export source_model =
     bindE (bindE (load_json_file env p) require_dict) (\<lambda>doc.
     bindE (bindE (require_member doc ''schema_version'') (\<lambda>x. pkg_require_int x 1 max_u32)) (\<lambda>schema_version.
     bindE (guardE (schema_version \<noteq> 1) (pkg_error '': unsupported export receipt schema version'')) (\<lambda>_.
     bindE (bindE (require_member doc ''artifact_role'') require_identifier) (\<lambda>artifact_role.
     bindE (guardE (artifact_role \<noteq> ex_receipt_artifact_role export)
       (pkg_error '': export receipt artifact_role mismatch: '')) (\<lambda>_.
     bindE (bindE (require_member doc ''status'') require_identifier) (\<lambda>status_value.
     bindE (guardE (status_value \<noteq> pys ''accepted'') (pkg_error '': export receipt status is not accepted: '')) (\<lambda>_.
     bindE (bindE (require_member doc ''source'') require_dict) (\<lambda>source.
     bindE (member_sha256 source ''model_sha256'') (\<lambda>model_sha256.
     bindE (guardE (model_sha256 \<noteq> sm_source_sha256 source_model)
       (pkg_error ''/source/model_sha256: export receipt targets a different model'')) (\<lambda>_.
     bindE (member_sha256 source ''oracle_lock_sha256'') (\<lambda>oracle_lock_sha256.
     bindE (bindE (require_member doc ''runtime_dependencies'') (\<lambda>x.
       require_object x [''cuda'', ''cublas'', ''mode8_class_table_sha256''])) (\<lambda>dependencies.
     bindE (runtime_as_package
       (bindE (bindE (field dependencies ''cuda'') parse_cuda_runtime_identity) (\<lambda>cuda.
        bindE (bindE (field dependencies ''cublas'') parse_cublas_runtime_identity) (\<lambda>cublas.
        Inr (cuda, cublas))))) (\<lambda>(cuda, cublas).
     bindE (sha256_field dependencies ''mode8_class_table_sha256'') (\<lambda>class_table.
     Inr \<lparr>ev_oracle_lock_sha256 = oracle_lock_sha256, ev_cuda_identity = cuda, ev_cublas_identity = cublas,
          ev_mode8_class_table_sha256 = class_table\<rparr>))))))))))))))"

subsection \<open>The codec contract and the source\<close>

definition check_codec_restore :: "json \<Rightarrow> unit result" where
  "check_codec_restore v =
     bindE (require_object v
       [''embedded_codec_model_id'', ''codec_model_sha256'', ''codec_model_size_bytes'', ''codec_resolution'',
        ''use_scl_loss'', ''network_resolution'']) (\<lambda>codec_restore.
     bindE (string_field codec_restore ''embedded_codec_model_id'') (\<lambda>_.
     bindE (sha256_field codec_restore ''codec_model_sha256'') (\<lambda>_.
     bindE (int_field codec_restore ''codec_model_size_bytes'' 0 max_u64) (\<lambda>_.
     bindE (expect (identifier_field codec_restore ''codec_resolution'') (pys ''authenticated_local_file'')
       ''/source/codec_restore: expected the authenticated offline codec restore contract'') (\<lambda>_.
     bindE (expect (bool_field codec_restore ''use_scl_loss'') False
       ''/source/codec_restore: expected the authenticated offline codec restore contract'') (\<lambda>_.
     expect (bool_field codec_restore ''network_resolution'') False
       ''/source/codec_restore: expected the authenticated offline codec restore contract''))))))"

text \<open>The comparisons are all evaluated before the first is looked at.\<close>

definition compared :: "'a result \<Rightarrow> 'a result \<Rightarrow> bool result" where
  "compared actual expected = bindE actual (\<lambda>a. bindE expected (\<lambda>e. Inr (a = e)))"

definition all_agree :: "bool result list \<Rightarrow> string \<Rightarrow> unit result" where
  "all_agree comparisons m =
     bindE (mapE (\<lambda>c. c) comparisons) (\<lambda>bs. guardE (\<not> list_all id bs) (pkg_error m))"

abbreviation file_digest :: "file_map \<Rightarrow> string \<Rightarrow> pystr result" where
  "file_digest files key \<equiv> bindE (file_at files (pys key)) (\<lambda>f. Inr (fa_sha256 f))"

abbreviation file_size :: "file_map \<Rightarrow> string \<Rightarrow> int result" where
  "file_size files key \<equiv> bindE (file_at files (pys key)) (\<lambda>f. Inr (fa_size_bytes f))"

definition check_source :: "json \<Rightarrow> package_spec \<Rightarrow> file_map \<Rightarrow> export_evidence \<Rightarrow> unit result" where
  "check_source v spec files evidence =
     bindE (require_object v
       [''model_id'', ''model_version'', ''model_revision'', ''model_sha256'', ''oracle_lock_sha256'',
        ''canonical_fixture_manifest_sha256'', ''source_model_acceptance_receipt_sha256'',
        ''tokenizer_identity_sha256'', ''tokenizer_identity_receipt_sha256'', ''locked_magpie_restore_sha256'',
        ''codec_restore'']) (\<lambda>source.
     bindE (sha256_field source ''locked_magpie_restore_sha256'') (\<lambda>_.
     bindE (bindE (field source ''codec_restore'') check_codec_restore) (\<lambda>_.
     bindE (all_agree
       [compared (string_field source ''model_id'') (Inr (sm_model_id (ps_source_model spec))),
        compared (string_field source ''model_version'') (Inr (sm_version (ps_source_model spec))),
        compared (string_field source ''model_revision'') (Inr (sm_revision (ps_source_model spec))),
        compared (sha256_field source ''model_sha256'') (Inr (sm_source_sha256 (ps_source_model spec))),
        compared (sha256_field source ''oracle_lock_sha256'') (Inr (ev_oracle_lock_sha256 evidence)),
        compared (sha256_field source ''source_model_acceptance_receipt_sha256'')
          (file_digest files ''source_model_acceptance_receipt''),
        compared (sha256_field source ''tokenizer_identity_sha256'') (Inr (tk_identity_sha256 (ps_tokenizer spec))),
        compared (sha256_field source ''tokenizer_identity_receipt_sha256'')
          (file_digest files ''tokenizer_identity_receipt'')]
       ''/source/: consolidated receipt does not match the staged bundle input'') (\<lambda>_.
     bindE (sha256_field source ''canonical_fixture_manifest_sha256'') (\<lambda>_. Inr ())))))"

subsection \<open>Components, engines and golden files\<close>

definition expected_components :: "(string \<times> string) list" where
  "expected_components =
     [(''text_encoder'', ''text_encoder_plan''), (''main_decoder'', ''main_decoder''),
      (''local_ar'', ''local_ar_fixed_16''), (''nanocodec'', ''stateful_nanocodec'')]"

definition check_component :: "json \<times> (string \<times> string) \<Rightarrow> unit result" where
  "check_component ve =
     bindE (require_object (fst ve) [''role'', ''artifact_role'', ''receipt_sha256'']) (\<lambda>item.
     bindE (identifier_field item ''role'') (\<lambda>role.
     bindE (identifier_field item ''artifact_role'') (\<lambda>artifact_role.
     bindE (sha256_field item ''receipt_sha256'') (\<lambda>_.
     guardE ((role, artifact_role) \<noteq> (pys (fst (snd ve)), pys (snd (snd ve))))
       (pkg_error '': expected canonical component '')))))"

definition check_components :: "json \<Rightarrow> unit result" where
  "check_components v =
     (case v of
        JList vs \<Rightarrow>
          bindE (guardE (length vs \<noteq> length expected_components)
            (pkg_error ''/component_receipts: expected exactly four canonical entries'')) (\<lambda>_.
          all_steps check_component (zip vs expected_components))
      | _ \<Rightarrow> Inl (pkg_error ''/component_receipts: expected an array''))"

definition check_generation_receipts :: "json_object \<Rightarrow> file_map \<Rightarrow> unit result" where
  "check_generation_receipts doc files =
     bindE (sha256_field doc ''sequence_receipt_sha256'') (\<lambda>sequence.
     bindE (sha256_field doc ''complete_generation_receipt_sha256'') (\<lambda>complete.
     bindE (file_digest files ''golden_receipt'') (\<lambda>golden.
     bindE (guardE (complete \<noteq> golden)
       (pkg_error ''/complete_generation_receipt_sha256: does not match the staged golden receipt'')) (\<lambda>_.
     guardE (sequence = complete)
       (pkg_error ''/sequence_receipt_sha256: sequence and complete-generation evidence must be distinct receipts'')))))"

definition validate_inventory_item :: "json \<Rightarrow> string \<Rightarrow> file_artifact \<Rightarrow> unit result" where
  "validate_inventory_item v expected_role expected_file =
     bindE (require_object v [''role'', ''sha256'', ''size_bytes'']) (\<lambda>item.
     bindE (identifier_field item ''role'') (\<lambda>role.
     bindE (sha256_field item ''sha256'') (\<lambda>digest.
     bindE (int_field item ''size_bytes'' 1 max_u64) (\<lambda>size_bytes.
     bindE (guardE (role \<noteq> pys expected_role) (pkg_error ''/role: expected '')) (\<lambda>_.
     guardE (digest \<noteq> fa_sha256 expected_file \<or> size_bytes \<noteq> fa_size_bytes expected_file)
       (pkg_error '': SHA-256/size do not match the staged artifact''))))))"

definition check_plugin_entry :: "json \<Rightarrow> file_map \<Rightarrow> unit result" where
  "check_plugin_entry v files =
     bindE (require_object v
       [''role'', ''sha256'', ''size_bytes'', ''build_receipt_sha256'', ''build_receipt_size_bytes'']) (\<lambda>plugin.
     bindE (expect (identifier_field plugin ''role'') (pys ''runtime_plugin'')
       ''/plugin/role: expected runtime_plugin, got '') (\<lambda>_.
     all_agree
       [compared (sha256_field plugin ''sha256'') (file_digest files ''plugin''),
        compared (int_field plugin ''size_bytes'' 1 max_u64) (file_size files ''plugin''),
        compared (sha256_field plugin ''build_receipt_sha256'') (file_digest files ''plugin_build_receipt''),
        compared (int_field plugin ''build_receipt_size_bytes'' 1 max_u64) (file_size files ''plugin_build_receipt'')]
       ''/plugin/: does not match the staged artifact''))"

definition check_engines :: "json \<Rightarrow> file_map \<Rightarrow> unit result" where
  "check_engines v files =
     (case v of
        JList vs \<Rightarrow>
          bindE (guardE (length vs \<noteq> length ENGINE_ROLES)
            (pkg_error ''/engines: expected exactly seven entries'')) (\<lambda>_.
          all_steps (\<lambda>(item, role). bindE (file_at files (pys role)) (validate_inventory_item item role))
            (zip vs ENGINE_ROLES))
      | _ \<Rightarrow> Inl (pkg_error ''/engines: expected an array''))"

definition validate_file_identity :: "json \<Rightarrow> file_artifact \<Rightarrow> unit result" where
  "validate_file_identity v expected_file =
     bindE (require_object v [''sha256'', ''size_bytes'']) (\<lambda>item.
     bindE (sha256_field item ''sha256'') (\<lambda>digest.
     bindE (int_field item ''size_bytes'' 1 max_u64) (\<lambda>size_bytes.
     guardE (digest \<noteq> fa_sha256 expected_file \<or> size_bytes \<noteq> fa_size_bytes expected_file)
       (pkg_error '': SHA-256/size do not match the staged artifact''))))"

definition check_file_entry :: "json_object \<Rightarrow> string \<Rightarrow> file_map \<Rightarrow> unit result" where
  "check_file_entry doc key files =
     bindE (field doc key) (\<lambda>v. bindE (file_at files (pys key)) (validate_file_identity v))"

subsection \<open>The consolidated receipt\<close>

definition validate_consolidated_export_receipt ::
  "pkg_env \<Rightarrow> path_view \<Rightarrow> path_view \<Rightarrow> package_spec \<Rightarrow> file_map \<Rightarrow> export_evidence result"
where
  "validate_consolidated_export_receipt env first_view second_view spec files =
     bindE (validate_export_receipt env first_view (ps_export spec) (ps_source_model spec)) (\<lambda>evidence.
     bindE (load_json_file env second_view) (\<lambda>v.
     bindE (require_object v
       [''schema_version'', ''artifact_role'', ''status'', ''created_at_utc'', ''source'', ''runtime_dependencies'',
        ''component_receipts'', ''sequence_receipt_sha256'', ''complete_generation_receipt_sha256'', ''plugin'',
        ''engines'', ''golden_fixture'', ''golden_receipt'', ''eos_frame_is_audio'', ''zero_frame_finalization''])
     (\<lambda>doc.
     bindE (expect (bool_field doc ''eos_frame_is_audio'') (cd_eos_frame_is_audio (ps_codec spec))
       ''/eos_frame_is_audio: consolidated receipt does not match the package codec contract'') (\<lambda>_.
     bindE (expect (identifier_field doc ''zero_frame_finalization'') (cd_zero_frame_finalization (ps_codec spec))
       ''/zero_frame_finalization: consolidated receipt does not match the package codec contract'') (\<lambda>_.
     bindE (bindE (field doc ''created_at_utc'') (require_timestamp env)) (\<lambda>_.
     bindE (bindE (field doc ''source'') (\<lambda>x. check_source x spec files evidence)) (\<lambda>_.
     bindE (bindE (field doc ''component_receipts'') check_components) (\<lambda>_.
     bindE (check_generation_receipts doc files) (\<lambda>_.
     bindE (bindE (field doc ''plugin'') (\<lambda>x. check_plugin_entry x files)) (\<lambda>_.
     bindE (bindE (field doc ''engines'') (\<lambda>x. check_engines x files)) (\<lambda>_.
     bindE (check_file_entry doc ''golden_fixture'' files) (\<lambda>_.
     bindE (check_file_entry doc ''golden_receipt'' files) (\<lambda>_.
     Inr evidence)))))))))))))"

subsection \<open>What an accepted receipt says\<close>

lemma compared_Inr_iff [result_simps]: "compared a e = Inr b \<longleftrightarrow> (\<exists>x y. a = Inr x \<and> e = Inr y \<and> b = (x = y))"
  by (auto simp: compared_def bindE_eq_Inr)

lemma all_agree_Inr_iff [result_simps]: "all_agree cs m = Inr u \<longleftrightarrow> (\<forall>c \<in> set cs. c = Inr True)"
proof -
  have "(\<exists>bs. mapE (\<lambda>c. c) cs = Inr bs \<and> list_all id bs) \<longleftrightarrow> (\<forall>c \<in> set cs. c = Inr True)"
  proof (induction cs)
    case (Cons c cs)
    have "(\<exists>bs. mapE (\<lambda>c. c) (c # cs) = Inr bs \<and> list_all id bs) \<longleftrightarrow>
        c = Inr True \<and> (\<exists>bs. mapE (\<lambda>c. c) cs = Inr bs \<and> list_all id bs)"
      by (cases c) (auto simp: bindE_eq_Inr)
    with Cons.IH show ?case by (simp add: id_def)
  qed simp
  then show ?thesis by (simp add: all_agree_def bindE_eq_Inr guardE_eq_Inr)
qed

lemma file_at_Inr_iff: "file_at files k = Inr f \<longleftrightarrow> map_of files k = Some f"
  by (auto simp: file_at_def split: option.splits)

text \<open>The entry of the document names the staged file.\<close>

definition entry_of_file :: "file_map \<Rightarrow> string \<Rightarrow> json \<Rightarrow> bool" where
  "entry_of_file files key v \<longleftrightarrow>
     (\<exists>f. map_of files (pys key) = Some f \<and> json_at v [''sha256''] = Some (JStr (fa_sha256 f)) \<and>
        json_at v [''size_bytes''] = Some (JInt (fa_size_bytes f)))"

definition digest_of_file :: "file_map \<Rightarrow> string \<Rightarrow> json option \<Rightarrow> bool" where
  "digest_of_file files key v \<longleftrightarrow>
     (\<exists>f. map_of files (pys key) = Some f \<and> v = Some (JStr (fa_sha256 f)))"

lemma check_file_entry_Inr:
  "check_file_entry doc key files = Inr u \<Longrightarrow> \<exists>v. map_of doc (pys key) = Some v \<and> entry_of_file files key v"
  unfolding check_file_entry_def validate_file_identity_def entry_of_file_def
  by (auto simp: result_simps accessor_simps require_object_Inr_iff file_at_Inr_iff)

definition engine_entry :: "file_map \<Rightarrow> string \<Rightarrow> json \<Rightarrow> bool" where
  "engine_entry files role v \<longleftrightarrow> json_at v [''role''] = Some (JStr (pys role)) \<and> entry_of_file files role v"

lemma validate_inventory_item_Inr:
  "bindE (file_at files (pys role)) (validate_inventory_item v role) = Inr u \<Longrightarrow> engine_entry files role v"
  unfolding validate_inventory_item_def engine_entry_def entry_of_file_def
  by (auto simp: result_simps accessor_simps require_object_Inr_iff file_at_Inr_iff)

lemma check_engines_Inr:
  assumes "check_engines v files = Inr u"
  shows "\<exists>vs. v = JList vs \<and> list_all2 (engine_entry files) ENGINE_ROLES vs"
proof -
  from assms obtain vs where vs: "v = JList vs" "length vs = length ENGINE_ROLES"
    "\<forall>x \<in> set (zip vs ENGINE_ROLES). (\<lambda>(item, role). bindE (file_at files (pys role)) (validate_inventory_item item role)) x = Inr ()"
    by (auto simp: check_engines_def result_simps split: json.splits)
  then have "list_all2 (engine_entry files) ENGINE_ROLES vs"
    unfolding list_all2_conv_all_nth
    by (auto simp: set_zip intro!: validate_inventory_item_Inr)
  with vs(1) show ?thesis by blast
qed

lemma check_plugin_entry_Inr:
  "check_plugin_entry v files = Inr u \<Longrightarrow>
     entry_of_file files ''plugin'' v \<and>
     (\<exists>f. map_of files (pys ''plugin_build_receipt'') = Some f \<and>
        json_at v [''build_receipt_sha256''] = Some (JStr (fa_sha256 f)) \<and>
        json_at v [''build_receipt_size_bytes''] = Some (JInt (fa_size_bytes f)))"
  unfolding check_plugin_entry_def entry_of_file_def
  by (auto simp: result_simps accessor_simps require_object_Inr_iff file_at_Inr_iff)

lemma check_source_Inr:
  "check_source v spec files evidence = Inr u \<Longrightarrow>
     json_at v [''model_sha256''] = Some (JStr (sm_source_sha256 (ps_source_model spec))) \<and>
     json_at v [''oracle_lock_sha256''] = Some (JStr (ev_oracle_lock_sha256 evidence)) \<and>
     digest_of_file files ''source_model_acceptance_receipt'' (json_at v [''source_model_acceptance_receipt_sha256'']) \<and>
     json_at v [''tokenizer_identity_sha256''] = Some (JStr (tk_identity_sha256 (ps_tokenizer spec))) \<and>
     digest_of_file files ''tokenizer_identity_receipt'' (json_at v [''tokenizer_identity_receipt_sha256''])"
  unfolding check_source_def digest_of_file_def
  by (auto simp: result_simps accessor_simps require_object_Inr_iff file_at_Inr_iff)

text \<open>The staged files an export receipt binds, and where.\<close>

definition export_facts :: "package_spec \<Rightarrow> file_map \<Rightarrow> export_evidence \<Rightarrow> json \<Rightarrow> bool" where
  "export_facts spec files evidence v \<longleftrightarrow>
     json_at v [''source'', ''model_sha256''] = Some (JStr (sm_source_sha256 (ps_source_model spec))) \<and>
     json_at v [''source'', ''oracle_lock_sha256''] = Some (JStr (ev_oracle_lock_sha256 evidence)) \<and>
     digest_of_file files ''source_model_acceptance_receipt''
       (json_at v [''source'', ''source_model_acceptance_receipt_sha256'']) \<and>
     json_at v [''source'', ''tokenizer_identity_sha256''] = Some (JStr (tk_identity_sha256 (ps_tokenizer spec))) \<and>
     digest_of_file files ''tokenizer_identity_receipt'' (json_at v [''source'', ''tokenizer_identity_receipt_sha256'']) \<and>
     digest_of_file files ''golden_receipt'' (json_at v [''complete_generation_receipt_sha256'']) \<and>
     (\<exists>p. json_at v [''plugin''] = Some p \<and> entry_of_file files ''plugin'' p) \<and>
     digest_of_file files ''plugin_build_receipt'' (json_at v [''plugin'', ''build_receipt_sha256'']) \<and>
     (\<exists>vs. json_at v [''engines''] = Some (JList vs) \<and> list_all2 (engine_entry files) ENGINE_ROLES vs) \<and>
     (\<exists>g. json_at v [''golden_fixture''] = Some g \<and> entry_of_file files ''golden_fixture'' g) \<and>
     (\<exists>g. json_at v [''golden_receipt''] = Some g \<and> entry_of_file files ''golden_receipt'' g)"

text \<open>The evidence is that of the first reading.\<close>

definition evidence_facts :: "package_spec \<Rightarrow> export_evidence \<Rightarrow> json \<Rightarrow> bool" where
  "evidence_facts spec evidence v \<longleftrightarrow>
     json_at v [''artifact_role''] = Some (JStr (ex_receipt_artifact_role (ps_export spec))) \<and>
     json_at v [''status''] = Some (JStr (pys ''accepted'')) \<and>
     json_at v [''source'', ''model_sha256''] = Some (JStr (sm_source_sha256 (ps_source_model spec))) \<and>
     json_at v [''source'', ''oracle_lock_sha256''] = Some (JStr (ev_oracle_lock_sha256 evidence)) \<and>
     (\<exists>c. json_at v [''runtime_dependencies'', ''cuda''] = Some c \<and>
        parse_cuda_runtime_identity c = Inr (ev_cuda_identity evidence)) \<and>
     (\<exists>c. json_at v [''runtime_dependencies'', ''cublas''] = Some c \<and>
        parse_cublas_runtime_identity c = Inr (ev_cublas_identity evidence)) \<and>
     json_at v [''runtime_dependencies'', ''mode8_class_table_sha256''] =
       Some (JStr (ev_mode8_class_table_sha256 evidence))"

lemma validate_export_receipt_Inr:
  assumes "validate_export_receipt env p (ps_export spec) (ps_source_model spec) = Inr evidence"
  shows "\<exists>v. load_json_file env p = Inr v \<and> evidence_facts spec evidence v"
  using assms unfolding validate_export_receipt_def evidence_facts_def
  by (auto simp: result_simps accessor_simps require_object_Inr_iff)

lemma validated_export_receipt:
  assumes "validate_consolidated_export_receipt env p q spec files = Inr evidence"
  shows "\<exists>v w. load_json_file env p = Inr v \<and> evidence_facts spec evidence v \<and>
    load_json_file env q = Inr w \<and> export_facts spec files evidence w"
proof -
  from assms obtain doc source plugin engines where
    m: "validate_export_receipt env p (ps_export spec) (ps_source_model spec) = Inr evidence"
       "load_json_file env q = Inr (JObj doc)"
       "map_of doc (pys ''source'') = Some source" "check_source source spec files evidence = Inr ()"
       "check_generation_receipts doc files = Inr ()"
       "map_of doc (pys ''plugin'') = Some plugin" "check_plugin_entry plugin files = Inr ()"
       "map_of doc (pys ''engines'') = Some engines" "check_engines engines files = Inr ()"
       "check_file_entry doc ''golden_fixture'' files = Inr ()" "check_file_entry doc ''golden_receipt'' files = Inr ()"
    unfolding validate_consolidated_export_receipt_def
    by (auto simp: result_simps accessor_simps require_object_Inr_iff)
  from m(5) have golden: "digest_of_file files ''golden_receipt'' (map_of doc (pys ''complete_generation_receipt_sha256''))"
    unfolding check_generation_receipts_def digest_of_file_def
    by (auto simp: result_simps accessor_simps file_at_Inr_iff)
  have "export_facts spec files evidence (JObj doc)"
    using m(3,6,8) check_source_Inr [OF m(4)] golden check_plugin_entry_Inr [OF m(7)] check_engines_Inr [OF m(9)]
      check_file_entry_Inr [OF m(10)] check_file_entry_Inr [OF m(11)]
    unfolding export_facts_def digest_of_file_def by auto
  with m(2) validate_export_receipt_Inr [OF m(1)] show ?thesis by blast
qed

subsection \<open>Properties\<close>

definition demo_export_spec :: export_spec where
  "demo_export_spec =
     \<lparr>ex_format = pys EXPORT_FORMAT, ex_source_revision = pys ''main'', ex_voice_id = pys ''sofia'',
      ex_baked_context_length = 100, ex_baked_context_sha256 = zeros 64, ex_audio_bos_baked = True,
      ex_receipt_artifact_role = pys ''export''\<rparr>"

definition demo_limits :: limits_spec where
  "demo_limits =
     \<lparr>lm_maximum_text_tokens = 512, lm_maximum_decoder_steps = 512, lm_maximum_audio_frames = 512,
      lm_maximum_sessions = 1, lm_maximum_concurrent_requests = 1, lm_pcm_ring_capacity_frames = 512,
      lm_maximum_workspace_bytes = 1, lm_maximum_device_memory_bytes = 1\<rparr>"

definition demo_package :: package_spec where
  "demo_package =
     \<lparr>ps_schema_version = 1, ps_bundle_id = pys ''demo'', ps_created_at_utc = pys ''Z'',
      ps_source_model = demo_source_spec, ps_export = demo_export_spec, ps_tokenizer = demo_tokenizer,
      ps_plugin = \<lparr>pl_name = pys ''plugins''\<rparr>, ps_classifier_free_guidance = demo_cfg,
      ps_kv_cache = demo_kv_spec, ps_alignment = demo_alignment_spec, ps_sampling = demo_sampling,
      ps_local_ar = demo_local_ar, ps_codec = demo_codec, ps_limits = demo_limits,
      ps_destinations = demo_destinations\<rparr>"

definition demo_staged_names :: "string list" where
  "demo_staged_names =
     [''source_model_acceptance_receipt'', ''export_receipt'', ''tokenizer_identity_receipt'',
      ''plugin_build_receipt'', ''plugin'', ''golden_fixture'', ''golden_receipt''] @ ENGINE_ROLES"

definition demo_staged_files :: file_map where
  "demo_staged_files =
     map (\<lambda>n. (pys n, \<lparr>fa_path = pys n, fa_sha256 = zeros 64, fa_size_bytes = 9\<rparr>)) demo_staged_names"

definition demo_cuda_identity :: cuda_runtime_identity where
  "demo_cuda_identity =
     \<lparr>cr_driver_api_version_integer = 13000, cr_runtime_version_integer = 13000,
      cr_nvidia_driver_version = pys ''580.1''\<rparr>"

definition demo_export_evidence :: export_evidence where
  "demo_export_evidence =
     \<lparr>ev_oracle_lock_sha256 = zeros 64, ev_cuda_identity = demo_cuda_identity,
      ev_cublas_identity = demo_cublas_identity, ev_mode8_class_table_sha256 = zeros 64\<rparr>"

definition demo_codec_restore :: json_object where
  "demo_codec_restore =
     [(pys ''embedded_codec_model_id'', jstr ''codec''), (pys ''codec_model_sha256'', JStr (zeros 64)),
      (pys ''codec_model_size_bytes'', JInt 1), (pys ''codec_resolution'', jstr ''authenticated_local_file''),
      (pys ''use_scl_loss'', JBool False), (pys ''network_resolution'', JBool False)]"

definition demo_export_source :: json_object where
  "demo_export_source =
     [(pys ''model_id'', jstr ''m''), (pys ''model_version'', jstr ''v''), (pys ''model_revision'', JStr (zeros 40))] @
     map (\<lambda>k. (pys k, JStr (zeros 64)))
       [''model_sha256'', ''oracle_lock_sha256'', ''canonical_fixture_manifest_sha256'',
        ''source_model_acceptance_receipt_sha256'', ''tokenizer_identity_sha256'',
        ''tokenizer_identity_receipt_sha256'', ''locked_magpie_restore_sha256''] @
     [(pys ''codec_restore'', JObj demo_codec_restore)]"

definition demo_file_entry :: json_object where
  "demo_file_entry = [(pys ''sha256'', JStr (zeros 64)), (pys ''size_bytes'', JInt 9)]"

definition demo_plugin_entry :: json_object where
  "demo_plugin_entry =
     [(pys ''role'', jstr ''runtime_plugin''), (pys ''sha256'', JStr (zeros 64)), (pys ''size_bytes'', JInt 9),
      (pys ''build_receipt_sha256'', JStr (zeros 64)), (pys ''build_receipt_size_bytes'', JInt 9)]"

definition demo_component :: "string \<times> string \<Rightarrow> json" where
  "demo_component ra = JObj
     [(pys ''role'', jstr (fst ra)), (pys ''artifact_role'', jstr (snd ra)), (pys ''receipt_sha256'', JStr (zeros 64))]"

definition demo_sequence_digest :: pystr where
  "demo_sequence_digest = replicate 64 49"

definition demo_export_receipt :: json_object where
  "demo_export_receipt =
     [(pys ''schema_version'', JInt 1), (pys ''artifact_role'', jstr ''export''), (pys ''status'', jstr ''accepted''),
      (pys ''created_at_utc'', jstr ''Z''), (pys ''source'', JObj demo_export_source),
      (pys ''runtime_dependencies'', JObj
        [(pys ''cuda'', cuda_runtime_identity_json demo_cuda_identity),
         (pys ''cublas'', cublas_runtime_identity_json demo_cublas_identity),
         (pys ''mode8_class_table_sha256'', JStr (zeros 64))]),
      (pys ''component_receipts'', JList (map demo_component expected_components)),
      (pys ''sequence_receipt_sha256'', JStr demo_sequence_digest),
      (pys ''complete_generation_receipt_sha256'', JStr (zeros 64)), (pys ''plugin'', JObj demo_plugin_entry),
      (pys ''engines'', JList (map (\<lambda>r. JObj ((pys ''role'', jstr r) # demo_file_entry)) ENGINE_ROLES)),
      (pys ''golden_fixture'', JObj demo_file_entry), (pys ''golden_receipt'', JObj demo_file_entry),
      (pys ''eos_frame_is_audio'', JBool False), (pys ''zero_frame_finalization'', jstr ZERO_FRAME_FINALIZATION)]"

definition demo_export_env :: pkg_env where
  "demo_export_env =
     \<lparr>pk_loads = (\<lambda>_. Some (JObj demo_export_receipt)), pk_float_of_int = (\<lambda>_. None),
      pk_fromisoformat = (\<lambda>_. Some (Some 0))\<rparr>"

lemma demo_staged: "n \<in> set demo_staged_names \<Longrightarrow>
    map_of demo_staged_files (pys n) = Some \<lparr>fa_path = pys n, fa_sha256 = zeros 64, fa_size_bytes = 9\<rparr>"
  by (auto simp: demo_staged_files_def demo_staged_names_def ENGINE_ROLES_def)

lemma demo_identifiers: "list_all (\<lambda>s. require_identifier (jstr s) = Inr (pys s))
    ([''export'', ''accepted'', ''authenticated_local_file'', ''runtime_plugin'', ZERO_FRAME_FINALIZATION] @
     map fst expected_components @ map snd expected_components @ ENGINE_ROLES)"
  by (simp add: require_identifier_Inr_iff identifier_pattern_def expected_components_def ENGINE_ROLES_def
      ZERO_FRAME_FINALIZATION_def)
    (simp add: pys_def is_alnum_def)

lemma demo_identifier:
  "s \<in> set [''export'', ''accepted'', ''authenticated_local_file'', ''runtime_plugin'', ZERO_FRAME_FINALIZATION] \<union>
     fst ` set expected_components \<union> snd ` set expected_components \<union> set ENGINE_ROLES \<Longrightarrow>
   require_identifier (jstr s) = Inr (pys s)"
  using demo_identifiers by (auto simp: list_all_iff)

lemma demo_sequence [simp]:
  "sha256_pattern demo_sequence_digest" "demo_sequence_digest \<noteq> []" "demo_sequence_digest \<noteq> zeros 64"
  by (simp_all add: sha256_pattern_def lower_hex_pattern_def demo_sequence_digest_def is_hex_char_def list_all_iff
      zeros_def replicate_eq_replicate)

lemmas read_run_simps = require_object_same field_def require_string_def require_sha256_def pkg_require_int_def

lemma demo_file_at: "n \<in> set demo_staged_names \<Longrightarrow>
    file_at demo_staged_files (pys n) = Inr \<lparr>fa_path = pys n, fa_sha256 = zeros 64, fa_size_bytes = 9\<rparr>"
  by (simp add: file_at_def demo_staged)

lemma demo_codec_restore_checked: "check_codec_restore (JObj demo_codec_restore) = Inr ()"
  by (simp add: check_codec_restore_def demo_codec_restore_def read_run_simps demo_identifier expect_def)

lemma demo_tokenizer_digest: "tk_identity_sha256 demo_tokenizer = zeros 64"
  by (simp add: demo_tokenizer_def demo_digest_def zeros_def)

lemma demo_export_source_checked:
  "check_source (JObj demo_export_source) demo_package demo_staged_files demo_export_evidence = Inr ()"
  by (simp add: check_source_def demo_export_source_def read_run_simps demo_codec_restore_checked demo_package_def
      demo_source_spec_def demo_tokenizer_digest demo_export_evidence_def compared_def all_agree_def demo_file_at
      demo_staged_names_def)

lemma zip_map_self: "zip (map f xs) xs = map (\<lambda>x. (f x, x)) xs"
  by (induction xs) simp_all

lemma demo_components_checked: "check_components (JList (map demo_component expected_components)) = Inr ()"
proof -
  have "check_component (demo_component ra, ra) = Inr ()" if ra: "ra \<in> set expected_components" for ra
  proof -
    have "require_identifier (jstr (fst ra)) = Inr (pys (fst ra))" "require_identifier (jstr (snd ra)) = Inr (pys (snd ra))"
      using ra by (auto intro!: demo_identifier)
    then show ?thesis by (simp add: check_component_def demo_component_def read_run_simps)
  qed
  then show ?thesis by (simp add: check_components_def all_steps_Inr_iff zip_map_self)
qed

lemma demo_engines_checked:
  "check_engines (JList (map (\<lambda>r. JObj ((pys ''role'', jstr r) # demo_file_entry)) ENGINE_ROLES)) demo_staged_files = Inr ()"
proof -
  have "bindE (file_at demo_staged_files (pys r)) (validate_inventory_item (JObj ((pys ''role'', jstr r) # demo_file_entry)) r) = Inr ()"
    if r: "r \<in> set ENGINE_ROLES" for r
  proof -
    have "require_identifier (jstr r) = Inr (pys r)" using r by (intro demo_identifier) simp
    moreover have "r \<in> set demo_staged_names" using r by (simp add: demo_staged_names_def)
    ultimately show ?thesis
      by (simp add: demo_file_at validate_inventory_item_def demo_file_entry_def read_run_simps)
  qed
  then show ?thesis by (simp add: check_engines_def all_steps_Inr_iff zip_map_self)
qed

lemma demo_plugin_entry_checked: "check_plugin_entry (JObj demo_plugin_entry) demo_staged_files = Inr ()"
  by (simp add: check_plugin_entry_def demo_plugin_entry_def read_run_simps expect_def demo_identifier compared_def
      all_agree_def demo_file_at demo_staged_names_def)

lemma demo_file_entry_checked:
  assumes "key \<in> set demo_staged_names" "map_of doc (pys key) = Some (JObj demo_file_entry)"
  shows "check_file_entry doc key demo_staged_files = Inr ()"
  using assms by (simp add: check_file_entry_def demo_file_at validate_file_identity_def demo_file_entry_def read_run_simps)

lemma demo_cuda_parsed: "parse_cuda_runtime_identity (cuda_runtime_identity_json demo_cuda_identity) = Inr demo_cuda_identity"
  by (rule parse_cuda_json)
    (simp add: cuda_wf_def demo_cuda_identity_def driver_version_pattern_def pys_def Let_def PyText.is_digit_def)

lemma demo_export_payload: "parse_json_payload demo_export_env [3] = Inr (JObj demo_export_receipt)"
  by (simp add: parse_json_payload_accepted demo_export_env_def demo_export_receipt_def demo_export_source_def
      demo_codec_restore_def demo_file_entry_def demo_plugin_entry_def demo_component_def expected_components_def
      ENGINE_ROLES_def cublas_runtime_identity_json_def loaded_library_identity_json_def cuda_runtime_identity_json_def)

lemma demo_export_loaded: "load_json_file demo_export_env (steady_view [3]) = Inr (JObj demo_export_receipt)"
  by (rule load_steady_view) (simp_all add: demo_export_payload MAX_MANIFEST_BYTES_def)

lemma demo_timestamp: "require_timestamp demo_export_env (jstr ''Z'') = Inr (pys ''Z'')"
  by (simp add: require_timestamp_Inr_iff demo_export_env_def) (simp add: pys_def)

lemma demo_export_evidence_read:
  "validate_export_receipt demo_export_env (steady_view [3]) demo_export_spec demo_source_spec = Inr demo_export_evidence"
  unfolding validate_export_receipt_def demo_export_loaded demo_export_receipt_def
  by (simp add: require_dict_def require_member_def read_run_simps demo_identifier demo_export_spec_def
      demo_export_source_def demo_source_spec_def demo_cuda_parsed demo_cublas_identity_parsed runtime_as_package_def)
    (simp add: demo_export_evidence_def)

lemma demo_export_accepted:
  "validate_consolidated_export_receipt demo_export_env (steady_view [3]) (steady_view [3]) demo_package demo_staged_files =
     Inr demo_export_evidence"
proof -
  have generation: "check_generation_receipts demo_export_receipt demo_staged_files = Inr ()"
    by (simp add: check_generation_receipts_def demo_export_receipt_def read_run_simps demo_file_at demo_staged_names_def)
  have golden: "check_file_entry demo_export_receipt key demo_staged_files = Inr ()"
    if "key \<in> {''golden_fixture'', ''golden_receipt''}" for key
    by (rule demo_file_entry_checked) (use that in \<open>auto simp: demo_staged_names_def demo_export_receipt_def\<close>)
  have spec: "ps_export demo_package = demo_export_spec" "ps_source_model demo_package = demo_source_spec"
    "ps_codec demo_package = demo_codec"
    by (simp_all add: demo_package_def)
  have keys: "require_object (JObj demo_export_receipt)
      [''schema_version'', ''artifact_role'', ''status'', ''created_at_utc'', ''source'', ''runtime_dependencies'',
       ''component_receipts'', ''sequence_receipt_sha256'', ''complete_generation_receipt_sha256'', ''plugin'',
       ''engines'', ''golden_fixture'', ''golden_receipt'', ''eos_frame_is_audio'', ''zero_frame_finalization''] =
      Inr demo_export_receipt"
    by (rule require_object_same) (simp add: demo_export_receipt_def)
  have entries: "field demo_export_receipt ''eos_frame_is_audio'' = Inr (JBool False)"
    "field demo_export_receipt ''zero_frame_finalization'' = Inr (jstr ZERO_FRAME_FINALIZATION)"
    "field demo_export_receipt ''created_at_utc'' = Inr (jstr ''Z'')"
    "field demo_export_receipt ''source'' = Inr (JObj demo_export_source)"
    "field demo_export_receipt ''component_receipts'' = Inr (JList (map demo_component expected_components))"
    "field demo_export_receipt ''plugin'' = Inr (JObj demo_plugin_entry)"
    "field demo_export_receipt ''engines'' =
       Inr (JList (map (\<lambda>r. JObj ((pys ''role'', jstr r) # demo_file_entry)) ENGINE_ROLES))"
    by (simp_all add: field_def demo_export_receipt_def)
  show ?thesis
    unfolding validate_consolidated_export_receipt_def spec demo_export_evidence_read demo_export_loaded
    by (simp add: keys entries expect_def demo_codec_def demo_identifier demo_timestamp demo_export_source_checked
        demo_components_checked generation demo_plugin_entry_checked demo_engines_checked golden)
qed

text \<open>C9: an accepted consolidated export receipt binds the bundle together: read twice, it is about the
  model of the specification, with one oracle lock, carries the returned runtime identities, and names by digest
  (and size) the staged plugin, its build receipt, the seven engines in the order of the roles, both golden
  files, the source-model receipt and the tokenizer receipt.\<close>

theorem export_receipt_binds_bundle:
  assumes "validate_consolidated_export_receipt env p q spec files = Inr evidence"
  shows "\<exists>v w. load_json_file env p = Inr v \<and> evidence_facts spec evidence v \<and>
    load_json_file env q = Inr w \<and> export_facts spec files evidence w"
  by (rule validated_export_receipt [OF assms])

theorem export_receipt_binds_bundle_witness:
  "\<exists>v w. load_json_file demo_export_env (steady_view [3]) = Inr v \<and>
    evidence_facts demo_package demo_export_evidence v \<and> load_json_file demo_export_env (steady_view [3]) = Inr w \<and>
    export_facts demo_package demo_staged_files demo_export_evidence w"
  by (rule export_receipt_binds_bundle [OF demo_export_accepted])

end
