(* ===== verification/GoldenArtifacts.thy ===== *)
theory GoldenArtifacts
  imports ExportReceipt
begin

text \<open>
  The golden receipt and fixture of \<open>tools/bundle/package_runtime_bundle.py\<close>: their records and parsers,
  \<open>prepared_token_ids_sha256\<close> and \<open>validate_golden_fixture\<close>.

  \<open>validate_golden_fixture_Inr_iff\<close> says exactly which fixtures are accepted; \<open>golden_fixture_prompt\<close> what
  that means for a fixture and a specification that were parsed from files.
\<close>

record golden_fixture_expected =
  ge_decoder_tokens_sha256 :: pystr
  ge_codec_codes_sha256 :: pystr
  ge_codec_frame_count :: int
  ge_pcm_f32le_sha256 :: pystr
  ge_pcm_sample_count :: int

record golden_fixture =
  gf_schema_version :: int
  gf_fixture_id :: pystr
  gf_prepared_token_ids :: "int list"
  gf_seed :: int
  gf_tokenizer_identity_sha256 :: pystr
  gf_oracle_lock_sha256 :: pystr
  gf_normalized_text_sha256 :: pystr
  gf_token_ids_sha256 :: pystr
  gf_baked_context_sha256 :: pystr
  gf_expected :: golden_fixture_expected

subsection \<open>Parsers\<close>

definition parse_golden_receipt :: "pkg_env \<Rightarrow> path_view \<Rightarrow> golden_receipt result" where
  "parse_golden_receipt env p =
     bindE (bindE (load_json_file env p) (\<lambda>v. require_object v
       [''receipt_version'', ''created_at_utc'', ''normalized_text_sha256'', ''token_ids_sha256'',
        ''baked_context_sha256'', ''seed'', ''decoder_tokens_sha256'', ''codec_codes_sha256'', ''codec_frame_count'',
        ''pcm_f32le_sha256'', ''sample_count'', ''initial_frames'', ''steady_frames'', ''tail_min_frames'',
        ''tail_max_frames'', ''eos_frame_is_audio'', ''zero_frame_finalization''])) (\<lambda>doc.
     bindE (int_field doc ''receipt_version'' 1 1) (\<lambda>receipt_version.
     bindE (bindE (field doc ''created_at_utc'') (require_timestamp env)) (\<lambda>created_at_utc.
     bindE (sha256_field doc ''normalized_text_sha256'') (\<lambda>normalized_text_sha256.
     bindE (sha256_field doc ''token_ids_sha256'') (\<lambda>token_ids_sha256.
     bindE (sha256_field doc ''baked_context_sha256'') (\<lambda>baked_context_sha256.
     bindE (int_field doc ''seed'' 0 max_u64) (\<lambda>seed.
     bindE (sha256_field doc ''decoder_tokens_sha256'') (\<lambda>decoder_tokens_sha256.
     bindE (sha256_field doc ''codec_codes_sha256'') (\<lambda>codec_codes_sha256.
     bindE (int_field doc ''codec_frame_count'' 1 max_u64) (\<lambda>codec_frame_count.
     bindE (sha256_field doc ''pcm_f32le_sha256'') (\<lambda>pcm_f32le_sha256.
     bindE (int_field doc ''sample_count'' 1 max_u64) (\<lambda>sample_count.
     bindE (int_field doc ''initial_frames'' 1 max_u64) (\<lambda>initial_frames.
     bindE (int_field doc ''steady_frames'' 1 max_u64) (\<lambda>steady_frames.
     bindE (int_field doc ''tail_min_frames'' 1 max_u64) (\<lambda>tail_min_frames.
     bindE (int_field doc ''tail_max_frames'' 1 max_u64) (\<lambda>tail_max_frames.
     bindE (bool_field doc ''eos_frame_is_audio'') (\<lambda>eos_frame_is_audio.
     bindE (identifier_field doc ''zero_frame_finalization'') (\<lambda>zero_frame_finalization.
     Inr \<lparr>gr_receipt_version = receipt_version, gr_created_at_utc = created_at_utc,
          gr_normalized_text_sha256 = normalized_text_sha256, gr_token_ids_sha256 = token_ids_sha256,
          gr_baked_context_sha256 = baked_context_sha256, gr_seed = seed,
          gr_decoder_tokens_sha256 = decoder_tokens_sha256, gr_codec_codes_sha256 = codec_codes_sha256,
          gr_codec_frame_count = codec_frame_count, gr_pcm_f32le_sha256 = pcm_f32le_sha256,
          gr_sample_count = sample_count, gr_initial_frames = initial_frames, gr_steady_frames = steady_frames,
          gr_tail_min_frames = tail_min_frames, gr_tail_max_frames = tail_max_frames,
          gr_eos_frame_is_audio = eos_frame_is_audio, gr_zero_frame_finalization = zero_frame_finalization\<rparr>
     ))))))))))))))))))"

definition expected_of :: "json_object \<Rightarrow> golden_fixture_expected result" where
  "expected_of doc =
     bindE (sha256_field doc ''decoder_tokens_sha256'') (\<lambda>decoder_tokens_sha256.
     bindE (sha256_field doc ''codec_codes_sha256'') (\<lambda>codec_codes_sha256.
     bindE (int_field doc ''codec_frame_count'' 1 max_u64) (\<lambda>codec_frame_count.
     bindE (sha256_field doc ''pcm_f32le_sha256'') (\<lambda>pcm_f32le_sha256.
     bindE (int_field doc ''pcm_sample_count'' 1 max_u64) (\<lambda>pcm_sample_count.
     Inr \<lparr>ge_decoder_tokens_sha256 = decoder_tokens_sha256, ge_codec_codes_sha256 = codec_codes_sha256,
          ge_codec_frame_count = codec_frame_count, ge_pcm_f32le_sha256 = pcm_f32le_sha256,
          ge_pcm_sample_count = pcm_sample_count\<rparr>)))))"

definition parse_golden_fixture :: "pkg_env \<Rightarrow> path_view \<Rightarrow> golden_fixture result" where
  "parse_golden_fixture env p =
     bindE (bindE (load_json_file env p) (\<lambda>v. require_object v
       [''schema_version'', ''fixture_id'', ''prepared_token_ids'', ''seed'', ''tokenizer_identity_sha256'',
        ''oracle_lock_sha256'', ''normalized_text_sha256'', ''token_ids_sha256'', ''baked_context_sha256'',
        ''expected''])) (\<lambda>doc.
     bindE (bindE (field doc ''expected'') (\<lambda>v. require_object v
       [''decoder_tokens_sha256'', ''codec_codes_sha256'', ''codec_frame_count'', ''pcm_f32le_sha256'',
        ''pcm_sample_count''])) (\<lambda>expected_document.
     bindE (bindE (field doc ''prepared_token_ids'') require_non_empty_list) (\<lambda>prepared.
     bindE (mapE (\<lambda>token. pkg_require_int token 0 max_i31) prepared) (\<lambda>prepared_token_ids.
     bindE (int_field doc ''schema_version'' 1 1) (\<lambda>schema_version.
     bindE (identifier_field doc ''fixture_id'') (\<lambda>fixture_id.
     bindE (int_field doc ''seed'' 0 max_u32) (\<lambda>seed.
     bindE (sha256_field doc ''tokenizer_identity_sha256'') (\<lambda>tokenizer_identity_sha256.
     bindE (sha256_field doc ''oracle_lock_sha256'') (\<lambda>oracle_lock_sha256.
     bindE (sha256_field doc ''normalized_text_sha256'') (\<lambda>normalized_text_sha256.
     bindE (sha256_field doc ''token_ids_sha256'') (\<lambda>token_ids_sha256.
     bindE (sha256_field doc ''baked_context_sha256'') (\<lambda>baked_context_sha256.
     bindE (expected_of expected_document) (\<lambda>expected.
     Inr \<lparr>gf_schema_version = schema_version, gf_fixture_id = fixture_id,
          gf_prepared_token_ids = prepared_token_ids, gf_seed = seed,
          gf_tokenizer_identity_sha256 = tokenizer_identity_sha256, gf_oracle_lock_sha256 = oracle_lock_sha256,
          gf_normalized_text_sha256 = normalized_text_sha256, gf_token_ids_sha256 = token_ids_sha256,
          gf_baked_context_sha256 = baked_context_sha256, gf_expected = expected\<rparr>)))))))))))))"

subsection \<open>The token bytes\<close>

text \<open>\<open>token_id.to_bytes(4, byteorder="little", signed=True)\<close>\<close>

definition int32_bytes :: "int \<Rightarrow> byte list result" where
  "int32_bytes i =
     (if i < - (2 ^ 31) \<or> 2 ^ 31 \<le> i then Inl (Exn PyOverflowError ''int too big to convert'')
      else Inr (map (\<lambda>k. word_of_int (i div 2 ^ (8 * k))) [0, 1, 2, 3]))"

definition prepared_token_ids_sha256 :: "int list \<Rightarrow> pystr result" where
  "prepared_token_ids_sha256 token_ids =
     bindE (mapE int32_bytes token_ids) (\<lambda>parts. Inr (sha256_bytes (concat parts)))"

subsection \<open>The fixture and its receipt\<close>

definition digest_pairs ::
  "golden_fixture \<Rightarrow> golden_receipt \<Rightarrow> package_spec \<Rightarrow> export_evidence \<Rightarrow> (pystr \<times> pystr) list"
where
  "digest_pairs fixture receipt spec evidence =
     [(gf_tokenizer_identity_sha256 fixture, tk_identity_sha256 (ps_tokenizer spec)),
      (gf_oracle_lock_sha256 fixture, ev_oracle_lock_sha256 evidence),
      (gf_normalized_text_sha256 fixture, gr_normalized_text_sha256 receipt),
      (gf_token_ids_sha256 fixture, gr_token_ids_sha256 receipt),
      (gf_baked_context_sha256 fixture, gr_baked_context_sha256 receipt),
      (ge_decoder_tokens_sha256 (gf_expected fixture), gr_decoder_tokens_sha256 receipt),
      (ge_codec_codes_sha256 (gf_expected fixture), gr_codec_codes_sha256 receipt),
      (ge_pcm_f32le_sha256 (gf_expected fixture), gr_pcm_f32le_sha256 receipt)]"

definition validate_golden_fixture ::
  "golden_fixture \<Rightarrow> golden_receipt \<Rightarrow> package_spec \<Rightarrow> export_evidence \<Rightarrow> unit result"
where
  "validate_golden_fixture fixture receipt spec evidence =
     (let tokens = gf_prepared_token_ids fixture; expected = gf_expected fixture in
     bindE (guardE (int (length tokens) > lm_maximum_text_tokens (ps_limits spec))
       (pkg_error ''golden fixture token count exceeds limits.maximum_text_tokens'')) (\<lambda>_.
     bindE (prepared_token_ids_sha256 tokens) (\<lambda>computed_token_sha256.
     bindE (guardE (computed_token_sha256 \<noteq> gf_token_ids_sha256 fixture)
       (pkg_error ''golden fixture token_ids_sha256 does not match the exact little-endian INT32 token bytes'')) (\<lambda>_.
     bindE (py_nth (rev tokens) 0) (\<lambda>final.
     bindE (guardE (final \<noteq> st_eos_token_id (tk_special_tokens (ps_tokenizer spec)))
       (pkg_error ''/prepared_token_ids: the final prepared token must be the authenticated EOS identifier'')) (\<lambda>_.
     bindE (guardE (list_ex (\<lambda>i. tk_tokenizer_vocabulary_size (ps_tokenizer spec) \<le> i) (butlast tokens))
       (pkg_error ''/prepared_token_ids/: non-final prepared tokens must be normal tokenizer rows'')) (\<lambda>_.
     bindE (guardE (list_ex (\<lambda>(actual, expected). actual \<noteq> expected) (digest_pairs fixture receipt spec evidence))
       (pkg_error ''golden fixture and receipt  SHA-256 differ'')) (\<lambda>_.
     bindE (guardE (gf_seed fixture \<noteq> gr_seed receipt)
       (pkg_error ''golden fixture and receipt seeds differ'')) (\<lambda>_.
     bindE (guardE (ge_codec_frame_count expected \<noteq> gr_codec_frame_count receipt)
       (pkg_error ''golden fixture and receipt codec frame counts differ'')) (\<lambda>_.
     bindE (guardE (ge_codec_frame_count expected > lm_maximum_audio_frames (ps_limits spec))
       (pkg_error ''golden fixture codec frame count exceeds limits.maximum_audio_frames'')) (\<lambda>_.
     bindE (guardE (gr_eos_frame_is_audio receipt \<noteq> cd_eos_frame_is_audio (ps_codec spec) \<or>
                    gr_zero_frame_finalization receipt \<noteq> cd_zero_frame_finalization (ps_codec spec))
       (pkg_error ''golden receipt and codec stream contract differ'')) (\<lambda>_.
     bindE (guardE (ge_pcm_sample_count expected \<noteq> gr_sample_count receipt)
       (pkg_error ''golden fixture and receipt PCM sample counts differ'')) (\<lambda>_.
     guardE (ge_codec_frame_count expected * cd_hop_length_samples (ps_codec spec) \<noteq> ge_pcm_sample_count expected)
       (pkg_error ''golden fixture PCM sample count does not equal codec frame count times hop length''))))))))))))))"

subsection \<open>What is accepted\<close>

definition int32_le :: "int \<Rightarrow> byte list" where
  "int32_le i = map (\<lambda>k. word_of_int (i div 2 ^ (8 * k))) [0, 1, 2, 3]"

lemma prepared_token_ids_sha256_Inr:
  "\<forall>i \<in> set tokens. - (2 ^ 31) \<le> i \<and> i < 2 ^ 31 \<Longrightarrow>
     prepared_token_ids_sha256 tokens = Inr (sha256_hex (concat (map int32_le tokens)))"
proof -
  assume "\<forall>i \<in> set tokens. - (2 ^ 31) \<le> i \<and> i < 2 ^ 31"
  then have "mapE int32_bytes tokens = Inr (map int32_le tokens)"
    by (intro mapE_all_Inr) (auto simp: int32_bytes_def int32_le_def)
  then show ?thesis by (simp add: prepared_token_ids_sha256_def sha256_bytes_def)
qed

lemma prepared_token_ids_sha256_wide:
  assumes "\<exists>i \<in> set tokens. i < - (2 ^ 31) \<or> 2 ^ 31 \<le> i"
  shows "prepared_token_ids_sha256 tokens = Inl (Exn PyOverflowError ''int too big to convert'')"
proof -
  have "mapE int32_bytes tokens = Inl (Exn PyOverflowError ''int too big to convert'')"
    using assms
  proof (induction tokens)
    case (Cons a tokens)
    show ?case
    proof (cases "a < - (2 ^ 31) \<or> 2 ^ 31 \<le> a")
      case False
      with Cons show ?thesis by (auto simp: int32_bytes_def)
    qed (simp add: int32_bytes_def)
  qed simp
  then show ?thesis by (simp add: prepared_token_ids_sha256_def)
qed

definition fixture_facts ::
  "golden_fixture \<Rightarrow> golden_receipt \<Rightarrow> package_spec \<Rightarrow> export_evidence \<Rightarrow> bool"
where
  "fixture_facts fixture receipt spec evidence \<longleftrightarrow>
     int (length (gf_prepared_token_ids fixture)) \<le> lm_maximum_text_tokens (ps_limits spec) \<and>
     gf_token_ids_sha256 fixture = sha256_hex (concat (map int32_le (gf_prepared_token_ids fixture))) \<and>
     (\<exists>front. gf_prepared_token_ids fixture = front @ [st_eos_token_id (tk_special_tokens (ps_tokenizer spec))] \<and>
        (\<forall>i \<in> set front. i < tk_tokenizer_vocabulary_size (ps_tokenizer spec))) \<and>
     list_all (\<lambda>(actual, expected). actual = expected) (digest_pairs fixture receipt spec evidence) \<and>
     gf_seed fixture = gr_seed receipt \<and>
     ge_codec_frame_count (gf_expected fixture) = gr_codec_frame_count receipt \<and>
     ge_codec_frame_count (gf_expected fixture) \<le> lm_maximum_audio_frames (ps_limits spec) \<and>
     gr_eos_frame_is_audio receipt = cd_eos_frame_is_audio (ps_codec spec) \<and>
     gr_zero_frame_finalization receipt = cd_zero_frame_finalization (ps_codec spec) \<and>
     ge_pcm_sample_count (gf_expected fixture) = gr_sample_count receipt \<and>
     ge_pcm_sample_count (gf_expected fixture) =
       ge_codec_frame_count (gf_expected fixture) * cd_hop_length_samples (ps_codec spec)"

lemma validate_golden_fixture_Inr_iff:
  assumes range: "\<forall>i \<in> set (gf_prepared_token_ids fixture). - (2 ^ 31) \<le> i \<and> i < 2 ^ 31"
  shows "validate_golden_fixture fixture receipt spec evidence = Inr () \<longleftrightarrow> fixture_facts fixture receipt spec evidence"
proof (cases "gf_prepared_token_ids fixture" rule: rev_cases)
  case Nil
  then show ?thesis
    by (auto simp: validate_golden_fixture_def fixture_facts_def result_simps Let_def py_nth_def)
next
  case (snoc front final)
  have digests: "(list_ex (\<lambda>(actual, expected). actual \<noteq> expected) ps) = (\<not> list_all (\<lambda>(actual, expected). actual = expected) ps)"
    for ps :: "(pystr \<times> pystr) list"
    by (induction ps) auto
  have rows: "(\<not> list_ex (\<lambda>i. v \<le> i) is) = (\<forall>i \<in> set is. i < v)" for v :: int and "is"
    by (auto simp: list_ex_iff)
  show ?thesis
    unfolding validate_golden_fixture_def fixture_facts_def Let_def prepared_token_ids_sha256_Inr [OF range] digests
    by (simp add: bindE_eq_Inr guardE_eq_Inr snoc py_nth_def rows) auto
qed

lemma parse_golden_fixture_tokens:
  assumes "parse_golden_fixture env p = Inr fixture"
  shows "gf_prepared_token_ids fixture \<noteq> []" "\<forall>i \<in> set (gf_prepared_token_ids fixture). 0 \<le> i \<and> i < 2 ^ 31"
proof -
  from assms obtain vs tokens where vs: "vs \<noteq> []" "mapE (\<lambda>token. pkg_require_int token 0 max_i31) vs = Inr tokens"
    and tokens: "gf_prepared_token_ids fixture = tokens"
    unfolding parse_golden_fixture_def
    by (auto simp: bindE_eq_Inr require_non_empty_list_Inr_iff)
  have "length tokens = length vs" using mapE_length [OF vs(2)] .
  with vs(1) tokens show "gf_prepared_token_ids fixture \<noteq> []" by auto
  have "\<forall>i \<in> set tokens. 0 \<le> i \<and> i < 2 ^ 31"
    using vs(2) unfolding mapE_Inr_iff list_all2_conv_all_nth all_set_conv_all_nth
    by (auto simp: pkg_require_int_Inr_iff)
  with tokens show "\<forall>i \<in> set (gf_prepared_token_ids fixture). 0 \<le> i \<and> i < 2 ^ 31" by simp
qed

subsection \<open>Properties\<close>

lemma demo_package_sections:
  "\<exists>s. parse_package_spec demo_env demo_package_json = Inr s \<and> ps_tokenizer s = demo_tokenizer \<and>
     ps_codec s = demo_codec \<and> lm_maximum_text_tokens (ps_limits s) = 512 \<and>
     lm_maximum_audio_frames (ps_limits s) = 512"
proof -
  obtain sm ex kv where
    "parse_source_model demo_source_model_json = Inr sm" "parse_export demo_export_json = Inr ex"
    "parse_kv_cache demo_kv_json = Inr kv"
    using demo_source_model_parse demo_export_parse demo_kv_parse by blast
  moreover obtain lm where "parse_limits demo_limits_json = Inr lm" "lm_maximum_text_tokens lm = 512"
    "lm_maximum_audio_frames lm = 512"
    by (simp add: parse_limits_def demo_limits_json_def demo_json_def section_eval)
  ultimately show ?thesis
    by (simp add: parse_package_spec_def demo_package_json_def demo_json_def section_eval
        PACKAGE_SCHEMA_VERSION_def demo_tokenizer_parse demo_cfg_parse demo_alignment_parse
        demo_sampling_parse demo_local_ar_parse demo_codec_parse demo_destinations_parse
        parse_plugin_def require_timestamp_def demo_env_def)
qed

definition demo_token_digest :: pystr where
  "demo_token_digest = sha256_hex (concat (map int32_le [5, 101]))"

definition demo_fixture :: golden_fixture where
  "demo_fixture =
     \<lparr>gf_schema_version = 1, gf_fixture_id = pys ''demo'', gf_prepared_token_ids = [5, 101], gf_seed = 7,
      gf_tokenizer_identity_sha256 = zeros 64, gf_oracle_lock_sha256 = zeros 64,
      gf_normalized_text_sha256 = zeros 64, gf_token_ids_sha256 = demo_token_digest,
      gf_baked_context_sha256 = zeros 64,
      gf_expected = \<lparr>ge_decoder_tokens_sha256 = zeros 64, ge_codec_codes_sha256 = zeros 64,
        ge_codec_frame_count = 2, ge_pcm_f32le_sha256 = zeros 64, ge_pcm_sample_count = 2048\<rparr>\<rparr>"

definition demo_golden_receipt :: golden_receipt where
  "demo_golden_receipt =
     \<lparr>gr_receipt_version = 1, gr_created_at_utc = pys ''Z'', gr_normalized_text_sha256 = zeros 64,
      gr_token_ids_sha256 = demo_token_digest, gr_baked_context_sha256 = zeros 64, gr_seed = 7,
      gr_decoder_tokens_sha256 = zeros 64, gr_codec_codes_sha256 = zeros 64, gr_codec_frame_count = 2,
      gr_pcm_f32le_sha256 = zeros 64, gr_sample_count = 2048, gr_initial_frames = 4, gr_steady_frames = 8,
      gr_tail_min_frames = 1, gr_tail_max_frames = 8, gr_eos_frame_is_audio = False,
      gr_zero_frame_finalization = pys ZERO_FRAME_FINALIZATION\<rparr>"

definition demo_expected_json :: json_object where
  "demo_expected_json =
     [(pys ''decoder_tokens_sha256'', JStr (zeros 64)), (pys ''codec_codes_sha256'', JStr (zeros 64)),
      (pys ''codec_frame_count'', JInt 2), (pys ''pcm_f32le_sha256'', JStr (zeros 64)),
      (pys ''pcm_sample_count'', JInt 2048)]"

definition demo_fixture_json :: json_object where
  "demo_fixture_json =
     [(pys ''schema_version'', JInt 1), (pys ''fixture_id'', jstr ''demo''),
      (pys ''prepared_token_ids'', JList [JInt 5, JInt 101]), (pys ''seed'', JInt 7),
      (pys ''tokenizer_identity_sha256'', JStr (zeros 64)), (pys ''oracle_lock_sha256'', JStr (zeros 64)),
      (pys ''normalized_text_sha256'', JStr (zeros 64)), (pys ''token_ids_sha256'', JStr demo_token_digest),
      (pys ''baked_context_sha256'', JStr (zeros 64)), (pys ''expected'', JObj demo_expected_json)]"

definition demo_fixture_env :: pkg_env where
  "demo_fixture_env =
     \<lparr>pk_loads = (\<lambda>_. Some (JObj demo_fixture_json)), pk_float_of_int = (\<lambda>_. None),
      pk_fromisoformat = (\<lambda>_. None)\<rparr>"

lemma demo_token_digest_ok [simp]: "sha256_pattern demo_token_digest" "demo_token_digest \<noteq> []"
  by (simp_all add: demo_token_digest_def)

lemma demo_fixture_parsed: "parse_golden_fixture demo_fixture_env (steady_view [5]) = Inr demo_fixture"
proof -
  have "parse_json_payload demo_fixture_env [5] = Inr (JObj demo_fixture_json)"
    by (simp add: parse_json_payload_accepted demo_fixture_env_def demo_fixture_json_def demo_expected_json_def)
  then have load: "load_json_file demo_fixture_env (steady_view [5]) = Inr (JObj demo_fixture_json)"
    by (intro load_steady_view) (simp_all add: MAX_MANIFEST_BYTES_def)
  have demo: "require_identifier (jstr ''demo'') = Inr (pys ''demo'')"
    by (simp add: require_identifier_Inr_iff identifier_pattern_def pys_def is_alnum_def)
  show ?thesis
    by (simp add: parse_golden_fixture_def load demo_fixture_json_def demo_expected_json_def read_run_simps demo
        require_non_empty_list_def expected_of_def)
      (simp add: demo_fixture_def)
qed

text \<open>C18: the prompt of an accepted golden fixture, for a specification parsed from its document: the
  prepared tokens are normal rows of the tokenizer followed by exactly one end-of-sequence token, within the
  limit; their digest is that of the little-endian 32-bit bytes; every digest agrees with the golden receipt,
  the tokenizer identity and the oracle lock; and the audio has exactly frames times hop length samples.\<close>

theorem golden_fixture_prompt:
  assumes "parse_package_spec env v = Inr spec" and "parse_golden_fixture env' p = Inr fixture"
    and "validate_golden_fixture fixture receipt spec evidence = Inr ()"
  shows "\<exists>front. let eos = st_eos_token_id (tk_special_tokens (ps_tokenizer spec));
             tokens = gf_prepared_token_ids fixture; expected = gf_expected fixture
    in tokens = front @ [eos] \<and> set front \<subseteq> {0..<tk_tokenizer_vocabulary_size (ps_tokenizer spec)} \<and> eos \<notin> set front \<and>
       int (length tokens) \<le> lm_maximum_text_tokens (ps_limits spec) \<and>
       gf_token_ids_sha256 fixture = sha256_hex (concat (map int32_le tokens)) \<and>
       list_all (\<lambda>(actual, expected). actual = expected) (digest_pairs fixture receipt spec evidence) \<and>
       gf_seed fixture = gr_seed receipt \<and> ge_codec_frame_count expected = gr_codec_frame_count receipt \<and>
       ge_codec_frame_count expected \<le> lm_maximum_audio_frames (ps_limits spec) \<and>
       ge_pcm_sample_count expected = ge_codec_frame_count expected * cd_hop_length_samples (ps_codec spec)"
proof -
  let ?t = "ps_tokenizer spec"
  have range: "\<forall>i \<in> set (gf_prepared_token_ids fixture). 0 \<le> i \<and> i < 2 ^ 31"
    by (rule parse_golden_fixture_tokens(2) [OF assms(2)])
  then have "\<forall>i \<in> set (gf_prepared_token_ids fixture). - (2 ^ 31) \<le> i \<and> i < 2 ^ 31" by fastforce
  from validate_golden_fixture_Inr_iff [OF this] assms(3)
  have facts: "fixture_facts fixture receipt spec evidence" by blast
  obtain w where "parse_tokenizer w = Inr ?t"
    using assms(1) by (rule parse_package_spec_sections) blast
  from parse_tokenizer_bounds [OF this]
  have "tk_tokenizer_vocabulary_size ?t \<le> st_eos_token_id (tk_special_tokens ?t)" by simp
  moreover from facts obtain front where
    "gf_prepared_token_ids fixture = front @ [st_eos_token_id (tk_special_tokens ?t)]"
    "\<forall>i \<in> set front. i < tk_tokenizer_vocabulary_size ?t"
    by (auto simp: fixture_facts_def)
  ultimately have "gf_prepared_token_ids fixture = front @ [st_eos_token_id (tk_special_tokens ?t)] \<and>
      set front \<subseteq> {0..<tk_tokenizer_vocabulary_size ?t} \<and> st_eos_token_id (tk_special_tokens ?t) \<notin> set front"
    using range by fastforce
  with facts show ?thesis unfolding fixture_facts_def Let_def by blast
qed

theorem golden_fixture_prompt_witness:
  "\<exists>spec front. parse_package_spec demo_env demo_package_json = Inr spec \<and>
     validate_golden_fixture demo_fixture demo_golden_receipt spec demo_export_evidence = Inr () \<and>
     [5, 101] = front @ [101 :: int] \<and> 101 \<notin> set front"
proof -
  obtain s where s: "parse_package_spec demo_env demo_package_json = Inr s" "ps_tokenizer s = demo_tokenizer"
    "ps_codec s = demo_codec" "lm_maximum_text_tokens (ps_limits s) = 512" "lm_maximum_audio_frames (ps_limits s) = 512"
    using demo_package_sections by blast
  have "fixture_facts demo_fixture demo_golden_receipt s demo_export_evidence"
    unfolding fixture_facts_def s(2-)
    by (simp add: demo_fixture_def demo_golden_receipt_def demo_codec_def demo_token_digest_def digest_pairs_def s(2)
        demo_export_evidence_def demo_tokenizer_digest)
      (simp add: demo_tokenizer_def demo_special_tokens_def)
  then have valid: "validate_golden_fixture demo_fixture demo_golden_receipt s demo_export_evidence = Inr ()"
    by (subst validate_golden_fixture_Inr_iff) (simp_all add: demo_fixture_def)
  have eos: "st_eos_token_id (tk_special_tokens (ps_tokenizer s)) = 101"
    by (simp add: s(2) demo_tokenizer_def demo_special_tokens_def)
  from golden_fixture_prompt [OF s(1) demo_fixture_parsed valid]
  obtain front where "gf_prepared_token_ids demo_fixture = front @ [101]" "101 \<notin> set front"
    unfolding Let_def eos by blast
  then have "\<exists>front. [5, 101] = front @ [101 :: int] \<and> 101 \<notin> set front" by (auto simp: demo_fixture_def)
  with s(1) valid show ?thesis by blast
qed

end
