(* ===== verification/BundleSnapshot.thy ===== *)
theory BundleSnapshot
  imports OsFiles EnginePlans "HOL-Library.AList"
begin

text \<open>
  The inventory of a staged bundle and its last verification (\<open>bundle_inventory_entry\<close>,
  \<open>scan_bundle_inventory\<close>, \<open>expected_bundle_directories\<close>, \<open>verify_file_artifact_again\<close> and
  \<open>verify_exact_bundle_snapshot\<close> of \<open>tools/bundle/package_runtime_bundle.py\<close>).

  What the operating system shows at one moment is a tree of nodes with their \<open>lstat\<close> results; other
  processes may change the tree between two system calls, so the two scans of a verification get a tree
  each, and reading a file is the record of what its descriptor answered (\<open>file_read\<close>: the status before,
  the chunks until the end of the file, the status after). A dictionary is an association list with
  distinct keys, updated by \<open>AList.update\<close>.

  \<open>scan_bundle_inventory_exact\<close> shows that a scan lists exactly the nodes of the tree, and
  \<open>entries_hold_exactly\<close> combines it with the digests. The law used of the operating system is
  \<open>quiet_between\<close>: the change times reveal every change made between two scans.
\<close>

subsection \<open>The tree\<close>

datatype disk_node =
  Node (node_stat: os_stat) (node_bytes: "byte list") (node_children: "(pystr \<times> disk_node) list")

definition is_dir :: "disk_node \<Rightarrow> bool" where "is_dir n \<longleftrightarrow> s_isdir (node_stat n)"
definition is_reg :: "disk_node \<Rightarrow> bool" where "is_reg n \<longleftrightarrow> s_isreg (node_stat n)"

subsection \<open>Scanning\<close>

record bundle_inventory_entry =
  bi_mode :: nat
  bi_device :: nat
  bi_inode :: nat
  bi_size_bytes :: int
  bi_mtime_ns :: int
  bi_ctime_ns :: int

definition inventory_entry :: "os_stat \<Rightarrow> bundle_inventory_entry" where
  "inventory_entry s =
     \<lparr>bi_mode = st_mode s, bi_device = st_dev s, bi_inode = st_ino s, bi_size_bytes = st_size s,
      bi_mtime_ns = st_mtime_ns s, bi_ctime_ns = st_ctime_ns s\<rparr>"

type_synonym inventory = "(pystr \<times> bundle_inventory_entry) list"

definition relative_name :: "pystr \<Rightarrow> pystr \<Rightarrow> pystr" where
  "relative_name rel name = (if rel = [] then name else rel @ [47] @ name)"

type_synonym pending = "(pystr \<times> disk_node) list"

fun scan_entries ::
  "pystr \<Rightarrow> (pystr \<times> disk_node) list \<Rightarrow> inventory \<Rightarrow> pending \<Rightarrow> (inventory \<times> pending) result"
where
  "scan_entries rel [] items pending = Inr (items, pending)"
| "scan_entries rel ((name, node) # entries) items pending =
     bindE (guardE (s_islnk (node_stat node)) (pkg_error ''bundle inventory contains a symbolic link: '')) (\<lambda>_.
     bindE (guardE (\<not> (is_dir node \<or> is_reg node)) (pkg_error ''bundle inventory contains a non-file entry: '')) (\<lambda>_.
     scan_entries rel entries
       (AList.update (relative_name rel name) (inventory_entry (node_stat node)) items)
       (if is_dir node then (relative_name rel name, node) # pending else pending)))"

text \<open>\<open>pending\<close> is a stack: its last element in the source is the head here.\<close>

fun node_weight :: "disk_node \<Rightarrow> nat" where
  "node_weight (Node s b cs) = Suc (sum_list (map (\<lambda>c. node_weight (snd c)) cs))"

lemma scan_entries_weight:
  "scan_entries rel es items pending = Inr (items', pending') \<Longrightarrow>
   sum_list (map (node_weight \<circ> snd) pending') \<le>
     sum_list (map (node_weight \<circ> snd) pending) + sum_list (map (node_weight \<circ> snd) es)"
  by (induction rel es items pending rule: scan_entries.induct)
    (fastforce simp: bindE_eq_Inr guardE_eq_Inr split: if_splits)+

lemma node_weight_children:
  "sum_list (map (node_weight \<circ> snd) (node_children n)) < node_weight n"
  by (cases n) (simp add: comp_def)

lemma weight_sort_key:
  "sum_list (map (node_weight \<circ> snd) (sort_key fst es)) = sum_list (map (node_weight \<circ> snd) es)"
  by (metis mset_map mset_sort sum_mset_sum_list)

function scan_loop :: "pending \<Rightarrow> inventory \<Rightarrow> inventory result" where
  "scan_loop [] items = Inr items"
| "scan_loop ((rel, node) # pending) items =
     bindE (scan_entries rel (sort_key fst (node_children node)) items pending)
       (\<lambda>(items, pending). scan_loop pending items)"
  by pat_completeness auto

termination
proof (relation "measure (\<lambda>(pending, items). sum_list (map (node_weight \<circ> snd) pending))")
  fix rel node pending items x items' pending'
  assume "scan_entries rel (sort_key fst (node_children node)) items pending = Inr x"
    and "(items', pending') = x"
  then have "sum_list (map (node_weight \<circ> snd) pending') \<le>
      sum_list (map (node_weight \<circ> snd) pending) + sum_list (map (node_weight \<circ> snd) (node_children node))"
    using scan_entries_weight weight_sort_key by metis
  with node_weight_children [of node]
  show "((pending', items'), (rel, node) # pending, items)
      \<in> measure (\<lambda>(pending, items). sum_list (map (node_weight \<circ> snd) pending))"
    by simp
qed simp

definition scan_bundle_inventory :: "disk_node \<Rightarrow> inventory result" where
  "scan_bundle_inventory staged =
     bindE (guardE (s_islnk (node_stat staged) \<or> \<not> is_dir staged)
       (pkg_error ''bundle staging root must be a nonsymlink directory'')) (\<lambda>_.
     scan_loop [([], staged)] [([], inventory_entry (node_stat staged))])"

subsection \<open>Verifying the snapshot\<close>

text \<open>The parents of a relative path with these components, the path itself included, up to \<open>"."\<close>.\<close>

function parent_dirs :: "pystr list \<Rightarrow> pystr set" where
  "parent_dirs [] = {}"
| "parent_dirs (c # cs) = insert (join_slash (c # cs)) (parent_dirs (butlast (c # cs)))"
  by pat_completeness auto
termination by (relation "measure length") simp_all

definition expected_bundle_directories :: "pystr list \<Rightarrow> pystr set" where
  "expected_bundle_directories files =
     insert [] (\<Union> (set (map (\<lambda>f. parent_dirs (butlast (pure_components f))) files)))"

text \<open>Opening may fail; \<open>reads\<close> gives the exception or the answers of the descriptor.\<close>

definition verify_file_artifact_again :: "(pystr \<Rightarrow> file_read result) \<Rightarrow> file_artifact \<Rightarrow> unit result" where
  "verify_file_artifact_again reads artifact =
     bindE (reads (fa_path artifact)) (\<lambda>r.
     bindE (guardE (\<not> s_isreg (fr_before r))
       (pkg_error ''bundle artifact is no longer a regular file: '')) (\<lambda>_.
     bindE (guardE (st_size (fr_before r) \<noteq> fa_size_bytes artifact)
       (pkg_error ''bundle artifact size changed after validation: '')) (\<lambda>_.
     bindE (guardE (\<not> stable_fields r \<or> int (length (read_until_eof r)) \<noteq> st_size (fr_before r))
       (pkg_error ''bundle artifact changed during post-validator verification: '')) (\<lambda>_.
     guardE (sha256_hex (read_until_eof r) \<noteq> fa_sha256 artifact)
       (pkg_error ''bundle artifact digest changed after validation: '')))))"

definition artifacts_in_order :: "file_artifact list \<Rightarrow> file_artifact list" where
  "artifacts_in_order expected = sort_key fa_path expected"

definition verify_exact_bundle_snapshot ::
  "disk_node \<Rightarrow> (pystr \<Rightarrow> file_read result) \<Rightarrow> disk_node \<Rightarrow> file_artifact list \<Rightarrow> unit result"
where
  "verify_exact_bundle_snapshot first_tree reads second_tree expected =
     bindE (guardE (\<not> distinct (map fa_path expected))
       (pkg_error ''post-validator bundle inventory has duplicate paths'')) (\<lambda>_.
     bindE (scan_bundle_inventory first_tree) (\<lambda>before.
     bindE (guardE (set (map fst before) \<noteq>
                    set (map fa_path expected) \<union> expected_bundle_directories (map fa_path expected))
       (pkg_error ''post-validator bundle entry set mismatch: '')) (\<lambda>_.
     bindE (mapE (verify_file_artifact_again reads) (artifacts_in_order expected)) (\<lambda>_.
     bindE (scan_bundle_inventory second_tree) (\<lambda>after.
     guardE (set after \<noteq> set before)
       (pkg_error ''bundle inventory changed during post-validator verification''))))))"

subsection \<open>A scan lists exactly the nodes of the tree\<close>

fun tree_wf :: "disk_node \<Rightarrow> bool" where
  "tree_wf (Node s b cs) \<longleftrightarrow>
     distinct (map fst cs) \<and> (\<forall>c \<in> set cs. fst c \<noteq> [] \<and> fst c \<noteq> [46] \<and> 47 \<notin> set (fst c) \<and> tree_wf (snd c))"

fun node_at :: "disk_node \<Rightarrow> pystr list \<Rightarrow> disk_node option" where
  "node_at n [] = Some n"
| "node_at n (c # cs) =
     (if is_dir n then case map_of (node_children n) c of None \<Rightarrow> None | Some m \<Rightarrow> node_at m cs else None)"

definition names_ok :: "pystr list \<Rightarrow> bool" where
  "names_ok cs \<longleftrightarrow> (\<forall>c \<in> set cs. c \<noteq> [] \<and> c \<noteq> [46] \<and> 47 \<notin> set c)"

lemma tree_wf_children:
  assumes "tree_wf n" and "(c, m) \<in> set (node_children n)"
  shows "map_of (node_children n) c = Some m" and "c \<noteq> []" and "47 \<notin> set c" and "tree_wf m" and "c \<noteq> [46]"
  using assms by (cases n; force)+

lemma node_at_names:
  "tree_wf n \<Longrightarrow> node_at n cs = Some m \<Longrightarrow> names_ok cs \<and> tree_wf m"
proof (induction n cs rule: node_at.induct)
  case (2 n c cs)
  from "2.prems"(2) obtain k where k: "is_dir n" "map_of (node_children n) c = Some k" "node_at k cs = Some m"
    by (auto split: if_splits option.splits)
  from map_of_SomeD [OF k(2)] have "c \<noteq> []" "c \<noteq> [46]" "47 \<notin> set c" "tree_wf k"
    using tree_wf_children [OF "2.prems"(1)] by blast+
  with "2.IH" [OF k(1,2) _ k(3)] show ?case by (simp add: names_ok_def)
qed (simp add: names_ok_def)

lemma join_slash_eq_Nil: "names_ok cs \<Longrightarrow> join_slash cs = [] \<longleftrightarrow> cs = []"
  by (cases cs rule: join_slash.cases) (auto simp: names_ok_def)

lemma join_slash_inject:
  assumes "names_ok cs" and "names_ok ds" and "join_slash cs = join_slash ds"
  shows "cs = ds"
proof (cases "cs = [] \<or> ds = []")
  case True
  with assms join_slash_eq_Nil show ?thesis by (metis join_slash.simps(1))
next
  case False
  have "split_slash (join_slash cs) = cs" "split_slash (join_slash ds) = ds"
    using False assms(1,2) by (simp_all add: names_ok_def split_join_slash)
  with assms(3) show ?thesis by metis
qed

definition listing :: "disk_node \<Rightarrow> (pystr \<times> bundle_inventory_entry) set" where
  "listing tree = {(join_slash cs, inventory_entry (node_stat n)) | cs n. node_at tree cs = Some n}"

lemma listing_functional:
  assumes "tree_wf tree" and "(k, v) \<in> listing tree" and "(k, w) \<in> listing tree"
  shows "v = w"
proof -
  from assms(2,3) obtain cs n ds m where
    n: "k = join_slash cs" "v = inventory_entry (node_stat n)" "node_at tree cs = Some n" and
    m: "k = join_slash ds" "w = inventory_entry (node_stat m)" "node_at tree ds = Some m"
    unfolding listing_def by blast
  from n m assms(1) have "cs = ds" using node_at_names join_slash_inject by metis
  with n m show ?thesis by simp
qed

text \<open>The names below a directory reached under the relative name \<open>rel\<close>.\<close>

definition under :: "pystr \<Rightarrow> pystr list \<Rightarrow> pystr" where
  "under rel cs = (if rel = [] then join_slash cs else rel @ [47] @ join_slash cs)"

definition below :: "pystr \<times> disk_node \<Rightarrow> pystr set" where
  "below p = {under (fst p) cs | cs. cs \<noteq> [] \<and> node_at (snd p) cs \<noteq> None}"

lemma under_Cons:
  "c \<noteq> [] \<Longrightarrow> cs \<noteq> [] \<Longrightarrow> under rel (c # cs) = under (relative_name rel c) cs"
  by (simp add: under_def relative_name_def join_slash_Cons)

lemma under_single [simp]: "under rel [c] = relative_name rel c"
  by (simp add: under_def relative_name_def)

lemma below_file: "\<not> is_dir n \<Longrightarrow> below (rel, n) = {}"
  by (auto simp: below_def neq_Nil_conv)

lemma below_directory:
  assumes "tree_wf n" and "is_dir n"
  shows "below (rel, n) =
    (\<Union>(c, m) \<in> set (node_children n). insert (relative_name rel c) (below (relative_name rel c, m)))"
proof (intro equalityI subsetI)
  fix k assume "k \<in> below (rel, n)"
  then obtain c cs where k: "k = under rel (c # cs)" "node_at n (c # cs) \<noteq> None"
    by (auto simp: below_def neq_Nil_conv)
  then obtain m where m: "map_of (node_children n) c = Some m" "node_at m cs \<noteq> None"
    by (auto split: if_splits option.splits)
  from m(1) have cm: "(c, m) \<in> set (node_children n)" by (rule map_of_SomeD)
  show "k \<in> (\<Union>(c, m) \<in> set (node_children n). insert (relative_name rel c) (below (relative_name rel c, m)))"
  proof (cases "cs = []")
    case True
    with k cm show ?thesis by force
  next
    case False
    with k(1) tree_wf_children(2) [OF assms(1) cm] have "k = under (relative_name rel c) cs"
      by (simp add: under_Cons)
    with m(2) False have "k \<in> below (relative_name rel c, m)" by (auto simp: below_def)
    with cm show ?thesis by blast
  qed
next
  fix k assume "k \<in> (\<Union>(c, m) \<in> set (node_children n). insert (relative_name rel c) (below (relative_name rel c, m)))"
  then obtain c m where cm: "(c, m) \<in> set (node_children n)"
    and k: "k = relative_name rel c \<or> k \<in> below (relative_name rel c, m)" by blast
  note wf = tree_wf_children [OF assms(1) cm]
  from k show "k \<in> below (rel, n)"
  proof
    assume "k = relative_name rel c"
    then show ?thesis using wf assms(2)
      by (auto simp: below_def intro!: exI [of _ "[c]"])
  next
    assume "k \<in> below (relative_name rel c, m)"
    then obtain cs where "k = under (relative_name rel c) cs" "cs \<noteq> []" "node_at m cs \<noteq> None"
      by (auto simp: below_def)
    then show ?thesis using wf assms(2)
      by (auto simp: below_def under_Cons intro!: exI [of _ "c # cs"])
  qed
qed

text \<open>The entries of one directory, as an update of the dictionary and of the stack.\<close>

lemma scan_entries_Cons:
  "scan_entries rel ((name, node) # es) items pending = Inr r \<longleftrightarrow>
     \<not> s_islnk (node_stat node) \<and> (is_dir node \<or> is_reg node) \<and>
     scan_entries rel es (AList.update (relative_name rel name) (inventory_entry (node_stat node)) items)
       (if is_dir node then (relative_name rel name, node) # pending else pending) = Inr r"
  by (auto simp: bindE_eq_Inr guardE_eq_Inr)

lemma scan_entries_values:
  "scan_entries rel es items pending = Inr (items', pending') \<Longrightarrow> map_of items' k = Some v \<Longrightarrow>
   map_of items k = Some v \<or>
   (\<exists>c m. (c, m) \<in> set es \<and> k = relative_name rel c \<and> v = inventory_entry (node_stat m))"
proof (induction es arbitrary: items pending)
  case (Cons e es)
  obtain c m where e: "e = (c, m)" by fastforce
  from Cons.IH [OF _ Cons.prems(2)] Cons.prems(1) show ?case
    unfolding e scan_entries_Cons by (fastforce simp: update_conv split: if_splits)
qed simp

lemma scan_entries_dom:
  "scan_entries rel es items pending = Inr (items', pending') \<Longrightarrow>
   dom (map_of items') = dom (map_of items) \<union> (\<lambda>(c, m). relative_name rel c) ` set es"
proof (induction es arbitrary: items pending)
  case (Cons e es)
  obtain c m where e: "e = (c, m)" by fastforce
  from Cons.prems have scan: "scan_entries rel es
      (AList.update (relative_name rel c) (inventory_entry (node_stat m)) items)
      (if is_dir m then (relative_name rel c, m) # pending else pending) = Inr (items', pending')"
    unfolding e scan_entries_Cons by blast
  show ?case unfolding Cons.IH [OF scan] by (simp add: e update_conv')
qed simp

lemma scan_entries_pending:
  "scan_entries rel es items pending = Inr (items', pending') \<Longrightarrow>
   set pending' = set pending \<union> {(relative_name rel c, m) | c m. (c, m) \<in> set es \<and> is_dir m}"
proof (induction es arbitrary: items pending)
  case (Cons e es)
  obtain c m where e: "e = (c, m)" by fastforce
  from Cons.IH Cons.prems show ?case
    unfolding e scan_entries_Cons by (fastforce split: if_splits)
qed simp

lemma scan_entries_kinds:
  "scan_entries rel es items pending = Inr r \<Longrightarrow> (c, m) \<in> set es \<Longrightarrow> is_dir m \<or> is_reg m"
proof (induction es arbitrary: items pending)
  case (Cons e es)
  obtain c m where e: "e = (c, m)" by fastforce
  from Cons show ?case unfolding e scan_entries_Cons by auto
qed simp

lemma scan_entries_distinct:
  "scan_entries rel es items pending = Inr (items', pending') \<Longrightarrow> distinct (map fst items) \<Longrightarrow>
   distinct (map fst items')"
proof (induction es arbitrary: items pending)
  case (Cons e es)
  obtain c m where e: "e = (c, m)" by fastforce
  from Cons show ?case unfolding e scan_entries_Cons by (metis distinct_update)
qed simp

text \<open>The loop over the stack.\<close>

definition entry_kind_ok :: "bundle_inventory_entry \<Rightarrow> bool" where
  "entry_kind_ok e \<longleftrightarrow> bi_mode e div 4096 mod 16 = 4 \<or> bi_mode e div 4096 mod 16 = 8"

definition items_ok :: "disk_node \<Rightarrow> inventory \<Rightarrow> bool" where
  "items_ok tree items \<longleftrightarrow> distinct (map fst items) \<and>
     (\<forall>k v. map_of items k = Some v \<longrightarrow> (k, v) \<in> listing tree \<and> entry_kind_ok v)"

definition pending_ok :: "disk_node \<Rightarrow> pystr \<times> disk_node \<Rightarrow> bool" where
  "pending_ok tree p \<longleftrightarrow> is_dir (snd p) \<and> tree_wf (snd p) \<and>
     (\<exists>pre. names_ok pre \<and> fst p = join_slash pre \<and> node_at tree pre = Some (snd p))"

lemma node_at_snoc:
  "node_at tree pre = Some n \<Longrightarrow> is_dir n \<Longrightarrow> map_of (node_children n) c = Some m \<Longrightarrow>
   node_at tree (pre @ [c]) = Some m"
  by (induction tree pre rule: node_at.induct) (auto split: if_splits option.splits)

lemma node_at_append:
  "node_at tree (pre @ c # cs) = Some m \<Longrightarrow> node_at tree pre = Some n \<Longrightarrow> is_dir n"
  by (induction tree pre rule: node_at.induct) (auto split: if_splits option.splits)

lemma join_slash_snoc:
  "join_slash (pre @ [c]) = (if pre = [] then c else join_slash pre @ [47] @ c)"
  by (induction pre rule: join_slash.induct) auto

lemma relative_name_join:
  "names_ok pre \<Longrightarrow> relative_name (join_slash pre) c = join_slash (pre @ [c])"
  by (simp add: relative_name_def join_slash_snoc join_slash_eq_Nil)

lemma pending_child:
  assumes "pending_ok tree (rel, n)" and "(c, m) \<in> set (node_children n)"
  shows "\<exists>pre. names_ok pre \<and> relative_name rel c = join_slash pre \<and> node_at tree pre = Some m"
proof -
  from assms(1) obtain pre where pre: "names_ok pre" "rel = join_slash pre" "node_at tree pre = Some n"
    and n: "is_dir n" "tree_wf n" by (auto simp: pending_ok_def)
  note wf = tree_wf_children [OF n(2) assms(2)]
  from pre wf(2,3,5) have "names_ok (pre @ [c])" by (simp add: names_ok_def)
  moreover from pre have "relative_name rel c = join_slash (pre @ [c])" by (simp add: relative_name_join)
  moreover have "node_at tree (pre @ [c]) = Some m" by (rule node_at_snoc [OF pre(3) n(1) wf(1)])
  ultimately show ?thesis by blast
qed

lemma scan_directory:
  assumes p: "pending_ok tree (rel, n)" and items: "items_ok tree items"
    and pending: "\<forall>q \<in> set pending. pending_ok tree q"
    and scan: "scan_entries rel (sort_key fst (node_children n)) items pending = Inr (items', pending')"
  shows "items_ok tree items'" and "\<forall>q \<in> set pending'. pending_ok tree q"
    and "dom (map_of items') \<union> \<Union> (below ` set pending') =
      dom (map_of items) \<union> below (rel, n) \<union> \<Union> (below ` set pending)"
proof -
  from p have wf: "tree_wf n" "is_dir n" by (simp_all add: pending_ok_def)
  have "(k, v) \<in> listing tree \<and> entry_kind_ok v" if "map_of items' k = Some v" for k v
    using scan_entries_values [OF scan that]
  proof
    assume "map_of items k = Some v"
    with items show ?thesis by (simp add: items_ok_def)
  next
    assume "\<exists>c m. (c, m) \<in> set (sort_key fst (node_children n)) \<and> k = relative_name rel c \<and>
      v = inventory_entry (node_stat m)"
    then obtain c m where cm: "(c, m) \<in> set (node_children n)" "k = relative_name rel c"
      "v = inventory_entry (node_stat m)" by auto
    with pending_child [OF p cm(1)] have "(k, v) \<in> listing tree" by (auto simp: listing_def)
    moreover have "is_dir m \<or> is_reg m" using scan_entries_kinds [OF scan, of c m] cm(1) by simp
    ultimately show ?thesis using cm(3)
      by (auto simp: entry_kind_ok_def inventory_entry_def is_dir_def is_reg_def s_isdir_def s_isreg_def)
  qed
  moreover have "distinct (map fst items')"
    using scan_entries_distinct [OF scan] items by (simp add: items_ok_def)
  ultimately show "items_ok tree items'" by (simp add: items_ok_def)
  have new: "set pending' = set pending \<union> {(relative_name rel c, m) | c m. (c, m) \<in> set (node_children n) \<and> is_dir m}"
    using scan_entries_pending [OF scan] by simp
  show "\<forall>q \<in> set pending'. pending_ok tree q"
  proof
    fix q assume "q \<in> set pending'"
    with new consider "q \<in> set pending"
      | c m where "q = (relative_name rel c, m)" "(c, m) \<in> set (node_children n)" "is_dir m" by blast
    then show "pending_ok tree q"
    proof cases
      case 1 with pending show ?thesis by blast
    next
      case 2
      with pending_child [OF p 2(2)] tree_wf_children(4) [OF wf(1) 2(2)] show ?thesis
        by (simp add: pending_ok_def)
    qed
  qed
  have "\<Union> (below ` set pending') = \<Union> (below ` set pending) \<union>
      (\<Union>(c, m) \<in> set (node_children n). below (relative_name rel c, m))"
    unfolding new using below_file by fastforce
  moreover have "dom (map_of items') = dom (map_of items) \<union> (\<lambda>(c, m). relative_name rel c) ` set (node_children n)"
    using scan_entries_dom [OF scan] by simp
  ultimately show "dom (map_of items') \<union> \<Union> (below ` set pending') =
      dom (map_of items) \<union> below (rel, n) \<union> \<Union> (below ` set pending)"
    unfolding below_directory [OF wf] by auto
qed

lemma scan_loop_facts:
  assumes "scan_loop pending items = Inr items'" and "items_ok tree items"
    and "\<forall>q \<in> set pending. pending_ok tree q"
  shows "items_ok tree items' \<and> dom (map_of items') = dom (map_of items) \<union> \<Union> (below ` set pending)"
  using assms
proof (induction pending items rule: scan_loop.induct)
  case (2 rel n pending items)
  from "2.prems"(1) obtain items1 pending1 where
    scan: "scan_entries rel (sort_key fst (node_children n)) items pending = Inr (items1, pending1)"
    and rest: "scan_loop pending1 items1 = Inr items'" by (auto simp: bindE_eq_Inr)
  from "2.prems"(3) have "pending_ok tree (rel, n)" "\<forall>q \<in> set pending. pending_ok tree q" by simp_all
  note dir = scan_directory [OF this(1) "2.prems"(2) this(2) scan]
  from "2.IH" [OF scan refl rest dir(1,2)] dir(3) show ?case by (simp add: Un_assoc)
qed simp

lemma scan_bundle_inventory_exact:
  assumes wf: "tree_wf tree" and scan: "scan_bundle_inventory tree = Inr items"
  shows "set items = listing tree" and "distinct (map fst items)" and "is_dir tree"
    and "node_at tree cs = Some n \<Longrightarrow> is_dir n \<or> is_reg n"
proof -
  let ?items = "[([], inventory_entry (node_stat tree))]"
  from scan have dir: "is_dir tree" and loop: "scan_loop [([], tree)] ?items = Inr items"
    by (auto simp: scan_bundle_inventory_def bindE_eq_Inr guardE_eq_Inr)
  have "([], inventory_entry (node_stat tree)) \<in> listing tree"
    by (auto simp: listing_def intro!: exI [of _ "[]"])
  with dir have start: "items_ok tree ?items"
    by (auto simp: items_ok_def entry_kind_ok_def inventory_entry_def is_dir_def s_isdir_def)
  have "pending_ok tree ([], tree)" using wf dir
    by (auto simp: pending_ok_def names_ok_def intro!: exI [of _ "[]"])
  with scan_loop_facts [OF loop start] have ok: "items_ok tree items"
    and dom: "dom (map_of items) = insert [] (below ([], tree))" by auto
  have "below ([], tree) = {join_slash cs | cs. cs \<noteq> [] \<and> node_at tree cs \<noteq> None}"
    by (simp add: below_def under_def)
  have dom': "dom (map_of items) = {join_slash cs | cs. node_at tree cs \<noteq> None}"
  proof -
    have "[] \<in> {join_slash cs | cs. node_at tree cs \<noteq> None}"
      by (auto intro!: exI [of _ "[]"])
    moreover have "{join_slash cs | cs. node_at tree cs \<noteq> None} \<subseteq>
        insert [] {join_slash cs | cs. cs \<noteq> [] \<and> node_at tree cs \<noteq> None}"
      using join_slash.simps(1) by blast
    ultimately show ?thesis unfolding dom
      using \<open>below ([], tree) = {join_slash cs | cs. cs \<noteq> [] \<and> node_at tree cs \<noteq> None}\<close> by blast
  qed
  from ok have dist: "distinct (map fst items)" by (simp add: items_ok_def)
  have "kv \<in> set items \<longleftrightarrow> kv \<in> listing tree" for kv
  proof -
    obtain k v where kv: "kv = (k, v)" by fastforce
    have "map_of items k = Some v \<longleftrightarrow> (k, v) \<in> listing tree"
    proof
      assume kv': "(k, v) \<in> listing tree"
      then have "k \<in> dom (map_of items)" unfolding dom' listing_def by blast
      then obtain w where w: "map_of items k = Some w" by blast
      with ok have "(k, w) \<in> listing tree" by (simp add: items_ok_def)
      with w listing_functional [OF wf kv'] show "map_of items k = Some v" by simp
    next
      assume "map_of items k = Some v"
      with ok show "(k, v) \<in> listing tree" by (simp add: items_ok_def)
    qed
    with kv dist show ?thesis by simp
  qed
  then show "set items = listing tree" by blast
  show "distinct (map fst items)" by (rule dist)
  show "is_dir tree" by (rule dir)
  assume "node_at tree cs = Some n"
  then have "(join_slash cs, inventory_entry (node_stat n)) \<in> set items"
    unfolding \<open>set items = listing tree\<close> listing_def by blast
  with ok dist have "entry_kind_ok (inventory_entry (node_stat n))" by (simp add: items_ok_def)
  then show "is_dir n \<or> is_reg n"
    by (simp add: entry_kind_ok_def inventory_entry_def is_dir_def is_reg_def s_isdir_def s_isreg_def)
qed

subsection \<open>A verified snapshot\<close>

lemma parent_dirs_snoc: "parent_dirs (cs @ [c]) = insert (join_slash (cs @ [c])) (parent_dirs cs)"
  by (cases cs) simp_all

lemma parent_dirs_iff: "parent_dirs cs = {join_slash ds | ds. ds \<noteq> [] \<and> prefix ds cs}"
  by (induction cs rule: rev_induct) (auto simp: parent_dirs_snoc simp del: parent_dirs.simps(2))

lemma names_ok_components:
  "names_ok cs \<Longrightarrow> cs \<noteq> [] \<Longrightarrow> split_slash (join_slash cs) = cs \<and> pure_components (join_slash cs) = cs"
  by (simp add: names_ok_def pure_components_def split_join_slash filter_id_conv)

lemma strict_prefix_butlast: "prefix ds (butlast xs) \<Longrightarrow> xs \<noteq> [] \<Longrightarrow> strict_prefix ds xs"
  by (cases xs rule: rev_cases) (auto simp: strict_prefix_def prefix_def)

lemma names_ok_prefix: "prefix ds cs \<Longrightarrow> names_ok cs \<Longrightarrow> names_ok ds"
  by (auto simp: names_ok_def dest: set_mono_prefix)

text \<open>The laws of the operating system. A quiet tree answers a read with the status and the bytes it
  holds; and a change of a file or a directory between two scans shows in the status some scan lists, so
  that the tree was quiet between two equal scans.\<close>

definition reads_show :: "disk_node \<Rightarrow> (pystr \<Rightarrow> file_read result) \<Rightarrow> bool" where
  "reads_show tree reads \<longleftrightarrow>
     (\<forall>cs n r. node_at tree cs = Some n \<longrightarrow> reads (join_slash cs) = Inr r \<longrightarrow>
        fr_before r = node_stat n \<and> read_until_eof r = node_bytes n)"

definition quiet_between :: "disk_node \<Rightarrow> (pystr \<Rightarrow> file_read result) \<Rightarrow> disk_node \<Rightarrow> bool" where
  "quiet_between first_tree reads second_tree \<longleftrightarrow>
     (listing first_tree = listing second_tree \<longrightarrow> reads_show second_tree reads)"

definition artifact_of :: "file_artifact \<Rightarrow> disk_node \<Rightarrow> bool" where
  "artifact_of a n \<longleftrightarrow> is_reg n \<and> sha256_hex (node_bytes n) = fa_sha256 a \<and>
     int (length (node_bytes n)) = fa_size_bytes a"

text \<open>The tree holds exactly the artifacts, and no directory that is not on the way to one.\<close>

definition holds_exactly :: "disk_node \<Rightarrow> file_artifact list \<Rightarrow> bool" where
  "holds_exactly tree expected \<longleftrightarrow>
     (\<forall>a \<in> set expected. \<exists>n. node_at tree (split_slash (fa_path a)) = Some n \<and> artifact_of a n) \<and>
     (\<forall>cs n. node_at tree cs = Some n \<longrightarrow>
        (if is_dir n then cs = [] \<or> (\<exists>a \<in> set expected. strict_prefix cs (split_slash (fa_path a)))
         else \<exists>a \<in> set expected. cs = split_slash (fa_path a)))"

lemma dir_not_reg: "is_dir n \<Longrightarrow> \<not> is_reg n"
  by (simp add: is_dir_def is_reg_def s_isdir_def s_isreg_def)

lemma artifact_verified:
  assumes "reads_show tree reads" and "verify_file_artifact_again reads a = Inr u"
    and "node_at tree cs = Some n" and "fa_path a = join_slash cs"
  shows "artifact_of a n"
proof -
  from assms(2) obtain r where r: "reads (fa_path a) = Inr r" "s_isreg (fr_before r)"
    "st_size (fr_before r) = fa_size_bytes a" "int (length (read_until_eof r)) = st_size (fr_before r)"
    "sha256_hex (read_until_eof r) = fa_sha256 a"
    unfolding verify_file_artifact_again_def bindE_eq_Inr guardE_eq_Inr by blast
  with assms(1,3,4) have "fr_before r = node_stat n" "read_until_eof r = node_bytes n"
    by (simp_all add: reads_show_def)
  with r show ?thesis by (simp add: artifact_of_def is_reg_def)
qed

lemma mapE_Inr_all: "mapE f xs = Inr ys \<Longrightarrow> x \<in> set xs \<Longrightarrow> \<exists>y. f x = Inr y"
  by (auto simp: mapE_Inr_iff list_all2_conv_all_nth in_set_conv_nth)

lemma entries_hold_exactly:
  assumes wf: "tree_wf tree"
    and entries: "fst ` listing tree = fa_path ` set expected \<union> expected_bundle_directories (map fa_path expected)"
    and root: "is_dir tree"
    and verified: "\<And>a cs n. a \<in> set expected \<Longrightarrow> node_at tree cs = Some n \<Longrightarrow> fa_path a = join_slash cs \<Longrightarrow>
      artifact_of a n"
  shows "holds_exactly tree expected"
proof -
  have at: "\<exists>n. node_at tree (split_slash (fa_path a)) = Some n \<and> artifact_of a n \<and>
      names_ok (split_slash (fa_path a)) \<and> pure_components (fa_path a) = split_slash (fa_path a)"
    if a: "a \<in> set expected" for a
  proof -
    from a entries have "fa_path a \<in> fst ` listing tree" by blast
    then obtain cs n where cs: "fa_path a = join_slash cs" "node_at tree cs = Some n"
      by (auto simp: listing_def)
    from verified [OF a cs(2,1)] have n: "artifact_of a n" .
    with cs(2) root dir_not_reg have "cs \<noteq> []" by (auto simp: artifact_of_def)
    with node_at_names [OF wf cs(2)] cs n names_ok_components show ?thesis by metis
  qed
  have "if is_dir n then cs = [] \<or> (\<exists>a \<in> set expected. strict_prefix cs (split_slash (fa_path a)))
      else \<exists>a \<in> set expected. cs = split_slash (fa_path a)"
    if n: "node_at tree cs = Some n" for cs n
  proof (cases "cs = []")
    case True with n root show ?thesis by simp
  next
    case False
    from node_at_names [OF wf n] have ok: "names_ok cs" by blast
    from n have "join_slash cs \<in> fst ` listing tree" by (force simp: listing_def)
    with entries consider (isfile) a where "a \<in> set expected" "join_slash cs = fa_path a"
      | (dir) a where "a \<in> set expected" "join_slash cs \<in> parent_dirs (butlast (pure_components (fa_path a)))"
      using False join_slash_eq_Nil [OF ok] by (auto simp: expected_bundle_directories_def)
    then show ?thesis
    proof cases
      case isfile
      with verified [OF isfile(1) n] dir_not_reg have "\<not> is_dir n" by (auto simp: artifact_of_def)
      moreover have "cs = split_slash (fa_path a)"
        using names_ok_components [OF ok False] isfile(2) by simp
      ultimately show ?thesis using isfile(1) by auto
    next
      case dir
      from at [OF dir(1)] obtain k where k: "node_at tree (split_slash (fa_path a)) = Some k"
        "names_ok (split_slash (fa_path a))" "pure_components (fa_path a) = split_slash (fa_path a)" by blast
      from dir(2) obtain ds where ds: "join_slash cs = join_slash ds" "ds \<noteq> []" "prefix ds (butlast (split_slash (fa_path a)))"
        unfolding parent_dirs_iff k(3) by blast
      then have strict: "strict_prefix ds (split_slash (fa_path a))"
        by (intro strict_prefix_butlast) simp_all
      have ds_ok: "names_ok ds"
        by (rule names_ok_prefix [OF _ k(2)]) (use strict in \<open>simp add: strict_prefix_def\<close>)
      have eq: "cs = ds" by (rule join_slash_inject [OF ok ds_ok ds(1)])
      from strict obtain e es where es: "split_slash (fa_path a) = ds @ e # es" by (rule strict_prefixE')
      have "is_dir n" by (rule node_at_append [OF k(1) [unfolded es] n [unfolded eq]])
      with strict dir(1) show ?thesis unfolding eq by auto
    qed
  qed
  with at show ?thesis unfolding holds_exactly_def by blast
qed

lemma verified_snapshot_holds:
  assumes "verify_exact_bundle_snapshot first_tree reads second_tree expected = Inr ()"
    and "tree_wf first_tree" and "tree_wf second_tree" and "quiet_between first_tree reads second_tree"
  shows "holds_exactly second_tree expected \<and> distinct (map fa_path expected)"
proof -
  from assms(1) obtain before after us where
    dist: "distinct (map fa_path expected)" and before: "scan_bundle_inventory first_tree = Inr before" and
    entries: "set (map fst before) = set (map fa_path expected) \<union> expected_bundle_directories (map fa_path expected)" and
    files: "mapE (verify_file_artifact_again reads) (artifacts_in_order expected) = Inr us" and
    after: "scan_bundle_inventory second_tree = Inr after" and same: "set after = set before"
    unfolding verify_exact_bundle_snapshot_def bindE_eq_Inr guardE_eq_Inr by blast
  note first = scan_bundle_inventory_exact [OF assms(2) before]
    and second = scan_bundle_inventory_exact [OF assms(3) after]
  from same first(1) second(1) have "listing first_tree = listing second_tree" by simp
  with assms(4) have shows_it: "reads_show second_tree reads" by (simp add: quiet_between_def)
  have "holds_exactly second_tree expected"
  proof (rule entries_hold_exactly [OF assms(3) _ second(3)])
    from entries same second(1)
    show "fst ` listing second_tree = fa_path ` set expected \<union> expected_bundle_directories (map fa_path expected)"
      by (metis set_map)
  next
    fix a cs n
    assume a: "a \<in> set expected" and n: "node_at second_tree cs = Some n" "fa_path a = join_slash cs"
    from a have "a \<in> set (artifacts_in_order expected)" by (simp add: artifacts_in_order_def)
    with mapE_Inr_all [OF files] obtain u where "verify_file_artifact_again reads a = Inr u" by blast
    from artifact_verified [OF shows_it this n] show "artifact_of a n" .
  qed
  with dist show ?thesis by blast
qed

text \<open>C5: the verified snapshot. When the post-validator verification accepts, the bundle holds exactly
  the artifacts it was given: every artifact is a regular file with the recorded size and digest, every
  other entry is a directory on the way to one, and there is no other file. The operating system is relied
  on only for \<open>quiet_between\<close>.\<close>

theorem verified_snapshot_exact:
  assumes "verify_exact_bundle_snapshot first_tree reads second_tree expected = Inr ()"
    and "tree_wf first_tree" and "tree_wf second_tree" and "quiet_between first_tree reads second_tree"
  shows "holds_exactly second_tree expected \<and> distinct (map fa_path expected)"
  by (rule verified_snapshot_holds [OF assms])

definition demo_stat :: "nat \<Rightarrow> nat \<Rightarrow> int \<Rightarrow> os_stat" where
  "demo_stat m ino sz =
     \<lparr>st_mode = m, st_dev = 1, st_ino = ino, st_size = sz, st_mtime_ns = 0, st_ctime_ns = 0\<rparr>"

definition demo_tree :: disk_node where
  "demo_tree = Node (demo_stat 16877 1 0) []
     [([98], Node (demo_stat 16877 2 0) [] [([97], Node (demo_stat 33060 3 1) [7] [])])]"

definition demo_reads :: "pystr \<Rightarrow> file_read result" where
  "demo_reads p =
     (if p = [98, 47, 97]
      then Inr \<lparr>fr_before = demo_stat 33060 3 1, fr_chunks = [[7], []], fr_after = demo_stat 33060 3 1\<rparr>
      else Inl (Exn PyOSError ''Is a directory''))"

definition demo_artifacts :: "file_artifact list" where
  "demo_artifacts = [\<lparr>fa_path = [98, 47, 97], fa_sha256 = sha256_hex [7], fa_size_bytes = 1\<rparr>]"

lemmas demo_snapshot_simps = demo_tree_def demo_stat_def demo_reads_def demo_artifacts_def
  is_dir_def is_reg_def s_isdir_def s_isreg_def s_islnk_def

lemma demo_snapshot_accepted:
  "verify_exact_bundle_snapshot demo_tree demo_reads demo_tree demo_artifacts = Inr ()"
  by (simp add: verify_exact_bundle_snapshot_def scan_bundle_inventory_def demo_snapshot_simps
      relative_name_def expected_bundle_directories_def pure_components_def artifacts_in_order_def
      verify_file_artifact_again_def read_until_eof_def stable_fields_def insert_commute)

lemma demo_snapshot_quiet: "quiet_between demo_tree demo_reads demo_tree"
proof -
  have "fr_before r = node_stat n \<and> read_until_eof r = node_bytes n"
    if cs: "node_at demo_tree cs = Some n" and r: "demo_reads (join_slash cs) = Inr r" for cs n r
  proof -
    from r have "join_slash cs = join_slash [[98], [97]]" by (simp add: demo_reads_def split: if_splits)
    moreover have "names_ok cs" by (rule node_at_names [THEN conjunct1, OF _ cs]) (simp add: demo_tree_def)
    ultimately have "cs = [[98], [97]]"
      by (intro join_slash_inject) (simp_all add: names_ok_def)
    with cs r show ?thesis by (auto simp: demo_snapshot_simps read_until_eof_def)
  qed
  then show ?thesis
    by (simp add: quiet_between_def reads_show_def)
qed

theorem verified_snapshot_exact_witness:
  "holds_exactly demo_tree demo_artifacts \<and> distinct (map fa_path demo_artifacts)"
  by (rule verified_snapshot_exact [OF demo_snapshot_accepted _ _ demo_snapshot_quiet])
    (simp_all add: demo_tree_def)

end
