(* ===== verification/BundleStaging.thy ===== *)
theory BundleStaging
  imports GoldenArtifacts BundleSnapshot
begin

text \<open>
  Collecting the inputs of a bundle and copying them into the staging directory, in
  \<open>tools/bundle/package_runtime_bundle.py\<close>: \<open>InputPaths\<close>, \<open>inventory_problems\<close>, \<open>write_all\<close>,
  \<open>copy_verified_source\<close> and the first part of \<open>package_runtime_bundle\<close>, which lists the sources and copies
  them.

  A path is its text; what the operating system answers about it is a \<open>path_view\<close>, and the answers of one copy
  are \<open>copy_answers\<close> (\<open>os.write\<close> answers its \<open>k\<close>-th call by a count that the source only tests for progress).
  \<open>copy_verified_source\<close> also returns the bytes it wrote to the destination.

  \<open>inventory_complete_iff\<close> says when no problem is reported, \<open>write_all_writes\<close> that the loop writes exactly
  the payload and ends, and \<open>staged_exactly\<close> what the staging directory holds afterwards.
\<close>

subsection \<open>Input paths and their inventory\<close>

record input_paths =
  ip_specification :: pystr
  ip_source_model_acceptance_receipt :: pystr
  ip_export_receipt :: pystr
  ip_tokenizer_identity_receipt :: pystr
  ip_plugin_build_receipt :: pystr
  ip_plugin :: pystr
  ip_golden_fixture :: pystr
  ip_golden_receipt :: pystr
  ip_manifest_validator :: pystr
  ip_bundle_validator :: pystr
  ip_licenses :: "(pystr \<times> pystr) list"
  ip_engines :: "(pystr \<times> pystr) list"

text \<open>The label of an input, its path and whether it must be executable.\<close>

definition inventory_entries :: "input_paths \<Rightarrow> (pystr \<times> pystr \<times> bool) list" where
  "inventory_entries ip =
     [(pys ''package specification'', ip_specification ip, False),
      (pys ''source-model acceptance receipt'', ip_source_model_acceptance_receipt ip, False),
      (pys ''export receipt'', ip_export_receipt ip, False),
      (pys ''tokenizer identity receipt'', ip_tokenizer_identity_receipt ip, False),
      (pys ''plugin build receipt'', ip_plugin_build_receipt ip, False), (pys ''plugin'', ip_plugin ip, False),
      (pys ''golden fixture'', ip_golden_fixture ip, False), (pys ''golden receipt'', ip_golden_receipt ip, False),
      (pys ''manifest validator'', ip_manifest_validator ip, True),
      (pys ''bundle validator'', ip_bundle_validator ip, True)] @
     map (\<lambda>(role, path). (role @ pys '' license artifact'', path, False)) (ip_licenses ip) @
     map (\<lambda>(role, path). (role @ pys '' plan'', path, False)) (ip_engines ip)"

definition problem_text :: "string \<Rightarrow> pystr \<Rightarrow> pystr \<Rightarrow> pystr" where
  "problem_text kind label path = pys kind @ [32] @ label @ pys '': '' @ path"

definition entry_problem :: "(pystr \<Rightarrow> path_view) \<Rightarrow> pystr \<times> pystr \<times> bool \<Rightarrow> pystr list result" where
  "entry_problem view lpx =
     (let (label, path, require_executable) = lpx; p = view path in
     case pv_lstat p of
       Inl e \<Rightarrow> if exn_class e = PyFileNotFoundError then Inr [problem_text ''MISSING'' label path] else Inl e
     | Inr status \<Rightarrow>
         if s_islnk status then Inr [problem_text ''SYMLINK_FORBIDDEN'' label path]
         else if \<not> s_isreg status then Inr [problem_text ''NOT_REGULAR'' label path]
         else if st_size status \<le> 0 then Inr [problem_text ''EMPTY'' label path]
         else bindE (pv_resolve p) (\<lambda>resolved.
           if pv_absolute p \<noteq> resolved then Inr [problem_text ''SYMLINK_OR_DOTDOT_FORBIDDEN'' label path]
           else if require_executable \<and> \<not> pv_executable p then Inr [problem_text ''NOT_EXECUTABLE'' label path]
           else Inr []))"

definition inventory_problems :: "(pystr \<Rightarrow> path_view) \<Rightarrow> input_paths \<Rightarrow> pystr list result" where
  "inventory_problems view ip = bindE (mapE (entry_problem view) (inventory_entries ip)) (\<lambda>ps. Inr (concat ps))"

subsection \<open>Command-line arguments\<close>

record package_args =
  ar_spec :: pystr
  ar_source_model_acceptance_receipt :: pystr
  ar_export_receipt :: pystr
  ar_tokenizer_identity_receipt :: pystr
  ar_plugin_build_receipt :: pystr
  ar_plugin :: pystr
  ar_text_encoder_plan :: pystr
  ar_main_decoder_prefill_plan :: pystr
  ar_main_decoder_step_plan :: pystr
  ar_local_ar_plan :: pystr
  ar_nanocodec_initial_4_plan :: pystr
  ar_nanocodec_steady_8_plan :: pystr
  ar_nanocodec_tail_1_8_plan :: pystr
  ar_golden_fixture :: pystr
  ar_golden_receipt :: pystr
  ar_project_license :: pystr
  ar_project_notice :: pystr
  ar_pytorch_license :: pystr
  ar_cutlass_license :: pystr
  ar_cuda_eula :: pystr
  ar_cuda_notice :: pystr
  ar_nvidia_open_model_license :: pystr
  ar_nvidia_model_notice :: pystr
  ar_manifest_validator :: pystr
  ar_bundle_validator :: pystr
  ar_output :: pystr
  ar_device_ordinal :: int
  ar_check_inputs :: bool

definition input_paths_from_args :: "package_args \<Rightarrow> input_paths" where
  "input_paths_from_args a =
     \<lparr>ip_specification = ar_spec a, ip_source_model_acceptance_receipt = ar_source_model_acceptance_receipt a,
      ip_export_receipt = ar_export_receipt a, ip_tokenizer_identity_receipt = ar_tokenizer_identity_receipt a,
      ip_plugin_build_receipt = ar_plugin_build_receipt a, ip_plugin = ar_plugin a,
      ip_golden_fixture = ar_golden_fixture a, ip_golden_receipt = ar_golden_receipt a,
      ip_manifest_validator = ar_manifest_validator a, ip_bundle_validator = ar_bundle_validator a,
      ip_licenses =
        [(pys ''project_license'', ar_project_license a), (pys ''project_notice'', ar_project_notice a),
         (pys ''pytorch_license'', ar_pytorch_license a), (pys ''cutlass_license'', ar_cutlass_license a),
         (pys ''cuda_eula'', ar_cuda_eula a), (pys ''cuda_notice'', ar_cuda_notice a),
         (pys ''nvidia_open_model_license'', ar_nvidia_open_model_license a),
         (pys ''nvidia_model_notice'', ar_nvidia_model_notice a)],
      ip_engines =
        [(pys ''text_encoder'', ar_text_encoder_plan a), (pys ''main_decoder_prefill'', ar_main_decoder_prefill_plan a),
         (pys ''main_decoder_step'', ar_main_decoder_step_plan a), (pys ''local_ar_16'', ar_local_ar_plan a),
         (pys ''nanocodec_initial_4'', ar_nanocodec_initial_4_plan a),
         (pys ''nanocodec_steady_8'', ar_nanocodec_steady_8_plan a),
         (pys ''nanocodec_tail_1_8'', ar_nanocodec_tail_1_8_plan a)]\<rparr>"

lemma input_paths_engine_roles: "map fst (ip_engines (input_paths_from_args a)) = map pys ENGINE_ROLES"
  by (simp add: input_paths_from_args_def ENGINE_ROLES_def)

subsection \<open>Copying\<close>

text \<open>\<open>write k part\<close> is what the \<open>k\<close>-th call of \<open>os.write\<close> answers when it is given \<open>part\<close>. The result is
  the number of calls made and the bytes written.\<close>

function write_all :: "(nat \<Rightarrow> byte list \<Rightarrow> int result) \<Rightarrow> nat \<Rightarrow> byte list \<Rightarrow> (nat \<times> byte list) result" where
  "write_all write k payload =
     (if payload = [] then Inr (k, [])
      else case write k payload of
        Inl e \<Rightarrow> Inl e
      | Inr written \<Rightarrow>
          if written \<le> 0 then Inl (pkg_error ''artifact destination write made no progress'')
          else bindE (write_all write (Suc k) (drop (nat written) payload)) (\<lambda>(n, rest).
            Inr (n, take (nat written) payload @ rest)))"
  by pat_completeness auto
termination by (relation "measure (\<lambda>(write, k, payload). length payload)") auto

declare write_all.simps [simp del]

record copy_answers =
  co_source :: path_view
  co_mkdir :: "unit result"
  co_open_destination :: "unit result"
  co_write :: "nat \<Rightarrow> byte list \<Rightarrow> int result"
  co_finish :: "unit result"

record copied_artifact =
  cp_artifact :: file_artifact
  cp_source_device :: nat
  cp_source_inode :: nat

text \<open>\<open>while True: chunk = os.read(...); if not chunk: break; ...\<close>\<close>

fun copy_chunks :: "(nat \<Rightarrow> byte list \<Rightarrow> int result) \<Rightarrow> nat \<Rightarrow> byte list list \<Rightarrow> byte list result" where
  "copy_chunks write k [] = Inr []"
| "copy_chunks write k (chunk # later) =
     (if chunk = [] then Inr []
      else bindE (write_all write k chunk) (\<lambda>(k', out).
           bindE (copy_chunks write k' later) (\<lambda>rest. Inr (out @ rest))))"

definition copy_verified_source :: "copy_answers \<Rightarrow> pystr \<Rightarrow> (copied_artifact \<times> byte list) result" where
  "copy_verified_source a destination =
     bindE (require_regular_non_symlink (co_source a)) (\<lambda>_.
     bindE (co_mkdir a) (\<lambda>_.
     bindE (pv_open (co_source a)) (\<lambda>r.
     bindE (guardE (\<not> s_isreg (fr_before r) \<or> st_size (fr_before r) \<le> 0)
       (pkg_error '' changed before packaging: '')) (\<lambda>_.
     bindE (co_open_destination a) (\<lambda>_.
     bindE (copy_chunks (co_write a) 0 (fr_chunks r)) (\<lambda>content.
     bindE (co_finish a) (\<lambda>_.
     let digested = read_until_eof r in
     bindE (guardE (\<not> stable_fields r \<or> int (length digested) \<noteq> st_size (fr_before r))
       (pkg_error '' changed while being packaged: '')) (\<lambda>_.
     Inr (\<lparr>cp_artifact = \<lparr>fa_path = destination, fa_sha256 = sha256_hex digested, fa_size_bytes = int (length digested)\<rparr>,
           cp_source_device = st_dev (fr_before r), cp_source_inode = st_ino (fr_before r)\<rparr>, content)))))))))"

subsection \<open>The sources of a bundle\<close>

text \<open>\<open>dict(pairs)\<close>: the first occurrence of a key gives its place, the last its value.\<close>

definition dict_of :: "('k \<times> 'v) list \<Rightarrow> ('k \<times> 'v) list" where
  "dict_of kvs = foldl (\<lambda>d (k, v). AList.update k v d) [] kvs"

text \<open>The logical name, the source path and the destination of a copy.\<close>

type_synonym source_entry = "pystr \<times> pystr \<times> pystr"

definition fixed_sources :: "input_paths \<Rightarrow> destinations \<Rightarrow> source_entry list" where
  "fixed_sources ip ds =
     [(pys ''source_model_acceptance_receipt'', ip_source_model_acceptance_receipt ip,
         ds_source_model_acceptance_receipt ds),
      (pys ''export_receipt'', ip_export_receipt ip, ds_export_receipt ds),
      (pys ''tokenizer_identity_receipt'', ip_tokenizer_identity_receipt ip, ds_tokenizer_identity_receipt ds),
      (pys ''plugin_build_receipt'', ip_plugin_build_receipt ip, ds_plugin_build_receipt ds),
      (pys ''plugin'', ip_plugin ip, ds_plugin ds),
      (pys ''golden_receipt'', ip_golden_receipt ip, ds_golden_receipt ds),
      (pys ''golden_fixture'', ip_golden_fixture ip, ds_golden_fixture ds)]"

definition license_source :: "(pystr \<times> pystr) list \<Rightarrow> license_destination \<Rightarrow> source_entry result" where
  "license_source by_role destination =
     (case map_of by_role (ld_role destination) of
        None \<Rightarrow> Inl (Exn PyKeyError ''license_source_by_role'')
      | Some source \<Rightarrow> Inr (ld_role destination, source, ld_path destination))"

definition engine_source :: "engine_destination list \<Rightarrow> pystr \<times> pystr \<Rightarrow> source_entry result" where
  "engine_source ds rp =
     (case map_of (rev (map (\<lambda>d. (ed_role d, d)) ds)) (fst rp) of
        None \<Rightarrow> Inl (Exn PyKeyError ''destination_by_role'')
      | Some d \<Rightarrow> Inr (fst rp, snd rp, ed_path d))"

definition bundle_sources :: "input_paths \<Rightarrow> destinations \<Rightarrow> source_entry list result" where
  "bundle_sources ip ds =
     (let by_role = dict_of (ip_licenses ip) in
     bindE (guardE (map fst by_role \<noteq> map pys LICENSE_ROLES)
       (pkg_error ''license input inventory must use the canonical eight-role order'')) (\<lambda>_.
     bindE (mapE (license_source by_role) (ds_licenses ds)) (\<lambda>licenses.
     bindE (mapE (engine_source (ds_engines ds)) (ip_engines ip)) (\<lambda>engines.
     Inr (fixed_sources ip ds @ licenses @ engines)))))"

subsection \<open>The copy loop\<close>

record staged_state =
  sg_identities :: "(nat \<times> nat) list"
  sg_files :: file_map
  sg_contents :: "(pystr \<times> byte list) list"

definition stage_one :: "copy_answers \<Rightarrow> source_entry \<Rightarrow> staged_state \<Rightarrow> staged_state result" where
  "stage_one a entry s =
     (let (logical_name, source, destination) = entry in
     bindE (copy_verified_source a destination) (\<lambda>(copied, content).
     let identity = (cp_source_device copied, cp_source_inode copied) in
     bindE (guardE (identity \<in> set (sg_identities s))
       (pkg_error ''two bundle artifacts reference the same source file: '')) (\<lambda>_.
     Inr \<lparr>sg_identities = sg_identities s @ [identity],
          sg_files = AList.update logical_name (cp_artifact copied) (sg_files s),
          sg_contents = sg_contents s @ [(destination, content)]\<rparr>)))"

fun stage_loop :: "(nat \<Rightarrow> copy_answers) \<Rightarrow> nat \<Rightarrow> source_entry list \<Rightarrow> staged_state \<Rightarrow> staged_state result" where
  "stage_loop answers i [] s = Inr s"
| "stage_loop answers i (entry # entries) s =
     bindE (stage_one (answers i) entry s) (stage_loop answers (Suc i) entries)"

definition stage_start :: staged_state where
  "stage_start = \<lparr>sg_identities = [], sg_files = [], sg_contents = []\<rparr>"

definition check_staged_licenses :: "file_map \<Rightarrow> unit result" where
  "check_staged_licenses files =
     bindE (file_digest files ''nvidia_open_model_license'') (\<lambda>license.
     bindE (guardE (license \<noteq> pys NVIDIA_OPEN_MODEL_LICENSE_SHA256)
       (pkg_error ''nvidia_open_model_license differs from the accepted model-license document'')) (\<lambda>_.
     bindE (file_digest files ''nvidia_model_notice'') (\<lambda>notice.
     guardE (notice \<noteq> pys NVIDIA_MODEL_NOTICE_SHA256)
       (pkg_error ''nvidia_model_notice differs from the accepted model notice''))))"

definition stage_bundle ::
  "(nat \<Rightarrow> copy_answers) \<Rightarrow> input_paths \<Rightarrow> destinations \<Rightarrow> staged_state result"
where
  "stage_bundle answers ip ds =
     bindE (bundle_sources ip ds) (\<lambda>sources.
     bindE (stage_loop answers 0 sources stage_start) (\<lambda>s.
     bindE (check_staged_licenses (sg_files s)) (\<lambda>_. Inr s)))"

subsection \<open>The inventory is complete exactly when every input is usable\<close>

definition usable_input :: "(pystr \<Rightarrow> path_view) \<Rightarrow> pystr \<times> pystr \<times> bool \<Rightarrow> bool" where
  "usable_input view lpx \<longleftrightarrow>
     (\<exists>s. require_regular_non_symlink (view (fst (snd lpx))) = Inr s) \<and>
     (snd (snd lpx) \<longrightarrow> pv_executable (view (fst (snd lpx))))"

lemma entry_problem_Nil_iff: "entry_problem view lpx = Inr [] \<longleftrightarrow> usable_input view lpx"
  by (cases lpx)
    (auto simp: entry_problem_def usable_input_def require_regular_non_symlink_Inr_iff result_simps s_islnk_def
      s_isreg_def Let_def split: sum.splits if_splits)

lemma mapE_concat_Nil_iff: "(\<exists>ps. mapE f xs = Inr ps \<and> concat ps = []) \<longleftrightarrow> (\<forall>x \<in> set xs. f x = Inr [])"
proof (induction xs)
  case (Cons x xs)
  have "(\<exists>ps. mapE f (x # xs) = Inr ps \<and> concat ps = []) \<longleftrightarrow>
      f x = Inr [] \<and> (\<exists>ps. mapE f xs = Inr ps \<and> concat ps = [])"
    by (cases "f x") (auto simp: bindE_eq_Inr)
  with Cons.IH show ?case by simp
qed simp

lemma inventory_complete_iff:
  "inventory_problems view ip = Inr [] \<longleftrightarrow> (\<forall>lpx \<in> set (inventory_entries ip). usable_input view lpx)"
  using mapE_concat_Nil_iff [of "entry_problem view" "inventory_entries ip"]
  by (simp only: inventory_problems_def bindE_eq_Inr entry_problem_Nil_iff sum.inject)

subsection \<open>What a copy writes\<close>

lemma write_all_writes: "write_all write k payload = Inr (n, out) \<Longrightarrow> out = payload"
proof (induction "write" k payload arbitrary: n out rule: write_all.induct)
  case (1 "write" k payload)
  show ?case
  proof (cases "payload = []")
    case False
    with 1(2) obtain written rest where w: "write k payload = Inr written" "\<not> written \<le> 0"
      "write_all write (Suc k) (drop (nat written) payload) = Inr (n, rest)" "out = take (nat written) payload @ rest"
      by (subst (asm) write_all.simps) (auto simp: bindE_eq_Inr split: sum.splits if_splits)
    from 1(1) [OF False w(1,2,3)] w(4) show ?thesis by simp
  next
    case True
    with 1(2) show ?thesis by (simp add: write_all.simps)
  qed
qed

text \<open>It returns whenever every call makes progress.\<close>

lemma write_all_returns:
  assumes "\<And>k part. part \<noteq> [] \<Longrightarrow> \<exists>n. write k part = Inr n \<and> 0 < n"
  shows "\<exists>n. write_all write k payload = Inr (n, payload)"
proof -
  have "\<exists>n out. write_all write k payload = Inr (n, out)"
  proof (induction payload arbitrary: k rule: length_induct)
    case (1 payload)
    show ?case
    proof (cases "payload = []")
      case False
      then obtain w where w: "write k payload = Inr w" "0 < w" using assms by blast
      have "length (drop (nat w) payload) < length payload" using False w(2) by simp
      with 1 obtain n out where "write_all write (Suc k) (drop (nat w) payload) = Inr (n, out)" by blast
      with False w show ?thesis by (subst write_all.simps) auto
    qed (simp add: write_all.simps)
  qed
  then show ?thesis using write_all_writes by blast
qed

lemma copy_chunks_writes: "copy_chunks write k parts = Inr out \<Longrightarrow> out = concat (takeWhile (\<lambda>c. c \<noteq> []) parts)"
  by (induction parts arbitrary: k out) (auto simp: bindE_eq_Inr dest: write_all_writes split: if_splits)

text \<open>One copy: the destination holds what was read from an unchanging regular file.\<close>

definition copied_from :: "copy_answers \<Rightarrow> pystr \<Rightarrow> copied_artifact \<Rightarrow> byte list \<Rightarrow> bool" where
  "copied_from a destination c content \<longleftrightarrow>
     (\<exists>r. pv_open (co_source a) = Inr r \<and> s_isreg (fr_before r) \<and> stable_fields r \<and> content = read_until_eof r \<and>
        int (length content) = st_size (fr_before r) \<and> content \<noteq> [] \<and>
        c = \<lparr>cp_artifact = \<lparr>fa_path = destination, fa_sha256 = sha256_hex content, fa_size_bytes = int (length content)\<rparr>,
             cp_source_device = st_dev (fr_before r), cp_source_inode = st_ino (fr_before r)\<rparr>)"

lemma copy_verified_source_copied:
  "copy_verified_source a destination = Inr (c, content) \<Longrightarrow> copied_from a destination c content"
  unfolding copy_verified_source_def copied_from_def
  by (auto simp: result_simps Let_def read_until_eof_def dest!: copy_chunks_writes)

subsection \<open>What the staging directory holds\<close>

definition copy_identity :: "copied_artifact \<Rightarrow> nat \<times> nat" where
  "copy_identity c = (cp_source_device c, cp_source_inode c)"

lemma update_new_key: "k \<notin> fst ` set al \<Longrightarrow> AList.update k v al = al @ [(k, v)]"
  by (induction al) auto

lemma stage_loop_copies:
  assumes "stage_loop answers i entries s = Inr s'" and "distinct (sg_identities s)"
    and "distinct (map fst (sg_files s) @ map fst entries)"
  shows "\<exists>copies. mapE_from i (\<lambda>j e. copy_verified_source (answers j) (snd (snd e))) entries = Inr copies \<and>
    sg_identities s' = sg_identities s @ map (copy_identity \<circ> fst) copies \<and> distinct (sg_identities s') \<and>
    sg_files s' = sg_files s @ zip (map fst entries) (map (cp_artifact \<circ> fst) copies) \<and>
    sg_contents s' = sg_contents s @ zip (map (snd \<circ> snd) entries) (map snd copies)"
  using assms
proof (induction entries arbitrary: i s)
  case (Cons e entries)
  obtain name source destination where e: "e = (name, source, destination)" by (cases e) auto
  from Cons.prems(1) obtain t where one: "stage_one (answers i) e s = Inr t"
    and rest: "stage_loop answers (Suc i) entries t = Inr s'" by (auto simp: bindE_eq_Inr)
  from one obtain copied content where c: "copy_verified_source (answers i) destination = Inr (copied, content)"
    "copy_identity copied \<notin> set (sg_identities s)"
    "t = \<lparr>sg_identities = sg_identities s @ [copy_identity copied],
          sg_files = AList.update name (cp_artifact copied) (sg_files s),
          sg_contents = sg_contents s @ [(destination, content)]\<rparr>"
    by (auto simp: stage_one_def e result_simps Let_def copy_identity_def)
  have "name \<notin> fst ` set (sg_files s)" using Cons.prems(3) by (auto simp: e)
  then have update: "AList.update name (cp_artifact copied) (sg_files s) = sg_files s @ [(name, cp_artifact copied)]"
    by (rule update_new_key)
  have "distinct (sg_identities t)" using Cons.prems(2) c(2,3) by simp
  moreover have "distinct (map fst (sg_files t) @ map fst entries)"
    using Cons.prems(3) by (auto simp: c(3) update e)
  ultimately obtain copies where
    "mapE_from (Suc i) (\<lambda>j e. copy_verified_source (answers j) (snd (snd e))) entries = Inr copies"
    "sg_identities s' = sg_identities t @ map (copy_identity \<circ> fst) copies" "distinct (sg_identities s')"
    "sg_files s' = sg_files t @ zip (map fst entries) (map (cp_artifact \<circ> fst) copies)"
    "sg_contents s' = sg_contents t @ zip (map (snd \<circ> snd) entries) (map snd copies)"
    using Cons.IH [OF rest] by blast
  with c show ?case
    by (intro exI [of _ "(copied, content) # copies"]) (simp add: e update comp_def)
qed simp

text \<open>The copies, in order: entry \<open>j\<close> was copied by the \<open>j\<close>-th answers, is listed under its name with the digest
  and size of what is now at its destination, and no two came from the same file.\<close>

definition staged_exactly :: "(nat \<Rightarrow> copy_answers) \<Rightarrow> source_entry list \<Rightarrow> staged_state \<Rightarrow> bool" where
  "staged_exactly answers entries s \<longleftrightarrow>
     map fst (sg_files s) = map fst entries \<and> map fst (sg_contents s) = map (snd \<circ> snd) entries \<and>
     length (sg_identities s) = length entries \<and> distinct (sg_identities s) \<and>
     (\<forall>j < length entries.
        copied_from (answers j) (snd (snd (entries ! j)))
          \<lparr>cp_artifact = snd (sg_files s ! j), cp_source_device = fst (sg_identities s ! j),
           cp_source_inode = snd (sg_identities s ! j)\<rparr>
          (snd (sg_contents s ! j)))"

lemma stage_loop_exact:
  assumes "stage_loop answers 0 entries stage_start = Inr s" and "distinct (map fst entries)"
  shows "staged_exactly answers entries s"
proof -
  obtain copies where c: "mapE_from 0 (\<lambda>j e. copy_verified_source (answers j) (snd (snd e))) entries = Inr copies"
    "sg_identities s = map (copy_identity \<circ> fst) copies" "distinct (sg_identities s)"
    "sg_files s = zip (map fst entries) (map (cp_artifact \<circ> fst) copies)"
    "sg_contents s = zip (map (snd \<circ> snd) entries) (map snd copies)"
    using stage_loop_copies [OF assms(1)] assms(2) by (auto simp: stage_start_def)
  have len: "length copies = length entries" using mapE_from_length [OF c(1)] .
  have "copied_from (answers j) (snd (snd (entries ! j)))
      \<lparr>cp_artifact = snd (sg_files s ! j), cp_source_device = fst (sg_identities s ! j),
       cp_source_inode = snd (sg_identities s ! j)\<rparr> (snd (sg_contents s ! j))" if j: "j < length entries" for j
  proof -
    obtain copied content where j': "copies ! j = (copied, content)" by (cases "copies ! j") auto
    have "copy_verified_source (answers j) (snd (snd (entries ! j))) = Inr (copied, content)"
      using mapE_from_nth [OF c(1) j] j' by simp
    from copy_verified_source_copied [OF this] show ?thesis
      using j len by (cases copied) (simp add: c(2,4,5) j' copy_identity_def)
  qed
  with c len show ?thesis by (simp add: staged_exactly_def)
qed

subsection \<open>The sources of an accepted specification\<close>

lemma bundle_sources_parts:
  assumes "bundle_sources ip ds = Inr entries"
  shows "\<exists>licenses engines. entries = fixed_sources ip ds @ licenses @ engines \<and>
    map fst licenses = map ld_role (ds_licenses ds) \<and> map (snd \<circ> snd) licenses = map ld_path (ds_licenses ds) \<and>
    map fst engines = map fst (ip_engines ip) \<and>
    (\<forall>e \<in> set engines. \<exists>d \<in> set (ds_engines ds). ed_role d = fst e \<and> ed_path d = snd (snd e))"
proof -
  from assms obtain licenses engines where
    l: "mapE (license_source (dict_of (ip_licenses ip))) (ds_licenses ds) = Inr licenses" and
    e: "mapE (engine_source (ds_engines ds)) (ip_engines ip) = Inr engines" and
    entries: "entries = fixed_sources ip ds @ licenses @ engines"
    by (auto simp: bundle_sources_def result_simps Let_def)
  have "map fst licenses = map ld_role (ds_licenses ds)" "map (snd \<circ> snd) licenses = map ld_path (ds_licenses ds)"
    using l unfolding mapE_Inr_iff
    by (induction rule: list_all2_induct) (auto simp: license_source_def split: option.splits)
  moreover have "map fst engines = map fst (ip_engines ip) \<and>
      (\<forall>e \<in> set engines. \<exists>d \<in> set (ds_engines ds). ed_role d = fst e \<and> ed_path d = snd (snd e))"
    using e unfolding mapE_Inr_iff
    by (induction rule: list_all2_induct) (auto simp: engine_source_def split: option.splits dest!: map_of_SomeD)
  ultimately show ?thesis using entries by blast
qed

definition source_names :: "string list" where
  "source_names =
     [''source_model_acceptance_receipt'', ''export_receipt'', ''tokenizer_identity_receipt'',
      ''plugin_build_receipt'', ''plugin'', ''golden_receipt'', ''golden_fixture''] @ LICENSE_ROLES @ ENGINE_ROLES"

lemma distinct_source_names: "distinct source_names"
  by (simp add: source_names_def LICENSE_ROLES_def ENGINE_ROLES_def)

lemma bundle_sources_canonical:
  assumes inv: "destinations_inv ds" and roles: "map fst (ip_engines ip) = map pys ENGINE_ROLES"
    and sources: "bundle_sources ip ds = Inr entries"
  shows "map fst entries = map pys source_names" and "set (map (snd \<circ> snd) entries) = set (all_paths ds)"
    and "distinct (map (snd \<circ> snd) entries)" and "length entries = 22"
proof -
  obtain licenses engines where parts: "entries = fixed_sources ip ds @ licenses @ engines"
    "map fst licenses = map ld_role (ds_licenses ds)" "map (snd \<circ> snd) licenses = map ld_path (ds_licenses ds)"
    "map fst engines = map fst (ip_engines ip)"
    "\<forall>e \<in> set engines. \<exists>d \<in> set (ds_engines ds). ed_role d = fst e \<and> ed_path d = snd (snd e)"
    using bundle_sources_parts [OF sources] by blast
  have license_roles: "map ld_role (ds_licenses ds) = map pys LICENSE_ROLES"
    and engine_roles: "length (ds_engines ds) = length ENGINE_ROLES" "set (map ed_role (ds_engines ds)) = pys ` set ENGINE_ROLES"
    using inv by (auto simp: destinations_inv_def check_license_roles_def check_engine_roles_def result_simps)
  show names: "map fst entries = map pys source_names"
    by (simp add: parts(1,2,4) license_roles roles fixed_sources_def source_names_def)
  have len: "length entries = length source_names" using arg_cong [OF names, of length] by simp
  then show twenty_two: "length entries = 22"
    by (simp add: source_names_def LICENSE_ROLES_def ENGINE_ROLES_def)
  have "card (set (map ed_role (ds_engines ds))) = length (map ed_role (ds_engines ds))"
    unfolding engine_roles(2) using engine_roles(1)
    by (simp add: card_image [OF inj_onI] ENGINE_ROLES_def)
  then have roles_distinct: "distinct (map ed_role (ds_engines ds))" by (rule card_distinct)
  have "ed_path d \<in> (snd \<circ> snd) ` set engines" if d: "d \<in> set (ds_engines ds)" for d
  proof -
    have "ed_role d \<in> set (map fst engines)" using d engine_roles(2) parts(4) roles by auto
    then obtain e where e: "e \<in> set engines" "fst e = ed_role d" by auto
    with parts(5) obtain d' where d': "d' \<in> set (ds_engines ds)" "ed_role d' = ed_role d" "ed_path d' = snd (snd e)"
      by fastforce
    then have "d' = d" using roles_distinct d by (auto simp: distinct_map inj_on_def)
    with d'(3) e(1) show ?thesis by force
  qed
  then have "(snd \<circ> snd) ` set engines = ed_path ` set (ds_engines ds)" using parts(5) by force
  moreover have "(snd \<circ> snd) ` set licenses = ld_path ` set (ds_licenses ds)"
    using arg_cong [OF parts(3), of set] by simp
  ultimately show same: "set (map (snd \<circ> snd) entries) = set (all_paths ds)"
    by (simp add: parts(1) fixed_sources_def all_paths_def image_Un) blast
  have "distinct (all_paths ds)" using inv by (simp add: destinations_inv_def check_destination_paths_iff)
  then have "card (set (map (snd \<circ> snd) entries)) = length (map (snd \<circ> snd) entries)"
    unfolding same using destinations_lengths(3) [OF inv] twenty_two by (simp add: distinct_card)
  then show "distinct (map (snd \<circ> snd) entries)" by (rule card_distinct)
qed

lemma mapE_total: "\<forall>x \<in> set xs. \<exists>y. f x = Inr y \<Longrightarrow> \<exists>ys. mapE f xs = Inr ys"
  by (induction xs) auto

text \<open>The command line names every license and every engine, so no source is missing.\<close>

lemma bundle_sources_total:
  assumes inv: "destinations_inv ds"
  shows "\<exists>entries. bundle_sources (input_paths_from_args a) ds = Inr entries"
proof -
  let ?ip = "input_paths_from_args a"
  have keys: "map fst (dict_of (ip_licenses ?ip)) = map pys LICENSE_ROLES"
    by (simp add: dict_of_def input_paths_from_args_def LICENSE_ROLES_def)
  have license_roles: "map ld_role (ds_licenses ds) = map pys LICENSE_ROLES"
    and engine_roles: "set (map ed_role (ds_engines ds)) = pys ` set ENGINE_ROLES"
    using inv by (auto simp: destinations_inv_def check_license_roles_def check_engine_roles_def result_simps)
  have license: "\<exists>e. license_source (dict_of (ip_licenses ?ip)) l = Inr e" if "l \<in> set (ds_licenses ds)" for l
  proof -
    have "ld_role l \<in> set (map fst (dict_of (ip_licenses ?ip)))"
      unfolding keys license_roles [symmetric] using that by simp
    then have "map_of (dict_of (ip_licenses ?ip)) (ld_role l) \<noteq> None" by (simp add: map_of_eq_None_iff)
    then show ?thesis by (auto simp: license_source_def)
  qed
  have engine: "\<exists>e. engine_source (ds_engines ds) rp = Inr e" if rp: "rp \<in> set (ip_engines ?ip)" for rp
  proof -
    have "fst rp \<in> set (map fst (ip_engines ?ip))" using rp by simp
    then have "fst rp \<in> set (map ed_role (ds_engines ds))"
      unfolding input_paths_engine_roles engine_roles by simp
    then have "map_of (rev (map (\<lambda>d. (ed_role d, d)) (ds_engines ds))) (fst rp) \<noteq> None"
      by (simp add: map_of_eq_None_iff image_image)
    then show ?thesis by (auto simp: engine_source_def)
  qed
  have "\<exists>ls. mapE (license_source (dict_of (ip_licenses ?ip))) (ds_licenses ds) = Inr ls"
    by (rule mapE_total) (use license in blast)
  moreover have "\<exists>es. mapE (engine_source (ds_engines ds)) (ip_engines ?ip) = Inr es"
    by (rule mapE_total) (use engine in blast)
  ultimately show ?thesis by (auto simp: bundle_sources_def keys)
qed

subsection \<open>Properties\<close>

definition demo_args :: package_args where
  "demo_args =
     \<lparr>ar_spec = [1], ar_source_model_acceptance_receipt = [2], ar_export_receipt = [3],
      ar_tokenizer_identity_receipt = [4], ar_plugin_build_receipt = [5], ar_plugin = [6],
      ar_text_encoder_plan = [7], ar_main_decoder_prefill_plan = [8], ar_main_decoder_step_plan = [9],
      ar_local_ar_plan = [10], ar_nanocodec_initial_4_plan = [11], ar_nanocodec_steady_8_plan = [12],
      ar_nanocodec_tail_1_8_plan = [13], ar_golden_fixture = [14], ar_golden_receipt = [15],
      ar_project_license = [16], ar_project_notice = [17], ar_pytorch_license = [18], ar_cutlass_license = [19],
      ar_cuda_eula = [20], ar_cuda_notice = [21], ar_nvidia_open_model_license = [22],
      ar_nvidia_model_notice = [23], ar_manifest_validator = [24], ar_bundle_validator = [25], ar_output = [26],
      ar_device_ordinal = 0, ar_check_inputs = False\<rparr>"

text \<open>The \<open>j\<close>-th source is one byte in a file of its own; a call of \<open>os.write\<close> writes all it is given.\<close>

definition demo_copy :: "nat \<Rightarrow> copy_answers" where
  "demo_copy j =
     (let s = \<lparr>st_mode = 33188, st_dev = 1, st_ino = j, st_size = 1, st_mtime_ns = 0, st_ctime_ns = 0\<rparr>
      in \<lparr>co_source = \<lparr>pv_lstat = Inr s, pv_absolute = [], pv_resolve = Inr [],
            pv_open = Inr \<lparr>fr_before = s, fr_chunks = [[7]], fr_after = s\<rparr>, pv_executable = False\<rparr>,
          co_mkdir = Inr (), co_open_destination = Inr (), co_write = (\<lambda>_ part. Inr (int (length part))),
          co_finish = Inr ()\<rparr>)"

lemma demo_copy_copied:
  "copy_verified_source (demo_copy j) destination =
     Inr (\<lparr>cp_artifact = \<lparr>fa_path = destination, fa_sha256 = sha256_hex [7], fa_size_bytes = 1\<rparr>,
           cp_source_device = 1, cp_source_inode = j\<rparr>, [7])"
  by (simp add: copy_verified_source_def demo_copy_def require_regular_non_symlink_def Let_def missing_as_def s_isreg_def
      s_islnk_def stable_fields_def read_until_eof_def write_all.simps [of _ _ "[7]"] write_all.simps [of _ _ "[]"])

lemma demo_stage_loop:
  "set (sg_identities s) \<subseteq> {(1, k) | k. k < i} \<Longrightarrow> \<exists>s'. stage_loop demo_copy i entries s = Inr s'"
proof (induction entries arbitrary: i s)
  case (Cons e entries)
  obtain t where t: "stage_one (demo_copy i) e s = Inr t" "sg_identities t = sg_identities s @ [(1, i)]"
  proof -
    have "(1, i) \<notin> set (sg_identities s)" using Cons.prems by auto
    with that show ?thesis by (cases e) (simp add: stage_one_def demo_copy_copied Let_def)
  qed
  have "set (sg_identities t) \<subseteq> {(1, k) | k. k < Suc i}" using Cons.prems by (auto simp: t(2))
  from Cons.IH [OF this] t(1) show ?case by simp
qed simp



end
