(* ===== verification/BundlePublication.thy ===== *)
theory BundlePublication
  imports BundleStaging
begin

text \<open>
  Authenticating the staged files and publishing the bundle, in \<open>tools/bundle/package_runtime_bundle.py\<close>:
  \<open>pretty_json_bytes\<close>, \<open>inspect_plan_files\<close>, \<open>run_validator\<close>, \<open>rename_directory_no_replace\<close>,
  \<open>package_runtime_bundle\<close> and \<open>main\<close>.

  The phases of \<open>package_runtime_bundle\<close> are definitions of their own: the output path, the staging
  (\<open>BundleStaging\<close>), the receipts, the live runtime, and \<open>publish_bundle\<close>, which writes the manifest, runs the
  validators, verifies the staging directory and renames it. What the operating system, TensorRT, the
  CUDA libraries and the validators answer is in \<open>packager_world\<close>; a file that is read twice has two views.
  The staging directory is created, and then renamed or removed, as a trace of \<open>staging_event\<close>s.
\<close>

subsection \<open>Indented JSON\<close>

definition new_line :: "nat \<Rightarrow> pystr" where
  "new_line level = 10 # replicate (2 * level) 32"

fun separated :: "pystr \<Rightarrow> pystr list \<Rightarrow> pystr" where
  "separated sep [] = []"
| "separated sep [x] = x"
| "separated sep (x # xs) = x @ sep @ separated sep xs"

definition indented_block :: "nat \<Rightarrow> nat \<Rightarrow> nat \<Rightarrow> pystr list \<Rightarrow> pystr" where
  "indented_block left right level items =
     (if items = [] then [left, right]
      else left # new_line (Suc level) @ separated (44 # new_line (Suc level)) items @ new_line level @ [right])"

text \<open>\<open>json.dumps(value, ensure_ascii=False, sort_keys=True, indent=2)\<close>, below \<open>level\<close> enclosing values.\<close>

primrec dumps_indent :: "(pyfloat \<Rightarrow> pystr) \<Rightarrow> json \<Rightarrow> nat \<Rightarrow> pystr" where
  "dumps_indent frepr JNull = (\<lambda>level. pys ''null'')"
| "dumps_indent frepr (JBool b) = (\<lambda>level. pys (if b then ''true'' else ''false''))"
| "dumps_indent frepr (JInt i) = (\<lambda>level. int_repr i)"
| "dumps_indent frepr (JFloat f) = (\<lambda>level. frepr f)"
| "dumps_indent frepr (JStr s) = (\<lambda>level. json_str False s)"
| "dumps_indent frepr (JList vs) =
     (\<lambda>level. indented_block 91 93 level (map (\<lambda>t. t (Suc level)) (map (dumps_indent frepr) vs)))"
| "dumps_indent frepr (JObj kvs) =
     (\<lambda>level. indented_block 123 125 level
        (map (\<lambda>(k, t). json_str False k @ [58, 32] @ t (Suc level))
          (sort_key fst (map (map_prod id (dumps_indent frepr)) kvs))))"

definition pretty_json_bytes :: "(pyfloat \<Rightarrow> pystr) \<Rightarrow> json \<Rightarrow> byte list result" where
  "pretty_json_bytes frepr v = utf8_encode (dumps_indent frepr v 0 @ [10])"

subsection \<open>The plans\<close>

record plan_answers =
  pn_view :: path_view
  pn_read :: "byte list result"
  pn_engine :: "trt_engine option"

definition inspect_plan :: "pystr \<Rightarrow> plan_answers \<Rightarrow> inspected_engine result" where
  "inspect_plan role plan =
     bindE (require_regular_non_symlink (pn_view plan)) (\<lambda>_.
     bindE (pn_read plan) (\<lambda>_.
     case pn_engine plan of
       None \<Rightarrow> Inl (pkg_error '': TensorRT failed to deserialize '')
     | Some engine \<Rightarrow> inspect_engine engine role))"

fun inspect_plan_loop :: "(pystr \<times> plan_answers) list \<Rightarrow> engine_map \<Rightarrow> engine_map result" where
  "inspect_plan_loop [] inspected = Inr inspected"
| "inspect_plan_loop ((role, plan) # plans) inspected =
     bindE (inspect_plan role plan) (\<lambda>e. inspect_plan_loop plans (AList.update role e inspected))"

definition inspect_plan_files :: "(pystr \<times> plan_answers) list \<Rightarrow> engine_map result" where
  "inspect_plan_files plans =
     bindE (inspect_plan_loop plans []) (\<lambda>inspected.
     bindE (guardE (set (map fst inspected) \<noteq> pys ` set ENGINE_ROLES)
       (pkg_error ''plan input set does not contain all seven roles'')) (\<lambda>_.
     Inr inspected))"

subsection \<open>Validators and the rename\<close>

text \<open>Running the program may fail (it cannot be started, or takes longer than two minutes); otherwise it ends
  with a return code.\<close>

record validator_answers =
  va_view :: path_view
  va_run :: "int result"

definition run_validator :: "validator_answers \<Rightarrow> unit result" where
  "run_validator a =
     bindE (require_regular_non_symlink (va_view a)) (\<lambda>_.
     bindE (guardE (\<not> pv_executable (va_view a)) (pkg_error '' is not executable: '')) (\<lambda>_.
     bindE (va_run a) (\<lambda>returncode.
     guardE (returncode \<noteq> 0) (pkg_error '' failed with exit code ''))))"

definition EEXIST :: int where "EEXIST = 17"

text \<open>What \<open>renameat2\<close> with \<open>RENAME_NOREPLACE\<close> returns, and \<open>errno\<close>.\<close>

definition rename_directory_no_replace :: "int \<times> int \<Rightarrow> unit result" where
  "rename_directory_no_replace answer =
     (let (status, error_number) = answer in
     if status \<noteq> 0
     then Inl (pkg_error (if error_number = EEXIST then ''output already exists: ''
                          else ''renameat2(RENAME_NOREPLACE) failed: ''))
     else Inr ())"

subsection \<open>The receipts\<close>

record staged_answers =
  ta_source_receipt :: path_view
  ta_export_first :: path_view
  ta_export_second :: path_view
  ta_tokenizer :: path_view
  ta_build :: path_view
  ta_golden_receipt :: path_view
  ta_golden_fixture :: path_view

record receipt_evidence =
  re_export :: export_evidence
  re_build :: plugin_build_evidence
  re_golden :: golden_receipt

definition authenticate_receipts ::
  "pkg_env \<Rightarrow> (pyfloat \<Rightarrow> pystr) \<Rightarrow> staged_answers \<Rightarrow> package_spec \<Rightarrow> file_map \<Rightarrow> receipt_evidence result"
where
  "authenticate_receipts env frepr t spec files =
     bindE (validate_source_model_receipt env (ta_source_receipt t) (ps_source_model spec)) (\<lambda>_.
     bindE (validate_consolidated_export_receipt env (ta_export_first t) (ta_export_second t) spec files) (\<lambda>export.
     bindE (validate_tokenizer_identity_receipt env frepr (ta_tokenizer t) (ps_tokenizer spec)) (\<lambda>_.
     bindE (file_at files (pys ''plugin'')) (\<lambda>plugin.
     bindE (validate_plugin_build_receipt env (ta_build t) plugin) (\<lambda>build.
     bindE (parse_golden_receipt env (ta_golden_receipt t)) (\<lambda>golden.
     bindE (parse_golden_fixture env (ta_golden_fixture t)) (\<lambda>fixture.
     bindE (validate_golden_fixture fixture golden spec export) (\<lambda>_.
     Inr \<lparr>re_export = export, re_build = build, re_golden = golden\<rparr>))))))))"

subsection \<open>The live runtime\<close>

record live_answers =
  li_plugin :: path_view
  li_readelf :: "(int \<times> pystr) option"
  li_library :: plugin_library
  li_cublas :: cublas_answers
  li_cuda :: cuda_answers
  li_plans :: "pystr \<Rightarrow> plan_answers"
  li_tensorrt_version :: pystr
  li_host :: host_answers

record live_runtime =
  lr_plugin_identity :: plugin_identity
  lr_engines :: engine_map
  lr_runtime :: runtime_fingerprint

definition check_live_identities ::
  "cublas_runtime_identity \<Rightarrow> cuda_runtime_identity \<Rightarrow> receipt_evidence \<Rightarrow> unit result"
where
  "check_live_identities cublas cuda evidence =
     bindE (guardE (cublas \<noteq> be_cublas_identity (re_build evidence))
       (pkg_error ''loaded cuBLAS identity differs from the authenticated plugin build receipt'')) (\<lambda>_.
     bindE (guardE (cublas \<noteq> ev_cublas_identity (re_export evidence))
       (pkg_error ''loaded cuBLAS identity differs from the authenticated consolidated export receipt'')) (\<lambda>_.
     guardE (cuda \<noteq> ev_cuda_identity (re_export evidence))
       (pkg_error ''loaded CUDA/driver identity differs from the authenticated consolidated export receipt'')))"

text \<open>\<open>f"{version // 1000}.{(version % 1000) // 10}"\<close>\<close>

definition dotted_cuda_version :: "int \<Rightarrow> pystr" where
  "dotted_cuda_version version = int_repr (version div 1000) @ [46] @ int_repr (version mod 1000 div 10)"

definition staged_plans :: "live_answers \<Rightarrow> engine_destination list \<Rightarrow> (pystr \<times> plan_answers) list result" where
  "staged_plans l ds =
     mapE (\<lambda>role. bindE (destination_at ds role) (\<lambda>d. Inr (pys role, li_plans l (ed_path d)))) ENGINE_ROLES"

definition authenticate_runtime ::
  "(int \<Rightarrow> int \<Rightarrow> int) \<Rightarrow> live_answers \<Rightarrow> package_spec \<Rightarrow> receipt_evidence \<Rightarrow> live_runtime result"
where
  "authenticate_runtime makedev l spec evidence =
     bindE (load_and_register_plugin (li_plugin l) (li_readelf l) (li_library l)) (\<lambda>identity.
     bindE (collect_cublas_runtime_identity makedev (li_cublas l)) (\<lambda>cublas.
     bindE (runtime_as_package (collect_cuda_runtime_identity (li_cuda l))) (\<lambda>cuda.
     bindE (check_live_identities cublas cuda evidence) (\<lambda>_.
     bindE (staged_plans l (ds_engines (ps_destinations spec))) (\<lambda>plans.
     bindE (inspect_plan_files plans) (\<lambda>engines.
     bindE (collect_runtime_fingerprint (li_host l) (li_tensorrt_version l) (pi_abi_version identity) cublas) (\<lambda>runtime.
     bindE (guardE (rf_cuda_version runtime \<noteq> dotted_cuda_version (cr_runtime_version_integer cuda) \<or>
                    rf_driver_version runtime \<noteq> cr_nvidia_driver_version cuda)
       (pkg_error ''runtime fingerprint changed while authenticating the accepted CUDA/driver identity'')) (\<lambda>_.
     Inr \<lparr>lr_plugin_identity = identity, lr_engines = engines, lr_runtime = runtime\<rparr>))))))))"

subsection \<open>Publishing\<close>

record publish_answers =
  pb_write_manifest :: "unit result"
  pb_write_digest :: "unit result"
  pb_manifest_validator :: validator_answers
  pb_bundle_validator :: validator_answers
  pb_first_tree :: disk_node
  pb_reads :: "pystr \<Rightarrow> file_read result"
  pb_second_tree :: disk_node
  pb_rename :: "int \<times> int"

definition digest_payload :: "pystr \<Rightarrow> byte list" where
  "digest_payload manifest_sha256 = map of_nat (manifest_sha256 @ [32, 32] @ pys MANIFEST_NAME @ [10])"

definition published_artifacts :: "file_map \<Rightarrow> byte list \<Rightarrow> file_artifact list" where
  "published_artifacts files payload =
     (let manifest_sha256 = sha256_bytes payload; line = digest_payload manifest_sha256
      in map snd files @
         [\<lparr>fa_path = pys MANIFEST_NAME, fa_sha256 = manifest_sha256, fa_size_bytes = int (length payload)\<rparr>,
          \<lparr>fa_path = pys MANIFEST_DIGEST_NAME, fa_sha256 = sha256_bytes line, fa_size_bytes = int (length line)\<rparr>])"

definition publish_bundle :: "(pyfloat \<Rightarrow> pystr) \<Rightarrow> publish_answers \<Rightarrow> file_map \<Rightarrow> json \<Rightarrow> pystr result" where
  "publish_bundle frepr a files manifest =
     bindE (pretty_json_bytes frepr manifest) (\<lambda>payload.
     bindE (guardE (int (length payload) > MAX_MANIFEST_BYTES) (pkg_error ''generated manifest exceeds  bytes'')) (\<lambda>_.
     bindE (pb_write_manifest a) (\<lambda>_.
     bindE (pb_write_digest a) (\<lambda>_.
     bindE (run_validator (pb_manifest_validator a)) (\<lambda>_.
     bindE (run_validator (pb_bundle_validator a)) (\<lambda>_.
     bindE (verify_exact_bundle_snapshot (pb_first_tree a) (pb_reads a) (pb_second_tree a)
       (published_artifacts files payload)) (\<lambda>_.
     bindE (rename_directory_no_replace (pb_rename a)) (\<lambda>_.
     Inr (sha256_bytes payload)))))))))"

subsection \<open>The packager\<close>

record packager_world =
  pw_env :: pkg_env
  pw_float_repr :: "pyfloat \<Rightarrow> pystr"
  pw_makedev :: "int \<Rightarrow> int \<Rightarrow> int"
  pw_inventory :: "pystr \<Rightarrow> path_view"
  pw_specification :: path_view
  pw_parent_absolute :: pystr
  pw_parent_resolve :: "pystr result"
  pw_parent_is_dir :: bool
  pw_output_exists :: bool
  pw_make_staging :: "unit result"
  pw_copies :: "nat \<Rightarrow> copy_answers"
  pw_staged :: staged_answers
  pw_live :: live_answers
  pw_publish :: publish_answers

text \<open>\<open>output_parent / output.name\<close>\<close>

definition joined_path :: "pystr \<Rightarrow> pystr \<Rightarrow> pystr" where
  "joined_path parent name = (if parent = [47] then 47 # name else parent @ [47] @ name)"

text \<open>The specification and the path of the output, before anything is created. \<open>name\<close> is \<open>output.name\<close>.\<close>

definition prepare_output :: "packager_world \<Rightarrow> input_paths \<Rightarrow> pystr \<Rightarrow> (package_spec \<times> pystr) result" where
  "prepare_output w ip name =
     bindE (inventory_problems (pw_inventory w) ip) (\<lambda>problems.
     bindE (guardE (problems \<noteq> []) (pkg_error ''required input inventory is incomplete:'')) (\<lambda>_.
     bindE (bindE (load_json_file (pw_env w) (pw_specification w)) (parse_package_spec (pw_env w))) (\<lambda>spec.
     bindE (pw_parent_resolve w) (\<lambda>parent.
     bindE (guardE (pw_parent_absolute w \<noteq> parent)
       (pkg_error ''output parent must not contain symlinks or '..': '')) (\<lambda>_.
     bindE (guardE (\<not> pw_parent_is_dir w) (pkg_error ''output parent is not a directory: '')) (\<lambda>_.
     bindE (guardE (pw_output_exists w) (pkg_error ''output already exists: '')) (\<lambda>_.
     Inr (spec, joined_path parent name))))))))"

definition package_staged :: "packager_world \<Rightarrow> input_paths \<Rightarrow> package_spec \<Rightarrow> pystr result" where
  "package_staged w ip spec =
     bindE (stage_bundle (pw_copies w) ip (ps_destinations spec)) (\<lambda>staged.
     bindE (authenticate_receipts (pw_env w) (pw_float_repr w) (pw_staged w) spec (sg_files staged)) (\<lambda>evidence.
     bindE (authenticate_runtime (pw_makedev w) (pw_live w) spec evidence) (\<lambda>live.
     bindE (build_manifest spec (lr_runtime live) (sg_files staged) (lr_engines live) (re_golden evidence)
       (lr_plugin_identity live) (ev_mode8_class_table_sha256 (re_export evidence))) (\<lambda>manifest.
     publish_bundle (pw_float_repr w) (pw_publish w) (sg_files staged) manifest))))"

datatype staging_event = StagingCreated | StagingRenamed | StagingRemoved

text \<open>\<open>try: ... published = True ... finally: if not published: shutil.rmtree(staging)\<close>. The renaming is the
  last call that can fail, so the body has renamed the directory exactly if it returns.\<close>

definition package_runtime_bundle ::
  "packager_world \<Rightarrow> input_paths \<Rightarrow> pystr \<Rightarrow> staging_event list \<times> (pystr \<times> pystr) result"
where
  "package_runtime_bundle w ip name =
     (case bindE (prepare_output w ip name) (\<lambda>so. bindE (pw_make_staging w) (\<lambda>_. Inr so)) of
        Inl e \<Rightarrow> ([], Inl e)
      | Inr (spec, output) \<Rightarrow>
          (case package_staged w ip spec of
             Inl e \<Rightarrow> ([StagingCreated, StagingRemoved], Inl e)
           | Inr digest \<Rightarrow> ([StagingCreated, StagingRenamed], Inr (output, digest))))"

subsection \<open>The command\<close>

text \<open>The exit status with what is printed on the standard output, or the exception that escapes.\<close>

datatype run_outcome = Exit int "pystr list" | Escapes exn

definition is_os_error :: "exn \<Rightarrow> bool" where
  "is_os_error e \<longleftrightarrow> exn_class e \<in> {PyOSError, PyFileNotFoundError, PyFileExistsError}"

definition package_main :: "packager_world \<Rightarrow> package_args \<Rightarrow> pystr \<Rightarrow> staging_event list \<times> run_outcome" where
  "package_main w args name =
     (if ar_device_ordinal args < 0 then ([], Exit 2 [])
      else let ip = input_paths_from_args args in
      if ar_check_inputs args
      then ([], case inventory_problems (pw_inventory w) ip of
                  Inl e \<Rightarrow> Escapes e
                | Inr problems \<Rightarrow>
                    if problems \<noteq> [] then Exit 3 problems
                    else Exit 0 [pys ''all required package inputs are present and regular''])
      else case package_runtime_bundle w ip name of (events, r) \<Rightarrow>
        (events, case r of
           Inl e \<Rightarrow> if exn_class e = PackageError \<or> is_os_error e then Exit 1 [] else Escapes e
         | Inr (output, digest) \<Rightarrow> Exit 0 [pys ''bundle='' @ output, pys ''manifest_sha256='' @ digest]))"

subsection \<open>What a published bundle holds\<close>

lemma run_validator_Inr_iff:
  "run_validator a = Inr u \<longleftrightarrow>
     (\<exists>s. require_regular_non_symlink (va_view a) = Inr s) \<and> pv_executable (va_view a) \<and> va_run a = Inr 0"
  by (auto simp: run_validator_def result_simps)

lemma rename_Inr_iff: "rename_directory_no_replace answer = Inr u \<longleftrightarrow> fst answer = 0"
  by (auto simp: rename_directory_no_replace_def split: prod.splits)

text \<open>The steps of \<open>publish_bundle\<close>, all of which succeeded.\<close>

definition publication :: "(pyfloat \<Rightarrow> pystr) \<Rightarrow> publish_answers \<Rightarrow> file_map \<Rightarrow> json \<Rightarrow> byte list \<Rightarrow> bool" where
  "publication frepr a files manifest payload \<longleftrightarrow>
     pretty_json_bytes frepr manifest = Inr payload \<and> int (length payload) \<le> MAX_MANIFEST_BYTES \<and>
     pb_write_manifest a = Inr () \<and> pb_write_digest a = Inr () \<and>
     run_validator (pb_manifest_validator a) = Inr () \<and> run_validator (pb_bundle_validator a) = Inr () \<and>
     verify_exact_bundle_snapshot (pb_first_tree a) (pb_reads a) (pb_second_tree a) (published_artifacts files payload) =
       Inr () \<and> fst (pb_rename a) = 0"

lemma publication_unique:
  "publication frepr a files manifest p \<Longrightarrow> publication frepr a files manifest q \<Longrightarrow> p = q"
  by (simp add: publication_def)

lemma publish_bundle_Inr_iff:
  "publish_bundle frepr a files manifest = Inr digest \<longleftrightarrow>
     (\<exists>payload. publication frepr a files manifest payload \<and> digest = sha256_hex payload)"
  unfolding publish_bundle_def publication_def bindE_eq_Inr guardE_eq_Inr rename_Inr_iff sum.inject sha256_bytes_def
    not_less by (auto simp: rename_Inr_iff)

text \<open>The staging directory, as the last scan saw it: exactly the listed files with their digests, the manifest,
  and the line of its digest.\<close>

lemma published_holds:
  assumes "publish_bundle frepr a files manifest = Inr digest"
    and "tree_wf (pb_first_tree a)" "tree_wf (pb_second_tree a)"
    and "quiet_between (pb_first_tree a) (pb_reads a) (pb_second_tree a)"
  shows "\<exists>payload. pretty_json_bytes frepr manifest = Inr payload \<and> digest = sha256_hex payload \<and>
    holds_exactly (pb_second_tree a) (published_artifacts files payload) \<and>
    distinct (map fa_path (published_artifacts files payload)) \<and> fst (pb_rename a) = 0 \<and>
    va_run (pb_manifest_validator a) = Inr 0 \<and> va_run (pb_bundle_validator a) = Inr 0"
proof -
  from assms(1) obtain payload where p: "publication frepr a files manifest payload" "digest = sha256_hex payload"
    unfolding publish_bundle_Inr_iff by blast
  then have "verify_exact_bundle_snapshot (pb_first_tree a) (pb_reads a) (pb_second_tree a)
      (published_artifacts files payload) = Inr ()" by (simp add: publication_def)
  from verified_snapshot_holds [OF this assms(2-4)] p show ?thesis
    by (auto simp: publication_def run_validator_Inr_iff)
qed

subsection \<open>The whole run\<close>

lemma package_staged_Inr_iff:
  "package_staged w ip spec = Inr digest \<longleftrightarrow>
     (\<exists>staged evidence live manifest.
        stage_bundle (pw_copies w) ip (ps_destinations spec) = Inr staged \<and>
        authenticate_receipts (pw_env w) (pw_float_repr w) (pw_staged w) spec (sg_files staged) = Inr evidence \<and>
        authenticate_runtime (pw_makedev w) (pw_live w) spec evidence = Inr live \<and>
        build_manifest spec (lr_runtime live) (sg_files staged) (lr_engines live) (re_golden evidence)
          (lr_plugin_identity live) (ev_mode8_class_table_sha256 (re_export evidence)) = Inr manifest \<and>
        publish_bundle (pw_float_repr w) (pw_publish w) (sg_files staged) manifest = Inr digest)"
  by (auto simp: package_staged_def bindE_eq_Inr)

text \<open>Everything that must have succeeded for the bundle to be published with this digest.\<close>

definition accepted_run :: "packager_world \<Rightarrow> input_paths \<Rightarrow> pystr \<Rightarrow> pystr \<Rightarrow> pystr \<Rightarrow> bool" where
  "accepted_run w ip name target digest \<longleftrightarrow>
     (\<exists>spec staged evidence live manifest payload.
        prepare_output w ip name = Inr (spec, target) \<and> pw_make_staging w = Inr () \<and>
        stage_bundle (pw_copies w) ip (ps_destinations spec) = Inr staged \<and>
        authenticate_receipts (pw_env w) (pw_float_repr w) (pw_staged w) spec (sg_files staged) = Inr evidence \<and>
        authenticate_runtime (pw_makedev w) (pw_live w) spec evidence = Inr live \<and>
        build_manifest spec (lr_runtime live) (sg_files staged) (lr_engines live) (re_golden evidence)
          (lr_plugin_identity live) (ev_mode8_class_table_sha256 (re_export evidence)) = Inr manifest \<and>
        publication (pw_float_repr w) (pw_publish w) (sg_files staged) manifest payload \<and> digest = sha256_hex payload)"

lemma package_runtime_bundle_cases:
  obtains (early) e where "package_runtime_bundle w ip name = ([], Inl e)" "\<nexists>target digest. accepted_run w ip name target digest"
  | (failed) e where "package_runtime_bundle w ip name = ([StagingCreated, StagingRemoved], Inl e)"
      "\<nexists>target digest. accepted_run w ip name target digest"
  | (published) target digest where
      "package_runtime_bundle w ip name = ([StagingCreated, StagingRenamed], Inr (target, digest))"
      "accepted_run w ip name target digest"
proof (cases "bindE (prepare_output w ip name) (\<lambda>so. bindE (pw_make_staging w) (\<lambda>_. Inr so))")
  case (Inl e)
  moreover have "\<nexists>target digest. accepted_run w ip name target digest" using Inl by (auto simp: accepted_run_def)
  ultimately show ?thesis by (intro early [of e]) (simp_all add: package_runtime_bundle_def)
next
  case (Inr so)
  obtain spec target where so: "so = (spec, target)" by (cases so)
  from Inr have p: "prepare_output w ip name = Inr (spec, target)" "pw_make_staging w = Inr ()"
    by (auto simp: bindE_eq_Inr so)
  have iff: "accepted_run w ip name out digest \<longleftrightarrow> out = target \<and> package_staged w ip spec = Inr digest" for out digest
    unfolding accepted_run_def package_staged_Inr_iff publish_bundle_Inr_iff by (auto simp: p)
  show ?thesis
  proof (cases "package_staged w ip spec")
    case (Inl e)
    then show ?thesis by (intro failed [of e]) (simp_all add: package_runtime_bundle_def Inr so p iff)
  next
    case digest: (Inr digest)
    then show ?thesis by (intro published [of target digest]) (simp_all add: package_runtime_bundle_def Inr so p iff)
  qed
qed

text \<open>A failure to identify the live cuBLAS library is not turned into a \<open>PackageError\<close>, as one of the CUDA
  driver is: it escapes from the command.\<close>

lemma cublas_failure_escapes:
  assumes "load_and_register_plugin (li_plugin l) (li_readelf l) (li_library l) = Inr identity"
    and "collect_cublas_runtime_identity makedev (li_cublas l) = Inl e"
  shows "authenticate_runtime makedev l spec evidence = Inl e"
  using assms by (simp add: authenticate_runtime_def)

lemma cuda_failure_reported:
  assumes "load_and_register_plugin (li_plugin l) (li_readelf l) (li_library l) = Inr identity"
    and "collect_cublas_runtime_identity makedev (li_cublas l) = Inr cublas"
    and "collect_cuda_runtime_identity (li_cuda l) = Inl (cuda_error m)"
  shows "authenticate_runtime makedev l spec evidence = Inl (pkg_error m)"
  using assms by (simp add: authenticate_runtime_def runtime_as_package_def is_runtime_error_def cuda_error_def pkg_error_def)

lemma package_main_run:
  assumes "0 \<le> ar_device_ordinal args" "\<not> ar_check_inputs args"
  shows "package_main w args name =
    (case package_runtime_bundle w (input_paths_from_args args) name of (events, r) \<Rightarrow>
       (events, case r of
          Inl e \<Rightarrow> if exn_class e = PackageError \<or> is_os_error e then Exit 1 [] else Escapes e
        | Inr (target, digest) \<Rightarrow> Exit 0 [pys ''bundle='' @ target, pys ''manifest_sha256='' @ digest]))"
  using assms by (simp add: package_main_def Let_def)

subsection \<open>Properties\<close>


definition demo_validator :: validator_answers where
  "demo_validator = \<lparr>va_view = (steady_view [1])\<lparr>pv_executable := True\<rparr>, va_run = Inr 0\<rparr>"

definition null_text :: "byte list" where "null_text = [110, 117, 108, 108, 10]"

definition null_digest_line :: "byte list" where "null_digest_line = digest_payload (sha256_hex null_text)"

definition null_tree :: disk_node where
  "null_tree = Node (demo_stat 16877 1 0) []
     [(pys MANIFEST_NAME, Node (demo_stat 33060 2 5) null_text []),
      (pys MANIFEST_DIGEST_NAME, Node (demo_stat 33060 3 (int (length null_digest_line))) null_digest_line [])]"

definition null_reads :: "pystr \<Rightarrow> file_read result" where
  "null_reads p =
     (if p = pys MANIFEST_NAME
      then Inr \<lparr>fr_before = demo_stat 33060 2 5, fr_chunks = [null_text, []], fr_after = demo_stat 33060 2 5\<rparr>
      else if p = pys MANIFEST_DIGEST_NAME
      then let s = demo_stat 33060 3 (int (length null_digest_line))
           in Inr \<lparr>fr_before = s, fr_chunks = [null_digest_line, []], fr_after = s\<rparr>
      else Inl (Exn PyOSError ''Is a directory''))"

definition demo_publish :: publish_answers where
  "demo_publish =
     \<lparr>pb_write_manifest = Inr (), pb_write_digest = Inr (), pb_manifest_validator = demo_validator,
      pb_bundle_validator = demo_validator, pb_first_tree = null_tree, pb_reads = null_reads,
      pb_second_tree = null_tree, pb_rename = (0, 0)\<rparr>"

lemma null_pretty: "pretty_json_bytes frepr JNull = Inr null_text"
  by (simp add: pretty_json_bytes_def null_text_def) (simp add: pys_def utf8_encode_def utf8_char_def)

lemma null_line_nonempty: "null_digest_line \<noteq> []" "null_text \<noteq> []" "length null_text = 5"
  by (simp_all add: null_digest_line_def digest_payload_def null_text_def)

lemma manifest_names:
  "MANIFEST_NAME \<noteq> MANIFEST_DIGEST_NAME" "MANIFEST_DIGEST_NAME \<noteq> MANIFEST_NAME" "MANIFEST_NAME \<noteq> []" "MANIFEST_DIGEST_NAME \<noteq> []"
  "pys MANIFEST_NAME \<noteq> [46]" "pys MANIFEST_DIGEST_NAME \<noteq> [46]"
  "47 \<notin> set (pys MANIFEST_NAME)" "47 \<notin> set (pys MANIFEST_DIGEST_NAME)"
  by (simp_all add: MANIFEST_NAME_def MANIFEST_DIGEST_NAME_def) (simp_all add: pys_def)

lemma manifest_components:
  "pure_components (pys MANIFEST_NAME) = [pys MANIFEST_NAME]"
  "pure_components (pys MANIFEST_DIGEST_NAME) = [pys MANIFEST_DIGEST_NAME]"
  by (simp_all add: pure_components_def split_reserved manifest_names)

lemma null_tree_wf: "tree_wf null_tree"
  by (simp add: null_tree_def manifest_names)

lemma null_again:
  "verify_file_artifact_again null_reads
     \<lparr>fa_path = pys MANIFEST_NAME, fa_sha256 = sha256_hex null_text, fa_size_bytes = 5\<rparr> = Inr ()"
  "verify_file_artifact_again null_reads
     \<lparr>fa_path = pys MANIFEST_DIGEST_NAME, fa_sha256 = sha256_hex null_digest_line,
      fa_size_bytes = int (length null_digest_line)\<rparr> = Inr ()"
  by (simp_all add: verify_file_artifact_again_def null_reads_def manifest_names demo_stat_def s_isreg_def
      stable_fields_def read_until_eof_def null_line_nonempty Let_def)

lemma null_artifacts:
  "published_artifacts [] null_text =
     [\<lparr>fa_path = pys MANIFEST_NAME, fa_sha256 = sha256_hex null_text, fa_size_bytes = 5\<rparr>,
      \<lparr>fa_path = pys MANIFEST_DIGEST_NAME, fa_sha256 = sha256_hex null_digest_line,
       fa_size_bytes = int (length null_digest_line)\<rparr>]"
  by (simp add: published_artifacts_def Let_def sha256_bytes_def null_digest_line_def null_line_nonempty)

lemma null_snapshot_accepted:
  "verify_exact_bundle_snapshot null_tree null_reads null_tree (published_artifacts [] null_text) = Inr ()"
proof -
  have scan: "\<exists>items. scan_bundle_inventory null_tree = Inr items \<and>
      set (map fst items) = {[], pys MANIFEST_NAME, pys MANIFEST_DIGEST_NAME}"
    by (simp add: scan_bundle_inventory_def null_tree_def demo_stat_def is_dir_def is_reg_def s_isdir_def s_isreg_def
        s_islnk_def relative_name_def manifest_names) auto
  have dirs: "expected_bundle_directories [pys MANIFEST_NAME, pys MANIFEST_DIGEST_NAME] = {[]}"
    by (simp add: expected_bundle_directories_def manifest_components)
  have "mapE (verify_file_artifact_again null_reads) (artifacts_in_order (published_artifacts [] null_text)) = Inr [(), ()]"
    by (simp add: artifacts_in_order_def null_artifacts null_again)
  with scan show ?thesis
    by (auto simp: verify_exact_bundle_snapshot_def null_artifacts manifest_names dirs)
qed

lemma null_quiet: "quiet_between null_tree null_reads null_tree"
proof -
  have "fr_before r = node_stat n \<and> read_until_eof r = node_bytes n"
    if cs: "node_at null_tree cs = Some n" and r: "null_reads (join_slash cs) = Inr r" for cs n r
  proof -
    have ok: "names_ok cs" by (rule node_at_names [THEN conjunct1, OF null_tree_wf cs])
    from r consider "join_slash cs = join_slash [pys MANIFEST_NAME]" | "join_slash cs = join_slash [pys MANIFEST_DIGEST_NAME]"
      by (auto simp: null_reads_def split: if_splits)
    then have "cs = [pys MANIFEST_NAME] \<or> cs = [pys MANIFEST_DIGEST_NAME]"
      using join_slash_inject [OF ok] by cases (auto simp: names_ok_def manifest_names)
    with cs r show ?thesis
      by (auto simp: null_tree_def null_reads_def manifest_names read_until_eof_def null_line_nonempty Let_def
          is_dir_def demo_stat_def s_isdir_def)
  qed
  then show ?thesis by (simp add: quiet_between_def reads_show_def)
qed

lemma demo_published: "publish_bundle frepr demo_publish [] JNull = Inr (sha256_hex null_text)"
proof -
  have "run_validator demo_validator = Inr ()"
    unfolding run_validator_Inr_iff
    by (simp add: demo_validator_def require_regular_non_symlink_Inr_iff steady_view_def Let_def s_isreg_def)
  then show ?thesis
    unfolding publish_bundle_Inr_iff publication_def
    by (simp add: null_pretty null_snapshot_accepted demo_publish_def null_line_nonempty MAX_MANIFEST_BYTES_def)
qed

text \<open>C3: the published bundle. When publishing succeeds, the staging directory as last seen, which the rename then
  moved to the target, holds exactly the staged files with their recorded digests and sizes, the manifest as
  pretty-printed JSON and the line with its digest, at distinct paths; both validators had accepted it, and the
  digest returned is that of the manifest file.\<close>

theorem published_bundle_exact:
  assumes "publish_bundle frepr a files manifest = Inr digest"
    and "tree_wf (pb_first_tree a)" "tree_wf (pb_second_tree a)"
    and "quiet_between (pb_first_tree a) (pb_reads a) (pb_second_tree a)"
  shows "\<exists>payload. pretty_json_bytes frepr manifest = Inr payload \<and> digest = sha256_hex payload \<and>
    holds_exactly (pb_second_tree a) (published_artifacts files payload) \<and>
    distinct (map fa_path (published_artifacts files payload)) \<and> fst (pb_rename a) = 0 \<and>
    va_run (pb_manifest_validator a) = Inr 0 \<and> va_run (pb_bundle_validator a) = Inr 0"
  by (rule published_holds [OF assms])

theorem published_bundle_exact_witness:
  "\<exists>payload. pretty_json_bytes (\<lambda>_. []) JNull = Inr payload \<and> sha256_hex null_text = sha256_hex payload \<and>
    holds_exactly (pb_second_tree demo_publish) (published_artifacts [] payload)"
proof -
  have "tree_wf (pb_first_tree demo_publish)" "tree_wf (pb_second_tree demo_publish)"
    "quiet_between (pb_first_tree demo_publish) (pb_reads demo_publish) (pb_second_tree demo_publish)"
    by (simp_all add: demo_publish_def null_tree_wf null_quiet)
  from published_bundle_exact [OF demo_published this, of "\<lambda>_. []"] show ?thesis by blast
qed

end
