(* ===== verification/ReceiptJson.thy ===== *)
theory ReceiptJson
  imports RuntimeIdentity TokenizerReceipt SourceReceipt
begin

text \<open>
  What the receipt tools of \<open>tools/export\<close> and \<open>tools/oracle\<close> share: the lookups and checked accessors of
  \<open>tools/export/validate_main_decoder_plans.py\<close> (\<open>require_mapping\<close>, \<open>require_list\<close>, \<open>require_string\<close> and so
  on), the hook that refuses repeated keys, and what these tools see of a file.

  A \<open>file_view\<close> holds the answers of the calls on one path; each may be an exception, and nothing is assumed of
  them. The decoder \<open>json.loads\<close> is the field \<open>pk_loads\<close> of the environment; a decoding error is a
  \<open>ValueError\<close> (\<open>JSONDecodeError\<close> and \<open>UnicodeDecodeError\<close> are subclasses). The accessors come with the exact
  condition under which they return, in \<open>accessor_simps\<close>.
\<close>

subsection \<open>Lookups\<close>

text \<open>\<open>document.get(key)\<close>\<close>

abbreviation got :: "json_object \<Rightarrow> string \<Rightarrow> json" where
  "got doc key \<equiv> dict_get doc (pys key)"

fun got_path :: "json \<Rightarrow> string list \<Rightarrow> json" where
  "got_path v [] = v"
| "got_path v (key # keys) = (case v of JObj doc \<Rightarrow> got_path (got doc key) keys | _ \<Rightarrow> JNull)"

definition has_keys :: "json_object \<Rightarrow> string list \<Rightarrow> bool" where
  "has_keys doc keys \<longleftrightarrow> set (map fst doc) = set (map pys keys)"

lemma guarded_Inr_iff: "bindE (guardE b e) f = Inr y \<longleftrightarrow> \<not> b \<and> f () = Inr y"
  by (simp add: guardE_def)

lemma dict_get_simps [simp]:
  "dict_get [] k = JNull"
  "dict_get ((k', v) # doc) k = (if k' = k then v else dict_get doc k)"
  by (simp_all add: dict_get_def)

lemma mapE_from_Inr_iff:
  "mapE_from i f xs = Inr ys \<longleftrightarrow> length ys = length xs \<and> (\<forall>j < length xs. f (i + j) (xs ! j) = Inr (ys ! j))"
proof (induction xs arbitrary: i ys)
  case Nil
  then show ?case by auto
next
  case (Cons x xs)
  show ?case
    by (cases ys) (auto simp: bindE_eq_Inr Cons.IH All_less_Suc2)
qed

lemma mapE_from_map_iff:
  assumes "\<And>i x y. f i x = Inr y \<longleftrightarrow> P i x \<and> y = g i x"
  shows "mapE_from 0 f xs = Inr ys \<longleftrightarrow>
    (\<forall>i < length xs. P i (xs ! i)) \<and> ys = map (\<lambda>i. g i (xs ! i)) [0..<length xs]"
proof
  assume "mapE_from 0 f xs = Inr ys"
  then have *: "length ys = length xs" "\<forall>i < length xs. P i (xs ! i) \<and> ys ! i = g i (xs ! i)"
    by (simp_all add: mapE_from_Inr_iff assms)
  then have "ys = map (\<lambda>i. g i (xs ! i)) [0..<length xs]" by (intro nth_equalityI) simp_all
  with * show "(\<forall>i < length xs. P i (xs ! i)) \<and> ys = map (\<lambda>i. g i (xs ! i)) [0..<length xs]" by blast
next
  assume "(\<forall>i < length xs. P i (xs ! i)) \<and> ys = map (\<lambda>i. g i (xs ! i)) [0..<length xs]"
  then show "mapE_from 0 f xs = Inr ys" by (simp add: mapE_from_Inr_iff assms)
qed


subsection \<open>Refusing repeated keys\<close>

text \<open>\<open>object_pairs_hook\<close>, called for every object, the inner ones first; \<open>e\<close> is what it raises.\<close>

fun distinct_pairs :: "exn \<Rightarrow> pystr list \<Rightarrow> json_object \<Rightarrow> unit result" where
  "distinct_pairs e seen [] = Inr ()"
| "distinct_pairs e seen ((k, v) # rest) =
     (if k \<in> set seen then Inl e else distinct_pairs e (k # seen) rest)"

fun pairs_hook :: "exn \<Rightarrow> json \<Rightarrow> json result" where
  "pairs_hook e (JList vs) = bindE (mapE (pairs_hook e) vs) (\<lambda>ws. Inr (JList ws))"
| "pairs_hook e (JObj kvs) =
     bindE (mapE (\<lambda>kv. bindE (pairs_hook e (snd kv)) (\<lambda>w. Inr (fst kv, w))) kvs) (\<lambda>ws.
     bindE (distinct_pairs e [] ws) (\<lambda>_. Inr (JObj ws)))"
| "pairs_hook e v = Inr v"

lemma distinct_pairs_Inr_iff:
  "distinct_pairs e seen kvs = Inr u \<longleftrightarrow> distinct (map fst kvs) \<and> set (map fst kvs) \<inter> set seen = {}"
  by (induction e seen kvs rule: distinct_pairs.induct) auto

lemma pairs_hook_Inr_iff: "pairs_hook e v = Inr w \<longleftrightarrow> w = v \<and> json_wf v"
proof (induction v arbitrary: w)
  case (JList vs)
  have "mapE (pairs_hook e) vs = Inr ws \<longleftrightarrow> ws = vs \<and> (\<forall>v \<in> set vs. json_wf v)" for ws
    by (rule mapE_identity_iff) (rule JList)
  then show ?case by (auto simp: bindE_eq_Inr)
next
  case (JObj kvs)
  have "mapE (\<lambda>kv. bindE (pairs_hook e (snd kv)) (\<lambda>w. Inr (fst kv, w))) kvs = Inr ws
      \<longleftrightarrow> ws = kvs \<and> (\<forall>kv \<in> set kvs. json_wf (snd kv))" for ws
    by (rule mapE_identity_iff, rule member_identity_iff, rule JObj) (auto simp: snds.simps)
  then show ?case by (auto simp: bindE_eq_Inr distinct_pairs_Inr_iff)
qed auto

definition loads_with_hook :: "pkg_env \<Rightarrow> exn \<Rightarrow> byte list \<Rightarrow> json result" where
  "loads_with_hook env duplicate payload =
     (case pk_loads env payload of
        None \<Rightarrow> Inl (Exn PyValueError ''invalid JSON'')
      | Some raw \<Rightarrow> pairs_hook duplicate raw)"

lemma loads_with_hook_Inr_iff:
  "loads_with_hook env e payload = Inr v \<longleftrightarrow> pk_loads env payload = Some v \<and> json_wf v"
  by (auto simp: loads_with_hook_def pairs_hook_Inr_iff split: option.splits)

subsection \<open>Files\<close>

record file_view =
  fv_is_symlink :: bool
  fv_resolve :: "pystr result"
  fv_is_file :: bool
  fv_size :: "int result"
  fv_bytes :: "byte list result"

text \<open>\<open>sha256_file(path)\<close>\<close>

definition sha256_of_file :: "file_view \<Rightarrow> pystr result" where
  "sha256_of_file f = bindE (fv_bytes f) (\<lambda>bs. Inr (sha256_hex bs))"

text \<open>\<open>f"{digest}  {name}\n".encode("ascii")\<close>\<close>

definition checksum_line :: "pystr \<Rightarrow> string \<Rightarrow> byte list" where
  "checksum_line digest name = map of_nat (digest @ pys ''  '' @ pys name @ [10])"

subsection \<open>Accessors\<close>

definition rt_error :: "string \<Rightarrow> exn" where
  "rt_error m = Exn PyRuntimeError m"

definition rt_mapping :: "json \<Rightarrow> json_object result" where
  "rt_mapping v = (case v of JObj doc \<Rightarrow> Inr doc | _ \<Rightarrow> Inl (rt_error '' must be an object''))"

definition rt_list :: "json \<Rightarrow> json list result" where
  "rt_list v = (case v of JList vs \<Rightarrow> Inr vs | _ \<Rightarrow> Inl (rt_error '' must be an array''))"

definition rt_string :: "json \<Rightarrow> pystr result" where
  "rt_string v = (case v of JStr s \<Rightarrow> Inr s | _ \<Rightarrow> Inl (rt_error '' must be a string''))"

definition rt_integer :: "json \<Rightarrow> int result" where
  "rt_integer v = (case v of JInt i \<Rightarrow> Inr i | _ \<Rightarrow> Inl (rt_error '' must be an integer''))"

definition rt_boolean :: "json \<Rightarrow> bool result" where
  "rt_boolean v = (case v of JBool b \<Rightarrow> Inr b | _ \<Rightarrow> Inl (rt_error '' must be a boolean''))"

definition rt_nonnegative_integer :: "json \<Rightarrow> int result" where
  "rt_nonnegative_integer v =
     bindE (rt_integer v) (\<lambda>i. if i < 0 then Inl (rt_error '' must be non-negative'') else Inr i)"

definition rt_sha256 :: "json \<Rightarrow> pystr result" where
  "rt_sha256 v =
     bindE (rt_string v) (\<lambda>s.
       if length s \<noteq> 64 \<or> list_ex (\<lambda>c. c \<notin> set (pys ''0123456789abcdef'')) s
       then Inl (rt_error '' must be a lowercase SHA-256 digest'') else Inr s)"

text \<open>\<open>path.parts\<close> has the root first.\<close>

definition rt_safe_artifact_path :: "json \<Rightarrow> pystr result" where
  "rt_safe_artifact_path v =
     bindE (rt_string v) (\<lambda>relative.
       if relative = [] \<or> 92 \<in> set relative \<or> 0 \<in> set relative \<or> pure_root relative \<noteq> [] \<or>
          as_posix relative \<noteq> relative \<or> list_ex (\<lambda>p. p = [] \<or> p = [46] \<or> p = [46, 46]) (pure_components relative)
       then Inl (rt_error '' is not a safe normalized relative path'') else Inr relative)"

definition json_root :: "exn \<Rightarrow> json \<Rightarrow> json_object result" where
  "json_root e v = (case v of JObj doc \<Rightarrow> Inr doc | _ \<Rightarrow> Inl e)"

lemma json_root_Inr_iff: "json_root e v = Inr doc \<longleftrightarrow> v = JObj doc"
  by (cases v) (auto simp: json_root_def)

text \<open>\<open>load_json(path)\<close>: the document and the bytes it was read from.\<close>

definition rt_load_json :: "pkg_env \<Rightarrow> file_view \<Rightarrow> (json_object \<times> byte list) result" where
  "rt_load_json env f =
     bindE (fv_bytes f) (\<lambda>payload.
     bindE (loads_with_hook env (rt_error ''JSON object contains duplicate key: '') payload) (\<lambda>parsed.
     bindE (json_root (rt_error ''JSON root must be an object: '') parsed) (\<lambda>doc. Inr (doc, payload))))"

lemma rt_load_json_Inr_iff:
  "rt_load_json env f = Inr (doc, payload) \<longleftrightarrow>
     fv_bytes f = Inr payload \<and> pk_loads env payload = Some (JObj doc) \<and> json_wf (JObj doc)"
  by (auto simp: rt_load_json_def bindE_eq_Inr loads_with_hook_Inr_iff json_root_Inr_iff)

lemma rt_Inr_iff [accessor_simps]:
  "rt_mapping v = Inr doc \<longleftrightarrow> v = JObj doc" "rt_list v = Inr vs \<longleftrightarrow> v = JList vs"
  "rt_string v = Inr s \<longleftrightarrow> v = JStr s" "rt_integer v = Inr i \<longleftrightarrow> v = JInt i" "rt_boolean v = Inr b \<longleftrightarrow> v = JBool b"
  "rt_nonnegative_integer v = Inr i \<longleftrightarrow> v = JInt i \<and> 0 \<le> i"
  by (auto simp: not_less rt_mapping_def rt_list_def rt_string_def rt_integer_def rt_boolean_def rt_nonnegative_integer_def
      bindE_eq_Inr split: json.splits if_splits)

lemma rt_sha256_Inr_iff [accessor_simps]: "rt_sha256 v = Inr s \<longleftrightarrow> v = JStr s \<and> sha256_pattern s"
  using cublas_require_sha256_Inr_iff [of v s]
  by (auto simp: rt_sha256_def cublas_require_sha256_def bindE_eq_Inr rt_Inr_iff split: json.splits if_splits)

end
