(* ===== verification/Mode8ClassTable.thy ===== *)
theory Mode8ClassTable
  imports ReceiptJson
begin

text \<open>
  The table of cuBLAS kernel classes the runtime plugin exports (\<open>tools/export/mode8_class_table_identity.py\<close>):
  its C structures, the JSON document made of them, the validator of that document, and its canonical digest.

  A \<open>ctypes.Structure\<close> is a record of machine words and byte lists; \<open>ctypes_sizeof\<close> is the natural
  alignment ctypes lays the fields out with. The plugin's entry point is the argument \<open>getter\<close> (\<open>None\<close> when
  the library does not export it): from the table it is handed it makes a status and the filled table. The
  lengths of the C arrays are fixed by their types (\<open>table_shape\<close>). The number a \<open>float\<close> prints as is the
  parameter \<open>frepr\<close>.

  \<open>table_ok\<close> says which filled tables are well formed, field by field; \<open>collect_iff\<close> shows that
  these are exactly the tables for which an identity is collected, so the validation of the finished document
  never fails, and \<open>collected_reparses\<close> that the receipts' parser reads the identity back.
\<close>

subsection \<open>The C structures\<close>

definition CLASS_COUNT :: nat where "CLASS_COUNT = 21"
definition QK_CLASS_COUNT :: nat where "QK_CLASS_COUNT = 7"
definition PV_CLASS_COUNT :: nat where "PV_CLASS_COUNT = 14"
definition K_COUNT :: nat where "K_COUNT = 249"
definition MINIMUM_K :: int where "MINIMUM_K = 219"
definition MAXIMUM_K :: int where "MAXIMUM_K = 467"
definition FUNCTION_NAME_CAPACITY :: nat where "FUNCTION_NAME_CAPACITY = 256"
definition MODE8_ABI_VERSION :: nat where "MODE8_ABI_VERSION = 1"

record mode8_class_record =
  kc_struct_size :: "32 word"
  kc_abi_version :: "32 word"
  kc_operation :: "32 word"
  kc_class_index :: "32 word"
  kc_parameter_transport :: "32 word"
  kc_block_x :: "32 word"
  kc_block_y :: "32 word"
  kc_block_z :: "32 word"
  kc_shared_memory_bytes :: "32 word"
  kc_reserved_0 :: "32 word"
  kc_parameter_offset :: "64 word"
  kc_parameter_size :: "64 word"
  kc_function_name :: "byte list"
  kc_reserved :: "64 word list"

text \<open>\<open>c_int32\<close> fields are read with \<open>sint\<close>.\<close>

record mode8_k_record =
  kk_struct_size :: "32 word"
  kk_abi_version :: "32 word"
  kk_active_k :: "32 word"
  kk_qk_class_index :: "32 word"
  kk_qk_grid_x :: "32 word"
  kk_qk_grid_y :: "32 word"
  kk_qk_grid_z :: "32 word"
  kk_pv_class_index :: "32 word"
  kk_pv_grid_x :: "32 word"
  kk_pv_grid_y :: "32 word"
  kk_pv_grid_z :: "32 word"
  kk_reserved_0 :: "32 word"
  kk_reserved :: "64 word list"

record mode8_class_table =
  kt_struct_size :: "32 word"
  kt_abi_version :: "32 word"
  kt_class_count :: "32 word"
  kt_k_count :: "32 word"
  kt_classes :: "mode8_class_record list"
  kt_k_records :: "mode8_k_record list"
  kt_reserved :: "64 word list"

text \<open>The fields as (alignment, size) pairs.\<close>

definition align_up :: "nat \<Rightarrow> nat \<Rightarrow> nat" where
  "align_up a n = (n + a - 1) div a * a"

definition ctypes_sizeof :: "(nat \<times> nat) list \<Rightarrow> nat" where
  "ctypes_sizeof fs =
     align_up (fold (\<lambda>(a, s). max a) fs 1) (fold (\<lambda>(a, s) offset. align_up a offset + s) fs 0)"

definition SIZEOF_CLASS_RECORD :: nat where
  "SIZEOF_CLASS_RECORD =
     ctypes_sizeof (replicate 10 (4, 4) @ [(8, 8), (8, 8), (1, FUNCTION_NAME_CAPACITY), (8, 8 * 4)])"

definition SIZEOF_K_RECORD :: nat where
  "SIZEOF_K_RECORD = ctypes_sizeof (replicate 12 (4, 4) @ [(8, 8 * 4)])"

definition SIZEOF_CLASS_TABLE :: nat where
  "SIZEOF_CLASS_TABLE =
     ctypes_sizeof (replicate 4 (4, 4) @
       [(8, SIZEOF_CLASS_RECORD * CLASS_COUNT), (8, SIZEOF_K_RECORD * K_COUNT), (8, 8 * 4)])"

text \<open>\<open>_ClassTable()\<close> is zero-filled.\<close>

definition zero_class_record :: mode8_class_record where
  "zero_class_record =
     \<lparr>kc_struct_size = 0, kc_abi_version = 0, kc_operation = 0, kc_class_index = 0, kc_parameter_transport = 0,
      kc_block_x = 0, kc_block_y = 0, kc_block_z = 0, kc_shared_memory_bytes = 0, kc_reserved_0 = 0,
      kc_parameter_offset = 0, kc_parameter_size = 0,
      kc_function_name = replicate FUNCTION_NAME_CAPACITY 0, kc_reserved = replicate 4 0\<rparr>"

definition zero_k_record :: mode8_k_record where
  "zero_k_record =
     \<lparr>kk_struct_size = 0, kk_abi_version = 0, kk_active_k = 0, kk_qk_class_index = 0, kk_qk_grid_x = 0,
      kk_qk_grid_y = 0, kk_qk_grid_z = 0, kk_pv_class_index = 0, kk_pv_grid_x = 0, kk_pv_grid_y = 0,
      kk_pv_grid_z = 0, kk_reserved_0 = 0, kk_reserved = replicate 4 0\<rparr>"

definition requested_table :: mode8_class_table where
  "requested_table =
     \<lparr>kt_struct_size = of_nat SIZEOF_CLASS_TABLE, kt_abi_version = of_nat MODE8_ABI_VERSION,
      kt_class_count = 0, kt_k_count = 0, kt_classes = replicate CLASS_COUNT zero_class_record,
      kt_k_records = replicate K_COUNT zero_k_record, kt_reserved = replicate 4 0\<rparr>"

subsection \<open>The document\<close>

record mode8_class_table_identity =
  ci_document :: json_object
  ci_sha256 :: pystr

definition mode8_error :: "string \<Rightarrow> exn" where
  "mode8_error m = Exn PyRuntimeError m"

definition canonical_class_table_bytes :: "(pyfloat \<Rightarrow> pystr) \<Rightarrow> json_object \<Rightarrow> byte list" where
  "canonical_class_table_bytes frepr doc = dumps_ascii frepr (JObj doc)"

definition mode8_require_integer :: "json \<Rightarrow> int result" where
  "mode8_require_integer v =
     (case v of JInt i \<Rightarrow> Inr i | _ \<Rightarrow> Inl (mode8_error '' must be an integer''))"

definition positive_item :: "json \<Rightarrow> bool" where
  "positive_item v \<longleftrightarrow> (case v of JInt i \<Rightarrow> 0 < i | _ \<Rightarrow> False)"

definition require_positive_triplet :: "json \<Rightarrow> json list result" where
  "require_positive_triplet v =
     (case v of
        JList vs \<Rightarrow>
          if length vs \<noteq> 3 \<or> \<not> list_all positive_item vs
          then Inl (mode8_error '' must contain three positive integers'') else Inr vs
      | _ \<Rightarrow> Inl (mode8_error '' must contain three positive integers''))"

definition mode8_operation :: "nat \<Rightarrow> string" where
  "mode8_operation i = (if i < QK_CLASS_COUNT then ''qk'' else ''pv'')"

definition mode8_class_index :: "nat \<Rightarrow> nat" where
  "mode8_class_index i = (if i < QK_CLASS_COUNT then i else i - QK_CLASS_COUNT)"

definition printable_name :: "json \<Rightarrow> bool" where
  "printable_name v \<longleftrightarrow>
     (case v of
        JStr s \<Rightarrow>
          s \<noteq> [] \<and> length (filter (\<lambda>c. c < 128) s) = length s \<and>
          \<not> list_ex (\<lambda>c. c < 33 \<or> 126 < c) s
      | _ \<Rightarrow> False)"

definition check_class_entry :: "nat \<Rightarrow> json \<Rightarrow> unit result" where
  "check_class_entry i v =
     (case v of
        JObj doc \<Rightarrow>
          if \<not> has_keys doc [''operation'', ''class_index'', ''function_name'', ''parameter_transport'', ''block'',
                ''shared_memory_bytes'', ''parameter_offset'', ''parameter_size'']
          then Inl (mode8_error '' keys are not canonical'')
          else
            bindE (guardE (\<not> py_eq (got doc ''operation'') (JStr (pys (mode8_operation i))) \<or>
                \<not> py_eq (got doc ''class_index'') (JInt (int (mode8_class_index i))) \<or>
                \<not> printable_name (got doc ''function_name'') \<or>
                got doc ''parameter_transport'' \<notin> {JStr (pys ''kernel_params''), JStr (pys ''extra'')})
              (mode8_error '' identity is not canonical'')) (\<lambda>_.
            bindE (require_positive_triplet (got doc ''block'')) (\<lambda>_.
            bindE (mode8_require_integer (got doc ''shared_memory_bytes'')) (\<lambda>shared.
            bindE (mode8_require_integer (got doc ''parameter_offset'')) (\<lambda>offset.
            bindE (mode8_require_integer (got doc ''parameter_size'')) (\<lambda>size.
            guardE (shared < 0 \<or> offset < 0 \<or> size \<le> 0) (mode8_error '' launch values are invalid''))))))
      | _ \<Rightarrow> Inl (mode8_error '' keys are not canonical''))"

definition check_k_operation :: "json \<Rightarrow> nat \<Rightarrow> int result" where
  "check_k_operation v class_count =
     (case v of
        JObj doc \<Rightarrow>
          if \<not> has_keys doc [''class_index'', ''grid''] then Inl (mode8_error ''. keys are not canonical'')
          else
            bindE (mode8_require_integer (got doc ''class_index'')) (\<lambda>class_index.
            bindE (guardE (\<not> (0 \<le> class_index \<and> class_index < int class_count))
              (mode8_error ''..class_index is invalid'')) (\<lambda>_.
            bindE (require_positive_triplet (got doc ''grid'')) (\<lambda>_.
            Inr class_index)))
      | _ \<Rightarrow> Inl (mode8_error ''. keys are not canonical''))"

text \<open>The class indices the entry adds to \<open>used_qk\<close> and \<open>used_pv\<close>.\<close>

definition check_k_entry :: "nat \<Rightarrow> json \<Rightarrow> (int \<times> int) result" where
  "check_k_entry i v =
     (case v of
        JObj doc \<Rightarrow>
          if \<not> has_keys doc [''active_k'', ''qk'', ''pv''] then Inl (mode8_error '' keys are not canonical'')
          else
            bindE (guardE (\<not> py_eq (got doc ''active_k'') (JInt (MINIMUM_K + int i)))
              (mode8_error ''.active_k is not canonical'')) (\<lambda>_.
            bindE (check_k_operation (got doc ''qk'') QK_CLASS_COUNT) (\<lambda>qk.
            bindE (check_k_operation (got doc ''pv'') PV_CLASS_COUNT) (\<lambda>pv.
            Inr (qk, pv))))
      | _ \<Rightarrow> Inl (mode8_error '' keys are not canonical''))"

definition all_classes :: "nat \<Rightarrow> int set" where
  "all_classes n = int ` {0..<n}"

definition validate_class_table_document :: "json_object \<Rightarrow> unit result" where
  "validate_class_table_document doc =
     bindE (guardE (\<not> has_keys doc [''schema_version'', ''active_k_range'', ''qk_class_count'', ''pv_class_count'',
         ''classes'', ''k_records'']) (mode8_error '' keys are not canonical'')) (\<lambda>_.
     let dimensions_error = Inl (mode8_error '' dimensions are not canonical'')
     in if \<not> py_eq (got doc ''schema_version'') (JInt 1) \<or>
           \<not> py_eq (got doc ''active_k_range'') (JList [JInt MINIMUM_K, JInt MAXIMUM_K]) \<or>
           \<not> py_eq (got doc ''qk_class_count'') (JInt (int QK_CLASS_COUNT)) \<or>
           \<not> py_eq (got doc ''pv_class_count'') (JInt (int PV_CLASS_COUNT))
        then dimensions_error
        else case (got doc ''classes'', got doc ''k_records'') of
          (JList classes, JList k_records) \<Rightarrow>
            if length classes \<noteq> CLASS_COUNT \<or> length k_records \<noteq> K_COUNT then dimensions_error
            else
              bindE (mapE_from 0 check_class_entry classes) (\<lambda>_.
              bindE (mapE_from 0 check_k_entry k_records) (\<lambda>used.
              guardE (fst ` set used \<noteq> all_classes QK_CLASS_COUNT \<or> snd ` set used \<noteq> all_classes PV_CLASS_COUNT)
                (mode8_error '' contains an unused kernel class'')))
        | _ \<Rightarrow> dimensions_error)"

subsection \<open>From the structures to the document\<close>

definition require_zero_reserved :: "64 word list \<Rightarrow> unit result" where
  "require_zero_reserved values =
     guardE (list_ex (\<lambda>v. uint v \<noteq> 0) values) (mode8_error '' contains nonzero reserved fields'')"

text \<open>A terminator that is missing has index -1.\<close>

definition decode_function_name :: "byte list \<Rightarrow> pystr result" where
  "decode_function_name payload =
     (let name = takeWhile (\<lambda>b. b \<noteq> 0) payload;
          terminator = (if 0 \<in> set payload then int (length name) else - 1)
      in bindE (guardE (terminator < 1) (mode8_error ''.function_name is not NUL-terminated'')) (\<lambda>_.
         bindE (guardE (list_ex (\<lambda>b. b \<noteq> 0) (drop (Suc (length name)) payload))
           (mode8_error ''.function_name has nonzero trailing bytes'')) (\<lambda>_.
         case ascii_decode name of
           None \<Rightarrow> Inl (mode8_error ''.function_name is not ASCII'')
         | Some s \<Rightarrow>
             if list_ex (\<lambda>c. c < 33 \<or> 126 < c) s
             then Inl (mode8_error ''.function_name has unsafe characters'') else Inr s)))"

definition transport_name :: "32 word \<Rightarrow> string option" where
  "transport_name t = (if t = 1 then Some ''kernel_params'' else if t = 2 then Some ''extra'' else None)"

definition operation_code :: "nat \<Rightarrow> int" where
  "operation_code i = (if i < QK_CLASS_COUNT then 1 else 2)"

definition word_list_json :: "32 word list \<Rightarrow> json" where
  "word_list_json ws = JList (map (\<lambda>w. JInt (uint w)) ws)"

definition class_document :: "nat \<Rightarrow> mode8_class_record \<Rightarrow> json result" where
  "class_document i r =
     bindE (guardE (uint (kc_struct_size r) \<noteq> int SIZEOF_CLASS_RECORD) (mode8_error ''.struct_size mismatch'')) (\<lambda>_.
     bindE (guardE (uint (kc_abi_version r) \<noteq> int MODE8_ABI_VERSION) (mode8_error ''.abi_version mismatch'')) (\<lambda>_.
     bindE (guardE (uint (kc_operation r) \<noteq> operation_code i \<or> uint (kc_class_index r) \<noteq> int (mode8_class_index i))
       (mode8_error '' operation/class ordering mismatch'')) (\<lambda>_.
     case transport_name (kc_parameter_transport r) of
       None \<Rightarrow> Inl (mode8_error ''.parameter_transport is invalid'')
     | Some transport \<Rightarrow>
         let block = [kc_block_x r, kc_block_y r, kc_block_z r]
         in bindE (guardE (list_ex (\<lambda>v. uint v \<le> 0) block \<or> uint (kc_parameter_size r) \<le> 0)
              (mode8_error '' has an empty launch contract'')) (\<lambda>_.
            bindE (guardE (uint (kc_reserved_0 r) \<noteq> 0) (mode8_error ''.reserved_0 is nonzero'')) (\<lambda>_.
            bindE (require_zero_reserved (kc_reserved r)) (\<lambda>_.
            bindE (decode_function_name (kc_function_name r)) (\<lambda>name.
            Inr (JObj
              [(pys ''operation'', JStr (pys (if uint (kc_operation r) = 1 then ''qk'' else ''pv''))),
               (pys ''class_index'', JInt (uint (kc_class_index r))),
               (pys ''function_name'', JStr name), (pys ''parameter_transport'', JStr (pys transport)),
               (pys ''block'', word_list_json block),
               (pys ''shared_memory_bytes'', JInt (uint (kc_shared_memory_bytes r))),
               (pys ''parameter_offset'', JInt (uint (kc_parameter_offset r))),
               (pys ''parameter_size'', JInt (uint (kc_parameter_size r)))])))))))) "

definition k_document :: "nat \<Rightarrow> mode8_k_record \<Rightarrow> json result" where
  "k_document i r =
     (let qk_grid = [kk_qk_grid_x r, kk_qk_grid_y r, kk_qk_grid_z r];
          pv_grid = [kk_pv_grid_x r, kk_pv_grid_y r, kk_pv_grid_z r]
      in
     bindE (guardE (uint (kk_struct_size r) \<noteq> int SIZEOF_K_RECORD) (mode8_error ''.struct_size mismatch'')) (\<lambda>_.
     bindE (guardE (uint (kk_abi_version r) \<noteq> int MODE8_ABI_VERSION) (mode8_error ''.abi_version mismatch'')) (\<lambda>_.
     bindE (guardE (sint (kk_active_k r) \<noteq> MINIMUM_K + int i) (mode8_error ''.active_k is not canonical'')) (\<lambda>_.
     bindE (guardE (\<not> (0 \<le> sint (kk_qk_class_index r) \<and> sint (kk_qk_class_index r) < int QK_CLASS_COUNT))
       (mode8_error ''.qk_class_index is invalid'')) (\<lambda>_.
     bindE (guardE (\<not> (0 \<le> sint (kk_pv_class_index r) \<and> sint (kk_pv_class_index r) < int PV_CLASS_COUNT))
       (mode8_error ''.pv_class_index is invalid'')) (\<lambda>_.
     bindE (guardE (list_ex (\<lambda>v. uint v \<le> 0) (qk_grid @ pv_grid)) (mode8_error '' has an empty grid dimension'')) (\<lambda>_.
     bindE (guardE (uint (kk_reserved_0 r) \<noteq> 0) (mode8_error ''.reserved_0 is nonzero'')) (\<lambda>_.
     bindE (require_zero_reserved (kk_reserved r)) (\<lambda>_.
     Inr (JObj
       [(pys ''active_k'', JInt (sint (kk_active_k r))),
        (pys ''qk'', JObj [(pys ''class_index'', JInt (sint (kk_qk_class_index r))), (pys ''grid'', word_list_json qk_grid)]),
        (pys ''pv'', JObj [(pys ''class_index'', JInt (sint (kk_pv_class_index r))), (pys ''grid'', word_list_json pv_grid)])])))))))))) "

text \<open>\<open>int(record[operation]["class_index"])\<close> of the records whose member is an object; the documents
  above have integers there.\<close>

fun used_class :: "string \<Rightarrow> json \<Rightarrow> int list" where
  "used_class operation (JObj doc) =
     (case got doc operation of
        JObj m \<Rightarrow> (case got m ''class_index'' of JInt i \<Rightarrow> [i] | _ \<Rightarrow> [])
      | _ \<Rightarrow> [])"
| "used_class operation _ = []"

definition table_document :: "json list \<Rightarrow> json list \<Rightarrow> json_object" where
  "table_document classes k_records =
     [(pys ''schema_version'', JInt 1), (pys ''active_k_range'', JList [JInt MINIMUM_K, JInt MAXIMUM_K]),
      (pys ''qk_class_count'', JInt (int QK_CLASS_COUNT)), (pys ''pv_class_count'', JInt (int PV_CLASS_COUNT)),
      (pys ''classes'', JList classes), (pys ''k_records'', JList k_records)]"

definition document_of_table :: "mode8_class_table \<Rightarrow> json_object result" where
  "document_of_table t =
     bindE (guardE (uint (kt_struct_size t) \<noteq> int SIZEOF_CLASS_TABLE \<or> uint (kt_abi_version t) \<noteq> int MODE8_ABI_VERSION \<or>
         uint (kt_class_count t) \<noteq> int CLASS_COUNT \<or> uint (kt_k_count t) \<noteq> int K_COUNT)
       (mode8_error ''mode-8 class-table header mismatch'')) (\<lambda>_.
     bindE (require_zero_reserved (kt_reserved t)) (\<lambda>_.
     bindE (mapE_from 0 class_document (kt_classes t)) (\<lambda>classes.
     bindE (mapE_from 0 k_document (kt_k_records t)) (\<lambda>k_records.
     bindE (guardE (set (concat (map (used_class ''qk'') k_records)) \<noteq> all_classes QK_CLASS_COUNT \<or>
         set (concat (map (used_class ''pv'') k_records)) \<noteq> all_classes PV_CLASS_COUNT)
       (mode8_error ''mode-8 class table contains an unused kernel class'')) (\<lambda>_.
     Inr (table_document classes k_records))))))"

type_synonym table_getter = "mode8_class_table \<Rightarrow> 32 word \<times> mode8_class_table"

definition collect_mode8_class_table_identity ::
  "(pyfloat \<Rightarrow> pystr) \<Rightarrow> table_getter option \<Rightarrow> mode8_class_table_identity result"
where
  "collect_mode8_class_table_identity frepr getter =
     (case getter of
        None \<Rightarrow> Inl (mode8_error ''plugin does not export the mode-8 class-table C ABI'')
      | Some get \<Rightarrow>
          let (status, t) = get requested_table
          in bindE (guardE (sint status \<noteq> 0) (mode8_error ''mode-8 class-table C ABI is not ready or conflicted: status='')) (\<lambda>_.
             bindE (document_of_table t) (\<lambda>doc.
             bindE (validate_class_table_document doc) (\<lambda>_.
             Inr \<lparr>ci_document = doc, ci_sha256 = sha256_hex (canonical_class_table_bytes frepr doc)\<rparr>))))"

definition mode8_digest :: "json \<Rightarrow> pystr option" where
  "mode8_digest v =
     (case v of
        JStr s \<Rightarrow> if length s \<noteq> 64 \<or> list_ex (\<lambda>c. c \<notin> set (pys ''0123456789abcdef'')) s then None else Some s
      | _ \<Rightarrow> None)"

definition parse_mode8_class_table_identity ::
  "(pyfloat \<Rightarrow> pystr) \<Rightarrow> json \<Rightarrow> json \<Rightarrow> mode8_class_table_identity result"
where
  "parse_mode8_class_table_identity frepr v digest =
     (case v of
        JObj doc \<Rightarrow>
          (case mode8_digest digest of
             None \<Rightarrow> Inl (mode8_error ''_sha256 must be a lowercase SHA-256'')
           | Some d \<Rightarrow>
               bindE (validate_class_table_document doc) (\<lambda>_.
               bindE (guardE (sha256_hex (canonical_class_table_bytes frepr doc) \<noteq> d) (mode8_error '' digest mismatch'')) (\<lambda>_.
               Inr \<lparr>ci_document = doc, ci_sha256 = d\<rparr>)))
      | _ \<Rightarrow> Inl (mode8_error '' must be an object''))"

subsection \<open>Well-formed tables\<close>

text \<open>What the array types of C fix.\<close>

definition table_shape :: "mode8_class_table \<Rightarrow> bool" where
  "table_shape t \<longleftrightarrow> length (kt_classes t) = CLASS_COUNT \<and> length (kt_k_records t) = K_COUNT"

definition c_name :: "byte list \<Rightarrow> byte list" where
  "c_name bs = takeWhile (\<lambda>b. b \<noteq> 0) bs"

text \<open>A printable name, and zeros up to the end of the array.\<close>

definition name_ok :: "byte list \<Rightarrow> bool" where
  "name_ok bs \<longleftrightarrow> c_name bs \<noteq> [] \<and> 0 \<in> set bs \<and> (\<forall>b \<in> set (drop (length (c_name bs)) bs). b = 0) \<and>
     (\<forall>b \<in> set (c_name bs). 33 \<le> unat b \<and> unat b \<le> 126)"

definition class_ok :: "nat \<Rightarrow> mode8_class_record \<Rightarrow> bool" where
  "class_ok i r \<longleftrightarrow>
     unat (kc_struct_size r) = SIZEOF_CLASS_RECORD \<and> unat (kc_abi_version r) = MODE8_ABI_VERSION \<and>
     unat (kc_operation r) = (if i < QK_CLASS_COUNT then 1 else 2) \<and> unat (kc_class_index r) = mode8_class_index i \<and>
     kc_parameter_transport r \<in> {1, 2} \<and> 0 \<notin> {kc_block_x r, kc_block_y r, kc_block_z r} \<and>
     kc_parameter_size r \<noteq> 0 \<and> kc_reserved_0 r = 0 \<and> set (kc_reserved r) \<subseteq> {0} \<and> name_ok (kc_function_name r)"

definition k_ok :: "nat \<Rightarrow> mode8_k_record \<Rightarrow> bool" where
  "k_ok i r \<longleftrightarrow>
     unat (kk_struct_size r) = SIZEOF_K_RECORD \<and> unat (kk_abi_version r) = MODE8_ABI_VERSION \<and>
     sint (kk_active_k r) = MINIMUM_K + int i \<and>
     sint (kk_qk_class_index r) \<in> all_classes QK_CLASS_COUNT \<and> sint (kk_pv_class_index r) \<in> all_classes PV_CLASS_COUNT \<and>
     0 \<notin> {kk_qk_grid_x r, kk_qk_grid_y r, kk_qk_grid_z r, kk_pv_grid_x r, kk_pv_grid_y r, kk_pv_grid_z r} \<and>
     kk_reserved_0 r = 0 \<and> set (kk_reserved r) \<subseteq> {0}"

definition table_ok :: "mode8_class_table \<Rightarrow> bool" where
  "table_ok t \<longleftrightarrow>
     unat (kt_struct_size t) = SIZEOF_CLASS_TABLE \<and> unat (kt_abi_version t) = MODE8_ABI_VERSION \<and>
     unat (kt_class_count t) = CLASS_COUNT \<and> unat (kt_k_count t) = K_COUNT \<and> set (kt_reserved t) \<subseteq> {0} \<and>
     (\<forall>i < length (kt_classes t). class_ok i (kt_classes t ! i)) \<and>
     (\<forall>i < length (kt_k_records t). k_ok i (kt_k_records t ! i)) \<and>
     (\<lambda>r. sint (kk_qk_class_index r)) ` set (kt_k_records t) = all_classes QK_CLASS_COUNT \<and>
     (\<lambda>r. sint (kk_pv_class_index r)) ` set (kt_k_records t) = all_classes PV_CLASS_COUNT"

text \<open>The document of a table.\<close>

definition class_json :: "nat \<Rightarrow> mode8_class_record \<Rightarrow> json" where
  "class_json i r = JObj
     [(pys ''operation'', JStr (pys (mode8_operation i))), (pys ''class_index'', JInt (int (mode8_class_index i))),
      (pys ''function_name'', JStr (map unat (c_name (kc_function_name r)))),
      (pys ''parameter_transport'', JStr (pys (if kc_parameter_transport r = 1 then ''kernel_params'' else ''extra''))),
      (pys ''block'', word_list_json [kc_block_x r, kc_block_y r, kc_block_z r]),
      (pys ''shared_memory_bytes'', JInt (uint (kc_shared_memory_bytes r))),
      (pys ''parameter_offset'', JInt (uint (kc_parameter_offset r))),
      (pys ''parameter_size'', JInt (uint (kc_parameter_size r)))]"

definition k_json :: "mode8_k_record \<Rightarrow> json" where
  "k_json r = JObj
     [(pys ''active_k'', JInt (sint (kk_active_k r))),
      (pys ''qk'', JObj [(pys ''class_index'', JInt (sint (kk_qk_class_index r))),
         (pys ''grid'', word_list_json [kk_qk_grid_x r, kk_qk_grid_y r, kk_qk_grid_z r])]),
      (pys ''pv'', JObj [(pys ''class_index'', JInt (sint (kk_pv_class_index r))),
         (pys ''grid'', word_list_json [kk_pv_grid_x r, kk_pv_grid_y r, kk_pv_grid_z r])])]"

definition table_json :: "mode8_class_table \<Rightarrow> json_object" where
  "table_json t = table_document (map (\<lambda>i. class_json i (kt_classes t ! i)) [0..<length (kt_classes t)])
     (map k_json (kt_k_records t))"

lemma uint_eq_int_iff: "uint w = int n \<longleftrightarrow> unat w = n"
  by (metis of_nat_eq_iff uint_nat)

lemma uint_not_positive [simp]: "uint w \<le> 0 \<longleftrightarrow> w = 0"
  by (metis le_less uint_0_iff uint_lt_0)

lemma require_zero_reserved_Inr_iff [result_simps]: "require_zero_reserved vs = Inr u \<longleftrightarrow> set vs \<subseteq> {0}"
  by (auto simp: require_zero_reserved_def guardE_eq_Inr list_ex_iff uint_0_iff)

lemma drop_c_name:
  "0 \<in> set bs \<Longrightarrow> drop (length (c_name bs)) bs = 0 # drop (Suc (length (c_name bs))) bs"
  by (induction bs) (auto simp: c_name_def)

lemma decode_function_name_Inr_iff:
  "decode_function_name bs = Inr s \<longleftrightarrow> name_ok bs \<and> s = map unat (c_name bs)"
proof -
  let ?n = "c_name bs"
  note drop = drop_c_name [of bs]
  have ascii: "ascii_decode ?n = Some (map unat ?n)" if "\<forall>b \<in> set ?n. unat b \<le> 126"
    using that by (auto simp: ascii_decode_def list_all_iff word_less_nat_alt)
  have ascii_only: "ascii_decode ?n = Some t \<Longrightarrow> t = map unat ?n" for t
    by (auto simp: ascii_decode_def split: if_splits)
  show ?thesis
  proof
    assume "decode_function_name bs = Inr s"
    then have "0 \<in> set bs" "?n \<noteq> []" "\<forall>b \<in> set (drop (Suc (length ?n)) bs). b = 0"
      and s: "ascii_decode ?n = Some s" "\<forall>c \<in> set s. 33 \<le> c \<and> c \<le> 126"
      unfolding decode_function_name_def Let_def c_name_def [symmetric]
      by (auto simp: result_simps list_ex_iff not_less split: if_splits option.splits)
    with drop ascii_only show "name_ok bs \<and> s = map unat ?n"
      by (auto simp: name_ok_def)
  next
    assume *: "name_ok bs \<and> s = map unat ?n"
    then have "0 \<in> set bs" "?n \<noteq> []" by (auto simp: name_ok_def)
    with * drop ascii show "decode_function_name bs = Inr s"
      unfolding decode_function_name_def Let_def c_name_def [symmetric]
      by (auto simp: name_ok_def list_ex_iff guardE_def)
  qed
qed

lemma transport_name_Some_iff:
  "transport_name t = Some n \<longleftrightarrow> t \<in> {1, 2} \<and> n = (if t = 1 then ''kernel_params'' else ''extra'')"
  by (auto simp: transport_name_def)

lemma uint_one_iff: "uint w = 1 \<longleftrightarrow> unat w = 1"
  using uint_eq_int_iff [of w 1] by simp

lemma operation_code_iff:
  "uint w = operation_code i \<longleftrightarrow> unat w = (if i < QK_CLASS_COUNT then 1 else 2)"
  using uint_eq_int_iff [of w 1] uint_eq_int_iff [of w 2] by (simp add: operation_code_def)

lemma class_document_ok:
  assumes "class_document i r = Inr v"
  shows "class_ok i r"
  using assms
  unfolding class_document_def Let_def guarded_Inr_iff class_ok_def
  by (cases "transport_name (kc_parameter_transport r)")
    (simp_all add: operation_code_iff uint_eq_int_iff transport_name_Some_iff uint_0_iff guarded_Inr_iff guardE_eq_Inr bindE_eq_Inr
      require_zero_reserved_Inr_iff decode_function_name_Inr_iff)

lemma class_document_json:
  assumes "class_ok i r"
  shows "class_document i r = Inr (class_json i r)"
proof -
  have "transport_name (kc_parameter_transport r) =
      Some (if kc_parameter_transport r = 1 then ''kernel_params'' else ''extra'')"
    using assms by (simp add: transport_name_Some_iff class_ok_def)
  moreover have "decode_function_name (kc_function_name r) = Inr (map unat (c_name (kc_function_name r)))"
    using assms by (simp add: decode_function_name_Inr_iff class_ok_def)
  moreover have "require_zero_reserved (kc_reserved r) = Inr ()"
    using assms by (simp add: require_zero_reserved_Inr_iff class_ok_def)
  moreover have "uint (kc_operation r) = operation_code i" "uint (kc_class_index r) = int (mode8_class_index i)"
    using assms by (simp_all add: operation_code_iff uint_eq_int_iff class_ok_def)
  moreover have "operation_code i = 1 \<longleftrightarrow> i < QK_CLASS_COUNT" by (simp add: operation_code_def)
  ultimately show ?thesis
    using assms
    by (simp add: class_document_def class_json_def class_ok_def uint_eq_int_iff uint_0_iff mode8_operation_def)
qed

lemma class_document_Inr_iff: "class_document i r = Inr v \<longleftrightarrow> class_ok i r \<and> v = class_json i r"
  using class_document_ok class_document_json by force

lemma in_all_classes: "i \<in> all_classes n \<longleftrightarrow> 0 \<le> i \<and> i < int n"
  by (auto simp: all_classes_def image_iff intro!: bexI [of _ "nat i"])

lemma k_document_Inr_iff: "k_document i r = Inr v \<longleftrightarrow> k_ok i r \<and> v = k_json r"
  unfolding k_document_def Let_def guarded_Inr_iff k_ok_def k_json_def
  by (auto simp: uint_eq_int_iff uint_0_iff in_all_classes bindE_eq_Inr require_zero_reserved_Inr_iff)

lemma triplet_of_words:
  "0 \<notin> {x, y, z} \<Longrightarrow> require_positive_triplet (word_list_json [x, y, z]) = Inr (map (\<lambda>w. JInt (uint w)) [x, y, z])"
  by (simp add: require_positive_triplet_def word_list_json_def positive_item_def not_less uint_0_iff flip: not_le)

lemma printable_c_name: "name_ok bs \<Longrightarrow> printable_name (JStr (map unat (c_name bs)))"
  by (auto simp: printable_name_def name_ok_def list_ex_iff not_less filter_map intro!: arg_cong [of _ _ length] filter_True)

lemma check_class_entry_json: "class_ok i r \<Longrightarrow> check_class_entry i (class_json i r) = Inr ()"
  unfolding check_class_entry_def class_json_def
  by (simp add: has_keys_def class_ok_def triplet_of_words mode8_require_integer_def printable_c_name
      guardE_def uint_0_iff del: py_eq.simps)

lemma check_k_operation_json:
  "i \<in> all_classes n \<Longrightarrow> 0 \<notin> {x, y, z} \<Longrightarrow>
   check_k_operation (JObj [(pys ''class_index'', JInt i), (pys ''grid'', word_list_json [x, y, z])]) n = Inr i"
  by (simp add: check_k_operation_def has_keys_def in_all_classes mode8_require_integer_def triplet_of_words)

lemma check_k_entry_json:
  "k_ok i r \<Longrightarrow> check_k_entry i (k_json r) = Inr (sint (kk_qk_class_index r), sint (kk_pv_class_index r))"
  unfolding check_k_entry_def k_json_def
  by (simp add: has_keys_def k_ok_def check_k_operation_json del: py_eq.simps)

lemma used_class_json:
  "used_class ''qk'' (k_json r) = [sint (kk_qk_class_index r)]"
  "used_class ''pv'' (k_json r) = [sint (kk_pv_class_index r)]"
  by (simp_all add: k_json_def)

lemma set_used_classes:
  "set (concat (map (used_class ''qk'') (map k_json rs))) = (\<lambda>r. sint (kk_qk_class_index r)) ` set rs"
  "set (concat (map (used_class ''pv'') (map k_json rs))) = (\<lambda>r. sint (kk_pv_class_index r)) ` set rs"
  by (auto simp: used_class_json)

lemma class_documents_Inr_iff:
  "mapE_from 0 class_document rs = Inr vs \<longleftrightarrow>
     (\<forall>i < length rs. class_ok i (rs ! i)) \<and> vs = map (\<lambda>i. class_json i (rs ! i)) [0..<length rs]"
  by (rule mapE_from_map_iff) (rule class_document_Inr_iff)

lemma k_documents_Inr_iff:
  "mapE_from 0 k_document rs = Inr vs \<longleftrightarrow> (\<forall>i < length rs. k_ok i (rs ! i)) \<and> vs = map k_json rs"
proof -
  have "map (\<lambda>i. k_json (rs ! i)) [0..<length rs] = map k_json rs" by (rule nth_equalityI) simp_all
  with mapE_from_map_iff [of k_document k_ok "\<lambda>_. k_json" rs vs, OF k_document_Inr_iff] show ?thesis by simp
qed

lemma document_of_table_Inr_iff: "document_of_table t = Inr doc \<longleftrightarrow> table_ok t \<and> doc = table_json t"
proof -
  let ?cs = "map (\<lambda>i. class_json i (kt_classes t ! i)) [0..<length (kt_classes t)]"
  have "document_of_table t = Inr doc \<longleftrightarrow>
      unat (kt_struct_size t) = SIZEOF_CLASS_TABLE \<and> unat (kt_abi_version t) = MODE8_ABI_VERSION \<and>
      unat (kt_class_count t) = CLASS_COUNT \<and> unat (kt_k_count t) = K_COUNT \<and> set (kt_reserved t) \<subseteq> {0} \<and>
      (\<exists>cs ks. mapE_from 0 class_document (kt_classes t) = Inr cs \<and> mapE_from 0 k_document (kt_k_records t) = Inr ks \<and>
         set (concat (map (used_class ''qk'') ks)) = all_classes QK_CLASS_COUNT \<and>
         set (concat (map (used_class ''pv'') ks)) = all_classes PV_CLASS_COUNT \<and> doc = table_document cs ks)"
    unfolding document_of_table_def guarded_Inr_iff bindE_eq_Inr require_zero_reserved_Inr_iff
    by (simp only: uint_eq_int_iff guardE_eq_Inr sum.inject) blast
  also have "\<dots> \<longleftrightarrow> table_ok t \<and> doc = table_json t"
    unfolding class_documents_Inr_iff k_documents_Inr_iff table_ok_def table_json_def set_used_classes [symmetric]
    by blast
  finally show ?thesis .
qed

lemma validate_table_json:
  assumes "table_ok t" "table_shape t"
  shows "validate_class_table_document (table_json t) = Inr ()"
proof -
  let ?cs = "map (\<lambda>i. class_json i (kt_classes t ! i)) [0..<length (kt_classes t)]"
  let ?used = "map (\<lambda>r. (sint (kk_qk_class_index r), sint (kk_pv_class_index r))) (kt_k_records t)"
  have classes: "mapE_from 0 check_class_entry ?cs = Inr (map (\<lambda>_. ()) ?cs)"
    using assms(1) by (simp add: mapE_from_Inr_iff table_ok_def check_class_entry_json)
  have ks: "mapE_from 0 check_k_entry (map k_json (kt_k_records t)) = Inr ?used"
    using assms(1) by (simp add: mapE_from_Inr_iff table_ok_def check_k_entry_json)
  have used: "fst ` set ?used = all_classes QK_CLASS_COUNT" "snd ` set ?used = all_classes PV_CLASS_COUNT"
    using assms(1) by (simp_all add: table_ok_def image_image)
  have ints: "py_eq (JList [JInt MINIMUM_K, JInt MAXIMUM_K]) (JList [JInt MINIMUM_K, JInt MAXIMUM_K])" by simp
  show ?thesis
    unfolding validate_class_table_document_def table_json_def table_document_def Let_def
    using assms(2) classes ks used ints by (simp add: has_keys_def table_shape_def del: py_eq.simps)
qed

subsection \<open>Which tables are collected\<close>

lemma class_table_collected:
  assumes "getter requested_table = (status, t)" "table_shape t"
  shows "collect_mode8_class_table_identity frepr (Some getter) = Inr i \<longleftrightarrow>
    sint status = 0 \<and> table_ok t \<and>
    i = \<lparr>ci_document = table_json t, ci_sha256 = sha256_hex (canonical_class_table_bytes frepr (table_json t))\<rparr>"
proof -
  have "collect_mode8_class_table_identity frepr (Some getter) = Inr i \<longleftrightarrow>
      sint status = 0 \<and> (\<exists>doc. document_of_table t = Inr doc \<and> validate_class_table_document doc = Inr () \<and>
        i = \<lparr>ci_document = doc, ci_sha256 = sha256_hex (canonical_class_table_bytes frepr doc)\<rparr>)"
    by (auto simp: collect_mode8_class_table_identity_def assms(1) result_simps)
  with validate_table_json [OF _ assms(2)] show ?thesis
    by (auto simp: document_of_table_Inr_iff)
qed

lemma mode8_digest_hex: "mode8_digest (JStr (sha256_hex m)) = Some (sha256_hex m)"
  using sha256_hexdigest_shape [of m] cublas_require_sha256_Inr_iff [of "JStr (sha256_hex m)" "sha256_hex m"]
  by (auto simp: mode8_digest_def cublas_require_sha256_def sha256_pattern_eq split: if_splits)

lemma collected_reparses:
  assumes "collect_mode8_class_table_identity frepr getter = Inr i"
  shows "parse_mode8_class_table_identity frepr (JObj (ci_document i)) (JStr (ci_sha256 i)) = Inr i"
proof -
  from assms obtain doc where "validate_class_table_document doc = Inr ()"
    "i = \<lparr>ci_document = doc, ci_sha256 = sha256_hex (canonical_class_table_bytes frepr doc)\<rparr>"
    by (auto simp: collect_mode8_class_table_identity_def result_simps split: option.splits prod.splits)
  then show ?thesis by (simp add: parse_mode8_class_table_identity_def mode8_digest_hex)
qed

text \<open>What an accepted document says of the kernels: for every active length there is a class of each
  operation, and every class is used.\<close>

definition k_entry_class :: "json_object \<Rightarrow> nat \<Rightarrow> string \<Rightarrow> int \<Rightarrow> bool" where
  "k_entry_class doc i operation c \<longleftrightarrow>
     (\<exists>ks entry m grid. got doc ''k_records'' = JList ks \<and> i < length ks \<and> ks ! i = JObj entry \<and>
        got entry operation = JObj m \<and> got m ''class_index'' = JInt c \<and>
        got m ''grid'' = JList (map JInt grid) \<and> length grid = 3 \<and> (\<forall>g \<in> set grid. 0 < g))"

definition routes_complete :: "json_object \<Rightarrow> string \<Rightarrow> nat \<Rightarrow> bool" where
  "routes_complete doc operation n \<longleftrightarrow>
     (\<forall>i < K_COUNT. \<exists>c. 0 \<le> c \<and> c < int n \<and> k_entry_class doc i operation c) \<and>
     (\<forall>c. 0 \<le> c \<and> c < int n \<longrightarrow> (\<exists>i < K_COUNT. k_entry_class doc i operation c))"

lemma positive_items: "list_all positive_item vs \<Longrightarrow> \<exists>grid. vs = map JInt grid \<and> (\<forall>g \<in> set grid. 0 < g)"
proof (induction vs)
  case (Cons v vs)
  then obtain i grid where "v = JInt i" "0 < i" "vs = map JInt grid" "\<forall>g \<in> set grid. 0 < g"
    by (auto simp: positive_item_def split: json.splits)
  then show ?case by (intro exI [of _ "i # grid"]) simp
qed simp

lemma positive_triplet_ints:
  "require_positive_triplet v = Inr vs \<Longrightarrow>
   \<exists>grid. v = JList (map JInt grid) \<and> length grid = 3 \<and> (\<forall>g \<in> set grid. 0 < g)"
  by (auto simp: require_positive_triplet_def split: json.splits if_splits dest!: positive_items)

lemma check_k_operation_Inr:
  "check_k_operation v n = Inr c \<Longrightarrow>
   \<exists>m grid. v = JObj m \<and> got m ''class_index'' = JInt c \<and> 0 \<le> c \<and> c < int n \<and>
     got m ''grid'' = JList (map JInt grid) \<and> length grid = 3 \<and> (\<forall>g \<in> set grid. 0 < g)"
  by (auto simp: check_k_operation_def mode8_require_integer_def guarded_Inr_iff bindE_eq_Inr
      guardE_eq_Inr split: json.splits if_splits dest!: positive_triplet_ints)

lemma check_k_entry_Inr:
  assumes "check_k_entry i (ks ! i) = Inr (qk, pv)" "got doc ''k_records'' = JList ks" "i < length ks"
  shows "0 \<le> qk \<and> qk < int QK_CLASS_COUNT \<and> k_entry_class doc i ''qk'' qk"
    and "0 \<le> pv \<and> pv < int PV_CLASS_COUNT \<and> k_entry_class doc i ''pv'' pv"
proof -
  from assms(1) obtain entry where entry: "ks ! i = JObj entry"
    "check_k_operation (got entry ''qk'') QK_CLASS_COUNT = Inr qk"
    "check_k_operation (got entry ''pv'') PV_CLASS_COUNT = Inr pv"
    by (auto simp: check_k_entry_def guarded_Inr_iff bindE_eq_Inr split: json.splits if_splits)
  show "0 \<le> qk \<and> qk < int QK_CLASS_COUNT \<and> k_entry_class doc i ''qk'' qk"
    using check_k_operation_Inr [OF entry(2)] entry(1) assms(2,3) by (auto simp: k_entry_class_def)
  show "0 \<le> pv \<and> pv < int PV_CLASS_COUNT \<and> k_entry_class doc i ''pv'' pv"
    using check_k_operation_Inr [OF entry(3)] entry(1) assms(2,3) by (auto simp: k_entry_class_def)
qed

lemma routes_completeI:
  assumes "length used = K_COUNT" "set used = all_classes n"
    and "\<And>i. i < K_COUNT \<Longrightarrow> 0 \<le> used ! i \<and> used ! i < int n \<and> k_entry_class doc i operation (used ! i)"
  shows "routes_complete doc operation n"
proof -
  have "\<exists>i < K_COUNT. k_entry_class doc i operation c" if "0 \<le> c" "c < int n" for c
  proof -
    from that assms(2) have "c \<in> set used" by (simp add: in_all_classes)
    then obtain i where "i < length used" "used ! i = c" by (auto simp: in_set_conv_nth)
    with assms(1,3) show ?thesis by auto
  qed
  with assms(3) show ?thesis by (auto simp: routes_complete_def)
qed

lemma validated_routes:
  assumes "validate_class_table_document doc = Inr u"
  shows "routes_complete doc ''qk'' QK_CLASS_COUNT" and "routes_complete doc ''pv'' PV_CLASS_COUNT"
proof -
  from assms obtain ks used where ks: "got doc ''k_records'' = JList ks" "length ks = K_COUNT"
    and used: "mapE_from 0 check_k_entry ks = Inr used"
    and sets: "fst ` set used = all_classes QK_CLASS_COUNT" "snd ` set used = all_classes PV_CLASS_COUNT"
    unfolding validate_class_table_document_def Let_def guarded_Inr_iff
    by (auto simp: bindE_eq_Inr guardE_eq_Inr split: json.splits if_splits)
  have len: "length used = K_COUNT" using mapE_from_length [OF used] ks(2) by simp
  have entry: "check_k_entry i (ks ! i) = Inr (fst (used ! i), snd (used ! i))" if "i < K_COUNT" for i
    using mapE_from_nth [OF used, of i] that ks(2) by simp
  show "routes_complete doc ''qk'' QK_CLASS_COUNT"
    using routes_completeI [of "map fst used" QK_CLASS_COUNT doc "''qk''"] check_k_entry_Inr(1) [OF entry ks(1)] len ks(2)
      sets(1) by simp
  show "routes_complete doc ''pv'' PV_CLASS_COUNT"
    using routes_completeI [of "map snd used" PV_CLASS_COUNT doc "''pv''"] check_k_entry_Inr(2) [OF entry ks(1)] len ks(2)
      sets(2) by simp
qed

subsection \<open>Properties\<close>

definition demo_class :: "nat \<Rightarrow> mode8_class_record" where
  "demo_class i =
     \<lparr>kc_struct_size = 344, kc_abi_version = 1, kc_operation = (if i < 7 then 1 else 2),
      kc_class_index = of_nat (mode8_class_index i), kc_parameter_transport = 1,
      kc_block_x = 128, kc_block_y = 1, kc_block_z = 1, kc_shared_memory_bytes = 0, kc_reserved_0 = 0,
      kc_parameter_offset = 0, kc_parameter_size = 8,
      kc_function_name = [107, 0], kc_reserved = [0]\<rparr>"

definition demo_k :: "nat \<Rightarrow> mode8_k_record" where
  "demo_k i =
     \<lparr>kk_struct_size = 80, kk_abi_version = 1, kk_active_k = of_nat (219 + i), kk_qk_class_index = of_nat (i mod 7),
      kk_qk_grid_x = 1, kk_qk_grid_y = 1, kk_qk_grid_z = 1, kk_pv_class_index = of_nat (i mod 14), kk_pv_grid_x = 1,
      kk_pv_grid_y = 1, kk_pv_grid_z = 1, kk_reserved_0 = 0, kk_reserved = [0]\<rparr>"

definition demo_class_table :: mode8_class_table where
  "demo_class_table =
     \<lparr>kt_struct_size = 27192, kt_abi_version = 1, kt_class_count = 21, kt_k_count = 249,
      kt_classes = map demo_class [0..<CLASS_COUNT], kt_k_records = map demo_k [0..<K_COUNT], kt_reserved = [0]\<rparr>"

lemmas size_defs = ctypes_sizeof_def align_up_def FUNCTION_NAME_CAPACITY_def CLASS_COUNT_def K_COUNT_def

lemma replicate_words:
  "replicate 10 x = [x, x, x, x, x, x, x, x, x, x]" "replicate 12 x = [x, x, x, x, x, x, x, x, x, x, x, x]"
  "replicate 4 x = [x, x, x, x]"
  by (simp_all add: numeral_eq_Suc)

lemma structure_sizes: "SIZEOF_CLASS_RECORD = 344" "SIZEOF_K_RECORD = 80" "SIZEOF_CLASS_TABLE = 27192"
proof -
  show c: "SIZEOF_CLASS_RECORD = 344" and k: "SIZEOF_K_RECORD = 80"
    by (simp_all add: SIZEOF_CLASS_RECORD_def SIZEOF_K_RECORD_def size_defs replicate_words)
  show "SIZEOF_CLASS_TABLE = 27192" by (simp add: SIZEOF_CLASS_TABLE_def c k size_defs replicate_words)
qed

lemma sint_small: "n < 2 ^ 31 \<Longrightarrow> sint (of_nat n :: 32 word) = int n"
  by (simp add: signed_of_nat signed_take_bit_int_eq_self)

lemma mod_classes:
  assumes "0 < n" "n \<le> K_COUNT"
  shows "(\<lambda>i. int (i mod n)) ` {0..<K_COUNT} = all_classes n"
proof -
  have "int (nat c mod n) = c \<and> nat c < K_COUNT" if "0 \<le> c" "c < int n" for c
    using that assms(2) by simp
  then have "c \<in> (\<lambda>i. int (i mod n)) ` {0..<K_COUNT}" if "0 \<le> c" "c < int n" for c
    using that by (intro image_eqI [of _ _ "nat c"]) simp_all
  then show ?thesis using assms(1) by (auto simp: in_all_classes)
qed

lemma demo_classes: "class_ok i (demo_class i)" if "i < CLASS_COUNT"
proof -
  have "mode8_class_index i < 4294967296" using that by (auto simp: mode8_class_index_def CLASS_COUNT_def)
  then show ?thesis
    by (simp add: class_ok_def demo_class_def structure_sizes MODE8_ABI_VERSION_def QK_CLASS_COUNT_def unat_of_nat
        name_ok_def c_name_def)
qed

lemma demo_ks: "k_ok i (demo_k i)" if "i < K_COUNT"
proof -
  have "sint (of_nat (219 + i) :: 32 word) = int (219 + i)"
    by (rule sint_small) (use that in \<open>simp add: K_COUNT_def\<close>)
  moreover have "sint (of_nat (i mod n) :: 32 word) = int (i mod n)" for n
    by (rule sint_small) (rule le_less_trans [OF mod_less_eq_dividend], use that in \<open>simp add: K_COUNT_def\<close>)
  ultimately show ?thesis
    by (simp add: k_ok_def demo_k_def structure_sizes MODE8_ABI_VERSION_def QK_CLASS_COUNT_def PV_CLASS_COUNT_def
        in_all_classes MINIMUM_K_def del: of_nat_add)
qed

lemma demo_class_table_ok: "table_ok demo_class_table" and demo_class_table_shape: "table_shape demo_class_table"
proof -
  have indices: "sint (of_nat (i mod n) :: 32 word) = int (i mod n)" if "i < K_COUNT" for i n
    by (rule sint_small) (rule le_less_trans [OF mod_less_eq_dividend], use that in \<open>simp add: K_COUNT_def\<close>)
  have "(\<lambda>r. sint (kk_qk_class_index r)) ` set (map demo_k [0..<K_COUNT]) = (\<lambda>i. int (i mod 7)) ` {0..<K_COUNT}"
    "(\<lambda>r. sint (kk_pv_class_index r)) ` set (map demo_k [0..<K_COUNT]) = (\<lambda>i. int (i mod 14)) ` {0..<K_COUNT}"
    unfolding set_map image_image set_upt by (rule image_cong; simp add: demo_k_def indices)+
  moreover have "7 \<le> K_COUNT" "14 \<le> K_COUNT" by (simp_all add: K_COUNT_def)
  ultimately show "table_ok demo_class_table"
    using mod_classes [of 7] mod_classes [of 14]
    by (simp add: table_ok_def demo_class_table_def structure_sizes demo_classes demo_ks QK_CLASS_COUNT_def
        PV_CLASS_COUNT_def MODE8_ABI_VERSION_def) (simp add: CLASS_COUNT_def K_COUNT_def)
  show "table_shape demo_class_table" by (simp add: table_shape_def demo_class_table_def)
qed

text \<open>C17: the table of kernel classes. For a table of the shape C gives it, an identity is collected exactly when
  the status is zero and every field of the table is well formed (\<open>table_ok\<close>); the identity is then the
  document of the table with the digest of its canonical text, it gives every active length a class of each
  operation and uses every class, and the receipts' parser reads the same identity back.\<close>

theorem class_table_identity_exact:
  assumes "getter requested_table = (status, t)" "table_shape t"
  shows "(\<exists>i. collect_mode8_class_table_identity frepr (Some getter) = Inr i) = (sint status = 0 \<and> table_ok t) \<and>
    (\<forall>i. collect_mode8_class_table_identity frepr (Some getter) = Inr i \<longrightarrow>
       ci_document i = table_json t \<and> ci_sha256 i = sha256_hex (canonical_class_table_bytes frepr (table_json t)) \<and>
       routes_complete (ci_document i) ''qk'' QK_CLASS_COUNT \<and> routes_complete (ci_document i) ''pv'' PV_CLASS_COUNT \<and>
       parse_mode8_class_table_identity frepr (JObj (ci_document i)) (JStr (ci_sha256 i)) = Inr i)"
proof -
  have "routes_complete (table_json t) ''qk'' QK_CLASS_COUNT \<and> routes_complete (table_json t) ''pv'' PV_CLASS_COUNT"
    if "table_ok t"
    using validated_routes [OF validate_table_json [OF that assms(2)]] by blast
  with class_table_collected [of getter status t frepr, OF assms] collected_reparses [of frepr "Some getter"] show ?thesis
    by auto
qed

theorem class_table_identity_exact_witness:
  "\<exists>i. collect_mode8_class_table_identity (\<lambda>_. []) (Some (\<lambda>_. (0, demo_class_table))) = Inr i \<and>
     routes_complete (ci_document i) ''pv'' PV_CLASS_COUNT"
  using class_table_identity_exact [of "\<lambda>_. (0, demo_class_table)" 0 demo_class_table "\<lambda>_. []"]
    demo_class_table_ok demo_class_table_shape by auto

end
