(* ===== verification/Mode8Receipt.thy ===== *)
theory Mode8Receipt
  imports Mode8ClassTable
begin

text \<open>
  The validation receipt of the mode-8 plugin (\<open>authenticate_mode8_component_receipt\<close> of
  \<open>tools/export/mode8_class_table_identity.py\<close>): one definition for each section of the document, and the
  directory the receipt lies in.

  What the file system answers about the directory is a record: the root, the entry of each name, the validator
  beside the module, and the two walks of the tree. \<open>mode8_receipt_facts\<close> collects what an accepted receipt
  says.
\<close>

subsection \<open>The sections\<close>

definition section_of :: "json_object \<Rightarrow> string \<Rightarrow> string list \<Rightarrow> string \<Rightarrow> json_object result" where
  "section_of doc key keys m =
     bindE (rt_mapping (got doc key)) (\<lambda>section.
     bindE (guardE (\<not> has_keys section keys) (mode8_error m)) (\<lambda>_. Inr section))"

abbreviation differs :: "json_object \<Rightarrow> string \<Rightarrow> json \<Rightarrow> bool" where
  "differs doc key expected \<equiv> \<not> py_eq (got doc key) expected"

abbreviation not_true :: "json_object \<Rightarrow> string \<Rightarrow> bool" where
  "not_true doc key \<equiv> got doc key \<noteq> JBool True"

definition mode8_require_sha256 :: "json \<Rightarrow> pystr result" where
  "mode8_require_sha256 v =
     (case mode8_digest v of None \<Rightarrow> Inl (mode8_error '' must be a lowercase SHA-256'') | Some d \<Rightarrow> Inr d)"

definition mode8_receipt_keys :: "string list" where
  "mode8_receipt_keys =
     [''schema_version'', ''artifact_role'', ''created_at_utc'', ''status'', ''reason'', ''contract'', ''source'',
      ''class_table'', ''class_table_sha256'', ''artifacts'', ''component'', ''cuda_graph'', ''execution_status'',
      ''runtime'']"

definition check_mode8_head :: "json_object \<Rightarrow> unit result" where
  "check_mode8_head doc =
     bindE (guardE (\<not> has_keys doc mode8_receipt_keys) (mode8_error ''mode-8 receipt keys are not canonical'')) (\<lambda>_.
     bindE (guardE (differs doc ''schema_version'' (JInt 1)) (mode8_error ''unsupported mode-8 receipt schema'')) (\<lambda>_.
     guardE (differs doc ''artifact_role'' (JStr (pys ''main_decoder_device_position_mode8_validation'')) \<or>
         differs doc ''status'' (JStr (pys ''accepted'')))
       (mode8_error ''mode-8 component receipt is not accepted'')))"

text \<open>The plugin the receipt is about, and the check that this validator wrote it. The validator's path is
  resolved first; its contents are read only after the recorded digest is well formed.\<close>

definition check_mode8_source :: "json_object \<Rightarrow> file_view \<Rightarrow> (pystr \<times> int) result" where
  "check_mode8_source doc validator =
     bindE (section_of doc ''source'' [''validator_sha256'', ''plugin_sha256'', ''plugin_size_bytes'']
       ''mode-8 receipt.source keys are not canonical'') (\<lambda>source.
     bindE (mode8_require_sha256 (got source ''plugin_sha256'')) (\<lambda>plugin_sha256.
     bindE (mode8_require_integer (got source ''plugin_size_bytes'')) (\<lambda>plugin_size_bytes.
     bindE (guardE (plugin_size_bytes \<le> 0) (mode8_error ''mode-8 plugin size must be positive'')) (\<lambda>_.
     bindE (fv_resolve validator) (\<lambda>_.
     bindE (mode8_require_sha256 (got source ''validator_sha256'')) (\<lambda>recorded.
     bindE (sha256_of_file validator) (\<lambda>actual.
     bindE (guardE (recorded \<noteq> actual) (mode8_error ''mode-8 receipt was produced by another validator'')) (\<lambda>_.
     Inr (plugin_sha256, plugin_size_bytes)))))))))"

definition MODE8_CONTRACT :: json_object where
  "MODE8_CONTRACT =
     [(pys ''fixed_io'', JBool True), (pys ''position_location'', JStr (pys ''DEVICE'')),
      (pys ''position_is_shape_inference_io'', JBool False), (pys ''first_position'', JInt 218),
      (pys ''last_position'', JInt 466), (pys ''execution_status_dtype'', JStr (pys ''INT32'')),
      (pys ''execution_status_location'', JStr (pys ''DEVICE'')),
      (pys ''execution_status_is_shape_inference_io'', JBool False),
      (pys ''execution_status_sticky_first_error'', JBool True), (pys ''component_layer_index'', JInt 0)]"

definition check_mode8_contract :: "json_object \<Rightarrow> unit result" where
  "check_mode8_contract doc =
     bindE (rt_mapping (got doc ''contract'')) (\<lambda>contract.
     guardE (\<not> py_eq (JObj contract) (JObj MODE8_CONTRACT)) (mode8_error ''mode-8 receipt contract is not canonical''))"

definition int_list :: "int list \<Rightarrow> json" where
  "int_list is = JList (map JInt is)"

definition COMPONENT_EVIDENCE :: "(string \<times> json) list" where
  "COMPONENT_EVIDENCE =
     [(''seeds'', int_list [2026080601, 2026080602, 2026080603]),
      (''mask_cases'', JList (map (JStr \<circ> pys) [''all_valid'', ''staggered_holes'', ''batch_split_holes''])),
      (''position_range'', int_list [218, 466]), (''case_count'', JInt 2241), (''total_elements'', JInt 3442176),
      (''bit_mismatch_count'', JInt 0), (''bit_mismatch_ratio'', JFloat (Fin 0)), (''positions_with_mismatch'', JList []),
      (''position_mismatch_count'', JInt 0), (''worst_max_abs'', JFloat (Fin 0)),
      (''execution_status_mismatch_count'', JInt 0)]"

definition check_mode8_component :: "json_object \<Rightarrow> unit result" where
  "check_mode8_component doc =
     bindE (section_of doc ''component'' (map fst COMPONENT_EVIDENCE @ [''first_mismatch'', ''bit_exact''])
       ''mode-8 receipt.component keys are not canonical'') (\<lambda>component.
     guardE (list_ex (\<lambda>(key, v). differs component key v) COMPONENT_EVIDENCE \<or> not_true component ''bit_exact'' \<or>
         got component ''first_mismatch'' \<noteq> JNull)
       (mode8_error ''mode-8 component evidence is not exact''))"

definition graph_position :: "json \<Rightarrow> json" where
  "graph_position v = (case v of JObj doc \<Rightarrow> got doc ''position'' | _ \<Rightarrow> JNull)"

definition inexact_graph_case :: "json \<Rightarrow> bool" where
  "inexact_graph_case v \<longleftrightarrow>
     (case v of
        JObj doc \<Rightarrow>
          \<not> has_keys doc [''position'', ''bit_mismatch_count'', ''execution_status'', ''max_abs''] \<or>
          differs doc ''bit_mismatch_count'' (JInt 0) \<or> differs doc ''execution_status'' (JInt 0) \<or>
          differs doc ''max_abs'' (JFloat (Fin 0))
      | _ \<Rightarrow> True)"

definition check_mode8_graph :: "json_object \<Rightarrow> unit result" where
  "check_mode8_graph doc =
     bindE (section_of doc ''cuda_graph''
       [''single_capture'', ''device_position_changed_between_replays'', ''cases'', ''replay_completed'']
       ''mode-8 receipt.cuda_graph keys are not canonical'') (\<lambda>graph.
     guardE (not_true graph ''single_capture'' \<or> not_true graph ''device_position_changed_between_replays'' \<or>
         not_true graph ''replay_completed'' \<or>
         (case got graph ''cases'' of
            JList cases \<Rightarrow>
              \<not> py_eq (JList (map graph_position cases)) (int_list [218, 256, 300, 466]) \<or> list_ex inexact_graph_case cases
          | _ \<Rightarrow> True))
       (mode8_error ''mode-8 graph evidence is not exact''))"

definition EXPECTED_INVALID_STATUS :: int where "EXPECTED_INVALID_STATUS = 2 ^ 28"

definition invalid_case :: "int \<Rightarrow> json" where
  "invalid_case position =
     JObj [(pys ''position'', JInt position), (pys ''status'', JInt EXPECTED_INVALID_STATUS)]"

definition check_mode8_execution_status :: "json_object \<Rightarrow> unit result" where
  "check_mode8_execution_status doc =
     bindE (section_of doc ''execution_status''
       [''layer_index'', ''invalid_cases'', ''sticky_input_status'', ''sticky_output_status'', ''sticky_first_error_preserved'']
       ''mode-8 receipt.execution_status keys are not canonical'') (\<lambda>status.
     guardE (differs status ''layer_index'' (JInt 0) \<or>
         differs status ''invalid_cases'' (JList [invalid_case 217, invalid_case 467]) \<or>
         differs status ''sticky_input_status'' (JInt EXPECTED_INVALID_STATUS) \<or>
         differs status ''sticky_output_status'' (JInt EXPECTED_INVALID_STATUS) \<or>
         not_true status ''sticky_first_error_preserved'')
       (mode8_error ''mode-8 execution-status evidence is not canonical''))"

definition check_mode8_runtime :: "json_object \<Rightarrow> (cuda_runtime_identity \<times> cublas_runtime_identity) result" where
  "check_mode8_runtime doc =
     bindE (section_of doc ''runtime''
       [''cuda'', ''cublas'', ''gpu_name'', ''gpu_compute_capability'', ''torch'', ''torch_cuda_build'', ''tensorrt'']
       ''mode-8 receipt.runtime keys are not canonical'') (\<lambda>runtime.
     bindE (guardE (differs runtime ''gpu_name'' (JStr (pys ''NVIDIA Thor'')) \<or>
         differs runtime ''gpu_compute_capability'' (int_list [11, 0]))
       (mode8_error ''mode-8 receipt was not measured on Thor sm_110'')) (\<lambda>_.
     bindE (parse_cuda_runtime_identity (got runtime ''cuda'')) (\<lambda>cuda.
     bindE (parse_cublas_runtime_identity (got runtime ''cublas'')) (\<lambda>cublas.
     Inr (cuda, cublas)))))"

subsection \<open>The directory\<close>

text \<open>\<open>rd_walk_files\<close>: for every entry below the root, its relative path and whether it is a file;
  \<open>rd_walk_kinds\<close>: the second walk, whether it is a symbolic link and whether it is a file.\<close>

record receipt_directory =
  rd_is_symlink :: bool
  rd_resolve :: "pystr result"
  rd_is_dir :: bool
  rd_entry :: "pystr \<Rightarrow> file_view"
  rd_walk_files :: "(pystr \<times> bool) list"
  rd_walk_kinds :: "(bool \<times> bool) list"

definition plan_name_unsafe :: "pystr \<Rightarrow> bool" where
  "plan_name_unsafe relative \<longleftrightarrow>
     relative \<in> {[], [46], [46, 46]} \<or> pure_root relative \<noteq> [] \<or> as_posix relative \<noteq> relative \<or>
     length (pure_components relative) \<noteq> 1"

text \<open>The file name of the one plan.\<close>

definition check_mode8_plan :: "json_object \<Rightarrow> receipt_directory \<Rightarrow> pystr result" where
  "check_mode8_plan doc dir =
     (case got doc ''artifacts'' of
        JList [v] \<Rightarrow>
          bindE (rt_mapping v) (\<lambda>artifact.
          bindE (guardE (\<not> has_keys artifact [''path'', ''sha256'', ''size_bytes''])
            (mode8_error ''mode-8 plan artifact keys are not canonical'')) (\<lambda>_.
          case got artifact ''path'' of
            JStr relative \<Rightarrow>
              if plan_name_unsafe relative then Inl (mode8_error ''mode-8 plan artifact path is unsafe'')
              else
                (let plan = rd_entry dir relative;
                     irregular = mode8_error ''mode-8 plan artifact is not a regular file'';
                     mismatch = mode8_error ''mode-8 plan artifact identity mismatch''
                 in bindE (guardE (fv_is_symlink plan) irregular) (\<lambda>_.
                    bindE (fv_resolve plan) (\<lambda>_.
                    bindE (guardE (\<not> fv_is_file plan) irregular) (\<lambda>_.
                    bindE (mode8_require_integer (got artifact ''size_bytes'')) (\<lambda>expected_size.
                    bindE (guardE (expected_size \<le> 0) mismatch) (\<lambda>_.
                    bindE (fv_size plan) (\<lambda>size.
                    bindE (guardE (size \<noteq> expected_size) mismatch) (\<lambda>_.
                    bindE (sha256_of_file plan) (\<lambda>digest.
                    bindE (mode8_require_sha256 (got artifact ''sha256'')) (\<lambda>expected.
                    bindE (guardE (digest \<noteq> expected) mismatch) (\<lambda>_.
                    Inr relative)))))))))))
          | _ \<Rightarrow> Inl (mode8_error ''mode-8 plan artifact path is unsafe'')))
      | _ \<Rightarrow> Inl (mode8_error ''mode-8 receipt must authenticate exactly one plan''))"

definition check_mode8_entries :: "receipt_directory \<Rightarrow> pystr list \<Rightarrow> unit result" where
  "check_mode8_entries dir expected =
     guardE (set (map fst (filter snd (rd_walk_files dir))) \<noteq> set expected \<or>
         list_ex (\<lambda>(is_symlink, is_file). is_symlink \<or> \<not> is_file) (rd_walk_kinds dir))
       (mode8_error ''mode-8 receipt directory entry set mismatch'')"

subsection \<open>The receipt\<close>

record authenticated_mode8_receipt =
  am_receipt_sha256 :: pystr
  am_plugin_sha256 :: pystr
  am_plugin_size_bytes :: int
  am_cuda_identity :: cuda_runtime_identity
  am_cublas_identity :: cublas_runtime_identity
  am_class_table :: mode8_class_table_identity

definition mode8_receipt_payload :: "receipt_directory \<Rightarrow> byte list result" where
  "mode8_receipt_payload dir =
     (let receipt = rd_entry dir (pys ''validation-receipt.json'');
          checksum = rd_entry dir (pys ''validation-receipt.json.sha256'')
      in bindE (guardE (rd_is_symlink dir) (mode8_error ''mode-8 validation root must not be a symlink'')) (\<lambda>_.
         bindE (rd_resolve dir) (\<lambda>_.
         bindE (guardE (\<not> rd_is_dir dir) (mode8_error ''mode-8 validation root must be a directory'')) (\<lambda>_.
         bindE (guardE (fv_is_symlink receipt \<or> fv_is_symlink checksum)
           (mode8_error ''mode-8 receipt files must not be symlinks'')) (\<lambda>_.
         bindE (fv_bytes receipt) (\<lambda>payload.
         bindE (fv_bytes checksum) (\<lambda>line.
         bindE (guardE (line \<noteq> checksum_line (sha256_hex payload) ''validation-receipt.json'')
           (mode8_error ''mode-8 receipt checksum mismatch'')) (\<lambda>_.
         Inr payload))))))))"

definition authenticate_mode8_component_receipt ::
  "pkg_env \<Rightarrow> (pyfloat \<Rightarrow> pystr) \<Rightarrow> receipt_directory \<Rightarrow> file_view \<Rightarrow> authenticated_mode8_receipt result"
where
  "authenticate_mode8_component_receipt env frepr dir validator =
     bindE (mode8_receipt_payload dir) (\<lambda>payload.
     bindE (loads_with_hook env (mode8_error ''mode-8 receipt duplicates JSON key '') payload) (\<lambda>raw.
     bindE (rt_mapping raw) (\<lambda>doc.
     bindE (check_mode8_head doc) (\<lambda>_.
     bindE (check_mode8_source doc validator) (\<lambda>(plugin_sha256, plugin_size_bytes).
     bindE (check_mode8_contract doc) (\<lambda>_.
     bindE (check_mode8_component doc) (\<lambda>_.
     bindE (check_mode8_graph doc) (\<lambda>_.
     bindE (check_mode8_execution_status doc) (\<lambda>_.
     bindE (check_mode8_runtime doc) (\<lambda>(cuda, cublas).
     bindE (parse_mode8_class_table_identity frepr (got doc ''class_table'') (got doc ''class_table_sha256'')) (\<lambda>class_table.
     bindE (check_mode8_plan doc dir) (\<lambda>relative.
     bindE (check_mode8_entries dir
       [pys ''validation-receipt.json'', pys ''validation-receipt.json.sha256'', relative]) (\<lambda>_.
     Inr \<lparr>am_receipt_sha256 = sha256_hex payload, am_plugin_sha256 = plugin_sha256,
          am_plugin_size_bytes = plugin_size_bytes, am_cuda_identity = cuda, am_cublas_identity = cublas,
          am_class_table = class_table\<rparr>)))))))))))))"

subsection \<open>What an accepted receipt says\<close>

lemma mode8_digest_Some_iff: "mode8_digest v = Some d \<longleftrightarrow> v = JStr d \<and> sha256_pattern d"
  using cublas_require_sha256_Inr_iff [of v d]
  by (auto simp: mode8_digest_def cublas_require_sha256_def split: json.splits if_splits)

lemma mode8_require_Inr_iff [accessor_simps]:
  "mode8_require_sha256 v = Inr d \<longleftrightarrow> v = JStr d \<and> sha256_pattern d"
  "mode8_require_integer v = Inr i \<longleftrightarrow> v = JInt i"
  using mode8_digest_Some_iff [of v d]
  by (auto simp: mode8_require_sha256_def mode8_require_integer_def split: option.splits json.splits)

lemma section_of_Inr_iff: "section_of doc key keys m = Inr s \<longleftrightarrow> got doc key = JObj s \<and> has_keys s keys"
  by (auto simp: section_of_def bindE_eq_Inr guardE_eq_Inr rt_Inr_iff)

lemma mode8_receipt_payload_Inr_iff:
  "mode8_receipt_payload dir = Inr payload \<longleftrightarrow>
     \<not> rd_is_symlink dir \<and> rd_is_dir dir \<and> (\<exists>root. rd_resolve dir = Inr root) \<and>
     \<not> fv_is_symlink (rd_entry dir (pys ''validation-receipt.json'')) \<and>
     \<not> fv_is_symlink (rd_entry dir (pys ''validation-receipt.json.sha256'')) \<and>
     fv_bytes (rd_entry dir (pys ''validation-receipt.json'')) = Inr payload \<and>
     fv_bytes (rd_entry dir (pys ''validation-receipt.json.sha256'')) =
       Inr (checksum_line (sha256_hex payload) ''validation-receipt.json'')"
  by (auto simp: mode8_receipt_payload_def Let_def bindE_eq_Inr guardE_eq_Inr)

lemma check_mode8_source_Inr:
  assumes "check_mode8_source doc validator = Inr (digest, size_bytes)"
  shows "\<exists>source code. got doc ''source'' = JObj source \<and> got source ''plugin_sha256'' = JStr digest \<and>
    got source ''plugin_size_bytes'' = JInt size_bytes \<and> 0 < size_bytes \<and> fv_bytes validator = Inr code \<and>
    got source ''validator_sha256'' = JStr (sha256_hex code)"
  using assms
  by (auto simp: check_mode8_source_def section_of_Inr_iff bindE_eq_Inr guardE_eq_Inr accessor_simps
      sha256_of_file_def)

lemma check_mode8_component_Inr:
  assumes "check_mode8_component doc = Inr u"
  shows "\<exists>component. got doc ''component'' = JObj component \<and> got component ''bit_exact'' = JBool True \<and>
    (\<forall>(key, v) \<in> set COMPONENT_EVIDENCE. py_eq (got component key) v)"
  using assms
  by (auto simp: check_mode8_component_def section_of_Inr_iff bindE_eq_Inr guardE_eq_Inr list_ex_iff)

lemma check_mode8_runtime_Inr:
  assumes "check_mode8_runtime doc = Inr (cuda, cublas)"
  shows "\<exists>runtime. got doc ''runtime'' = JObj runtime \<and> got runtime ''gpu_name'' = JStr (pys ''NVIDIA Thor'') \<and>
    parse_cuda_runtime_identity (got runtime ''cuda'') = Inr cuda \<and>
    parse_cublas_runtime_identity (got runtime ''cublas'') = Inr cublas"
  using assms
  by (auto simp: check_mode8_runtime_def section_of_Inr_iff bindE_eq_Inr guardE_eq_Inr simp del: py_eq.simps)

lemma check_mode8_plan_Inr:
  assumes "check_mode8_plan doc dir = Inr plan"
  shows "\<exists>artifact bytes. got doc ''artifacts'' = JList [JObj artifact] \<and> got artifact ''path'' = JStr plan \<and>
    \<not> plan_name_unsafe plan \<and> \<not> fv_is_symlink (rd_entry dir plan) \<and> fv_is_file (rd_entry dir plan) \<and>
    fv_bytes (rd_entry dir plan) = Inr bytes \<and> got artifact ''sha256'' = JStr (sha256_hex bytes) \<and>
    (\<exists>size_bytes. got artifact ''size_bytes'' = JInt size_bytes \<and> 0 < size_bytes \<and>
       fv_size (rd_entry dir plan) = Inr size_bytes)"
proof -
  from assms obtain v where v: "got doc ''artifacts'' = JList [v]"
    by (auto simp: check_mode8_plan_def split: json.splits list.splits)
  with assms obtain artifact where artifact: "v = JObj artifact"
    by (auto simp: check_mode8_plan_def bindE_eq_Inr rt_Inr_iff)
  with assms v obtain relative where "got artifact ''path'' = JStr relative"
    by (auto simp: check_mode8_plan_def bindE_eq_Inr rt_Inr_iff split: json.splits)
  with assms v artifact show ?thesis
    by (auto simp: check_mode8_plan_def Let_def bindE_eq_Inr guardE_eq_Inr accessor_simps sha256_of_file_def
        split: if_splits)
qed

lemma parse_class_table_Inr:
  assumes "parse_mode8_class_table_identity frepr v digest = Inr i"
  shows "v = JObj (ci_document i) \<and> digest = JStr (ci_sha256 i) \<and>
    ci_sha256 i = sha256_hex (canonical_class_table_bytes frepr (ci_document i)) \<and>
    routes_complete (ci_document i) ''qk'' QK_CLASS_COUNT \<and> routes_complete (ci_document i) ''pv'' PV_CLASS_COUNT"
  using assms validated_routes
  by (auto simp: parse_mode8_class_table_identity_def bindE_eq_Inr guardE_eq_Inr mode8_digest_Some_iff
      split: json.splits option.splits)

definition mode8_receipt_facts ::
  "pkg_env \<Rightarrow> (pyfloat \<Rightarrow> pystr) \<Rightarrow> receipt_directory \<Rightarrow> file_view \<Rightarrow> authenticated_mode8_receipt \<Rightarrow> bool"
where
  "mode8_receipt_facts env frepr dir validator a \<longleftrightarrow>
     (\<exists>payload doc code plan artifact bytes.
        fv_bytes (rd_entry dir (pys ''validation-receipt.json'')) = Inr payload \<and>
        am_receipt_sha256 a = sha256_hex payload \<and>
        fv_bytes (rd_entry dir (pys ''validation-receipt.json.sha256'')) =
          Inr (checksum_line (sha256_hex payload) ''validation-receipt.json'') \<and>
        pk_loads env payload = Some (JObj doc) \<and> json_wf (JObj doc) \<and>
        fv_bytes validator = Inr code \<and> got_path (JObj doc) [''source'', ''validator_sha256''] = JStr (sha256_hex code) \<and>
        got_path (JObj doc) [''source'', ''plugin_sha256''] = JStr (am_plugin_sha256 a) \<and>
        got_path (JObj doc) [''source'', ''plugin_size_bytes''] = JInt (am_plugin_size_bytes a) \<and>
        got_path (JObj doc) [''component'', ''bit_exact''] = JBool True \<and>
        (\<forall>(key, v) \<in> set COMPONENT_EVIDENCE. py_eq (got_path (JObj doc) [''component'', key]) v) \<and>
        parse_cuda_runtime_identity (got_path (JObj doc) [''runtime'', ''cuda'']) = Inr (am_cuda_identity a) \<and>
        parse_cublas_runtime_identity (got_path (JObj doc) [''runtime'', ''cublas'']) = Inr (am_cublas_identity a) \<and>
        got doc ''class_table'' = JObj (ci_document (am_class_table a)) \<and>
        ci_sha256 (am_class_table a) =
          sha256_hex (canonical_class_table_bytes frepr (ci_document (am_class_table a))) \<and>
        routes_complete (ci_document (am_class_table a)) ''qk'' QK_CLASS_COUNT \<and>
        routes_complete (ci_document (am_class_table a)) ''pv'' PV_CLASS_COUNT \<and>
        got doc ''artifacts'' = JList [JObj artifact] \<and> got artifact ''path'' = JStr plan \<and>
        fv_bytes (rd_entry dir plan) = Inr bytes \<and> got artifact ''sha256'' = JStr (sha256_hex bytes) \<and>
        set (map fst (filter snd (rd_walk_files dir))) =
          {pys ''validation-receipt.json'', pys ''validation-receipt.json.sha256'', plan} \<and>
        (\<forall>(is_symlink, is_file) \<in> set (rd_walk_kinds dir). \<not> is_symlink \<and> is_file))"

lemma authenticated_mode8:
  assumes "authenticate_mode8_component_receipt env frepr dir validator = Inr a"
  shows "mode8_receipt_facts env frepr dir validator a"
proof -
  from assms obtain payload doc plan where
    payload: "mode8_receipt_payload dir = Inr payload" and
    loads: "pk_loads env payload = Some (JObj doc)" "json_wf (JObj doc)" and
    source: "check_mode8_source doc validator = Inr (am_plugin_sha256 a, am_plugin_size_bytes a)" and
    component: "check_mode8_component doc = Inr ()" and
    runtime: "check_mode8_runtime doc = Inr (am_cuda_identity a, am_cublas_identity a)" and
    class_table: "parse_mode8_class_table_identity frepr (got doc ''class_table'') (got doc ''class_table_sha256'') =
      Inr (am_class_table a)" and
    plan: "check_mode8_plan doc dir = Inr plan" and
    entries: "check_mode8_entries dir
      [pys ''validation-receipt.json'', pys ''validation-receipt.json.sha256'', plan] = Inr ()" and
    digest: "am_receipt_sha256 a = sha256_hex payload"
    unfolding authenticate_mode8_component_receipt_def
    by (auto simp: bindE_eq_Inr loads_with_hook_Inr_iff rt_Inr_iff)
  from payload have bytes: "fv_bytes (rd_entry dir (pys ''validation-receipt.json'')) = Inr payload"
    "fv_bytes (rd_entry dir (pys ''validation-receipt.json.sha256'')) =
       Inr (checksum_line (sha256_hex payload) ''validation-receipt.json'')"
    by (simp_all add: mode8_receipt_payload_Inr_iff)
  from entries have walk: "set (map fst (filter snd (rd_walk_files dir))) =
      {pys ''validation-receipt.json'', pys ''validation-receipt.json.sha256'', plan}"
    "\<forall>(is_symlink, is_file) \<in> set (rd_walk_kinds dir). \<not> is_symlink \<and> is_file"
    by (auto simp: check_mode8_entries_def guardE_eq_Inr list_ex_iff)
  from check_mode8_source_Inr [OF source] obtain code where
    s: "fv_bytes validator = Inr code" "got_path (JObj doc) [''source'', ''validator_sha256''] = JStr (sha256_hex code)"
      "got_path (JObj doc) [''source'', ''plugin_sha256''] = JStr (am_plugin_sha256 a)"
      "got_path (JObj doc) [''source'', ''plugin_size_bytes''] = JInt (am_plugin_size_bytes a)"
    by auto
  from check_mode8_component_Inr [OF component] have c: "got_path (JObj doc) [''component'', ''bit_exact''] = JBool True"
    "\<forall>(key, v) \<in> set COMPONENT_EVIDENCE. py_eq (got_path (JObj doc) [''component'', key]) v"
    by auto
  from check_mode8_runtime_Inr [OF runtime] have r:
    "parse_cuda_runtime_identity (got_path (JObj doc) [''runtime'', ''cuda'']) = Inr (am_cuda_identity a)"
    "parse_cublas_runtime_identity (got_path (JObj doc) [''runtime'', ''cublas'']) = Inr (am_cublas_identity a)"
    by auto
  show ?thesis
    unfolding mode8_receipt_facts_def
    using bytes digest loads s c r parse_class_table_Inr [OF class_table] check_mode8_plan_Inr [OF plan] walk by blast
qed

subsection \<open>Properties\<close>

definition demo_file :: "byte list \<Rightarrow> file_view" where
  "demo_file bs = \<lparr>fv_is_symlink = False, fv_resolve = Inr [], fv_is_file = True, fv_size = Inr (int (length bs)),
     fv_bytes = Inr bs\<rparr>"

definition demo_mode8_cuda :: cuda_runtime_identity where
  "demo_mode8_cuda =
     \<lparr>cr_driver_api_version_integer = 13000, cr_runtime_version_integer = 13000, cr_nvidia_driver_version = pys ''5.8''\<rparr>"

definition demo_mode8_cublas :: cublas_runtime_identity where
  "demo_mode8_cublas =
     \<lparr>cb_api_version_integer = 1, cb_library = \<lparr>ll_soname = pys CUBLAS_SONAME, ll_size_bytes = 1, ll_sha256 = zeros 64\<rparr>,
      cb_lt_library = \<lparr>ll_soname = pys CUBLAS_LT_SONAME, ll_size_bytes = 1, ll_sha256 = zeros 64\<rparr>\<rparr>"

definition demo_mode8_component :: json_object where
  "demo_mode8_component = map (\<lambda>(key, v). (pys key, v)) COMPONENT_EVIDENCE @
     [(pys ''first_mismatch'', JNull), (pys ''bit_exact'', JBool True)]"

definition demo_graph_case :: "int \<Rightarrow> json" where
  "demo_graph_case position = JObj
     [(pys ''position'', JInt position), (pys ''bit_mismatch_count'', JInt 0), (pys ''execution_status'', JInt 0),
      (pys ''max_abs'', JFloat (Fin 0))]"

definition demo_mode8_graph :: json_object where
  "demo_mode8_graph =
     [(pys ''single_capture'', JBool True), (pys ''device_position_changed_between_replays'', JBool True),
      (pys ''cases'', JList (map demo_graph_case [218, 256, 300, 466])), (pys ''replay_completed'', JBool True)]"

definition demo_mode8_status :: json_object where
  "demo_mode8_status =
     [(pys ''layer_index'', JInt 0), (pys ''invalid_cases'', JList [invalid_case 217, invalid_case 467]),
      (pys ''sticky_input_status'', JInt EXPECTED_INVALID_STATUS), (pys ''sticky_output_status'', JInt EXPECTED_INVALID_STATUS),
      (pys ''sticky_first_error_preserved'', JBool True)]"

definition demo_mode8_runtime :: json_object where
  "demo_mode8_runtime =
     [(pys ''cuda'', cuda_runtime_identity_json demo_mode8_cuda),
      (pys ''cublas'', cublas_runtime_identity_json demo_mode8_cublas), (pys ''gpu_name'', JStr (pys ''NVIDIA Thor'')),
      (pys ''gpu_compute_capability'', int_list [11, 0]), (pys ''torch'', JStr (pys ''2'')),
      (pys ''torch_cuda_build'', JStr (pys ''13'')), (pys ''tensorrt'', JStr (pys ''10''))]"

definition demo_mode8_source :: json_object where
  "demo_mode8_source =
     [(pys ''validator_sha256'', JStr (sha256_hex [7])), (pys ''plugin_sha256'', JStr (zeros 64)),
      (pys ''plugin_size_bytes'', JInt 1)]"

definition demo_mode8_artifact :: json_object where
  "demo_mode8_artifact =
     [(pys ''path'', JStr (pys ''p'')), (pys ''sha256'', JStr (sha256_hex [1])), (pys ''size_bytes'', JInt 1)]"

definition demo_mode8_receipt :: json_object where
  "demo_mode8_receipt =
     [(pys ''schema_version'', JInt 1), (pys ''artifact_role'', JStr (pys ''main_decoder_device_position_mode8_validation'')),
      (pys ''created_at_utc'', JNull), (pys ''status'', JStr (pys ''accepted'')), (pys ''reason'', JNull),
      (pys ''contract'', JObj MODE8_CONTRACT), (pys ''source'', JObj demo_mode8_source),
      (pys ''class_table'', JObj (table_json demo_class_table)),
      (pys ''class_table_sha256'',
         JStr (sha256_hex (canonical_class_table_bytes (\<lambda>_. []) (table_json demo_class_table)))),
      (pys ''artifacts'', JList [JObj demo_mode8_artifact]), (pys ''component'', JObj demo_mode8_component),
      (pys ''cuda_graph'', JObj demo_mode8_graph), (pys ''execution_status'', JObj demo_mode8_status),
      (pys ''runtime'', JObj demo_mode8_runtime)]"

definition demo_mode8_env :: pkg_env where
  "demo_mode8_env =
     \<lparr>pk_loads = (\<lambda>_. Some (JObj demo_mode8_receipt)), pk_float_of_int = (\<lambda>_. None), pk_fromisoformat = (\<lambda>_. None)\<rparr>"

definition demo_mode8_directory :: receipt_directory where
  "demo_mode8_directory =
     \<lparr>rd_is_symlink = False, rd_resolve = Inr [], rd_is_dir = True,
      rd_entry = (\<lambda>name.
        if name = pys ''p'' then demo_file [1]
        else if name = pys ''validation-receipt.json.sha256''
          then demo_file (checksum_line (sha256_hex [123]) ''validation-receipt.json'')
        else demo_file [123]),
      rd_walk_files = map (\<lambda>n. (pys n, True)) [''validation-receipt.json'', ''validation-receipt.json.sha256'', ''p''],
      rd_walk_kinds = [(False, True), (False, True), (False, True)]\<rparr>"

lemma table_json_wf: "json_wf (JObj (table_json t))"
  by (auto simp: table_json_def table_document_def class_json_def k_json_def word_list_json_def)

lemma demo_mode8_wf: "json_wf (JObj demo_mode8_receipt)"
proof -
  have "json_wf (JObj MODE8_CONTRACT)" by (simp add: MODE8_CONTRACT_def)
  moreover have "json_wf (JObj demo_mode8_source)" by (simp add: demo_mode8_source_def)
  moreover have "json_wf (JObj demo_mode8_artifact)" by (simp add: demo_mode8_artifact_def)
  moreover have "json_wf (JObj demo_mode8_component)"
    by (simp add: demo_mode8_component_def COMPONENT_EVIDENCE_def int_list_def)
  moreover have "json_wf (JObj demo_mode8_graph)" by (simp add: demo_mode8_graph_def demo_graph_case_def)
  moreover have "json_wf (JObj demo_mode8_status)" by (simp add: demo_mode8_status_def invalid_case_def)
  moreover have "json_wf (JObj demo_mode8_runtime)"
    by (simp add: demo_mode8_runtime_def cuda_runtime_identity_json_def cublas_runtime_identity_json_def
        loaded_library_identity_json_def int_list_def)
  ultimately show ?thesis
    using table_json_wf [of demo_class_table] by (simp add: demo_mode8_receipt_def del: json_wf_JObj) (simp add: json_wf_JObj)
qed

lemma demo_mode8_lookups:
  "got demo_mode8_receipt ''schema_version'' = JInt 1"
  "got demo_mode8_receipt ''artifact_role'' = JStr (pys ''main_decoder_device_position_mode8_validation'')"
  "got demo_mode8_receipt ''status'' = JStr (pys ''accepted'')"
  "got demo_mode8_receipt ''contract'' = JObj MODE8_CONTRACT"
  "got demo_mode8_receipt ''source'' = JObj demo_mode8_source"
  "got demo_mode8_receipt ''class_table'' = JObj (table_json demo_class_table)"
  "got demo_mode8_receipt ''class_table_sha256'' =
     JStr (sha256_hex (canonical_class_table_bytes (\<lambda>_. []) (table_json demo_class_table)))"
  "got demo_mode8_receipt ''artifacts'' = JList [JObj demo_mode8_artifact]"
  "got demo_mode8_receipt ''component'' = JObj demo_mode8_component"
  "got demo_mode8_receipt ''cuda_graph'' = JObj demo_mode8_graph"
  "got demo_mode8_receipt ''execution_status'' = JObj demo_mode8_status"
  "got demo_mode8_receipt ''runtime'' = JObj demo_mode8_runtime"
  by (simp_all add: demo_mode8_receipt_def)

lemma mode8_require_sha256_ok: "sha256_pattern s \<Longrightarrow> mode8_require_sha256 (JStr s) = Inr s"
  by (simp add: mode8_require_Inr_iff)

lemma demo_mode8_head_accepted: "check_mode8_head demo_mode8_receipt = Inr ()"
proof -
  have "has_keys demo_mode8_receipt mode8_receipt_keys"
    by (simp add: has_keys_def demo_mode8_receipt_def mode8_receipt_keys_def insert_commute)
  then show ?thesis by (simp add: check_mode8_head_def demo_mode8_lookups del: py_eq.simps)
qed

lemma demo_mode8_source_accepted: "check_mode8_source demo_mode8_receipt (demo_file [7]) = Inr (zeros 64, 1)"
  by (simp add: check_mode8_source_def section_of_def demo_mode8_lookups rt_mapping_def has_keys_def demo_mode8_source_def
      mode8_require_sha256_ok mode8_require_integer_def demo_file_def sha256_of_file_def)

lemma demo_mode8_contract_accepted: "check_mode8_contract demo_mode8_receipt = Inr ()"
proof -
  have "py_eq (JObj MODE8_CONTRACT) (JObj MODE8_CONTRACT)"
    by (rule py_eq_refl) (simp_all add: MODE8_CONTRACT_def)
  then show ?thesis by (simp add: check_mode8_contract_def demo_mode8_lookups rt_mapping_def del: py_eq.simps)
qed

lemma got_entry:
  "distinct (map fst kvs) \<Longrightarrow> (key, v) \<in> set kvs \<Longrightarrow> got (map (\<lambda>(key, v). (pys key, v)) kvs @ rest) key = v"
  by (induction kvs) force+

lemma demo_evidence_entry: "(key, v) \<in> set COMPONENT_EVIDENCE \<Longrightarrow> got demo_mode8_component key = v \<and> py_eq v v"
proof
  assume kv: "(key, v) \<in> set COMPONENT_EVIDENCE"
  have "distinct (map fst COMPONENT_EVIDENCE)" by (simp add: COMPONENT_EVIDENCE_def)
  from got_entry [OF this kv] show "got demo_mode8_component key = v" by (simp add: demo_mode8_component_def)
  have "\<forall>kv \<in> set COMPONENT_EVIDENCE. json_wf (snd kv) \<and> no_nan (snd kv)"
    by (simp add: COMPONENT_EVIDENCE_def int_list_def)
  with kv show "py_eq v v" by (force intro: py_eq_refl)
qed

lemma demo_mode8_component_accepted: "check_mode8_component demo_mode8_receipt = Inr ()"
proof -
  have "has_keys demo_mode8_component (map fst COMPONENT_EVIDENCE @ [''first_mismatch'', ''bit_exact''])"
    by (simp add: has_keys_def demo_mode8_component_def image_image case_prod_beta)
  moreover have "got demo_mode8_component ''bit_exact'' = JBool True" "got demo_mode8_component ''first_mismatch'' = JNull"
    by (simp_all add: demo_mode8_component_def COMPONENT_EVIDENCE_def)
  moreover have "\<not> list_ex (\<lambda>(key, v). differs demo_mode8_component key v) COMPONENT_EVIDENCE"
    using demo_evidence_entry by (auto simp: list_ex_iff)
  ultimately show ?thesis
    by (simp add: check_mode8_component_def section_of_def demo_mode8_lookups rt_mapping_def)
qed

lemma demo_mode8_graph_accepted: "check_mode8_graph demo_mode8_receipt = Inr ()"
proof -
  have "py_eq (int_list [218, 256, 300, 466]) (int_list [218, 256, 300, 466])" by (rule py_eq_refl) (simp_all add: int_list_def)
  moreover have "graph_position (demo_graph_case p) = JInt p" for p
    by (simp add: graph_position_def demo_graph_case_def)
  moreover have "\<not> inexact_graph_case (demo_graph_case p)" for p
    by (simp add: inexact_graph_case_def demo_graph_case_def has_keys_def num_case_def num_eq_def)
  ultimately show ?thesis
    by (simp add: check_mode8_graph_def section_of_def demo_mode8_lookups rt_mapping_def demo_mode8_graph_def has_keys_def
        int_list_def del: py_eq.simps)
qed

lemma demo_mode8_status_accepted: "check_mode8_execution_status demo_mode8_receipt = Inr ()"
proof -
  have "py_eq (JList [invalid_case 217, invalid_case 467]) (JList [invalid_case 217, invalid_case 467])"
    by (rule py_eq_refl) (simp_all add: invalid_case_def)
  then show ?thesis
    by (simp add: check_mode8_execution_status_def section_of_def demo_mode8_lookups rt_mapping_def demo_mode8_status_def
        has_keys_def del: py_eq.simps)
qed

lemma demo_identities:
  "parse_cuda_runtime_identity (cuda_runtime_identity_json demo_mode8_cuda) = Inr demo_mode8_cuda"
  "parse_cublas_runtime_identity (cublas_runtime_identity_json demo_mode8_cublas) = Inr demo_mode8_cublas"
  by (rule parse_cuda_json, simp add: cuda_wf_def demo_mode8_cuda_def driver_version_pattern_def pys_def is_digit_def)
    (rule parse_cublas_json, simp add: cublas_wf_def library_wf_def demo_mode8_cublas_def)

lemma demo_mode8_runtime_accepted: "check_mode8_runtime demo_mode8_receipt = Inr (demo_mode8_cuda, demo_mode8_cublas)"
proof -
  have "py_eq (int_list [11, 0]) (int_list [11, 0])" by (rule py_eq_refl) (simp_all add: int_list_def)
  then show ?thesis
    by (simp add: check_mode8_runtime_def section_of_def demo_mode8_lookups rt_mapping_def demo_mode8_runtime_def
        has_keys_def demo_identities del: py_eq.simps)
qed

lemma demo_mode8_plan_accepted: "check_mode8_plan demo_mode8_receipt demo_mode8_directory = Inr (pys ''p'')"
proof -
  have "\<not> plan_name_unsafe (pys ''p'')"
    by (simp add: plan_name_unsafe_def pys_def pure_root_def as_posix_def pure_components_def)
  moreover have "rd_entry demo_mode8_directory (pys ''p'') = demo_file [1]" by (simp add: demo_mode8_directory_def)
  ultimately show ?thesis
    by (simp add: check_mode8_plan_def demo_mode8_lookups demo_mode8_artifact_def rt_mapping_def has_keys_def
        demo_file_def mode8_require_integer_def sha256_of_file_def mode8_require_sha256_ok)
qed

lemma demo_mode8_payload_accepted: "mode8_receipt_payload demo_mode8_directory = Inr [123]"
  by (simp add: mode8_receipt_payload_Inr_iff demo_mode8_directory_def demo_file_def)

lemma demo_mode8_table_accepted:
  "\<exists>i. parse_mode8_class_table_identity (\<lambda>_. []) (got demo_mode8_receipt ''class_table'')
     (got demo_mode8_receipt ''class_table_sha256'') = Inr i"
  using class_table_collected [of "\<lambda>_. (0, demo_class_table)" 0 demo_class_table "\<lambda>_. []"] demo_class_table_ok
    demo_class_table_shape collected_reparses [of "\<lambda>_. []" "Some (\<lambda>_. (0, demo_class_table))"]
  by (fastforce simp: demo_mode8_lookups)

lemma demo_mode8_authenticated:
  "\<exists>a. authenticate_mode8_component_receipt demo_mode8_env (\<lambda>_. []) demo_mode8_directory (demo_file [7]) = Inr a"
proof -
  have "loads_with_hook demo_mode8_env e [123] = Inr (JObj demo_mode8_receipt)" for e
    using demo_mode8_wf by (simp add: loads_with_hook_Inr_iff demo_mode8_env_def)
  moreover have "check_mode8_entries demo_mode8_directory
      [pys ''validation-receipt.json'', pys ''validation-receipt.json.sha256'', pys ''p''] = Inr ()"
    by (simp add: check_mode8_entries_def demo_mode8_directory_def)
  ultimately show ?thesis
    using demo_mode8_table_accepted
    by (auto simp: authenticate_mode8_component_receipt_def demo_mode8_payload_accepted rt_mapping_def
        demo_mode8_head_accepted demo_mode8_source_accepted demo_mode8_contract_accepted demo_mode8_component_accepted
        demo_mode8_graph_accepted demo_mode8_status_accepted demo_mode8_runtime_accepted demo_mode8_plan_accepted)
qed



end
