(* ===== verification/SourceAcceptance.thy ===== *)
theory SourceAcceptance
  imports Mode8Receipt BundlePublication
begin

text \<open>
  The writer of the source-model acceptance receipt (\<open>tools/oracle/source_acceptance_receipt.py\<close>): it validates the
  raw document of the CUDA acceptance probe against the oracle lock, and makes of it a receipt that holds only
  portable facts. Every function of the module is here, in its order of evaluation, up to the command line.

  An object of the receipt that is copied member by member from another is \<open>read_members\<close> of a list of keys with
  their readers. \<open>datetime.fromtimestamp(...).isoformat(timespec="microseconds")\<close> is the argument
  \<open>isoformat\<close>; the environment is the one of \<open>PackageJson\<close>.
\<close>

subsection \<open>Inputs and accessors\<close>

definition sa_error :: "string \<Rightarrow> exn" where
  "sa_error m = Exn SourceAcceptanceError m"

definition MAX_JSON_BYTES :: int where "MAX_JSON_BYTES = 16 * 1024 * 1024"

text \<open>\<open>fv_is_symlink\<close>, \<open>fv_is_file\<close> and \<open>fv_size\<close> are the answers for the resolved path. Decoding errors are
  caught; what the hook raises is not.\<close>

definition sa_load_json :: "pkg_env \<Rightarrow> file_view \<Rightarrow> (json_object \<times> byte list) result" where
  "sa_load_json env f =
     bindE (fv_resolve f) (\<lambda>_.
     bindE (guardE (\<not> fv_is_file f \<or> fv_is_symlink f) (sa_error ''JSON input must be a regular file: '')) (\<lambda>_.
     bindE (fv_size f) (\<lambda>size.
     bindE (guardE (size \<le> 0 \<or> MAX_JSON_BYTES < size) (sa_error ''JSON input size is outside 1..: '')) (\<lambda>_.
     bindE (fv_bytes f) (\<lambda>payload.
     case pk_loads env payload of
       None \<Rightarrow> Inl (sa_error ''invalid JSON: : '')
     | Some raw \<Rightarrow>
         bindE (pairs_hook (sa_error ''duplicate JSON key: '') raw) (\<lambda>decoded.
         bindE (json_root (sa_error ''JSON root must be an object: '') decoded) (\<lambda>doc.
         Inr (doc, payload))))))))"

definition sa_object :: "json \<Rightarrow> json_object result" where
  "sa_object v = (case v of JObj doc \<Rightarrow> Inr doc | _ \<Rightarrow> Inl (sa_error '': expected an object''))"

definition sa_array :: "json \<Rightarrow> json list result" where
  "sa_array v = (case v of JList vs \<Rightarrow> Inr vs | _ \<Rightarrow> Inl (sa_error '': expected an array''))"

definition sa_string :: "json \<Rightarrow> pystr result" where
  "sa_string v =
     (case v of
        JStr s \<Rightarrow> if s = [] then Inl (sa_error '': expected a non-empty string'') else Inr s
      | _ \<Rightarrow> Inl (sa_error '': expected a non-empty string''))"

definition sa_integer :: "json \<Rightarrow> int result" where
  "sa_integer v = (case v of JInt i \<Rightarrow> Inr i | _ \<Rightarrow> Inl (sa_error '': expected an integer''))"

definition sa_number :: "pkg_env \<Rightarrow> json \<Rightarrow> rat result" where
  "sa_number env v =
     (case v of
        JInt i \<Rightarrow>
          (case pk_float_of_int env i of
             None \<Rightarrow> Inl (Exn PyOverflowError ''int too large to convert to float'')
           | Some q \<Rightarrow> Inr q)
      | JFloat (Fin q) \<Rightarrow> Inr q
      | JFloat _ \<Rightarrow> Inl (sa_error '': expected a finite JSON number'')
      | _ \<Rightarrow> Inl (sa_error '': expected a JSON number''))"

definition sa_sha256 :: "json \<Rightarrow> pystr result" where
  "sa_sha256 v =
     bindE (sa_string v) (\<lambda>s. if sha256_pattern s then Inr s else Inl (sa_error '': expected lowercase SHA-256''))"

definition sa_git_sha1 :: "json \<Rightarrow> pystr result" where
  "sa_git_sha1 v =
     bindE (sa_string v) (\<lambda>s. if git_sha1_pattern s then Inr s else Inl (sa_error '': expected lowercase Git SHA-1''))"

definition sa_exact_keys :: "json_object \<Rightarrow> string list \<Rightarrow> unit result" where
  "sa_exact_keys doc keys = guardE (\<not> has_keys doc keys) (sa_error '': key set mismatch: missing=, extra='')"

definition sa_true :: "json_object \<Rightarrow> string \<Rightarrow> unit result" where
  "sa_true doc key = guardE (got doc key \<noteq> JBool True) (sa_error '': expected true'')"

subsection \<open>Copying members\<close>

text \<open>\<open>{key: reader(document.get(key)), ...}\<close>\<close>

definition read_member :: "json_object \<Rightarrow> string \<times> (json \<Rightarrow> json result) \<Rightarrow> (pystr \<times> json) result" where
  "read_member doc kr = bindE (snd kr (got doc (fst kr))) (\<lambda>v. Inr (pys (fst kr), v))"

definition read_members :: "json_object \<Rightarrow> (string \<times> (json \<Rightarrow> json result)) list \<Rightarrow> json_object result" where
  "read_members doc krs = mapE (read_member doc) krs"

definition as_string :: "json \<Rightarrow> json result" where
  "as_string v = bindE (sa_string v) (\<lambda>s. Inr (JStr s))"

definition as_sha256 :: "json \<Rightarrow> json result" where
  "as_sha256 v = bindE (sa_sha256 v) (\<lambda>s. Inr (JStr s))"

definition as_git_sha1 :: "json \<Rightarrow> json result" where
  "as_git_sha1 v = bindE (sa_git_sha1 v) (\<lambda>s. Inr (JStr s))"

definition as_integer :: "json \<Rightarrow> json result" where
  "as_integer v = bindE (sa_integer v) (\<lambda>i. Inr (JInt i))"

definition as_array :: "json \<Rightarrow> json result" where
  "as_array v = bindE (sa_array v) (\<lambda>vs. Inr (JList vs))"

subsection \<open>The lock\<close>

definition source_file_line :: "pystr \<times> json \<Rightarrow> byte list result" where
  "source_file_line kv =
     bindE (sa_sha256 (snd kv)) (\<lambda>digest.
     bindE (utf8_encode (fst kv)) (\<lambda>name.
     Inr (name @ [0] @ map of_nat digest @ [10])))"

definition ordered_source_bundle_sha256 :: "json_object \<Rightarrow> pystr result" where
  "ordered_source_bundle_sha256 source_files =
     bindE (mapE source_file_line source_files) (\<lambda>lines. Inr (sha256_hex (concat lines)))"

definition source_from_lock :: "json_object \<Rightarrow> json_object result" where
  "source_from_lock lock =
     bindE (sa_object (got lock ''oracle_source'')) (\<lambda>source.
     bindE (sa_object (got source ''files'')) (\<lambda>source_files.
     bindE (guardE (length source_files \<noteq> 11)
       (sa_error ''/oracle_source/files: expected exactly 11 files, got '')) (\<lambda>_.
     bindE (sa_sha256 (got source ''optimized_source_bundle_sha256'')) (\<lambda>expected_bundle.
     bindE (ordered_source_bundle_sha256 source_files) (\<lambda>actual_bundle.
     bindE (guardE (actual_bundle \<noteq> expected_bundle)
       (sa_error ''/oracle_source/optimized_source_bundle_sha256: ordered digest mismatch: expected , got '')) (\<lambda>_.
     bindE (sa_string (got source ''repository'')) (\<lambda>repository.
     bindE (sa_git_sha1 (got source ''base_revision'')) (\<lambda>base_revision.
     Inr [(pys ''repository'', JStr repository), (pys ''base_revision'', JStr base_revision),
          (pys ''optimized_source_bundle_sha256'', JStr expected_bundle), (pys ''files'', JObj source_files)]))))))))"

definition LICENSE_MEMBERS :: "(string \<times> (json \<Rightarrow> json result)) list" where
  "LICENSE_MEMBERS =
     [(''name'', as_string), (''version'', as_string), (''document_file_name'', as_string),
      (''document_sha256'', as_sha256), (''required_notice_file_name'', as_string),
      (''required_notice_sha256'', as_sha256)]"

definition MODEL_MEMBERS :: "(string \<times> (json \<Rightarrow> json result)) list" where
  "MODEL_MEMBERS =
     [(''model_id'', as_string), (''version'', as_string), (''revision'', as_git_sha1), (''file_name'', as_string),
      (''sha256'', as_sha256), (''size_bytes'', as_integer)]"

definition model_from_lock :: "json_object \<Rightarrow> json_object result" where
  "model_from_lock lock =
     bindE (sa_object (got lock ''model'')) (\<lambda>model.
     bindE (sa_object (got model ''license'')) (\<lambda>license.
     bindE (sa_exact_keys license (map fst LICENSE_MEMBERS)) (\<lambda>_.
     bindE (read_members model MODEL_MEMBERS) (\<lambda>members.
     bindE (read_members license LICENSE_MEMBERS) (\<lambda>license_members.
     Inr (members @ [(pys ''license'', JObj license_members)]))))))"

definition CONTRACT_MEMBERS :: "(string \<times> (json \<Rightarrow> json result)) list" where
  "CONTRACT_MEMBERS =
     (''speaker_name'', as_string) # map (\<lambda>key. (key, as_integer))
       [''speaker_index'', ''local_ar_seed'', ''sample_rate_hz'', ''samples_per_codec_frame'', ''first_codec_frames'',
        ''steady_codec_frames'', ''tail_codec_frames_min'', ''tail_codec_frames_max'']"

definition acceptance_contract_from_lock :: "json_object \<Rightarrow> json_object result" where
  "acceptance_contract_from_lock lock =
     bindE (sa_object (got lock ''acceptance'')) (\<lambda>acceptance. read_members acceptance CONTRACT_MEMBERS)"

subsection \<open>The raw document\<close>

definition check_source_file :: "json_object \<Rightarrow> pystr \<times> json \<Rightarrow> unit result" where
  "check_source_file actual_files kv =
     bindE (sa_sha256 (dict_get actual_files (fst kv))) (\<lambda>actual.
     guardE (JStr actual \<noteq> snd kv) (sa_error ''/optimized_source_file_sha256/: differs from oracle lock''))"

definition validate_raw_source_section :: "json_object \<Rightarrow> json_object \<Rightarrow> unit result" where
  "validate_raw_source_section section lock =
     bindE (model_from_lock lock) (\<lambda>model.
     bindE (source_from_lock lock) (\<lambda>expected_source.
     bindE (sa_sha256 (got section ''model_sha256'')) (\<lambda>digest.
     bindE (sa_sha256 (got model ''sha256'')) (\<lambda>model_digest.
     bindE (guardE (digest \<noteq> model_digest) (sa_error ''/model_sha256: differs from oracle lock'')) (\<lambda>_.
     bindE (sa_integer (got section ''model_size_bytes'')) (\<lambda>size.
     bindE (sa_integer (got model ''size_bytes'')) (\<lambda>model_size.
     bindE (guardE (size \<noteq> model_size) (sa_error ''/model_size_bytes: differs from oracle lock'')) (\<lambda>_.
     bindE (sa_git_sha1 (got section ''speech_git_head'')) (\<lambda>head.
     bindE (guardE (JStr head \<noteq> got expected_source ''base_revision'')
       (sa_error ''/speech_git_head: differs from oracle lock'')) (\<lambda>_.
     bindE (sa_object (got section ''optimized_source_file_sha256'')) (\<lambda>actual_files.
     bindE (sa_object (got expected_source ''files'')) (\<lambda>expected_files.
     bindE (guardE (map fst actual_files \<noteq> map fst expected_files)
       (sa_error ''/optimized_source_file_sha256: ordered file set differs from oracle lock'')) (\<lambda>_.
     bindE (all_steps (check_source_file actual_files) expected_files) (\<lambda>_.
     bindE (sa_sha256 (got section ''optimized_source_bundle_sha256'')) (\<lambda>actual_bundle.
     bindE (sa_sha256 (got expected_source ''optimized_source_bundle_sha256'')) (\<lambda>expected_bundle.
     bindE (guardE (actual_bundle \<noteq> expected_bundle)
       (sa_error ''/optimized_source_bundle_sha256: differs from oracle lock'')) (\<lambda>_.
     bindE (ordered_source_bundle_sha256 actual_files) (\<lambda>ordered.
     guardE (ordered \<noteq> actual_bundle)
       (sa_error ''/optimized_source_bundle_sha256: does not authenticate the ordered internal file map'')))))))))))))))))))"

text \<open>\<open>s.replace(old, new)\<close> for a non-empty \<open>old\<close>.\<close>

function py_replace :: "pystr \<Rightarrow> pystr \<Rightarrow> pystr \<Rightarrow> pystr" where
  "py_replace old new s =
     (if old = [] \<or> s = [] then s
      else if take (length old) s = old then new @ py_replace old new (drop (length old) s)
      else hd s # py_replace old new (tl s))"
  by auto
termination
  by (relation "measure (\<lambda>(old, new, s). length s)") (auto simp: neq_Nil_conv)

declare py_replace.simps [simp del]

definition canonical_utc_timestamp :: "(rat \<Rightarrow> pystr result) \<Rightarrow> rat \<Rightarrow> pystr result" where
  "canonical_utc_timestamp isoformat unix_seconds =
     bindE (guardE (unix_seconds \<le> 0) (sa_error ''/created_unix_seconds: expected a positive timestamp'')) (\<lambda>_.
     bindE (isoformat unix_seconds) (\<lambda>s. Inr (py_replace (pys ''+00:00'') (pys ''Z'') s)))"

definition validate_case :: "json_object \<Rightarrow> json \<Rightarrow> pystr result" where
  "validate_case contract v =
     bindE (sa_object v) (\<lambda>case_doc.
     bindE (sa_string (got case_doc ''name'')) (\<lambda>name.
     bindE (sa_integer (got case_doc ''speaker_index'')) (\<lambda>speaker.
     bindE (guardE (differs contract ''speaker_index'' (JInt speaker)) (sa_error ''/speaker_index: differs from oracle lock'')) (\<lambda>_.
     bindE (sa_integer (got case_doc ''seed'')) (\<lambda>seed.
     bindE (guardE (differs contract ''local_ar_seed'' (JInt seed)) (sa_error ''/seed: differs from oracle lock'')) (\<lambda>_.
     bindE (sa_array (got case_doc ''schedule'')) (\<lambda>schedule.
     bindE (guardE (\<not> py_eq (JList schedule)
         (JList [got contract ''first_codec_frames'', got contract ''steady_codec_frames'', JBool True]))
       (sa_error ''/schedule: expected '')) (\<lambda>_.
     Inr name))))))))"

definition validate_cases :: "json_object \<Rightarrow> json_object \<Rightarrow> pystr list result" where
  "validate_cases raw contract =
     bindE (sa_array (got raw ''cases'')) (\<lambda>cases.
     bindE (mapE (validate_case contract) cases) (\<lambda>names.
     bindE (guardE (names \<noteq> map pys SOURCE_ACCEPTANCE_CASE_NAMES) (sa_error ''/cases: expected , got '')) (\<lambda>_.
     Inr names)))"

subsection \<open>The evidence\<close>

definition METRIC_SUMMARY_FIELDS :: "string list" where
  "METRIC_SUMMARY_FIELDS = [''median'', ''p95'', ''minimum'', ''maximum'']"

definition validate_metric_summary :: "pkg_env \<Rightarrow> json \<Rightarrow> json_object result" where
  "validate_metric_summary env v =
     bindE (sa_object v) (\<lambda>summary.
     bindE (sa_exact_keys summary METRIC_SUMMARY_FIELDS) (\<lambda>_.
     bindE (sa_number env (got summary ''median'')) (\<lambda>median.
     bindE (sa_number env (got summary ''p95'')) (\<lambda>p95.
     bindE (sa_number env (got summary ''minimum'')) (\<lambda>minimum.
     bindE (sa_number env (got summary ''maximum'')) (\<lambda>maximum.
     bindE (guardE (list_ex (\<lambda>metric. metric < 0) [median, p95, minimum, maximum])
       (sa_error '': metrics must be nonnegative'')) (\<lambda>_.
     bindE (guardE (minimum > median) (sa_error '': minimum exceeds median'')) (\<lambda>_.
     bindE (guardE (median > maximum) (sa_error '': median exceeds maximum'')) (\<lambda>_.
     bindE (guardE (minimum > p95) (sa_error '': minimum exceeds p95'')) (\<lambda>_.
     bindE (guardE (p95 > maximum) (sa_error '': p95 exceeds maximum'')) (\<lambda>_.
     Inr summary)))))))))))"

definition positive_peak :: "json_object \<Rightarrow> string \<Rightarrow> unit result" where
  "positive_peak aggregate key =
     bindE (sa_integer (got aggregate key)) (\<lambda>i. guardE (i \<le> 0) (sa_error '': expected a positive integer''))"

definition validate_aggregate :: "pkg_env \<Rightarrow> json \<Rightarrow> json_object result" where
  "validate_aggregate env v =
     bindE (sa_object v) (\<lambda>aggregate.
     bindE (sa_exact_keys aggregate SOURCE_ACCEPTANCE_AGGREGATE_FIELDS) (\<lambda>_.
     bindE (sa_integer (got aggregate ''case_count'')) (\<lambda>case_count.
     bindE (guardE (case_count \<noteq> 4) (sa_error ''/case_count: expected 4'')) (\<lambda>_.
     bindE (mapE (\<lambda>key. validate_metric_summary env (got aggregate key)) SOURCE_ACCEPTANCE_METRICS) (\<lambda>_.
     bindE (all_steps (positive_peak aggregate)
       [''maximum_peak_cuda_allocated_bytes'', ''maximum_peak_cuda_reserved_bytes'']) (\<lambda>_.
     Inr aggregate))))))"

definition validate_gates :: "json \<Rightarrow> json_object result" where
  "validate_gates v =
     bindE (sa_object v) (\<lambda>gates.
     bindE (sa_exact_keys gates (SOURCE_ACCEPTANCE_PASSED_GATES @ [''parakeet_gate_pending'', ''failures''])) (\<lambda>_.
     bindE (all_steps (sa_true gates) SOURCE_ACCEPTANCE_PASSED_GATES) (\<lambda>_.
     bindE (sa_true gates ''parakeet_gate_pending'') (\<lambda>_.
     bindE (sa_array (got gates ''failures'')) (\<lambda>failures.
     bindE (guardE (failures \<noteq> []) (sa_error ''/failures: expected an empty array'')) (\<lambda>_.
     Inr gates))))))"

definition validate_determinism_record :: "json_object \<Rightarrow> json \<times> string \<Rightarrow> unit result" where
  "validate_determinism_record contract vn =
     bindE (sa_object (fst vn)) (\<lambda>rec_doc.
     bindE (sa_exact_keys rec_doc DETERMINISM_FIELDS) (\<lambda>_.
     bindE (sa_string (got rec_doc ''case_name'')) (\<lambda>name.
     bindE (guardE (name \<noteq> pys (snd vn)) (sa_error ''/case_name: expected '')) (\<lambda>_.
     bindE (sa_integer (got rec_doc ''local_ar_seed'')) (\<lambda>seed.
     bindE (guardE (differs contract ''local_ar_seed'' (JInt seed)) (sa_error ''/local_ar_seed: differs from oracle lock'')) (\<lambda>_.
     bindE (sa_sha256 (got rec_doc ''first_codes_sha256'')) (\<lambda>first_codes.
     bindE (sa_sha256 (got rec_doc ''replay_codes_sha256'')) (\<lambda>replay_codes.
     bindE (sa_sha256 (got rec_doc ''first_pcm_f32le_sha256'')) (\<lambda>first_pcm.
     bindE (sa_sha256 (got rec_doc ''replay_pcm_f32le_sha256'')) (\<lambda>replay_pcm.
     bindE (sa_integer (got rec_doc ''first_codec_frame_count'')) (\<lambda>first_frames.
     bindE (sa_integer (got rec_doc ''replay_codec_frame_count'')) (\<lambda>replay_frames.
     guardE (not_true rec_doc ''codes_exact'' \<or> first_codes \<noteq> replay_codes \<or> not_true rec_doc ''pcm_exact'' \<or>
         first_pcm \<noteq> replay_pcm \<or> not_true rec_doc ''codec_frame_count_exact'' \<or> first_frames \<le> 0 \<or>
         first_frames \<noteq> replay_frames \<or> not_true rec_doc ''passed'')
       (sa_error '': same-seed replay is not exact'')))))))))))))"

definition validate_determinism :: "json \<Rightarrow> json_object \<Rightarrow> json list result" where
  "validate_determinism v contract =
     bindE (sa_array v) (\<lambda>records.
     bindE (guardE (length records \<noteq> length SOURCE_ACCEPTANCE_CASE_NAMES) (sa_error '': expected  records'')) (\<lambda>_.
     bindE (all_steps (validate_determinism_record contract) (zip records SOURCE_ACCEPTANCE_CASE_NAMES)) (\<lambda>_.
     Inr records)))"

subsection \<open>The public receipt\<close>

fun sa_reject_absolute_paths :: "json \<Rightarrow> unit result" where
  "sa_reject_absolute_paths (JObj kvs) = bindE (mapE (\<lambda>kv. sa_reject_absolute_paths (snd kv)) kvs) (\<lambda>_. Inr ())"
| "sa_reject_absolute_paths (JList vs) = bindE (mapE sa_reject_absolute_paths vs) (\<lambda>_. Inr ())"
| "sa_reject_absolute_paths (JStr s) =
     guardE (absolute_path s) (sa_error '': public receipt contains an absolute path'')"
| "sa_reject_absolute_paths _ = Inr ()"

definition PUBLIC_RECEIPT_KEYS :: "string list" where
  "PUBLIC_RECEIPT_KEYS =
     [''schema_version'', ''artifact_role'', ''status'', ''created_at_utc'', ''source_model'', ''oracle_source'',
      ''acceptance_contract'', ''probe'', ''runtime_environment'', ''evidence'']"

definition validate_public_head :: "pkg_env \<Rightarrow> json_object \<Rightarrow> unit result" where
  "validate_public_head env receipt =
     bindE (sa_exact_keys receipt PUBLIC_RECEIPT_KEYS) (\<lambda>_.
     bindE (sa_integer (got receipt ''schema_version'')) (\<lambda>version.
     bindE (guardE (version \<noteq> 2) (sa_error ''/schema_version: expected 2'')) (\<lambda>_.
     bindE (sa_string (got receipt ''artifact_role'')) (\<lambda>role.
     bindE (guardE (role \<noteq> pys ''source_model_acceptance'') (sa_error ''/artifact_role: expected '')) (\<lambda>_.
     bindE (sa_string (got receipt ''status'')) (\<lambda>status.
     bindE (guardE (status \<noteq> pys ''accepted'') (sa_error ''/status: expected '')) (\<lambda>_.
     bindE (sa_string (got receipt ''created_at_utc'')) (\<lambda>created_at.
     case pk_fromisoformat env (py_replace (pys ''Z'') (pys ''+00:00'') created_at) of
       None \<Rightarrow> Inl (sa_error ''/created_at_utc: expected an ISO-8601 timestamp'')
     | Some offset \<Rightarrow>
         guardE (offset \<noteq> Some 0 \<or> last created_at \<noteq> 90) (sa_error ''/created_at_utc: expected canonical UTC'')))))))))"

definition validate_public_lock :: "json_object \<Rightarrow> json_object \<Rightarrow> unit result" where
  "validate_public_lock receipt lock =
     bindE (model_from_lock lock) (\<lambda>model.
     bindE (sa_object (got receipt ''source_model'')) (\<lambda>receipt_model.
     bindE (guardE (\<not> py_eq (JObj receipt_model) (JObj model)) (sa_error ''/source_model: differs from oracle lock'')) (\<lambda>_.
     bindE (sa_object (got receipt ''oracle_source'')) (\<lambda>receipt_source.
     bindE (source_from_lock lock) (\<lambda>source.
     bindE (guardE (\<not> py_eq (JObj receipt_source) (JObj source)) (sa_error ''/oracle_source: differs from oracle lock'')) (\<lambda>_.
     bindE (sa_object (got receipt ''acceptance_contract'')) (\<lambda>receipt_contract.
     bindE (acceptance_contract_from_lock lock) (\<lambda>contract.
     guardE (\<not> py_eq (JObj receipt_contract) (JObj contract))
       (sa_error ''/acceptance_contract: differs from oracle lock'')))))))))"

definition PROBE_KEYS :: "string list" where
  "PROBE_KEYS =
     [''raw_receipt_sha256'', ''raw_receipt_size_bytes'', ''probe_sha256'', ''helper_sha256'', ''case_definition_sha256'']"

definition PROBE_DIGESTS :: "string list" where
  "PROBE_DIGESTS = [''raw_receipt_sha256'', ''probe_sha256'', ''helper_sha256'', ''case_definition_sha256'']"

definition validate_public_probe :: "json_object \<Rightarrow> unit result" where
  "validate_public_probe receipt =
     bindE (sa_object (got receipt ''probe'')) (\<lambda>probe.
     bindE (sa_exact_keys probe PROBE_KEYS) (\<lambda>_.
     bindE (mapE (\<lambda>key. sa_sha256 (got probe key)) PROBE_DIGESTS) (\<lambda>_.
     bindE (sa_integer (got probe ''raw_receipt_size_bytes'')) (\<lambda>size.
     guardE (size \<le> 0) (sa_error ''/probe/raw_receipt_size_bytes: expected a positive integer'')))))"

definition RUNTIME_KEYS :: "string list" where
  "RUNTIME_KEYS =
     [''torch_version'', ''torch_cuda_build'', ''cudnn_version'', ''cuda_driver_version'', ''gpu_name'',
      ''gpu_compute_capability'']"

definition RUNTIME_STRINGS :: "string list" where
  "RUNTIME_STRINGS = [''torch_version'', ''torch_cuda_build'', ''cuda_driver_version'', ''gpu_name'']"

definition validate_public_runtime :: "json_object \<Rightarrow> unit result" where
  "validate_public_runtime receipt =
     bindE (sa_object (got receipt ''runtime_environment'')) (\<lambda>runtime.
     bindE (sa_exact_keys runtime RUNTIME_KEYS) (\<lambda>_.
     bindE (mapE (\<lambda>key. sa_string (got runtime key)) RUNTIME_STRINGS) (\<lambda>_.
     bindE (sa_integer (got runtime ''cudnn_version'')) (\<lambda>cudnn.
     bindE (guardE (cudnn \<le> 0) (sa_error ''/runtime_environment/cudnn_version: expected a positive integer'')) (\<lambda>_.
     bindE (sa_array (got runtime ''gpu_compute_capability'')) (\<lambda>capability.
     guardE (\<not> py_eq (JList capability) (int_list [11, 0]))
       (sa_error ''/runtime_environment/gpu_compute_capability: expected [11, 0]'')))))))"

definition validate_public_evidence :: "pkg_env \<Rightarrow> json_object \<Rightarrow> json_object \<Rightarrow> unit result" where
  "validate_public_evidence env receipt lock =
     bindE (sa_object (got receipt ''evidence'')) (\<lambda>evidence.
     bindE (sa_exact_keys evidence [''case_names'', ''determinism'', ''aggregate'', ''gates'']) (\<lambda>_.
     bindE (sa_array (got evidence ''case_names'')) (\<lambda>case_names.
     bindE (guardE (\<not> py_eq (JList case_names) (JList (map (JStr \<circ> pys) SOURCE_ACCEPTANCE_CASE_NAMES)))
       (sa_error ''/evidence/case_names: expected '')) (\<lambda>_.
     bindE (acceptance_contract_from_lock lock) (\<lambda>contract.
     bindE (validate_determinism (got evidence ''determinism'') contract) (\<lambda>_.
     bindE (validate_aggregate env (got evidence ''aggregate'')) (\<lambda>_.
     bindE (validate_gates (got evidence ''gates'')) (\<lambda>_. Inr ()))))))))"

definition validate_public_acceptance :: "pkg_env \<Rightarrow> json_object \<Rightarrow> json_object \<Rightarrow> unit result" where
  "validate_public_acceptance env receipt lock =
     bindE (validate_public_head env receipt) (\<lambda>_.
     bindE (validate_public_lock receipt lock) (\<lambda>_.
     bindE (validate_public_probe receipt) (\<lambda>_.
     bindE (validate_public_runtime receipt) (\<lambda>_.
     bindE (validate_public_evidence env receipt lock) (\<lambda>_.
     sa_reject_absolute_paths (JObj receipt))))))"

definition RUNTIME_MEMBERS :: "(string \<times> (json \<Rightarrow> json result)) list" where
  "RUNTIME_MEMBERS =
     [(''torch_version'', as_string), (''torch_cuda_build'', as_string), (''cudnn_version'', as_integer),
      (''cuda_driver_version'', as_string), (''gpu_name'', as_string), (''gpu_compute_capability'', as_array)]"

text \<open>The first checks of \<open>validate_raw_acceptance\<close>: the probe completed, and its source did not change.\<close>

definition check_raw_head :: "json_object \<Rightarrow> unit result" where
  "check_raw_head raw =
     bindE (sa_string (got raw ''schema'')) (\<lambda>schema.
     bindE (guardE (schema \<noteq> pys ''magpie-final-native-bf16-streaming-acceptance-v1'') (sa_error ''/schema: expected '')) (\<lambda>_.
     bindE (sa_string (got raw ''status'')) (\<lambda>status.
     bindE (guardE (status \<noteq> pys ''passed_runtime_artifacts_ready_for_parakeet'') (sa_error ''/status: expected '')) (\<lambda>_.
     bindE (sa_string (got raw ''phase'')) (\<lambda>phase.
     bindE (guardE (phase \<noteq> pys ''complete'') (sa_error ''/phase: acceptance probe did not complete'')) (\<lambda>_.
     bindE (guardE (not_true raw ''source_unchanged'') (sa_error ''/source_unchanged: expected true'')) (\<lambda>_.
     guardE (got raw ''parakeet_transcription_evaluated'' \<noteq> JBool False)
       (sa_error ''/parakeet_transcription_evaluated: expected false for this gate''))))))))"

definition check_raw_source :: "json_object \<Rightarrow> json_object \<Rightarrow> json_object result" where
  "check_raw_source raw lock =
     bindE (sa_object (got raw ''source_start'')) (\<lambda>source_start.
     bindE (sa_object (got raw ''source_end'')) (\<lambda>source_end.
     bindE (guardE (\<not> py_eq (JObj source_start) (JObj source_end))
       (sa_error ''/source_end: source changed during acceptance'')) (\<lambda>_.
     bindE (validate_raw_source_section source_start lock) (\<lambda>_.
     bindE (validate_raw_source_section source_end lock) (\<lambda>_.
     Inr source_start)))))"

definition check_raw_audit :: "json_object \<Rightarrow> pystr list \<Rightarrow> json_object result" where
  "check_raw_audit raw case_names =
     bindE (sa_object (got raw ''static_audit'')) (\<lambda>static_audit.
     bindE (sa_array (got static_audit ''case_names'')) (\<lambda>audit_case_names.
     bindE (guardE (\<not> py_eq (JList audit_case_names) (JList (map JStr case_names)))
       (sa_error ''/static_audit/case_names: differs from executed cases'')) (\<lambda>_.
     Inr static_audit)))"

definition check_raw_runtime :: "json_object \<Rightarrow> json_object result" where
  "check_raw_runtime raw =
     bindE (sa_object (got raw ''runtime_environment'')) (\<lambda>runtime.
     bindE (sa_array (got runtime ''foreign_site_packages'')) (\<lambda>foreign.
     bindE (guardE (foreign \<noteq> [])
       (sa_error ''/runtime_environment/foreign_site_packages: expected an empty array'')) (\<lambda>_.
     Inr runtime)))"

definition validate_raw_acceptance ::
  "pkg_env \<Rightarrow> (rat \<Rightarrow> pystr result) \<Rightarrow> json_object \<Rightarrow> byte list \<Rightarrow> json_object \<Rightarrow> json_object result"
where
  "validate_raw_acceptance env isoformat raw raw_payload lock =
     bindE (check_raw_head raw) (\<lambda>_.
     bindE (check_raw_source raw lock) (\<lambda>source_start.
     bindE (validate_gates (got raw ''gates'')) (\<lambda>gates.
     bindE (acceptance_contract_from_lock lock) (\<lambda>contract.
     bindE (validate_cases raw contract) (\<lambda>case_names.
     bindE (validate_aggregate env (got raw ''aggregate'')) (\<lambda>aggregate.
     bindE (guardE (differs aggregate ''case_count'' (JInt (int (length case_names))))
       (sa_error ''/aggregate/case_count: differs from cases'')) (\<lambda>_.
     bindE (validate_determinism (got raw ''determinism'') contract) (\<lambda>determinism.
     bindE (check_raw_audit raw case_names) (\<lambda>static_audit.
     bindE (check_raw_runtime raw) (\<lambda>runtime.
     bindE (model_from_lock lock) (\<lambda>model.
     bindE (sa_number env (got raw ''created_unix_seconds'')) (\<lambda>unix_seconds.
     bindE (canonical_utc_timestamp isoformat unix_seconds) (\<lambda>created_at.
     bindE (source_from_lock lock) (\<lambda>source.
     bindE (read_members source_start [(''probe_sha256'', as_sha256), (''helper_sha256'', as_sha256)]) (\<lambda>probe_members.
     bindE (read_members static_audit [(''case_definition_sha256'', as_sha256)]) (\<lambda>case_members.
     bindE (read_members runtime RUNTIME_MEMBERS) (\<lambda>runtime_members.
     let receipt =
       [(pys ''schema_version'', JInt 2), (pys ''artifact_role'', JStr (pys ''source_model_acceptance'')),
        (pys ''status'', JStr (pys ''accepted'')), (pys ''created_at_utc'', JStr created_at),
        (pys ''source_model'', JObj model), (pys ''oracle_source'', JObj source),
        (pys ''acceptance_contract'', JObj contract),
        (pys ''probe'', JObj
          ([(pys ''raw_receipt_sha256'', JStr (sha256_bytes raw_payload)),
            (pys ''raw_receipt_size_bytes'', JInt (int (length raw_payload)))] @ probe_members @ case_members)),
        (pys ''runtime_environment'', JObj runtime_members),
        (pys ''evidence'', JObj
          [(pys ''case_names'', JList (map JStr case_names)), (pys ''determinism'', JList determinism),
           (pys ''aggregate'', JObj aggregate), (pys ''gates'', JObj gates)])]
     in bindE (sa_reject_absolute_paths (JObj receipt)) (\<lambda>_.
        bindE (validate_public_acceptance env receipt lock) (\<lambda>_.
        Inr receipt)))))))))))))))))))"

subsection \<open>Writing the receipt\<close>

text \<open>What the system answers: the absolute path of the parent and the resolved one, whether the file could be
  created (it must not exist), how many bytes each \<open>os.write\<close> wrote, and whether the two \<open>fsync\<close> succeeded.\<close>

record write_answers =
  wa_parent_absolute :: pystr
  wa_parent_resolved :: "pystr result"
  wa_create :: "unit result"
  wa_write :: "nat \<Rightarrow> byte list \<Rightarrow> int result"
  wa_fsync :: "unit result"
  wa_fsync_parent :: "unit result"

text \<open>\<open>while offset < len(payload)\<close>; the bytes written so far. \<open>os.write\<close> writes at most what it is given.\<close>

function sa_write_loop :: "(nat \<Rightarrow> byte list \<Rightarrow> int result) \<Rightarrow> nat \<Rightarrow> byte list \<Rightarrow> byte list result" where
  "sa_write_loop writer k payload =
     (if payload = [] then Inr []
      else case writer k payload of
        Inl e \<Rightarrow> Inl e
      | Inr written \<Rightarrow>
          if written \<le> 0 then Inl (sa_error ''receipt write made no progress'')
          else bindE (sa_write_loop writer (Suc k) (drop (nat written) payload)) (\<lambda>rest.
               Inr (take (nat written) payload @ rest)))"
  by auto
termination
  by (relation "measure (\<lambda>(writer, k, payload). length payload)") auto

declare sa_write_loop.simps [simp del]

definition write_no_replace ::
  "(pyfloat \<Rightarrow> pystr) \<Rightarrow> write_answers \<Rightarrow> json_object \<Rightarrow> (byte list \<times> pystr \<times> int) result"
where
  "write_no_replace frepr w receipt =
     bindE (wa_parent_resolved w) (\<lambda>parent.
     bindE (guardE (wa_parent_absolute w \<noteq> parent)
       (sa_error ''output parent must not contain symlinks or '..': '')) (\<lambda>_.
     bindE (pretty_json_bytes frepr (JObj receipt)) (\<lambda>payload.
     bindE (wa_create w) (\<lambda>_.
     bindE (sa_write_loop (wa_write w) 0 payload) (\<lambda>written.
     bindE (wa_fsync w) (\<lambda>_.
     bindE (wa_fsync_parent w) (\<lambda>_.
     Inr (written, sha256_bytes payload, int (length payload)))))))))"

text \<open>\<open>main\<close>: the answers to the two inputs and to the output; the result is the file's contents with the digest
  and the size that are printed.\<close>

definition source_acceptance_main ::
  "pkg_env \<Rightarrow> (rat \<Rightarrow> pystr result) \<Rightarrow> (pyfloat \<Rightarrow> pystr) \<Rightarrow> file_view \<Rightarrow> file_view \<Rightarrow> write_answers \<Rightarrow>
   (byte list \<times> pystr \<times> int) result"
where
  "source_acceptance_main env isoformat frepr lock_file raw_file w =
     bindE (sa_load_json env lock_file) (\<lambda>(lock, _).
     bindE (sa_load_json env raw_file) (\<lambda>(raw, raw_payload).
     bindE (validate_raw_acceptance env isoformat raw raw_payload lock) (\<lambda>receipt.
     write_no_replace frepr w receipt)))"

subsection \<open>When the accessors return\<close>

lemma sa_Inr_iff [accessor_simps]:
  "sa_object v = Inr doc \<longleftrightarrow> v = JObj doc" "sa_array v = Inr vs \<longleftrightarrow> v = JList vs"
  "sa_string v = Inr s \<longleftrightarrow> v = JStr s \<and> s \<noteq> []" "sa_integer v = Inr i \<longleftrightarrow> v = JInt i"
  by (auto simp: sa_object_def sa_array_def sa_string_def sa_integer_def split: json.splits if_splits)

lemma sa_digest_Inr_iff [accessor_simps]:
  "sa_sha256 v = Inr s \<longleftrightarrow> v = JStr s \<and> sha256_pattern s"
  "sa_git_sha1 v = Inr s \<longleftrightarrow> v = JStr s \<and> git_sha1_pattern s"
  by (cases s; auto simp: sa_sha256_def sa_git_sha1_def bindE_eq_Inr sa_Inr_iff split: if_splits)+

lemma sa_number_Inr_iff: "sa_number env v = Inr q \<longleftrightarrow> require_float env v = Inr q"
  by (auto simp: sa_number_def require_float_def split: json.splits pyfloat.splits option.splits)

lemma sa_exact_keys_Inr_iff [result_simps]: "sa_exact_keys doc keys = Inr u \<longleftrightarrow> has_keys doc keys"
  by (simp add: sa_exact_keys_def guardE_eq_Inr)

lemma sa_true_Inr_iff [result_simps]: "sa_true doc key = Inr u \<longleftrightarrow> got doc key = JBool True"
  by (simp add: sa_true_def guardE_eq_Inr)

lemma read_member_id:
  assumes "read_member doc kr = Inr kv"
    and "snd kr \<in> {as_string, as_sha256, as_git_sha1, as_integer, as_array}"
  shows "kv = (pys (fst kr), got doc (fst kr)) \<and> got doc (fst kr) \<noteq> JNull"
  using assms
  by (auto simp: read_member_def bindE_eq_Inr as_string_def as_sha256_def as_git_sha1_def as_integer_def as_array_def
      accessor_simps)

lemma read_members_id:
  assumes "read_members doc krs = Inr kvs"
    and "\<forall>kr \<in> set krs. snd kr \<in> {as_string, as_sha256, as_git_sha1, as_integer, as_array}"
  shows "kvs = map (\<lambda>kr. (pys (fst kr), got doc (fst kr))) krs \<and>
    (\<forall>kr \<in> set krs. \<exists>v. snd kr (got doc (fst kr)) = Inr v)"
  using assms
proof (induction krs arbitrary: kvs)
  case (Cons kr krs)
  then obtain kv rest where "read_member doc kr = Inr kv" "read_members doc krs = Inr rest" "kvs = kv # rest"
    by (auto simp: read_members_def bindE_eq_Inr)
  moreover from this(1) have "\<exists>v. snd kr (got doc (fst kr)) = Inr v" by (auto simp: read_member_def bindE_eq_Inr)
  ultimately show ?case using Cons.IH [of rest] Cons.prems(2) read_member_id [of doc kr kv] by auto
qed (simp add: read_members_def)

lemma got_Some: "got doc k = v \<Longrightarrow> v \<noteq> JNull \<Longrightarrow> map_of doc (pys k) = Some v"
  by (auto simp: dict_get_def split: option.splits)

lemma got_field: "got doc k \<noteq> JNull \<Longrightarrow> field doc k = Inr (got doc k)"
  by (auto simp: dict_get_def field_def split: option.splits)

lemma py_eq_members:
  assumes "py_eq (JObj a) (JObj b)" "distinct (map fst a)" "distinct (map fst b)"
  shows "set (map fst a) = set (map fst b)"
    and "map_of b k = Some w \<Longrightarrow> \<exists>v. map_of a k = Some v \<and> py_eq v w"
proof -
  from assms(1) have len: "length a = length b"
    and each: "\<And>k v. (k, v) \<in> set a \<Longrightarrow> \<exists>w. map_of b k = Some w \<and> py_eq v w"
    by (fastforce simp: list_all_iff split: option.splits)+
  have "set (map fst a) \<subseteq> set (map fst b)"
    using each by (force dest: map_of_SomeD)
  moreover have "card (set (map fst a)) = card (set (map fst b))"
    using assms(2,3) len by (simp only: distinct_card length_map)
  ultimately show keys: "set (map fst a) = set (map fst b)" by (intro card_subset_eq) simp_all
  show "\<exists>v. map_of a k = Some v \<and> py_eq v w" if w: "map_of b k = Some w"
  proof -
    from w have "k \<in> set (map fst a)" unfolding keys by (force dest: map_of_SomeD)
    then obtain v where "map_of a k = Some v" by (force simp: map_of_eq_None_iff dest: weak_map_of_SomeI)
    with each [of k v] w show ?thesis by (auto dest: map_of_SomeD)
  qed
qed

lemma py_eq_got:
  assumes "py_eq (JObj a) (JObj b)" "distinct (map fst a)" "distinct (map fst b)" "got b k \<noteq> JNull"
  shows "map_of a (pys k) = Some (got a k) \<and> py_eq (got a k) (got b k)"
proof -
  from assms(4) have "map_of b (pys k) = Some (got b k)" by (auto simp: dict_get_def split: option.splits)
  from py_eq_members(2) [OF assms(1-3) this] show ?thesis by (auto simp: dict_get_def)
qed

lemma utf8_encode_ascii: "\<forall>c \<in> set s. c < 128 \<Longrightarrow> utf8_encode s = Inr (map of_nat s)"
  by (induction s) (simp_all add: utf8_encode_Cons utf8_char_def)

subsection \<open>What the writer accepts, the packager accepts\<close>

lemma require_object_keys: "has_keys doc keys \<Longrightarrow> require_object (JObj doc) keys = Inr doc"
  by (simp add: require_object_Inr_iff has_keys_def)

lemma all_steps_ok: "\<forall>x \<in> set xs. f x = Inr () \<Longrightarrow> all_steps f xs = Inr ()"
  by (simp add: all_steps_Inr_iff)

lemma mapE_ok: "\<forall>x \<in> set xs. \<exists>y. f x = Inr y \<Longrightarrow> \<exists>ys. mapE f xs = Inr ys"
  by (induction xs) auto

lemma mapE_Inr_each: "mapE f xs = Inr ys \<Longrightarrow> x \<in> set xs \<Longrightarrow> \<exists>y. f x = Inr y"
  by (induction xs arbitrary: ys) (auto simp: bindE_eq_Inr)

lemma gates_accepted:
  assumes "validate_gates v = Inr g"
  shows "check_gates v = Inr ()"
proof -
  from assms have v: "v = JObj g" "has_keys g (SOURCE_ACCEPTANCE_PASSED_GATES @ [''parakeet_gate_pending'', ''failures''])"
    "\<forall>gate \<in> set SOURCE_ACCEPTANCE_PASSED_GATES. got g gate = JBool True" "got g ''parakeet_gate_pending'' = JBool True"
    "got g ''failures'' = JList []"
    by (auto simp: validate_gates_def bindE_eq_Inr guardE_eq_Inr result_simps accessor_simps)
  have "check_gate g gate = Inr ()" if "got g gate = JBool True" for gate
    using that by (simp add: check_gate_def expect_def got_field)
  with v show ?thesis
    by (simp add: check_gates_def require_object_keys all_steps_ok got_field)
qed

lemma metric_accepted:
  assumes "validate_metric_summary env (got aggregate name) = Inr s"
  shows "check_metric env aggregate name = Inr ()"
proof -
  from assms obtain median p95 lo hi where s: "got aggregate name = JObj s" "has_keys s METRIC_SUMMARY_FIELDS"
    "require_float env (got s ''median'') = Inr median" "require_float env (got s ''p95'') = Inr p95"
    "require_float env (got s ''minimum'') = Inr lo" "require_float env (got s ''maximum'') = Inr hi"
    "0 \<le> lo" "lo \<le> median" "median \<le> hi" "lo \<le> p95" "p95 \<le> hi"
    by (auto simp: validate_metric_summary_def bindE_eq_Inr guardE_eq_Inr result_simps accessor_simps sa_number_Inr_iff
        not_less)
  have nonnull: "require_float env v = Inr q \<Longrightarrow> v \<noteq> JNull" for v q by (auto simp: require_float_def)
  show ?thesis
    using s s(3-6) [THEN nonnull]
    by (simp add: check_metric_def require_object_keys METRIC_SUMMARY_FIELDS_def got_field not_less [symmetric])
qed

lemma aggregate_accepted:
  assumes "validate_aggregate env v = Inr a"
    and "\<forall>key \<in> {''maximum_peak_cuda_allocated_bytes'', ''maximum_peak_cuda_reserved_bytes''}.
      \<forall>i. got a key = JInt i \<longrightarrow> i \<le> max_u64"
  shows "check_aggregate env v = Inr ()"
proof -
  from assms(1) have a: "v = JObj a" "has_keys a SOURCE_ACCEPTANCE_AGGREGATE_FIELDS" "got a ''case_count'' = JInt 4"
    "\<forall>key \<in> {''maximum_peak_cuda_allocated_bytes'', ''maximum_peak_cuda_reserved_bytes''}.
       \<exists>i. got a key = JInt i \<and> 1 \<le> i"
    by (auto simp: validate_aggregate_def positive_peak_def bindE_eq_Inr guardE_eq_Inr result_simps accessor_simps)
  from assms(1) obtain ss where "mapE (\<lambda>key. validate_metric_summary env (got a key)) SOURCE_ACCEPTANCE_METRICS = Inr ss"
    by (auto simp: validate_aggregate_def bindE_eq_Inr result_simps)
  from mapE_Inr_each [OF this] have "check_metric env a key = Inr ()" if "key \<in> set SOURCE_ACCEPTANCE_METRICS" for key
    using that metric_accepted by blast
  then have metrics: "all_steps (check_metric env a) SOURCE_ACCEPTANCE_METRICS = Inr ()" by (simp add: all_steps_ok)
  have peak: "\<exists>i. int_field a key 1 max_u64 = Inr i"
    if "key \<in> {''maximum_peak_cuda_allocated_bytes'', ''maximum_peak_cuda_reserved_bytes''}" for key
    using bspec [OF a(4) that] bspec [OF assms(2) that] by (auto simp: got_field pkg_require_int_def)
  have "\<exists>is. mapE (\<lambda>key. int_field a key 1 max_u64)
      [''maximum_peak_cuda_allocated_bytes'', ''maximum_peak_cuda_reserved_bytes''] = Inr is"
    by (rule mapE_ok) (use peak in simp)
  with a(1-3) metrics show ?thesis
    by (auto simp: check_aggregate_def require_object_keys got_field expect_def pkg_require_int_def simp del: mapE.simps)
qed

text \<open>The frame counts of a replay record fit the packager's range.\<close>

definition frames_bounded :: "json \<Rightarrow> bool" where
  "frames_bounded v \<longleftrightarrow>
     (\<forall>i. got_path v [''first_codec_frame_count''] = JInt i \<or> got_path v [''replay_codec_frame_count''] = JInt i \<longrightarrow>
        i \<le> max_u64)"

lemma determinism_record_accepted:
  assumes "validate_determinism_record contract (v, name) = Inr ()"
    and "got contract ''local_ar_seed'' = JInt seed" "0 \<le> seed" "seed \<le> max_u64" "frames_bounded v"
  shows "check_determinism_record seed (v, name) = Inr ()"
proof -
  from assms(1) obtain doc codes pcm frames where doc: "v = JObj doc" "has_keys doc DETERMINISM_FIELDS"
    "got doc ''case_name'' = JStr (pys name)" "pys name \<noteq> []" "\<exists>i. got doc ''local_ar_seed'' = JInt i \<and> py_eq (got contract ''local_ar_seed'') (JInt i)"
    "got doc ''first_codes_sha256'' = JStr codes" "got doc ''replay_codes_sha256'' = JStr codes" "sha256_pattern codes"
    "got doc ''first_pcm_f32le_sha256'' = JStr pcm" "got doc ''replay_pcm_f32le_sha256'' = JStr pcm" "sha256_pattern pcm"
    "got doc ''first_codec_frame_count'' = JInt frames" "got doc ''replay_codec_frame_count'' = JInt frames" "1 \<le> frames"
    "got doc ''codes_exact'' = JBool True" "got doc ''pcm_exact'' = JBool True"
    "got doc ''codec_frame_count_exact'' = JBool True" "got doc ''passed'' = JBool True"
    by (auto simp: validate_determinism_record_def bindE_eq_Inr guardE_eq_Inr result_simps accessor_simps)
  have bound: "frames \<le> max_u64" using assms(5) doc(1,12) by (auto simp: frames_bounded_def)
  from doc(5) assms(2) have seed: "got doc ''local_ar_seed'' = JInt seed" by auto
  have string: "require_string (JStr (pys name)) = Inr (pys name)" using doc(4) by (simp add: require_string_def)
  have digest: "require_sha256 (JStr d) = Inr d" if "sha256_pattern d" for d using that by (simp add: require_sha256_Inr_iff)
  show ?thesis
    unfolding check_determinism_record_def
    using doc(1-4,6-18) seed bound assms(3,4) string digest
    by (simp add: require_object_keys got_field expect_def pkg_require_int_def exact_flag_def same_value_def)
qed

lemma determinism_accepted:
  assumes "validate_determinism v contract = Inr dets"
    and "got contract ''local_ar_seed'' = JInt seed" "0 \<le> seed" "seed \<le> max_u64" "\<forall>d \<in> set dets. frames_bounded d"
  shows "check_determinism v seed = Inr ()"
proof -
  from assms(1) have v: "v = JList dets" "length dets = length SOURCE_ACCEPTANCE_CASE_NAMES"
    "\<forall>x \<in> set (zip dets SOURCE_ACCEPTANCE_CASE_NAMES). validate_determinism_record contract x = Inr ()"
    by (auto simp: validate_determinism_def bindE_eq_Inr guardE_eq_Inr result_simps accessor_simps)
  have "check_determinism_record seed x = Inr ()" if x: "x \<in> set (zip dets SOURCE_ACCEPTANCE_CASE_NAMES)" for x
  proof (cases x)
    case (Pair d name)
    with x assms(5) have "frames_bounded d" by (auto dest: set_zip_leftD)
    with determinism_record_accepted [of contract d name seed] bspec [OF v(3) x] assms(2-4) Pair show ?thesis by simp
  qed
  with v(1,2) show ?thesis by (simp add: check_determinism_def all_steps_ok)
qed

lemma probe_accepted:
  assumes "validate_public_probe doc = Inr ()" "got doc ''probe'' = JObj probe"
    and "\<forall>i. got probe ''raw_receipt_size_bytes'' = JInt i \<longrightarrow> i \<le> MAX_MANIFEST_BYTES"
  shows "check_probe (JObj probe) = Inr ()"
proof -
  from assms(1,2) obtain ds size where p: "has_keys probe PROBE_KEYS"
    "mapE (\<lambda>key. sa_sha256 (got probe key)) PROBE_DIGESTS = Inr ds"
    "got probe ''raw_receipt_size_bytes'' = JInt size" "1 \<le> size"
    by (auto simp: validate_public_probe_def bindE_eq_Inr guardE_eq_Inr sa_exact_keys_Inr_iff sa_Inr_iff)
  from mapE_Inr_each [OF p(2)] have "\<exists>d. sha256_field probe key = Inr d" if "key \<in> set PROBE_DIGESTS" for key
    using that by (fastforce simp: sa_digest_Inr_iff got_field require_sha256_Inr_iff)
  with mapE_ok [of PROBE_DIGESTS "sha256_field probe"] obtain ds' where
    "mapE (sha256_field probe) PROBE_DIGESTS = Inr ds'" by auto
  with p assms(3) show ?thesis
    unfolding check_probe_def PROBE_KEYS_def PROBE_DIGESTS_def
    by (simp add: require_object_keys got_field pkg_require_int_def del: mapE.simps)
qed

lemma runtime_accepted:
  assumes "validate_public_runtime doc = Inr ()" "got doc ''runtime_environment'' = JObj runtime"
    and "\<forall>i. got runtime ''cudnn_version'' = JInt i \<longrightarrow> i \<le> max_u32"
  shows "check_runtime_environment (JObj runtime) = Inr ()"
proof -
  from assms(1,2) obtain ss cudnn capability where r: "has_keys runtime RUNTIME_KEYS"
    "mapE (\<lambda>key. sa_string (got runtime key)) RUNTIME_STRINGS = Inr ss"
    "got runtime ''cudnn_version'' = JInt cudnn" "1 \<le> cudnn"
    "got runtime ''gpu_compute_capability'' = JList capability" "py_eq (JList capability) (int_list [11, 0])"
    by (auto simp: validate_public_runtime_def bindE_eq_Inr guardE_eq_Inr sa_exact_keys_Inr_iff sa_Inr_iff
        simp del: py_eq.simps)
  from mapE_Inr_each [OF r(2)] have "\<exists>d. string_field runtime key = Inr d" if "key \<in> set RUNTIME_STRINGS" for key
    using that by (fastforce simp: sa_Inr_iff got_field require_string_Inr_iff)
  with mapE_ok [of RUNTIME_STRINGS "string_field runtime"] obtain ss' where
    "mapE (string_field runtime) RUNTIME_STRINGS = Inr ss'" by auto
  with r assms(3) show ?thesis
    unfolding check_runtime_environment_def RUNTIME_KEYS_def RUNTIME_STRINGS_def
    by (simp add: require_object_keys got_field pkg_require_int_def int_list_def del: mapE.simps py_eq.simps)
qed

text \<open>What the packager demands of the lock beyond its form: the specification's model, the pinned license, the
  ordered source files, the contract's constants and the ranges of its integers.\<close>

definition lock_pinned :: "source_model_spec \<Rightarrow> json_object \<Rightarrow> bool" where
  "lock_pinned sm lock \<longleftrightarrow>
     got_path (JObj lock) [''model'', ''model_id''] = JStr (sm_model_id sm) \<and>
     got_path (JObj lock) [''model'', ''version''] = JStr (sm_version sm) \<and>
     got_path (JObj lock) [''model'', ''revision''] = JStr (sm_revision sm) \<and>
     got_path (JObj lock) [''model'', ''file_name''] = JStr (pys ''magpie_tts_multilingual_357m.nemo'') \<and>
     got_path (JObj lock) [''model'', ''sha256''] = JStr (sm_source_sha256 sm) \<and>
     (\<forall>(key, s) \<in> set EXPECTED_LICENSE. got_path (JObj lock) [''model'', ''license'', key] = JStr (pys s)) \<and>
     got_path (JObj lock) [''oracle_source'', ''repository''] = JStr (pys ''https://github.com/NVIDIA/NeMo.git'') \<and>
     (\<exists>digests. got_path (JObj lock) [''oracle_source'', ''files''] =
        JObj (zip (map pys ORACLE_SOURCE_PATHS) (map JStr digests)) \<and>
        length digests = length ORACLE_SOURCE_PATHS) \<and>
     (\<forall>(key, v) \<in> set EXPECTED_CONTRACT. got_path (JObj lock) [''acceptance'', key] = v)"

lemma model_from_lock_Inr:
  assumes "model_from_lock lock = Inr model"
  shows "\<exists>license. got model ''license'' = JObj license \<and>
    map fst model = map pys [''model_id'', ''version'', ''revision'', ''file_name'', ''sha256'', ''size_bytes'', ''license''] \<and>
    map fst license = map (\<lambda>kr. pys (fst kr)) LICENSE_MEMBERS \<and>
    (\<forall>key \<in> {''model_id'', ''version'', ''revision'', ''file_name'', ''sha256'', ''size_bytes''}.
       got model key = got_path (JObj lock) [''model'', key] \<and> got model key \<noteq> JNull) \<and>
    (\<forall>key \<in> fst ` set LICENSE_MEMBERS.
       got license key = got_path (JObj lock) [''model'', ''license'', key] \<and> got license key \<noteq> JNull)"
proof -
  from assms obtain m l members license where ml: "got lock ''model'' = JObj m" "got m ''license'' = JObj l"
    "read_members m MODEL_MEMBERS = Inr members" "read_members l LICENSE_MEMBERS = Inr license"
    "model = members @ [(pys ''license'', JObj license)]"
    by (auto simp: model_from_lock_def bindE_eq_Inr result_simps accessor_simps)
  have readers: "\<forall>kr \<in> set MODEL_MEMBERS. snd kr \<in> {as_string, as_sha256, as_git_sha1, as_integer, as_array}"
    "\<forall>kr \<in> set LICENSE_MEMBERS. snd kr \<in> {as_string, as_sha256, as_git_sha1, as_integer, as_array}"
    by (simp_all add: MODEL_MEMBERS_def LICENSE_MEMBERS_def)
  have nonnull: "v \<noteq> JNull" if "r v = Inr w" "r \<in> {as_string, as_sha256, as_git_sha1, as_integer, as_array}" for r v w
    using that by (auto simp: as_string_def as_sha256_def as_git_sha1_def as_integer_def as_array_def sa_string_def
        sa_integer_def sa_array_def sa_sha256_def sa_git_sha1_def)
  note M = read_members_id [OF ml(3) readers(1)] and L = read_members_id [OF ml(4) readers(2)]
  have mem: "\<forall>kr \<in> set MODEL_MEMBERS. got m (fst kr) \<noteq> JNull"
    using conjunct2 [OF M] readers(1) nonnull by blast
  have lic: "\<forall>kr \<in> set LICENSE_MEMBERS. got l (fst kr) \<noteq> JNull"
    using conjunct2 [OF L] readers(2) nonnull by blast
  have members: "members = map (\<lambda>kr. (pys (fst kr), got m (fst kr))) MODEL_MEMBERS" using M by blast
  have license: "license = map (\<lambda>kr. (pys (fst kr), got l (fst kr))) LICENSE_MEMBERS" using L by blast
  show ?thesis
    unfolding ml(5) members license
    using mem lic by (simp add: MODEL_MEMBERS_def LICENSE_MEMBERS_def ml(1,2))
qed

lemma model_from_lock_readable:
  assumes "model_from_lock lock = Inr model"
  shows "\<forall>kr \<in> set MODEL_MEMBERS. \<exists>v. snd kr (got_path (JObj lock) [''model'', fst kr]) = Inr v"
proof -
  from assms obtain m members where m: "got lock ''model'' = JObj m" "read_members m MODEL_MEMBERS = Inr members"
    by (auto simp: model_from_lock_def bindE_eq_Inr result_simps accessor_simps)
  have "\<forall>kr \<in> set MODEL_MEMBERS. snd kr \<in> {as_string, as_sha256, as_git_sha1, as_integer, as_array}"
    by (simp add: MODEL_MEMBERS_def)
  from conjunct2 [OF read_members_id [OF m(2) this]] m(1) show ?thesis by simp
qed

lemma py_eq_JObjD: "py_eq v (JObj b) \<Longrightarrow> \<exists>a. v = JObj a"
  by (cases v) (auto simp: num_case_def)

lemma LICENSE_MEMBERS_keys: "map (\<lambda>kr. pys (fst kr)) LICENSE_MEMBERS = map (\<lambda>ks. pys (fst ks)) EXPECTED_LICENSE"
  by (simp add: LICENSE_MEMBERS_def EXPECTED_LICENSE_def)

lemma license_field_accepted:
  assumes "(key, s) \<in> set EXPECTED_LICENSE" "got license key = JStr (pys s)"
  shows "check_license_field license (key, s) = Inr ()"
  using assms
  by (auto simp: EXPECTED_LICENSE_def check_license_field_def got_field expect_def require_string_def require_sha256_def
      suffix_def)

lemma source_model_accepted:
  assumes "model_from_lock lock = Inr model" "lock_pinned sm lock"
    and "py_eq (JObj doc) (JObj model)" "json_wf (JObj doc)"
    and "got doc ''size_bytes'' = JInt n" "1 \<le> n" "n \<le> 2 ^ 63 - 1"
  shows "check_source_model (JObj doc) sm = Inr ()"
proof -
  from model_from_lock_Inr [OF assms(1)] obtain license where l: "got model ''license'' = JObj license"
    "map fst model = map pys [''model_id'', ''version'', ''revision'', ''file_name'', ''sha256'', ''size_bytes'', ''license'']"
    "map fst license = map (\<lambda>kr. pys (fst kr)) LICENSE_MEMBERS"
    "\<forall>key \<in> {''model_id'', ''version'', ''revision'', ''file_name'', ''sha256'', ''size_bytes''}.
       got model key = got_path (JObj lock) [''model'', key] \<and> got model key \<noteq> JNull"
    "\<forall>key \<in> fst ` set LICENSE_MEMBERS.
       got license key = got_path (JObj lock) [''model'', ''license'', key] \<and> got license key \<noteq> JNull"
    by blast
  have dm: "distinct (map fst model)" "distinct (map fst license)" unfolding l(2,3) by (simp_all add: LICENSE_MEMBERS_def)
  have dd: "distinct (map fst doc)" using assms(4) by simp
  note eq = py_eq_got [OF assms(3) dd dm(1)]
  have strings: "got doc ''model_id'' = JStr (sm_model_id sm)" "got doc ''version'' = JStr (sm_version sm)"
    "got doc ''revision'' = JStr (sm_revision sm)" "got doc ''sha256'' = JStr (sm_source_sha256 sm)"
    "got doc ''file_name'' = JStr (pys ''magpie_tts_multilingual_357m.nemo'')"
    using eq [of "''model_id''"] eq [of "''version''"] eq [of "''revision''"] eq [of "''sha256''"] eq [of "''file_name''"]
      l(4) assms(2) unfolding lock_pinned_def by auto
  from eq [of "''license''"] l(1) have lic_eq: "py_eq (got doc ''license'') (JObj license)" by simp
  with py_eq_JObjD obtain dl where dl: "got doc ''license'' = JObj dl" by blast
  have dlw: "distinct (map fst dl)"
    using assms(4) got_Some [OF dl] by (force dest: map_of_SomeD)
  note leq = py_eq_got [OF lic_eq [unfolded dl] dlw dm(2)]
  have keys: "set (map fst doc) = set (map pys [''model_id'', ''version'', ''revision'', ''file_name'', ''sha256'', ''size_bytes'', ''license''])"
    using py_eq_members(1) [OF assms(3) dd dm(1)] unfolding l(2) .
  have lkeys: "set (map fst dl) = set (map (\<lambda>ks. pys (fst ks)) EXPECTED_LICENSE)"
    using py_eq_members(1) [OF lic_eq [unfolded dl] dlw dm(2)] unfolding l(3) LICENSE_MEMBERS_keys .
  have "check_license_field dl (key, s) = Inr ()" if "(key, s) \<in> set EXPECTED_LICENSE" for key s
  proof (rule license_field_accepted [OF that])
    have "fst ` set EXPECTED_LICENSE = fst ` set LICENSE_MEMBERS" by (simp add: EXPECTED_LICENSE_def LICENSE_MEMBERS_def)
    with that have "key \<in> fst ` set LICENSE_MEMBERS" by force
    with l(5) have lk: "got license key = got_path (JObj lock) [''model'', ''license'', key]" "got license key \<noteq> JNull" by auto
    from assms(2) that have "got_path (JObj lock) [''model'', ''license'', key] = JStr (pys s)"
      unfolding lock_pinned_def by fast
    with leq [OF lk(2)] lk(1) show "got dl key = JStr (pys s)" by simp
  qed
  then have fields: "all_steps (check_license_field dl) EXPECTED_LICENSE = Inr ()" by (intro all_steps_ok) auto
  have "require_object (JObj dl) (map fst EXPECTED_LICENSE) = Inr dl"
    using lkeys by (intro require_object_keys) (simp add: has_keys_def image_image)
  moreover have "require_object (JObj doc) [''model_id'', ''version'', ''revision'', ''file_name'', ''sha256'', ''size_bytes'', ''license''] = Inr doc"
    using keys by (intro require_object_keys) (simp add: has_keys_def)
  moreover have pinned: "sm_model_id sm \<noteq> []" "sm_version sm \<noteq> []" "git_sha1_pattern (sm_revision sm)"
    "sha256_pattern (sm_source_sha256 sm)"
    using model_from_lock_readable [OF assms(1)] assms(2)
    by (auto simp: MODEL_MEMBERS_def lock_pinned_def as_string_def as_git_sha1_def as_sha256_def bindE_eq_Inr
        sa_Inr_iff sa_digest_Inr_iff simp del: got_path.simps)
  moreover from pinned have "require_git_sha1 (JStr (sm_revision sm)) = Inr (sm_revision sm)"
    "require_sha256 (JStr (sm_source_sha256 sm)) = Inr (sm_source_sha256 sm)"
    by (simp_all add: require_git_sha1_Inr_iff require_sha256_Inr_iff)
  ultimately show ?thesis
    unfolding check_source_model_def
    using strings dl fields assms(5-7)
    by (simp add: got_field expect_def require_string_def pkg_require_int_def)
qed

lemma zip_keys_lookup:
  "distinct ks \<Longrightarrow> length vs = length ks \<Longrightarrow> i < length ks \<Longrightarrow> map_of (zip ks vs) (ks ! i) = Some (vs ! i)"
  by (simp add: map_of_zip_nth)

lemma source_paths_ascii: "path \<in> set ORACLE_SOURCE_PATHS \<Longrightarrow> \<forall>c \<in> set (pys path). c < 128"
  by (auto simp: ORACLE_SOURCE_PATHS_def pys_def)

lemma source_paths_distinct: "distinct (map pys ORACLE_SOURCE_PATHS)"
  by (simp add: ORACLE_SOURCE_PATHS_def)

lemma source_file_line_path:
  "path \<in> set ORACLE_SOURCE_PATHS \<Longrightarrow> source_file_line (pys path, JStr d) = Inr ls \<Longrightarrow>
   ls = source_line (path, d) \<and> sha256_pattern d"
  using utf8_encode_ascii [OF source_paths_ascii]
  by (auto simp: source_file_line_def bindE_eq_Inr sa_digest_Inr_iff source_line_def)

lemma ordered_digest_of_paths:
  assumes "length digests = length paths" "set paths \<subseteq> set ORACLE_SOURCE_PATHS"
    and "mapE source_file_line (zip (map pys paths) (map JStr digests)) = Inr lines"
  shows "lines = map source_line (zip paths digests) \<and> (\<forall>d \<in> set digests. sha256_pattern d)"
  using assms
proof (induction digests paths arbitrary: lines rule: list_induct2)
  case (Cons d ds path paths)
  then obtain l rest where "source_file_line (pys path, JStr d) = Inr l"
    "mapE source_file_line (zip (map pys paths) (map JStr ds)) = Inr rest" "lines = l # rest"
    by (auto simp: bindE_eq_Inr)
  with Cons source_file_line_path [of path d l] show ?case by auto
qed simp

lemma oracle_source_accepted:
  assumes "source_from_lock lock = Inr source" "lock_pinned sm lock"
    and "py_eq (JObj doc) (JObj source)" "json_wf (JObj doc)"
  shows "check_oracle_source (JObj doc) = Inr ()"
proof -
  let ?paths = "map pys ORACLE_SOURCE_PATHS"
  from assms(1) obtain src fs bundle_sha revision repo_url where s: "got lock ''oracle_source'' = JObj src"
    "got src ''files'' = JObj fs" "sha256_pattern bundle_sha" "ordered_source_bundle_sha256 fs = Inr bundle_sha"
    "got src ''base_revision'' = JStr revision" "git_sha1_pattern revision"
    "got src ''repository'' = JStr repo_url"
    "source = [(pys ''repository'', JStr repo_url), (pys ''base_revision'', JStr revision),
       (pys ''optimized_source_bundle_sha256'', JStr bundle_sha), (pys ''files'', JObj fs)]"
    by (auto simp: source_from_lock_def bindE_eq_Inr guardE_eq_Inr accessor_simps)
  from assms(2) s(1,2,7) obtain digests where d: "fs = zip ?paths (map JStr digests)"
    "length digests = length ORACLE_SOURCE_PATHS" and repo: "repo_url = pys ''https://github.com/NVIDIA/NeMo.git''"
    unfolding lock_pinned_def by auto
  from s(4) obtain lines where lines: "mapE source_file_line fs = Inr lines" "bundle_sha = sha256_hex (concat lines)"
    by (auto simp: ordered_source_bundle_sha256_def bindE_eq_Inr)
  from ordered_digest_of_paths [OF d(2) subset_refl] lines(1) d(1) have
    l: "lines = map source_line (zip ORACLE_SOURCE_PATHS digests)" and pat: "\<forall>d \<in> set digests. sha256_pattern d" by auto
  have bundle_eq: "bundle_sha = source_bundle_sha256 digests" by (simp add: lines(2) l source_bundle_sha256_def)
  have ds: "distinct (map fst source)" by (simp add: s(8))
  have dd: "distinct (map fst doc)" using assms(4) by simp
  note eq = py_eq_got [OF assms(3) dd ds]
  have strings: "got doc ''repository'' = JStr repo_url" "got doc ''base_revision'' = JStr revision"
    "got doc ''optimized_source_bundle_sha256'' = JStr bundle_sha"
    using eq [of "''repository''"] eq [of "''base_revision''"] eq [of "''optimized_source_bundle_sha256''"] by (simp_all add: s(8))
  have files_eq: "py_eq (got doc ''files'') (JObj fs)" using eq [of "''files''"] by (simp add: s(8))
  with py_eq_JObjD obtain df where df: "got doc ''files'' = JObj df" by blast
  have dfw: "distinct (map fst df)" using assms(4) got_Some [OF df] by (force dest: map_of_SomeD)
  have fsk: "map fst fs = ?paths" using d by simp
  then have dfs: "distinct (map fst fs)" using source_paths_distinct by simp
  have digest: "sha256_field df (ORACLE_SOURCE_PATHS ! i) = Inr (digests ! i)" if i: "i < length ORACLE_SOURCE_PATHS" for i
  proof -
    have "map_of fs (?paths ! i) = Some (map JStr digests ! i)"
      unfolding d(1) by (rule zip_keys_lookup) (use source_paths_distinct d(2) i in simp_all)
    then have "map_of fs (pys (ORACLE_SOURCE_PATHS ! i)) = Some (JStr (digests ! i))" using i d(2) by simp
    from py_eq_members(2) [OF files_eq [unfolded df] dfw dfs this] pat i d(2)
    show ?thesis by (auto simp: field_def require_sha256_Inr_iff)
  qed
  have "mapE (sha256_field df) ORACLE_SOURCE_PATHS = Inr digests"
    unfolding mapE_Inr_iff list_all2_conv_all_nth using digest d(2) by simp
  moreover have "require_object (JObj df) ORACLE_SOURCE_PATHS = Inr df"
    using py_eq_members(1) [OF files_eq [unfolded df] dfw dfs] fsk by (intro require_object_keys) (simp add: has_keys_def)
  moreover have "require_object (JObj doc) [''repository'', ''base_revision'', ''optimized_source_bundle_sha256'', ''files''] = Inr doc"
    using py_eq_members(1) [OF assms(3) dd ds] by (intro require_object_keys) (simp add: has_keys_def s(8))
  ultimately show ?thesis
    unfolding check_oracle_source_def
    using strings df s(3,6) bundle_eq repo patterns_reject_empty
    by (cases revision; cases bundle_sha)
      (auto simp: got_field expect_def require_string_def require_git_sha1_Inr_iff require_sha256_Inr_iff bindE_eq_Inr
        guardE_eq_Inr)
qed

lemma CONTRACT_readers: "\<forall>kr \<in> set CONTRACT_MEMBERS. snd kr \<in> {as_string, as_sha256, as_git_sha1, as_integer, as_array}"
  by (simp add: CONTRACT_MEMBERS_def)

lemma contract_from_lock_Inr:
  assumes "acceptance_contract_from_lock lock = Inr contract"
  shows "map fst contract = map (\<lambda>kr. pys (fst kr)) CONTRACT_MEMBERS"
    and "key \<in> fst ` set CONTRACT_MEMBERS \<Longrightarrow> got contract key = got_path (JObj lock) [''acceptance'', key]"
    and "\<exists>seed. got contract ''local_ar_seed'' = JInt seed"
proof -
  from assms obtain a where a: "got lock ''acceptance'' = JObj a" "read_members a CONTRACT_MEMBERS = Inr contract"
    by (auto simp: acceptance_contract_from_lock_def bindE_eq_Inr accessor_simps)
  have c: "contract = map (\<lambda>kr. (pys (fst kr), got a (fst kr))) CONTRACT_MEMBERS"
    and r: "\<forall>kr \<in> set CONTRACT_MEMBERS. \<exists>v. snd kr (got a (fst kr)) = Inr v"
    using read_members_id [OF a(2) CONTRACT_readers] by blast+
  show "map fst contract = map (\<lambda>kr. pys (fst kr)) CONTRACT_MEMBERS" by (simp add: c)
  show "got contract key = got_path (JObj lock) [''acceptance'', key]" if "key \<in> fst ` set CONTRACT_MEMBERS"
    using that unfolding c by (auto simp: CONTRACT_MEMBERS_def a(1))
  show "\<exists>seed. got contract ''local_ar_seed'' = JInt seed"
    using r unfolding c by (auto simp: CONTRACT_MEMBERS_def as_integer_def bindE_eq_Inr sa_Inr_iff)
qed

lemma contract_accepted:
  assumes "acceptance_contract_from_lock lock = Inr contract" "lock_pinned sm lock"
    and "py_eq (JObj doc) (JObj contract)" "json_wf (JObj doc)"
    and "got doc ''local_ar_seed'' = JInt seed" "0 \<le> seed" "seed \<le> max_u64"
  shows "check_acceptance_contract (JObj doc) = Inr seed" and "got contract ''local_ar_seed'' = JInt seed"
proof -
  note c = contract_from_lock_Inr [OF assms(1)]
  have dc: "distinct (map fst contract)" unfolding c(1) by (simp add: CONTRACT_MEMBERS_def)
  have dd: "distinct (map fst doc)" using assms(4) by simp
  note eq = py_eq_got [OF assms(3) dd dc]
  from c(3) obtain seed' where s': "got contract ''local_ar_seed'' = JInt seed'" by blast
  with eq [of "''local_ar_seed''"] assms(5) have "seed' = seed" by auto
  with s' show seed: "got contract ''local_ar_seed'' = JInt seed" by simp
  have "check_contract_field doc (key, v) = Inr ()" if kv: "(key, v) \<in> set EXPECTED_CONTRACT" for key v
  proof -
    have "fst ` set EXPECTED_CONTRACT \<subseteq> fst ` set CONTRACT_MEMBERS" by (simp add: EXPECTED_CONTRACT_def CONTRACT_MEMBERS_def)
    with kv have member: "key \<in> fst ` set CONTRACT_MEMBERS" by force
    from assms(2) have "\<forall>kv \<in> set EXPECTED_CONTRACT. got_path (JObj lock) [''acceptance'', fst kv] = snd kv"
      unfolding lock_pinned_def case_prod_beta by (elim conjE)
    from bspec [OF this kv] c(2) [OF member] have "got contract key = v" by (simp del: got_path.simps)
    moreover from kv have "v \<noteq> JNull" by (auto simp: EXPECTED_CONTRACT_def)
    ultimately have "field doc key = Inr (got doc key)" "py_eq (got doc key) v"
      using eq [of key] by (auto simp: field_def)
    then show ?thesis by (simp add: check_contract_field_def)
  qed
  then have fields: "all_steps (check_contract_field doc) EXPECTED_CONTRACT = Inr ()" by (intro all_steps_ok) auto
  have "require_object (JObj doc)
      [''speaker_name'', ''speaker_index'', ''local_ar_seed'', ''sample_rate_hz'', ''samples_per_codec_frame'',
       ''first_codec_frames'', ''steady_codec_frames'', ''tail_codec_frames_min'', ''tail_codec_frames_max''] = Inr doc"
    using py_eq_members(1) [OF assms(3) dd dc] unfolding c(1)
    by (intro require_object_keys) (simp add: has_keys_def CONTRACT_MEMBERS_def)
  with fields assms(5-7) show "check_acceptance_contract (JObj doc) = Inr seed"
    by (simp add: check_acceptance_contract_def got_field pkg_require_int_def)
qed

lemma sa_reject_absolute_paths_Inr_iff:
  "sa_reject_absolute_paths v = Inr u \<longleftrightarrow> (\<forall>s \<in> json_strings v. \<not> absolute_path s)"
proof (induction v rule: sa_reject_absolute_paths.induct)
  case (1 kvs)
  have "sa_reject_absolute_paths (JObj kvs) = all_steps (\<lambda>kv. sa_reject_absolute_paths (snd kv)) kvs"
    by (simp add: all_steps_def)
  with 1 show ?case by (auto simp: all_steps_Inr_iff)
next
  case (2 vs)
  have "sa_reject_absolute_paths (JList vs) = all_steps sa_reject_absolute_paths vs" by (simp add: all_steps_def)
  with 2 show ?case by (auto simp: all_steps_Inr_iff)
qed (auto simp: guardE_eq_Inr)

text \<open>A timestamp whose only \<open>Z\<close> is its last character.\<close>

lemma py_replace_Nil: "py_replace old new [] = []"
  by (subst py_replace.simps) simp

lemma py_replace_Cons:
  "old \<noteq> [] \<Longrightarrow> py_replace old new (c # s) =
     (if take (length old) (c # s) = old then new @ py_replace old new (drop (length old) (c # s))
      else c # py_replace old new s)"
  by (subst py_replace.simps) simp

lemma py_replace_absent: "c \<notin> set s \<Longrightarrow> py_replace [c] new (s @ t) = s @ py_replace [c] new t"
  by (induction s) (simp_all add: py_replace_Cons)

lemma replace_final_Z: "90 \<notin> set s \<Longrightarrow> py_replace (pys ''Z'') (pys ''+00:00'') (s @ [90]) = s @ pys ''+00:00''"
  using py_replace_absent [of 90 s "pys ''+00:00''" "[90]"]
  by (simp add: pys_def py_replace_Cons py_replace_Nil)

definition plain_timestamp :: "pystr \<Rightarrow> bool" where
  "plain_timestamp s \<longleftrightarrow> 90 \<notin> set (butlast s)"

lemma timestamp_accepted:
  assumes "s \<noteq> []" "last s = 90" "plain_timestamp s"
    and "pk_fromisoformat env (py_replace (pys ''Z'') (pys ''+00:00'') s) = Some (Some 0)"
  shows "require_timestamp env (JStr s) = Inr s"
proof -
  have "s = butlast s @ [90]" using assms(1,2) by (metis append_butlast_last_id)
  with replace_final_Z [of "butlast s"] assms(3) have
    "py_replace (pys ''Z'') (pys ''+00:00'') s = butlast s @ pys ''+00:00''" by (simp add: plain_timestamp_def)
  with assms show ?thesis by (simp add: require_timestamp_Inr_iff)
qed

text \<open>The ranges the packager demands of the integers of a receipt, and the form of its time.\<close>

definition receipt_bounded :: "json_object \<Rightarrow> bool" where
  "receipt_bounded doc \<longleftrightarrow>
     (\<exists>n. got_path (JObj doc) [''source_model'', ''size_bytes''] = JInt n \<and> 1 \<le> n \<and> n \<le> 2 ^ 63 - 1) \<and>
     (\<exists>seed. got_path (JObj doc) [''acceptance_contract'', ''local_ar_seed''] = JInt seed \<and> 0 \<le> seed \<and> seed \<le> max_u64) \<and>
     (\<forall>i. got_path (JObj doc) [''probe'', ''raw_receipt_size_bytes''] = JInt i \<longrightarrow> i \<le> MAX_MANIFEST_BYTES) \<and>
     (\<forall>i. got_path (JObj doc) [''runtime_environment'', ''cudnn_version''] = JInt i \<longrightarrow> i \<le> max_u32) \<and>
     (\<forall>key \<in> {''maximum_peak_cuda_allocated_bytes'', ''maximum_peak_cuda_reserved_bytes''}.
        \<forall>i. got_path (JObj doc) [''evidence'', ''aggregate'', key] = JInt i \<longrightarrow> i \<le> max_u64) \<and>
     (\<forall>dets. got_path (JObj doc) [''evidence'', ''determinism''] = JList dets \<longrightarrow> (\<forall>d \<in> set dets. frames_bounded d)) \<and>
     (\<forall>s. got doc ''created_at_utc'' = JStr s \<longrightarrow> plain_timestamp s)"

lemma evidence_accepted:
  assumes "validate_public_evidence env doc lock = Inr ()" "receipt_bounded doc"
    and "acceptance_contract_from_lock lock = Inr contract" "got contract ''local_ar_seed'' = JInt seed"
    "0 \<le> seed" "seed \<le> max_u64"
  shows "\<exists>evidence. got doc ''evidence'' = JObj evidence \<and> check_evidence env (JObj evidence) seed = Inr ()"
proof -
  from assms(1,3) obtain e names dets aggregate gates where e: "got doc ''evidence'' = JObj e"
    "has_keys e [''case_names'', ''determinism'', ''aggregate'', ''gates'']"
    "got e ''case_names'' = JList names" "py_eq (JList names) (JList (map (JStr \<circ> pys) SOURCE_ACCEPTANCE_CASE_NAMES))"
    "validate_determinism (got e ''determinism'') contract = Inr dets"
    "validate_aggregate env (got e ''aggregate'') = Inr aggregate" "validate_gates (got e ''gates'') = Inr gates"
    by (auto simp: validate_public_evidence_def bindE_eq_Inr guardE_eq_Inr sa_exact_keys_Inr_iff sa_Inr_iff
        simp del: py_eq.simps)
  have d: "got e ''determinism'' = JList dets" using e(5)
    by (auto simp: validate_determinism_def bindE_eq_Inr sa_Inr_iff)
  have a: "got e ''aggregate'' = JObj aggregate" using e(6)
    by (auto simp: validate_aggregate_def bindE_eq_Inr sa_Inr_iff)
  have g: "got e ''gates'' = JObj gates" using e(7) by (auto simp: validate_gates_def bindE_eq_Inr sa_Inr_iff)
  from assms(2) e(1) a have peaks: "\<forall>key \<in> {''maximum_peak_cuda_allocated_bytes'', ''maximum_peak_cuda_reserved_bytes''}.
      \<forall>i. got aggregate key = JInt i \<longrightarrow> i \<le> max_u64"
    by (auto simp: receipt_bounded_def)
  from assms(2) e(1) d have frames: "\<forall>x \<in> set dets. frames_bounded x" by (auto simp: receipt_bounded_def)
  have "check_determinism (got e ''determinism'') seed = Inr ()"
    by (rule determinism_accepted [OF e(5) assms(4,5,6) frames])
  moreover have "check_aggregate env (got e ''aggregate'') = Inr ()" by (rule aggregate_accepted [OF e(6) peaks])
  moreover have "check_gates (got e ''gates'') = Inr ()" by (rule gates_accepted [OF e(7)])
  ultimately have "check_evidence env (JObj e) seed = Inr ()"
    using e(2-4) d a g by (simp add: check_evidence_def require_object_keys got_field del: py_eq.simps)
  with e(1) show ?thesis by blast
qed

lemma public_receipt_accepted:
  assumes valid: "validate_public_acceptance env doc lock = Inr ()" and wf: "json_wf (JObj doc)"
    and pinned: "lock_pinned sm lock" and bounded: "receipt_bounded doc"
    and load: "load_json_file env p = Inr (JObj doc)"
  shows "validate_source_model_receipt env p sm = Inr ()"
proof -
  from valid have head: "validate_public_head env doc = Inr ()" and locked: "validate_public_lock doc lock = Inr ()"
    and probe: "validate_public_probe doc = Inr ()" and runtime: "validate_public_runtime doc = Inr ()"
    and evidence: "validate_public_evidence env doc lock = Inr ()" and paths: "sa_reject_absolute_paths (JObj doc) = Inr ()"
    by (auto simp: validate_public_acceptance_def bindE_eq_Inr)
  from head obtain created where h: "has_keys doc PUBLIC_RECEIPT_KEYS" "got doc ''schema_version'' = JInt 2"
    "got doc ''artifact_role'' = JStr (pys ''source_model_acceptance'')" "got doc ''status'' = JStr (pys ''accepted'')"
    "got doc ''created_at_utc'' = JStr created" "created \<noteq> []" "last created = 90"
    "pk_fromisoformat env (py_replace (pys ''Z'') (pys ''+00:00'') created) = Some (Some 0)"
    by (auto simp: validate_public_head_def bindE_eq_Inr guardE_eq_Inr sa_exact_keys_Inr_iff sa_Inr_iff split: option.splits)
  from locked obtain m source c rm rs rc where l: "model_from_lock lock = Inr m" "source_from_lock lock = Inr source"
    "acceptance_contract_from_lock lock = Inr c" "got doc ''source_model'' = JObj rm" "got doc ''oracle_source'' = JObj rs"
    "got doc ''acceptance_contract'' = JObj rc" "py_eq (JObj rm) (JObj m)" "py_eq (JObj rs) (JObj source)"
    "py_eq (JObj rc) (JObj c)"
    by (auto simp: validate_public_lock_def bindE_eq_Inr guardE_eq_Inr sa_Inr_iff simp del: py_eq.simps)
  from probe obtain rp where rp: "got doc ''probe'' = JObj rp" by (auto simp: validate_public_probe_def bindE_eq_Inr sa_Inr_iff)
  from runtime obtain rr where rr: "got doc ''runtime_environment'' = JObj rr"
    by (auto simp: validate_public_runtime_def bindE_eq_Inr sa_Inr_iff)
  have sub: "json_wf (JObj x)" if "got doc k = JObj x" for k x
    using wf got_Some [OF that] by (force dest: map_of_SomeD)
  from bounded l(4,6) obtain n seed where n: "got rm ''size_bytes'' = JInt n" "1 \<le> n" "n \<le> 2 ^ 63 - 1"
    and seed: "got rc ''local_ar_seed'' = JInt seed" "0 \<le> seed" "seed \<le> max_u64"
    by (auto simp: receipt_bounded_def)
  have model_ok: "check_source_model (JObj rm) sm = Inr ()"
    by (rule source_model_accepted [OF l(1) pinned l(7) sub [OF l(4)] n])
  have source_ok: "check_oracle_source (JObj rs) = Inr ()"
    by (rule oracle_source_accepted [OF l(2) pinned l(8) sub [OF l(5)]])
  note contract_ok = contract_accepted [OF l(3) pinned l(9) sub [OF l(6)] seed]
  have probe_ok: "check_probe (JObj rp) = Inr ()"
    using probe_accepted [OF probe rp] bounded rp by (auto simp: receipt_bounded_def)
  have runtime_ok: "check_runtime_environment (JObj rr) = Inr ()"
    using runtime_accepted [OF runtime rr] bounded rr by (auto simp: receipt_bounded_def)
  from evidence_accepted [OF evidence bounded l(3) contract_ok(2) seed(2,3)] obtain re where
    re: "got doc ''evidence'' = JObj re" "check_evidence env (JObj re) seed = Inr ()" by blast
  have time_ok: "require_timestamp env (JStr created) = Inr created"
    using timestamp_accepted [OF h(6,7) _ h(8)] bounded h(5) by (auto simp: receipt_bounded_def)
  have paths_ok: "reject_absolute_paths (JObj doc) = Inr ()"
    using paths unfolding sa_reject_absolute_paths_Inr_iff reject_absolute_paths_Inr_iff .
  have ids: "require_identifier (JStr (pys ''source_model_acceptance'')) = Inr (pys ''source_model_acceptance'')"
    "require_identifier (JStr (pys ''accepted'')) = Inr (pys ''accepted'')"
    by (simp_all add: require_identifier_Inr_iff) (simp_all add: identifier_pattern_def pys_def is_alnum_def)
  show ?thesis
    unfolding validate_source_model_receipt_def
    using h(1-5) load l(4-6) rp rr re model_ok source_ok contract_ok(1) probe_ok runtime_ok time_ok paths_ok ids
    by (simp add: require_object_keys PUBLIC_RECEIPT_KEYS_def got_field expect_def pkg_require_int_def)
qed

subsection \<open>What the writer emits\<close>

lemma sa_load_json_Inr:
  "sa_load_json env f = Inr (doc, payload) \<Longrightarrow>
   fv_bytes f = Inr payload \<and> pk_loads env payload = Some (JObj doc) \<and> json_wf (JObj doc)"
  by (auto simp: sa_load_json_def bindE_eq_Inr json_root_Inr_iff pairs_hook_Inr_iff split: option.splits)

lemma sa_write_loop_all: "sa_write_loop writer k payload = Inr out \<Longrightarrow> out = payload"
proof (induction writer k payload arbitrary: out rule: sa_write_loop.induct)
  case (1 writer k payload)
  show ?case
  proof (cases "payload = []")
    case True
    with "1.prems" show ?thesis by (simp add: sa_write_loop.simps [of writer k])
  next
    case False
    with "1.prems" obtain written rest where "writer k payload = Inr written" "0 < written"
      "sa_write_loop writer (Suc k) (drop (nat written) payload) = Inr rest" "out = take (nat written) payload @ rest"
      by (subst (asm) sa_write_loop.simps) (auto simp: bindE_eq_Inr split: sum.splits if_splits)
    with "1.IH" [OF False, of written rest] show ?thesis by simp
  qed
qed

definition emitted_facts :: "json_object \<Rightarrow> byte list \<Rightarrow> json_object \<Rightarrow> json_object \<Rightarrow> bool" where
  "emitted_facts raw payload lock receipt \<longleftrightarrow>
     model_from_lock lock = (case got receipt ''source_model'' of JObj m \<Rightarrow> Inr m | _ \<Rightarrow> Inl (sa_error [])) \<and>
     source_from_lock lock = (case got receipt ''oracle_source'' of JObj m \<Rightarrow> Inr m | _ \<Rightarrow> Inl (sa_error [])) \<and>
     got_path (JObj receipt) [''probe'', ''raw_receipt_sha256''] = JStr (sha256_hex payload) \<and>
     got_path (JObj receipt) [''probe'', ''raw_receipt_size_bytes''] = JInt (int (length payload)) \<and>
     (\<forall>key \<in> {''determinism'', ''aggregate'', ''gates''}. got_path (JObj receipt) [''evidence'', key] = got raw key) \<and>
     (\<forall>s \<in> json_strings (JObj receipt). \<not> absolute_path s)"

lemma validated_raw_acceptance:
  assumes "validate_raw_acceptance env isoformat raw payload lock = Inr receipt"
  shows "validate_public_acceptance env receipt lock = Inr ()" and "emitted_facts raw payload lock receipt"
proof -
  from assms obtain gates contract case_names aggregate determinism model created_at source probe_members case_members
    runtime_members u u' where
    g: "validate_gates (got raw ''gates'') = Inr gates" and a: "validate_aggregate env (got raw ''aggregate'') = Inr aggregate" and
    d: "validate_determinism (got raw ''determinism'') contract = Inr determinism" and
    ms: "model_from_lock lock = Inr model" "source_from_lock lock = Inr source" and
    receipt: "receipt =
       [(pys ''schema_version'', JInt 2), (pys ''artifact_role'', JStr (pys ''source_model_acceptance'')),
        (pys ''status'', JStr (pys ''accepted'')), (pys ''created_at_utc'', JStr created_at),
        (pys ''source_model'', JObj model), (pys ''oracle_source'', JObj source),
        (pys ''acceptance_contract'', JObj contract),
        (pys ''probe'', JObj
          ([(pys ''raw_receipt_sha256'', JStr (sha256_bytes payload)),
            (pys ''raw_receipt_size_bytes'', JInt (int (length payload)))] @ probe_members @ case_members)),
        (pys ''runtime_environment'', JObj runtime_members),
        (pys ''evidence'', JObj
          [(pys ''case_names'', JList (map JStr case_names)), (pys ''determinism'', JList determinism),
           (pys ''aggregate'', JObj aggregate), (pys ''gates'', JObj gates)])]" and
    paths: "sa_reject_absolute_paths (JObj receipt) = Inr u" and
    public: "validate_public_acceptance env receipt lock = Inr u'"
    unfolding validate_raw_acceptance_def Let_def by (auto simp only: bindE_eq_Inr sum.inject)
  from g have g': "got raw ''gates'' = JObj gates" by (auto simp: validate_gates_def bindE_eq_Inr sa_Inr_iff)
  from a have a': "got raw ''aggregate'' = JObj aggregate" by (auto simp: validate_aggregate_def bindE_eq_Inr sa_Inr_iff)
  from d have d': "got raw ''determinism'' = JList determinism"
    by (auto simp: validate_determinism_def bindE_eq_Inr sa_Inr_iff)
  show "validate_public_acceptance env receipt lock = Inr ()" using public by simp
  from paths show "emitted_facts raw payload lock receipt"
    unfolding sa_reject_absolute_paths_Inr_iff emitted_facts_def
    by (simp add: receipt ms g' a' d' sha256_bytes_def del: json_strings_JObj)
qed

end
