(* ===== verification/SourceAcceptanceFacts.thy ===== *)
theory SourceAcceptanceFacts
  imports SourceAcceptance
begin

text \<open>
  What the writer of the source-model acceptance receipt promises its readers: the receipt it emits is the one its own
  public validator accepts, with the facts of the raw document and of the lock, and the packager accepts every
  receipt that the public validator accepts under the lock of the specification.
\<close>

subsection \<open>A lock and its receipt\<close>

definition demo_lock :: json_object where
  "demo_lock =
     [(pys ''model'', JObj demo_source_model), (pys ''oracle_source'', JObj demo_oracle_source),
      (pys ''acceptance'', JObj demo_contract_section)]"

lemma demo_lock_sections:
  "got demo_lock ''model'' = JObj demo_source_model" "got demo_lock ''oracle_source'' = JObj demo_oracle_source"
  "got demo_lock ''acceptance'' = JObj demo_contract_section"
  by (simp_all add: demo_lock_def)

lemmas reader_defs = as_string_def as_sha256_def as_git_sha1_def as_integer_def as_array_def sa_string_def
  sa_sha256_def sa_git_sha1_def sa_integer_def sa_array_def sa_object_def

lemma demo_lock_model: "model_from_lock demo_lock = Inr demo_source_model"
  by (simp add: model_from_lock_def demo_lock_sections demo_source_model_def sa_object_def sa_exact_keys_def has_keys_def
      read_members_def read_member_def MODEL_MEMBERS_def LICENSE_MEMBERS_def EXPECTED_LICENSE_def reader_defs)

lemma demo_source_lines:
  "set paths \<subseteq> set ORACLE_SOURCE_PATHS \<Longrightarrow>
   mapE source_file_line (map (\<lambda>p. (pys p, JStr (zeros 64))) paths) =
     Inr (map source_line (zip paths (map (\<lambda>_. zeros 64) paths)))"
proof (induction paths)
  case (Cons path paths)
  then have "utf8_encode (pys path) = Inr (map of_nat (pys path))"
    using utf8_encode_ascii [OF source_paths_ascii] by simp
  with Cons show ?case
    by (simp add: source_file_line_def source_line_def sa_sha256_def sa_string_def)
qed simp

lemma demo_lock_source: "source_from_lock demo_lock = Inr demo_oracle_source"
proof -
  have "ordered_source_bundle_sha256 (map (\<lambda>p. (pys p, JStr (zeros 64))) ORACLE_SOURCE_PATHS) =
      Inr (source_bundle_sha256 (map (\<lambda>_. zeros 64) ORACLE_SOURCE_PATHS))"
    by (simp add: ordered_source_bundle_sha256_def demo_source_lines source_bundle_sha256_def)
  moreover have "length ORACLE_SOURCE_PATHS = 11" by (simp add: ORACLE_SOURCE_PATHS_def)
  ultimately show ?thesis
    by (simp add: source_from_lock_def demo_lock_sections demo_oracle_source_def sa_object_def sa_sha256_def sa_string_def
        sa_git_sha1_def) (simp add: source_bundle_sha256_def pys_def)
qed

lemma demo_lock_contract: "acceptance_contract_from_lock demo_lock = Inr demo_contract_section"
  by (simp add: acceptance_contract_from_lock_def demo_lock_sections demo_contract_section_def read_members_def
      read_member_def CONTRACT_MEMBERS_def reader_defs)

lemma demo_lock_pinned: "lock_pinned demo_source_spec demo_lock"
proof -
  have "got demo_oracle_source ''files'' =
      JObj (zip (map pys ORACLE_SOURCE_PATHS) (map JStr (map (\<lambda>_. zeros 64) ORACLE_SOURCE_PATHS)))"
    by (simp add: demo_oracle_source_def zip_map_map zip_same_conv_map o_def)
  then have "\<exists>digests. got_path (JObj demo_lock) [''oracle_source'', ''files''] =
      JObj (zip (map pys ORACLE_SOURCE_PATHS) (map JStr digests)) \<and> length digests = length ORACLE_SOURCE_PATHS"
    by (intro exI [of _ "map (\<lambda>_. zeros 64) ORACLE_SOURCE_PATHS"]) (simp add: demo_lock_sections)
  moreover have "got demo_oracle_source ''repository'' = jstr ''https://github.com/NVIDIA/NeMo.git''"
    by (simp add: demo_oracle_source_def)
  ultimately show ?thesis
    unfolding lock_pinned_def
    by (simp add: demo_lock_sections demo_source_model_def demo_source_spec_def
        demo_contract_section_def EXPECTED_LICENSE_def EXPECTED_CONTRACT_def)
qed

text \<open>The receipt of \<open>SourceReceipt\<close> with another raw document.\<close>

definition demo_probe_of :: "pystr \<Rightarrow> int \<Rightarrow> json_object" where
  "demo_probe_of digest n =
     [(pys ''raw_receipt_sha256'', JStr digest), (pys ''raw_receipt_size_bytes'', JInt n),
      (pys ''probe_sha256'', JStr (zeros 64)), (pys ''helper_sha256'', JStr (zeros 64)),
      (pys ''case_definition_sha256'', JStr (zeros 64))]"

definition demo_receipt_of :: "pystr \<Rightarrow> int \<Rightarrow> json_object" where
  "demo_receipt_of digest n =
     [(pys ''schema_version'', JInt 2), (pys ''artifact_role'', jstr ''source_model_acceptance''),
      (pys ''status'', jstr ''accepted''), (pys ''created_at_utc'', jstr ''Z''),
      (pys ''source_model'', JObj demo_source_model), (pys ''oracle_source'', JObj demo_oracle_source),
      (pys ''acceptance_contract'', JObj demo_contract_section), (pys ''probe'', JObj (demo_probe_of digest n)),
      (pys ''runtime_environment'', JObj demo_environment), (pys ''evidence'', JObj demo_evidence)]"

lemma demo_receipt_of_zeros: "demo_receipt_of (zeros 64) 1 = demo_source_receipt"
  by (simp add: demo_receipt_of_def demo_source_receipt_def demo_probe_of_def demo_probe_def)

lemma demo_receipt_strings:
  assumes "\<not> absolute_path digest"
  shows "\<forall>s \<in> json_strings (JObj (demo_receipt_of digest n)). \<not> absolute_path s"
proof -
  have "json_strings (JObj (demo_receipt_of digest n)) \<subseteq> json_strings (JObj demo_source_receipt) \<union> {digest}"
    by (auto simp: demo_receipt_of_def demo_source_receipt_def demo_probe_of_def demo_probe_def)
  with demo_strings_relative assms show ?thesis by blast
qed

lemma demo_metric_valid: "validate_metric_summary env (JObj demo_metric) = Inr demo_metric"
  by (simp add: validate_metric_summary_def demo_metric_def sa_object_def sa_exact_keys_def has_keys_def
      METRIC_SUMMARY_FIELDS_def sa_number_def)

lemma demo_aggregate_valid: "validate_aggregate env (JObj demo_aggregate) = Inr demo_aggregate"
proof -
  have "got demo_aggregate key = JObj demo_metric" if "key \<in> set SOURCE_ACCEPTANCE_METRICS" for key
    using that by (auto simp: demo_aggregate_def SOURCE_ACCEPTANCE_METRICS_def)
  then have "\<exists>vs. mapE (\<lambda>key. validate_metric_summary env (got demo_aggregate key)) SOURCE_ACCEPTANCE_METRICS = Inr vs"
    by (intro mapE_ok) (simp add: demo_metric_valid)
  moreover have "has_keys demo_aggregate SOURCE_ACCEPTANCE_AGGREGATE_FIELDS" "got demo_aggregate ''case_count'' = JInt 4"
    "got demo_aggregate ''maximum_peak_cuda_allocated_bytes'' = JInt 1"
    "got demo_aggregate ''maximum_peak_cuda_reserved_bytes'' = JInt 1"
    by (simp_all add: demo_aggregate_def has_keys_def SOURCE_ACCEPTANCE_AGGREGATE_FIELDS_def SOURCE_ACCEPTANCE_METRICS_def)
  ultimately show ?thesis
    by (auto simp: validate_aggregate_def sa_object_def sa_exact_keys_def sa_integer_def all_steps_def positive_peak_def)
qed

lemma demo_gates_valid: "validate_gates (JObj demo_gates) = Inr demo_gates"
  by (simp add: validate_gates_def demo_gates_def sa_object_def sa_exact_keys_def has_keys_def sa_true_def sa_array_def
      all_steps_def SOURCE_ACCEPTANCE_PASSED_GATES_def)

lemma demo_determinism_record_valid:
  "name \<noteq> [] \<Longrightarrow> validate_determinism_record demo_contract_section (JObj (demo_determinism name), name) = Inr ()"
  by (simp add: validate_determinism_record_def demo_determinism_def sa_object_def sa_exact_keys_def has_keys_def
      DETERMINISM_FIELDS_def sa_string_def sa_sha256_def sa_integer_def demo_contract_section_def num_case_def num_eq_def)

lemma demo_determinism_valid:
  "validate_determinism (JList (map (JObj \<circ> demo_determinism) SOURCE_ACCEPTANCE_CASE_NAMES)) demo_contract_section =
     Inr (map (JObj \<circ> demo_determinism) SOURCE_ACCEPTANCE_CASE_NAMES)"
proof -
  have "\<forall>name \<in> set SOURCE_ACCEPTANCE_CASE_NAMES. name \<noteq> []" by (simp add: SOURCE_ACCEPTANCE_CASE_NAMES_def)
  then have "all_steps (validate_determinism_record demo_contract_section)
      (zip (map (JObj \<circ> demo_determinism) SOURCE_ACCEPTANCE_CASE_NAMES) SOURCE_ACCEPTANCE_CASE_NAMES) = Inr ()"
    by (intro all_steps_ok) (auto simp: zip_map1 zip_same_conv_map demo_determinism_record_valid)
  then show ?thesis by (simp add: validate_determinism_def sa_array_def)
qed

lemma demo_sections_equal:
  "py_eq (JObj demo_source_model) (JObj demo_source_model)" "py_eq (JObj demo_oracle_source) (JObj demo_oracle_source)"
  "py_eq (JObj demo_contract_section) (JObj demo_contract_section)"
  by (rule py_eq_refl; simp add: demo_source_model_def demo_oracle_source_def demo_contract_section_def
      EXPECTED_LICENSE_def ORACLE_SOURCE_PATHS_def)+

lemma zeros_relative: "\<not> absolute_path (zeros 64)"
  by (simp add: absolute_path_def zeros_def is_letter_def pys_def numeral_eq_Suc)

lemma demo_public_valid:
  assumes "sha256_pattern digest" "\<not> absolute_path digest" "0 < n" "\<forall>s. pk_fromisoformat env s = Some (Some 0)"
  shows "validate_public_acceptance env (demo_receipt_of digest n) demo_lock = Inr ()"
proof -
  let ?r = "demo_receipt_of digest n"
  have sections: "got ?r ''source_model'' = JObj demo_source_model" "got ?r ''oracle_source'' = JObj demo_oracle_source"
    "got ?r ''acceptance_contract'' = JObj demo_contract_section" "got ?r ''probe'' = JObj (demo_probe_of digest n)"
    "got ?r ''runtime_environment'' = JObj demo_environment" "got ?r ''evidence'' = JObj demo_evidence"
    by (simp_all add: demo_receipt_of_def)
  have "validate_public_head env ?r = Inr ()"
    using assms(4)
    by (simp add: validate_public_head_def demo_receipt_of_def sa_exact_keys_def has_keys_def PUBLIC_RECEIPT_KEYS_def
        sa_integer_def sa_string_def) (simp add: pys_def)
  moreover have "validate_public_lock ?r demo_lock = Inr ()"
    using demo_sections_equal
    by (simp add: validate_public_lock_def demo_lock_model demo_lock_source demo_lock_contract sections sa_object_def
        del: py_eq.simps)
  moreover have "validate_public_probe ?r = Inr ()"
  proof -
    from assms(1) have "sa_sha256 (JStr digest) = Inr digest" "sa_sha256 (JStr (zeros 64)) = Inr (zeros 64)"
      by (simp_all add: sa_digest_Inr_iff)
    with assms(3) show ?thesis
      by (simp add: validate_public_probe_def sections demo_probe_of_def sa_object_def sa_exact_keys_def has_keys_def
          PROBE_KEYS_def PROBE_DIGESTS_def sa_integer_def)
  qed
  moreover have "validate_public_runtime ?r = Inr ()"
    by (simp add: validate_public_runtime_def sections demo_environment_def sa_object_def sa_exact_keys_def
        has_keys_def RUNTIME_KEYS_def RUNTIME_STRINGS_def sa_string_def sa_integer_def sa_array_def int_list_def
        num_case_def num_eq_def)
  moreover have "validate_public_evidence env ?r demo_lock = Inr ()"
  proof -
    have "has_keys demo_evidence [''case_names'', ''determinism'', ''aggregate'', ''gates'']"
      "got demo_evidence ''case_names'' = JList (map (JStr \<circ> pys) SOURCE_ACCEPTANCE_CASE_NAMES)"
      "got demo_evidence ''determinism'' = JList (map (JObj \<circ> demo_determinism) SOURCE_ACCEPTANCE_CASE_NAMES)"
      "got demo_evidence ''aggregate'' = JObj demo_aggregate" "got demo_evidence ''gates'' = JObj demo_gates"
      by (simp_all add: demo_evidence_def has_keys_def)
    moreover have "py_eq (JList (map (JStr \<circ> pys) SOURCE_ACCEPTANCE_CASE_NAMES)) (JList (map (JStr \<circ> pys) SOURCE_ACCEPTANCE_CASE_NAMES))"
      by (rule py_eq_refl) (simp_all add: SOURCE_ACCEPTANCE_CASE_NAMES_def)
    ultimately show ?thesis
      by (simp add: validate_public_evidence_def sections sa_object_def sa_exact_keys_def sa_array_def demo_lock_contract
          demo_determinism_valid demo_aggregate_valid demo_gates_valid del: py_eq.simps)
  qed
  moreover have "sa_reject_absolute_paths (JObj ?r) = Inr ()"
    using demo_receipt_strings [OF assms(2)] unfolding sa_reject_absolute_paths_Inr_iff .
  ultimately show ?thesis by (simp add: validate_public_acceptance_def)
qed

lemma demo_receipt_bounded: "receipt_bounded demo_source_receipt"
proof -
  have "frames_bounded (JObj (demo_determinism name))" for name
    by (simp add: frames_bounded_def demo_determinism_def)
  then show ?thesis
    by (simp add: receipt_bounded_def demo_source_receipt_def demo_source_model_def demo_contract_section_def demo_probe_def
        demo_environment_def demo_evidence_def demo_aggregate_def SOURCE_ACCEPTANCE_METRICS_def MAX_MANIFEST_BYTES_def
        plain_timestamp_def) (simp add: pys_def)
qed

subsection \<open>The packager reads what the writer writes\<close>


lemma demo_receipt_wf: "json_wf (JObj demo_source_receipt)"
  using demo_receipt_payload by (auto simp: parse_json_payload_accepted)


subsection \<open>The writer\<close>

definition demo_raw_source :: json_object where
  "demo_raw_source =
     [(pys ''model_sha256'', JStr (zeros 64)), (pys ''model_size_bytes'', JInt 1), (pys ''speech_git_head'', JStr (zeros 40)),
      (pys ''optimized_source_file_sha256'', JObj (map (\<lambda>p. (pys p, JStr (zeros 64))) ORACLE_SOURCE_PATHS)),
      (pys ''optimized_source_bundle_sha256'', JStr (source_bundle_sha256 (map (\<lambda>_. zeros 64) ORACLE_SOURCE_PATHS))),
      (pys ''probe_sha256'', JStr (zeros 64)), (pys ''helper_sha256'', JStr (zeros 64))]"

definition demo_raw_case :: "string \<Rightarrow> json" where
  "demo_raw_case name =
     JObj [(pys ''name'', jstr name), (pys ''speaker_index'', JInt 4), (pys ''seed'', JInt 7),
       (pys ''schedule'', JList [JInt 4, JInt 8, JBool True])]"

definition demo_raw :: json_object where
  "demo_raw =
     [(pys ''schema'', jstr ''magpie-final-native-bf16-streaming-acceptance-v1''),
      (pys ''status'', jstr ''passed_runtime_artifacts_ready_for_parakeet''), (pys ''phase'', jstr ''complete''),
      (pys ''source_unchanged'', JBool True), (pys ''parakeet_transcription_evaluated'', JBool False),
      (pys ''created_unix_seconds'', JFloat (Fin 1)),
      (pys ''source_start'', JObj demo_raw_source), (pys ''source_end'', JObj demo_raw_source),
      (pys ''gates'', JObj demo_gates), (pys ''cases'', JList (map demo_raw_case SOURCE_ACCEPTANCE_CASE_NAMES)),
      (pys ''aggregate'', JObj demo_aggregate),
      (pys ''determinism'', JList (map (JObj \<circ> demo_determinism) SOURCE_ACCEPTANCE_CASE_NAMES)),
      (pys ''static_audit'', JObj
        [(pys ''case_names'', JList (map (JStr \<circ> pys) SOURCE_ACCEPTANCE_CASE_NAMES)),
         (pys ''case_definition_sha256'', JStr (zeros 64))]),
      (pys ''runtime_environment'', JObj ((pys ''foreign_site_packages'', JList []) # demo_environment))]"

lemma demo_raw_sections:
  "got demo_raw ''source_start'' = JObj demo_raw_source" "got demo_raw ''source_end'' = JObj demo_raw_source"
  "got demo_raw ''gates'' = JObj demo_gates" "got demo_raw ''aggregate'' = JObj demo_aggregate"
  "got demo_raw ''determinism'' = JList (map (JObj \<circ> demo_determinism) SOURCE_ACCEPTANCE_CASE_NAMES)"
  "got demo_raw ''cases'' = JList (map demo_raw_case SOURCE_ACCEPTANCE_CASE_NAMES)"
  "got demo_raw ''created_unix_seconds'' = JFloat (Fin 1)"
  by (simp_all add: demo_raw_def)

lemma demo_raw_head: "check_raw_head demo_raw = Inr ()"
  by (simp add: check_raw_head_def demo_raw_def sa_string_def)

lemma demo_raw_source_valid: "validate_raw_source_section demo_raw_source demo_lock = Inr ()"
proof -
  let ?fs = "map (\<lambda>p. (pys p, JStr (zeros 64))) ORACLE_SOURCE_PATHS"
  let ?b = "source_bundle_sha256 (map (\<lambda>_. zeros 64) ORACLE_SOURCE_PATHS)"
  have got_raw: "got demo_raw_source ''model_sha256'' = JStr (zeros 64)" "got demo_raw_source ''model_size_bytes'' = JInt 1"
    "got demo_raw_source ''speech_git_head'' = JStr (zeros 40)" "got demo_raw_source ''optimized_source_file_sha256'' = JObj ?fs"
    "got demo_raw_source ''optimized_source_bundle_sha256'' = JStr ?b"
    by (simp_all add: demo_raw_source_def)
  have got_lock: "got demo_source_model ''sha256'' = JStr (zeros 64)" "got demo_source_model ''size_bytes'' = JInt 1"
    "got demo_oracle_source ''base_revision'' = JStr (zeros 40)" "got demo_oracle_source ''files'' = JObj ?fs"
    "got demo_oracle_source ''optimized_source_bundle_sha256'' = JStr ?b"
    by (simp_all add: demo_source_model_def demo_oracle_source_def)
  have digests: "sa_sha256 (JStr (zeros 64)) = Inr (zeros 64)" "sa_git_sha1 (JStr (zeros 40)) = Inr (zeros 40)"
    "sa_sha256 (JStr ?b) = Inr ?b"
    by (simp_all add: sa_digest_Inr_iff source_bundle_sha256_def)
  have "dict_get ?fs k = JStr (zeros 64)" if "(k, v) \<in> set ?fs" for k v
  proof -
    from that obtain q where "q \<in> set ORACLE_SOURCE_PATHS" "k = pys q" by auto
    then have "(k, JStr (zeros 64)) \<in> set ?fs" by auto
    moreover have "distinct (map fst ?fs)" using source_paths_distinct by (simp add: o_def)
    ultimately show ?thesis by (simp add: dict_get_def)
  qed
  then have "check_source_file ?fs kv = Inr ()" if "kv \<in> set ?fs" for kv
    using that digests(1) by (cases kv) (auto simp: check_source_file_def)
  then have "all_steps (check_source_file ?fs) ?fs = Inr ()" by (intro all_steps_ok) blast
  moreover have "ordered_source_bundle_sha256 ?fs = Inr ?b"
    by (simp add: ordered_source_bundle_sha256_def demo_source_lines source_bundle_sha256_def)
  ultimately show ?thesis
    by (simp add: validate_raw_source_section_def demo_lock_model demo_lock_source got_raw got_lock digests sa_integer_def
        sa_object_def)
qed

lemma demo_raw_source_checked: "check_raw_source demo_raw demo_lock = Inr demo_raw_source"
proof -
  have "py_eq (JObj demo_raw_source) (JObj demo_raw_source)"
    by (rule py_eq_refl; simp add: demo_raw_source_def ORACLE_SOURCE_PATHS_def)
  then show ?thesis
    by (simp add: check_raw_source_def demo_raw_sections sa_object_def demo_raw_source_valid del: py_eq.simps)
qed

lemma demo_raw_cases: "validate_cases demo_raw demo_contract_section = Inr (map pys SOURCE_ACCEPTANCE_CASE_NAMES)"
proof -
  have case_ok: "validate_case demo_contract_section (demo_raw_case name) = Inr (pys name)" if "name \<noteq> []" for name
    using that
    by (simp add: validate_case_def demo_raw_case_def sa_object_def sa_string_def sa_integer_def sa_array_def
        demo_contract_section_def num_case_def num_eq_def)
  have "mapE (validate_case demo_contract_section) (map demo_raw_case SOURCE_ACCEPTANCE_CASE_NAMES) =
      Inr (map pys SOURCE_ACCEPTANCE_CASE_NAMES)"
    by (simp add: SOURCE_ACCEPTANCE_CASE_NAMES_def case_ok)
  then show ?thesis by (simp add: validate_cases_def demo_raw_sections sa_array_def)
qed

lemma demo_raw_audit:
  "\<exists>audit. check_raw_audit demo_raw (map pys SOURCE_ACCEPTANCE_CASE_NAMES) = Inr audit \<and>
     read_members audit [(''case_definition_sha256'', as_sha256)] = Inr [(pys ''case_definition_sha256'', JStr (zeros 64))]"
  by (simp add: check_raw_audit_def demo_raw_def sa_object_def sa_array_def SOURCE_ACCEPTANCE_CASE_NAMES_def read_members_def
      read_member_def as_sha256_def sa_sha256_def sa_string_def)

lemma demo_raw_runtime:
  "\<exists>runtime. check_raw_runtime demo_raw = Inr runtime \<and> read_members runtime RUNTIME_MEMBERS = Inr demo_environment"
  by (simp add: check_raw_runtime_def demo_raw_def demo_environment_def sa_object_def sa_array_def read_members_def
      read_member_def RUNTIME_MEMBERS_def reader_defs)

lemma sha256_hex_relative: "\<not> absolute_path (sha256_hex m)"
proof -
  have shape: "length (sha256_hex m) = 64" "\<forall>c \<in> set (sha256_hex m). is_hex_char c"
    using sha256_hexdigest_shape [of m] by (auto simp: is_lower_hex_def list_all_iff)
  then obtain a b c d e rest where s: "sha256_hex m = a # b # c # d # e # rest"
    by (auto simp: numeral_eq_Suc length_Suc_conv)
  with shape(2) have "is_hex_char a" "is_hex_char b" "is_hex_char c" by auto
  then show ?thesis by (auto simp: absolute_path_def s is_hex_char_def pys_def is_letter_def)
qed

lemma demo_raw_accepted:
  assumes "payload \<noteq> []"
  shows "validate_raw_acceptance demo_source_env (\<lambda>_. Inr (pys ''+00:00'')) demo_raw payload demo_lock =
    Inr (demo_receipt_of (sha256_hex payload) (int (length payload)))"
proof -
  from demo_raw_audit obtain audit where audit: "check_raw_audit demo_raw (map pys SOURCE_ACCEPTANCE_CASE_NAMES) = Inr audit"
    "read_members audit [(''case_definition_sha256'', as_sha256)] = Inr [(pys ''case_definition_sha256'', JStr (zeros 64))]"
    by blast
  from demo_raw_runtime obtain runtime where runtime: "check_raw_runtime demo_raw = Inr runtime"
    "read_members runtime RUNTIME_MEMBERS = Inr demo_environment" by blast
  have time: "canonical_utc_timestamp (\<lambda>_. Inr (pys ''+00:00'')) 1 = Inr (pys ''Z'')"
    by (simp add: canonical_utc_timestamp_def py_replace.simps [of "pys ''+00:00''" "pys ''Z''" "pys ''+00:00''"])
      (simp add: pys_def py_replace.simps)
  have probe: "read_members demo_raw_source [(''probe_sha256'', as_sha256), (''helper_sha256'', as_sha256)] =
      Inr [(pys ''probe_sha256'', JStr (zeros 64)), (pys ''helper_sha256'', JStr (zeros 64))]"
    by (simp add: read_members_def read_member_def demo_raw_source_def reader_defs)
  have count: "py_eq (got demo_aggregate ''case_count'') (JInt (int (length (map pys SOURCE_ACCEPTANCE_CASE_NAMES))))"
    by (simp add: demo_aggregate_def SOURCE_ACCEPTANCE_CASE_NAMES_def num_case_def num_eq_def)
  let ?r = "demo_receipt_of (sha256_hex payload) (int (length payload))"
  have "\<forall>s. pk_fromisoformat demo_source_env s = Some (Some 0)" by (simp add: demo_source_env_def)
  with assms sha256_hex_relative have public: "validate_public_acceptance demo_source_env ?r demo_lock = Inr ()"
    by (intro demo_public_valid) simp_all
  have paths: "sa_reject_absolute_paths (JObj ?r) = Inr ()"
    using demo_receipt_strings [OF sha256_hex_relative] unfolding sa_reject_absolute_paths_Inr_iff .
  have shape: "[(pys ''schema_version'', JInt 2), (pys ''artifact_role'', JStr (pys ''source_model_acceptance'')),
        (pys ''status'', JStr (pys ''accepted'')), (pys ''created_at_utc'', JStr (pys ''Z'')),
        (pys ''source_model'', JObj demo_source_model), (pys ''oracle_source'', JObj demo_oracle_source),
        (pys ''acceptance_contract'', JObj demo_contract_section),
        (pys ''probe'', JObj
          ([(pys ''raw_receipt_sha256'', JStr (sha256_bytes payload)),
            (pys ''raw_receipt_size_bytes'', JInt (int (length payload)))] @
           [(pys ''probe_sha256'', JStr (zeros 64)), (pys ''helper_sha256'', JStr (zeros 64))] @
           [(pys ''case_definition_sha256'', JStr (zeros 64))])),
        (pys ''runtime_environment'', JObj demo_environment),
        (pys ''evidence'', JObj
          [(pys ''case_names'', JList (map JStr (map pys SOURCE_ACCEPTANCE_CASE_NAMES))),
           (pys ''determinism'', JList (map (JObj \<circ> demo_determinism) SOURCE_ACCEPTANCE_CASE_NAMES)),
           (pys ''aggregate'', JObj demo_aggregate), (pys ''gates'', JObj demo_gates)])] = ?r"
    by (simp add: demo_receipt_of_def demo_probe_of_def demo_evidence_def sha256_bytes_def)
  show ?thesis
    unfolding validate_raw_acceptance_def Let_def demo_raw_head demo_raw_source_checked demo_raw_sections demo_gates_valid
      demo_lock_contract bindE_Inr demo_raw_cases demo_aggregate_valid demo_determinism_valid audit runtime demo_lock_model
      demo_lock_source probe sa_number_Inr_iff
    by (simp only: count sa_number_def json.case pyfloat.case bindE_Inr time guardE_def not_True_eq_False if_False
        shape paths public)
qed

text \<open>C16: the receipt that the writer makes of the probe's raw document passes its own public validator; its model and
  source sections are those of the lock, its probe section authenticates the raw document's bytes, its evidence is
  the raw document's, and no string of it is an absolute path.\<close>

theorem written_receipt_valid:
  assumes "validate_raw_acceptance env isoformat raw payload lock = Inr receipt"
  shows "validate_public_acceptance env receipt lock = Inr () \<and> emitted_facts raw payload lock receipt"
  using validated_raw_acceptance [OF assms] by blast

theorem written_receipt_valid_witness:
  "\<exists>receipt. validate_public_acceptance demo_source_env receipt demo_lock = Inr () \<and>
     emitted_facts demo_raw [65] demo_lock receipt"
  using written_receipt_valid [OF demo_raw_accepted [of "[65]"]] by auto

end
