(* ===== verification/ExportDirectory.thy ===== *)
theory ExportDirectory
  imports Mode8Receipt BundleSnapshot
begin

text \<open>
  The exports that later tools rely on: a directory with a receipt, the checksum of the receipt, and the artifacts
  the receipt lists. \<open>authenticate_plan_export\<close> (\<open>tools/export/validate_main_decoder_plans.py\<close>),
  \<open>authenticate_text_encoder_export\<close> and \<open>authenticate_local_ar_export\<close>
  (\<open>tools/export/validate_main_local_ar_sequence.py\<close>) read the same layout with the names, the role and the
  messages as the only differences: \<open>export_layout\<close> holds the names, and the three functions are the composition of
  the shared steps with their own sections.

  What the file system answers is an \<open>export_directory\<close>: the root, the entry of each relative path, and the walk
  \<open>root.rglob("*")\<close>. Messages are those of the plan export, with the names left out.
\<close>

subsection \<open>The directory\<close>

record walked_entry =
  we_path :: pystr
  we_is_symlink :: bool
  we_is_file :: bool
  we_is_dir :: bool

record export_directory =
  xd_is_symlink :: bool
  xd_resolve :: "pystr result"
  xd_is_dir :: bool
  xd_entry :: "pystr \<Rightarrow> file_view"
  xd_walk :: "walked_entry list"

record export_layout =
  xl_receipt :: string
  xl_checksum :: string
  xl_role :: string

text \<open>\<open>path.is_relative_to(root)\<close>\<close>

definition is_relative_to :: "pystr \<Rightarrow> pystr \<Rightarrow> bool" where
  "is_relative_to path base \<longleftrightarrow>
     pure_root path = pure_root base \<and>
     take (length (pure_components base)) (pure_components path) = pure_components base"

text \<open>The root, the receipt and its digest.\<close>

definition export_receipt :: "pkg_env \<Rightarrow> export_layout \<Rightarrow> export_directory \<Rightarrow> (pystr \<times> json_object \<times> pystr) result" where
  "export_receipt env layout dir =
     (let receipt = xd_entry dir (pys (xl_receipt layout)); checksum = xd_entry dir (pys (xl_checksum layout))
      in bindE (guardE (xd_is_symlink dir) (rt_error ''plan export must not be a symbolic link: '')) (\<lambda>_.
         bindE (xd_resolve dir) (\<lambda>base.
         bindE (guardE (\<not> xd_is_dir dir) (rt_error ''plan export is not a directory: '')) (\<lambda>_.
         bindE (guardE (fv_is_symlink receipt \<or> fv_is_symlink checksum)
           (rt_error ''plan export receipt files must not be symbolic links'')) (\<lambda>_.
         bindE (rt_load_json env receipt) (\<lambda>(doc, payload).
         bindE (fv_bytes checksum) (\<lambda>line.
         bindE (guardE (line \<noteq> checksum_line (sha256_hex payload) (xl_receipt layout))
           (rt_error ''plan export receipt checksum does not match'')) (\<lambda>_.
         Inr (base, doc, sha256_hex payload)))))))))"

definition check_export_head :: "export_layout \<Rightarrow> string \<Rightarrow> json_object \<Rightarrow> unit result" where
  "check_export_head layout expected_status doc =
     bindE (rt_integer (got doc ''schema_version'')) (\<lambda>version.
     bindE (guardE (version \<noteq> 1) (rt_error ''unsupported plan export receipt schema'')) (\<lambda>_.
     bindE (rt_string (got doc ''artifact_role'')) (\<lambda>role.
     bindE (guardE (role \<noteq> pys (xl_role layout)) (rt_error ''plan export has the wrong artifact role'')) (\<lambda>_.
     bindE (rt_string (got doc ''status'')) (\<lambda>status.
     guardE (status \<noteq> pys expected_status)
       (rt_error ''only an explicitly measured-not-accepted export is valid''))))))"

subsection \<open>The artifacts\<close>

record listed_artifact =
  la_relative :: pystr
  la_path :: pystr
  la_size_bytes :: int
  la_sha256 :: pystr

text \<open>One record of \<open>receipt.artifacts\<close>: \<open>authenticated[relative] = (artifact, actual_digest)\<close>.\<close>

definition export_artifact ::
  "export_directory \<Rightarrow> pystr \<Rightarrow> listed_artifact list \<Rightarrow> json \<Rightarrow> listed_artifact result"
where
  "export_artifact dir base authenticated raw =
     bindE (rt_mapping raw) (\<lambda>entry_doc.
     bindE (rt_safe_artifact_path (got entry_doc ''path'')) (\<lambda>relative.
     bindE (guardE (relative \<in> set (map la_relative authenticated)) (rt_error ''duplicate plan export artifact: '')) (\<lambda>_.
     bindE (rt_nonnegative_integer (got entry_doc ''size_bytes'')) (\<lambda>size_bytes.
     bindE (rt_sha256 (got entry_doc ''sha256'')) (\<lambda>expected_digest.
     bindE (guardE (fv_is_symlink (xd_entry dir relative)) (rt_error ''plan export artifact is a symbolic link: '')) (\<lambda>_.
     bindE (fv_resolve (xd_entry dir relative)) (\<lambda>artifact.
     bindE (guardE (\<not> is_relative_to artifact base \<or> \<not> fv_is_file (xd_entry dir relative))
       (rt_error ''invalid plan export artifact: '')) (\<lambda>_.
     bindE (fv_size (xd_entry dir relative)) (\<lambda>actual_size.
     bindE (guardE (actual_size \<noteq> size_bytes) (rt_error ''plan export artifact size mismatch: '')) (\<lambda>_.
     bindE (sha256_of_file (xd_entry dir relative)) (\<lambda>actual_digest.
     bindE (guardE (actual_digest \<noteq> expected_digest) (rt_error ''plan export artifact digest mismatch: '')) (\<lambda>_.
     Inr \<lparr>la_relative = relative, la_path = artifact, la_size_bytes = size_bytes, la_sha256 = actual_digest\<rparr>))))))))))))"

text \<open>The loops over \<open>receipt.artifacts\<close> differ in the checks of one record, which is \<open>step\<close>.\<close>

fun artifact_loop ::
  "(listed_artifact list \<Rightarrow> json \<Rightarrow> listed_artifact result) \<Rightarrow> listed_artifact list \<Rightarrow> json list \<Rightarrow>
   listed_artifact list result"
where
  "artifact_loop step authenticated [] = Inr authenticated"
| "artifact_loop step authenticated (raw # raws) =
     bindE (step authenticated raw) (\<lambda>a. artifact_loop step (authenticated @ [a]) raws)"

definition export_artifacts :: "export_directory \<Rightarrow> pystr \<Rightarrow> json_object \<Rightarrow> listed_artifact list result" where
  "export_artifacts dir base doc =
     bindE (rt_list (got doc ''artifacts'')) (\<lambda>values. artifact_loop (export_artifact dir base) [] values)"

definition find_artifact :: "listed_artifact list \<Rightarrow> string \<Rightarrow> listed_artifact option" where
  "find_artifact authenticated name = find (\<lambda>a. la_relative a = pys name) authenticated"

subsection \<open>The walk\<close>

text \<open>The files and the directories below the root; \<open>link\<close> and \<open>other\<close> are what is raised for a symbolic link and
  for an entry that is neither. The root itself is the empty path.\<close>

fun walk_sets ::
  "exn \<Rightarrow> exn \<Rightarrow> walked_entry list \<Rightarrow> pystr list \<times> pystr list \<Rightarrow> (pystr list \<times> pystr list) result"
where
  "walk_sets link other [] sets = Inr sets"
| "walk_sets link other (e # es) (fs, ds) =
     (if we_is_symlink e then Inl link
      else if we_is_file e then walk_sets link other es (fs @ [we_path e], ds)
      else if we_is_dir e then walk_sets link other es (fs, ds @ [we_path e])
      else Inl other)"

definition check_export_entries :: "export_directory \<Rightarrow> pystr list \<Rightarrow> unit result" where
  "check_export_entries dir expected_files =
     bindE (walk_sets (rt_error ''plan export contains a symbolic link: '')
       (rt_error ''plan export contains a non-file entry: '') (xd_walk dir) ([], [[]])) (\<lambda>(actual_files, actual_directories).
     guardE (set actual_files \<noteq> set expected_files \<or>
         set actual_directories \<noteq> expected_bundle_directories expected_files)
       (rt_error ''plan export entry set mismatch: missing=, extra=, extra_directories=''))"

definition layout_files :: "export_layout \<Rightarrow> listed_artifact list \<Rightarrow> pystr list" where
  "layout_files layout authenticated = [pys (xl_receipt layout), pys (xl_checksum layout)] @ map la_relative authenticated"

subsection \<open>Sections the exports share\<close>

record codec_restore_identity =
  cr_embedded_codec_model_id :: pystr
  cr_codec_model_sha256 :: pystr
  cr_codec_model_size_bytes :: int

definition authenticate_codec_restore :: "json_object \<Rightarrow> codec_restore_identity result" where
  "authenticate_codec_restore source =
     bindE (rt_mapping (got source ''codec_restore'')) (\<lambda>restore.
     bindE (rt_string (got restore ''codec_resolution'')) (\<lambda>resolution.
     bindE (guardE (resolution \<noteq> pys ''authenticated_local_file'')
       (rt_error ''.codec_restore is not the authenticated offline contract'')) (\<lambda>_.
     bindE (rt_boolean (got restore ''use_scl_loss'')) (\<lambda>use_scl_loss.
     bindE (guardE use_scl_loss (rt_error ''.codec_restore is not the authenticated offline contract'')) (\<lambda>_.
     bindE (rt_boolean (got restore ''network_resolution'')) (\<lambda>network_resolution.
     bindE (guardE network_resolution (rt_error ''.codec_restore is not the authenticated offline contract'')) (\<lambda>_.
     bindE (guardE (\<not> has_keys restore
         [''embedded_codec_model_id'', ''codec_model_sha256'', ''codec_model_size_bytes'', ''codec_resolution'',
          ''use_scl_loss'', ''network_resolution''])
       (rt_error ''.codec_restore has an unexpected field set'')) (\<lambda>_.
     bindE (rt_string (got restore ''embedded_codec_model_id'')) (\<lambda>model_id.
     bindE (rt_sha256 (got restore ''codec_model_sha256'')) (\<lambda>digest.
     bindE (rt_nonnegative_integer (got restore ''codec_model_size_bytes'')) (\<lambda>size_bytes.
     Inr \<lparr>cr_embedded_codec_model_id = model_id, cr_codec_model_sha256 = digest,
          cr_codec_model_size_bytes = size_bytes\<rparr>)))))))))))"

definition gpu_capability :: "json_object \<Rightarrow> (int \<times> int) result" where
  "gpu_capability runtime =
     bindE (rt_list (got runtime ''gpu_compute_capability'')) (\<lambda>values.
     bindE (guardE (length values \<noteq> 2) (rt_error ''plan export GPU capability must have two components'')) (\<lambda>_.
     bindE (mapE rt_nonnegative_integer values) (\<lambda>capability. Inr (capability ! 0, capability ! 1))))"

subsection \<open>The plan export\<close>

text \<open>The rest of the check of a scalar input or output, after its type and shape.\<close>

definition check_device_io :: "json_object \<Rightarrow> string \<Rightarrow> exn \<Rightarrow> unit result" where
  "check_device_io tensor expected_mode mismatch =
     bindE (rt_string (got tensor ''mode'')) (\<lambda>mode.
     bindE (guardE (mode \<noteq> pys expected_mode) mismatch) (\<lambda>_.
     bindE (rt_string (got tensor ''location'')) (\<lambda>location.
     bindE (guardE (location \<noteq> pys ''device'') mismatch) (\<lambda>_.
     bindE (rt_boolean (got tensor ''shape_inference_io'')) (\<lambda>shape_inference_io.
     bindE (guardE shape_inference_io mismatch) (\<lambda>_.
     guardE (pys ''profile_values'' \<in> set (map fst tensor)) mismatch))))))"

text \<open>\<open>[value for value in step_tensors if isinstance(value, dict) and value.get("name") == name]\<close>\<close>

fun named_tensors :: "string \<Rightarrow> json list \<Rightarrow> json_object list" where
  "named_tensors name [] = []"
| "named_tensors name (JObj doc # vs) =
     (if got doc ''name'' = JStr (pys name) then doc # named_tensors name vs else named_tensors name vs)"
| "named_tensors name (v # vs) = named_tensors name vs"

definition check_step_position :: "json list \<Rightarrow> unit result" where
  "check_step_position step_tensors =
     (case named_tensors ''position'' step_tensors of
        [position] \<Rightarrow>
          (let mismatch = rt_error ''plan export step position must be a scalar int64 DEVICE execution input without profile values''
           in bindE (rt_list (got position ''shape'')) (\<lambda>position_shape.
              bindE (rt_string (got position ''dtype'')) (\<lambda>dtype.
              bindE (guardE (dtype \<noteq> pys ''int64'' \<or> position_shape \<noteq> []) mismatch) (\<lambda>_.
              check_device_io position ''input'' mismatch))))
      | _ \<Rightarrow> Inl (rt_error ''plan export must inspect exactly one step position tensor''))"

definition check_step_status :: "json list \<Rightarrow> string \<times> string \<Rightarrow> unit result" where
  "check_step_status step_tensors name_mode =
     (case named_tensors (fst name_mode) step_tensors of
        [tensor] \<Rightarrow>
          (let mismatch = rt_error ''plan export step  must be a scalar int32 DEVICE  without profile values''
           in bindE (rt_string (got tensor ''dtype'')) (\<lambda>dtype.
              bindE (guardE (dtype \<noteq> pys ''int32'') mismatch) (\<lambda>_.
              bindE (rt_list (got tensor ''shape'')) (\<lambda>dimensions.
              bindE (guardE (dimensions \<noteq> []) mismatch) (\<lambda>_.
              check_device_io tensor (snd name_mode) mismatch)))))
      | _ \<Rightarrow> Inl (rt_error ''plan export must inspect exactly one step  tensor''))"

definition check_step_inspection :: "json_object \<Rightarrow> unit result" where
  "check_step_inspection doc =
     bindE (rt_mapping (got doc ''plan_inspection'')) (\<lambda>plan_inspection.
     bindE (rt_mapping (got plan_inspection ''step'')) (\<lambda>step_inspection.
     bindE (rt_list (got step_inspection ''tensors'')) (\<lambda>step_tensors.
     bindE (check_step_position step_tensors) (\<lambda>_.
     all_steps (check_step_status step_tensors)
       [(''execution_status_in'', ''input''), (''execution_status_out'', ''output'')]))))"

record authenticated_plan_export =
  pl_root :: pystr
  pl_receipt_sha256 :: pystr
  pl_oracle_lock_sha256 :: pystr
  pl_locked_magpie_restore_sha256 :: pystr
  pl_codec_restore :: codec_restore_identity
  pl_prefill_plan :: listed_artifact
  pl_step_plan :: listed_artifact
  pl_source_fixture_manifest_sha256 :: pystr
  pl_required_plugin_sha256 :: pystr
  pl_mode8_validation_receipt_sha256 :: pystr
  pl_mode8_class_table_sha256 :: pystr
  pl_cuda_identity :: cuda_runtime_identity
  pl_cublas_identity :: cublas_runtime_identity
  pl_tensorrt_version :: pystr
  pl_torch_cuda_build :: pystr
  pl_gpu_name :: pystr
  pl_gpu_compute_capability :: "int \<times> int"

definition PLAN_EXPORT_LAYOUT :: export_layout where
  "PLAN_EXPORT_LAYOUT =
     \<lparr>xl_receipt = ''export-receipt.json'', xl_checksum = ''export-receipt.json.sha256'',
      xl_role = ''main_decoder_prefill_and_step''\<rparr>"

definition required_artifact :: "listed_artifact list \<Rightarrow> string \<Rightarrow> listed_artifact result" where
  "required_artifact authenticated name =
     (case find_artifact authenticated name of
        None \<Rightarrow> Inl (rt_error ''plan export is missing required plan: '')
      | Some a \<Rightarrow> Inr a)"

definition matching_class_table :: "json_object \<Rightarrow> json_object \<Rightarrow> pystr result" where
  "matching_class_table runtime export_doc =
     bindE (rt_sha256 (got runtime ''mode8_class_table_sha256'')) (\<lambda>runtime_table.
     bindE (rt_sha256 (got export_doc ''mode8_class_table_sha256'')) (\<lambda>export_table.
     bindE (guardE (export_table \<noteq> runtime_table) (rt_error ''plan export mode-8 class-table digests do not match'')) (\<lambda>_.
     Inr runtime_table)))"

text \<open>The artifacts on disk are the listed ones.\<close>

definition authenticated_artifacts ::
  "export_layout \<Rightarrow> export_directory \<Rightarrow> pystr \<Rightarrow> json_object \<Rightarrow> listed_artifact list result"
where
  "authenticated_artifacts layout dir base doc =
     bindE (export_artifacts dir base doc) (\<lambda>authenticated.
     bindE (check_export_entries dir (layout_files layout authenticated)) (\<lambda>_. Inr authenticated))"

definition authenticate_plan_export :: "pkg_env \<Rightarrow> export_directory \<Rightarrow> authenticated_plan_export result" where
  "authenticate_plan_export env dir =
     bindE (export_receipt env PLAN_EXPORT_LAYOUT dir) (\<lambda>(base, doc, receipt_sha256).
     bindE (check_export_head PLAN_EXPORT_LAYOUT ''measured-not-accepted'' doc) (\<lambda>_.
     bindE (check_step_inspection doc) (\<lambda>_.
     bindE (authenticated_artifacts PLAN_EXPORT_LAYOUT dir base doc) (\<lambda>authenticated.
     bindE (required_artifact authenticated ''main-decoder-prefill.plan'') (\<lambda>prefill_plan.
     bindE (required_artifact authenticated ''main-decoder-step.plan'') (\<lambda>step_plan.
     bindE (rt_mapping (got doc ''source'')) (\<lambda>source.
     bindE (rt_mapping (got doc ''runtime'')) (\<lambda>runtime.
     bindE (rt_mapping (got doc ''export'')) (\<lambda>export_doc.
     bindE (rt_string (got export_doc ''execution_status_contract'')) (\<lambda>status_contract.
     bindE (guardE (status_contract \<noteq> pys ''int32-device-scalar-sticky-12-layer-recurrence'')
       (rt_error ''plan export has no canonical Main execution-status recurrence'')) (\<lambda>_.
     bindE (matching_class_table runtime export_doc) (\<lambda>class_table.
     bindE (parse_cuda_runtime_identity (got runtime ''cuda'')) (\<lambda>cuda.
     bindE (parse_cublas_runtime_identity (got runtime ''cublas'')) (\<lambda>cublas.
     bindE (gpu_capability runtime) (\<lambda>capability.
     bindE (rt_sha256 (got source ''oracle_lock_sha256'')) (\<lambda>oracle_lock.
     bindE (rt_sha256 (got source ''locked_magpie_restore_sha256'')) (\<lambda>locked_restore.
     bindE (authenticate_codec_restore source) (\<lambda>codec_restore.
     bindE (rt_sha256 (got source ''boundary_fixture_manifest_sha256'')) (\<lambda>fixture_manifest.
     bindE (rt_sha256 (got source ''plugin_sha256'')) (\<lambda>plugin.
     bindE (rt_sha256 (got source ''mode8_validation_receipt_sha256'')) (\<lambda>mode8_receipt.
     bindE (rt_string (got runtime ''tensorrt'')) (\<lambda>tensorrt.
     bindE (rt_string (got runtime ''torch_cuda_build'')) (\<lambda>torch.
     bindE (rt_string (got runtime ''gpu_name'')) (\<lambda>gpu_name.
     Inr \<lparr>pl_root = base, pl_receipt_sha256 = receipt_sha256, pl_oracle_lock_sha256 = oracle_lock,
          pl_locked_magpie_restore_sha256 = locked_restore, pl_codec_restore = codec_restore,
          pl_prefill_plan = prefill_plan, pl_step_plan = step_plan,
          pl_source_fixture_manifest_sha256 = fixture_manifest, pl_required_plugin_sha256 = plugin,
          pl_mode8_validation_receipt_sha256 = mode8_receipt, pl_mode8_class_table_sha256 = class_table,
          pl_cuda_identity = cuda, pl_cublas_identity = cublas, pl_tensorrt_version = tensorrt,
          pl_torch_cuda_build = torch, pl_gpu_name = gpu_name, pl_gpu_compute_capability = capability\<rparr>))))))))))))))))))))))))"

subsection \<open>The text encoder and the local transformer\<close>

record authenticated_text_encoder_export =
  te_root :: pystr
  te_receipt_sha256 :: pystr
  te_oracle_lock_sha256 :: pystr
  te_locked_magpie_restore_sha256 :: pystr
  te_codec_restore :: codec_restore_identity
  te_source_fixture_manifest_sha256 :: pystr
  te_required_plugin_sha256 :: pystr
  te_plan :: listed_artifact
  te_tensorrt_version :: pystr
  te_torch_cuda_build :: pystr
  te_gpu_name :: pystr
  te_gpu_compute_capability :: "int \<times> int"

definition TEXT_ENCODER_LAYOUT :: export_layout where
  "TEXT_ENCODER_LAYOUT =
     \<lparr>xl_receipt = ''plan-receipt.json'', xl_checksum = ''plan-receipt.json.sha256'', xl_role = ''text_encoder_plan''\<rparr>"

definition authenticate_text_encoder_export ::
  "pkg_env \<Rightarrow> export_directory \<Rightarrow> authenticated_text_encoder_export result"
where
  "authenticate_text_encoder_export env dir =
     bindE (export_receipt env TEXT_ENCODER_LAYOUT dir) (\<lambda>(base, doc, receipt_sha256).
     bindE (check_export_head TEXT_ENCODER_LAYOUT ''measured-not-accepted'' doc) (\<lambda>_.
     bindE (authenticated_artifacts TEXT_ENCODER_LAYOUT dir base doc) (\<lambda>authenticated.
     bindE (required_artifact authenticated ''text_encoder.plan'') (\<lambda>plan.
     bindE (rt_mapping (got doc ''source'')) (\<lambda>source.
     bindE (rt_mapping (got doc ''runtime'')) (\<lambda>runtime.
     bindE (gpu_capability runtime) (\<lambda>capability.
     bindE (rt_sha256 (got source ''oracle_lock_sha256'')) (\<lambda>oracle_lock.
     bindE (rt_sha256 (got source ''locked_magpie_restore_sha256'')) (\<lambda>locked_restore.
     bindE (authenticate_codec_restore source) (\<lambda>codec_restore.
     bindE (rt_sha256 (got source ''boundary_fixture_manifest_sha256'')) (\<lambda>fixture_manifest.
     bindE (rt_sha256 (got source ''plugin_sha256'')) (\<lambda>plugin.
     bindE (rt_string (got runtime ''tensorrt'')) (\<lambda>tensorrt.
     bindE (rt_string (got runtime ''torch_cuda_build'')) (\<lambda>torch.
     bindE (rt_string (got runtime ''gpu_name'')) (\<lambda>gpu_name.
     Inr \<lparr>te_root = base, te_receipt_sha256 = receipt_sha256, te_oracle_lock_sha256 = oracle_lock,
          te_locked_magpie_restore_sha256 = locked_restore, te_codec_restore = codec_restore,
          te_source_fixture_manifest_sha256 = fixture_manifest, te_required_plugin_sha256 = plugin, te_plan = plan,
          te_tensorrt_version = tensorrt, te_torch_cuda_build = torch, te_gpu_name = gpu_name,
          te_gpu_compute_capability = capability\<rparr>)))))))))))))))"

record authenticated_local_ar_export =
  lx_root :: pystr
  lx_receipt_sha256 :: pystr
  lx_oracle_lock_sha256 :: pystr
  lx_locked_magpie_restore_sha256 :: pystr
  lx_codec_restore :: codec_restore_identity
  lx_source_fixture_manifest_sha256s :: "pystr list"
  lx_plan :: listed_artifact
  lx_plugin :: listed_artifact
  lx_tensorrt_version :: pystr
  lx_torch_cuda_build :: pystr
  lx_gpu_name :: pystr
  lx_gpu_compute_capability :: "int \<times> int"

definition LOCAL_AR_LAYOUT :: export_layout where
  "LOCAL_AR_LAYOUT =
     \<lparr>xl_receipt = ''export-receipt.json'', xl_checksum = ''export-receipt.json.sha256'', xl_role = ''local_ar_fixed_16''\<rparr>"

definition MINIMUM_DISTINCT_FIXTURES :: nat where "MINIMUM_DISTINCT_FIXTURES = 3"

definition fixture_manifests :: "json_object \<Rightarrow> pystr list result" where
  "fixture_manifests source =
     bindE (rt_list (got source ''boundary_fixture_manifest_sha256s'')) (\<lambda>values.
     bindE (mapE rt_sha256 values) (\<lambda>manifests.
     bindE (guardE (length manifests < MINIMUM_DISTINCT_FIXTURES \<or> \<not> distinct manifests \<or> sort manifests \<noteq> manifests)
       (rt_error ''Local AR source fixture manifests must be a sorted unique set of at least  digests'')) (\<lambda>_.
     Inr manifests)))"

definition authenticate_local_ar_export :: "pkg_env \<Rightarrow> export_directory \<Rightarrow> authenticated_local_ar_export result" where
  "authenticate_local_ar_export env dir =
     bindE (export_receipt env LOCAL_AR_LAYOUT dir) (\<lambda>(base, doc, receipt_sha256).
     bindE (check_export_head LOCAL_AR_LAYOUT ''measured-not-accepted'' doc) (\<lambda>_.
     bindE (authenticated_artifacts LOCAL_AR_LAYOUT dir base doc) (\<lambda>authenticated.
     bindE (required_artifact authenticated ''local-ar.plan'') (\<lambda>plan.
     bindE (required_artifact authenticated ''libmagpie_tts_rt_plugins.so'') (\<lambda>plugin.
     bindE (rt_mapping (got doc ''source'')) (\<lambda>source.
     bindE (rt_mapping (got doc ''runtime'')) (\<lambda>runtime.
     bindE (gpu_capability runtime) (\<lambda>capability.
     bindE (fixture_manifests source) (\<lambda>manifests.
     bindE (rt_sha256 (got source ''oracle_lock_sha256'')) (\<lambda>oracle_lock.
     bindE (rt_sha256 (got source ''locked_magpie_restore_sha256'')) (\<lambda>locked_restore.
     bindE (authenticate_codec_restore source) (\<lambda>codec_restore.
     bindE (rt_string (got runtime ''tensorrt'')) (\<lambda>tensorrt.
     bindE (rt_string (got runtime ''torch_cuda_build'')) (\<lambda>torch.
     bindE (rt_string (got runtime ''gpu_name'')) (\<lambda>gpu_name.
     Inr \<lparr>lx_root = base, lx_receipt_sha256 = receipt_sha256, lx_oracle_lock_sha256 = oracle_lock,
          lx_locked_magpie_restore_sha256 = locked_restore, lx_codec_restore = codec_restore,
          lx_source_fixture_manifest_sha256s = manifests, lx_plan = plan, lx_plugin = plugin,
          lx_tensorrt_version = tensorrt, lx_torch_cuda_build = torch, lx_gpu_name = gpu_name,
          lx_gpu_compute_capability = capability\<rparr>)))))))))))))))"

subsection \<open>What is authenticated\<close>

definition clean_walk :: "walked_entry list \<Rightarrow> bool" where
  "clean_walk es \<longleftrightarrow> (\<forall>e \<in> set es. \<not> we_is_symlink e \<and> (we_is_file e \<or> we_is_dir e))"

definition walked_files :: "walked_entry list \<Rightarrow> pystr list" where
  "walked_files es = map we_path (filter we_is_file es)"

definition walked_directories :: "walked_entry list \<Rightarrow> pystr list" where
  "walked_directories es = map we_path (filter (\<lambda>e. \<not> we_is_file e) es)"

lemma walk_sets_Inr_iff:
  "walk_sets link other es (fs, ds) = Inr sets \<longleftrightarrow>
     clean_walk es \<and> sets = (fs @ walked_files es, ds @ walked_directories es)"
  by (induction es arbitrary: fs ds) (auto simp: clean_walk_def walked_files_def walked_directories_def)

text \<open>The directory holds exactly these files, below exactly their parents.\<close>

definition exact_entries :: "export_directory \<Rightarrow> pystr list \<Rightarrow> bool" where
  "exact_entries dir names \<longleftrightarrow>
     clean_walk (xd_walk dir) \<and> set (walked_files (xd_walk dir)) = set names \<and>
     insert [] (set (walked_directories (xd_walk dir))) = expected_bundle_directories names"

lemma check_export_entries_Inr_iff: "check_export_entries dir names = Inr u \<longleftrightarrow> exact_entries dir names"
  by (auto simp: check_export_entries_def exact_entries_def bindE_eq_Inr guardE_eq_Inr walk_sets_Inr_iff)

text \<open>The record of the receipt describes the file on disk.\<close>

definition describes :: "export_directory \<Rightarrow> pystr \<Rightarrow> json \<Rightarrow> listed_artifact \<Rightarrow> bool" where
  "describes dir base v a \<longleftrightarrow>
     (\<exists>doc bytes. v = JObj doc \<and> rt_safe_artifact_path (got doc ''path'') = Inr (la_relative a) \<and>
        got doc ''size_bytes'' = JInt (la_size_bytes a) \<and> 0 \<le> la_size_bytes a \<and> got doc ''sha256'' = JStr (la_sha256 a) \<and>
        \<not> fv_is_symlink (xd_entry dir (la_relative a)) \<and> fv_resolve (xd_entry dir (la_relative a)) = Inr (la_path a) \<and>
        is_relative_to (la_path a) base \<and> fv_is_file (xd_entry dir (la_relative a)) \<and>
        fv_size (xd_entry dir (la_relative a)) = Inr (la_size_bytes a) \<and>
        fv_bytes (xd_entry dir (la_relative a)) = Inr bytes \<and> la_sha256 a = sha256_hex bytes)"

lemma export_artifact_Inr_iff:
  "export_artifact dir base authenticated v = Inr a \<longleftrightarrow>
     describes dir base v a \<and> la_relative a \<notin> set (map la_relative authenticated)"
proof
  assume "export_artifact dir base authenticated v = Inr a"
  then show "describes dir base v a \<and> la_relative a \<notin> set (map la_relative authenticated)"
    by (auto simp: export_artifact_def describes_def bindE_eq_Inr guardE_eq_Inr accessor_simps sha256_of_file_def)
next
  assume "describes dir base v a \<and> la_relative a \<notin> set (map la_relative authenticated)"
  then obtain doc bytes where "v = JObj doc" "rt_safe_artifact_path (got doc ''path'') = Inr (la_relative a)"
    "rt_nonnegative_integer (got doc ''size_bytes'') = Inr (la_size_bytes a)" "got doc ''sha256'' = JStr (la_sha256 a)"
    "\<not> fv_is_symlink (xd_entry dir (la_relative a))" "fv_resolve (xd_entry dir (la_relative a)) = Inr (la_path a)"
    "is_relative_to (la_path a) base" "fv_is_file (xd_entry dir (la_relative a))"
    "fv_size (xd_entry dir (la_relative a)) = Inr (la_size_bytes a)"
    "fv_bytes (xd_entry dir (la_relative a)) = Inr bytes" "la_sha256 a = sha256_hex bytes"
    "la_relative a \<notin> set (map la_relative authenticated)"
    unfolding describes_def rt_Inr_iff by blast
  moreover have "rt_sha256 (JStr (sha256_hex bytes)) = Inr (sha256_hex bytes)" by (simp add: rt_sha256_Inr_iff)
  ultimately show "export_artifact dir base authenticated v = Inr a"
    by (cases a) (simp add: export_artifact_def rt_mapping_def sha256_of_file_def)
qed

lemma artifact_loop_Inr:
  assumes "artifact_loop step acc vs = Inr out"
    and "\<And>acc v a. step acc v = Inr a \<Longrightarrow> P v a \<and> la_relative a \<notin> set (map la_relative acc)"
    and "distinct (map la_relative acc)"
  shows "\<exists>new. out = acc @ new \<and> list_all2 P vs new \<and> distinct (map la_relative out)"
  using assms(1,3)
proof (induction vs arbitrary: acc)
  case Nil
  then show ?case by simp
next
  case (Cons v vs)
  then obtain a where a: "step acc v = Inr a" "artifact_loop step (acc @ [a]) vs = Inr out" by (auto simp: bindE_eq_Inr)
  with assms(2) Cons.prems(2) have "P v a" "distinct (map la_relative (acc @ [a]))" by auto
  with Cons.IH [OF a(2)] show ?case by auto
qed

text \<open>The whole directory: the receipt authenticates itself, its head is the expected one, and the artifacts it lists
  are the files that are there.\<close>

definition directory_authentic ::
  "pkg_env \<Rightarrow> export_layout \<Rightarrow> string \<Rightarrow> export_directory \<Rightarrow> pystr \<Rightarrow> json_object \<Rightarrow> pystr \<Rightarrow> listed_artifact list \<Rightarrow> bool"
where
  "directory_authentic env layout status dir base doc digest arts \<longleftrightarrow>
     \<not> xd_is_symlink dir \<and> xd_resolve dir = Inr base \<and> xd_is_dir dir \<and>
     (\<exists>payload. fv_bytes (xd_entry dir (pys (xl_receipt layout))) = Inr payload \<and> digest = sha256_hex payload \<and>
        pk_loads env payload = Some (JObj doc) \<and> json_wf (JObj doc) \<and>
        fv_bytes (xd_entry dir (pys (xl_checksum layout))) = Inr (checksum_line digest (xl_receipt layout))) \<and>
     got doc ''schema_version'' = JInt 1 \<and> got doc ''artifact_role'' = JStr (pys (xl_role layout)) \<and>
     got doc ''status'' = JStr (pys status) \<and>
     (\<exists>vs. got doc ''artifacts'' = JList vs \<and> list_all2 (describes dir base) vs arts) \<and>
     distinct (map la_relative arts) \<and> exact_entries dir (layout_files layout arts)"

lemma export_receipt_Inr:
  assumes "export_receipt env layout dir = Inr (base, doc, digest)"
  shows "\<not> xd_is_symlink dir \<and> xd_resolve dir = Inr base \<and> xd_is_dir dir \<and>
     (\<exists>payload. fv_bytes (xd_entry dir (pys (xl_receipt layout))) = Inr payload \<and> digest = sha256_hex payload \<and>
        pk_loads env payload = Some (JObj doc) \<and> json_wf (JObj doc) \<and>
        fv_bytes (xd_entry dir (pys (xl_checksum layout))) = Inr (checksum_line digest (xl_receipt layout)))"
  using assms by (auto simp: export_receipt_def Let_def bindE_eq_Inr guardE_eq_Inr rt_load_json_Inr_iff)

lemma check_export_head_Inr_iff:
  "check_export_head layout status doc = Inr u \<longleftrightarrow>
     got doc ''schema_version'' = JInt 1 \<and> got doc ''artifact_role'' = JStr (pys (xl_role layout)) \<and>
     got doc ''status'' = JStr (pys status)"
  by (auto simp: check_export_head_def bindE_eq_Inr guardE_eq_Inr accessor_simps)

lemma authenticated_artifacts_Inr:
  assumes "authenticated_artifacts layout dir base doc = Inr arts"
  shows "(\<exists>vs. got doc ''artifacts'' = JList vs \<and> list_all2 (describes dir base) vs arts) \<and>
     distinct (map la_relative arts) \<and> exact_entries dir (layout_files layout arts)"
proof -
  from assms obtain vs where vs: "got doc ''artifacts'' = JList vs" "artifact_loop (export_artifact dir base) [] vs = Inr arts"
    "check_export_entries dir (layout_files layout arts) = Inr ()"
    by (auto simp: authenticated_artifacts_def export_artifacts_def bindE_eq_Inr rt_Inr_iff)
  from artifact_loop_Inr [OF vs(2), of "describes dir base"] obtain new where
    "arts = new" "list_all2 (describes dir base) vs new" "distinct (map la_relative arts)"
    by (auto simp: export_artifact_Inr_iff)
  with vs(1,3) show ?thesis by (auto simp: check_export_entries_Inr_iff)
qed

lemma directory_authenticI:
  assumes "export_receipt env layout dir = Inr (base, doc, digest)" "check_export_head layout status doc = Inr u"
    and "authenticated_artifacts layout dir base doc = Inr arts"
  shows "directory_authentic env layout status dir base doc digest arts"
  using export_receipt_Inr [OF assms(1)] assms(2) authenticated_artifacts_Inr [OF assms(3)]
  unfolding directory_authentic_def check_export_head_Inr_iff by blast

lemma required_artifact_Inr:
  "required_artifact arts name = Inr a \<Longrightarrow> a \<in> set arts \<and> la_relative a = pys name"
  by (auto simp: required_artifact_def find_artifact_def find_Some_iff split: option.splits)

lemma matching_class_table_Inr_iff:
  "matching_class_table runtime export_doc = Inr d \<longleftrightarrow>
     got runtime ''mode8_class_table_sha256'' = JStr d \<and> got export_doc ''mode8_class_table_sha256'' = JStr d \<and>
     sha256_pattern d"
  by (auto simp: matching_class_table_def bindE_eq_Inr guardE_eq_Inr rt_sha256_Inr_iff)

text \<open>What a plan export says of itself.\<close>

definition plan_export_facts :: "pkg_env \<Rightarrow> export_directory \<Rightarrow> authenticated_plan_export \<Rightarrow> bool" where
  "plan_export_facts env dir p \<longleftrightarrow>
     (\<exists>doc arts source runtime export_doc.
        directory_authentic env PLAN_EXPORT_LAYOUT ''measured-not-accepted'' dir (pl_root p) doc (pl_receipt_sha256 p) arts \<and>
        check_step_inspection doc = Inr () \<and>
        pl_prefill_plan p \<in> set arts \<and> la_relative (pl_prefill_plan p) = pys ''main-decoder-prefill.plan'' \<and>
        pl_step_plan p \<in> set arts \<and> la_relative (pl_step_plan p) = pys ''main-decoder-step.plan'' \<and>
        got doc ''source'' = JObj source \<and> got doc ''runtime'' = JObj runtime \<and> got doc ''export'' = JObj export_doc \<and>
        got export_doc ''execution_status_contract'' = JStr (pys ''int32-device-scalar-sticky-12-layer-recurrence'') \<and>
        got runtime ''mode8_class_table_sha256'' = JStr (pl_mode8_class_table_sha256 p) \<and>
        got export_doc ''mode8_class_table_sha256'' = JStr (pl_mode8_class_table_sha256 p) \<and>
        parse_cuda_runtime_identity (got runtime ''cuda'') = Inr (pl_cuda_identity p) \<and>
        parse_cublas_runtime_identity (got runtime ''cublas'') = Inr (pl_cublas_identity p) \<and>
        got source ''oracle_lock_sha256'' = JStr (pl_oracle_lock_sha256 p) \<and>
        got source ''locked_magpie_restore_sha256'' = JStr (pl_locked_magpie_restore_sha256 p) \<and>
        authenticate_codec_restore source = Inr (pl_codec_restore p) \<and>
        got source ''boundary_fixture_manifest_sha256'' = JStr (pl_source_fixture_manifest_sha256 p) \<and>
        got source ''plugin_sha256'' = JStr (pl_required_plugin_sha256 p) \<and>
        got source ''mode8_validation_receipt_sha256'' = JStr (pl_mode8_validation_receipt_sha256 p))"

lemma authenticated_plan_export_facts:
  assumes "authenticate_plan_export env dir = Inr p"
  shows "plan_export_facts env dir p"
proof -
  from assms obtain base doc digest arts prefill step_plan source runtime export_doc u v where
    d: "export_receipt env PLAN_EXPORT_LAYOUT dir = Inr (base, doc, digest)"
      "check_export_head PLAN_EXPORT_LAYOUT ''measured-not-accepted'' doc = Inr u" "check_step_inspection doc = Inr v"
      "authenticated_artifacts PLAN_EXPORT_LAYOUT dir base doc = Inr arts" and
    plans: "required_artifact arts ''main-decoder-prefill.plan'' = Inr prefill"
      "required_artifact arts ''main-decoder-step.plan'' = Inr step_plan" and
    sections: "got doc ''source'' = JObj source" "got doc ''runtime'' = JObj runtime" "got doc ''export'' = JObj export_doc"
      "got export_doc ''execution_status_contract'' = JStr (pys ''int32-device-scalar-sticky-12-layer-recurrence'')"
      "matching_class_table runtime export_doc = Inr (pl_mode8_class_table_sha256 p)"
      "parse_cuda_runtime_identity (got runtime ''cuda'') = Inr (pl_cuda_identity p)"
      "parse_cublas_runtime_identity (got runtime ''cublas'') = Inr (pl_cublas_identity p)"
      "got source ''oracle_lock_sha256'' = JStr (pl_oracle_lock_sha256 p)"
      "got source ''locked_magpie_restore_sha256'' = JStr (pl_locked_magpie_restore_sha256 p)"
      "authenticate_codec_restore source = Inr (pl_codec_restore p)"
      "got source ''boundary_fixture_manifest_sha256'' = JStr (pl_source_fixture_manifest_sha256 p)"
      "got source ''plugin_sha256'' = JStr (pl_required_plugin_sha256 p)"
      "got source ''mode8_validation_receipt_sha256'' = JStr (pl_mode8_validation_receipt_sha256 p)" and
    p: "pl_root p = base" "pl_receipt_sha256 p = digest" "pl_prefill_plan p = prefill" "pl_step_plan p = step_plan"
    by (auto simp: authenticate_plan_export_def bindE_eq_Inr guardE_eq_Inr accessor_simps)
  show ?thesis
    unfolding plan_export_facts_def
    by (rule exI [of _ doc], rule exI [of _ arts], rule exI [of _ source], rule exI [of _ runtime], rule exI [of _ export_doc])
      (use directory_authenticI [OF d(1,2,4)] required_artifact_Inr [OF plans(1)] required_artifact_Inr [OF plans(2)]
        sections p d(3) in \<open>simp add: matching_class_table_Inr_iff\<close>)
qed

definition text_export_facts :: "pkg_env \<Rightarrow> export_directory \<Rightarrow> authenticated_text_encoder_export \<Rightarrow> bool" where
  "text_export_facts env dir t \<longleftrightarrow>
     (\<exists>doc arts source.
        directory_authentic env TEXT_ENCODER_LAYOUT ''measured-not-accepted'' dir (te_root t) doc (te_receipt_sha256 t) arts \<and>
        te_plan t \<in> set arts \<and> la_relative (te_plan t) = pys ''text_encoder.plan'' \<and>
        got doc ''source'' = JObj source \<and>
        got source ''oracle_lock_sha256'' = JStr (te_oracle_lock_sha256 t) \<and>
        got source ''plugin_sha256'' = JStr (te_required_plugin_sha256 t) \<and>
        got source ''boundary_fixture_manifest_sha256'' = JStr (te_source_fixture_manifest_sha256 t))"

lemma authenticated_text_export_facts:
  assumes "authenticate_text_encoder_export env dir = Inr t"
  shows "text_export_facts env dir t"
proof -
  from assms obtain base doc digest arts plan source u where
    d: "export_receipt env TEXT_ENCODER_LAYOUT dir = Inr (base, doc, digest)"
      "check_export_head TEXT_ENCODER_LAYOUT ''measured-not-accepted'' doc = Inr u"
      "authenticated_artifacts TEXT_ENCODER_LAYOUT dir base doc = Inr arts" and
    plan: "required_artifact arts ''text_encoder.plan'' = Inr plan" and
    sections: "got doc ''source'' = JObj source" "got source ''oracle_lock_sha256'' = JStr (te_oracle_lock_sha256 t)"
      "got source ''plugin_sha256'' = JStr (te_required_plugin_sha256 t)"
      "got source ''boundary_fixture_manifest_sha256'' = JStr (te_source_fixture_manifest_sha256 t)" and
    t: "te_root t = base" "te_receipt_sha256 t = digest" "te_plan t = plan"
    by (auto simp: authenticate_text_encoder_export_def bindE_eq_Inr guardE_eq_Inr accessor_simps)
  show ?thesis
    unfolding text_export_facts_def
    by (rule exI [of _ doc], rule exI [of _ arts], rule exI [of _ source])
      (use directory_authenticI [OF d] required_artifact_Inr [OF plan] sections t in simp)
qed

definition local_export_facts :: "pkg_env \<Rightarrow> export_directory \<Rightarrow> authenticated_local_ar_export \<Rightarrow> bool" where
  "local_export_facts env dir a \<longleftrightarrow>
     (\<exists>doc arts source.
        directory_authentic env LOCAL_AR_LAYOUT ''measured-not-accepted'' dir (lx_root a) doc (lx_receipt_sha256 a) arts \<and>
        lx_plan a \<in> set arts \<and> la_relative (lx_plan a) = pys ''local-ar.plan'' \<and>
        lx_plugin a \<in> set arts \<and> la_relative (lx_plugin a) = pys ''libmagpie_tts_rt_plugins.so'' \<and>
        got doc ''source'' = JObj source \<and>
        got source ''oracle_lock_sha256'' = JStr (lx_oracle_lock_sha256 a) \<and>
        got source ''boundary_fixture_manifest_sha256s'' =
          JList (map JStr (lx_source_fixture_manifest_sha256s a)) \<and>
        3 \<le> length (lx_source_fixture_manifest_sha256s a) \<and> sorted (lx_source_fixture_manifest_sha256s a) \<and>
        distinct (lx_source_fixture_manifest_sha256s a) \<and> (\<forall>d \<in> set (lx_source_fixture_manifest_sha256s a). sha256_pattern d))"

lemma mapE_rt_sha256_Inr_iff: "mapE rt_sha256 vs = Inr ds \<longleftrightarrow> vs = map JStr ds \<and> (\<forall>d \<in> set ds. sha256_pattern d)"
  by (induction vs arbitrary: ds) (auto simp: bindE_eq_Inr rt_sha256_Inr_iff)

lemma fixture_manifests_Inr_iff:
  "fixture_manifests source = Inr ds \<longleftrightarrow>
     got source ''boundary_fixture_manifest_sha256s'' = JList (map JStr ds) \<and> (\<forall>d \<in> set ds. sha256_pattern d) \<and>
     3 \<le> length ds \<and> distinct ds \<and> sorted ds"
  by (auto simp: fixture_manifests_def bindE_eq_Inr guardE_eq_Inr rt_Inr_iff mapE_rt_sha256_Inr_iff
      MINIMUM_DISTINCT_FIXTURES_def sorted_sort_id) (metis sorted_sort)+

lemma authenticated_local_export_facts:
  assumes "authenticate_local_ar_export env dir = Inr a"
  shows "local_export_facts env dir a"
proof -
  from assms obtain base doc digest arts plan plugin source u where
    d: "export_receipt env LOCAL_AR_LAYOUT dir = Inr (base, doc, digest)"
      "check_export_head LOCAL_AR_LAYOUT ''measured-not-accepted'' doc = Inr u"
      "authenticated_artifacts LOCAL_AR_LAYOUT dir base doc = Inr arts" and
    plans: "required_artifact arts ''local-ar.plan'' = Inr plan" "required_artifact arts ''libmagpie_tts_rt_plugins.so'' = Inr plugin" and
    sections: "got doc ''source'' = JObj source" "got source ''oracle_lock_sha256'' = JStr (lx_oracle_lock_sha256 a)"
      "fixture_manifests source = Inr (lx_source_fixture_manifest_sha256s a)" and
    a: "lx_root a = base" "lx_receipt_sha256 a = digest" "lx_plan a = plan" "lx_plugin a = plugin"
    by (auto simp: authenticate_local_ar_export_def bindE_eq_Inr guardE_eq_Inr accessor_simps)
  show ?thesis
    unfolding local_export_facts_def
    by (rule exI [of _ doc], rule exI [of _ arts], rule exI [of _ source])
      (use directory_authenticI [OF d] required_artifact_Inr [OF plans(1)] required_artifact_Inr [OF plans(2)] sections a
        in \<open>simp add: fixture_manifests_Inr_iff\<close>)
qed

subsection \<open>Properties\<close>

definition demo_io :: "string \<Rightarrow> string \<Rightarrow> string \<Rightarrow> json_object" where
  "demo_io name dt mode =
     [(pys ''name'', JStr (pys name)), (pys ''dtype'', JStr (pys dt)), (pys ''shape'', JList []),
      (pys ''mode'', JStr (pys mode)), (pys ''location'', JStr (pys ''device'')), (pys ''shape_inference_io'', JBool False)]"

definition demo_listed :: "string \<Rightarrow> byte list \<Rightarrow> json_object" where
  "demo_listed name bs =
     [(pys ''path'', JStr (pys name)), (pys ''size_bytes'', JInt (int (length bs))), (pys ''sha256'', JStr (sha256_hex bs))]"

definition demo_codec_source :: json_object where
  "demo_codec_source =
     [(pys ''oracle_lock_sha256'', JStr (zeros 64)), (pys ''locked_magpie_restore_sha256'', JStr (zeros 64)),
      (pys ''codec_restore'', JObj
        [(pys ''embedded_codec_model_id'', JStr (pys ''c'')), (pys ''codec_model_sha256'', JStr (zeros 64)),
         (pys ''codec_model_size_bytes'', JInt 1), (pys ''codec_resolution'', JStr (pys ''authenticated_local_file'')),
         (pys ''use_scl_loss'', JBool False), (pys ''network_resolution'', JBool False)]),
      (pys ''boundary_fixture_manifest_sha256'', JStr (zeros 64)), (pys ''plugin_sha256'', JStr (zeros 64)),
      (pys ''mode8_validation_receipt_sha256'', JStr (zeros 64))]"

definition demo_plan_runtime :: json_object where
  "demo_plan_runtime =
     [(pys ''mode8_class_table_sha256'', JStr (zeros 64)), (pys ''cuda'', cuda_runtime_identity_json demo_mode8_cuda),
      (pys ''cublas'', cublas_runtime_identity_json demo_mode8_cublas), (pys ''gpu_compute_capability'', int_list [11, 0]),
      (pys ''tensorrt'', JStr (pys ''10'')), (pys ''torch_cuda_build'', JStr (pys ''13'')), (pys ''gpu_name'', JStr (pys ''Thor''))]"

definition demo_plan_doc :: json_object where
  "demo_plan_doc =
     [(pys ''schema_version'', JInt 1), (pys ''artifact_role'', JStr (pys ''main_decoder_prefill_and_step'')),
      (pys ''status'', JStr (pys ''measured-not-accepted'')),
      (pys ''plan_inspection'', JObj [(pys ''step'', JObj [(pys ''tensors'', JList
         [JObj (demo_io ''position'' ''int64'' ''input''), JObj (demo_io ''execution_status_in'' ''int32'' ''input''),
          JObj (demo_io ''execution_status_out'' ''int32'' ''output'')])])]),
      (pys ''artifacts'', JList
         [JObj (demo_listed ''main-decoder-prefill.plan'' [1]), JObj (demo_listed ''main-decoder-step.plan'' [2])]),
      (pys ''source'', JObj demo_codec_source), (pys ''runtime'', JObj demo_plan_runtime),
      (pys ''export'', JObj
         [(pys ''execution_status_contract'', JStr (pys ''int32-device-scalar-sticky-12-layer-recurrence'')),
          (pys ''mode8_class_table_sha256'', JStr (zeros 64))])]"

definition demo_plan_env :: pkg_env where
  "demo_plan_env =
     \<lparr>pk_loads = (\<lambda>_. Some (JObj demo_plan_doc)), pk_float_of_int = (\<lambda>_. None), pk_fromisoformat = (\<lambda>_. None)\<rparr>"

definition demo_plan_directory :: export_directory where
  "demo_plan_directory =
     \<lparr>xd_is_symlink = False, xd_resolve = Inr [], xd_is_dir = True,
      xd_entry = (\<lambda>name.
        if name = pys ''main-decoder-prefill.plan'' then demo_file [1]
        else if name = pys ''main-decoder-step.plan'' then demo_file [2]
        else if name = pys ''export-receipt.json.sha256''
          then demo_file (checksum_line (sha256_hex [123]) ''export-receipt.json'')
        else demo_file [123]),
      xd_walk = map (\<lambda>n. \<lparr>we_path = pys n, we_is_symlink = False, we_is_file = True, we_is_dir = False\<rparr>)
        [''export-receipt.json'', ''export-receipt.json.sha256'', ''main-decoder-prefill.plan'', ''main-decoder-step.plan'']\<rparr>"

lemma demo_plan_names:
  "rt_safe_artifact_path (JStr (pys ''main-decoder-prefill.plan'')) = Inr (pys ''main-decoder-prefill.plan'')"
  "rt_safe_artifact_path (JStr (pys ''main-decoder-step.plan'')) = Inr (pys ''main-decoder-step.plan'')"
  "expected_bundle_directories [pys ''export-receipt.json'', pys ''export-receipt.json.sha256'',
     pys ''main-decoder-prefill.plan'', pys ''main-decoder-step.plan''] = {[]}"
  by (simp_all add: rt_safe_artifact_path_def rt_string_def pure_root_def pure_components_def as_posix_def pys_def
      expected_bundle_directories_def)

definition demo_plan_artifact :: "string \<Rightarrow> byte list \<Rightarrow> listed_artifact" where
  "demo_plan_artifact name bs =
     \<lparr>la_relative = pys name, la_path = [], la_size_bytes = int (length bs), la_sha256 = sha256_hex bs\<rparr>"

lemma demo_plan_lookups:
  "got demo_plan_doc ''source'' = JObj demo_codec_source" "got demo_plan_doc ''runtime'' = JObj demo_plan_runtime"
  "got demo_plan_doc ''artifacts'' = JList
     [JObj (demo_listed ''main-decoder-prefill.plan'' [1]), JObj (demo_listed ''main-decoder-step.plan'' [2])]"
  "got demo_plan_doc ''schema_version'' = JInt 1" "got demo_plan_doc ''status'' = JStr (pys ''measured-not-accepted'')"
  "got demo_plan_doc ''artifact_role'' = JStr (pys ''main_decoder_prefill_and_step'')"
  by (simp_all add: demo_plan_doc_def)

lemma demo_sha256_ok:
  "rt_sha256 (JStr (zeros 64)) = Inr (zeros 64)" "rt_sha256 (JStr (sha256_hex bs)) = Inr (sha256_hex bs)"
  by (simp_all add: rt_sha256_Inr_iff)

lemma demo_plan_receipt:
  "export_receipt demo_plan_env PLAN_EXPORT_LAYOUT demo_plan_directory = Inr ([], demo_plan_doc, sha256_hex [123])"
proof -
  have "json_wf (JObj demo_plan_doc)"
    by (simp add: demo_plan_doc_def demo_codec_source_def demo_plan_runtime_def demo_listed_def demo_io_def
        cuda_runtime_identity_json_def cublas_runtime_identity_json_def loaded_library_identity_json_def int_list_def)
  then have "rt_load_json demo_plan_env (demo_file [123]) = Inr (demo_plan_doc, [123])"
    unfolding rt_load_json_Inr_iff by (simp add: demo_plan_env_def demo_file_def)
  then show ?thesis by (simp add: export_receipt_def demo_plan_directory_def PLAN_EXPORT_LAYOUT_def) (simp add: demo_file_def)
qed

lemma demo_plan_inspection: "check_step_inspection demo_plan_doc = Inr ()"
  by (simp add: check_step_inspection_def demo_plan_doc_def rt_mapping_def rt_list_def check_step_position_def demo_io_def
      rt_string_def rt_boolean_def check_device_io_def all_steps_def check_step_status_def)

lemma demo_plan_artifacts:
  "authenticated_artifacts PLAN_EXPORT_LAYOUT demo_plan_directory [] demo_plan_doc =
     Inr [demo_plan_artifact ''main-decoder-prefill.plan'' [1], demo_plan_artifact ''main-decoder-step.plan'' [2]]"
proof -
  have step: "describes demo_plan_directory [] (JObj (demo_listed name bs)) (demo_plan_artifact name bs)"
    if "rt_safe_artifact_path (JStr (pys name)) = Inr (pys name)" "xd_entry demo_plan_directory (pys name) = demo_file bs" for name bs
    using that
    by (simp add: describes_def demo_listed_def demo_plan_artifact_def) (simp add: demo_file_def is_relative_to_def pure_root_def
        pure_components_def)
  have "export_artifact demo_plan_directory [] [] (JObj (demo_listed ''main-decoder-prefill.plan'' [1])) =
      Inr (demo_plan_artifact ''main-decoder-prefill.plan'' [1])"
    unfolding export_artifact_Inr_iff using step demo_plan_names by (simp add: demo_plan_directory_def)
  moreover have "export_artifact demo_plan_directory [] [demo_plan_artifact ''main-decoder-prefill.plan'' [1]]
      (JObj (demo_listed ''main-decoder-step.plan'' [2])) = Inr (demo_plan_artifact ''main-decoder-step.plan'' [2])"
    unfolding export_artifact_Inr_iff using step demo_plan_names
    by (simp add: demo_plan_directory_def) (simp add: demo_plan_artifact_def)
  moreover have "check_export_entries demo_plan_directory (layout_files PLAN_EXPORT_LAYOUT
      [demo_plan_artifact ''main-decoder-prefill.plan'' [1], demo_plan_artifact ''main-decoder-step.plan'' [2]]) = Inr ()"
    unfolding check_export_entries_Inr_iff exact_entries_def
    by (simp add: layout_files_def PLAN_EXPORT_LAYOUT_def demo_plan_artifact_def demo_plan_names)
      (auto simp: demo_plan_directory_def clean_walk_def walked_files_def walked_directories_def)
  ultimately show ?thesis
    by (simp add: authenticated_artifacts_def export_artifacts_def demo_plan_lookups rt_list_def)
qed

lemma demo_codec_restored:
  "authenticate_codec_restore demo_codec_source =
     Inr \<lparr>cr_embedded_codec_model_id = pys ''c'', cr_codec_model_sha256 = zeros 64, cr_codec_model_size_bytes = 1\<rparr>"
  by (simp add: authenticate_codec_restore_def demo_codec_source_def rt_mapping_def rt_string_def rt_boolean_def has_keys_def
      demo_sha256_ok rt_nonnegative_integer_def rt_integer_def)

lemma demo_plan_authenticated: "\<exists>p. authenticate_plan_export demo_plan_env demo_plan_directory = Inr p"
proof -
  have "check_export_head PLAN_EXPORT_LAYOUT ''measured-not-accepted'' demo_plan_doc = Inr ()"
    unfolding check_export_head_Inr_iff by (simp add: demo_plan_lookups PLAN_EXPORT_LAYOUT_def)
  moreover have "required_artifact [demo_plan_artifact ''main-decoder-prefill.plan'' [1], demo_plan_artifact ''main-decoder-step.plan'' [2]]
      name = Inr a" if "(name, a) \<in> {(''main-decoder-prefill.plan'', demo_plan_artifact ''main-decoder-prefill.plan'' [1]),
        (''main-decoder-step.plan'', demo_plan_artifact ''main-decoder-step.plan'' [2])}" for name a
    using that by (auto simp: required_artifact_def find_artifact_def demo_plan_artifact_def)
  moreover have "parse_cuda_runtime_identity (got demo_plan_runtime ''cuda'') = Inr demo_mode8_cuda"
    "parse_cublas_runtime_identity (got demo_plan_runtime ''cublas'') = Inr demo_mode8_cublas"
    using demo_identities by (simp_all add: demo_plan_runtime_def)
  moreover have "gpu_capability demo_plan_runtime = Inr (11, 0)"
    by (simp add: gpu_capability_def demo_plan_runtime_def int_list_def rt_list_def rt_nonnegative_integer_def rt_integer_def)
  moreover have "rt_mapping (got demo_plan_doc ''export'') = Inr
      [(pys ''execution_status_contract'', JStr (pys ''int32-device-scalar-sticky-12-layer-recurrence'')),
       (pys ''mode8_class_table_sha256'', JStr (zeros 64))]"
    by (simp add: demo_plan_doc_def rt_mapping_def)
  moreover have "got demo_plan_runtime ''mode8_class_table_sha256'' = JStr (zeros 64)"
    "got demo_plan_runtime ''tensorrt'' = JStr (pys ''10'')" "got demo_plan_runtime ''torch_cuda_build'' = JStr (pys ''13'')"
    "got demo_plan_runtime ''gpu_name'' = JStr (pys ''Thor'')"
    by (simp_all add: demo_plan_runtime_def)
  moreover have "got demo_codec_source ''oracle_lock_sha256'' = JStr (zeros 64)"
    "got demo_codec_source ''locked_magpie_restore_sha256'' = JStr (zeros 64)"
    "got demo_codec_source ''boundary_fixture_manifest_sha256'' = JStr (zeros 64)"
    "got demo_codec_source ''plugin_sha256'' = JStr (zeros 64)"
    "got demo_codec_source ''mode8_validation_receipt_sha256'' = JStr (zeros 64)"
    by (simp_all add: demo_codec_source_def)
  ultimately show ?thesis
    unfolding authenticate_plan_export_def
    by (simp add: demo_plan_receipt demo_plan_inspection demo_plan_artifacts demo_plan_lookups matching_class_table_def
        demo_sha256_ok demo_codec_restored rt_mapping_def rt_string_def)
qed



end
