(* ===== verification/BoundaryFixture.thy ===== *)
theory BoundaryFixture
  imports ExportDirectory
begin

text \<open>
  The boundary fixtures of the oracle: \<open>tools/oracle/validate_boundary_fixture.py\<close>, and how
  \<open>tools/export/export_main_decoder.py\<close> (\<open>load_fixture\<close>, \<open>require_fixture_contract\<close>) and
  \<open>tools/export/validate_main_decoder_plans.py\<close> (\<open>load_fixture_metadata\<close>) read one.

  A fixture is an \<open>export_directory\<close>: a manifest with its checksum, and a file for every tensor the manifest lists.
  The manifest is read again after the validation; the second answer of \<open>json.loads\<close> is an input. Accessors that are
  word for word those of \<open>validate_main_decoder_plans.py\<close> are the \<open>rt_\<close> ones of \<open>ReceiptJson\<close>.
\<close>

subsection \<open>Accessors\<close>

definition bf_mapping :: "json \<Rightarrow> json_object result" where
  "bf_mapping v = (case v of JObj doc \<Rightarrow> Inr doc | _ \<Rightarrow> Inl (rt_error '' must be a JSON object''))"

definition bf_list :: "json \<Rightarrow> json list result" where
  "bf_list v = (case v of JList vs \<Rightarrow> Inr vs | _ \<Rightarrow> Inl (rt_error '' must be a JSON array''))"

lemma bf_Inr_iff [accessor_simps]:
  "bf_mapping v = Inr doc \<longleftrightarrow> v = JObj doc" "bf_list v = Inr vs \<longleftrightarrow> v = JList vs"
  by (auto simp: bf_mapping_def bf_list_def split: json.splits)

definition bf_safe_relative_path :: "json \<Rightarrow> pystr result" where
  "bf_safe_relative_path v =
     bindE (rt_string v) (\<lambda>relative.
     bindE (guardE (relative = [] \<or> 92 \<in> set relative \<or> 0 \<in> set relative)
       (rt_error '' is not a safe POSIX relative path: '')) (\<lambda>_.
     bindE (guardE (pure_root relative \<noteq> [] \<or>
         list_ex (\<lambda>p. p = [] \<or> p = [46] \<or> p = [46, 46]) (pure_components relative))
       (rt_error '' is not a safe POSIX relative path: '')) (\<lambda>_.
     bindE (guardE (as_posix relative \<noteq> relative) (rt_error '' is not normalized: '')) (\<lambda>_.
     bindE (guardE (list_ex (\<lambda>c. c < 32 \<or> c = 127) relative) (rt_error '' contains a control character'')) (\<lambda>_.
     Inr relative)))))"

subsection \<open>The records\<close>

text \<open>\<open>[a-z0-9._-]+\<close>\<close>

definition safe_name_char :: "nat \<Rightarrow> bool" where
  "safe_name_char c \<longleftrightarrow> 97 \<le> c \<and> c \<le> 122 \<or> 48 \<le> c \<and> c \<le> 57 \<or> c \<in> {46, 95, 45}"

definition safe_name_pattern :: "pystr \<Rightarrow> bool" where
  "safe_name_pattern s \<longleftrightarrow> s \<noteq> [] \<and> list_all safe_name_char s"

definition DTYPE_WIDTH_BYTES :: "(pystr \<times> int) list" where
  "DTYPE_WIDTH_BYTES =
     [(pys ''bf16'', 2), (pys ''fp32'', 4), (pys ''fp16'', 2), (pys ''int64'', 8), (pys ''int32'', 4), (pys ''uint8'', 1),
      (pys ''bool'', 1)]"

record tensor_record =
  tr_name :: pystr
  tr_path :: pystr
  tr_dtype :: pystr
  tr_shape :: "int list"
  tr_size_bytes :: int
  tr_sha256 :: pystr

definition fixture_dimension :: "json \<Rightarrow> int result" where
  "fixture_dimension v =
     bindE (rt_integer v) (\<lambda>dimension.
     bindE (guardE (dimension < 0) (rt_error '' must be non-negative'')) (\<lambda>_. Inr dimension))"

definition tensor_file_name :: "pystr \<Rightarrow> pystr" where
  "tensor_file_name name = pys ''tensors/'' @ name @ pys ''.bin''"

definition parse_tensor_record :: "json \<Rightarrow> tensor_record result" where
  "parse_tensor_record v =
     bindE (bf_mapping v) (\<lambda>entry.
     bindE (guardE (\<not> has_keys entry [''name'', ''path'', ''dtype'', ''shape'', ''size_bytes'', ''sha256''])
       (rt_error '' keys mismatch: missing=, extra='')) (\<lambda>_.
     bindE (rt_string (got entry ''name'')) (\<lambda>name.
     bindE (guardE (\<not> safe_name_pattern name) (rt_error ''.name is unsafe: '')) (\<lambda>_.
     bindE (bf_safe_relative_path (got entry ''path'')) (\<lambda>relative_path.
     bindE (guardE (relative_path \<noteq> tensor_file_name name)
       (rt_error ''.path must be derived from its name: expected , got '')) (\<lambda>_.
     bindE (rt_string (got entry ''dtype'')) (\<lambda>dt.
     case map_of DTYPE_WIDTH_BYTES dt of
       None \<Rightarrow> Inl (rt_error ''.dtype is unsupported: '')
     | Some width \<Rightarrow>
         bindE (bf_list (got entry ''shape'')) (\<lambda>dimensions.
         bindE (mapE fixture_dimension dimensions) (\<lambda>shape.
         bindE (rt_integer (got entry ''size_bytes'')) (\<lambda>size_bytes.
         bindE (guardE (size_bytes < 0) (rt_error ''.size_bytes must be non-negative'')) (\<lambda>_.
         bindE (guardE (size_bytes \<noteq> prod_list shape * width)
           (rt_error '' dtype/shape byte count mismatch: expected , got '')) (\<lambda>_.
         bindE (rt_sha256 (got entry ''sha256'')) (\<lambda>digest.
         Inr \<lparr>tr_name = name, tr_path = relative_path, tr_dtype = dt, tr_shape = shape, tr_size_bytes = size_bytes,
              tr_sha256 = digest\<rparr>)))))))))))))"

subsection \<open>The manifest\<close>

definition load_fixture_manifest :: "pkg_env \<Rightarrow> export_directory \<Rightarrow> (json_object \<times> byte list) result" where
  "load_fixture_manifest env dir =
     (let manifest = xd_entry dir (pys ''manifest.json''); checksum = xd_entry dir (pys ''manifest.json.sha256'')
      in bindE (guardE (fv_is_symlink manifest \<or> fv_is_symlink checksum)
           (rt_error ''manifest files must not be symbolic links'')) (\<lambda>_.
         bindE (fv_bytes manifest) (\<lambda>manifest_bytes.
         bindE (fv_bytes checksum) (\<lambda>checksum_bytes.
         bindE (guardE (checksum_bytes \<noteq> checksum_line (sha256_hex manifest_bytes) ''manifest.json'')
           (rt_error ''manifest.json.sha256 does not exactly match manifest.json'')) (\<lambda>_.
         case pk_loads env manifest_bytes of
           None \<Rightarrow> Inl (rt_error ''manifest.json is not valid UTF-8 JSON: '')
         | Some raw \<Rightarrow>
             bindE (pairs_hook (rt_error ''JSON object contains duplicate key: '') raw) (\<lambda>parsed.
             bindE (bf_mapping parsed) (\<lambda>doc. Inr (doc, manifest_bytes))))))))"

definition require_lock_match :: "json_object \<Rightarrow> file_view option \<Rightarrow> unit result" where
  "require_lock_match manifest lock =
     bindE (rt_sha256 (got manifest ''oracle_lock_sha256'')) (\<lambda>manifest_digest.
     case lock of
       None \<Rightarrow> Inr ()
     | Some lock_file \<Rightarrow>
         bindE (guardE (fv_is_symlink lock_file) (rt_error ''oracle lock must not be a symbolic link: '')) (\<lambda>_.
         bindE (fv_resolve lock_file) (\<lambda>_.
         bindE (guardE (\<not> fv_is_file lock_file) (rt_error ''oracle lock must be a regular non-symlink file: '')) (\<lambda>_.
         bindE (sha256_of_file lock_file) (\<lambda>actual_digest.
         guardE (manifest_digest \<noteq> actual_digest) (rt_error ''oracle lock SHA-256 mismatch: ''))))))"

definition require_ieee_fp32_runtime_policy :: "json_object \<Rightarrow> unit result" where
  "require_ieee_fp32_runtime_policy manifest =
     bindE (bf_mapping (got manifest ''runtime'')) (\<lambda>runtime.
     bindE (rt_string (got runtime ''float32_matmul_precision'')) (\<lambda>precision.
     bindE (rt_boolean (got runtime ''cuda_matmul_allow_tf32'')) (\<lambda>cuda_tf32.
     bindE (rt_boolean (got runtime ''cudnn_allow_tf32'')) (\<lambda>cudnn_tf32.
     guardE (precision \<noteq> pys ''highest'' \<or> cuda_tf32 \<or> cudnn_tf32)
       (rt_error ''boundary fixture runtime precision policy must be highest/cuda_matmul_allow_tf32=false/cudnn_allow_tf32=false'')))))"

definition require_local_ar_seed :: "json_object \<Rightarrow> unit result" where
  "require_local_ar_seed manifest =
     bindE (rt_integer (got manifest ''local_ar_seed'')) (\<lambda>seed.
     guardE (seed < 0 \<or> 2 ^ 32 \<le> seed) (rt_error ''manifest.local_ar_seed must be in [0, 2^32), got ''))"

subsection \<open>The tensors\<close>

definition check_fixture_tensor :: "export_directory \<Rightarrow> pystr \<Rightarrow> tensor_record \<Rightarrow> unit result" where
  "check_fixture_tensor dir base r =
     (let f = xd_entry dir (tr_path r)
      in bindE (fv_resolve f) (\<lambda>resolved.
         bindE (guardE (\<not> is_relative_to resolved base) (rt_error ''tensor path escapes fixture root: '')) (\<lambda>_.
         bindE (guardE (\<not> fv_is_file f) (rt_error ''tensor is not a regular file: '')) (\<lambda>_.
         bindE (fv_size f) (\<lambda>actual_size.
         bindE (guardE (actual_size \<noteq> tr_size_bytes r) (rt_error ''tensor size mismatch for : expected , got '')) (\<lambda>_.
         bindE (sha256_of_file f) (\<lambda>actual_digest.
         guardE (actual_digest \<noteq> tr_sha256 r) (rt_error ''tensor SHA-256 mismatch for : expected , got ''))))))))"

definition fixture_files :: "tensor_record list \<Rightarrow> pystr list" where
  "fixture_files records = [pys ''manifest.json'', pys ''manifest.json.sha256''] @ map tr_path records"

text \<open>The entries may lack a directory only when a file is missing too.\<close>

definition require_no_extra_entries :: "export_directory \<Rightarrow> pystr list \<Rightarrow> unit result" where
  "require_no_extra_entries dir expected_files =
     bindE (walk_sets (rt_error ''fixture contains a symbolic link: '') (rt_error ''fixture contains a non-file entry: '')
       (xd_walk dir) ([], [[]])) (\<lambda>(actual_files, actual_directories).
     guardE (set actual_files \<noteq> set expected_files \<or>
         \<not> set actual_directories \<subseteq> expected_bundle_directories expected_files)
       (rt_error ''fixture entries mismatch: missing_files=, extra_files=, extra_directories=''))"

definition validate_boundary_fixture :: "pkg_env \<Rightarrow> export_directory \<Rightarrow> file_view option \<Rightarrow> nat result" where
  "validate_boundary_fixture env dir lock =
     bindE (guardE (xd_is_symlink dir) (rt_error ''fixture root must not be a symbolic link: '')) (\<lambda>_.
     bindE (xd_resolve dir) (\<lambda>base.
     bindE (guardE (\<not> xd_is_dir dir) (rt_error ''fixture root is not a directory: '')) (\<lambda>_.
     bindE (load_fixture_manifest env dir) (\<lambda>(manifest, _).
     bindE (rt_integer (got manifest ''schema_version'')) (\<lambda>schema_version.
     bindE (guardE (schema_version \<noteq> 1) (rt_error ''unsupported fixture schema_version: '')) (\<lambda>_.
     bindE (require_lock_match manifest lock) (\<lambda>_.
     bindE (require_ieee_fp32_runtime_policy manifest) (\<lambda>_.
     bindE (require_local_ar_seed manifest) (\<lambda>_.
     bindE (bf_list (got manifest ''tensors'')) (\<lambda>tensor_values.
     bindE (mapE parse_tensor_record tensor_values) (\<lambda>records.
     bindE (guardE (records = []) (rt_error ''manifest.tensors must not be empty'')) (\<lambda>_.
     bindE (guardE (\<not> distinct (map tr_name records)) (rt_error ''manifest contains duplicate tensor names'')) (\<lambda>_.
     bindE (guardE (\<not> distinct (map tr_path records)) (rt_error ''manifest contains duplicate tensor paths'')) (\<lambda>_.
     bindE (require_no_extra_entries dir (fixture_files records)) (\<lambda>_.
     bindE (all_steps (check_fixture_tensor dir base) records) (\<lambda>_.
     Inr (length records)))))))))))))))))"

subsection \<open>Reading a fixture\<close>

text \<open>\<open>document[key]\<close>, \<open>tuple(value)\<close> and \<open>len(value)\<close> of an unchecked value.\<close>

definition py_item :: "json \<Rightarrow> string \<Rightarrow> json result" where
  "py_item v key =
     (case v of
        JObj doc \<Rightarrow> (case map_of doc (pys key) of None \<Rightarrow> Inl (Exn PyKeyError key) | Some w \<Rightarrow> Inr w)
      | _ \<Rightarrow> Inl (Exn PyTypeError ''indices must be integers''))"

definition py_tuple :: "json \<Rightarrow> json list result" where
  "py_tuple v =
     (case v of
        JList vs \<Rightarrow> Inr vs
      | JStr s \<Rightarrow> Inr (map (\<lambda>c. JStr [c]) s)
      | JObj kvs \<Rightarrow> Inr (map (JStr \<circ> fst) kvs)
      | _ \<Rightarrow> Inl (Exn PyTypeError ''object is not iterable''))"

record fixture_tensor =
  ft_path :: pystr
  ft_dtype :: json
  ft_shape :: "json list"
  ft_size_bytes :: json
  ft_sha256 :: json

record decoder_fixture =
  df_root :: pystr
  df_manifest_sha256 :: pystr
  df_text_tokens :: int
  df_tensors :: "(json \<times> fixture_tensor) list"

text \<open>\<open>(root / raw["path"]).resolve(strict=True)\<close> needs a string.\<close>

definition read_fixture_tensor :: "export_directory \<Rightarrow> json \<Rightarrow> (json \<times> fixture_tensor) result" where
  "read_fixture_tensor dir raw =
     bindE (py_item raw ''name'') (\<lambda>name.
     bindE (py_item raw ''path'') (\<lambda>path_value.
     bindE (case path_value of JStr relative \<Rightarrow> fv_resolve (xd_entry dir relative)
            | _ \<Rightarrow> Inl (Exn PyTypeError ''unsupported operand'')) (\<lambda>resolved.
     bindE (py_item raw ''dtype'') (\<lambda>dt.
     bindE (bindE (py_item raw ''shape'') py_tuple) (\<lambda>shape.
     bindE (py_item raw ''size_bytes'') (\<lambda>size_bytes.
     bindE (py_item raw ''sha256'') (\<lambda>digest.
     Inr (name, \<lparr>ft_path = resolved, ft_dtype = dt, ft_shape = shape, ft_size_bytes = size_bytes,
       ft_sha256 = digest\<rparr>))))))))"

text \<open>\<open>fixture.tensors.get(name)\<close>: of two records of one name the later is kept.\<close>

definition fixture_lookup :: "decoder_fixture \<Rightarrow> pystr \<Rightarrow> fixture_tensor option" where
  "fixture_lookup fixture name = map_of (rev (df_tensors fixture)) (JStr name)"

definition PREFILL_LENGTH :: int where "PREFILL_LENGTH = 218"
definition MODEL_WIDTH :: int where "MODEL_WIDTH = 768"
definition DECODER_LAYERS :: nat where "DECODER_LAYERS = 12"
definition MAX_TEXT_TOKENS :: int where "MAX_TEXT_TOKENS = 512"

definition required_contract :: "(string \<times> json) list" where
  "required_contract =
     [(''prefill_positions'', JInt PREFILL_LENGTH), (''next_position_after_step_001'', JInt (PREFILL_LENGTH + 1)),
      (''attention_lookahead'', JInt 6), (''attention_sink_threshold'', JInt 4),
      (''unconditional_condition_mask_true_indices'', JList [JInt 0])]"

text \<open>\<open>isinstance(text_tokens, int)\<close> holds of booleans.\<close>

definition text_token_count :: "json \<Rightarrow> int result" where
  "text_token_count v =
     (case (case v of JInt i \<Rightarrow> Some i | JBool b \<Rightarrow> Some (of_bool b) | _ \<Rightarrow> None) of
        None \<Rightarrow> Inl (rt_error ''invalid fixture text-token count: '')
      | Some i \<Rightarrow>
          if 1 \<le> i \<and> i \<le> MAX_TEXT_TOKENS then Inr i else Inl (rt_error ''invalid fixture text-token count: ''))"

definition fixture_require_tensor :: "decoder_fixture \<Rightarrow> pystr \<times> string \<times> int list \<Rightarrow> unit result" where
  "fixture_require_tensor fixture expected =
     (let (name, dt, shape) = expected in
      case fixture_lookup fixture name of
        None \<Rightarrow> Inl (rt_error ''fixture tensor is missing: '')
      | Some t \<Rightarrow>
          guardE (\<not> py_eq (ft_dtype t) (JStr (pys dt)) \<or> \<not> py_eq (JList (ft_shape t)) (int_list shape))
            (rt_error ''fixture tensor  mismatch: expected  , got ''))"

definition two_digits :: "nat \<Rightarrow> pystr" where
  "two_digits n = [48 + n div 10 mod 10, 48 + n mod 10]"

definition layer_state_contract :: "int \<Rightarrow> nat \<Rightarrow> string \<times> int \<Rightarrow> (pystr \<times> string \<times> int list) list" where
  "layer_state_contract text_tokens layer_index prefix_positions =
     (let stem = pys (fst prefix_positions) @ pys ''.layer_'' @ two_digits layer_index; valid_positions = snd prefix_positions
      in [(stem @ pys ''.self_key'', ''bf16'', [2, valid_positions, 12, 64]),
          (stem @ pys ''.self_value'', ''bf16'', [2, valid_positions, 12, 64]),
          (stem @ pys ''.self_mask'', ''bool'', [2, valid_positions]),
          (stem @ pys ''.cross_key'', ''bf16'', [2, text_tokens, 1, 128]),
          (stem @ pys ''.cross_value'', ''bf16'', [2, text_tokens, 1, 128])])"

definition fixture_contract :: "int \<Rightarrow> (pystr \<times> string \<times> int list) list" where
  "fixture_contract text_tokens =
     [(pys ''cfg.conditional_condition'', ''bf16'', [1, text_tokens, MODEL_WIDTH]),
      (pys ''cfg.unconditional_condition'', ''bf16'', [1, text_tokens, MODEL_WIDTH]),
      (pys ''cfg.conditional_mask'', ''bool'', [1, text_tokens]),
      (pys ''cfg.unconditional_mask'', ''bool'', [1, text_tokens]),
      (pys ''prefill.hidden'', ''bf16'', [2, 1, MODEL_WIDTH]), (pys ''prefill.alignment'', ''bf16'', [2, text_tokens]),
      (pys ''local_ar.step_000.codes'', ''int64'', [1, 8, 2]),
      (pys ''step_000.next_prior'', ''bf16'', [2, 1, text_tokens]),
      (pys ''step_001.hidden'', ''bf16'', [2, 1, MODEL_WIDTH]), (pys ''step_001.alignment'', ''bf16'', [2, text_tokens])] @
     concat (map (\<lambda>layer_index. concat (map (layer_state_contract text_tokens layer_index)
       [(''prefill.state'', PREFILL_LENGTH), (''step_001.state'', PREFILL_LENGTH + 1)])) [0..<DECODER_LAYERS])"

definition require_fixture_contract :: "decoder_fixture \<Rightarrow> unit result" where
  "require_fixture_contract fixture =
     all_steps (fixture_require_tensor fixture) (fixture_contract (df_text_tokens fixture))"

text \<open>\<open>again\<close> is what \<open>json.loads(manifest_path.read_text(...))\<close> answers, \<open>digest\<close> what \<open>sha256_file\<close> does.\<close>

definition load_fixture ::
  "pkg_env \<Rightarrow> export_directory \<Rightarrow> file_view \<Rightarrow> json result \<Rightarrow> pystr result \<Rightarrow> decoder_fixture result"
where
  "load_fixture env dir lock again digest =
     bindE (xd_resolve dir) (\<lambda>base.
     bindE (validate_boundary_fixture env dir (Some lock)) (\<lambda>tensor_count.
     bindE again (\<lambda>manifest.
     bindE (bindE (py_item manifest ''tensors'') py_tuple) (\<lambda>raw_records.
     bindE (guardE (tensor_count \<noteq> length raw_records)
       (rt_error ''fixture validator count does not match manifest'')) (\<lambda>_.
     bindE (mapE (read_fixture_tensor dir) raw_records) (\<lambda>records.
     case manifest of
       JObj doc \<Rightarrow>
         (case got doc ''decoder_contract'' of
            JObj decoder_contract \<Rightarrow>
              bindE (all_steps (\<lambda>(key, expected). guardE (differs decoder_contract key expected)
                (rt_error ''fixture decoder_contract. mismatch: expected , got '')) required_contract) (\<lambda>_.
              bindE (text_token_count (got decoder_contract ''text_tokens'')) (\<lambda>text_tokens.
              bindE digest (\<lambda>manifest_sha256.
              (let fixture = \<lparr>df_root = base, df_manifest_sha256 = manifest_sha256, df_text_tokens = text_tokens,
                              df_tensors = records\<rparr>
               in bindE (require_fixture_contract fixture) (\<lambda>_. Inr fixture)))))
          | _ \<Rightarrow> Inl (rt_error ''fixture decoder_contract is absent''))
     | _ \<Rightarrow> Inl (Exn PyAttributeError ''get'')))))))"

subsection \<open>The metadata\<close>

record fixture_metadata =
  fm_fixture_id :: pystr
  fm_text :: pystr
  fm_language :: pystr
  fm_local_ar_seed :: int

definition load_fixture_metadata :: "pkg_env \<Rightarrow> file_view \<Rightarrow> fixture_metadata result" where
  "load_fixture_metadata env manifest_file =
     bindE (rt_load_json env manifest_file) (\<lambda>(manifest, _).
     bindE (rt_integer (got manifest ''local_ar_seed'')) (\<lambda>seed.
     bindE (guardE (seed < 0 \<or> 2 ^ 32 \<le> seed) (rt_error ''fixture.local_ar_seed must be in [0, 2^32), got '')) (\<lambda>_.
     bindE (rt_string (got manifest ''language'')) (\<lambda>language.
     bindE (guardE (language \<noteq> pys ''ja'') (rt_error ''Main Decoder acceptance fixture must be Japanese: '')) (\<lambda>_.
     bindE (rt_string (got manifest ''fixture_id'')) (\<lambda>fixture_id.
     bindE (rt_string (got manifest ''text'')) (\<lambda>text_value.
     Inr \<lparr>fm_fixture_id = fixture_id, fm_text = text_value, fm_language = language, fm_local_ar_seed = seed\<rparr>)))))))"

subsection \<open>What a valid fixture holds\<close>

lemma load_fixture_manifest_Inr:
  assumes "load_fixture_manifest env dir = Inr (doc, payload)"
  shows "fv_bytes (xd_entry dir (pys ''manifest.json'')) = Inr payload \<and> pk_loads env payload = Some (JObj doc) \<and>
    json_wf (JObj doc) \<and>
    fv_bytes (xd_entry dir (pys ''manifest.json.sha256'')) = Inr (checksum_line (sha256_hex payload) ''manifest.json'')"
  using assms
  by (auto simp: load_fixture_manifest_def Let_def bindE_eq_Inr guardE_eq_Inr pairs_hook_Inr_iff bf_Inr_iff
      split: option.splits)

lemma mapE_fixture_dimension_Inr_iff: "mapE fixture_dimension vs = Inr ds \<longleftrightarrow> vs = map JInt ds \<and> (\<forall>d \<in> set ds. 0 \<le> d)"
  by (induction vs arbitrary: ds) (auto simp: bindE_eq_Inr guardE_eq_Inr fixture_dimension_def rt_Inr_iff)

text \<open>A record of the manifest: its size is that of its shape, its file that of its name.\<close>

definition tensor_record_of :: "json \<Rightarrow> tensor_record \<Rightarrow> bool" where
  "tensor_record_of v r \<longleftrightarrow>
     (\<exists>doc width. v = JObj doc \<and> got doc ''name'' = JStr (tr_name r) \<and> safe_name_pattern (tr_name r) \<and>
        tr_path r = tensor_file_name (tr_name r) \<and> got doc ''dtype'' = JStr (tr_dtype r) \<and>
        map_of DTYPE_WIDTH_BYTES (tr_dtype r) = Some width \<and> got doc ''shape'' = JList (map JInt (tr_shape r)) \<and>
        (\<forall>d \<in> set (tr_shape r). 0 \<le> d) \<and> got doc ''size_bytes'' = JInt (tr_size_bytes r) \<and>
        tr_size_bytes r = prod_list (tr_shape r) * width \<and> got doc ''sha256'' = JStr (tr_sha256 r))"

lemma parse_tensor_record_Inr:
  assumes "parse_tensor_record v = Inr r"
  shows "tensor_record_of v r"
proof -
  from assms obtain doc name relative dt where d: "v = JObj doc" "got doc ''name'' = JStr name" "safe_name_pattern name"
    "relative = tensor_file_name name" "got doc ''dtype'' = JStr dt"
    and rest: "(case map_of DTYPE_WIDTH_BYTES dt of
       None \<Rightarrow> Inl (rt_error ''.dtype is unsupported: '')
     | Some width \<Rightarrow>
         bindE (bf_list (got doc ''shape'')) (\<lambda>dimensions.
         bindE (mapE fixture_dimension dimensions) (\<lambda>shape.
         bindE (rt_integer (got doc ''size_bytes'')) (\<lambda>size_bytes.
         bindE (guardE (size_bytes < 0) (rt_error ''.size_bytes must be non-negative'')) (\<lambda>_.
         bindE (guardE (size_bytes \<noteq> prod_list shape * width)
           (rt_error '' dtype/shape byte count mismatch: expected , got '')) (\<lambda>_.
         bindE (rt_sha256 (got doc ''sha256'')) (\<lambda>digest.
         Inr \<lparr>tr_name = name, tr_path = relative, tr_dtype = dt, tr_shape = shape, tr_size_bytes = size_bytes,
              tr_sha256 = digest\<rparr>))))))) = Inr r"
    by (auto simp: parse_tensor_record_def bindE_eq_Inr guardE_eq_Inr accessor_simps simp del: option.case_eq_if)
  then obtain width where "map_of DTYPE_WIDTH_BYTES dt = Some width" by (cases "map_of DTYPE_WIDTH_BYTES dt") auto
  with d rest show ?thesis
    by (auto simp: tensor_record_of_def bindE_eq_Inr guardE_eq_Inr accessor_simps mapE_fixture_dimension_Inr_iff)
qed

text \<open>The file of a record has the recorded size and digest.\<close>

definition tensor_on_disk :: "export_directory \<Rightarrow> pystr \<Rightarrow> tensor_record \<Rightarrow> bool" where
  "tensor_on_disk dir base r \<longleftrightarrow>
     (\<exists>resolved bytes. fv_resolve (xd_entry dir (tr_path r)) = Inr resolved \<and> is_relative_to resolved base \<and>
        fv_is_file (xd_entry dir (tr_path r)) \<and> fv_size (xd_entry dir (tr_path r)) = Inr (tr_size_bytes r) \<and>
        fv_bytes (xd_entry dir (tr_path r)) = Inr bytes \<and> tr_sha256 r = sha256_hex bytes)"

lemma check_fixture_tensor_Inr_iff: "check_fixture_tensor dir base r = Inr u \<longleftrightarrow> tensor_on_disk dir base r"
  by (auto simp: check_fixture_tensor_def tensor_on_disk_def Let_def bindE_eq_Inr guardE_eq_Inr sha256_of_file_def)

definition exact_fixture_entries :: "export_directory \<Rightarrow> pystr list \<Rightarrow> bool" where
  "exact_fixture_entries dir names \<longleftrightarrow>
     clean_walk (xd_walk dir) \<and> set (walked_files (xd_walk dir)) = set names \<and>
     set (walked_directories (xd_walk dir)) \<subseteq> expected_bundle_directories names"

lemma root_expected: "[] \<in> expected_bundle_directories names"
  by (simp add: expected_bundle_directories_def)

lemma require_no_extra_entries_Inr_iff: "require_no_extra_entries dir names = Inr u \<longleftrightarrow> exact_fixture_entries dir names"
  using root_expected [of names]
  by (auto simp: require_no_extra_entries_def exact_fixture_entries_def bindE_eq_Inr guardE_eq_Inr walk_sets_Inr_iff)

lemma tensor_file_name_inject: "tensor_file_name a = tensor_file_name b \<longleftrightarrow> a = b"
  by (simp add: tensor_file_name_def)

lemma paths_follow_names:
  assumes "list_all2 tensor_record_of vs records"
  shows "distinct (map tr_path records) \<longleftrightarrow> distinct (map tr_name records)"
proof -
  from assms have "\<forall>r \<in> set records. tr_path r = tensor_file_name (tr_name r)"
    by (auto simp: list_all2_conv_all_nth in_set_conv_nth tensor_record_of_def)
  then have "map tr_path records = map tensor_file_name (map tr_name records)" by simp
  moreover have "inj tensor_file_name" by (rule injI) (simp add: tensor_file_name_inject)
  ultimately show ?thesis by (metis distinct_map inj_on_subset subset_UNIV)
qed

definition boundary_facts ::
  "pkg_env \<Rightarrow> export_directory \<Rightarrow> file_view option \<Rightarrow> json_object \<Rightarrow> tensor_record list \<Rightarrow> bool"
where
  "boundary_facts env dir lock manifest records \<longleftrightarrow>
     (\<exists>base payload vs digest. xd_resolve dir = Inr base \<and> fv_bytes (xd_entry dir (pys ''manifest.json'')) = Inr payload \<and>
        pk_loads env payload = Some (JObj manifest) \<and> got manifest ''schema_version'' = JInt 1 \<and>
        got manifest ''oracle_lock_sha256'' = JStr digest \<and>
        (\<forall>f. lock = Some f \<longrightarrow> (\<exists>bytes. fv_bytes f = Inr bytes \<and> digest = sha256_hex bytes)) \<and>
        got manifest ''tensors'' = JList vs \<and> list_all2 tensor_record_of vs records \<and> records \<noteq> [] \<and>
        distinct (map tr_name records) \<and> distinct (map tr_path records) \<and>
        exact_fixture_entries dir (fixture_files records) \<and> (\<forall>r \<in> set records. tensor_on_disk dir base r))"

lemma require_lock_match_Inr:
  assumes "require_lock_match manifest lock = Inr u"
  shows "\<exists>digest. got manifest ''oracle_lock_sha256'' = JStr digest \<and>
    (\<forall>f. lock = Some f \<longrightarrow> (\<exists>bytes. fv_bytes f = Inr bytes \<and> digest = sha256_hex bytes))"
proof -
  from assms obtain digest where d: "got manifest ''oracle_lock_sha256'' = JStr digest"
    by (auto simp: require_lock_match_def bindE_eq_Inr rt_sha256_Inr_iff)
  moreover have "\<exists>bytes. fv_bytes f = Inr bytes \<and> digest = sha256_hex bytes" if "lock = Some f" for f
    using assms that d
    by (auto simp: require_lock_match_def bindE_eq_Inr guardE_eq_Inr rt_sha256_Inr_iff sha256_of_file_def)
  ultimately show ?thesis by blast
qed

lemma validated_boundary_fixture:
  assumes "validate_boundary_fixture env dir lock = Inr n"
  shows "\<exists>manifest records. n = length records \<and> boundary_facts env dir lock manifest records"
proof -
  from assms obtain base manifest payload vs records u u' u'' where
    f: "xd_resolve dir = Inr base" "load_fixture_manifest env dir = Inr (manifest, payload)"
      "got manifest ''schema_version'' = JInt 1" "require_lock_match manifest lock = Inr u"
      "got manifest ''tensors'' = JList vs" "mapE parse_tensor_record vs = Inr records" "records \<noteq> []"
      "distinct (map tr_name records)" "distinct (map tr_path records)"
      "require_no_extra_entries dir (fixture_files records) = Inr u'"
      "all_steps (check_fixture_tensor dir base) records = Inr u''" and n: "n = length records"
    by (auto simp: validate_boundary_fixture_def bindE_eq_Inr guardE_eq_Inr rt_Inr_iff bf_Inr_iff)
  from f(6) have "list_all2 tensor_record_of vs records"
    unfolding mapE_Inr_iff by (rule list_all2_mono) (auto intro: parse_tensor_record_Inr)
  moreover have "\<forall>r \<in> set records. tensor_on_disk dir base r"
    using f(11) by (auto simp: all_steps_Inr_iff check_fixture_tensor_Inr_iff)
  ultimately have "boundary_facts env dir lock manifest records"
    unfolding boundary_facts_def
    using f(1,3,5,7-10) load_fixture_manifest_Inr [OF f(2)] require_lock_match_Inr [OF f(4)]
    by (auto simp: require_no_extra_entries_Inr_iff)
  with n show ?thesis by blast
qed

text \<open>The check of repeated paths cannot fail: a path is derived from its name.\<close>

lemma duplicate_paths_unreachable:
  assumes "mapE parse_tensor_record vs = Inr records" "distinct (map tr_name records)"
  shows "distinct (map tr_path records)"
proof -
  from assms(1) have "list_all2 tensor_record_of vs records"
    unfolding mapE_Inr_iff by (rule list_all2_mono) (auto intro: parse_tensor_record_Inr)
  from paths_follow_names [OF this] assms(2) show ?thesis by simp
qed

subsection \<open>Properties\<close>

definition demo_fixture_manifest :: json_object where
  "demo_fixture_manifest =
     [(pys ''schema_version'', JInt 1), (pys ''oracle_lock_sha256'', JStr (sha256_hex [5])),
      (pys ''runtime'', JObj [(pys ''float32_matmul_precision'', JStr (pys ''highest'')),
        (pys ''cuda_matmul_allow_tf32'', JBool False), (pys ''cudnn_allow_tf32'', JBool False)]),
      (pys ''local_ar_seed'', JInt 7),
      (pys ''tensors'', JList [JObj
        [(pys ''name'', JStr (pys ''a'')), (pys ''path'', JStr (pys ''tensors/a.bin'')), (pys ''dtype'', JStr (pys ''bf16'')),
         (pys ''shape'', JList [JInt 1]), (pys ''size_bytes'', JInt 2), (pys ''sha256'', JStr (sha256_hex [8, 9]))]])]"

definition demo_fixture_loads :: pkg_env where
  "demo_fixture_loads =
     \<lparr>pk_loads = (\<lambda>_. Some (JObj demo_fixture_manifest)), pk_float_of_int = (\<lambda>_. None), pk_fromisoformat = (\<lambda>_. None)\<rparr>"

definition demo_fixture_directory :: export_directory where
  "demo_fixture_directory =
     \<lparr>xd_is_symlink = False, xd_resolve = Inr [], xd_is_dir = True,
      xd_entry = (\<lambda>name.
        if name = pys ''tensors/a.bin'' then demo_file [8, 9]
        else if name = pys ''manifest.json.sha256'' then demo_file (checksum_line (sha256_hex [123]) ''manifest.json'')
        else demo_file [123]),
      xd_walk =
        [\<lparr>we_path = pys ''manifest.json'', we_is_symlink = False, we_is_file = True, we_is_dir = False\<rparr>,
         \<lparr>we_path = pys ''manifest.json.sha256'', we_is_symlink = False, we_is_file = True, we_is_dir = False\<rparr>,
         \<lparr>we_path = pys ''tensors'', we_is_symlink = False, we_is_file = False, we_is_dir = True\<rparr>,
         \<lparr>we_path = pys ''tensors/a.bin'', we_is_symlink = False, we_is_file = True, we_is_dir = False\<rparr>]\<rparr>"

lemma demo_tensor_path:
  "bf_safe_relative_path (JStr (pys ''tensors/a.bin'')) = Inr (pys ''tensors/a.bin'')"
  "tensor_file_name (pys ''a'') = pys ''tensors/a.bin''" "safe_name_pattern (pys ''a'')"
  "expected_bundle_directories [pys ''manifest.json'', pys ''manifest.json.sha256'', pys ''tensors/a.bin''] = {[], pys ''tensors''}"
  by (simp_all add: bf_safe_relative_path_def rt_string_def pure_root_def pure_components_def as_posix_def pys_def
      tensor_file_name_def safe_name_pattern_def safe_name_char_def expected_bundle_directories_def)

lemma demo_fixture_valid:
  "validate_boundary_fixture demo_fixture_loads demo_fixture_directory (Some (demo_file [5])) = Inr 1"
proof -
  have digest: "rt_sha256 (JStr (sha256_hex bs)) = Inr (sha256_hex bs)" for bs by (simp add: rt_sha256_Inr_iff)
  have wf: "json_wf (JObj demo_fixture_manifest)" by (simp add: demo_fixture_manifest_def)
  have hook: "pairs_hook e (JObj demo_fixture_manifest) = Inr (JObj demo_fixture_manifest)" for e
    unfolding pairs_hook_Inr_iff using wf by blast
  have loaded: "load_fixture_manifest demo_fixture_loads demo_fixture_directory = Inr (demo_fixture_manifest, [123])"
    using hook by (simp add: load_fixture_manifest_def demo_fixture_directory_def demo_fixture_loads_def demo_file_def
        bf_mapping_def del: pairs_hook.simps)
  let ?r = "\<lparr>tr_name = pys ''a'', tr_path = pys ''tensors/a.bin'', tr_dtype = pys ''bf16'', tr_shape = [1], tr_size_bytes = 2,
    tr_sha256 = sha256_hex [8, 9]\<rparr>"
  have record_ok: "bf_list (got demo_fixture_manifest ''tensors'') = Inr [v] \<and> parse_tensor_record v = Inr ?r"
    if "v = JObj [(pys ''name'', JStr (pys ''a'')), (pys ''path'', JStr (pys ''tensors/a.bin'')), (pys ''dtype'', JStr (pys ''bf16'')),
         (pys ''shape'', JList [JInt 1]), (pys ''size_bytes'', JInt 2), (pys ''sha256'', JStr (sha256_hex [8, 9]))]" for v
    unfolding that
    by (simp add: demo_fixture_manifest_def bf_list_def parse_tensor_record_def bf_mapping_def has_keys_def rt_string_def
        demo_tensor_path DTYPE_WIDTH_BYTES_def fixture_dimension_def rt_integer_def digest)
  have entries: "require_no_extra_entries demo_fixture_directory (fixture_files [?r]) = Inr ()"
    unfolding require_no_extra_entries_Inr_iff exact_fixture_entries_def fixture_files_def
    by (simp add: demo_tensor_path) (auto simp: demo_fixture_directory_def clean_walk_def walked_files_def
        walked_directories_def)
  have "all_steps (check_fixture_tensor demo_fixture_directory []) [?r] = Inr ()"
    unfolding all_steps_Inr_iff check_fixture_tensor_Inr_iff tensor_on_disk_def
    by (simp add: demo_fixture_directory_def demo_file_def is_relative_to_def pure_root_def pure_components_def)
  moreover have "xd_is_symlink demo_fixture_directory = False" "xd_resolve demo_fixture_directory = Inr []"
    "xd_is_dir demo_fixture_directory"
    by (simp_all add: demo_fixture_directory_def)
  moreover have "rt_integer (got demo_fixture_manifest ''schema_version'') = Inr 1"
    "require_lock_match demo_fixture_manifest (Some (demo_file [5])) = Inr ()"
    "require_ieee_fp32_runtime_policy demo_fixture_manifest = Inr ()" "require_local_ar_seed demo_fixture_manifest = Inr ()"
    by (simp_all add: demo_fixture_manifest_def rt_integer_def require_lock_match_def require_ieee_fp32_runtime_policy_def
        require_local_ar_seed_def bf_mapping_def rt_string_def rt_boolean_def digest demo_file_def sha256_of_file_def)
  ultimately show ?thesis
    unfolding validate_boundary_fixture_def using loaded record_ok [OF refl] entries by simp
qed

text \<open>C19: a boundary fixture that is accepted holds exactly the manifest, its checksum and one file for every tensor
  the manifest lists, with no symbolic link; the size of a tensor is the product of its shape times the width of its
  type, each file has the recorded size and digest, and the manifest names the digest of the lock.\<close>

theorem boundary_fixture_exact:
  assumes "validate_boundary_fixture env dir lock = Inr n"
  shows "\<exists>manifest records. n = length records \<and> boundary_facts env dir lock manifest records"
  using assms by (rule validated_boundary_fixture)

theorem boundary_fixture_exact_witness:
  "\<exists>manifest records. 1 = length records \<and>
     boundary_facts demo_fixture_loads demo_fixture_directory (Some (demo_file [5])) manifest records"
  using boundary_fixture_exact [OF demo_fixture_valid] .

end
