(* ===== verification/GenerationLoop.thy ===== *)
theory GenerationLoop
  imports SequenceTracker AlignmentController BoundaryFixture
begin

text \<open>
  One closed-loop generation of \<open>tools/export/validate_main_local_ar_sequence.py\<close>: \<open>run_fixture_sequence\<close>, where the
  alignment controller, the code tracker and the three TensorRT plans meet.

  A plan session is a function that may raise: \<open>gs_local_ar\<close> is the Local AR plan (hidden state, seed, counter,
  \<open>forbid_eos\<close>; \<open>unfinished\<close> and \<open>finished\<close> are always false), \<open>gs_step\<close> one step of the Main Decoder. The hidden state and the caches of the twelve layers are
  of arbitrary types, since the loop only hands them on; the condition mask goes with the cross caches, which do not
  change either. \<open>generation_step\<close> is the body of \<open>while True\<close>, and
  \<open>generation_loop\<close> the loop; it ends because the tracker takes at most \<open>MAX_DECODER_STEPS\<close> steps. The result is the
  dictionary that goes into the sequence receipt.
\<close>

subsection \<open>The loop\<close>

record ('s, 'x) step_inputs =
  si_previous_codec_tokens :: tensor
  si_position :: int
  si_execution_status_in :: int
  si_alignment_prior :: "prior_value list list"
  si_self_caches :: 's
  si_cross_caches :: 'x

record ('h, 's, 'a) step_outputs =
  so_execution_status_out :: int
  so_decoder_hidden :: 'h
  so_alignment :: "'a alignment"
  so_self_caches :: 's

record ('h, 's, 'x, 'a) plan_sessions =
  gs_local_ar :: "'h \<Rightarrow> int \<Rightarrow> int \<Rightarrow> bool \<Rightarrow> local_ar_step result"
  gs_step :: "('s, 'x) step_inputs \<Rightarrow> ('h, 's, 'a) step_outputs result"

record ('h, 's, 'a) generation_state =
  ge_controller :: controller
  ge_tracker :: tracker
  ge_attended :: "nat list"
  ge_status :: int
  ge_checks :: nat
  ge_hidden :: 'h
  ge_alignment :: "'a alignment"
  ge_self_caches :: 's

text \<open>The body of the loop; the second component says whether it breaks.\<close>

definition generation_step ::
  "('a option list \<Rightarrow> nat) \<Rightarrow> ('h, 's, 'x, 'a) plan_sessions \<Rightarrow> int \<Rightarrow> 'x \<Rightarrow> ('h, 's, 'a) generation_state \<Rightarrow>
   (('h, 's, 'a) generation_state \<times> bool) result"
where
  "generation_step argmax sessions seed cross g =
     bindE (update argmax (ge_controller g) (ge_alignment g)) (\<lambda>(controller, alignment_update).
     bindE (gs_local_ar sessions (ge_hidden g) seed (rng_counter (ge_tracker g)) (forbid_eos (ge_tracker g))) (\<lambda>local_outputs.
     bindE (accept_step (ge_tracker g) local_outputs) (\<lambda>(tracker, finished).
     let g = g\<lparr>ge_controller := controller, ge_tracker := tracker,
               ge_attended := ge_attended g @ [upd_attended alignment_update]\<rparr>
     in if finished then Inr (g, True)
        else bindE (gs_step sessions
               \<lparr>si_previous_codec_tokens = codec_tokens local_outputs,
                si_position = PREFILL_LENGTH + int (decoder_step tracker) - 1,
                si_execution_status_in = ge_status g, si_alignment_prior = upd_prior alignment_update,
                si_self_caches = ge_self_caches g, si_cross_caches = cross\<rparr>) (\<lambda>step_outputs.
          if so_execution_status_out step_outputs \<noteq> 0
          then Inl (rt_error ''Main Decoder execution status failed closed before the next Local AR invocation: status='')
          else Inr (g\<lparr>ge_status := so_execution_status_out step_outputs, ge_checks := ge_checks g + 1,
                      ge_hidden := so_decoder_hidden step_outputs, ge_alignment := so_alignment step_outputs,
                      ge_self_caches := so_self_caches step_outputs\<rparr>, False)))))"

lemma generation_step_cases:
  assumes "generation_step argmax sessions seed cross g = Inr (g', finished)"
  obtains controller u s tracker where
    "update argmax (ge_controller g) (ge_alignment g) = Inr (controller, u)"
    "gs_local_ar sessions (ge_hidden g) seed (rng_counter (ge_tracker g)) (forbid_eos (ge_tracker g)) = Inr s"
    "accept_step (ge_tracker g) s = Inr (tracker, finished)" "ge_tracker g' = tracker" "ge_controller g' = controller"
    "ge_attended g' = ge_attended g @ [upd_attended u]"
    "ge_checks g' = (if finished then ge_checks g else ge_checks g + 1)"
    "ge_status g' = (if finished then ge_status g else 0)"
  using assms
  by (auto simp: generation_step_def Let_def bindE_eq_Inr split: if_splits prod.splits)

lemma generation_step_continues:
  assumes "generation_step argmax sessions seed cross g = Inr (g', False)"
  shows "decoder_step (ge_tracker g') = Suc (decoder_step (ge_tracker g))"
    and "decoder_step (ge_tracker g) < MAX_DECODER_STEPS"
proof -
  from assms obtain s tracker where s: "accept_step (ge_tracker g) s = Inr (tracker, False)" "ge_tracker g' = tracker"
    by (rule generation_step_cases)
  from s(1) have "decoder_step tracker = Suc (decoder_step (ge_tracker g)) \<and> decoder_step (ge_tracker g) < MAX_DECODER_STEPS"
    by (cases rule: accept_step_cases) auto
  with s(2) show "decoder_step (ge_tracker g') = Suc (decoder_step (ge_tracker g))"
    and "decoder_step (ge_tracker g) < MAX_DECODER_STEPS" by simp_all
qed

function generation_loop ::
  "('a option list \<Rightarrow> nat) \<Rightarrow> ('h, 's, 'x, 'a) plan_sessions \<Rightarrow> int \<Rightarrow> 'x \<Rightarrow> ('h, 's, 'a) generation_state \<Rightarrow>
   ('h, 's, 'a) generation_state result"
where
  "generation_loop argmax sessions seed cross g =
     (case generation_step argmax sessions seed cross g of
        Inl e \<Rightarrow> Inl e
      | Inr (g', finished) \<Rightarrow> if finished then Inr g' else generation_loop argmax sessions seed cross g')"
  by auto
termination
proof (relation "measure (\<lambda>(argmax, sessions, seed, cross, g). MAX_DECODER_STEPS - decoder_step (ge_tracker g))", goal_cases)
  case (2 argmax sessions seed cross g out g' finished)
  then have "generation_step argmax sessions seed cross g = Inr (g', False)" by simp
  from generation_step_continues [OF this] show ?case by simp
qed simp

declare generation_loop.simps [simp del]

subsection \<open>The fixture's side\<close>

text \<open>A dimension that is compared with \<open><\<close>; a shape that the fixture validator has accepted holds integers.\<close>

definition dimension_of :: "json \<Rightarrow> int result" where
  "dimension_of v =
     (case v of
        JInt i \<Rightarrow> Inr i
      | JBool b \<Rightarrow> Inr (of_bool b)
      | _ \<Rightarrow> Inl (Exn PyTypeError ''not supported between instances''))"

definition codes_shape_ok :: "json list \<Rightarrow> bool result" where
  "codes_shape_ok shape =
     (case shape of
        [batch, codebooks, frames] \<Rightarrow>
          if \<not> py_eq (JList [batch, codebooks]) (int_list [1, 8]) then Inr False
          else bindE (dimension_of frames) (\<lambda>n. Inr (1 \<le> n \<and> n \<le> int MAX_DECODER_STEPS * 2))
      | _ \<Rightarrow> Inr False)"

text \<open>\<open>value\<close> is what \<open>tensor_from_fixture(fixture, "generation.codes")\<close> answers.\<close>

definition require_generation_codes :: "decoder_fixture \<Rightarrow> tensor result \<Rightarrow> tensor result" where
  "require_generation_codes fixture value =
     (case fixture_lookup fixture (pys ''generation.codes'') of
        None \<Rightarrow> Inl (rt_error ''fixture tensor is missing: generation.codes'')
      | Some t \<Rightarrow>
          bindE (if \<not> py_eq (ft_dtype t) (JStr (pys ''int64'')) then Inr False else codes_shape_ok (ft_shape t)) (\<lambda>ok.
          if ok then value else Inl (rt_error ''generation.codes contract mismatch: '')))"

definition text_contract :: "int \<Rightarrow> (string \<times> string \<times> int list) list" where
  "text_contract text_tokens =
     [(''input.text_token_ids'', ''int32'', [1, text_tokens]), (''text.mask'', ''bool'', [1, text_tokens]),
      (''text.condition'', ''bf16'', [1, text_tokens, MODEL_WIDTH])]"

definition check_text_tensor :: "decoder_fixture \<Rightarrow> string \<times> string \<times> int list \<Rightarrow> unit result" where
  "check_text_tensor fixture expected =
     (let (name, dt, shape) = expected; mismatch = rt_error ''fixture tensor  mismatch: expected ''
      in case fixture_lookup fixture (pys name) of
           None \<Rightarrow> Inl mismatch
         | Some t \<Rightarrow>
             guardE (\<not> py_eq (ft_dtype t) (JStr (pys dt)) \<or> \<not> py_eq (JList (ft_shape t)) (int_list shape)) mismatch)"

subsection \<open>The artifacts\<close>

definition write_int64_artifact ::
  "(pystr \<Rightarrow> byte list \<Rightarrow> unit result) \<Rightarrow> pystr \<Rightarrow> tensor \<Rightarrow> json result"
where
  "write_int64_artifact write relative value =
     bindE (guardE (t_dtype value \<noteq> Int64) (rt_error ''sequence artifact must be INT64: '')) (\<lambda>_.
     bindE (guardE (pure_root relative \<noteq> [] \<or> [46, 46] \<in> set (pure_components relative))
       (rt_error ''unsafe sequence artifact path: '')) (\<lambda>_.
     bindE (int64_payload value) (\<lambda>payload.
     bindE (write relative payload) (\<lambda>_.
     Inr (JObj
       [(pys ''path'', JStr (as_posix relative)), (pys ''dtype'', JStr (pys ''int64'')),
        (pys ''shape'', JList (map (JInt \<circ> int) (t_shape value))), (pys ''size_bytes'', JInt (int (length payload))),
        (pys ''sha256'', JStr (sha256_hex payload))])))))"

definition json_option :: "('b \<Rightarrow> json) \<Rightarrow> 'b option \<Rightarrow> json" where
  "json_option f v = (case v of None \<Rightarrow> JNull | Some x \<Rightarrow> f x)"

definition mismatch_record :: "code_mismatch option \<Rightarrow> json" where
  "mismatch_record = json_option (\<lambda>m. JObj
     [(pys ''frame'', JInt (int (mm_frame m))), (pys ''codebook'', JInt (int (mm_codebook m))),
      (pys ''actual'', json_option JInt (mm_actual m)), (pys ''expected'', json_option JInt (mm_expected m))])"

text \<open>\<open>f"case-{case_index:03d}-{manifest_sha256[:12]}"\<close>\<close>

definition case_name_of :: "nat \<Rightarrow> pystr \<Rightarrow> pystr" where
  "case_name_of index digest =
     (let number = int_repr (int index)
      in pys ''case-'' @ replicate (3 - length number) 48 @ number @ pys ''-'' @ take 12 digest)"

definition monotonic :: "nat list \<Rightarrow> bool" where
  "monotonic trace \<longleftrightarrow> list_all (\<lambda>(l, r). l \<le> r) (zip trace (tl trace))"

definition trace_tensor :: "nat list \<Rightarrow> tensor" where
  "trace_tensor trace = \<lparr>t_dtype = Int64, t_shape = [length trace], t_data = map int trace\<rparr>"

subsection \<open>The sequence\<close>

record ('h, 's, 'x, 'a) prefill_outputs =
  po_hidden :: 'h
  po_alignment :: "'a alignment"
  po_self_caches :: 's
  po_cross_caches :: 'x

text \<open>What the calls around the loop answer: the fixture and its tensors, the text encoder's output names and metrics,
  the comparison of the fixture's condition with the contract, the prefill plan, and the writes.\<close>

record ('h, 's, 'x, 'a) sequence_answers =
  sw_fixture :: "decoder_fixture result"
  sw_metadata :: "fixture_metadata result"
  sw_expected_codes :: "tensor result"
  sw_text_outputs :: "string list result"
  sw_condition_metrics :: "json result"
  sw_boundary_accepted :: "bool result"
  sw_prefill :: "('h, 's, 'x, 'a) prefill_outputs result"
  sw_write :: "pystr \<Rightarrow> byte list \<Rightarrow> unit result"

definition initial_state ::
  "int \<Rightarrow> ('h, 's, 'x, 'a) prefill_outputs \<Rightarrow> ('h, 's, 'a) generation_state result"
where
  "initial_state text_tokens p =
     bindE (make_controller text_tokens (al_device (po_alignment p)) (al_dtype (po_alignment p))) (\<lambda>controller.
     bindE (make_tracker 0) (\<lambda>tracker.
     Inr \<lparr>ge_controller = controller, ge_tracker = tracker, ge_attended = [], ge_status = 0, ge_checks = 0,
          ge_hidden = po_hidden p, ge_alignment = po_alignment p, ge_self_caches = po_self_caches p\<rparr>))"

definition case_document ::
  "pystr \<Rightarrow> fixture_metadata \<Rightarrow> decoder_fixture \<Rightarrow> json \<Rightarrow> sequence_comparison \<Rightarrow> nat \<Rightarrow> nat \<Rightarrow> json list \<Rightarrow> json_object"
where
  "case_document case_name metadata fixture metrics comparison trace_length checks artifacts =
     [(pys ''case'', JStr case_name), (pys ''fixture_id'', JStr (fm_fixture_id metadata)),
      (pys ''fixture_manifest_sha256'', JStr (df_manifest_sha256 fixture)), (pys ''text'', JStr (fm_text metadata)),
      (pys ''language'', JStr (fm_language metadata)), (pys ''local_ar_seed'', JInt (fm_local_ar_seed metadata)),
      (pys ''text_encoder_metrics'', metrics), (pys ''code_exact'', JBool (sc_code_exact comparison)),
      (pys ''first_code_mismatch'', mismatch_record (sc_first_mismatch comparison)),
      (pys ''generated_frames'', JInt (int (sc_generated_frames comparison))),
      (pys ''expected_frames'', JInt (int (sc_expected_frames comparison))),
      (pys ''generated_codes_sha256'', JStr (sc_generated_codes_sha256 comparison)),
      (pys ''expected_codes_sha256'', JStr (sc_expected_codes_sha256 comparison)),
      (pys ''terminal_decoder_step'', JInt (int (sc_terminal_decoder_step comparison))),
      (pys ''terminal_end_frame_index'', JInt (sc_terminal_end_frame_index comparison)),
      (pys ''local_ar_invocations'', JInt (int (sc_local_ar_invocations comparison))),
      (pys ''final_rng_counter'', JInt (sc_final_rng_counter comparison)), (pys ''alignment_monotonic'', JBool True),
      (pys ''attended_trace_length'', JInt (int trace_length)),
      (pys ''main_execution_status_check_count'', JInt (int checks)),
      (pys ''main_execution_status_all_zero'', JBool True), (pys ''artifacts'', JList artifacts)]"

definition run_fixture_sequence ::
  "('a option list \<Rightarrow> nat) \<Rightarrow> ('h, 's, 'x, 'a) plan_sessions \<Rightarrow> ('h, 's, 'x, 'a) sequence_answers \<Rightarrow> nat \<Rightarrow>
   json_object result"
where
  "run_fixture_sequence argmax sessions w case_index =
     bindE (sw_fixture w) (\<lambda>fixture.
     bindE (sw_metadata w) (\<lambda>metadata.
     bindE (require_generation_codes fixture (sw_expected_codes w)) (\<lambda>expected_codes.
     bindE (all_steps (check_text_tensor fixture) (text_contract (df_text_tokens fixture))) (\<lambda>_.
     bindE (sw_text_outputs w) (\<lambda>text_outputs.
     bindE (guardE (set text_outputs \<noteq> {''text_condition''}) (rt_error ''Text Encoder output set mismatch: '')) (\<lambda>_.
     bindE (sw_condition_metrics w) (\<lambda>metrics.
     bindE (sw_boundary_accepted w) (\<lambda>accepted.
     bindE (guardE (\<not> accepted) (rt_error ''fixture Text Encoder/CFG boundary is not the accepted contract'')) (\<lambda>_.
     bindE (sw_prefill w) (\<lambda>prefill.
     bindE (initial_state (df_text_tokens fixture) prefill) (\<lambda>start.
     bindE (generation_loop argmax sessions (fm_local_ar_seed metadata) (po_cross_caches prefill) start) (\<lambda>final.
     bindE (compare_codes (ge_tracker final) expected_codes) (\<lambda>comparison.
     bindE (guardE (\<not> monotonic (ge_attended final)) (rt_error ''alignment trace is not monotonic: '')) (\<lambda>_.
     (let case_name = case_name_of case_index (df_manifest_sha256 fixture);
          folder = pys ''sequences/'' @ case_name @ pys ''/''
      in bindE (write_int64_artifact (sw_write w) (folder @ pys ''generated-codes.int64.bin'')
           (generated_codes (ge_tracker final))) (\<lambda>codes_artifact.
         bindE (write_int64_artifact (sw_write w) (folder @ pys ''attended-trace.int64.bin'')
           (trace_tensor (ge_attended final))) (\<lambda>trace_artifact.
         Inr (case_document case_name metadata fixture metrics comparison (length (ge_attended final)) (ge_checks final)
           [codes_artifact, trace_artifact]))))))))))))))))))"

subsection \<open>Runs of the loop\<close>

text \<open>A state that the loop reaches before it breaks: one status check for each Local AR invocation.\<close>

definition running :: "('h, 's, 'a) generation_state \<Rightarrow> local_ar_step list \<Rightarrow> bool" where
  "running g ss \<longleftrightarrow> tracked 0 (ge_tracker g) ss \<and> \<not> ended (ge_tracker g) \<and> ge_checks g = length ss \<and>
     length (ge_attended g) = length ss"

definition finished_run :: "('h, 's, 'a) generation_state \<Rightarrow> local_ar_step list \<Rightarrow> bool" where
  "finished_run g ss \<longleftrightarrow> tracked 0 (ge_tracker g) ss \<and> ended (ge_tracker g) \<and> Suc (ge_checks g) = length ss \<and>
     length (ge_attended g) = length ss"

text \<open>The Local AR plan returns tensors whose data fits their shape.\<close>

definition sessions_wf :: "('h, 's, 'x, 'a) plan_sessions \<Rightarrow> bool" where
  "sessions_wf sessions \<longleftrightarrow>
     (\<forall>hidden seed counter forbid s. gs_local_ar sessions hidden seed counter forbid = Inr s \<longrightarrow> tensor_wf (codec_tokens s))"

lemma generation_loop_rule:
  assumes "generation_loop argmax sessions seed cross g = Inr final" "P g"
    and continues: "\<And>g g'. P g \<Longrightarrow> generation_step argmax sessions seed cross g = Inr (g', False) \<Longrightarrow> P g'"
    and breaks: "\<And>g g'. P g \<Longrightarrow> generation_step argmax sessions seed cross g = Inr (g', True) \<Longrightarrow> Q g'"
  shows "Q final"
  using assms(1,2)
proof (induction "MAX_DECODER_STEPS - decoder_step (ge_tracker g)" arbitrary: g rule: less_induct)
  case less
  from less.prems(1) obtain g' finished where step: "generation_step argmax sessions seed cross g = Inr (g', finished)"
    by (auto simp: generation_loop.simps [of _ _ _ _ g] split: sum.splits)
  show ?case
  proof (cases finished)
    case True
    with step less.prems breaks show ?thesis by (auto simp: generation_loop.simps [of _ _ _ _ g])
  next
    case False
    with step have "generation_step argmax sessions seed cross g = Inr (g', False)" by simp
    from less.hyps [OF _ _ continues [OF less.prems(2) this]] generation_step_continues [OF this] less.prems(1) step False
    show ?thesis by (simp add: generation_loop.simps [of _ _ _ _ g])
  qed
qed

lemma running_step:
  assumes "generation_step argmax sessions seed cross g = Inr (g', finished)" "running g ss" "sessions_wf sessions"
  shows "\<exists>s. if finished then finished_run g' (ss @ [s]) else running g' (ss @ [s])"
proof -
  from assms(1) obtain controller u s tracker where "update argmax (ge_controller g) (ge_alignment g) = Inr (controller, u)" and
    s: "gs_local_ar sessions (ge_hidden g) seed (rng_counter (ge_tracker g)) (forbid_eos (ge_tracker g)) = Inr s"
      "accept_step (ge_tracker g) s = Inr (tracker, finished)" "ge_tracker g' = tracker"
      "ge_attended g' = ge_attended g @ [upd_attended u]"
      "ge_checks g' = (if finished then ge_checks g else ge_checks g + 1)"
    by (rule generation_step_cases) blast
  from s(1) assms(3) have wf: "tensor_wf (codec_tokens s)" unfolding sessions_wf_def by blast
  from assms(2) have "tracked 0 (ge_tracker g) ss" by (simp add: running_def)
  from tracked_step [OF this wf s(2)] have t: "tracked 0 tracker (ss @ [s])" .
  moreover from s(2) assms(2) have "ended tracker = finished"
    by (cases rule: accept_step_cases) (auto simp: running_def ended_def)
  ultimately have "if finished then finished_run g' (ss @ [s]) else running g' (ss @ [s])"
    using s assms(2) by (auto simp: running_def finished_run_def)
  then show ?thesis by blast
qed

lemma loop_finishes:
  assumes "generation_loop argmax sessions seed cross g = Inr final" "running g ss" "sessions_wf sessions"
  shows "\<exists>ss'. finished_run final ss'"
  using assms(1)
proof (rule generation_loop_rule [where P = "\<lambda>g. \<exists>ss. running g ss"], goal_cases)
  case 1
  show ?case using assms(2) by blast
next
  case (2 g g')
  with running_step [OF 2(2) _ assms(3)] show ?case by auto
next
  case (3 g g')
  with running_step [OF 3(2) _ assms(3)] show ?case by auto
qed

lemma initial_state_running: "initial_state n p = Inr g \<Longrightarrow> running g []"
  by (auto simp: initial_state_def bindE_eq_Inr running_def make_tracker_def ended_def intro!: tracked_made)

subsection \<open>The alignment trace\<close>

text \<open>Scores without infinities: the search window always has a candidate.\<close>

definition finite_alignment :: "'a alignment \<Rightarrow> bool" where
  "finite_alignment al \<longleftrightarrow> length (al_conditional al) = snd (al_shape al) \<and> None \<notin> set (al_conditional al)"

definition finite_sessions :: "('h, 's, 'x, 'a) plan_sessions \<Rightarrow> bool" where
  "finite_sessions sessions \<longleftrightarrow> (\<forall>i out. gs_step sessions i = Inr out \<longrightarrow> finite_alignment (so_alignment out))"

lemma finite_scores_ok:
  assumes "finite_alignment al" "al_shape al = (CFG_ROWS, text_length c)"
  shows "scores_ok c (al_conditional al)"
proof -
  from assms have len: "length (al_conditional al) = text_length c" and fin: "None \<notin> set (al_conditional al)"
    by (simp_all add: finite_alignment_def)
  have "in_window c (search_start c)" "search_start c < text_length c" if "int (search_start c) < window_end c"
    using that by (auto simp: in_window_def window_end_def IGNORED_TERMINAL_TOKENS_def)
  moreover have "al_conditional al ! search_start c \<noteq> None" if "search_start c < text_length c"
    using that len fin by (metis nth_mem)
  ultimately show ?thesis unfolding scores_ok_def list_ex_iff using len by auto
qed

definition traced :: "('a::linorder option list \<Rightarrow> nat) \<Rightarrow> controller \<Rightarrow> ('h, 's, 'a) generation_state \<Rightarrow> bool" where
  "traced argmax c g \<longleftrightarrow> session argmax c (ge_attended g) (ge_controller g)"

lemma traced_step:
  assumes "generation_step argmax sessions seed cross g = Inr (g', finished)" "traced argmax c g"
    "finite_alignment (ge_alignment g)"
  shows "traced argmax c g'"
proof -
  from assms(1) obtain controller u where u: "update argmax (ge_controller g) (ge_alignment g) = Inr (controller, u)"
    "ge_controller g' = controller" "ge_attended g' = ge_attended g @ [upd_attended u]"
    by (rule generation_step_cases)
  from u(1) have "al_shape (ge_alignment g) = (CFG_ROWS, text_length (ge_controller g))" by (simp add: update_eq_Inr)
  from session_step [OF _ finite_scores_ok [OF assms(3) this] u(1)] assms(2) u show ?thesis
    by (simp add: traced_def)
qed

lemma step_alignment:
  assumes "generation_step argmax sessions seed cross g = Inr (g', False)" "finite_sessions sessions"
  shows "finite_alignment (ge_alignment g')"
  using assms
  by (auto simp: generation_step_def Let_def bindE_eq_Inr finite_sessions_def split: if_splits prod.splits)

lemma loop_traced:
  assumes "generation_loop argmax sessions seed cross g = Inr final" "traced argmax c g"
    "finite_alignment (ge_alignment g)" "finite_sessions sessions"
  shows "traced argmax c final"
  using assms(1)
proof (rule generation_loop_rule [where P = "\<lambda>g. traced argmax c g \<and> finite_alignment (ge_alignment g)"], goal_cases)
  case 1
  show ?case using assms by blast
next
  case (2 g g')
  with traced_step [OF 2(2)] step_alignment [OF 2(2) assms(4)] show ?case by simp
next
  case (3 g g')
  with traced_step [OF 3(2)] show ?case by simp
qed

lemma sorted_monotonic: "monotonic trace \<longleftrightarrow> sorted trace"
proof (induction trace)
  case (Cons x xs)
  then show ?case by (cases xs) (auto simp: monotonic_def order_trans)
qed (simp add: monotonic_def)

subsection \<open>Properties\<close>

text \<open>The loop as Python runs it, cut off after a number of iterations: \<open>None\<close> when it has not left the loop by then.\<close>

primrec while_true ::
  "nat \<Rightarrow> ('a option list \<Rightarrow> nat) \<Rightarrow> ('h, 's, 'x, 'a) plan_sessions \<Rightarrow> int \<Rightarrow> 'x \<Rightarrow> ('h, 's, 'a) generation_state \<Rightarrow>
   ('h, 's, 'a) generation_state result option"
where
  "while_true 0 argmax sessions seed cross g = None"
| "while_true (Suc n) argmax sessions seed cross g =
     (case generation_step argmax sessions seed cross g of
        Inl e \<Rightarrow> Some (Inl e)
      | Inr (g', finished) \<Rightarrow> if finished then Some (Inr g') else while_true n argmax sessions seed cross g')"

lemma while_true_enough:
  "MAX_DECODER_STEPS - decoder_step (ge_tracker g) < n \<Longrightarrow>
   while_true n argmax sessions seed cross g = Some (generation_loop argmax sessions seed cross g)"
proof (induction n arbitrary: g)
  case (Suc n)
  show ?case
  proof (cases "generation_step argmax sessions seed cross g")
    case (Inr r)
    obtain g' finished where r: "r = (g', finished)" by fastforce
    show ?thesis
    proof (cases finished)
      case True
      with Inr r show ?thesis by (simp add: generation_loop.simps [of _ _ _ _ g])
    next
      case False
      with Inr r have "generation_step argmax sessions seed cross g = Inr (g', False)" by simp
      from generation_step_continues [OF this] Suc.prems
      have "MAX_DECODER_STEPS - decoder_step (ge_tracker g') < n" by arith
      from Suc.IH [OF this] Inr r False show ?thesis by (simp add: generation_loop.simps [of _ _ _ _ g])
    qed
  qed (simp add: generation_loop.simps [of _ _ _ _ g])
qed simp

lemma initial_decoder_step: "initial_state n p = Inr g \<Longrightarrow> decoder_step (ge_tracker g) = 0"
  by (auto simp: initial_state_def bindE_eq_Inr make_tracker_def)

lemma generation_ends:
  assumes "initial_state n p = Inr g"
  shows "while_true 251 argmax sessions seed cross g = Some (generation_loop argmax sessions seed cross g)"
  by (rule while_true_enough) (simp add: initial_decoder_step [OF assms] MAX_DECODER_STEPS_def)

definition demo_alignment_1 :: "int alignment" where
  "demo_alignment_1 = \<lparr>al_shape = (2, 1), al_dtype = BF16, al_device = ''cuda:0'', al_conditional = [Some 0]\<rparr>"

definition demo_sequence_prefill :: "(unit, unit, unit, int) prefill_outputs" where
  "demo_sequence_prefill = \<lparr>po_hidden = (), po_alignment = demo_alignment_1, po_self_caches = (), po_cross_caches = ()\<rparr>"

definition demo_sessions :: "(unit, unit, unit, int) plan_sessions" where
  "demo_sessions =
     \<lparr>gs_local_ar = (\<lambda>_ _ counter _. Inr (demo_step (counter + 16) (if counter = 32 then 1 else -1))),
      gs_step = (\<lambda>_. Inr \<lparr>so_execution_status_out = 0, so_decoder_hidden = (), so_alignment = demo_alignment_1,
                        so_self_caches = ()\<rparr>)\<rparr>"

text \<open>C26: the generation loop ends. Whatever the plan sessions answer, \<open>while True\<close> has left its loop within 251
  iterations, by reaching the end of speech or by raising.\<close>

theorem generation_terminates:
  assumes "initial_state text_tokens prefill = Inr g"
  shows "while_true 251 argmax sessions seed cross g = Some (generation_loop argmax sessions seed cross g)"
  using assms by (rule generation_ends)

theorem generation_terminates_witness:
  "\<exists>g. initial_state 1 demo_sequence_prefill = Inr g \<and>
     while_true 251 first_argmax demo_sessions 7 () g = Some (generation_loop first_argmax demo_sessions 7 () g)"
proof -
  obtain g where g: "initial_state 1 demo_sequence_prefill = Inr g"
    by (auto simp: initial_state_def make_controller_def make_tracker_def demo_sequence_prefill_def demo_alignment_1_def)
  from generation_terminates [OF g, of first_argmax demo_sessions 7 "()"] g show ?thesis by blast
qed


definition demo_step_rows :: "int list list" where
  "demo_step_rows = rows_of CODEBOOKS FRAMES_PER_STEP (map int [0..<16])"

definition demo_ready :: "nat \<Rightarrow> (unit, unit, int) generation_state \<Rightarrow> bool" where
  "demo_ready n g \<longleftrightarrow> text_length (ge_controller g) = 1 \<and> device (ge_controller g) = ''cuda:0'' \<and>
     ge_alignment g = demo_alignment_1 \<and> decoder_step (ge_tracker g) = n \<and> rng_counter (ge_tracker g) = 16 * int n \<and>
     \<not> ended (ge_tracker g) \<and> ge_attended g = replicate n 0 \<and>
     chunks (ge_tracker g) = replicate n (map (take 2) demo_step_rows)"

lemma demo_update:
  assumes "text_length c = 1" "device c = ''cuda:0''"
  obtains c' and u :: alignment_update where "update first_argmax c demo_alignment_1 = Inr (c', u)"
    "text_length c' = 1" "device c' = ''cuda:0''" "upd_attended u = 0"
proof -
  have "window_end c < 0" using assms by (simp add: window_end_def IGNORED_TERMINAL_TOKENS_def)
  then have "attended_position first_argmax c [Some (0::int)] = 0" using assms by (simp add: attended_position_def)
  then show ?thesis using assms that
    by (auto simp: update_def Let_def demo_alignment_1_def CFG_ROWS_def)
qed

lemmas demo_step_facts = ACTUAL_BATCH_def CODEBOOKS_def FRAMES_PER_STEP_def
  LOCAL_AR_POSITIONS_def MIN_GENERATED_FRAMES_def MAX_DECODER_STEPS_def ended_def forbid_eos_def

lemma demo_accept:
  assumes "\<not> ended t" "decoder_step t = n" "rng_counter t = 16 * int n" "n \<le> 2"
  obtains t' where "accept_step t (demo_step (16 * int n + 16) (if n = 2 then 1 else -1)) = Inr (t', n = 2)"
    "n \<noteq> 2 \<longrightarrow> decoder_step t' = Suc n \<and> rng_counter t' = 16 * int (Suc n) \<and> \<not> ended t'"
    "chunks t' = chunks t @ [map (take (if n = 2 then 1 else 2)) demo_step_rows]"
proof -
  have req: "require_step (demo_step a b) = Inr ()"
    and it: "item (invalid_rows (demo_step a b)) = 0" "item (updated_rng_counter (demo_step a b)) = a"
      "item (end_frame_index (demo_step a b)) = b"
    and data: "t_data (codec_tokens (demo_step a b)) = map int [0..<16]" for a b
    by (simp_all add: demo_step_facts demo_step_def require_step_eq_Inr item_def)
  have "n = 0 \<or> n = 1 \<or> n = 2" using assms(4) by arith
  with assms that show ?thesis
    by (auto simp: accept_step_def req it data Let_def demo_step_rows_def demo_step_facts)
qed

lemma demo_generation_step:
  assumes "demo_ready n g" "n \<le> 2"
  obtains g' where "generation_step first_argmax demo_sessions 7 () g = Inr (g', n = 2)"
    "n \<noteq> 2 \<longrightarrow> demo_ready (Suc n) g'" "ge_attended g' = replicate (Suc n) 0"
    "chunks (ge_tracker g') = replicate n (map (take 2) demo_step_rows) @ [map (take (if n = 2 then 1 else 2)) demo_step_rows]"
proof -
  from assms(1) have g: "text_length (ge_controller g) = 1" "device (ge_controller g) = ''cuda:0''"
    "ge_alignment g = demo_alignment_1" "\<not> ended (ge_tracker g)" "decoder_step (ge_tracker g) = n"
    "rng_counter (ge_tracker g) = 16 * int n" "ge_attended g = replicate n 0"
    "chunks (ge_tracker g) = replicate n (map (take 2) demo_step_rows)"
    by (simp_all add: demo_ready_def)
  obtain c' and u :: alignment_update where u: "update first_argmax (ge_controller g) demo_alignment_1 = Inr (c', u)"
    "text_length c' = 1" "device c' = ''cuda:0''" "upd_attended u = 0"
    by (rule demo_update [OF g(1,2)])
  obtain t' where t: "accept_step (ge_tracker g) (demo_step (16 * int n + 16) (if n = 2 then 1 else -1)) = Inr (t', n = 2)"
    "n \<noteq> 2 \<longrightarrow> decoder_step t' = Suc n \<and> rng_counter t' = 16 * int (Suc n) \<and> \<not> ended t'"
    "chunks t' = chunks (ge_tracker g) @ [map (take (if n = 2 then 1 else 2)) demo_step_rows]"
    by (rule demo_accept [OF g(4-6) assms(2)])
  have counter: "(16 * int n = 32) = (n = 2)" by arith
  have "replicate n (0::nat) @ [0] = replicate (Suc n) 0" by (simp add: replicate_append_same)
  moreover have "replicate n (map (take 2) demo_step_rows) @ [map (take 2) demo_step_rows] = replicate (Suc n) (map (take 2) demo_step_rows)"
    by (simp add: replicate_append_same)
  ultimately have "\<exists>g'. generation_step first_argmax demo_sessions 7 () g = Inr (g', n = 2) \<and>
      (n \<noteq> 2 \<longrightarrow> demo_ready (Suc n) g') \<and> ge_attended g' = replicate (Suc n) 0 \<and>
      chunks (ge_tracker g') = replicate n (map (take 2) demo_step_rows) @ [map (take (if n = 2 then 1 else 2)) demo_step_rows]"
    using g u t counter
    by (cases "n = 2") (simp_all add: generation_step_def Let_def demo_sessions_def demo_ready_def)
  with that show ?thesis by blast
qed

definition demo_expected :: tensor where
  "demo_expected = \<lparr>t_dtype = Int64, t_shape = [1, 8, 5],
     t_data = concat (map (\<lambda>c. [2 * c, 2 * c + 1, 2 * c, 2 * c + 1, 2 * c]) [0, 1, 2, 3, 4, 5, 6, 7])\<rparr>"

lemma demo_generation:
  "\<exists>g final. initial_state 1 demo_sequence_prefill = Inr g \<and> generation_loop first_argmax demo_sessions 7 () g = Inr final \<and>
     ge_attended final = [0, 0, 0] \<and> generated_codes (ge_tracker final) = demo_expected"
proof -
  obtain g where g: "initial_state 1 demo_sequence_prefill = Inr g" and ready: "demo_ready 0 g"
    by (auto simp: initial_state_def make_controller_def make_tracker_def demo_sequence_prefill_def demo_alignment_1_def
        demo_ready_def ended_def)
  obtain g1 where g1: "generation_step first_argmax demo_sessions 7 () g = Inr (g1, False)" "demo_ready 1 g1"
    by (rule demo_generation_step [OF ready]) auto
  obtain g2 where g2: "generation_step first_argmax demo_sessions 7 () g1 = Inr (g2, False)" "demo_ready 2 g2"
    by (rule demo_generation_step [OF g1(2)]) (auto simp: numeral_2_eq_2)
  obtain g3 where g3: "generation_step first_argmax demo_sessions 7 () g2 = Inr (g3, True)" "ge_attended g3 = [0, 0, 0]" and
    c: "chunks (ge_tracker g3) = [map (take 2) demo_step_rows, map (take 2) demo_step_rows, map (take 1) demo_step_rows]"
    by (rule demo_generation_step [OF g2(2)]) (auto simp: numeral_2_eq_2)
  have "generated_codes (ge_tracker g3) = demo_expected"
    unfolding generated_codes_def generated_rows_def c demo_step_rows_def by code_simp
  from g1(1) g2(1) g3(1) have "generation_loop first_argmax demo_sessions 7 () g = Inr g3"
    by (simp add: generation_loop.simps)
  with g g3 \<open>generated_codes (ge_tracker g3) = demo_expected\<close> show ?thesis by blast
qed


definition codes_digest :: "tensor \<Rightarrow> pystr" where
  "codes_digest t = sha256_hex (concat (map le_int64 (t_data t)))"

lemma compare_codes_digests:
  "compare_codes t expected = Inr r \<Longrightarrow>
     sc_generated_codes_sha256 r = codes_digest (generated_codes t) \<and> sc_expected_codes_sha256 r = codes_digest expected"
  by (auto simp: compare_codes_def Let_def bindE_eq_Inr int64_payload_def codes_digest_def split: if_splits option.splits)

text \<open>What a written case says, over the tracker that its generation ended with.\<close>

definition case_facts :: "json_object \<Rightarrow> fixture_metadata \<Rightarrow> tracker \<Rightarrow> local_ar_step list \<Rightarrow> tensor \<Rightarrow> bool" where
  "case_facts document metadata t ss expected \<longleftrightarrow>
     tracked 0 t ss \<and> ended t \<and>
     got document ''local_ar_invocations'' = JInt (int (length ss)) \<and>
     got document ''main_execution_status_check_count'' = JInt (int (length ss) - 1) \<and>
     got document ''attended_trace_length'' = JInt (int (length ss)) \<and>
     got document ''final_rng_counter'' = JInt (16 * int (length ss)) \<and>
     got document ''generated_frames'' = JInt (int (kept_frames t)) \<and>
     got document ''code_exact'' = JBool (generated_codes t = expected) \<and>
     (got document ''first_code_mismatch'' = JNull \<longleftrightarrow> generated_codes t = expected) \<and>
     got document ''fixture_id'' = JStr (fm_fixture_id metadata) \<and>
     got document ''local_ar_seed'' = JInt (fm_local_ar_seed metadata) \<and>
     got document ''main_execution_status_all_zero'' = JBool True \<and>
     got document ''generated_codes_sha256'' = JStr (codes_digest (generated_codes t)) \<and>
     got document ''expected_codes_sha256'' = JStr (codes_digest expected)"

lemma case_document_facts:
  fixes name metadata fixture metrics n checks artifacts
  defines "doc r \<equiv> case_document name metadata fixture metrics r n checks artifacts"
  shows "got (doc r) ''local_ar_invocations'' = JInt (int (sc_local_ar_invocations r))"
    "got (doc r) ''main_execution_status_check_count'' = JInt (int checks)"
    "got (doc r) ''attended_trace_length'' = JInt (int n)"
    "got (doc r) ''final_rng_counter'' = JInt (sc_final_rng_counter r)"
    "got (doc r) ''generated_frames'' = JInt (int (sc_generated_frames r))"
    "got (doc r) ''code_exact'' = JBool (sc_code_exact r)"
    "got (doc r) ''first_code_mismatch'' = mismatch_record (sc_first_mismatch r)"
    "got (doc r) ''fixture_id'' = JStr (fm_fixture_id metadata)"
    "got (doc r) ''local_ar_seed'' = JInt (fm_local_ar_seed metadata)"
    "got (doc r) ''main_execution_status_all_zero'' = JBool True"
    "got (doc r) ''generated_codes_sha256'' = JStr (sc_generated_codes_sha256 r)"
    "got (doc r) ''expected_codes_sha256'' = JStr (sc_expected_codes_sha256 r)"
    "got (doc r) ''fixture_manifest_sha256'' = JStr (df_manifest_sha256 fixture)"
    "got (doc r) ''artifacts'' = JList artifacts"
  by (simp_all add: doc_def case_document_def dict_get_def)

lemma mismatch_record_null: "mismatch_record m = JNull \<longleftrightarrow> m = None"
  by (cases m) (simp_all add: mismatch_record_def json_option_def)

lemma run_fixture_sequence_result:
  assumes "run_fixture_sequence argmax sessions w case_index = Inr document" "sw_expected_codes w = Inr expected"
  obtains fixture metadata prefill start final comparison metrics name artifacts where
    "sw_fixture w = Inr fixture" "sw_metadata w = Inr metadata" "initial_state (df_text_tokens fixture) prefill = Inr start"
    "generation_loop argmax sessions (fm_local_ar_seed metadata) (po_cross_caches prefill) start = Inr final"
    "compare_codes (ge_tracker final) expected = Inr comparison"
    "document = case_document name metadata fixture metrics comparison (length (ge_attended final)) (ge_checks final) artifacts"
proof -
  have codes: "codes = expected" if "require_generation_codes fixture (sw_expected_codes w) = Inr codes" for fixture codes
    using that assms(2) by (auto simp: require_generation_codes_def bindE_eq_Inr split: option.splits if_splits)
  show ?thesis
    using assms(1) codes that
    by (auto simp: run_fixture_sequence_def Let_def bindE_eq_Inr guardE_eq_Inr)
qed

lemma sequence_case:
  assumes "run_fixture_sequence argmax sessions w case_index = Inr document" and "sessions_wf sessions"
    and "sw_expected_codes w = Inr expected" and "tensor_wf expected" and "t_dtype expected = Int64"
    and "t_shape expected = [1, 8, width]"
  shows "\<exists>fixture metadata t ss. sw_fixture w = Inr fixture \<and> sw_metadata w = Inr metadata \<and>
    got document ''fixture_manifest_sha256'' = JStr (df_manifest_sha256 fixture) \<and> case_facts document metadata t ss expected \<and>
    length ss \<le> 250 \<and> 4 \<le> kept_frames t"
proof -
  obtain fixture metadata prefill start final comparison metrics name artifacts where m: "sw_fixture w = Inr fixture" "sw_metadata w = Inr metadata" and
    r: "initial_state (df_text_tokens fixture) prefill = Inr start"
    "generation_loop argmax sessions (fm_local_ar_seed metadata) (po_cross_caches prefill) start = Inr final"
    "compare_codes (ge_tracker final) expected = Inr comparison"
    and d: "document = case_document name metadata fixture metrics comparison (length (ge_attended final)) (ge_checks final) artifacts"
    by (rule run_fixture_sequence_result [OF assms(1,3)])
  from loop_finishes [OF r(2) initial_state_running [OF r(1)] assms(2)] obtain ss where
    f: "tracked 0 (ge_tracker final) ss" "ended (ge_tracker final)" "Suc (ge_checks final) = length ss"
    "length (ge_attended final) = length ss" by (auto simp: finished_run_def)
  from compare_codes_result [OF f(1,2) assms(4-6)] obtain r' where r': "compare_codes (ge_tracker final) expected = Inr r'" and
    c': "sc_code_exact r' \<longleftrightarrow> generated_codes (ge_tracker final) = expected"
      "sc_code_exact r' \<longleftrightarrow> sc_first_mismatch r' = None" "sc_generated_frames r' = kept_frames (ge_tracker final)"
      "sc_local_ar_invocations r' = local_ar_invocations (ge_tracker final)"
      "sc_final_rng_counter r' = rng_counter (ge_tracker final)" by (elim exE conjE)
  from r(3) r' have "r' = comparison" by simp
  note c = c' [unfolded this]
  from tracked_inv [OF f(1)] f(2) have i: "local_ar_invocations (ge_tracker final) = length ss"
    "rng_counter (ge_tracker final) = 16 * int (length ss)" "4 \<le> kept_frames (ge_tracker final)"
    "length ss \<le> 250"
    by (simp_all add: tracker_inv_def local_ar_invocations_def MIN_GENERATED_FRAMES_def MAX_DECODER_STEPS_def)
  from f(3) have checks: "int (ge_checks final) = int (length ss) - 1" by simp
  have "case_facts document metadata (ge_tracker final) ss expected"
    unfolding case_facts_def d case_document_facts mismatch_record_null f(4) checks using c i f compare_codes_digests [OF r(3)] by simp
  moreover have "got document ''fixture_manifest_sha256'' = JStr (df_manifest_sha256 fixture)"
    unfolding d by (rule case_document_facts)
  ultimately show ?thesis using m i by blast
qed


definition demo_manifest_digest :: "nat \<Rightarrow> pystr" where
  "demo_manifest_digest k = replicate 64 (48 + k)"

definition demo_sequence_fixture :: "nat \<Rightarrow> decoder_fixture" where
  "demo_sequence_fixture k =
     (let t = (\<lambda>name dt shape. (JStr (pys name), \<lparr>ft_path = [], ft_dtype = JStr (pys dt), ft_shape = map JInt shape,
                 ft_size_bytes = JInt 0, ft_sha256 = JNull\<rparr>))
      in \<lparr>df_root = [], df_manifest_sha256 = demo_manifest_digest k, df_text_tokens = 1,
          df_tensors = [t ''generation.codes'' ''int64'' [1, 8, 5], t ''input.text_token_ids'' ''int32'' [1, 1],
                        t ''text.mask'' ''bool'' [1, 1], t ''text.condition'' ''bf16'' [1, 1, 768]]\<rparr>)"

definition demo_sequence_answers :: "nat \<Rightarrow> (unit, unit, unit, int) sequence_answers" where
  "demo_sequence_answers k =
     \<lparr>sw_fixture = Inr (demo_sequence_fixture k),
      sw_metadata = Inr \<lparr>fm_fixture_id = pys ''f'', fm_text = pys ''t'', fm_language = pys ''ja'', fm_local_ar_seed = 7\<rparr>,
      sw_expected_codes = Inr demo_expected, sw_text_outputs = Inr [''text_condition''], sw_condition_metrics = Inr (JObj []),
      sw_boundary_accepted = Inr True, sw_prefill = Inr demo_sequence_prefill, sw_write = (\<lambda>_ _. Inr ())\<rparr>"

lemma demo_sequence_paths:
  assumes "k < 3" "name = pys ''generated-codes.int64.bin'' \<or> name = pys ''attended-trace.int64.bin''"
  defines "path \<equiv> pys ''sequences/'' @ case_name_of k (demo_manifest_digest k) @ pys ''/'' @ name"
  shows "pure_root path = [] \<and> [46, 46] \<notin> set (pure_components path)"
proof -
  have "\<forall>k \<in> set [0, 1, 2]. \<forall>name \<in> set [pys ''generated-codes.int64.bin'', pys ''attended-trace.int64.bin''].
      (let path = pys ''sequences/'' @ case_name_of k (demo_manifest_digest k) @ pys ''/'' @ name
       in pure_root path = [] \<and> [46, 46] \<notin> set (pure_components path))" by code_simp
  moreover have "k \<in> set [0, 1, 2]" using assms(1) by auto
  ultimately show ?thesis using assms(2) unfolding path_def by (auto simp: Let_def)
qed

lemma demo_sessions_wf: "sessions_wf demo_sessions"
  by (auto simp: sessions_wf_def demo_sessions_def demo_step_def tensor_wf_def)

lemma demo_expected_wf: "tensor_wf demo_expected" "t_dtype demo_expected = Int64" "t_shape demo_expected = [1, 8, 5]"
  by (simp_all add: demo_expected_def tensor_wf_def)

lemma demo_sequence_runs:
  assumes "k < 3"
  shows "\<exists>document. run_fixture_sequence first_argmax demo_sessions (demo_sequence_answers k) k = Inr document \<and>
    got document ''code_exact'' = JBool True"
proof -
  obtain g final where g: "initial_state 1 demo_sequence_prefill = Inr g"
    "generation_loop first_argmax demo_sessions 7 () g = Inr final" "ge_attended final = [0, 0, 0]"
    and exact: "generated_codes (ge_tracker final) = demo_expected"
    using demo_generation by blast
  from loop_finishes [OF g(2) initial_state_running [OF g(1)] demo_sessions_wf] obtain ss where
    f: "tracked 0 (ge_tracker final) ss" "ended (ge_tracker final)" by (auto simp: finished_run_def)
  from compare_codes_result [OF f demo_expected_wf] exact obtain comparison where
    c: "compare_codes (ge_tracker final) demo_expected = Inr comparison" "sc_code_exact comparison"
    by (elim exE conjE) simp
  have codes: "require_generation_codes (demo_sequence_fixture k) (Inr demo_expected) = Inr demo_expected"
    by (simp add: require_generation_codes_def demo_sequence_fixture_def fixture_lookup_def codes_shape_ok_def
        dimension_of_def int_list_def MAX_DECODER_STEPS_def num_case_def num_eq_def)
  have texts: "all_steps (check_text_tensor (demo_sequence_fixture k)) (text_contract 1) = Inr ()"
    by (simp add: all_steps_def text_contract_def check_text_tensor_def demo_sequence_fixture_def fixture_lookup_def
        int_list_def MODEL_WIDTH_def num_case_def num_eq_def)
  have trace: "monotonic (ge_attended final)" by (simp add: g(3) monotonic_def)
  let ?folder = "pys ''sequences/'' @ case_name_of k (demo_manifest_digest k) @ pys ''/''"
  have written: "\<exists>a. write_int64_artifact (\<lambda>_ _. Inr ()) (?folder @ name) v = Inr a"
    if "t_dtype v = Int64" "name = pys ''generated-codes.int64.bin'' \<or> name = pys ''attended-trace.int64.bin''" for v name
    using demo_sequence_paths [OF assms that(2)] that(1) by (simp add: write_int64_artifact_def int64_payload_def)
  from written [of "generated_codes (ge_tracker final)" "pys ''generated-codes.int64.bin''"]
  obtain a where a: "write_int64_artifact (\<lambda>_ _. Inr ()) (?folder @ pys ''generated-codes.int64.bin'') (generated_codes (ge_tracker final)) = Inr a"
    by (auto simp: generated_codes_def)
  from written [of "trace_tensor (ge_attended final)" "pys ''attended-trace.int64.bin''"]
  obtain b where b: "write_int64_artifact (\<lambda>_ _. Inr ()) (?folder @ pys ''attended-trace.int64.bin'') (trace_tensor (ge_attended final)) = Inr b"
    by (auto simp: trace_tensor_def)
  have fields: "df_text_tokens (demo_sequence_fixture k) = 1" "df_manifest_sha256 (demo_sequence_fixture k) = demo_manifest_digest k"
    "po_cross_caches demo_sequence_prefill = ()"
    by (simp_all add: demo_sequence_fixture_def demo_sequence_prefill_def)
  show ?thesis
    unfolding run_fixture_sequence_def Let_def demo_sequence_answers_def
    using g(1,2) c codes texts trace a b by (simp add: fields case_document_facts)
qed


end
