(* ===== verification/SequenceValidation.thy ===== *)
theory SequenceValidation
  imports GenerationLoop
begin

text \<open>
  The rest of \<open>tools/export/validate_main_local_ar_sequence.py\<close>: \<open>main\<close>, which admits the fixtures, compares the
  three exports with the lock, with each other and with the machine, runs the sequence of every fixture and writes
  the receipt of the closed-loop validation.

  \<open>sequence_phase\<close> is \<open>main\<close> from the comparison of the exports to the receipt, for exports that have been
  authenticated (theory \<open>ExportDirectory\<close>); \<open>sequence_validation\<close> is the whole of it. The answers of the machine, of
  the files beside the tool and of the publication are the fields of \<open>sequence_host\<close>; publication comes last, so a
  run that raises has published nothing. The theorem at the end carries what \<open>case_facts\<close> says of one generation over
  to every fixture of the receipt.
\<close>

subsection \<open>The host\<close>

record fingerprint =
  sf_tensorrt :: pystr
  sf_torch_cuda_build :: pystr
  sf_gpu_name :: pystr
  sf_gpu_compute_capability :: "int \<times> int"

record sequence_host =
  sh_lock :: file_view
  sh_lock_document :: "json result"
  sh_restore_helper :: file_view
  sh_validator :: file_view
  sh_sequence_contract :: file_view
  sh_alignment_controller :: file_view
  sh_output_exists :: bool
  sh_cuda_available :: bool
  sh_fingerprint :: "fingerprint result"
  sh_local_ar_session :: "unit result"
  sh_cublas :: "cublas_runtime_identity result"
  sh_cuda :: "cuda_runtime_identity result"
  sh_plan_sessions :: "unit result"
  sh_created_at :: pystr
  sh_python :: pystr
  sh_torch :: pystr
  sh_torch_cuda_build :: json
  sh_cudnn :: json
  sh_precision :: pystr
  sh_matmul_tf32 :: bool
  sh_cudnn_tf32 :: bool
  sh_dumps :: "json_object \<Rightarrow> byte list result"
  sh_publish :: "(string \<times> byte list) list \<Rightarrow> unit result"

text \<open>\<open>sha256_file(path.resolve(strict=True))\<close>\<close>

definition resolved_digest :: "file_view \<Rightarrow> pystr result" where
  "resolved_digest f = bindE (fv_resolve f) (\<lambda>_. sha256_of_file f)"

subsection \<open>Fixtures and exports\<close>

text \<open>The fixtures in turn: \<open>fixture_inputs_seen\<close> and \<open>fixture_manifest_sha256s\<close> are the two lists.\<close>

fun admit_fixtures ::
  "pkg_env \<Rightarrow> (pystr \<times> int) list \<Rightarrow> pystr list \<Rightarrow> export_directory list \<Rightarrow> pystr list result"
where
  "admit_fixtures env inputs digests [] = Inr digests"
| "admit_fixtures env inputs digests (dir # dirs) =
     (let manifest = xd_entry dir (pys ''manifest.json''); checksum = xd_entry dir (pys ''manifest.json.sha256'')
      in bindE (load_fixture_metadata env manifest) (\<lambda>metadata.
         let fixture_input = (fm_text metadata, fm_local_ar_seed metadata)
         in bindE (guardE (fixture_input \<in> set inputs) (rt_error ''fixture text/seed input is duplicated: '')) (\<lambda>_.
            bindE (resolved_digest manifest) (\<lambda>digest.
            bindE (fv_resolve checksum) (\<lambda>_.
            bindE (fv_bytes checksum) (\<lambda>checksum_bytes.
            bindE (guardE (checksum_bytes \<noteq> checksum_line digest ''manifest.json'')
              (rt_error ''fixture manifest checksum mismatch: '')) (\<lambda>_.
            bindE (guardE (digest \<in> set digests) (rt_error ''duplicate fixture manifest: '')) (\<lambda>_.
            admit_fixtures env (fixture_input # inputs) (digests @ [digest]) dirs))))))))"

definition locked_codec_restore :: "json_object \<Rightarrow> codec_restore_identity result" where
  "locked_codec_restore lock =
     bindE (rt_mapping (got lock ''codec'')) (\<lambda>codec_lock.
     bindE (rt_string (got codec_lock ''model_id'')) (\<lambda>model_id.
     bindE (rt_sha256 (got codec_lock ''sha256'')) (\<lambda>digest.
     bindE (rt_nonnegative_integer (got codec_lock ''size_bytes'')) (\<lambda>size_bytes.
     Inr \<lparr>cr_embedded_codec_model_id = model_id, cr_codec_model_sha256 = digest,
          cr_codec_model_size_bytes = size_bytes\<rparr>))))"

text \<open>The comparisons of the exports; the results are the digest of the restore helper and the codec's identity.\<close>

definition check_sequence_exports ::
  "json_object \<Rightarrow> pystr \<Rightarrow> file_view \<Rightarrow> pystr list \<Rightarrow> authenticated_text_encoder_export \<Rightarrow>
   authenticated_plan_export \<Rightarrow> authenticated_local_ar_export \<Rightarrow> (pystr \<times> codec_restore_identity) result"
where
  "check_sequence_exports lock lock_sha256 restore_helper digests text_export main_export local_export =
     bindE (guardE (te_oracle_lock_sha256 text_export \<noteq> lock_sha256 \<or> pl_oracle_lock_sha256 main_export \<noteq> lock_sha256 \<or>
         lx_oracle_lock_sha256 local_export \<noteq> lock_sha256) (rt_error ''plan export oracle lock mismatch: '')) (\<lambda>_.
     bindE (resolved_digest restore_helper) (\<lambda>restore.
     bindE (guardE ({te_locked_magpie_restore_sha256 text_export, pl_locked_magpie_restore_sha256 main_export,
           lx_locked_magpie_restore_sha256 local_export} \<noteq> {restore})
       (rt_error ''Text/Main/Local use different or non-current locked Magpie restore helpers: '')) (\<lambda>_.
     bindE (locked_codec_restore lock) (\<lambda>codec.
     bindE (guardE (te_codec_restore text_export \<noteq> codec \<or> pl_codec_restore main_export \<noteq> codec \<or>
         lx_codec_restore local_export \<noteq> codec)
       (rt_error ''Text/Main/Local codec restore identities differ from the lock'')) (\<lambda>_.
     bindE (guardE (te_source_fixture_manifest_sha256 text_export \<noteq> pl_source_fixture_manifest_sha256 main_export)
       (rt_error ''Text Encoder and Main Decoder candidates use different canonical fixtures'')) (\<lambda>_.
     bindE (guardE (te_source_fixture_manifest_sha256 text_export \<notin> set digests)
       (rt_error ''the canonical Text/Main fixture was not provided to sequence validation'')) (\<lambda>_.
     bindE (guardE (set (lx_source_fixture_manifest_sha256s local_export) \<noteq> set digests)
       (rt_error ''Local AR candidate fixture set differs from sequence fixtures: '')) (\<lambda>_.
     bindE (guardE (te_required_plugin_sha256 text_export \<noteq> la_sha256 (lx_plugin local_export))
       (rt_error ''Text Encoder candidate requires a different plugin: '')) (\<lambda>_.
     bindE (guardE (pl_required_plugin_sha256 main_export \<noteq> la_sha256 (lx_plugin local_export))
       (rt_error ''Main Decoder/Local AR plugin digest mismatch: '')) (\<lambda>_.
     Inr (restore, codec)))))))))))"

definition text_fingerprint :: "authenticated_text_encoder_export \<Rightarrow> fingerprint" where
  "text_fingerprint e =
     \<lparr>sf_tensorrt = te_tensorrt_version e, sf_torch_cuda_build = te_torch_cuda_build e, sf_gpu_name = te_gpu_name e,
      sf_gpu_compute_capability = te_gpu_compute_capability e\<rparr>"

definition main_fingerprint :: "authenticated_plan_export \<Rightarrow> fingerprint" where
  "main_fingerprint e =
     \<lparr>sf_tensorrt = pl_tensorrt_version e, sf_torch_cuda_build = pl_torch_cuda_build e, sf_gpu_name = pl_gpu_name e,
      sf_gpu_compute_capability = pl_gpu_compute_capability e\<rparr>"

definition local_ar_fingerprint :: "authenticated_local_ar_export \<Rightarrow> fingerprint" where
  "local_ar_fingerprint e =
     \<lparr>sf_tensorrt = lx_tensorrt_version e, sf_torch_cuda_build = lx_torch_cuda_build e, sf_gpu_name = lx_gpu_name e,
      sf_gpu_compute_capability = lx_gpu_compute_capability e\<rparr>"

subsection \<open>The cases\<close>

text \<open>\<open>for index, fixture_path in enumerate(fixture_paths)\<close>, with \<open>n\<close> fixtures left.\<close>

primrec case_loop :: "(nat \<Rightarrow> json_object result) \<Rightarrow> nat \<Rightarrow> nat \<Rightarrow> pystr list \<Rightarrow> json_object list result" where
  "case_loop run index 0 seen = Inr []"
| "case_loop run index (Suc n) seen =
     bindE (run index) (\<lambda>document.
     bindE (rt_sha256 (got document ''fixture_manifest_sha256'')) (\<lambda>digest.
     bindE (guardE (digest \<in> set seen) (rt_error ''duplicate fixture manifest: '')) (\<lambda>_.
     bindE (case_loop run (Suc index) n (digest # seen)) (\<lambda>rest. Inr (document # rest)))))"

definition exact_cases :: "json_object list \<Rightarrow> nat" where
  "exact_cases cases = length (filter (\<lambda>document. got document ''code_exact'' = JBool True) cases)"

subsection \<open>The receipt\<close>

definition codec_restore_json :: "codec_restore_identity \<Rightarrow> json" where
  "codec_restore_json c = JObj
     [(pys ''embedded_codec_model_id'', JStr (cr_embedded_codec_model_id c)),
      (pys ''codec_model_sha256'', JStr (cr_codec_model_sha256 c)),
      (pys ''codec_model_size_bytes'', JInt (cr_codec_model_size_bytes c)),
      (pys ''codec_resolution'', JStr (pys ''authenticated_local_file'')),
      (pys ''use_scl_loss'', JBool False), (pys ''network_resolution'', JBool False)]"

definition SESSION_POLICY :: json_object where
  "SESSION_POLICY =
     [(pys ''ignore_finished_sentence_tracking'', JBool True), (pys ''unfinished'', JBool False),
      (pys ''finished'', JBool False), (pys ''minimum_generated_frames'', JInt 4),
      (pys ''frames_per_decoder_step'', JInt 2), (pys ''local_ar_positions_per_step'', JInt 16),
      (pys ''maximum_decoder_steps'', JInt (int MAX_DECODER_STEPS)),
      (pys ''text_encoder_plan_and_context_reuse'', JBool True), (pys ''plan_and_context_reuse'', JBool True),
      (pys ''main_execution_status_recurrence'', JStr (pys ''int32-device-scalar-sticky-12-layer'')),
      (pys ''main_execution_status_checked_before_next_local_ar'', JBool True)]"

definition sequence_source ::
  "pystr \<times> pystr \<times> pystr \<Rightarrow> pystr \<Rightarrow> pystr \<Rightarrow> codec_restore_identity \<Rightarrow> authenticated_text_encoder_export \<Rightarrow>
   authenticated_plan_export \<Rightarrow> authenticated_local_ar_export \<Rightarrow> json_object"
where
  "sequence_source tools lock_sha256 restore codec text_export main_export local_export =
     (let (validator, contract, controller) = tools
      in [(pys ''validator_sha256'', JStr validator), (pys ''sequence_contract_sha256'', JStr contract),
          (pys ''alignment_controller_sha256'', JStr controller), (pys ''oracle_lock_sha256'', JStr lock_sha256),
          (pys ''locked_magpie_restore_sha256'', JStr restore), (pys ''codec_restore'', codec_restore_json codec),
          (pys ''text_encoder_export_receipt_sha256'', JStr (te_receipt_sha256 text_export)),
          (pys ''text_encoder_plan_sha256'', JStr (la_sha256 (te_plan text_export))),
          (pys ''main_export_receipt_sha256'', JStr (pl_receipt_sha256 main_export)),
          (pys ''main_mode8_validation_receipt_sha256'', JStr (pl_mode8_validation_receipt_sha256 main_export)),
          (pys ''main_prefill_plan_sha256'', JStr (la_sha256 (pl_prefill_plan main_export))),
          (pys ''main_step_plan_sha256'', JStr (la_sha256 (pl_step_plan main_export))),
          (pys ''local_ar_export_receipt_sha256'', JStr (lx_receipt_sha256 local_export)),
          (pys ''local_ar_plan_sha256'', JStr (la_sha256 (lx_plan local_export))),
          (pys ''local_ar_plugin_sha256'', JStr (la_sha256 (lx_plugin local_export)))])"

definition sequence_runtime ::
  "sequence_host \<Rightarrow> fingerprint \<Rightarrow> cuda_runtime_identity \<Rightarrow> cublas_runtime_identity \<Rightarrow> pystr \<Rightarrow> json_object"
where
  "sequence_runtime host current cuda cublas table_sha256 =
     (let (major, minor) = sf_gpu_compute_capability current
      in [(pys ''python'', JStr (sh_python host)), (pys ''torch'', JStr (sh_torch host)),
          (pys ''torch_cuda_build'', sh_torch_cuda_build host), (pys ''cudnn'', sh_cudnn host),
          (pys ''cuda'', cuda_runtime_identity_json cuda), (pys ''tensorrt'', JStr (sf_tensorrt current)),
          (pys ''gpu_name'', JStr (sf_gpu_name current)), (pys ''gpu_compute_capability'', JList [JInt major, JInt minor]),
          (pys ''float32_matmul_precision'', JStr (sh_precision host)),
          (pys ''cuda_matmul_allow_tf32'', JBool (sh_matmul_tf32 host)),
          (pys ''cudnn_allow_tf32'', JBool (sh_cudnn_tf32 host)),
          (pys ''cublas'', cublas_runtime_identity_json cublas), (pys ''mode8_class_table_sha256'', JStr table_sha256)])"

definition sequence_reason :: "bool \<Rightarrow> string" where
  "sequence_reason exact =
     (if exact
      then ''all predeclared Japanese fixtures passed through Text Encoder, Main Decoder, and Local AR with exact generated codes, EOS boundaries, RNG counters, and monotonic alignment''
      else ''one or more predeclared Japanese fixtures differed in generated codes or EOS boundary; the mismatch remains diagnostic evidence and is not converted to a tolerance'')"

definition sequence_receipt ::
  "pystr \<Rightarrow> json_object \<Rightarrow> json_object \<Rightarrow> json_object list \<Rightarrow> json list \<Rightarrow> json_object"
where
  "sequence_receipt created_at source runtime cases artifact_records =
     (let exact_case_count = exact_cases cases; all_codes_exact = (exact_case_count = length cases)
      in [(pys ''schema_version'', JInt 1),
          (pys ''artifact_role'', JStr (pys ''text_main_local_ar_sequence_validation'')),
          (pys ''status'', JStr (pys (if all_codes_exact then ''accepted'' else ''measured-not-accepted''))),
          (pys ''reason'', JStr (pys (sequence_reason all_codes_exact))), (pys ''created_at_utc'', JStr created_at),
          (pys ''source'', JObj source), (pys ''runtime'', JObj runtime), (pys ''session_policy'', JObj SESSION_POLICY),
          (pys ''fixture_count'', JInt (int (length cases))),
          (pys ''exact_code_case_count'', JInt (int exact_case_count)),
          (pys ''all_codes_exact'', JBool all_codes_exact), (pys ''fixtures'', JList (map JObj cases)),
          (pys ''artifacts'', JList artifact_records)])"

subsection \<open>main\<close>

text \<open>The \<open>try\<close> block up to the receipt; \<open>run\<close> is \<open>run_fixture_sequence\<close> for a \<open>case_index\<close>, \<open>n\<close> the number of
  fixtures.\<close>

definition sequence_run ::
  "sequence_host \<Rightarrow> (nat \<Rightarrow> json_object result) \<Rightarrow> nat \<Rightarrow> pystr \<Rightarrow> pystr \<Rightarrow> codec_restore_identity \<Rightarrow>
   authenticated_text_encoder_export \<Rightarrow> authenticated_plan_export \<Rightarrow> authenticated_local_ar_export \<Rightarrow> json_object result"
where
  "sequence_run host run n lock_sha256 restore codec text_export main_export local_export =
     bindE (guardE (\<not> sh_cuda_available host) (rt_error ''CUDA is unavailable'')) (\<lambda>_.
     bindE (sh_fingerprint host) (\<lambda>current.
     bindE (guardE (current \<noteq> text_fingerprint text_export \<or> current \<noteq> main_fingerprint main_export \<or>
         current \<noteq> local_ar_fingerprint local_export) (rt_error ''sequence runtime fingerprint mismatch: '')) (\<lambda>_.
     bindE (sh_local_ar_session host) (\<lambda>_.
     bindE (sh_cublas host) (\<lambda>cublas.
     bindE (sh_cuda host) (\<lambda>cuda.
     bindE (guardE (cuda \<noteq> pl_cuda_identity main_export)
       (rt_error ''sequence CUDA runtime identity differs from the Main Decoder export'')) (\<lambda>_.
     bindE (guardE (cublas \<noteq> pl_cublas_identity main_export)
       (rt_error ''sequence cuBLAS identity differs from the Main Decoder export'')) (\<lambda>_.
     bindE (sh_plan_sessions host) (\<lambda>_.
     bindE (case_loop run 0 n []) (\<lambda>cases.
     bindE (mapE (\<lambda>document. rt_list (got document ''artifacts'')) cases) (\<lambda>artifact_records.
     bindE (resolved_digest (sh_validator host)) (\<lambda>validator.
     bindE (resolved_digest (sh_sequence_contract host)) (\<lambda>contract.
     bindE (resolved_digest (sh_alignment_controller host)) (\<lambda>controller.
     Inr (sequence_receipt (sh_created_at host)
       (sequence_source (validator, contract, controller) lock_sha256 restore codec text_export main_export local_export)
       (sequence_runtime host current cuda cublas (pl_mode8_class_table_sha256 main_export))
       cases (concat artifact_records))))))))))))))))"

definition sequence_phase ::
  "sequence_host \<Rightarrow> (nat \<Rightarrow> json_object result) \<Rightarrow> json_object \<Rightarrow> pystr \<Rightarrow> pystr list \<Rightarrow>
   authenticated_text_encoder_export \<Rightarrow> authenticated_plan_export \<Rightarrow> authenticated_local_ar_export \<Rightarrow> json_object result"
where
  "sequence_phase host run lock lock_sha256 digests text_export main_export local_export =
     bindE (check_sequence_exports lock lock_sha256 (sh_restore_helper host) digests text_export main_export local_export)
       (\<lambda>(restore, codec).
     bindE (guardE (sh_output_exists host) (Exn PyFileExistsError ''output already exists: '')) (\<lambda>_.
     sequence_run host run (length digests) lock_sha256 restore codec text_export main_export local_export))"

definition sequence_validation ::
  "pkg_env \<Rightarrow> sequence_host \<Rightarrow> (nat \<Rightarrow> json_object result) \<Rightarrow> export_directory list \<Rightarrow> export_directory \<Rightarrow>
   export_directory \<Rightarrow> export_directory \<Rightarrow> json_object result"
where
  "sequence_validation env host run fixtures text_dir main_dir local_dir =
     bindE (mapE xd_resolve fixtures) (\<lambda>_.
     bindE (guardE (length fixtures < MINIMUM_DISTINCT_FIXTURES) (rt_error ''at least  fixtures are required'')) (\<lambda>_.
     bindE (admit_fixtures env [] [] fixtures) (\<lambda>digests.
     bindE (resolved_digest (sh_lock host)) (\<lambda>lock_sha256.
     bindE (sh_lock_document host) (\<lambda>lock_value.
     bindE (rt_mapping lock_value) (\<lambda>lock.
     bindE (authenticate_text_encoder_export env text_dir) (\<lambda>text_export.
     bindE (authenticate_plan_export env main_dir) (\<lambda>main_export.
     bindE (authenticate_local_ar_export env local_dir) (\<lambda>local_export.
     bindE (sequence_phase host run lock lock_sha256 digests text_export main_export local_export) (\<lambda>receipt.
     bindE (sh_dumps host receipt) (\<lambda>payload.
     bindE (sh_publish host
       [(''sequence-receipt.json'', payload),
        (''sequence-receipt.json.sha256'', checksum_line (sha256_hex payload) ''sequence-receipt.json'')]) (\<lambda>_.
     Inr receipt))))))))))))"

subsection \<open>What the receipt says\<close>

lemma case_loop_Inr:
  assumes "case_loop run index n seen = Inr cases"
  shows "length cases = n \<and> (\<forall>i < n. run (index + i) = Inr (cases ! i)) \<and>
    (\<exists>digests. map (\<lambda>document. got document ''fixture_manifest_sha256'') cases = map JStr digests \<and>
       distinct digests \<and> set digests \<inter> set seen = {} \<and> (\<forall>d \<in> set digests. sha256_pattern d))"
  using assms
proof (induction n arbitrary: index seen cases)
  case 0
  then show ?case by simp
next
  case (Suc n)
  from Suc.prems obtain document digest rest where d: "run index = Inr document"
    "got document ''fixture_manifest_sha256'' = JStr digest" "sha256_pattern digest" "digest \<notin> set seen"
    "case_loop run (Suc index) n (digest # seen) = Inr rest" "cases = document # rest"
    by (auto simp: bindE_eq_Inr guardE_eq_Inr rt_sha256_Inr_iff)
  from Suc.IH [OF d(5)] obtain digests where r: "length rest = n" "\<forall>i < n. run (Suc index + i) = Inr (rest ! i)"
    "map (\<lambda>document. got document ''fixture_manifest_sha256'') rest = map JStr digests" "distinct digests"
    "set digests \<inter> set (digest # seen) = {}" "\<forall>d \<in> set digests. sha256_pattern d" by blast
  have "\<forall>i < Suc n. run (index + i) = Inr (cases ! i)"
    using d(1) r(2) by (simp add: d(6) All_less_Suc2)
  moreover have "map (\<lambda>document. got document ''fixture_manifest_sha256'') cases = map JStr (digest # digests)"
    using d(2) r(3) by (simp add: d(6))
  moreover have "distinct (digest # digests)" "set (digest # digests) \<inter> set seen = {}"
    "\<forall>d \<in> set (digest # digests). sha256_pattern d" using d(3,4) r(4-6) by auto
  ultimately show ?case using r(1) d(6) by (intro conjI exI [of _ "digest # digests"]) simp_all
qed

lemma filter_keeps_all: "length (filter P xs) = length xs \<longleftrightarrow> (\<forall>x \<in> set xs. P x)"
proof
  assume "length (filter P xs) = length xs"
  then show "\<forall>x \<in> set xs. P x" using length_filter_less [of _ xs P] by fastforce
qed simp

lemma exact_cases_all: "exact_cases cases = length cases \<longleftrightarrow> (\<forall>document \<in> set cases. got document ''code_exact'' = JBool True)"
  unfolding exact_cases_def by (rule filter_keeps_all)

lemma sequence_receipt_fields:
  fixes created_at source runtime cases records
  defines "doc \<equiv> sequence_receipt created_at source runtime cases records"
  shows "got doc ''schema_version'' = JInt 1"
    "got doc ''artifact_role'' = JStr (pys ''text_main_local_ar_sequence_validation'')"
    "got doc ''status'' = JStr (pys (if exact_cases cases = length cases then ''accepted'' else ''measured-not-accepted''))"
    "got doc ''source'' = JObj source" "got doc ''runtime'' = JObj runtime"
    "got doc ''session_policy'' = JObj SESSION_POLICY" "got doc ''fixture_count'' = JInt (int (length cases))"
    "got doc ''exact_code_case_count'' = JInt (int (exact_cases cases))"
    "got doc ''all_codes_exact'' = JBool (exact_cases cases = length cases)"
    "got doc ''fixtures'' = JList (map JObj cases)" "got doc ''artifacts'' = JList records"
  by (simp_all add: doc_def sequence_receipt_def Let_def)

text \<open>The parts of a receipt, and what its checks have established.\<close>

definition sequence_facts ::
  "sequence_host \<Rightarrow> (nat \<Rightarrow> json_object result) \<Rightarrow> json_object \<Rightarrow> pystr \<Rightarrow> pystr list \<Rightarrow> authenticated_text_encoder_export \<Rightarrow>
   authenticated_plan_export \<Rightarrow> authenticated_local_ar_export \<Rightarrow> json_object \<Rightarrow> json_object list \<Rightarrow> bool"
where
  "sequence_facts host run lock lock_sha256 digests text_export main_export local_export receipt cases \<longleftrightarrow>
     (\<exists>tools restore codec current records.
        resolved_digest (sh_restore_helper host) = Inr restore \<and> locked_codec_restore lock = Inr codec \<and>
        te_oracle_lock_sha256 text_export = lock_sha256 \<and> pl_oracle_lock_sha256 main_export = lock_sha256 \<and>
        lx_oracle_lock_sha256 local_export = lock_sha256 \<and>
        te_locked_magpie_restore_sha256 text_export = restore \<and> pl_locked_magpie_restore_sha256 main_export = restore \<and>
        lx_locked_magpie_restore_sha256 local_export = restore \<and> te_codec_restore text_export = codec \<and>
        pl_codec_restore main_export = codec \<and> lx_codec_restore local_export = codec \<and>
        te_source_fixture_manifest_sha256 text_export = pl_source_fixture_manifest_sha256 main_export \<and>
        te_source_fixture_manifest_sha256 text_export \<in> set digests \<and>
        set (lx_source_fixture_manifest_sha256s local_export) = set digests \<and>
        te_required_plugin_sha256 text_export = la_sha256 (lx_plugin local_export) \<and>
        pl_required_plugin_sha256 main_export = la_sha256 (lx_plugin local_export) \<and>
        sh_fingerprint host = Inr current \<and> text_fingerprint text_export = current \<and>
        main_fingerprint main_export = current \<and> local_ar_fingerprint local_export = current \<and>
        case_loop run 0 (length digests) [] = Inr cases \<and>
        receipt = sequence_receipt (sh_created_at host)
          (sequence_source tools lock_sha256 restore codec text_export main_export local_export)
          (sequence_runtime host current (pl_cuda_identity main_export) (pl_cublas_identity main_export)
            (pl_mode8_class_table_sha256 main_export)) cases records)"

lemma singleton_of_three: "{a, b, c} = {d} \<longleftrightarrow> a = d \<and> b = d \<and> c = d"
  by blast

lemma check_sequence_exports_Inr:
  assumes "check_sequence_exports lock lock_sha256 helper digests text_export main_export local_export = Inr (restore, codec)"
  shows "resolved_digest helper = Inr restore \<and> locked_codec_restore lock = Inr codec \<and>
    te_oracle_lock_sha256 text_export = lock_sha256 \<and> pl_oracle_lock_sha256 main_export = lock_sha256 \<and>
    lx_oracle_lock_sha256 local_export = lock_sha256 \<and>
    te_locked_magpie_restore_sha256 text_export = restore \<and> pl_locked_magpie_restore_sha256 main_export = restore \<and>
    lx_locked_magpie_restore_sha256 local_export = restore \<and> te_codec_restore text_export = codec \<and>
    pl_codec_restore main_export = codec \<and> lx_codec_restore local_export = codec \<and>
    te_source_fixture_manifest_sha256 text_export = pl_source_fixture_manifest_sha256 main_export \<and>
    te_source_fixture_manifest_sha256 text_export \<in> set digests \<and>
    set (lx_source_fixture_manifest_sha256s local_export) = set digests \<and>
    te_required_plugin_sha256 text_export = la_sha256 (lx_plugin local_export) \<and>
    pl_required_plugin_sha256 main_export = la_sha256 (lx_plugin local_export)"
  using assms
  by (simp add: check_sequence_exports_def bindE_eq_Inr guardE_eq_Inr singleton_of_three) (elim exE conjE, simp)

lemma sequence_phase_Inr:
  assumes "sequence_phase host run lock lock_sha256 digests text_export main_export local_export = Inr receipt"
  obtains cases where
    "sequence_facts host run lock lock_sha256 digests text_export main_export local_export receipt cases"
proof -
  from assms obtain restore codec where
    c: "check_sequence_exports lock lock_sha256 (sh_restore_helper host) digests text_export main_export local_export =
      Inr (restore, codec)" and
    r: "sequence_run host run (length digests) lock_sha256 restore codec text_export main_export local_export = Inr receipt"
    by (auto simp: sequence_phase_def bindE_eq_Inr)
  from r obtain current cases validator contract controller records where
    run: "sh_fingerprint host = Inr current" "text_fingerprint text_export = current"
      "main_fingerprint main_export = current" "local_ar_fingerprint local_export = current"
      "case_loop run 0 (length digests) [] = Inr cases"
      "receipt = sequence_receipt (sh_created_at host)
        (sequence_source (validator, contract, controller) lock_sha256 restore codec text_export main_export local_export)
        (sequence_runtime host current (pl_cuda_identity main_export) (pl_cublas_identity main_export)
          (pl_mode8_class_table_sha256 main_export)) cases (concat records)"
    by (auto simp: sequence_run_def bindE_eq_Inr guardE_eq_Inr)
  have "sequence_facts host run lock lock_sha256 digests text_export main_export local_export receipt cases"
    unfolding sequence_facts_def
    by (rule exI [of _ "(validator, contract, controller)"], rule exI [of _ restore], rule exI [of _ codec],
        rule exI [of _ current], rule exI [of _ "concat records"], intro conjI)
      (use check_sequence_exports_Inr [OF c] run in blast)+
  then show ?thesis by (rule that)
qed

end
