(* ===== verification/SequenceReceipt.thy ===== *)
theory SequenceReceipt
  imports SequenceValidation SourceAcceptance
begin

text \<open>
  How \<open>tools/export/finalize_runtime_acceptance.py\<close> authenticates the evidence that is promoted:
  \<open>authenticate_receipt_directory\<close>, \<open>authenticate_nanocodec_export\<close> and \<open>authenticate_sequence_receipt\<close>.

  \<open>check_sequence_document\<close> is the second half of \<open>authenticate_sequence_receipt\<close>, on a receipt that has been read.
  The theorem at the end closes the loop with theory \<open>SequenceValidation\<close>: a receipt that the sequence validator wrote
  as accepted passes these checks, for the same exports and the same lock. The comparison of the entries of a
  directory is that of theory \<open>ExportDirectory\<close>, with its messages.
\<close>

subsection \<open>Receipt directories\<close>

definition require_regular_file :: "file_view \<Rightarrow> pystr result" where
  "require_regular_file f =
     bindE (guardE (fv_is_symlink f) (rt_error '' must not be a symbolic link: '')) (\<lambda>_.
     bindE (fv_resolve f) (\<lambda>resolved.
     bindE (guardE (\<not> fv_is_file f) (rt_error '' is not a regular file: '')) (\<lambda>_. Inr resolved)))"

record authenticated_directory =
  ad_root :: pystr
  ad_receipt :: json_object
  ad_receipt_sha256 :: pystr
  ad_artifacts :: "listed_artifact list"

definition receipt_artifact ::
  "export_directory \<Rightarrow> pystr \<Rightarrow> listed_artifact list \<Rightarrow> json \<Rightarrow> listed_artifact result"
where
  "receipt_artifact dir base authenticated raw =
     bindE (rt_mapping raw) (\<lambda>entry_doc.
     bindE (rt_safe_artifact_path (got entry_doc ''path'')) (\<lambda>relative.
     bindE (guardE (relative \<in> set (map la_relative authenticated)) (rt_error ''duplicate receipt artifact: '')) (\<lambda>_.
     bindE (rt_nonnegative_integer (got entry_doc ''size_bytes'')) (\<lambda>expected_size.
     bindE (rt_sha256 (got entry_doc ''sha256'')) (\<lambda>expected_sha256.
     bindE (require_regular_file (xd_entry dir relative)) (\<lambda>artifact_path.
     bindE (guardE (\<not> is_relative_to artifact_path base) (rt_error ''receipt artifact escapes its root: '')) (\<lambda>_.
     bindE (fv_size (xd_entry dir relative)) (\<lambda>actual_size.
     bindE (guardE (actual_size \<noteq> expected_size) (rt_error ''receipt artifact size mismatch: '')) (\<lambda>_.
     bindE (sha256_of_file (xd_entry dir relative)) (\<lambda>actual_sha256.
     bindE (guardE (actual_sha256 \<noteq> expected_sha256) (rt_error ''receipt artifact SHA-256 mismatch: '')) (\<lambda>_.
     Inr \<lparr>la_relative = relative, la_path = artifact_path, la_size_bytes = expected_size, la_sha256 = actual_sha256\<rparr>)))))))))))"

definition authenticate_receipt_directory ::
  "pkg_env \<Rightarrow> export_layout \<Rightarrow> string \<Rightarrow> export_directory \<Rightarrow> authenticated_directory result"
where
  "authenticate_receipt_directory env layout status dir =
     (let receipt_file = xd_entry dir (pys (xl_receipt layout)); checksum = xd_entry dir (pys (xl_checksum layout))
      in bindE (guardE (xd_is_symlink dir) (rt_error ''receipt directory must not be a symbolic link: '')) (\<lambda>_.
         bindE (xd_resolve dir) (\<lambda>base.
         bindE (guardE (\<not> xd_is_dir dir) (rt_error ''receipt path is not a directory: '')) (\<lambda>_.
         bindE (require_regular_file receipt_file) (\<lambda>_.
         bindE (require_regular_file checksum) (\<lambda>_.
         bindE (rt_load_json env receipt_file) (\<lambda>(receipt, payload).
         bindE (fv_bytes checksum) (\<lambda>checksum_bytes.
         bindE (guardE (checksum_bytes \<noteq> checksum_line (sha256_hex payload) (xl_receipt layout))
           (rt_error '' does not authenticate '')) (\<lambda>_.
         bindE (rt_integer (got receipt ''schema_version'')) (\<lambda>schema_version.
         bindE (guardE (schema_version \<noteq> 1) (rt_error ''unsupported receipt schema'')) (\<lambda>_.
         bindE (rt_string (got receipt ''artifact_role'')) (\<lambda>artifact_role.
         bindE (guardE (artifact_role \<noteq> pys (xl_role layout)) (rt_error ''receipt artifact role mismatch: expected '')) (\<lambda>_.
         bindE (rt_string (got receipt ''status'')) (\<lambda>status_value.
         bindE (guardE (status_value \<noteq> pys status) (rt_error ''receipt status mismatch: expected '')) (\<lambda>_.
         bindE (rt_list (got receipt ''artifacts'')) (\<lambda>records.
         bindE (artifact_loop (receipt_artifact dir base) [] records) (\<lambda>artifacts.
         bindE (check_export_entries dir (layout_files layout artifacts)) (\<lambda>_.
         Inr \<lparr>ad_root = base, ad_receipt = receipt, ad_receipt_sha256 = sha256_hex payload,
              ad_artifacts = artifacts\<rparr>))))))))))))))))))"

subsection \<open>The NanoCodec export\<close>

definition NANOCODEC_LAYOUT :: export_layout where
  "NANOCODEC_LAYOUT =
     \<lparr>xl_receipt = ''export-receipt.json'', xl_checksum = ''export-receipt.json.sha256'', xl_role = ''stateful_nanocodec''\<rparr>"

text \<open>\<open>PLAN_FILES\<close> of \<open>export_nanocodec.py\<close>\<close>

definition NANOCODEC_PLAN_FILES :: "(string \<times> string) list" where
  "NANOCODEC_PLAN_FILES =
     [(''initial_4'', ''nanocodec-initial-4.plan''), (''steady_8'', ''nanocodec-steady-8.plan''),
      (''tail_1_8'', ''nanocodec-tail-1-8.plan'')]"

record authenticated_nanocodec_export =
  nc_root :: pystr
  nc_receipt_sha256 :: pystr
  nc_oracle_lock_sha256 :: pystr
  nc_canonical_fixture_manifest_sha256 :: pystr
  nc_runtime :: json_object
  nc_plans :: "(string \<times> listed_artifact) list"
  nc_contract :: listed_artifact

definition artifact_at :: "listed_artifact list \<Rightarrow> string \<Rightarrow> string \<Rightarrow> listed_artifact result" where
  "artifact_at artifacts relative m =
     (case find_artifact artifacts relative of None \<Rightarrow> Inl (rt_error m) | Some a \<Rightarrow> Inr a)"

definition authenticate_nanocodec_export ::
  "pkg_env \<Rightarrow> export_directory \<Rightarrow> pystr \<Rightarrow> pystr \<Rightarrow> authenticated_nanocodec_export result"
where
  "authenticate_nanocodec_export env dir lock_sha256 canonical =
     bindE (authenticate_receipt_directory env NANOCODEC_LAYOUT ''accepted'' dir) (\<lambda>authenticated.
     bindE (rt_mapping (got (ad_receipt authenticated) ''source'')) (\<lambda>source.
     bindE (rt_sha256 (got source ''oracle_lock_sha256'')) (\<lambda>actual_lock.
     bindE (rt_sha256 (got source ''boundary_fixture_manifest_sha256'')) (\<lambda>actual_fixture.
     bindE (guardE (actual_lock \<noteq> lock_sha256) (rt_error ''NanoCodec export uses a different oracle lock'')) (\<lambda>_.
     bindE (guardE (actual_fixture \<noteq> canonical) (rt_error ''NanoCodec export uses a different canonical fixture'')) (\<lambda>_.
     bindE (mapE (\<lambda>(route, relative). bindE (artifact_at (ad_artifacts authenticated) relative ''NanoCodec export is missing plan '')
         (\<lambda>a. Inr (route, a))) NANOCODEC_PLAN_FILES) (\<lambda>plans.
     bindE (artifact_at (ad_artifacts authenticated) ''nanocodec-contract.json'' ''NanoCodec export is missing its state contract'') (\<lambda>contract.
     bindE (rt_mapping (got (ad_receipt authenticated) ''runtime'')) (\<lambda>runtime.
     Inr \<lparr>nc_root = ad_root authenticated, nc_receipt_sha256 = ad_receipt_sha256 authenticated,
          nc_oracle_lock_sha256 = actual_lock, nc_canonical_fixture_manifest_sha256 = actual_fixture,
          nc_runtime = runtime, nc_plans = plans, nc_contract = contract\<rparr>)))))))))"

subsection \<open>The sequence receipt\<close>

definition SEQUENCE_LAYOUT :: export_layout where
  "SEQUENCE_LAYOUT =
     \<lparr>xl_receipt = ''sequence-receipt.json'', xl_checksum = ''sequence-receipt.json.sha256'',
      xl_role = ''text_main_local_ar_sequence_validation''\<rparr>"

definition MINIMUM_SEQUENCE_FIXTURES :: nat where "MINIMUM_SEQUENCE_FIXTURES = 3"

record authenticated_sequence_receipt =
  as_receipt_sha256 :: pystr
  as_locked_magpie_restore_sha256 :: pystr
  as_codec_restore :: codec_restore_identity
  as_cuda_identity :: cuda_runtime_identity
  as_cublas_identity :: cublas_runtime_identity
  as_mode8_class_table_sha256 :: pystr

definition check_sequence_case :: "pystr list \<Rightarrow> json \<Rightarrow> pystr result" where
  "check_sequence_case seen raw_case =
     bindE (rt_mapping raw_case) (\<lambda>document.
     bindE (rt_sha256 (got document ''fixture_manifest_sha256'')) (\<lambda>manifest_sha256.
     bindE (guardE (manifest_sha256 \<in> set seen) (rt_error ''sequence receipt duplicates fixture '')) (\<lambda>_.
     bindE (guardE (not_true document ''code_exact'') (rt_error ''sequence fixture is not exact: '')) (\<lambda>_.
     bindE (rt_nonnegative_integer (got document ''local_ar_invocations'')) (\<lambda>invocations.
     bindE (rt_nonnegative_integer (got document ''main_execution_status_check_count'')) (\<lambda>status_checks.
     bindE (guardE (not_true document ''main_execution_status_all_zero'' \<or> invocations < 1 \<or> status_checks \<noteq> invocations - 1)
       (rt_error ''sequence fixture does not prove zero Main execution status at every generation boundary: '')) (\<lambda>_.
     bindE (rt_sha256 (got document ''generated_codes_sha256'')) (\<lambda>generated_sha256.
     bindE (rt_sha256 (got document ''expected_codes_sha256'')) (\<lambda>expected_sha256.
     bindE (guardE (generated_sha256 \<noteq> expected_sha256) (rt_error ''sequence fixture code digests differ: '')) (\<lambda>_.
     Inr manifest_sha256))))))))))"

fun sequence_case_loop :: "pystr \<Rightarrow> pystr list \<Rightarrow> bool \<Rightarrow> json list \<Rightarrow> bool result" where
  "sequence_case_loop canonical seen canonical_found [] = Inr canonical_found"
| "sequence_case_loop canonical seen canonical_found (v # vs) =
     bindE (check_sequence_case seen v) (\<lambda>manifest_sha256.
     sequence_case_loop canonical (manifest_sha256 # seen) (canonical_found \<or> manifest_sha256 = canonical) vs)"

definition expected_sequence_source ::
  "pystr \<Rightarrow> authenticated_text_encoder_export \<Rightarrow> authenticated_plan_export \<Rightarrow> authenticated_local_ar_export \<Rightarrow>
   (string \<times> pystr) list"
where
  "expected_sequence_source lock_sha256 text_export main_export local_export =
     [(''oracle_lock_sha256'', lock_sha256), (''text_encoder_export_receipt_sha256'', te_receipt_sha256 text_export),
      (''text_encoder_plan_sha256'', la_sha256 (te_plan text_export)),
      (''main_export_receipt_sha256'', pl_receipt_sha256 main_export),
      (''main_mode8_validation_receipt_sha256'', pl_mode8_validation_receipt_sha256 main_export),
      (''main_prefill_plan_sha256'', la_sha256 (pl_prefill_plan main_export)),
      (''main_step_plan_sha256'', la_sha256 (pl_step_plan main_export)),
      (''local_ar_export_receipt_sha256'', lx_receipt_sha256 local_export),
      (''local_ar_plan_sha256'', la_sha256 (lx_plan local_export)),
      (''local_ar_plugin_sha256'', la_sha256 (lx_plugin local_export))]"

definition check_sequence_fixtures :: "json_object \<Rightarrow> pystr \<Rightarrow> unit result" where
  "check_sequence_fixtures receipt canonical =
     bindE (rt_mapping (got receipt ''session_policy'')) (\<lambda>policy.
     bindE (guardE (differs policy ''main_execution_status_recurrence'' (JStr (pys ''int32-device-scalar-sticky-12-layer'')) \<or>
         not_true policy ''main_execution_status_checked_before_next_local_ar'')
       (rt_error ''sequence receipt lacks the canonical Main execution-status gate'')) (\<lambda>_.
     bindE (rt_nonnegative_integer (got receipt ''fixture_count'')) (\<lambda>fixture_count.
     bindE (rt_nonnegative_integer (got receipt ''exact_code_case_count'')) (\<lambda>exact_count.
     bindE (rt_list (got receipt ''fixtures'')) (\<lambda>fixtures.
     bindE (guardE (fixture_count \<noteq> int (length fixtures) \<or> fixture_count < int MINIMUM_SEQUENCE_FIXTURES \<or>
         exact_count \<noteq> fixture_count \<or> not_true receipt ''all_codes_exact'')
       (rt_error ''sequence receipt does not prove exact generation for every fixture'')) (\<lambda>_.
     bindE (sequence_case_loop canonical [] False fixtures) (\<lambda>canonical_found.
     guardE (\<not> canonical_found) (rt_error ''sequence receipt omits the canonical golden fixture''))))))))"

definition check_sequence_document ::
  "file_view \<Rightarrow> pystr \<Rightarrow> pystr \<Rightarrow> authenticated_text_encoder_export \<Rightarrow> authenticated_plan_export \<Rightarrow>
   authenticated_local_ar_export \<Rightarrow> json_object \<Rightarrow> pystr \<Rightarrow> authenticated_sequence_receipt result"
where
  "check_sequence_document restore_helper lock_sha256 canonical text_export main_export local_export receipt receipt_sha256 =
     bindE (check_sequence_fixtures receipt canonical) (\<lambda>_.
     bindE (rt_mapping (got receipt ''source'')) (\<lambda>source.
     bindE (rt_sha256 (got source ''locked_magpie_restore_sha256'')) (\<lambda>restore.
     bindE (resolved_digest restore_helper) (\<lambda>expected_restore.
     bindE (guardE (restore \<noteq> expected_restore \<or> te_locked_magpie_restore_sha256 text_export \<noteq> expected_restore \<or>
         pl_locked_magpie_restore_sha256 main_export \<noteq> expected_restore \<or>
         lx_locked_magpie_restore_sha256 local_export \<noteq> expected_restore)
       (rt_error ''sequence/export locked Magpie restore helper digest mismatch'')) (\<lambda>_.
     bindE (authenticate_codec_restore source) (\<lambda>codec_restore.
     bindE (guardE (codec_restore \<noteq> te_codec_restore text_export \<or> codec_restore \<noteq> pl_codec_restore main_export \<or>
         codec_restore \<noteq> lx_codec_restore local_export) (rt_error ''sequence/export codec restore identity mismatch'')) (\<lambda>_.
     bindE (all_steps (\<lambda>(key, expected). bindE (rt_sha256 (got source key)) (\<lambda>actual.
         guardE (actual \<noteq> expected) (rt_error ''sequence source  mismatch: expected , got '')))
       (expected_sequence_source lock_sha256 text_export main_export local_export)) (\<lambda>_.
     bindE (rt_mapping (got receipt ''runtime'')) (\<lambda>runtime.
     bindE (parse_cuda_runtime_identity (got runtime ''cuda'')) (\<lambda>cuda.
     bindE (parse_cublas_runtime_identity (got runtime ''cublas'')) (\<lambda>cublas.
     bindE (rt_sha256 (got runtime ''mode8_class_table_sha256'')) (\<lambda>table_sha256.
     bindE (guardE (table_sha256 \<noteq> pl_mode8_class_table_sha256 main_export)
       (rt_error ''sequence mode-8 class-table digest differs from the authenticated Main Decoder export'')) (\<lambda>_.
     Inr \<lparr>as_receipt_sha256 = receipt_sha256, as_locked_magpie_restore_sha256 = restore, as_codec_restore = codec_restore,
          as_cuda_identity = cuda, as_cublas_identity = cublas, as_mode8_class_table_sha256 = table_sha256\<rparr>)))))))))))))"

definition authenticate_sequence_receipt ::
  "pkg_env \<Rightarrow> export_directory \<Rightarrow> file_view \<Rightarrow> pystr \<Rightarrow> pystr \<Rightarrow> authenticated_text_encoder_export \<Rightarrow>
   authenticated_plan_export \<Rightarrow> authenticated_local_ar_export \<Rightarrow> authenticated_sequence_receipt result"
where
  "authenticate_sequence_receipt env dir restore_helper lock_sha256 canonical text_export main_export local_export =
     bindE (authenticate_receipt_directory env SEQUENCE_LAYOUT ''accepted'' dir) (\<lambda>authenticated.
     check_sequence_document restore_helper lock_sha256 canonical text_export main_export local_export
       (ad_receipt authenticated) (ad_receipt_sha256 authenticated))"

subsection \<open>From the validator to the promotion\<close>

text \<open>What the authentication of the three exports establishes of their fields.\<close>

definition exports_wf ::
  "authenticated_text_encoder_export \<Rightarrow> authenticated_plan_export \<Rightarrow> authenticated_local_ar_export \<Rightarrow> bool"
where
  "exports_wf text_export main_export local_export \<longleftrightarrow>
     (\<forall>kd \<in> set (expected_sequence_source (te_oracle_lock_sha256 text_export) text_export main_export local_export).
        sha256_pattern (snd kd)) \<and>
     cuda_wf (pl_cuda_identity main_export) \<and> cublas_wf (pl_cublas_identity main_export) \<and>
     sha256_pattern (pl_mode8_class_table_sha256 main_export)"

text \<open>The expected codes that a case reads have the type and the shape that the fixture records.\<close>

definition expected_codes_wf :: "('h, 's, 'x, 'a) sequence_answers \<Rightarrow> bool" where
  "expected_codes_wf w \<longleftrightarrow>
     (\<exists>expected width. sw_expected_codes w = Inr expected \<and> tensor_wf expected \<and> t_dtype expected = Int64 \<and>
        t_shape expected = [1, 8, width])"

text \<open>The manifest of a fixture is read once when it is admitted and once when its case is run.\<close>

definition manifests_unchanged :: "pystr list \<Rightarrow> (nat \<Rightarrow> ('h, 's, 'x, 'a) sequence_answers) \<Rightarrow> bool" where
  "manifests_unchanged digests answers \<longleftrightarrow>
     (\<forall>i < length digests. \<forall>fixture. sw_fixture (answers i) = Inr fixture \<longrightarrow> df_manifest_sha256 fixture = digests ! i)"

lemma describes_sha256: "describes dir base v a \<Longrightarrow> sha256_pattern (la_sha256 a)"
  by (auto simp: describes_def)

lemma directory_digests:
  assumes "directory_authentic env layout status dir base doc digest arts"
  shows "sha256_pattern digest" and "a \<in> set arts \<Longrightarrow> sha256_pattern (la_sha256 a)"
proof -
  from assms show "sha256_pattern digest" by (auto simp: directory_authentic_def)
  from assms obtain vs where "list_all2 (describes dir base) vs arts" by (auto simp: directory_authentic_def)
  then show "a \<in> set arts \<Longrightarrow> sha256_pattern (la_sha256 a)"
    by (induction rule: list_all2_induct) (auto dest: describes_sha256)
qed

lemma check_sequence_case_ok:
  assumes "case_facts document metadata t ss expected" "got document ''code_exact'' = JBool True"
    and "got document ''fixture_manifest_sha256'' = JStr digest" "sha256_pattern digest" "digest \<notin> set seen" "ss \<noteq> []"
  shows "check_sequence_case seen (JObj document) = Inr digest"
proof -
  from assms(1) have f: "got document ''local_ar_invocations'' = JInt (int (length ss))"
    "got document ''main_execution_status_check_count'' = JInt (int (length ss) - 1)"
    "got document ''main_execution_status_all_zero'' = JBool True"
    "got document ''generated_codes_sha256'' = JStr (codes_digest (generated_codes t))"
    "got document ''expected_codes_sha256'' = JStr (codes_digest expected)"
    "got document ''code_exact'' = JBool (generated_codes t = expected)"
    by (simp_all add: case_facts_def)
  from f(6) assms(2) have exact: "generated_codes t = expected" by simp
  have pattern: "rt_sha256 (JStr (codes_digest c)) = Inr (codes_digest c)" for c
    by (simp add: rt_sha256_Inr_iff codes_digest_def)
  have manifest: "rt_sha256 (JStr digest) = Inr digest" using assms(4) by (simp add: rt_sha256_Inr_iff)
  have counts: "rt_nonnegative_integer (JInt (int (length ss))) = Inr (int (length ss))"
    "rt_nonnegative_integer (JInt (int (length ss) - 1)) = Inr (int (length ss) - 1)"
    using assms(6) by (simp_all add: rt_Inr_iff Suc_le_eq)
  show ?thesis
    using assms(5,6)
    by (simp add: check_sequence_case_def rt_mapping_def f assms(2,3) exact pattern manifest counts)
qed

lemma sequence_case_loop_ok:
  assumes "list_all2 (\<lambda>v d. \<forall>seen. d \<notin> set seen \<longrightarrow> check_sequence_case seen v = Inr d) vs digests"
    and "distinct digests" "set digests \<inter> set seen = {}"
  shows "sequence_case_loop canonical seen found vs = Inr (found \<or> canonical \<in> set digests)"
  using assms
  by (induction arbitrary: seen found rule: list_all2_induct) auto

lemma codec_restore_round_trip:
  assumes "got source ''codec_restore'' = codec_restore_json codec" "locked_codec_restore lock = Inr codec"
  shows "authenticate_codec_restore source = Inr codec"
proof -
  from assms(2) have c: "sha256_pattern (cr_codec_model_sha256 codec)" "0 \<le> cr_codec_model_size_bytes codec"
    by (auto simp: locked_codec_restore_def bindE_eq_Inr accessor_simps)
  then have "rt_sha256 (JStr (cr_codec_model_sha256 codec)) = Inr (cr_codec_model_sha256 codec)"
    "rt_nonnegative_integer (JInt (cr_codec_model_size_bytes codec)) = Inr (cr_codec_model_size_bytes codec)"
    by (simp_all add: rt_sha256_Inr_iff rt_Inr_iff)
  then show ?thesis
    unfolding authenticate_codec_restore_def assms(1) codec_restore_json_def
    by (simp add: rt_mapping_def rt_string_def rt_boolean_def has_keys_def)
qed

lemma sequence_source_expected:
  assumes "(key, expected) \<in> set (expected_sequence_source lock_sha256 text_export main_export local_export)"
  shows "got (sequence_source tools lock_sha256 restore codec text_export main_export local_export) key = JStr expected"
proof -
  have "\<forall>ke \<in> set (expected_sequence_source lock_sha256 text_export main_export local_export).
      got (sequence_source tools lock_sha256 restore codec text_export main_export local_export) (fst ke) = JStr (snd ke)"
    by (cases tools) (simp add: expected_sequence_source_def sequence_source_def)
  with assms show ?thesis by fastforce
qed

lemma sequence_runtime_fields:
  "got (sequence_runtime host current cuda cublas table) ''cuda'' = cuda_runtime_identity_json cuda"
  "got (sequence_runtime host current cuda cublas table) ''cublas'' = cublas_runtime_identity_json cublas"
  "got (sequence_runtime host current cuda cublas table) ''mode8_class_table_sha256'' = JStr table"
  by (simp_all add: sequence_runtime_def split: prod.splits)

lemma accepted_cases:
  assumes cases: "case_loop (\<lambda>i. run_fixture_sequence argmax (sessions i) (answers i) i) 0 (length digests) [] = Inr cases"
    and exact: "exact_cases cases = length cases"
    and wf: "\<forall>i < length digests. sessions_wf (sessions i) \<and> expected_codes_wf (answers i)"
    and unchanged: "manifests_unchanged digests answers"
  shows "length cases = length digests \<and> distinct digests \<and>
    list_all2 (\<lambda>v d. \<forall>seen. d \<notin> set seen \<longrightarrow> check_sequence_case seen v = Inr d) (map JObj cases) digests"
proof -
  from case_loop_Inr [OF cases] obtain found where
    l: "length cases = length digests" "\<forall>i < length digests. run_fixture_sequence argmax (sessions i) (answers i) i = Inr (cases ! i)"
    and found: "map (\<lambda>document. got document ''fixture_manifest_sha256'') cases = map JStr found" "distinct found"
      "\<forall>d \<in> set found. sha256_pattern d" by auto
  have each: "got (cases ! i) ''fixture_manifest_sha256'' = JStr (digests ! i) \<and>
      (\<exists>metadata t ss expected. case_facts (cases ! i) metadata t ss expected \<and> ss \<noteq> [])" if i: "i < length digests" for i
  proof -
    from wf i obtain expected width where w: "sessions_wf (sessions i)" "sw_expected_codes (answers i) = Inr expected"
      "tensor_wf expected" "t_dtype expected = Int64" "t_shape expected = [1, 8, width]"
      unfolding expected_codes_wf_def by blast
    from sequence_case [OF l(2) [rule_format, OF i] w] obtain fixture metadata t ss where
      "sw_fixture (answers i) = Inr fixture" "got (cases ! i) ''fixture_manifest_sha256'' = JStr (df_manifest_sha256 fixture)"
      "case_facts (cases ! i) metadata t ss expected" "4 \<le> kept_frames t" by blast
    moreover from this(3) have "tracked 0 t ss" "ended t" by (simp_all add: case_facts_def)
    then have "ss \<noteq> []" by (auto dest!: tracked_inv simp: tracker_inv_def local_ar_invocations_def)
    ultimately show ?thesis using unchanged i unfolding manifests_unchanged_def by metis
  qed
  have "found = digests"
  proof (rule nth_equalityI)
    from found(1) l(1) show len: "length found = length digests" by (metis length_map)
    fix i assume i: "i < length found"
    from found(1) have "got (cases ! i) ''fixture_manifest_sha256'' = JStr (found ! i)"
      using i len l(1) by (metis (no_types, lifting) nth_map)
    with each [of i] i len show "found ! i = digests ! i" by simp
  qed
  have "check_sequence_case seen (JObj (cases ! i)) = Inr (digests ! i)"
    if i: "i < length digests" and "digests ! i \<notin> set seen" for i seen
  proof -
    from each [OF i] obtain metadata t ss expected where c: "case_facts (cases ! i) metadata t ss expected" "ss \<noteq> []"
      "got (cases ! i) ''fixture_manifest_sha256'' = JStr (digests ! i)" by blast
    from exact exact_cases_all i l(1) have "got (cases ! i) ''code_exact'' = JBool True" by (metis nth_mem)
    from check_sequence_case_ok [OF c(1) this c(3) _ that(2) c(2)] found(3) \<open>found = digests\<close> i show ?thesis by simp
  qed
  then have "list_all2 (\<lambda>v d. \<forall>seen. d \<notin> set seen \<longrightarrow> check_sequence_case seen v = Inr d) (map JObj cases) digests"
    by (simp add: list_all2_conv_all_nth l(1))
  with l(1) found(2) \<open>found = digests\<close> show ?thesis by simp
qed

lemma resolved_digest_pattern: "resolved_digest f = Inr d \<Longrightarrow> sha256_pattern d"
  by (auto simp: resolved_digest_def sha256_of_file_def bindE_eq_Inr)

lemma accepted_sequence:
  assumes phase: "sequence_phase host (\<lambda>i. run_fixture_sequence argmax (sessions i) (answers i) i) lock lock_sha256 digests
      text_export main_export local_export = Inr receipt"
    and accepted: "got receipt ''status'' = JStr (pys ''accepted'')" and three: "3 \<le> length digests"
    and wf: "\<forall>i < length digests. sessions_wf (sessions i) \<and> expected_codes_wf (answers i)"
    and unchanged: "manifests_unchanged digests answers" and exports: "exports_wf text_export main_export local_export"
  shows "\<exists>codec restore. check_sequence_document (sh_restore_helper host) lock_sha256
      (te_source_fixture_manifest_sha256 text_export) text_export main_export local_export receipt digest =
    Inr \<lparr>as_receipt_sha256 = digest, as_locked_magpie_restore_sha256 = restore, as_codec_restore = codec,
         as_cuda_identity = pl_cuda_identity main_export, as_cublas_identity = pl_cublas_identity main_export,
         as_mode8_class_table_sha256 = pl_mode8_class_table_sha256 main_export\<rparr>"
proof -
  obtain cases where "sequence_facts host (\<lambda>i. run_fixture_sequence argmax (sessions i) (answers i) i) lock lock_sha256
      digests text_export main_export local_export receipt cases" by (rule sequence_phase_Inr [OF phase])
  then obtain tools restore codec current records where
    e: "resolved_digest (sh_restore_helper host) = Inr restore" "locked_codec_restore lock = Inr codec"
      "te_oracle_lock_sha256 text_export = lock_sha256"
      "te_locked_magpie_restore_sha256 text_export = restore" "pl_locked_magpie_restore_sha256 main_export = restore"
      "lx_locked_magpie_restore_sha256 local_export = restore" "te_codec_restore text_export = codec"
      "pl_codec_restore main_export = codec" "lx_codec_restore local_export = codec"
      "te_source_fixture_manifest_sha256 text_export \<in> set digests" and
    cases: "case_loop (\<lambda>i. run_fixture_sequence argmax (sessions i) (answers i) i) 0 (length digests) [] = Inr cases" and
    receipt: "receipt = sequence_receipt (sh_created_at host)
      (sequence_source tools lock_sha256 restore codec text_export main_export local_export)
      (sequence_runtime host current (pl_cuda_identity main_export) (pl_cublas_identity main_export)
        (pl_mode8_class_table_sha256 main_export)) cases records"
    unfolding sequence_facts_def by blast
  let ?source = "sequence_source tools lock_sha256 restore codec text_export main_export local_export"
  note fields = sequence_receipt_fields [of "sh_created_at host" ?source _ cases records, folded receipt]
  have exact: "exact_cases cases = length cases"
    using accepted unfolding receipt sequence_receipt_fields by (simp split: if_splits)
  from accepted_cases [OF cases exact wf unchanged] have c: "length cases = length digests" "distinct digests"
    "list_all2 (\<lambda>v d. \<forall>seen. d \<notin> set seen \<longrightarrow> check_sequence_case seen v = Inr d) (map JObj cases) digests" by blast+
  have fixtures: "check_sequence_fixtures receipt (te_source_fixture_manifest_sha256 text_export) = Inr ()"
    unfolding check_sequence_fixtures_def receipt sequence_receipt_fields
    using sequence_case_loop_ok [OF c(3,2)] e(10) c(1) three exact
    by (simp add: rt_mapping_def rt_list_def rt_nonnegative_integer_def rt_integer_def SESSION_POLICY_def
        MINIMUM_SEQUENCE_FIXTURES_def)
  have digests: "rt_sha256 (got ?source key) = Inr expected"
    if "(key, expected) \<in> set (expected_sequence_source lock_sha256 text_export main_export local_export)" for key expected
    using exports that e(3) sequence_source_expected [OF that] by (auto simp: exports_wf_def rt_sha256_Inr_iff)
  have steps: "all_steps (\<lambda>(key, expected). bindE (rt_sha256 (got ?source key)) (\<lambda>actual.
      guardE (actual \<noteq> expected) (rt_error ''sequence source  mismatch: expected , got '')))
    (expected_sequence_source lock_sha256 text_export main_export local_export) = Inr ()"
    by (rule all_steps_ok) (auto simp: digests)
  have helper: "rt_sha256 (got ?source ''locked_magpie_restore_sha256'') = Inr restore"
    using resolved_digest_pattern [OF e(1)] by (simp add: sequence_source_def rt_sha256_Inr_iff split: prod.splits)
  have "got ?source ''codec_restore'' = codec_restore_json codec" by (simp add: sequence_source_def split: prod.splits)
  from codec_restore_round_trip [OF this e(2)] have codec: "authenticate_codec_restore ?source = Inr codec" .
  from exports have identities: "parse_cuda_runtime_identity (cuda_runtime_identity_json (pl_cuda_identity main_export)) = Inr (pl_cuda_identity main_export)"
    "parse_cublas_runtime_identity (cublas_runtime_identity_json (pl_cublas_identity main_export)) = Inr (pl_cublas_identity main_export)"
    "rt_sha256 (JStr (pl_mode8_class_table_sha256 main_export)) = Inr (pl_mode8_class_table_sha256 main_export)"
    by (simp_all add: exports_wf_def parse_cuda_json parse_cublas_json rt_sha256_Inr_iff)
  have "got receipt ''source'' = JObj ?source" "\<exists>runtime. got receipt ''runtime'' = JObj runtime \<and>
      got runtime ''cuda'' = cuda_runtime_identity_json (pl_cuda_identity main_export) \<and>
      got runtime ''cublas'' = cublas_runtime_identity_json (pl_cublas_identity main_export) \<and>
      got runtime ''mode8_class_table_sha256'' = JStr (pl_mode8_class_table_sha256 main_export)"
    unfolding receipt sequence_receipt_fields by (simp_all add: sequence_runtime_fields)
  then show ?thesis
    unfolding check_sequence_document_def
    using fixtures helper e codec steps identities by (auto simp: rt_mapping_def)
qed

subsection \<open>Properties\<close>


definition demo_listed_artifact :: listed_artifact where
  "demo_listed_artifact = \<lparr>la_relative = [], la_path = [], la_size_bytes = 1, la_sha256 = zeros 64\<rparr>"

definition demo_locked_codec :: codec_restore_identity where
  "demo_locked_codec =
     \<lparr>cr_embedded_codec_model_id = pys ''c'', cr_codec_model_sha256 = zeros 64, cr_codec_model_size_bytes = 1\<rparr>"

definition demo_sequence_lock :: json_object where
  "demo_sequence_lock =
     [(pys ''codec'', JObj [(pys ''model_id'', JStr (pys ''c'')), (pys ''sha256'', JStr (zeros 64)), (pys ''size_bytes'', JInt 1)])]"

definition demo_text_export :: authenticated_text_encoder_export where
  "demo_text_export =
     \<lparr>te_root = [], te_receipt_sha256 = zeros 64, te_oracle_lock_sha256 = zeros 64,
      te_locked_magpie_restore_sha256 = sha256_hex [1], te_codec_restore = demo_locked_codec,
      te_source_fixture_manifest_sha256 = demo_manifest_digest 0, te_required_plugin_sha256 = zeros 64,
      te_plan = demo_listed_artifact, te_tensorrt_version = pys ''10'', te_torch_cuda_build = pys ''13'',
      te_gpu_name = pys ''Thor'', te_gpu_compute_capability = (11, 0)\<rparr>"

definition demo_main_export :: authenticated_plan_export where
  "demo_main_export =
     \<lparr>pl_root = [], pl_receipt_sha256 = zeros 64, pl_oracle_lock_sha256 = zeros 64,
      pl_locked_magpie_restore_sha256 = sha256_hex [1], pl_codec_restore = demo_locked_codec,
      pl_prefill_plan = demo_listed_artifact, pl_step_plan = demo_listed_artifact,
      pl_source_fixture_manifest_sha256 = demo_manifest_digest 0, pl_required_plugin_sha256 = zeros 64,
      pl_mode8_validation_receipt_sha256 = zeros 64, pl_mode8_class_table_sha256 = zeros 64,
      pl_cuda_identity = demo_mode8_cuda, pl_cublas_identity = demo_mode8_cublas, pl_tensorrt_version = pys ''10'',
      pl_torch_cuda_build = pys ''13'', pl_gpu_name = pys ''Thor'', pl_gpu_compute_capability = (11, 0)\<rparr>"

definition demo_local_export :: authenticated_local_ar_export where
  "demo_local_export =
     \<lparr>lx_root = [], lx_receipt_sha256 = zeros 64, lx_oracle_lock_sha256 = zeros 64,
      lx_locked_magpie_restore_sha256 = sha256_hex [1], lx_codec_restore = demo_locked_codec,
      lx_source_fixture_manifest_sha256s = map demo_manifest_digest [0, 1, 2], lx_plan = demo_listed_artifact,
      lx_plugin = demo_listed_artifact, lx_tensorrt_version = pys ''10'', lx_torch_cuda_build = pys ''13'',
      lx_gpu_name = pys ''Thor'', lx_gpu_compute_capability = (11, 0)\<rparr>"

definition demo_sequence_host :: sequence_host where
  "demo_sequence_host =
     \<lparr>sh_lock = demo_file [2], sh_lock_document = Inr (JObj demo_sequence_lock), sh_restore_helper = demo_file [1],
      sh_validator = demo_file [3], sh_sequence_contract = demo_file [4], sh_alignment_controller = demo_file [5],
      sh_output_exists = False, sh_cuda_available = True, sh_fingerprint = Inr (text_fingerprint demo_text_export),
      sh_local_ar_session = Inr (), sh_cublas = Inr demo_mode8_cublas, sh_cuda = Inr demo_mode8_cuda,
      sh_plan_sessions = Inr (), sh_created_at = [], sh_python = [], sh_torch = [], sh_torch_cuda_build = JNull,
      sh_cudnn = JNull, sh_precision = [], sh_matmul_tf32 = False, sh_cudnn_tf32 = False, sh_dumps = (\<lambda>_. Inr []),
      sh_publish = (\<lambda>_. Inr ())\<rparr>"

abbreviation demo_run :: "nat \<Rightarrow> json_object result" where
  "demo_run i \<equiv> run_fixture_sequence first_argmax demo_sessions (demo_sequence_answers i) i"

lemma demo_case:
  assumes "k < 3"
  shows "\<exists>document records. demo_run k = Inr document \<and> got document ''code_exact'' = JBool True \<and>
    got document ''fixture_manifest_sha256'' = JStr (demo_manifest_digest k) \<and> got document ''artifacts'' = JList records"
proof -
  obtain document where d: "demo_run k = Inr document" "got document ''code_exact'' = JBool True"
    using demo_sequence_runs [OF assms] by blast
  have "sw_expected_codes (demo_sequence_answers k) = Inr demo_expected" by (simp add: demo_sequence_answers_def)
  obtain fixture metadata comparison metrics name n checks records where
    f: "sw_fixture (demo_sequence_answers k) = Inr fixture" and
    doc: "document = case_document name metadata fixture metrics comparison n checks records"
    by (rule run_fixture_sequence_result [OF d(1) \<open>sw_expected_codes (demo_sequence_answers k) = Inr demo_expected\<close>]) blast
  from f have "df_manifest_sha256 fixture = demo_manifest_digest k"
    by (auto simp: demo_sequence_answers_def demo_sequence_fixture_def Let_def)
  then have "got document ''fixture_manifest_sha256'' = JStr (demo_manifest_digest k)" "got document ''artifacts'' = JList records"
    unfolding doc case_document_facts by simp_all
  with d show ?thesis by blast
qed

lemma demo_manifest_digest_ok: "k < 3 \<Longrightarrow> sha256_pattern (demo_manifest_digest k)"
  by (auto simp: demo_manifest_digest_def sha256_pattern_def lower_hex_pattern_def is_hex_char_def list_all_iff
      numeral_3_eq_3 less_Suc_eq)

lemma demo_manifest_digest_inject: "demo_manifest_digest j = demo_manifest_digest k \<longleftrightarrow> j = k"
  by (simp add: demo_manifest_digest_def replicate_eq_replicate)

lemma demo_sequence_phase:
  "\<exists>receipt. sequence_phase demo_sequence_host demo_run demo_sequence_lock (zeros 64) (map demo_manifest_digest [0, 1, 2])
     demo_text_export demo_main_export demo_local_export = Inr receipt \<and> got receipt ''status'' = JStr (pys ''accepted'')"
proof -
  obtain a ra where a: "demo_run 0 = Inr a" "got a ''code_exact'' = JBool True"
    "got a ''fixture_manifest_sha256'' = JStr (demo_manifest_digest 0)" "got a ''artifacts'' = JList ra" using demo_case [of 0] by auto
  obtain b rb where b: "demo_run 1 = Inr b" "got b ''code_exact'' = JBool True"
    "got b ''fixture_manifest_sha256'' = JStr (demo_manifest_digest 1)" "got b ''artifacts'' = JList rb" using demo_case [of 1] by auto
  obtain c rc where c: "demo_run 2 = Inr c" "got c ''code_exact'' = JBool True"
    "got c ''fixture_manifest_sha256'' = JStr (demo_manifest_digest 2)" "got c ''artifacts'' = JList rc" using demo_case [of 2] by auto
  have digest: "k < 3 \<Longrightarrow> rt_sha256 (JStr (demo_manifest_digest k)) = Inr (demo_manifest_digest k)" for k
    by (simp add: rt_sha256_Inr_iff demo_manifest_digest_ok)
  have loop: "case_loop demo_run 0 (Suc (Suc (Suc 0))) [] = Inr [a, b, c]"
    using a(1,3) b(1,3) c(1,3) digest [of 0] digest [of 1] digest [of 2]
    by (simp add: demo_manifest_digest_inject numeral_2_eq_2)
  have codec: "locked_codec_restore demo_sequence_lock = Inr demo_locked_codec"
    by (simp add: locked_codec_restore_def demo_sequence_lock_def demo_locked_codec_def rt_mapping_def rt_string_def demo_sha256_ok
        rt_nonnegative_integer_def rt_integer_def)
  have resolved: "resolved_digest (demo_file bs) = Inr (sha256_hex bs)" for bs
    by (simp add: resolved_digest_def demo_file_def sha256_of_file_def)
  have exports: "check_sequence_exports demo_sequence_lock (zeros 64) (sh_restore_helper demo_sequence_host)
      (map demo_manifest_digest [0, 1, 2]) demo_text_export demo_main_export demo_local_export = Inr (sha256_hex [1], demo_locked_codec)"
    by (simp add: check_sequence_exports_def codec demo_sequence_host_def resolved demo_text_export_def demo_main_export_def
        demo_local_export_def demo_listed_artifact_def)
  have prints: "main_fingerprint demo_main_export = text_fingerprint demo_text_export"
    "local_ar_fingerprint demo_local_export = text_fingerprint demo_text_export"
    by (simp_all add: main_fingerprint_def local_ar_fingerprint_def text_fingerprint_def demo_text_export_def
        demo_main_export_def demo_local_export_def)
  have host: "sh_output_exists demo_sequence_host = False" "sh_cuda_available demo_sequence_host"
    "sh_fingerprint demo_sequence_host = Inr (text_fingerprint demo_text_export)" "sh_local_ar_session demo_sequence_host = Inr ()"
    "sh_cublas demo_sequence_host = Inr (pl_cublas_identity demo_main_export)"
    "sh_cuda demo_sequence_host = Inr (pl_cuda_identity demo_main_export)" "sh_plan_sessions demo_sequence_host = Inr ()"
    "resolved_digest (sh_validator demo_sequence_host) = Inr (sha256_hex [3])"
    "resolved_digest (sh_sequence_contract demo_sequence_host) = Inr (sha256_hex [4])"
    "resolved_digest (sh_alignment_controller demo_sequence_host) = Inr (sha256_hex [5])"
    by (simp_all add: demo_sequence_host_def demo_main_export_def resolved)
  have "exact_cases [a, b, c] = length [a, b, c]" using a(2) b(2) c(2) by (simp add: exact_cases_def)
  then have accepted: "got (sequence_receipt t s r [a, b, c] records) ''status'' = JStr (pys ''accepted'')" for t s r records
    unfolding sequence_receipt_fields by simp
  have "\<exists>t s r records. sequence_run demo_sequence_host demo_run (Suc (Suc (Suc 0))) (zeros 64) (sha256_hex [1]) demo_locked_codec
      demo_text_export demo_main_export demo_local_export = Inr (sequence_receipt t s r [a, b, c] records)"
    by (simp add: host sequence_run_def prints loop a(4) b(4) c(4) rt_list_def del: case_loop.simps) blast
  with accepted show ?thesis
    by (auto simp: sequence_phase_def exports [simplified] host(1))
qed

lemma demo_exports_wf: "exports_wf demo_text_export demo_main_export demo_local_export"
  using parse_cuda_wf [OF demo_identities(1)] parse_cublas_wf [OF demo_identities(2)]
  by (simp add: exports_wf_def expected_sequence_source_def demo_text_export_def demo_main_export_def demo_local_export_def
      demo_listed_artifact_def)


end
