(* ===== verification/GoldenDocuments.thy ===== *)
theory GoldenDocuments
  imports SequenceReceipt GoldenArtifacts
begin

text \<open>
  The golden evidence of \<open>tools/export/finalize_runtime_acceptance.py\<close>: \<open>execute_golden_nanocodec\<close>, which runs the
  canonical codes through the three NanoCodec plans, and \<open>build_golden_documents\<close>, which writes the golden fixture
  and the golden receipt.

  An INT64 array is its shape and its elements, each the eight bytes it has on disk; a chunk of codes is cut out of
  the rows of the eight codebooks. A NanoCodec plan is a function of the route, the codes and the states of the chunk
  before; \<open>compare_tensor\<close> is a parameter. The theorems show which schedules a golden run accepts, and that the
  packager (theory \<open>GoldenArtifacts\<close>) accepts the documents when they agree with its specification.
\<close>

subsection \<open>Payloads\<close>

text \<open>\<open>int.from_bytes(four, "little", signed=True)\<close>\<close>

definition int32_of_bytes :: "byte list \<Rightarrow> int" where
  "int32_of_bytes four =
     (let u = foldr (\<lambda>b n. uint b + 256 * n) four 0 in if u < 2 ^ 31 then u else u - 2 ^ 32)"

fun split_four :: "byte list \<Rightarrow> byte list list" where
  "split_four (a # b # c # d # rest) = [a, b, c, d] # split_four rest"
| "split_four _ = []"

definition little_endian_int32_values :: "byte list \<Rightarrow> int list result" where
  "little_endian_int32_values payload =
     (if payload = [] \<or> length payload mod 4 \<noteq> 0 then Inl (rt_error ''prepared token payload is not non-empty INT32'')
      else Inr (map int32_of_bytes (split_four payload)))"

record code_array =
  ca_shape :: "nat list"
  ca_elements :: "byte list list"

text \<open>\<open>complete_codes[0, codebook, offset : offset + frame_count]\<close> of a shape \<open>(1, 8, frames)\<close>\<close>

definition code_slice :: "code_array \<Rightarrow> nat \<Rightarrow> nat \<Rightarrow> nat \<Rightarrow> byte list list" where
  "code_slice codes offset frame_count codebook =
     take frame_count (drop (codebook * (ca_shape codes ! 2) + offset) (take ((codebook + 1) * (ca_shape codes ! 2)) (ca_elements codes)))"

definition code_chunk :: "code_array \<Rightarrow> nat \<Rightarrow> nat \<Rightarrow> byte list" where
  "code_chunk codes offset frame_count = concat (concat (map (code_slice codes offset frame_count) [0..<CODEBOOKS]))"

primrec code_chunks :: "code_array \<Rightarrow> nat \<Rightarrow> nat list \<Rightarrow> byte list list" where
  "code_chunks codes offset [] = []"
| "code_chunks codes offset (frame_count # schedule) =
     code_chunk codes offset frame_count # code_chunks codes (offset + frame_count) schedule"

definition chunked_codec_code_bytes :: "code_array \<Rightarrow> nat list \<Rightarrow> byte list result" where
  "chunked_codec_code_bytes codes schedule =
     bindE (guardE (length (ca_shape codes) \<noteq> 3 \<or> ca_shape codes ! 0 \<noteq> 1 \<or> ca_shape codes ! 1 \<noteq> CODEBOOKS \<or>
         ca_shape codes ! 2 \<noteq> sum_list schedule) (rt_error ''complete codec code shape does not match schedule: '')) (\<lambda>_.
     Inr (concat (code_chunks codes 0 schedule)))"

subsection \<open>The golden run\<close>

definition INITIAL_FRAMES :: nat where "INITIAL_FRAMES = 4"
definition STEADY_FRAMES :: nat where "STEADY_FRAMES = 8"
definition TAIL_MIN_FRAMES :: nat where "TAIL_MIN_FRAMES = 1"
definition TAIL_MAX_FRAMES :: nat where "TAIL_MAX_FRAMES = 8"
definition SAMPLES_PER_FRAME :: nat where "SAMPLES_PER_FRAME = 1024"

definition golden_route :: "nat \<Rightarrow> nat \<Rightarrow> nat \<Rightarrow> string result" where
  "golden_route chunk_count sequence frame_count =
     (if sequence = 0
      then bindE (guardE (frame_count \<noteq> INITIAL_FRAMES) (rt_error ''golden schedule does not start with four frames'')) (\<lambda>_.
           Inr ''initial_4'')
      else if sequence = chunk_count - 1
      then bindE (guardE (frame_count < TAIL_MIN_FRAMES \<or> TAIL_MAX_FRAMES < frame_count)
             (rt_error ''golden terminal chunk is outside tail profile'')) (\<lambda>_. Inr ''tail_1_8'')
      else bindE (guardE (frame_count \<noteq> STEADY_FRAMES) (rt_error ''golden steady chunk is not eight frames'')) (\<lambda>_.
           Inr ''steady_8''))"

text \<open>What a plan returns for a chunk: its output names, the valid sample count, the valid part of the PCM, and the
  states it hands on.\<close>

record 's chunk_outputs =
  co_names :: "string list"
  co_valid_samples :: int
  co_pcm :: "byte list"
  co_states :: 's

text \<open>\<open>gn_matches\<close> and \<open>gn_complete_matches\<close> are \<open>compare_tensor\<close> against the PCM of the fixture, \<open>gn_state_outputs\<close>
  the output bindings of the contract.\<close>

record 's golden_nanocodec =
  gn_execute :: "string \<Rightarrow> byte list \<Rightarrow> 's option \<Rightarrow> 's chunk_outputs result"
  gn_matches :: "nat \<Rightarrow> byte list \<Rightarrow> unit result"
  gn_complete_matches :: "byte list \<Rightarrow> unit result"
  gn_state_outputs :: "string list"

primrec golden_chunks ::
  "'s golden_nanocodec \<Rightarrow> code_array \<Rightarrow> nat \<Rightarrow> nat list \<Rightarrow> nat \<Rightarrow> nat \<Rightarrow> 's option \<Rightarrow> (byte list list \<times> nat) result"
where
  "golden_chunks plans codes chunk_count [] sequence frame_offset states = Inr ([], frame_offset)"
| "golden_chunks plans codes chunk_count (frame_count # schedule) sequence frame_offset states =
     bindE (golden_route chunk_count sequence frame_count) (\<lambda>route.
     bindE (gn_execute plans route (code_chunk codes frame_offset frame_count) states) (\<lambda>outputs.
     bindE (guardE (set (co_names outputs) \<noteq> {''pcm'', ''valid_sample_length''} \<union> set (gn_state_outputs plans))
       (rt_error ''NanoCodec  output set mismatch'')) (\<lambda>_.
     bindE (guardE (co_valid_samples outputs \<noteq> int (frame_count * SAMPLES_PER_FRAME))
       (rt_error ''NanoCodec  valid length mismatch: '')) (\<lambda>_.
     bindE (gn_matches plans sequence (co_pcm outputs)) (\<lambda>_.
     bindE (golden_chunks plans codes chunk_count schedule (Suc sequence) (frame_offset + frame_count)
         (Some (co_states outputs))) (\<lambda>(parts, end_offset).
     Inr (co_pcm outputs # parts, end_offset)))))))"

text \<open>The last check of the source counts the contexts it has itself collected, one for each chunk.\<close>

definition execute_golden_nanocodec ::
  "'s golden_nanocodec \<Rightarrow> code_array \<Rightarrow> nat list \<Rightarrow> nat \<Rightarrow> (byte list \<times> pystr \<times> nat) result"
where
  "execute_golden_nanocodec plans codes schedule valid_codec_frames =
     bindE (golden_chunks plans codes (length schedule) schedule 0 0 None) (\<lambda>(parts, frame_offset).
     bindE (guardE (frame_offset \<noteq> valid_codec_frames) (rt_error ''NanoCodec golden execution did not consume every frame'')) (\<lambda>_.
     (let pcm_payload = concat parts; sample_count = length pcm_payload div 4
      in bindE (guardE (sample_count \<noteq> valid_codec_frames * SAMPLES_PER_FRAME)
           (rt_error ''NanoCodec golden PCM sample count is inconsistent'')) (\<lambda>_.
         bindE (gn_complete_matches plans pcm_payload) (\<lambda>_.
         Inr (pcm_payload, sha256_hex pcm_payload, sample_count))))))"

subsection \<open>The documents\<close>

record golden_hashes =
  gh_normalized_text_sha256 :: pystr
  gh_token_ids_sha256 :: pystr
  gh_baked_context_sha256 :: json
  gh_decoder_tokens_sha256 :: pystr
  gh_codec_codes_sha256 :: pystr
  gh_codec_frame_count :: nat
  gh_pcm_f32le_sha256 :: pystr
  gh_pcm_sample_count :: nat

definition tensor_item :: "decoder_fixture \<Rightarrow> string \<Rightarrow> fixture_tensor result" where
  "tensor_item fixture name =
     (case fixture_lookup fixture (pys name) of None \<Rightarrow> Inl (Exn PyKeyError name) | Some t \<Rightarrow> Inr t)"

text \<open>\<open>numpy.fromfile(path, dtype="<i8").reshape(shape)\<close>, for a shape without negative numbers, which
  \<open>validate_boundary_fixture\<close> has established: bytes after the last whole element are not read.\<close>

primrec take_eights :: "nat \<Rightarrow> byte list \<Rightarrow> byte list list" where
  "take_eights 0 payload = []"
| "take_eights (Suc n) payload = take 8 payload # take_eights n (drop 8 payload)"

definition read_code_array :: "byte list \<Rightarrow> json list \<Rightarrow> code_array result" where
  "read_code_array payload shape =
     bindE (mapE dimension_of shape) (\<lambda>dims.
     let codes = \<lparr>ca_shape = map nat dims, ca_elements = take_eights (length payload div 8) payload\<rparr>
     in bindE (guardE (prod_list (ca_shape codes) \<noteq> length (ca_elements codes))
          (Exn PyValueError ''cannot reshape array'')) (\<lambda>_. Inr codes))"

definition golden_fixture_document ::
  "pystr \<Rightarrow> int list \<Rightarrow> int \<Rightarrow> pystr \<Rightarrow> pystr \<Rightarrow> golden_hashes \<Rightarrow> json_object"
where
  "golden_fixture_document fixture_id token_ids seed tokenizer_sha256 lock_sha256 hashes =
     [(pys ''schema_version'', JInt 1), (pys ''fixture_id'', JStr fixture_id),
      (pys ''prepared_token_ids'', JList (map JInt token_ids)), (pys ''seed'', JInt seed),
      (pys ''tokenizer_identity_sha256'', JStr tokenizer_sha256), (pys ''oracle_lock_sha256'', JStr lock_sha256),
      (pys ''normalized_text_sha256'', JStr (gh_normalized_text_sha256 hashes)),
      (pys ''token_ids_sha256'', JStr (gh_token_ids_sha256 hashes)),
      (pys ''baked_context_sha256'', gh_baked_context_sha256 hashes),
      (pys ''expected'', JObj
        [(pys ''decoder_tokens_sha256'', JStr (gh_decoder_tokens_sha256 hashes)),
         (pys ''codec_codes_sha256'', JStr (gh_codec_codes_sha256 hashes)),
         (pys ''codec_frame_count'', JInt (int (gh_codec_frame_count hashes))),
         (pys ''pcm_f32le_sha256'', JStr (gh_pcm_f32le_sha256 hashes)),
         (pys ''pcm_sample_count'', JInt (int (gh_pcm_sample_count hashes)))])]"

definition golden_receipt_document :: "pystr \<Rightarrow> int \<Rightarrow> golden_hashes \<Rightarrow> json_object" where
  "golden_receipt_document created_at seed hashes =
     [(pys ''receipt_version'', JInt 1), (pys ''created_at_utc'', JStr created_at),
      (pys ''normalized_text_sha256'', JStr (gh_normalized_text_sha256 hashes)),
      (pys ''token_ids_sha256'', JStr (gh_token_ids_sha256 hashes)),
      (pys ''baked_context_sha256'', gh_baked_context_sha256 hashes), (pys ''seed'', JInt seed),
      (pys ''decoder_tokens_sha256'', JStr (gh_decoder_tokens_sha256 hashes)),
      (pys ''codec_codes_sha256'', JStr (gh_codec_codes_sha256 hashes)),
      (pys ''codec_frame_count'', JInt (int (gh_codec_frame_count hashes))),
      (pys ''pcm_f32le_sha256'', JStr (gh_pcm_f32le_sha256 hashes)),
      (pys ''sample_count'', JInt (int (gh_pcm_sample_count hashes))),
      (pys ''initial_frames'', JInt (int INITIAL_FRAMES)), (pys ''steady_frames'', JInt (int STEADY_FRAMES)),
      (pys ''tail_min_frames'', JInt (int TAIL_MIN_FRAMES)), (pys ''tail_max_frames'', JInt (int TAIL_MAX_FRAMES)),
      (pys ''eos_frame_is_audio'', JBool False),
      (pys ''zero_frame_finalization'', JStr (pys ZERO_FRAME_FINALIZATION))]"

text \<open>\<open>read\<close> is \<open>path.read_bytes()\<close> of a tensor's file.\<close>

definition build_golden_documents ::
  "(fixture_tensor \<Rightarrow> byte list result) \<Rightarrow> decoder_fixture \<Rightarrow> nat list \<Rightarrow> nat \<Rightarrow> json_object \<Rightarrow> pystr \<Rightarrow> pystr \<Rightarrow>
   pystr \<Rightarrow> nat \<Rightarrow> pystr \<Rightarrow> (json_object \<times> json_object \<times> golden_hashes) result"
where
  "build_golden_documents read fixture schedule valid_codec_frames manifest tokenizer_sha256 lock_sha256
     pcm_sha256 pcm_sample_count created_at =
     bindE (tensor_item fixture ''input.text_token_ids'') (\<lambda>token_record.
     bindE (read token_record) (\<lambda>token_payload.
     bindE (little_endian_int32_values token_payload) (\<lambda>token_ids.
     bindE (guardE (int (length token_ids) \<noteq> df_text_tokens fixture \<or> list_ex (\<lambda>i. i < 0) token_ids)
       (rt_error ''canonical prepared token IDs are invalid'')) (\<lambda>_.
     bindE (rt_string (got manifest ''text'')) (\<lambda>text_value.
     bindE (utf8_encode text_value) (\<lambda>text_bytes.
     bindE (case fixture_lookup fixture (pys ''cfg.sofia_prefix'') of
         None \<Rightarrow> Inl (rt_error ''canonical Sofia baked context contract mismatch'')
       | Some t \<Rightarrow> bindE (guardE (\<not> py_eq (ft_dtype t) (JStr (pys ''bf16'')) \<or>
             \<not> py_eq (JList (ft_shape t)) (int_list [1, 217, 768]))
           (rt_error ''canonical Sofia baked context contract mismatch'')) (\<lambda>_. Inr t)) (\<lambda>baked_context.
     bindE (tensor_item fixture ''generation.codes'') (\<lambda>generation_codes.
     bindE (guardE (\<not> py_eq (ft_dtype generation_codes) (JStr (pys ''int64'')))
       (rt_error ''canonical generated codes are not INT64'')) (\<lambda>_.
     bindE (read generation_codes) (\<lambda>codes_payload.
     bindE (read_code_array codes_payload (ft_shape generation_codes)) (\<lambda>codes.
     bindE (chunked_codec_code_bytes codes schedule) (\<lambda>codec_code_payload.
     let hashes = \<lparr>gh_normalized_text_sha256 = sha256_hex text_bytes, gh_token_ids_sha256 = sha256_hex token_payload,
          gh_baked_context_sha256 = ft_sha256 baked_context, gh_decoder_tokens_sha256 = sha256_hex codes_payload,
          gh_codec_codes_sha256 = sha256_hex codec_code_payload, gh_codec_frame_count = valid_codec_frames,
          gh_pcm_f32le_sha256 = pcm_sha256, gh_pcm_sample_count = pcm_sample_count\<rparr>
     in bindE (rt_nonnegative_integer (got manifest ''local_ar_seed'')) (\<lambda>seed.
        bindE (guardE (2 ^ 32 \<le> seed) (rt_error ''fixture.local_ar_seed is outside uint32'')) (\<lambda>_.
        bindE (rt_string (got manifest ''fixture_id'')) (\<lambda>fixture_id.
        Inr (golden_fixture_document fixture_id token_ids seed tokenizer_sha256 lock_sha256 hashes,
             golden_receipt_document created_at seed hashes, hashes))))))))))))))))"

subsection \<open>Token bytes\<close>

lemma int32_of_bytes_four: "int32_of_bytes [a, b, c, d] =
    (let u = uint a + 256 * (uint b + 256 * (uint c + 256 * uint d)) in if u < 2 ^ 31 then u else u - 2 ^ 32)"
  by (simp add: int32_of_bytes_def)

lemma word_of_int_byte: "word_of_int (uint a + 256 * y) = (a :: byte)"
proof -
  have "word_of_int (uint a + 256 * y) = (word_of_int (uint a) :: byte)"
    unfolding word_of_int_eq_iff by (simp add: take_bit_eq_mod)
  then show ?thesis by simp
qed

lemma div_256: "(uint (a :: byte) + 256 * y) div 256 = y"
proof -
  have "0 \<le> uint a" "uint a < 256" using uint_lt2p [of a] by simp_all
  then show ?thesis by (simp add: div_add1_eq div_pos_pos_trivial)
qed

lemma int32_le_limbs: "int32_le (uint a + 256 * (uint b + 256 * (uint c + 256 * (uint d + 256 * y)))) = [a, b, c, d :: byte]"
proof -
  define y3 where "y3 = uint d + 256 * y"
  define y2 where "y2 = uint c + 256 * y3"
  define y1 where "y1 = uint b + 256 * y2"
  let ?n = "uint a + 256 * y1"
  have n: "?n div 256 = y1" "y1 div 256 = y2" "y2 div 256 = y3" by (simp_all only: y1_def y2_def div_256)
  have "?n div 65536 = ?n div 256 div 256" "?n div 16777216 = ?n div 256 div 256 div 256"
    using zdiv_zmult2_eq [of 256 ?n 256] zdiv_zmult2_eq [of 256 ?n 65536] zdiv_zmult2_eq [of 256 "?n div 256" 256]
    by simp_all
  with n have "?n div 256 = y1" "?n div 65536 = y2" "?n div 16777216 = y3" by simp_all
  moreover have "word_of_int ?n = a" "word_of_int y1 = b" "word_of_int y2 = c" "word_of_int y3 = d"
    by (simp_all only: y1_def y2_def y3_def word_of_int_byte)
  ultimately have "int32_le ?n = [a, b, c, d]" by (simp add: int32_le_def)
  then show ?thesis by (simp only: y1_def y2_def y3_def)
qed

lemma int32_round_trip: "int32_le (int32_of_bytes [a, b, c, d]) = [a, b, c, d]"
proof -
  have "int32_of_bytes [a, b, c, d] = uint a + 256 * (uint b + 256 * (uint c + 256 * (uint d + 256 * 0))) \<or>
      int32_of_bytes [a, b, c, d] = uint a + 256 * (uint b + 256 * (uint c + 256 * (uint d + 256 * (-1))))"
    by (simp add: int32_of_bytes_four Let_def)
  then show ?thesis by (metis int32_le_limbs)
qed

lemma int32_bounds:
  fixes a b c d :: int
  assumes "0 \<le> a" "a < 256" "0 \<le> b" "b < 256" "0 \<le> c" "c < 256" "0 \<le> d" "d < 256"
  shows "(let u = a + 256 * (b + 256 * (c + 256 * d)) in
     - (2 ^ 31) \<le> (if u < 2 ^ 31 then u else u - 2 ^ 32) \<and> (if u < 2 ^ 31 then u else u - 2 ^ 32) < 2 ^ 31)"
  using assms by (simp add: Let_def)

lemma int32_of_bytes_range: "- (2 ^ 31) \<le> int32_of_bytes [a, b, c, d] \<and> int32_of_bytes [a, b, c, d] < 2 ^ 31"
proof -
  have r: "0 \<le> uint x" "uint x < 256" for x :: byte using uint_lt2p [of x] by simp_all
  from int32_bounds [OF r r r r, of a b c d] show ?thesis unfolding int32_of_bytes_four Let_def .
qed

lemma split_four_values:
  assumes "length payload mod 4 = 0"
  shows "concat (map int32_le (map int32_of_bytes (split_four payload))) = payload \<and>
    (\<forall>i \<in> set (map int32_of_bytes (split_four payload)). - (2 ^ 31) \<le> i \<and> i < 2 ^ 31)"
  using assms
proof (induction payload rule: split_four.induct)
  case (1 a b c d rest)
  then have "length rest mod 4 = 0" by simp
  with 1 int32_of_bytes_range [of a b c d] show ?case by (simp add: int32_round_trip)
qed (simp_all add: mod_less)

text \<open>The packager computes from the token list the digest of the very bytes the list was read from.\<close>

lemma little_endian_int32_round_trip:
  assumes "little_endian_int32_values payload = Inr tokens"
  shows "prepared_token_ids_sha256 tokens = Inr (sha256_hex payload) \<and> tokens \<noteq> [] \<and>
    (\<forall>i \<in> set tokens. - (2 ^ 31) \<le> i \<and> i < 2 ^ 31)"
proof -
  from assms have p: "payload \<noteq> []" "length payload mod 4 = 0" "tokens = map int32_of_bytes (split_four payload)"
    by (auto simp: little_endian_int32_values_def split: if_splits)
  from split_four_values [OF p(2)] have s: "concat (map int32_le tokens) = payload"
    "\<forall>i \<in> set tokens. - (2 ^ 31) \<le> i \<and> i < 2 ^ 31" by (simp_all add: p(3))
  from prepared_token_ids_sha256_Inr [OF s(2)] s p(1) show ?thesis by auto
qed

subsection \<open>The schedule\<close>

lemma golden_chunks_Inr:
  assumes "golden_chunks plans codes chunk_count schedule sequence frame_offset states = Inr (parts, end_offset)"
  shows "end_offset = frame_offset + sum_list schedule \<and> length parts = length schedule \<and>
    (\<forall>i < length schedule. \<exists>route. golden_route chunk_count (sequence + i) (schedule ! i) = Inr route)"
  using assms
proof (induction schedule arbitrary: sequence frame_offset states parts)
  case Nil
  then show ?case by simp
next
  case (Cons frame_count schedule)
  from Cons.prems obtain route outputs rest where r: "golden_route chunk_count sequence frame_count = Inr route"
    "gn_execute plans route (code_chunk codes frame_offset frame_count) states = Inr outputs"
    "golden_chunks plans codes chunk_count schedule (Suc sequence) (frame_offset + frame_count) (Some (co_states outputs)) = Inr (rest, end_offset)"
    "parts = co_pcm outputs # rest"
    by (auto simp: bindE_eq_Inr guardE_eq_Inr)
  from Cons.IH [OF r(3)] r(1,4) show ?case by (simp add: All_less_Suc2)
qed

lemma golden_route_Inr:
  assumes "golden_route chunk_count sequence frame_count = Inr route"
  shows "sequence = 0 \<Longrightarrow> frame_count = 4"
    and "0 < sequence \<Longrightarrow> sequence = chunk_count - 1 \<Longrightarrow> 1 \<le> frame_count \<and> frame_count \<le> 8"
    and "0 < sequence \<Longrightarrow> sequence \<noteq> chunk_count - 1 \<Longrightarrow> frame_count = 8"
  using assms
  by (auto simp: golden_route_def bindE_eq_Inr guardE_eq_Inr INITIAL_FRAMES_def STEADY_FRAMES_def TAIL_MIN_FRAMES_def
      TAIL_MAX_FRAMES_def split: if_splits)

lemma executed_schedule:
  assumes "execute_golden_nanocodec plans codes schedule valid_codec_frames = Inr (pcm, digest, samples)"
  shows "sum_list schedule = valid_codec_frames \<and> samples = valid_codec_frames * 1024 \<and> digest = sha256_hex pcm \<and>
    samples = length pcm div 4 \<and> (schedule \<noteq> [] \<longrightarrow> schedule ! 0 = 4) \<and>
    (\<forall>i. 0 < i \<and> i < length schedule - 1 \<longrightarrow> schedule ! i = 8) \<and>
    (1 < length schedule \<longrightarrow> last schedule \<in> {1..8})"
proof -
  from assms obtain parts offset where c: "golden_chunks plans codes (length schedule) schedule 0 0 None = Inr (parts, offset)"
    "offset = valid_codec_frames" "pcm = concat parts" "digest = sha256_hex pcm"
    "samples = length pcm div 4" "samples = valid_codec_frames * SAMPLES_PER_FRAME"
    by (auto simp: execute_golden_nanocodec_def Let_def bindE_eq_Inr guardE_eq_Inr)
  from golden_chunks_Inr [OF c(1)] have sum: "offset = sum_list schedule"
    and route: "\<And>i. i < length schedule \<Longrightarrow> \<exists>route. golden_route (length schedule) i (schedule ! i) = Inr route"
    by simp_all
  have "schedule ! 0 = 4" if "schedule \<noteq> []" using route [of 0] that golden_route_Inr(1) by fastforce
  moreover have "schedule ! i = 8" if "0 < i" "i < length schedule - 1" for i
    using route [of i] that golden_route_Inr(3) by fastforce
  moreover have "last schedule \<in> {1..8}" if "1 < length schedule"
  proof -
    have "last schedule = schedule ! (length schedule - 1)" using that by (intro last_conv_nth) auto
    with route [of "length schedule - 1"] that golden_route_Inr(2) show ?thesis by fastforce
  qed
  ultimately show ?thesis using c sum by (simp add: SAMPLES_PER_FRAME_def)
qed

subsection \<open>The packager reads the documents\<close>

lemma written_digest: "sha256_pattern s \<Longrightarrow> require_sha256 (JStr s) = Inr s"
  by (simp add: require_sha256_Inr_iff)

lemma written_integer: "lo \<le> i \<Longrightarrow> i \<le> hi \<Longrightarrow> pkg_require_int (JInt i) lo hi = Inr i"
  by (simp add: pkg_require_int_def)

lemmas written_simps = require_object_same field_def written_integer written_digest

lemma tokens_read:
  assumes "\<forall>i \<in> set tokens. 0 \<le> i \<and> i < 2 ^ 31"
  shows "mapE (\<lambda>token. pkg_require_int token 0 max_i31) (map JInt tokens) = Inr tokens"
  using assms by (induction tokens) (auto simp: pkg_require_int_def)

lemma parse_written_fixture:
  assumes load: "load_json_file env p = Inr (JObj (golden_fixture_document fixture_id tokens seed tokenizer_sha256 lock_sha256 hashes))"
    and "require_identifier (JStr fixture_id) = Inr fixture_id" and tokens: "tokens \<noteq> []" "\<forall>i \<in> set tokens. 0 \<le> i \<and> i < 2 ^ 31"
    and "0 \<le> seed" "seed < 2 ^ 32" and "sha256_pattern tokenizer_sha256" "sha256_pattern lock_sha256"
    and "sha256_pattern (gh_normalized_text_sha256 hashes)" "sha256_pattern (gh_token_ids_sha256 hashes)"
    and "gh_baked_context_sha256 hashes = JStr baked" "sha256_pattern baked"
    and "sha256_pattern (gh_decoder_tokens_sha256 hashes)" "sha256_pattern (gh_codec_codes_sha256 hashes)"
    and "sha256_pattern (gh_pcm_f32le_sha256 hashes)"
    and "1 \<le> gh_codec_frame_count hashes" "int (gh_codec_frame_count hashes) \<le> max_u64"
    and "1 \<le> gh_pcm_sample_count hashes" "int (gh_pcm_sample_count hashes) \<le> max_u64"
  shows "parse_golden_fixture env p = Inr
    \<lparr>gf_schema_version = 1, gf_fixture_id = fixture_id, gf_prepared_token_ids = tokens, gf_seed = seed,
     gf_tokenizer_identity_sha256 = tokenizer_sha256, gf_oracle_lock_sha256 = lock_sha256,
     gf_normalized_text_sha256 = gh_normalized_text_sha256 hashes, gf_token_ids_sha256 = gh_token_ids_sha256 hashes,
     gf_baked_context_sha256 = baked,
     gf_expected = \<lparr>ge_decoder_tokens_sha256 = gh_decoder_tokens_sha256 hashes,
       ge_codec_codes_sha256 = gh_codec_codes_sha256 hashes, ge_codec_frame_count = int (gh_codec_frame_count hashes),
       ge_pcm_f32le_sha256 = gh_pcm_f32le_sha256 hashes, ge_pcm_sample_count = int (gh_pcm_sample_count hashes)\<rparr>\<rparr>"
proof -
  have ne: "map JInt tokens \<noteq> []" using tokens(1) by simp
  have read: "mapE (\<lambda>token. pkg_require_int token 0 2147483647) (map JInt tokens) = Inr tokens"
    using tokens_read [OF tokens(2)] by simp
  show ?thesis
    using assms(2,5-)
    by (simp add: parse_golden_fixture_def load golden_fixture_document_def require_non_empty_list_def ne tokens(1) read
        expected_of_def written_simps)
qed

lemma parse_written_receipt:
  assumes load: "load_json_file env p = Inr (JObj (golden_receipt_document created_at seed hashes))"
    and "require_timestamp env (JStr created_at) = Inr created_at"
    and "0 \<le> seed" "seed < 2 ^ 32"
    and "sha256_pattern (gh_normalized_text_sha256 hashes)" "sha256_pattern (gh_token_ids_sha256 hashes)"
    and "gh_baked_context_sha256 hashes = JStr baked" "sha256_pattern baked"
    and "sha256_pattern (gh_decoder_tokens_sha256 hashes)" "sha256_pattern (gh_codec_codes_sha256 hashes)"
    and "sha256_pattern (gh_pcm_f32le_sha256 hashes)"
    and "1 \<le> gh_codec_frame_count hashes" "int (gh_codec_frame_count hashes) \<le> max_u64"
    and "1 \<le> gh_pcm_sample_count hashes" "int (gh_pcm_sample_count hashes) \<le> max_u64"
  shows "parse_golden_receipt env p = Inr
    \<lparr>gr_receipt_version = 1, gr_created_at_utc = created_at,
     gr_normalized_text_sha256 = gh_normalized_text_sha256 hashes, gr_token_ids_sha256 = gh_token_ids_sha256 hashes,
     gr_baked_context_sha256 = baked, gr_seed = seed, gr_decoder_tokens_sha256 = gh_decoder_tokens_sha256 hashes,
     gr_codec_codes_sha256 = gh_codec_codes_sha256 hashes, gr_codec_frame_count = int (gh_codec_frame_count hashes),
     gr_pcm_f32le_sha256 = gh_pcm_f32le_sha256 hashes, gr_sample_count = int (gh_pcm_sample_count hashes),
     gr_initial_frames = 4, gr_steady_frames = 8, gr_tail_min_frames = 1, gr_tail_max_frames = 8,
     gr_eos_frame_is_audio = False, gr_zero_frame_finalization = pys ZERO_FRAME_FINALIZATION\<rparr>"
proof -
  have z: "require_identifier (JStr (pys ZERO_FRAME_FINALIZATION)) = Inr (pys ZERO_FRAME_FINALIZATION)"
    using demo_identifier [of ZERO_FRAME_FINALIZATION] by simp
  show ?thesis
    using assms(2-)
    by (simp add: parse_golden_receipt_def load golden_receipt_document_def z written_simps
        INITIAL_FRAMES_def STEADY_FRAMES_def TAIL_MIN_FRAMES_def TAIL_MAX_FRAMES_def)
qed

text \<open>What a specification and the evidence of the package have to say for the documents to be accepted.\<close>

definition golden_agrees ::
  "decoder_fixture \<Rightarrow> json_object \<Rightarrow> json_object \<Rightarrow> nat \<Rightarrow> pystr \<Rightarrow> pystr \<Rightarrow> pystr \<Rightarrow> package_spec \<Rightarrow> export_evidence \<Rightarrow> bool"
where
  "golden_agrees fixture manifest document frames tokenizer_sha256 lock_sha256 pcm_sha256 spec evidence \<longleftrightarrow>
     (\<exists>fixture_id. got manifest ''fixture_id'' = JStr fixture_id \<and> require_identifier (JStr fixture_id) = Inr fixture_id) \<and>
     (\<forall>t. fixture_lookup fixture (pys ''cfg.sofia_prefix'') = Some t \<longrightarrow> (\<exists>d. ft_sha256 t = JStr d \<and> sha256_pattern d)) \<and>
     tokenizer_sha256 = tk_identity_sha256 (ps_tokenizer spec) \<and> sha256_pattern tokenizer_sha256 \<and>
     lock_sha256 = ev_oracle_lock_sha256 evidence \<and> sha256_pattern lock_sha256 \<and> sha256_pattern pcm_sha256 \<and>
     df_text_tokens fixture \<le> lm_maximum_text_tokens (ps_limits spec) \<and>
     (\<exists>front. got document ''prepared_token_ids'' = JList (map JInt (front @ [st_eos_token_id (tk_special_tokens (ps_tokenizer spec))])) \<and>
        (\<forall>i \<in> set front. i < tk_tokenizer_vocabulary_size (ps_tokenizer spec))) \<and>
     1 \<le> frames \<and> int frames \<le> lm_maximum_audio_frames (ps_limits spec) \<and> int (frames * 1024) \<le> max_u64 \<and>
     \<not> cd_eos_frame_is_audio (ps_codec spec) \<and>
     cd_zero_frame_finalization (ps_codec spec) = pys ZERO_FRAME_FINALIZATION \<and> cd_hop_length_samples (ps_codec spec) = 1024"

lemma build_golden_documents_Inr:
  assumes "build_golden_documents read fixture schedule frames manifest tokenizer_sha256 lock_sha256 pcm_sha256 samples
      created_at = Inr (fixture_doc, receipt_doc, hashes)"
  obtains token_payload tokens t fixture_id seed where
    "little_endian_int32_values token_payload = Inr tokens" "int (length tokens) = df_text_tokens fixture"
    "\<forall>i \<in> set tokens. 0 \<le> i" "fixture_lookup fixture (pys ''cfg.sofia_prefix'') = Some t"
    "gh_baked_context_sha256 hashes = ft_sha256 t" "gh_token_ids_sha256 hashes = sha256_hex token_payload"
    "sha256_pattern (gh_normalized_text_sha256 hashes)" "sha256_pattern (gh_decoder_tokens_sha256 hashes)"
    "sha256_pattern (gh_codec_codes_sha256 hashes)" "gh_codec_frame_count hashes = frames"
    "gh_pcm_f32le_sha256 hashes = pcm_sha256" "gh_pcm_sample_count hashes = samples"
    "got manifest ''fixture_id'' = JStr fixture_id" "0 \<le> seed" "seed < 2 ^ 32"
    "fixture_doc = golden_fixture_document fixture_id tokens seed tokenizer_sha256 lock_sha256 hashes"
    "receipt_doc = golden_receipt_document created_at seed hashes"
proof -
  from assms show ?thesis
    using that
    by (auto simp: build_golden_documents_def Let_def bindE_eq_Inr guardE_eq_Inr rt_Inr_iff list_ex_iff not_less
        not_le split: option.splits)
qed

lemma map_JInt_eq: "map JInt xs = map JInt ys \<longleftrightarrow> xs = ys"
  by (rule inj_map_eq_map) (simp add: inj_def)

lemma golden_documents:
  assumes built: "build_golden_documents read fixture schedule frames manifest tokenizer_sha256 lock_sha256 pcm_sha256
      (frames * 1024) created_at = Inr (fixture_doc, receipt_doc, hashes)"
    and agrees: "golden_agrees fixture manifest fixture_doc frames tokenizer_sha256 lock_sha256 pcm_sha256 spec evidence"
    and loads: "load_json_file env p = Inr (JObj fixture_doc)" "load_json_file env q = Inr (JObj receipt_doc)"
    and stamp: "require_timestamp env (JStr created_at) = Inr created_at"
  shows "\<exists>f r. parse_golden_fixture env p = Inr f \<and> parse_golden_receipt env q = Inr r \<and>
    validate_golden_fixture f r spec evidence = Inr ()"
proof -
  obtain token_payload tokens t fixture_id seed where b:
    "little_endian_int32_values token_payload = Inr tokens" "int (length tokens) = df_text_tokens fixture"
    "\<forall>i \<in> set tokens. 0 \<le> i" "fixture_lookup fixture (pys ''cfg.sofia_prefix'') = Some t"
    "gh_baked_context_sha256 hashes = ft_sha256 t" "gh_token_ids_sha256 hashes = sha256_hex token_payload"
    "sha256_pattern (gh_normalized_text_sha256 hashes)" "sha256_pattern (gh_decoder_tokens_sha256 hashes)"
    "sha256_pattern (gh_codec_codes_sha256 hashes)" "gh_codec_frame_count hashes = frames"
    "gh_pcm_f32le_sha256 hashes = pcm_sha256" "gh_pcm_sample_count hashes = frames * 1024"
    "got manifest ''fixture_id'' = JStr fixture_id" "0 \<le> seed" "seed < 2 ^ 32"
    and docs: "fixture_doc = golden_fixture_document fixture_id tokens seed tokenizer_sha256 lock_sha256 hashes"
      "receipt_doc = golden_receipt_document created_at seed hashes"
    by (rule build_golden_documents_Inr [OF built])
  from agrees b(13) have named: "require_identifier (JStr fixture_id) = Inr fixture_id" by (auto simp: golden_agrees_def)
  from agrees b(4) obtain baked where baked: "ft_sha256 t = JStr baked" "sha256_pattern baked" by (auto simp: golden_agrees_def)
  from little_endian_int32_round_trip [OF b(1)] have ne: "tokens \<noteq> []"
    and digest: "prepared_token_ids_sha256 tokens = Inr (sha256_hex token_payload)"
    and range: "\<forall>i \<in> set tokens. - (2 ^ 31) \<le> i \<and> i < 2 ^ 31" by simp_all
  have "got fixture_doc ''prepared_token_ids'' = JList (map JInt tokens)" by (simp add: docs golden_fixture_document_def)
  with agrees obtain front where eq: "map JInt tokens = map JInt (front @ [st_eos_token_id (tk_special_tokens (ps_tokenizer spec))])"
    and rows: "\<forall>i \<in> set front. i < tk_tokenizer_vocabulary_size (ps_tokenizer spec)" by (auto simp: golden_agrees_def)
  from eq have front: "tokens = front @ [st_eos_token_id (tk_special_tokens (ps_tokenizer spec))]"
    by (simp only: map_JInt_eq)
  from agrees have a: "sha256_pattern tokenizer_sha256" "sha256_pattern lock_sha256" "sha256_pattern pcm_sha256"
    "1 \<le> frames" "int (frames * 1024) \<le> max_u64" unfolding golden_agrees_def by blast+
  from agrees have limits: "tokenizer_sha256 = tk_identity_sha256 (ps_tokenizer spec)"
    "lock_sha256 = ev_oracle_lock_sha256 evidence" "df_text_tokens fixture \<le> lm_maximum_text_tokens (ps_limits spec)"
    "int frames \<le> lm_maximum_audio_frames (ps_limits spec)" "\<not> cd_eos_frame_is_audio (ps_codec spec)"
    "cd_zero_frame_finalization (ps_codec spec) = pys ZERO_FRAME_FINALIZATION" "cd_hop_length_samples (ps_codec spec) = 1024"
    unfolding golden_agrees_def by blast+
  have patterns: "sha256_pattern (gh_token_ids_sha256 hashes)" "sha256_pattern (gh_pcm_f32le_sha256 hashes)"
    using b(6,11) a(3) by simp_all
  have counts: "1 \<le> gh_codec_frame_count hashes" "int (gh_codec_frame_count hashes) \<le> max_u64"
    "1 \<le> gh_pcm_sample_count hashes" "int (gh_pcm_sample_count hashes) \<le> max_u64"
    using a(4,5) b(10,12) by simp_all
  have context_digest: "gh_baked_context_sha256 hashes = JStr baked" by (simp add: b(5) baked(1))
  have nonneg: "\<forall>i \<in> set tokens. 0 \<le> i \<and> i < 2 ^ 31" using b(3) range by blast
  note parsed = parse_written_fixture [OF loads(1) [unfolded docs] named ne nonneg b(14,15) a(1,2) b(7) patterns(1)
      context_digest baked(2) b(8,9) patterns(2) counts]
    parse_written_receipt [OF loads(2) [unfolded docs] stamp b(14,15,7) patterns(1) context_digest baked(2) b(8,9) patterns(2) counts]
  have "sha256_hex token_payload = sha256_hex (concat (map int32_le tokens))"
    using digest prepared_token_ids_sha256_Inr [OF range] by simp
  with b(2,6,10-12) front rows limits have facts: "fixture_facts
      \<lparr>gf_schema_version = 1, gf_fixture_id = fixture_id, gf_prepared_token_ids = tokens, gf_seed = seed,
       gf_tokenizer_identity_sha256 = tokenizer_sha256, gf_oracle_lock_sha256 = lock_sha256,
       gf_normalized_text_sha256 = gh_normalized_text_sha256 hashes, gf_token_ids_sha256 = gh_token_ids_sha256 hashes,
       gf_baked_context_sha256 = baked,
       gf_expected = \<lparr>ge_decoder_tokens_sha256 = gh_decoder_tokens_sha256 hashes,
         ge_codec_codes_sha256 = gh_codec_codes_sha256 hashes, ge_codec_frame_count = int (gh_codec_frame_count hashes),
         ge_pcm_f32le_sha256 = gh_pcm_f32le_sha256 hashes, ge_pcm_sample_count = int (gh_pcm_sample_count hashes)\<rparr>\<rparr>
      \<lparr>gr_receipt_version = 1, gr_created_at_utc = created_at,
       gr_normalized_text_sha256 = gh_normalized_text_sha256 hashes, gr_token_ids_sha256 = gh_token_ids_sha256 hashes,
       gr_baked_context_sha256 = baked, gr_seed = seed, gr_decoder_tokens_sha256 = gh_decoder_tokens_sha256 hashes,
       gr_codec_codes_sha256 = gh_codec_codes_sha256 hashes, gr_codec_frame_count = int (gh_codec_frame_count hashes),
       gr_pcm_f32le_sha256 = gh_pcm_f32le_sha256 hashes, gr_sample_count = int (gh_pcm_sample_count hashes),
       gr_initial_frames = 4, gr_steady_frames = 8, gr_tail_min_frames = 1, gr_tail_max_frames = 8,
       gr_eos_frame_is_audio = False, gr_zero_frame_finalization = pys ZERO_FRAME_FINALIZATION\<rparr> spec evidence"
    (is "fixture_facts ?f ?r spec evidence")
    unfolding fixture_facts_def digest_pairs_def by auto
  have "\<forall>i \<in> set (gf_prepared_token_ids ?f). - (2 ^ 31) \<le> i \<and> i < 2 ^ 31" using range by simp
  from validate_golden_fixture_Inr_iff [OF this] facts have "validate_golden_fixture ?f ?r spec evidence = Inr ()" by blast
  with parsed show ?thesis by blast
qed

subsection \<open>Properties\<close>

text \<open>C27: a golden run accepts only the schedule of the three plans: the first chunk has four frames, every chunk
  between the first and the last eight, and a last chunk of its own one to eight; together they are the valid codec
  frames, and the PCM has 1024 samples for each of them.\<close>

theorem golden_schedule:
  assumes "execute_golden_nanocodec plans codes schedule valid_codec_frames = Inr (pcm, digest, samples)"
  shows "sum_list schedule = valid_codec_frames \<and> samples = valid_codec_frames * 1024 \<and> digest = sha256_hex pcm \<and>
    samples = length pcm div 4 \<and> (schedule \<noteq> [] \<longrightarrow> schedule ! 0 = 4) \<and>
    (\<forall>i. 0 < i \<and> i < length schedule - 1 \<longrightarrow> schedule ! i = 8) \<and>
    (1 < length schedule \<longrightarrow> last schedule \<in> {1..8})"
  using assms by (rule executed_schedule)

definition demo_codes :: code_array where
  "demo_codes = \<lparr>ca_shape = [1, 8, 5], ca_elements = replicate 40 (replicate 8 0)\<rparr>"

definition demo_golden_plans :: "unit golden_nanocodec" where
  "demo_golden_plans =
     \<lparr>gn_execute = (\<lambda>route codes states. Inr
        \<lparr>co_names = [''pcm'', ''valid_sample_length''], co_valid_samples = int (length codes div 64) * 1024,
         co_pcm = replicate (length codes div 64 * 4096) 0, co_states = ()\<rparr>),
      gn_matches = (\<lambda>_ _. Inr ()), gn_complete_matches = (\<lambda>_. Inr ()), gn_state_outputs = []\<rparr>"

theorem golden_schedule_witness:
  "\<exists>pcm digest samples. execute_golden_nanocodec demo_golden_plans demo_codes [4, 1] 5 = Inr (pcm, digest, samples) \<and>
     samples = 5120"
proof -
  have "length (code_chunk demo_codes 0 4) div 64 = 4" "length (code_chunk demo_codes 4 1) div 64 = 1" by code_simp+
  then have "\<exists>r. execute_golden_nanocodec demo_golden_plans demo_codes [4, 1] 5 = Inr r"
    by (simp add: execute_golden_nanocodec_def demo_golden_plans_def golden_route_def INITIAL_FRAMES_def TAIL_MIN_FRAMES_def
        TAIL_MAX_FRAMES_def SAMPLES_PER_FRAME_def Let_def)
  then obtain pcm digest samples where r: "execute_golden_nanocodec demo_golden_plans demo_codes [4, 1] 5 = Inr (pcm, digest, samples)"
    by (metis prod_cases3)
  from golden_schedule [OF r] have "samples = 5120" by simp
  with r show ?thesis by blast
qed


definition demo_golden_source :: decoder_fixture where
  "demo_golden_source =
     (let t = (\<lambda>name dt shape. (JStr (pys name), \<lparr>ft_path = pys name, ft_dtype = JStr (pys dt), ft_shape = map JInt shape,
                 ft_size_bytes = JInt 0, ft_sha256 = JStr (zeros 64)\<rparr>))
      in \<lparr>df_root = [], df_manifest_sha256 = zeros 64, df_text_tokens = 2,
          df_tensors = [t ''input.text_token_ids'' ''int32'' [1, 2], t ''cfg.sofia_prefix'' ''bf16'' [1, 217, 768],
                        t ''generation.codes'' ''int64'' [1, 8, 1]]\<rparr>)"

definition demo_tensor_bytes :: "fixture_tensor \<Rightarrow> byte list result" where
  "demo_tensor_bytes t =
     Inr (if ft_path t = pys ''generation.codes'' then replicate 64 0 else [5, 0, 0, 0, 101, 0, 0, 0])"

definition demo_golden_manifest :: json_object where
  "demo_golden_manifest =
     [(pys ''text'', JStr (pys ''a'')), (pys ''local_ar_seed'', JInt 7), (pys ''fixture_id'', jstr ''demo'')]"

lemma demo_golden_built:
  "\<exists>fixture_doc receipt_doc hashes. build_golden_documents demo_tensor_bytes demo_golden_source [1] 1 demo_golden_manifest
     (zeros 64) (zeros 64) (zeros 64) (1 * 1024) (pys ''Z'') = Inr (fixture_doc, receipt_doc, hashes) \<and>
     got fixture_doc ''prepared_token_ids'' = JList (map JInt ([5] @ [101])) \<and>
     json_wf (JObj fixture_doc) \<and> finite_json (JObj fixture_doc) \<and>
     json_wf (JObj receipt_doc) \<and> finite_json (JObj receipt_doc)"
proof -
  have tokens: "little_endian_int32_values [5, 0, 0, 0, 101, 0, 0, 0] = Inr [5, 101]" by code_simp
  have codes: "read_code_array (replicate 64 0) [JInt 1, JInt 8, JInt 1] =
      Inr \<lparr>ca_shape = [1, 8, 1], ca_elements = replicate 8 (replicate 8 0)\<rparr>" by code_simp
  have encoded: "utf8_encode (pys ''a'') = Inr [97]" by code_simp
  have chunk: "\<exists>bs. chunked_codec_code_bytes \<lparr>ca_shape = [1, 8, 1], ca_elements = replicate 8 (replicate 8 0)\<rparr> [1] = Inr bs"
    by (simp add: chunked_codec_code_bytes_def CODEBOOKS_def)
  have names: "pys ''cfg.sofia_prefix'' \<noteq> pys ''generation.codes''" by simp
  show ?thesis
    using chunk
    by (auto simp: build_golden_documents_def tensor_item_def demo_golden_source_def fixture_lookup_def demo_tensor_bytes_def
        demo_golden_manifest_def tokens codes encoded rt_string_def rt_nonnegative_integer_def rt_integer_def int_list_def
        num_case_def num_eq_def golden_fixture_document_def golden_receipt_document_def)
qed


end
