(* ===== verification/Spec2Isabelle.thy ===== *)
theory Spec2Isabelle
  imports FrontendServer NanoCodecContract SequenceTracker AlignmentController PackageSpecFacts ManifestFacts
    TokenizerAgreement BundlePublication Mode8Receipt SourceAcceptanceFacts GoldenDocuments
begin

text \<open>
  Verification library for magpie-tts-rt: the Python half of a text-to-speech runtime.

  The program. MagpieTTS-RT synthesises speech with TensorRT engines behind a C ABI. The Python tools
  around it decide what the runtime may rely on: the Japanese frontend (\<open>tools/frontend\<close>) turns text into
  prepared tokens with source spans, the export tools (\<open>tools/export\<close>) fix the contracts of the engines and
  drive them for acceptance, and the packager (\<open>tools/bundle/package_runtime_bundle.py\<close>) turns a
  specification, the receipts and the engine plans into an immutable bundle with a manifest. The library
  models these three, the acceptance tools between them, and what joins them.

  \<^bold>\<open>Conventions\<close> (\<open>Prelude\<close>, \<open>Json\<close>, \<open>Sha256\<close>). A Python string is the list of its code points (\<open>pystr\<close>), bytes
  are 8-bit words, Python integers are \<open>int\<close>, or \<open>nat\<close> where the code keeps them non-negative. A function
  that may raise returns \<open>exn + 'a\<close>: \<open>Inl\<close> is the exception with its class and the fixed part of its message;
  \<open>bindE\<close>, \<open>guardE\<close>, \<open>mapE\<close> and \<open>foldE\<close> sequence such results as statements and loops do. JSON values keep
  the kinds Python distinguishes and the order of object members; \<open>py_eq\<close> is Python's \<open>==\<close>. SHA-256 is
  executable, on 32-bit words.

  \<^bold>\<open>The Japanese frontend\<close> (\<open>japanese_frontend.py\<close>, \<open>japanese_frontend_server.py\<close>).
  \<^item> \<open>FrontendContract\<close>: the locked specification, the token table and the tokenizer identity
    (\<open>load_frontend_spec\<close>, \<open>tokenizer_identity_sha256\<close>). \<open>LockedFrontend\<close>: the verification of the dictionary
    files and the construction of a frontend (\<open>from_files\<close>).
  \<^item> \<open>JapaneseG2P\<close>: from the rows of OpenJTalk to phonetic units and tokens (\<open>_njd_words\<close>, \<open>_pitch_pattern\<close>,
    \<open>_g2p_tokens\<close>, \<open>_tokenize_core\<close>).
  \<^item> \<open>SourceLineage\<close>, with its loop lemmas in \<open>SourceLineageFacts\<close> and its properties in \<open>Alignment\<close>: \<open>prepare\<close>,
    which certifies prefixes of a text, cuts it into source segments and gives every token its span.
  \<^item> \<open>Segmentation\<close>: \<open>prepare_segments\<close> and the greedy choice of ranges under the limit of 80 words, as a
    refinement of an abstract greedy specification.
  \<^item> \<open>FrontendServer\<close>: the JSONL process, as the list of answers to a byte stream.

  \<^bold>\<open>The contracts of the engines\<close> (\<open>tools/export\<close>).
  \<^item> \<open>NanoCodecContract\<close>: the canonical registry of the codec's 97 state bindings (\<open>nanocodec_contract.py\<close>).
  \<^item> \<open>SequenceTracker\<close>: code and end-of-speech accounting of a generation (\<open>sequence_contract.py\<close>); the tracker
    refines the list of codes before the end of speech.
  \<^item> \<open>AlignmentController\<close>: the host-side alignment policy (\<open>alignment_controller.py\<close>), a state machine with an
    inductive step relation.
  \<^item> \<open>ReceiptJson\<close>: the accessors the receipt tools share. \<open>Mode8ClassTable\<close> and \<open>Mode8Receipt\<close>: the class table of
    the mode-8 plugin and its validation receipt (\<open>mode8_class_table_identity.py\<close>).

  \<^bold>\<open>The acceptance chain\<close> (\<open>tools/oracle\<close>, \<open>tools/export\<close>). Each tool authenticates what the one before it wrote.
  \<^item> \<open>SourceAcceptance\<close>, with its guarantees in \<open>SourceAcceptanceFacts\<close>: the public receipt of the source model
    (\<open>source_acceptance_receipt.py\<close>), which the packager accepts.
  \<^item> \<open>BoundaryFixture\<close>: the validator of a captured fixture (\<open>validate_boundary_fixture.py\<close>) and the loader of the
    decoder's part of it (\<open>load_fixture\<close> of \<open>export_main_decoder.py\<close>).
  \<^item> \<open>ExportDirectory\<close>: the authentication of the text encoder, main decoder and Local AR exports, one layout with
    three sets of names (\<open>validate_main_decoder_plans.py\<close>, \<open>validate_main_local_ar_sequence.py\<close>).
  \<^item> \<open>GenerationLoop\<close>: the closed-loop generation over a fixture (\<open>run_fixture_sequence\<close>), in which the alignment
    controller, the code tracker and the plans meet. \<open>SequenceValidation\<close>: the rest of that tool and its receipt.
  \<^item> \<open>SequenceReceipt\<close>: the receipts the finalizer authenticates (\<open>finalize_runtime_acceptance.py\<close>); an accepted
    receipt of the sequence validator passes. \<open>GoldenDocuments\<close>: the golden run of the codec and the two documents
    made of it, which the packager accepts.

  \<^bold>\<open>The packager\<close> (\<open>package_runtime_bundle.py\<close>).
  \<^item> \<open>PackageJson\<close>: payloads without repeated keys, checked accessors, relative paths. The locale \<open>json_codec\<close>
    states when a parser and a printer agree; it is interpreted here and in \<open>PackageSpecFacts\<close> on every section
    the manifest repeats.
  \<^item> \<open>PackageSpec\<close>: one record and one parser for each section of the package specification; its guarantees are
    in \<open>PackageSpecFacts\<close>.
  \<^item> \<open>EnginePlans\<close>: the inspection of a deserialized TensorRT plan.
  \<^item> \<open>ManifestDerivation\<close>, with its guarantees in \<open>ManifestFacts\<close>: the KV-cache and codec sections derived from
    the plans, and \<open>build_manifest\<close>.
  \<^item> \<open>OsFiles\<close> and \<open>PyText\<close>: what the operating system answers about a path or a descriptor
    (\<open>require_regular_non_symlink\<close>, \<open>read_verified_regular_file\<close>, \<open>load_json_file\<close>), and the text functions used on
    it. A file is a record of the answers, so a file that changes between two calls is covered.
  \<^item> \<open>RuntimeIdentity\<close>: the identities of the CUDA and cuBLAS libraries (\<open>cuda_runtime_identity.py\<close>,
    \<open>cublas_runtime_identity.py\<close>). \<open>HostRuntime\<close>: the plugin's dynamic section and registration, and the
    fingerprint of the host.
  \<^item> The receipts: \<open>TokenizerReceipt\<close> (and \<open>TokenizerAgreement\<close>: the packager's identity is the frontend's),
    \<open>SourceReceipt\<close>, \<open>BuildReceipt\<close>, \<open>ExportReceipt\<close> and \<open>GoldenArtifacts\<close>.
  \<^item> \<open>BundleSnapshot\<close>: the inventory of the staged bundle and its last verification before publication.
    \<open>BundleStaging\<close>: the inputs and how they are copied. \<open>BundlePublication\<close>: the phases of
    \<open>package_runtime_bundle\<close> in their order, \<open>publish_bundle\<close>, and the command.

  This theory joins them: the codec section the packager derives from engines that were exported with the
  registry is the registry itself (\<open>codec_manifest_is_registry\<close>).

  \<^bold>\<open>What the lemmas show.\<close> Each component has its functional behaviour with the error branches (\<open>_iff\<close> lemmas),
  the invariant its operations keep, and the properties, numbered C1 onwards in the order of importance
  and spread over the theories; a property that has hypotheses is followed by its instance at a concrete
  input, whose name ends in \<open>_witness\<close>.

  \<^bold>\<open>Bounds and termination.\<close> There is no fuel. Every loop of the source ends: the scan of a tree because the
  weight of the pending directories decreases, the server because the rest of its input does, the segment
  ranges because each range starts after the last one, and the generation loop because the tracker takes at most
  250 decoder steps. The hash runs on words of 32 bits, everything else
  on the unbounded integers of Python.

  \<^bold>\<open>What is outside.\<close> Facilities that are not in the repository are arguments: Unicode case mapping and
  normalisation, the printing of floats, \<open>json.loads\<close> on bytes, OpenJTalk, a TensorRT engine (\<open>trt_engine\<close>)
  and what its plans compute (\<open>plan_sessions\<close>, \<open>golden_nanocodec\<close>), the trees and reads an operating system shows. What a property relies on is a named hypothesis of it.

  \<^bold>\<open>Not modelled.\<close> The exporters and their wrappers, the measurements of the plan validators and the oracle
  capture are PyTorch, ONNX and CUDA programs; of the finalizer, the promotion receipts and the consolidated receipt
  are left out; the NeMo overlay is vendored; the native runtime is C++, CUDA and Rust. The messages of exceptions are
  modelled without the values they print.
\<close>

subsection \<open>The codec registry and the manifest\<close>

text \<open>The tensors of codec engines that were exported from the canonical registry: the state tensors
  in its order, beside tensors named as the contract says.\<close>

definition state_tensor :: "(codec_binding \<Rightarrow> pystr) \<Rightarrow> codec_binding \<Rightarrow> tensor_spec" where
  "state_tensor name b =
     \<lparr>ts_name = name b, ts_dtype = pys (cb_dtype b),
      ts_shape = (case cb_shape b of (x, y, z) \<Rightarrow> [x, y, z]),
      ts_location = pys ''device'', ts_shape_inference_io = False\<rparr>"

definition canonical_outputs :: "tensor_spec \<Rightarrow> tensor_spec \<Rightarrow> (codec_binding \<Rightarrow> pystr) \<Rightarrow> tensor_spec list" where
  "canonical_outputs pcm len name =
     pcm\<lparr>ts_name := pys ''pcm''\<rparr> # len\<lparr>ts_name := pys ''valid_sample_length''\<rparr> # map (state_tensor name) registry"

definition canonical_inputs :: "tensor_spec \<Rightarrow> (codec_binding \<Rightarrow> pystr) \<Rightarrow> tensor_spec list" where
  "canonical_inputs tokens name = tokens\<lparr>ts_name := pys ''codec_tokens''\<rparr> # map (state_tensor name) registry"

definition canonical_engines ::
  "tensor_spec \<Rightarrow> tensor_spec \<Rightarrow> tensor_spec \<Rightarrow> optimization_profile list \<Rightarrow> engine_map"
where
  "canonical_engines pcm len tokens ps =
     [(pys ''nanocodec_initial_4'', \<lparr>ie_inputs = [tokens\<lparr>ts_name := pys ''codec_tokens''\<rparr>],
         ie_outputs = canonical_outputs pcm len cb_initial_output_binding, ie_profiles = ps\<rparr>),
      (pys ''nanocodec_steady_8'', \<lparr>ie_inputs = canonical_inputs tokens cb_steady_input_binding,
         ie_outputs = canonical_outputs pcm len cb_steady_output_binding, ie_profiles = ps\<rparr>),
      (pys ''nanocodec_tail_1_8'', \<lparr>ie_inputs = canonical_inputs tokens cb_tail_input_binding,
         ie_outputs = canonical_outputs pcm len cb_tail_output_binding, ie_profiles = ps\<rparr>)]"

lemma registry_made: "b \<in> set registry \<Longrightarrow> \<exists>n s. b = make_binding n s"
  by (auto simp: registry_def upsample_bindings_def residual_bindings_def)

lemma canonical_binding_names:
  assumes "b \<in> set registry"
  shows "cb_initial_output_binding b = state_output_name (cb_logical_name b)"
    and "cb_steady_output_binding b = state_output_name (cb_logical_name b)"
    and "cb_tail_output_binding b = state_output_name (cb_logical_name b)"
    and "cb_steady_input_binding b = state_input_name (cb_logical_name b)"
    and "cb_tail_input_binding b = state_input_name (cb_logical_name b)"
  using registry_made [OF assms]
  by (auto simp: make_binding_def state_output_name_def state_input_name_def)

lemma canonical_lists:
  "canonical_outputs pcm len cb_initial_output_binding = canonical_outputs pcm len (state_output_name \<circ> cb_logical_name)"
  "canonical_outputs pcm len cb_steady_output_binding = canonical_outputs pcm len (state_output_name \<circ> cb_logical_name)"
  "canonical_outputs pcm len cb_tail_output_binding = canonical_outputs pcm len (state_output_name \<circ> cb_logical_name)"
  "canonical_inputs tokens cb_steady_input_binding = canonical_inputs tokens (state_input_name \<circ> cb_logical_name)"
  "canonical_inputs tokens cb_tail_input_binding = canonical_inputs tokens (state_input_name \<circ> cb_logical_name)"
  by (simp_all add: canonical_outputs_def canonical_inputs_def state_tensor_def canonical_binding_names)

lemma state_names_fresh:
  "pys ''pcm'' \<noteq> state_output_name n" "pys ''valid_sample_length'' \<noteq> state_output_name n"
  "pys ''codec_tokens'' \<noteq> state_input_name n"
  by (simp_all add: state_output_name_def state_input_name_def pys_def)

lemma state_names_inject:
  "state_output_name m = state_output_name n \<longleftrightarrow> m = n" "state_input_name m = state_input_name n \<longleftrightarrow> m = n"
  by (simp_all add: state_output_name_def state_input_name_def)

lemma canonical_names:
  "map ts_name (canonical_outputs pcm len (state_output_name \<circ> cb_logical_name)) =
     pys ''pcm'' # pys ''valid_sample_length'' # map state_output_name (map cb_logical_name registry)"
  "map ts_name (canonical_inputs tokens (state_input_name \<circ> cb_logical_name)) =
     pys ''codec_tokens'' # map state_input_name (map cb_logical_name registry)"
  by (simp_all add: canonical_outputs_def canonical_inputs_def state_tensor_def comp_def)

lemma canonical_names_distinct:
  "distinct (map ts_name (canonical_outputs pcm len (state_output_name \<circ> cb_logical_name)))"
  "distinct (map ts_name (canonical_inputs tokens (state_input_name \<circ> cb_logical_name)))"
  unfolding canonical_names using registry_names_distinct
  by (auto simp: state_names_fresh distinct_map inj_on_def state_names_inject)

lemma canonical_logical_names:
  "logical_names (canonical_outputs pcm len (state_output_name \<circ> cb_logical_name)) = map cb_logical_name registry"
  by (simp add: logical_names_def canonical_outputs_def state_tensor_def Let_def comp_def filter_map
      state_output_name_def) (simp add: pys_def)

lemma carries_map:
  "b \<in> set registry \<Longrightarrow> name b = n \<Longrightarrow> ts_dtype t = pys (cb_dtype b) \<Longrightarrow>
   ts_shape t = (case cb_shape b of (x, y, z) \<Rightarrow> [x, y, z]) \<Longrightarrow>
   set (map (state_tensor name) registry) \<subseteq> set us \<Longrightarrow> carries us n t"
  by (rule carriesI [of "state_tensor name b"]) (auto simp: state_tensor_def)

text \<open>C20: the packager and the codec contract agree. From codec engines exported with the canonical
  registry the packager derives a codec section whose state bindings are the registry's own manifest
  records, all 97 and in the registry's order.\<close>

theorem codec_manifest_is_registry:
  "derive_codec spec (canonical_engines pcm len tokens ps) =
     Inr (codec_manifest_json spec (map manifest_record registry))"
proof -
  let ?out = "canonical_outputs pcm len (state_output_name \<circ> cb_logical_name)"
  let ?in = "canonical_inputs tokens (state_input_name \<circ> cb_logical_name)"
  let ?initial = "\<lparr>ie_inputs = [tokens\<lparr>ts_name := pys ''codec_tokens''\<rparr>], ie_outputs = ?out, ie_profiles = ps\<rparr>"
  let ?steady = "\<lparr>ie_inputs = ?in, ie_outputs = ?out, ie_profiles = ps\<rparr>"
  let ?names = "map cb_logical_name registry"
  have outs: "ts_name ` set ?out = expected_outputs ?names"
    using canonical_names(1) [of pcm len] by (simp add: expected_outputs_def flip: set_map)
  have ins: "ts_name ` set ?in = expected_inputs ?names"
    using canonical_names(2) [of tokens] by (simp add: expected_inputs_def flip: set_map)
  have states: "list_all2 (\<lambda>n j. \<exists>t. state_carried ?initial ?steady ?steady n t \<and> j = state_entry n t)
      ?names (map manifest_record registry)"
    unfolding list_all2_map1 list_all2_map2
  proof (rule list.rel_refl_strong)
    fix b assume b: "b \<in> set registry"
    from registry_made [OF b] obtain x y z where shape: "cb_shape b = (x, y, z)" by (cases "cb_shape b") auto
    let ?t = "state_tensor (state_output_name \<circ> cb_logical_name) b"
    have "carries ?in (state_input_name (cb_logical_name b)) ?t"
      by (rule carries_map [OF b, where name = "state_input_name \<circ> cb_logical_name"])
        (auto simp: state_tensor_def canonical_inputs_def)
    moreover have "carries ?out (state_output_name (cb_logical_name b)) ?t"
      by (rule carries_map [OF b, where name = "state_output_name \<circ> cb_logical_name"])
        (auto simp: state_tensor_def canonical_outputs_def)
    moreover have "?t \<in> set ?out" using b by (simp add: canonical_outputs_def)
    ultimately have "state_carried ?initial ?steady ?steady (cb_logical_name b) ?t"
      by (simp add: state_carried_def) (simp add: state_tensor_def)
    moreover have "manifest_record b = state_entry (cb_logical_name b) ?t"
      by (simp add: manifest_record_def state_entry_def state_tensor_def shape canonical_binding_names [OF b])
    ultimately show "\<exists>t. state_carried ?initial ?steady ?steady (cb_logical_name b) t \<and>
        manifest_record b = state_entry (cb_logical_name b) t" by blast
  qed
  have "codec_recurrence ?initial ?steady ?steady (map manifest_record registry)"
    using states outs ins canonical_names_distinct registry_names_distinct length_registry
    by (simp add: codec_recurrence_def Let_def canonical_logical_names names_distinct_def closed_bindings_def)
  then show ?thesis
    by (subst derive_codec_iff)
      (intro exI conjI, auto simp: canonical_engines_def canonical_lists)
qed

end
